(* ===== verification/Prelude.thy ===== *)
theory Prelude
  imports Main "HOL-Library.List_Lexorder" "HOL-Library.Char_ord" "HOL-Library.Sublist"
begin

text \<open>
  The vocabulary every theory of the development shares: Python exceptions as values of a sum
  type, the sequencing of computations that may raise, and the operations of Python's
  \<^verbatim>\<open>str\<close> that the sources use.  A Python \<^verbatim>\<open>str\<close> is kept as its UTF-8 bytes, a \<^typ>\<open>string\<close>:
  equality, concatenation, substring tests and the order by code points agree with the
  operations on bytes.
\<close>

named_theorems res_simps \<open>computation rules for results that may be exceptions\<close>
named_theorems text_simps \<open>computation rules for Python strings\<close>


section \<open>Exceptions as values\<close>

datatype py_exc =
    KeyError
  | IndexError
  | TypeError
  | AttributeError
  | ValueError string
  | UnicodeDecodeError
  | JSONDecodeError
  | OSError
  | AssertionError string

type_synonym 'a res = "py_exc + 'a"

definition rbind :: "'a res \<Rightarrow> ('a \<Rightarrow> 'b res) \<Rightarrow> 'b res" where
  "rbind m f = (case m of Inl e \<Rightarrow> Inl e | Inr x \<Rightarrow> f x)"

definition rmap :: "('a \<Rightarrow> 'b) \<Rightarrow> 'a res \<Rightarrow> 'b res" where
  "rmap f m = rbind m (\<lambda>x. Inr (f x))"

text \<open>\<open>traverse f xs\<close> is a comprehension \<^verbatim>\<open>[f(x) for x in xs]\<close>: the first exception ends it.\<close>

fun traverse :: "('a \<Rightarrow> 'b res) \<Rightarrow> 'a list \<Rightarrow> 'b list res" where
  "traverse f [] = Inr []"
| "traverse f (x # xs) = rbind (f x) (\<lambda>y. rmap (Cons y) (traverse f xs))"

text \<open>
  \<open>collect rs\<close> is a block of statements each of which appends to one list: an exception ends the
  block, and what was appended before it is lost with it.
\<close>

fun collect :: "'a list res list \<Rightarrow> 'a list res" where
  "collect [] = Inr []"
| "collect (r # rs) = rbind r (\<lambda>xs. rmap ((@) xs) (collect rs))"

text \<open>Short-circuit \<^verbatim>\<open>and\<close>, \<^verbatim>\<open>or\<close> and \<^verbatim>\<open>all(...)\<close> over operands that may raise.\<close>

definition rand :: "bool res \<Rightarrow> bool res \<Rightarrow> bool res" where
  "rand a b = rbind a (\<lambda>x. if x then b else Inr False)"

definition ror :: "bool res \<Rightarrow> bool res \<Rightarrow> bool res" where
  "ror a b = rbind a (\<lambda>x. if x then Inr True else b)"

fun rall :: "('a \<Rightarrow> bool res) \<Rightarrow> 'a list \<Rightarrow> bool res" where
  "rall p [] = Inr True"
| "rall p (x # xs) = rand (p x) (rall p xs)"

fun rany :: "('a \<Rightarrow> bool res) \<Rightarrow> 'a list \<Rightarrow> bool res" where
  "rany p [] = Inr False"
| "rany p (x # xs) = ror (p x) (rany p xs)"

lemma rbind_simps [simp, res_simps]:
  "rbind (Inl e) f = Inl e"
  "rbind (Inr x) f = f x"
  by (simp_all add: rbind_def)

lemma rmap_simps [simp, res_simps]:
  "rmap f (Inl e) = Inl e"
  "rmap f (Inr x) = Inr (f x)"
  by (simp_all add: rmap_def)

lemma rand_simps [simp, res_simps]:
  "rand (Inl e) b = Inl e"
  "rand (Inr True) b = b"
  "rand (Inr False) b = Inr False"
  by (simp_all add: rand_def)

lemma ror_simps [simp, res_simps]:
  "ror (Inl e) b = Inl e"
  "ror (Inr False) b = b"
  "ror (Inr True) b = Inr True"
  by (simp_all add: ror_def)

lemma rbind_eq_Inr: "rbind m f = Inr y \<longleftrightarrow> (\<exists>x. m = Inr x \<and> f x = Inr y)"
  by (cases m) simp_all

lemma rmap_eq_Inr: "rmap f m = Inr y \<longleftrightarrow> (\<exists>x. m = Inr x \<and> f x = y)"
  by (cases m) simp_all

lemma rand_eq_True: "rand a b = Inr True \<longleftrightarrow> a = Inr True \<and> b = Inr True"
  by (cases a) (auto simp: rand_def)

lemma rbind_assoc: "rbind (rbind m f) g = rbind m (\<lambda>x. rbind (f x) g)"
  by (cases m) simp_all

lemma rbind_cong [fundef_cong]:
  "m = m' \<Longrightarrow> (\<And>x. m' = Inr x \<Longrightarrow> f x = g x) \<Longrightarrow> rbind m f = rbind m' g"
  by (cases m') simp_all

lemma traverse_eq_Inr:
  "traverse f xs = Inr ys \<longleftrightarrow> list_all2 (\<lambda>x y. f x = Inr y) xs ys"
proof (induction xs arbitrary: ys)
  case Nil
  then show ?case by auto
next
  case (Cons x xs)
  show ?case
    by (cases ys) (auto simp: rbind_eq_Inr rmap_eq_Inr Cons.IH)
qed

lemma traverse_all_Inr: "(\<And>x. x \<in> set xs \<Longrightarrow> f x = Inr (g x)) \<Longrightarrow> traverse f xs = Inr (map g xs)"
  by (induction xs) auto

lemma collect_eq_Nil: "collect rs = Inr [] \<longleftrightarrow> (\<forall>r \<in> set rs. r = Inr [])"
  by (induction rs) (auto simp: rbind_eq_Inr rmap_eq_Inr)

lemma collect_append: "collect (rs @ ss) = rbind (collect rs) (\<lambda>xs. rmap ((@) xs) (collect ss))"
proof (induction rs)
  case Nil
  then show ?case by (cases "collect ss") simp_all
next
  case (Cons r rs)
  then show ?case by (cases r; cases "collect rs"; cases "collect ss") simp_all
qed

lemma collect_member: "collect rs = Inr xs \<Longrightarrow> Inr ys \<in> set rs \<Longrightarrow> set ys \<subseteq> set xs"
proof (induction rs arbitrary: xs)
  case (Cons r rs)
  then show ?case by (auto simp: rbind_eq_Inr rmap_eq_Inr)
qed simp

lemma collect_raises: "Inl e \<in> set rs \<Longrightarrow> \<exists>e'. collect rs = Inl e'"
proof (induction rs)
  case Nil
  then show ?case by simp
next
  case (Cons r rs)
  then show ?case by (cases r) auto
qed

lemma rall_eq_True: "rall p xs = Inr True \<longleftrightarrow> (\<forall>x \<in> set xs. p x = Inr True)"
  by (induction xs) (auto simp: rand_eq_True)


section \<open>Python strings\<close>

text \<open>\<open>contains sub s\<close> is \<^verbatim>\<open>sub in s\<close>; \<open>starts_with\<close> and \<open>ends_with\<close> are the methods.\<close>

fun starts_with :: "string \<Rightarrow> string \<Rightarrow> bool" where
  "starts_with s [] = True"
| "starts_with [] (p # ps) = False"
| "starts_with (c # cs) (p # ps) = (c = p \<and> starts_with cs ps)"

definition ends_with :: "string \<Rightarrow> string \<Rightarrow> bool" where
  "ends_with s suf = starts_with (rev s) (rev suf)"

fun contains :: "string \<Rightarrow> string \<Rightarrow> bool" where
  "contains sub [] = (sub = [])"
| "contains sub (c # cs) = (starts_with (c # cs) sub \<or> contains sub cs)"

lemma starts_with_iff: "starts_with s p \<longleftrightarrow> prefix p s"
  by (induction s p rule: starts_with.induct) auto

lemma ends_with_iff: "ends_with s suf \<longleftrightarrow> suffix suf s"
  by (simp add: ends_with_def starts_with_iff suffix_to_prefix)

lemma contains_iff: "contains sub s \<longleftrightarrow> sublist sub s"
proof (induction s)
  case Nil
  then show ?case by simp
next
  case (Cons c cs)
  then show ?case by (simp add: starts_with_iff sublist_Cons_right)
qed

text \<open>
  \<^verbatim>\<open>str.upper\<close>, as far as a search for ASCII text can see: the letters of ASCII, and the other
  characters whose upper case has a letter of ASCII.  The remaining characters are kept.
\<close>

definition upper_char :: "char \<Rightarrow> char" where
  "upper_char c = (if CHR ''a'' \<le> c \<and> c \<le> CHR ''z'' then char_of (of_char c - 32 :: nat) else c)"

definition upper_special :: "(string \<times> string) list" where
  "upper_special = [
     ([CHR 0xC3, CHR 0x9F], ''SS''),
     ([CHR 0xC4, CHR 0xB1], ''I''),
     ([CHR 0xC5, CHR 0x89], [CHR 0xCA, CHR 0xBC, CHR ''N'']),
     ([CHR 0xC5, CHR 0xBF], ''S''),
     ([CHR 0xC7, CHR 0xB0], [CHR ''J'', CHR 0xCC, CHR 0x8C]),
     ([CHR 0xE1, CHR 0xBA, CHR 0x96], [CHR ''H'', CHR 0xCC, CHR 0xB1]),
     ([CHR 0xE1, CHR 0xBA, CHR 0x97], [CHR ''T'', CHR 0xCC, CHR 0x88]),
     ([CHR 0xE1, CHR 0xBA, CHR 0x98], [CHR ''W'', CHR 0xCC, CHR 0x8A]),
     ([CHR 0xE1, CHR 0xBA, CHR 0x99], [CHR ''Y'', CHR 0xCC, CHR 0x8A]),
     ([CHR 0xE1, CHR 0xBA, CHR 0x9A], [CHR ''A'', CHR 0xCA, CHR 0xBE]),
     ([CHR 0xEF, CHR 0xAC, CHR 0x80], ''FF''),
     ([CHR 0xEF, CHR 0xAC, CHR 0x81], ''FI''),
     ([CHR 0xEF, CHR 0xAC, CHR 0x82], ''FL''),
     ([CHR 0xEF, CHR 0xAC, CHR 0x83], ''FFI''),
     ([CHR 0xEF, CHR 0xAC, CHR 0x84], ''FFL''),
     ([CHR 0xEF, CHR 0xAC, CHR 0x85], ''ST''),
     ([CHR 0xEF, CHR 0xAC, CHR 0x86], ''ST'')]"

fun upper :: "string \<Rightarrow> string" where
  "upper [] = []"
| "upper (c # cs) =
     (case find (\<lambda>(p, _). starts_with (c # cs) p) upper_special of
        None \<Rightarrow> upper_char c # upper cs
      | Some (p, u) \<Rightarrow> u @ upper (drop (length p - 1) cs))"

text \<open>Decimal numerals: \<^verbatim>\<open>str(n)\<close> of an \<^verbatim>\<open>int\<close>.\<close>

definition digit_char :: "nat \<Rightarrow> char" where
  "digit_char d = char_of (48 + d)"

fun str_of_nat :: "nat \<Rightarrow> string" where
  "str_of_nat n = (if n < 10 then [digit_char n] else str_of_nat (n div 10) @ [digit_char (n mod 10)])"

declare str_of_nat.simps [simp del]

definition str_of_int :: "int \<Rightarrow> string" where
  "str_of_int i = (if i < 0 then CHR ''-'' # str_of_nat (nat (- i)) else str_of_nat (nat i))"

text \<open>\<^verbatim>\<open>sep.join(xs)\<close>.\<close>

fun join :: "string \<Rightarrow> string list \<Rightarrow> string" where
  "join sep [] = []"
| "join sep [x] = x"
| "join sep (x # y # xs) = x @ sep @ join sep (y # xs)"

text \<open>\<^verbatim>\<open>sorted(set(xs))\<close> on strings.\<close>

definition sorted_set :: "string list \<Rightarrow> string list" where
  "sorted_set xs = sort (remdups xs)"

lemma set_sorted_set [simp]: "set (sorted_set xs) = set xs"
  by (simp add: sorted_set_def)

lemma distinct_sorted_set [simp]: "distinct (sorted_set xs)"
  by (simp add: sorted_set_def)

lemma sorted_sorted_set [simp]: "sorted (sorted_set xs)"
  by (simp add: sorted_set_def)

lemma sorted_set_eq_Nil [simp]: "sorted_set xs = [] \<longleftrightarrow> xs = []"
  by (metis set_sorted_set set_empty)

lemma sorted_set_eqI: "set xs = set ys \<Longrightarrow> sorted_set xs = sorted_set ys"
  by (simp add: sorted_set_def sorted_list_of_set_sort_remdups [symmetric])


section \<open>Numerals as text\<close>

definition is_digit :: "char \<Rightarrow> bool" where
  "is_digit c = (CHR ''0'' \<le> c \<and> c \<le> CHR ''9'')"

definition digit_val :: "char \<Rightarrow> nat" where
  "digit_val c = of_char c - 48"

definition nat_of_str :: "string \<Rightarrow> nat" where
  "nat_of_str s = foldl (\<lambda>n c. 10 * n + digit_val c) 0 s"

lemma less_10_cases:
  "d < 10 \<Longrightarrow> d = 0 \<or> d = 1 \<or> d = 2 \<or> d = 3 \<or> d = 4 \<or> d = 5 \<or> d = 6 \<or> d = 7 \<or> d = 8 \<or> d = (9::nat)"
  by arith

lemma digit_val_char [simp]: "d < 10 \<Longrightarrow> digit_val (digit_char d) = d"
  by (auto simp: digit_val_def digit_char_def dest!: less_10_cases)

lemma is_digit_char [simp]: "d < 10 \<Longrightarrow> is_digit (digit_char d)"
  by (auto simp: is_digit_def digit_char_def less_eq_char_def dest!: less_10_cases)

lemma nat_of_str_snoc [simp]: "nat_of_str (s @ [c]) = 10 * nat_of_str s + digit_val c"
  by (simp add: nat_of_str_def)

lemma nat_of_str_str_of_nat [simp]: "nat_of_str (str_of_nat n) = n"
proof (induction n rule: str_of_nat.induct)
  case (1 n)
  show ?case
  proof (cases "n < 10")
    case True
    then show ?thesis by (simp add: str_of_nat.simps [of n] nat_of_str_def)
  next
    case False
    with 1 show ?thesis by (simp add: str_of_nat.simps [of n])
  qed
qed

lemma str_of_nat_digits: "\<forall>c \<in> set (str_of_nat n). is_digit c"
proof (induction n rule: str_of_nat.induct)
  case (1 n)
  then show ?case by (cases "n < 10") (simp_all add: str_of_nat.simps [of n])
qed

lemma str_of_nat_not_Nil [simp]: "str_of_nat n \<noteq> []"
  by (simp add: str_of_nat.simps [of n])

lemma digit_char_0_iff: "d < 10 \<Longrightarrow> digit_char d = CHR ''0'' \<longleftrightarrow> d = 0"
  by (auto simp: digit_char_def char_of_def bit_0 dest!: less_10_cases)

lemma str_of_nat_hd_0: "hd (str_of_nat n) = CHR ''0'' \<longleftrightarrow> n = 0"
proof (induction n rule: str_of_nat.induct)
  case (1 n)
  show ?case
  proof (cases "n < 10")
    case True
    then show ?thesis by (simp add: str_of_nat.simps [of n] digit_char_0_iff)
  next
    case False
    with 1 show ?thesis by (simp add: str_of_nat.simps [of n])
  qed
qed

lemma str_of_nat_0 [simp]: "str_of_nat 0 = ''0''"
  by (simp add: str_of_nat.simps digit_char_def char_of_def bit_0)

end
