(* ===== verification/PyJson.thy ===== *)
theory PyJson
  imports Prelude
begin

text \<open>
  The values \<^verbatim>\<open>json.loads\<close> returns and \<^verbatim>\<open>json.dumps\<close> accepts, with the Python operations the
  sources apply to them: equality (order of keys is irrelevant, \<^verbatim>\<open>True == 1 == 1.0\<close>), truth
  value, \<^verbatim>\<open>dict.get\<close>, subscription, membership, iteration, hashing and \<^verbatim>\<open>repr\<close>.  Each raises
  what Python raises.

  A dictionary is the list of its items in iteration order.  The registry code observes its
  dictionaries only through equality, lookup and key-sorted output, so a dictionary display is
  written with \<open>dict_of\<close>, which keeps the items sorted by key.
\<close>


section \<open>Values\<close>

text \<open>
  A \<^verbatim>\<open>float\<close> is kept as the decimal its \<^verbatim>\<open>repr\<close> shows: \<open>JDec m e\<close> is \<open>m / 10 ^ e\<close>.  This covers
  the finite floats whose \<^verbatim>\<open>repr\<close> is positional, which are the ones the registry holds.
\<close>

datatype json =
    JNull
  | JBool bool
  | JInt int
  | JDec int nat
  | JStr string
  | JList "json list"
  | JObj "(string \<times> json) list"

type_synonym fields = "(string \<times> json) list"

lemma json_induct [case_names Null Bool Int Dec Str List Obj]:
  assumes "P JNull" "\<And>b. P (JBool b)" "\<And>i. P (JInt i)" "\<And>m e. P (JDec m e)" "\<And>s. P (JStr s)"
    and "\<And>xs. (\<And>x. x \<in> set xs \<Longrightarrow> P x) \<Longrightarrow> P (JList xs)"
    and "\<And>fs. (\<And>k v. (k, v) \<in> set fs \<Longrightarrow> P v) \<Longrightarrow> P (JObj fs)"
  shows "P v"
proof (induction v)
  case (JObj fs)
  then show ?case using assms(7) by (metis snds.intros prod.sel(2))
qed (use assms in auto)

section \<open>Dictionaries\<close>

text \<open>Item assignment: an existing key keeps its place, a new one goes last.\<close>

fun fput :: "string \<Rightarrow> 'v \<Rightarrow> (string \<times> 'v) list \<Rightarrow> (string \<times> 'v) list" where
  "fput k v [] = [(k, v)]"
| "fput k v ((k', v') # fs) = (if k = k' then (k, v) # fs else (k', v') # fput k v fs)"

text \<open>Item assignment in a dictionary kept sorted by key.\<close>

fun sput :: "string \<Rightarrow> 'v \<Rightarrow> (string \<times> 'v) list \<Rightarrow> (string \<times> 'v) list" where
  "sput k v [] = [(k, v)]"
| "sput k v ((k', v') # fs) =
     (if k < k' then (k, v) # (k', v') # fs
      else if k = k' then (k, v) # fs
      else (k', v') # sput k v fs)"

text \<open>\<^verbatim>\<open>d.pop(k, None)\<close>.\<close>

definition fdel :: "string \<Rightarrow> (string \<times> 'v) list \<Rightarrow> (string \<times> 'v) list" where
  "fdel k fs = filter (\<lambda>(k', _). k' \<noteq> k) fs"

definition sorted_fields :: "(string \<times> 'v) list \<Rightarrow> (string \<times> 'v) list" where
  "sorted_fields kvs = fold (\<lambda>(k, v). sput k v) kvs []"

definition placed_fields :: "(string \<times> 'v) list \<Rightarrow> (string \<times> 'v) list" where
  "placed_fields kvs = fold (\<lambda>(k, v). fput k v) kvs []"

abbreviation keys_sorted :: "(string \<times> 'v) list \<Rightarrow> bool" where
  "keys_sorted fs \<equiv> sorted_wrt (<) (map fst fs)"

abbreviation keys_distinct :: "(string \<times> 'v) list \<Rightarrow> bool" where
  "keys_distinct fs \<equiv> distinct (map fst fs)"

text \<open>
  What a dictionary promises: a lookup sees the last assignment to its key.  The lemmas about a
  display \<^verbatim>\<open>{k1: v1, ..., kn: vn}\<close> are proved once from these laws.
\<close>

locale item_store =
  fixes put :: "string \<Rightarrow> 'v \<Rightarrow> 'd \<Rightarrow> 'd"
    and look :: "'d \<Rightarrow> string \<Rightarrow> 'v option"
    and empty :: 'd
    and invar :: "'d \<Rightarrow> bool"
  assumes look_empty: "look empty k = None"
    and look_put: "invar d \<Longrightarrow> look (put k v d) = (look d)(k \<mapsto> v)"
    and invar_empty: "invar empty"
    and invar_put: "invar d \<Longrightarrow> invar (put k v d)"
begin

lemma display_from: "invar d \<Longrightarrow> invar (fold (\<lambda>(k, v). put k v) kvs d)
    \<and> look (fold (\<lambda>(k, v). put k v) kvs d) = look d ++ map_of (rev kvs)"
proof (induction kvs arbitrary: d)
  case Nil
  then show ?case by simp
next
  case (Cons kv kvs)
  obtain k v where kv: "kv = (k, v)" by fastforce
  from Cons.prems have "invar (put k v d)" by (rule invar_put)
  from Cons.IH [OF this] show ?case
    by (simp add: kv look_put Cons.prems map_add_def fun_eq_iff split: option.splits)
qed

lemma invar_display: "invar (fold (\<lambda>(k, v). put k v) kvs empty)"
  using display_from [OF invar_empty] by blast

lemma look_display: "look (fold (\<lambda>(k, v). put k v) kvs empty) = map_of (rev kvs)"
  using display_from [OF invar_empty, of kvs] by (simp add: map_add_def look_empty fun_eq_iff split: option.splits)

lemma look_display_distinct:
  "distinct (map fst kvs) \<Longrightarrow> look (fold (\<lambda>(k, v). put k v) kvs empty) = map_of kvs"
  using map_of_inject_set [of "rev kvs" kvs] by (simp add: look_display rev_map [symmetric])

end

lemma map_of_fput: "map_of (fput k v fs) = (map_of fs)(k \<mapsto> v)"
  by (induction fs) (auto simp: fun_eq_iff)

lemma fput_keys: "fst ` set (fput k v fs) = insert k (fst ` set fs)"
  by (induction k v fs rule: fput.induct) (simp_all add: insert_commute)

lemma fput_distinct: "keys_distinct fs \<Longrightarrow> keys_distinct (fput k v fs)"
proof (induction fs)
  case (Cons f fs)
  then show ?case using fput_keys [of k v fs] by (cases f) auto
qed simp

lemma sput_keys: "fst ` set (sput k v fs) = insert k (fst ` set fs)"
  by (induction k v fs rule: sput.induct) (simp_all add: insert_commute)

lemma sput_sorted: "keys_sorted fs \<Longrightarrow> keys_sorted (sput k v fs)"
proof (induction fs)
  case (Cons f fs)
  then show ?case using sput_keys [of k v fs] by (cases f) (auto dest: less_trans)
qed simp

lemma map_of_sput: "keys_sorted fs \<Longrightarrow> map_of (sput k v fs) = (map_of fs)(k \<mapsto> v)"
proof (induction fs)
  case (Cons f fs)
  then show ?case by (cases f) (auto simp: fun_eq_iff)
qed (simp add: fun_eq_iff)

interpretation placed: item_store fput map_of "[] :: (string \<times> 'v) list" keys_distinct
  by unfold_locales (simp_all add: map_of_fput fput_distinct)

interpretation ordered: item_store sput map_of "[] :: (string \<times> 'v) list" keys_sorted
  by unfold_locales (simp_all add: map_of_sput sput_sorted)

text \<open>
  A dictionary the code builds from fixed keys.  Python keeps its items in the order of insertion; here they
  are kept in the order of their keys, since the code only looks such a dictionary up, compares it and writes
  it with \<^verbatim>\<open>sort_keys=True\<close>, none of which depends on the order.
\<close>

definition dict_of :: "fields \<Rightarrow> json" where
  "dict_of kvs = JObj (sorted_fields kvs)"

lemma keys_sorted_fields [simp]: "keys_sorted (sorted_fields kvs)"
  unfolding sorted_fields_def by (rule ordered.invar_display)

lemma map_of_sorted_fields: "keys_distinct kvs \<Longrightarrow> map_of (sorted_fields kvs) = map_of kvs"
  unfolding sorted_fields_def by (rule ordered.look_display_distinct)

lemma map_of_placed_fields: "keys_distinct kvs \<Longrightarrow> map_of (placed_fields kvs) = map_of kvs"
  unfolding placed_fields_def by (rule placed.look_display_distinct)

lemma keys_placed_fields [simp]: "keys_distinct (placed_fields kvs)"
  unfolding placed_fields_def by (rule placed.invar_display)

lemma keys_sorted_distinct: "keys_sorted fs \<Longrightarrow> keys_distinct fs"
  by (metis strict_sorted_iff)

lemma set_sorted_fields: "keys_distinct kvs \<Longrightarrow> set (sorted_fields kvs) = set kvs"
proof -
  assume d: "keys_distinct kvs"
  have "keys_distinct (sorted_fields kvs)" by (simp add: keys_sorted_distinct)
  then show ?thesis using d map_of_sorted_fields [OF d] by (metis map_of_inject_set)
qed

lemma length_sorted_fields: "keys_distinct kvs \<Longrightarrow> length (sorted_fields kvs) = length kvs"
proof -
  assume d: "keys_distinct kvs"
  have "distinct kvs" "distinct (sorted_fields kvs)"
    using d keys_sorted_distinct [OF keys_sorted_fields, of kvs] by (simp_all add: distinct_map)
  then show ?thesis using distinct_card set_sorted_fields [OF d] by metis
qed

lemma sput_last: "(\<And>k'. k' \<in> set (map fst fs) \<Longrightarrow> k' < k) \<Longrightarrow> sput k v fs = fs @ [(k, v)]"
  by (induction fs) (force simp: not_less_iff_gr_or_eq)+

lemma fput_last: "k \<notin> set (map fst fs) \<Longrightarrow> fput k v fs = fs @ [(k, v)]"
  by (induction fs) auto

lemma fold_sput_sorted: "keys_sorted (acc @ kvs) \<Longrightarrow> fold (\<lambda>(k, v). sput k v) kvs acc = acc @ kvs"
proof (induction kvs arbitrary: acc)
  case (Cons kv kvs)
  obtain k v where kv: "kv = (k, v)" by fastforce
  have "sput k v acc = acc @ [(k, v)]"
    using Cons.prems by (intro sput_last) (auto simp: kv sorted_wrt_append)
  then show ?case using Cons.IH [of "acc @ [(k, v)]"] Cons.prems by (simp add: kv)
qed simp

lemma fold_fput_distinct: "keys_distinct (acc @ kvs) \<Longrightarrow> fold (\<lambda>(k, v). fput k v) kvs acc = acc @ kvs"
proof (induction kvs arbitrary: acc)
  case (Cons kv kvs)
  obtain k v where kv: "kv = (k, v)" by fastforce
  have "fput k v acc = acc @ [(k, v)]"
    using Cons.prems by (intro fput_last) (auto simp: kv)
  then show ?case using Cons.IH [of "acc @ [(k, v)]"] Cons.prems by (simp add: kv)
qed simp

lemma sorted_fields_id: "keys_sorted kvs \<Longrightarrow> sorted_fields kvs = kvs"
  using fold_sput_sorted [of "[]" kvs] by (simp add: sorted_fields_def)

lemma placed_fields_id: "keys_distinct kvs \<Longrightarrow> placed_fields kvs = kvs"
  using fold_fput_distinct [of "[]" kvs] by (simp add: placed_fields_def)

lemma map_of_fdel [simp]: "map_of (fdel k fs) = (map_of fs)(k := None)"
  by (induction fs) (auto simp: fdel_def fun_eq_iff)

lemma fdel_sorted: "keys_sorted fs \<Longrightarrow> keys_sorted (fdel k fs)"
  by (induction fs) (auto simp: fdel_def)

text \<open>Two sorted dictionaries with the same lookups are the same list.\<close>

lemma fields_from_map_of: "keys_distinct fs \<Longrightarrow> map (\<lambda>k. (k, the (map_of fs k))) (map fst fs) = fs"
proof (induction fs)
  case (Cons f fs)
  have "map (\<lambda>k. (k, the (map_of (f # fs) k))) (map fst fs) = map (\<lambda>k. (k, the (map_of fs k))) (map fst fs)"
    using Cons.prems by (cases f) (auto simp: image_iff)
  with Cons show ?case by (cases f) simp
qed simp

lemma keys_sorted_ext:
  assumes "keys_sorted fs" "keys_sorted gs" "map_of fs = map_of gs"
  shows "fs = gs"
proof -
  have df: "keys_distinct fs" and dg: "keys_distinct gs"
    using assms by (simp_all add: keys_sorted_distinct)
  have "set fs = set gs" using df dg assms(3) by (metis map_of_inject_set)
  then have "set (map fst fs) = set (map fst gs)" by simp
  then have "map fst fs = map fst gs"
    using assms(1,2) strict_sorted_equal by blast
  then show ?thesis
    using fields_from_map_of [OF df] fields_from_map_of [OF dg] assms(3) by simp
qed

lemma sorted_fields_put:
  assumes "keys_distinct (kvs @ [(k, v)])"
  shows "fdel k (sorted_fields (kvs @ [(k, v)])) = sorted_fields kvs"
proof (rule keys_sorted_ext)
  show "map_of (fdel k (sorted_fields (kvs @ [(k, v)]))) = map_of (sorted_fields kvs)"
  proof
    fix j
    have "k \<notin> set (map fst kvs)" "keys_distinct kvs" using assms by auto
    then show "map_of (fdel k (sorted_fields (kvs @ [(k, v)]))) j = map_of (sorted_fields kvs) j"
      using assms map_of_eq_None_iff [of kvs k]
      by (auto simp: map_of_sorted_fields map_add_def split: option.splits)
  qed
qed (simp_all add: fdel_sorted)

section \<open>Equality, truth and hashing\<close>

text \<open>Numbers compare by value across \<^verbatim>\<open>bool\<close>, \<^verbatim>\<open>int\<close> and \<^verbatim>\<open>float\<close>.\<close>

fun num :: "json \<Rightarrow> (int \<times> nat) option" where
  "num (JBool b) = Some (of_bool b, 0)"
| "num (JInt i) = Some (i, 0)"
| "num (JDec m e) = Some (m, e)"
| "num _ = None"

fun num_eq :: "int \<times> nat \<Rightarrow> int \<times> nat \<Rightarrow> bool" where
  "num_eq (m, e) (m', e') = (m * 10 ^ e' = m' * 10 ^ e)"

definition num_same :: "json \<Rightarrow> json \<Rightarrow> bool" where
  "num_same v w = (case (num v, num w) of (Some x, Some y) \<Rightarrow> num_eq x y | _ \<Rightarrow> False)"

fun py_eq :: "json \<Rightarrow> json \<Rightarrow> bool"
  and py_eq_list :: "json list \<Rightarrow> json list \<Rightarrow> bool"
  and py_eq_fields :: "fields \<Rightarrow> fields \<Rightarrow> bool"
where
  "py_eq JNull w = (w = JNull)"
| "py_eq (JBool b) w = num_same (JBool b) w"
| "py_eq (JInt i) w = num_same (JInt i) w"
| "py_eq (JDec m e) w = num_same (JDec m e) w"
| "py_eq (JStr s) w = (w = JStr s)"
| "py_eq (JList xs) w = (case w of JList ys \<Rightarrow> py_eq_list xs ys | _ \<Rightarrow> False)"
| "py_eq (JObj fs) w = (case w of JObj gs \<Rightarrow> length fs = length gs \<and> py_eq_fields fs gs | _ \<Rightarrow> False)"
| "py_eq_list [] ys = (ys = [])"
| "py_eq_list (x # xs) ys = (case ys of [] \<Rightarrow> False | y # ys' \<Rightarrow> py_eq x y \<and> py_eq_list xs ys')"
| "py_eq_fields [] gs = True"
| "py_eq_fields ((k, v) # fs) gs =
     (case map_of gs k of None \<Rightarrow> False | Some w \<Rightarrow> py_eq v w \<and> py_eq_fields fs gs)"

text \<open>\<^verbatim>\<open>bool(v)\<close>, \<^verbatim>\<open>isinstance\<close> and whether \<^verbatim>\<open>hash(v)\<close> is defined.\<close>

fun truthy :: "json \<Rightarrow> bool" where
  "truthy JNull = False"
| "truthy (JBool b) = b"
| "truthy (JInt i) = (i \<noteq> 0)"
| "truthy (JDec m e) = (m \<noteq> 0)"
| "truthy (JStr s) = (s \<noteq> [])"
| "truthy (JList xs) = (xs \<noteq> [])"
| "truthy (JObj fs) = (fs \<noteq> [])"

fun is_dict :: "json \<Rightarrow> bool" where
  "is_dict (JObj fs) = True"
| "is_dict _ = False"

fun is_list :: "json \<Rightarrow> bool" where
  "is_list (JList xs) = True"
| "is_list _ = False"

fun is_str :: "json \<Rightarrow> bool" where
  "is_str (JStr s) = True"
| "is_str _ = False"

fun hashable :: "json \<Rightarrow> bool" where
  "hashable (JList xs) = False"
| "hashable (JObj fs) = False"
| "hashable _ = True"

text \<open>No key twice in a dictionary, at any depth; decimals in the form \<^verbatim>\<open>repr\<close> gives.\<close>

definition dec_ok :: "int \<Rightarrow> nat \<Rightarrow> bool" where
  "dec_ok m e = (1 \<le> e \<and> (10 dvd m \<longrightarrow> e = 1))"

fun wf_json :: "json \<Rightarrow> bool"
  and wf_list :: "json list \<Rightarrow> bool"
  and wf_fields :: "fields \<Rightarrow> bool"
where
  "wf_json JNull = True"
| "wf_json (JBool b) = True"
| "wf_json (JInt i) = True"
| "wf_json (JDec m e) = dec_ok m e"
| "wf_json (JStr s) = True"
| "wf_json (JList xs) = wf_list xs"
| "wf_json (JObj fs) = (distinct (map fst fs) \<and> wf_fields fs)"
| "wf_list [] = True"
| "wf_list (x # xs) = (wf_json x \<and> wf_list xs)"
| "wf_fields [] = True"
| "wf_fields ((k, v) # fs) = (wf_json v \<and> wf_fields fs)"

lemma wf_list_iff: "wf_list xs \<longleftrightarrow> (\<forall>x \<in> set xs. wf_json x)"
  by (induction xs) auto

lemma wf_fields_iff: "wf_fields fs \<longleftrightarrow> (\<forall>(k, v) \<in> set fs. wf_json v)"
  by (induction fs) auto

lemma py_eq_list_refl: "(\<And>x. x \<in> set xs \<Longrightarrow> py_eq x x) \<Longrightarrow> py_eq_list xs xs"
  by (induction xs) auto

lemma py_eq_list_iff: "py_eq_list xs ys \<longleftrightarrow> list_all2 py_eq xs ys"
  by (induction xs arbitrary: ys) (auto split: list.splits)

lemma py_eq_fields_iff:
  "py_eq_fields fs gs \<longleftrightarrow> (\<forall>(k, v) \<in> set fs. \<exists>w. map_of gs k = Some w \<and> py_eq v w)"
  by (induction fs) (auto split: option.splits)

lemma num_same_refl [simp]: "num v \<noteq> None \<Longrightarrow> num_same v v"
  by (auto simp: num_same_def)

text \<open>\<^verbatim>\<open>v == v\<close> for every value without a repeated key.\<close>

lemma py_eq_refl: "wf_json v \<Longrightarrow> py_eq v v"
proof (induction v rule: json_induct)
  case (List xs)
  then show ?case by (auto simp: wf_list_iff intro: py_eq_list_refl)
next
  case (Obj fs)
  then show ?case by (fastforce simp: wf_fields_iff py_eq_fields_iff)
qed simp_all


section \<open>Access\<close>

text \<open>\<^verbatim>\<open>v.get(k, d)\<close>, \<^verbatim>\<open>v[k]\<close> with a string key, \<^verbatim>\<open>x in v\<close> and \<^verbatim>\<open>iter(v)\<close>.\<close>

fun py_get :: "json \<Rightarrow> string \<Rightarrow> json \<Rightarrow> json res" where
  "py_get (JObj fs) k d = Inr (case map_of fs k of None \<Rightarrow> d | Some v \<Rightarrow> v)"
| "py_get _ k d = Inl AttributeError"

fun py_index :: "json \<Rightarrow> string \<Rightarrow> json res" where
  "py_index (JObj fs) k = (case map_of fs k of None \<Rightarrow> Inl KeyError | Some v \<Rightarrow> Inr v)"
| "py_index _ k = Inl TypeError"

definition py_index2 :: "json \<Rightarrow> string \<Rightarrow> string \<Rightarrow> json res" where
  "py_index2 v k k' = rbind (py_index v k) (\<lambda>w. py_index w k')"

definition py_member :: "json \<Rightarrow> json list \<Rightarrow> bool" where
  "py_member x xs = list_ex (\<lambda>y. py_eq x y) xs"

fun py_in :: "json \<Rightarrow> json \<Rightarrow> bool res" where
  "py_in x (JList ys) = Inr (py_member x ys)"
| "py_in x (JObj fs) = (if hashable x then Inr (py_member x (map (\<lambda>(k, _). JStr k) fs)) else Inl TypeError)"
| "py_in x (JStr s) = (case x of JStr t \<Rightarrow> Inr (contains t s) | _ \<Rightarrow> Inl TypeError)"
| "py_in x _ = Inl TypeError"

fun py_iter :: "json \<Rightarrow> json list res" where
  "py_iter (JList xs) = Inr xs"
| "py_iter (JObj fs) = Inr (map (\<lambda>(k, _). JStr k) fs)"
| "py_iter (JStr s) = Inr (map (\<lambda>c. JStr [c]) s)"
| "py_iter _ = Inl TypeError"

text \<open>Membership in a set of strings: an unhashable value raises.\<close>

definition in_set :: "json \<Rightarrow> string list \<Rightarrow> bool res" where
  "in_set x ss = (if hashable x then Inr (x \<in> JStr ` set ss) else Inl TypeError)"

definition jstrs :: "string list \<Rightarrow> json" where
  "jstrs ss = JList (map JStr ss)"

definition jopt :: "string option \<Rightarrow> json" where
  "jopt x = (case x of None \<Rightarrow> JNull | Some s \<Rightarrow> JStr s)"

lemma py_get_dict_of:
  "keys_distinct kvs \<Longrightarrow> py_get (dict_of kvs) k d = Inr (case map_of kvs k of None \<Rightarrow> d | Some v \<Rightarrow> v)"
  by (simp add: dict_of_def map_of_sorted_fields)

lemma py_index_dict_of:
  "keys_distinct kvs \<Longrightarrow> py_index (dict_of kvs) k = (case map_of kvs k of None \<Rightarrow> Inl KeyError | Some v \<Rightarrow> Inr v)"
  by (simp add: dict_of_def map_of_sorted_fields)

lemma is_dict_dict_of [simp]: "is_dict (dict_of kvs)"
  by (simp add: dict_of_def)

lemma is_list_jstrs [simp]: "is_list (jstrs ss)"
  by (simp add: jstrs_def)

lemma truthy_jstrs [simp]: "truthy (jstrs ss) \<longleftrightarrow> ss \<noteq> []"
  by (simp add: jstrs_def)

lemma truthy_jopt [simp]: "truthy (jopt x) \<longleftrightarrow> (case x of None \<Rightarrow> False | Some s \<Rightarrow> s \<noteq> [])"
  by (simp add: jopt_def split: option.splits)

lemma wf_jstrs [simp]: "wf_json (jstrs ss)"
  by (auto simp: jstrs_def wf_list_iff)

lemma wf_jopt [simp]: "wf_json (jopt x)"
  by (simp add: jopt_def split: option.splits)

lemma wf_dict_of: "keys_distinct kvs \<Longrightarrow> wf_json (dict_of kvs) \<longleftrightarrow> wf_fields kvs"
  by (simp add: dict_of_def keys_sorted_distinct wf_fields_iff set_sorted_fields)

lemma py_eq_JStr [simp]: "py_eq v (JStr s) \<longleftrightarrow> v = JStr s"
  by (cases v) (auto simp: num_same_def split: option.splits)

lemma py_member_JStr [simp]: "py_member (JStr s) xs \<longleftrightarrow> JStr s \<in> set xs"
  by (induction xs) (auto simp: py_member_def)

lemma py_eq_jstrs: "py_eq v (jstrs ss) \<longleftrightarrow> v = jstrs ss"
proof -
  have "list_all2 py_eq xs (map JStr ss) \<longleftrightarrow> xs = map JStr ss" for xs
    by (induction ss arbitrary: xs) (auto simp: list_all2_Cons2)
  then show ?thesis by (cases v) (auto simp: jstrs_def num_same_def py_eq_list_iff)
qed


section \<open>repr\<close>

text \<open>\<^verbatim>\<open>repr\<close> of a \<^verbatim>\<open>str\<close>: single quotes unless the text has one and no double quote.\<close>

definition hex_digit :: "nat \<Rightarrow> char" where
  "hex_digit d = (if d < 10 then char_of (48 + d) else char_of (87 + d))"

definition repr_char :: "char \<Rightarrow> char \<Rightarrow> string" where
  "repr_char q c =
     (if c = q \<or> c = CHR 0x5C then [CHR 0x5C, c]
      else if c = CHR 0x0A then [CHR 0x5C, CHR ''n'']
      else if c = CHR 0x0D then [CHR 0x5C, CHR ''r'']
      else if c = CHR 0x09 then [CHR 0x5C, CHR ''t'']
      else if c < CHR 0x20 \<or> c = CHR 0x7F
        then [CHR 0x5C, CHR ''x'', hex_digit (of_char c div 16), hex_digit (of_char c mod 16)]
      else [c])"

definition repr_str :: "string \<Rightarrow> string" where
  "repr_str s =
     (let q = (if CHR 0x27 \<in> set s \<and> CHR 0x22 \<notin> set s then CHR 0x22 else CHR 0x27)
      in [q] @ concat (map (repr_char q) s) @ [q])"

text \<open>\<^verbatim>\<open>repr\<close> of a float kept as a decimal: digits before and after the point.\<close>

definition pad_left :: "nat \<Rightarrow> string \<Rightarrow> string" where
  "pad_left n s = replicate (n - length s) CHR ''0'' @ s"

definition str_of_dec :: "int \<Rightarrow> nat \<Rightarrow> string" where
  "str_of_dec m e =
     (let a = nat \<bar>m\<bar>
      in (if m < 0 then ''-'' else []) @ str_of_nat (a div 10 ^ e) @ ''.'' @ pad_left e (str_of_nat (a mod 10 ^ e)))"

fun py_repr :: "json \<Rightarrow> string"
  and py_repr_list :: "json list \<Rightarrow> string list"
  and py_repr_fields :: "fields \<Rightarrow> string list"
where
  "py_repr JNull = ''None''"
| "py_repr (JBool b) = (if b then ''True'' else ''False'')"
| "py_repr (JInt i) = str_of_int i"
| "py_repr (JDec m e) = str_of_dec m e"
| "py_repr (JStr s) = repr_str s"
| "py_repr (JList xs) = ''['' @ join '', '' (py_repr_list xs) @ '']''"
| "py_repr (JObj fs) = ''{'' @ join '', '' (py_repr_fields fs) @ ''}''"
| "py_repr_list [] = []"
| "py_repr_list (x # xs) = py_repr x # py_repr_list xs"
| "py_repr_fields [] = []"
| "py_repr_fields ((k, v) # fs) = (repr_str k @ '': '' @ py_repr v) # py_repr_fields fs"

text \<open>\<^verbatim>\<open>str(v)\<close>, what an f-string writes for \<^verbatim>\<open>{v}\<close>.\<close>

definition py_str :: "json \<Rightarrow> string" where
  "py_str v = (case v of JStr s \<Rightarrow> s | _ \<Rightarrow> py_repr v)"

end
