(* ===== verification/JsonText.thy ===== *)
theory JsonText
  imports PyJson
begin

text \<open>
  \<^verbatim>\<open>json.dumps\<close> and \<^verbatim>\<open>json.loads\<close> as the sources call them.  \<open>enc\<close> prints a value under a layout
  (the separators and the indentation the call asks for, \<^verbatim>\<open>ensure_ascii=False\<close>); \<open>loads\<close> is the
  standard library's recursive-descent scanner.  The main result is the round trip: reading back
  what was printed gives the value, for every layout the sources use.
\<close>


section \<open>Printing\<close>

text \<open>The separators and the indentation of a call of \<^verbatim>\<open>json.dumps\<close>.\<close>

record layout =
  item_sep :: string
  key_sep :: string
  indent :: "nat option"

definition compact :: layout where
  "compact = \<lparr>item_sep = '','', key_sep = '':'', indent = None\<rparr>"

definition spaced :: layout where
  "spaced = \<lparr>item_sep = '', '', key_sep = '': '', indent = None\<rparr>"

definition indented :: "nat \<Rightarrow> layout" where
  "indented n = \<lparr>item_sep = '','', key_sep = '': '', indent = Some n\<rparr>"

definition newline :: "layout \<Rightarrow> nat \<Rightarrow> string" where
  "newline L d = (case indent L of None \<Rightarrow> [] | Some n \<Rightarrow> CHR 0x0A # replicate (n * d) (CHR '' ''))"

definition enc_char :: "char \<Rightarrow> string" where
  "enc_char c =
     (if c = CHR 0x22 then [CHR 0x5C, CHR 0x22]
      else if c = CHR 0x5C then [CHR 0x5C, CHR 0x5C]
      else if c = CHR 0x0A then [CHR 0x5C, CHR ''n'']
      else if c = CHR 0x0D then [CHR 0x5C, CHR ''r'']
      else if c = CHR 0x09 then [CHR 0x5C, CHR ''t'']
      else if c = CHR 0x0C then [CHR 0x5C, CHR ''f'']
      else if c = CHR 0x08 then [CHR 0x5C, CHR ''b'']
      else if c < CHR 0x20 then
        [CHR 0x5C, CHR ''u'', CHR ''0'', CHR ''0'', hex_digit (of_char c div 16), hex_digit (of_char c mod 16)]
      else [c])"

definition enc_str :: "string \<Rightarrow> string" where
  "enc_str s = [CHR 0x22] @ concat (map enc_char s) @ [CHR 0x22]"

fun enc :: "layout \<Rightarrow> nat \<Rightarrow> json \<Rightarrow> string"
  and enc_items :: "layout \<Rightarrow> nat \<Rightarrow> json list \<Rightarrow> string"
  and enc_fields :: "layout \<Rightarrow> nat \<Rightarrow> fields \<Rightarrow> string"
where
  "enc L d JNull = ''null''"
| "enc L d (JBool b) = (if b then ''true'' else ''false'')"
| "enc L d (JInt i) = str_of_int i"
| "enc L d (JDec m e) = str_of_dec m e"
| "enc L d (JStr s) = enc_str s"
| "enc L d (JList xs) = (if xs = [] then ''[]''
     else ''['' @ newline L (Suc d) @ enc_items L (Suc d) xs @ newline L d @ '']'')"
| "enc L d (JObj fs) = (if fs = [] then ''{}''
     else ''{'' @ newline L (Suc d) @ enc_fields L (Suc d) fs @ newline L d @ ''}'')"
| "enc_items L d [] = []"
| "enc_items L d (x # xs) =
     enc L d x @ (if xs = [] then [] else item_sep L @ newline L d @ enc_items L d xs)"
| "enc_fields L d [] = []"
| "enc_fields L d ((k, v) # fs) =
     enc_str k @ key_sep L @ enc L d v @ (if fs = [] then [] else item_sep L @ newline L d @ enc_fields L d fs)"

text \<open>\<^verbatim>\<open>sort_keys=True\<close>: the items of every dictionary in the order of their keys.\<close>

fun sort_json :: "json \<Rightarrow> json"
  and sort_list :: "json list \<Rightarrow> json list"
  and sort_items :: "fields \<Rightarrow> fields"
where
  "sort_json (JList xs) = JList (sort_list xs)"
| "sort_json (JObj fs) = JObj (sorted_fields (sort_items fs))"
| "sort_json v = v"
| "sort_list [] = []"
| "sort_list (x # xs) = sort_json x # sort_list xs"
| "sort_items [] = []"
| "sort_items ((k, v) # fs) = (k, sort_json v) # sort_items fs"


section \<open>Reading\<close>

type_synonym 'a parser = "string \<Rightarrow> ('a \<times> string) option"

definition is_ws :: "char \<Rightarrow> bool" where
  "is_ws c = (c = CHR '' '' \<or> c = CHR 0x09 \<or> c = CHR 0x0A \<or> c = CHR 0x0D)"

definition skip_ws :: "string \<Rightarrow> string" where
  "skip_ws s = dropWhile is_ws s"

definition hex_val :: "char \<Rightarrow> nat option" where
  "hex_val c =
     (if is_digit c then Some (digit_val c)
      else if CHR ''a'' \<le> c \<and> c \<le> CHR ''f'' then Some (of_char c - 87)
      else if CHR ''A'' \<le> c \<and> c \<le> CHR ''F'' then Some (of_char c - 55)
      else None)"

fun hex4 :: "char \<Rightarrow> char \<Rightarrow> char \<Rightarrow> char \<Rightarrow> nat option" where
  "hex4 a b c d =
     (case (hex_val a, hex_val b, hex_val c, hex_val d) of
        (Some w, Some x, Some y, Some z) \<Rightarrow> Some (4096 * w + 256 * x + 16 * y + z)
      | _ \<Rightarrow> None)"

text \<open>UTF-8 of one code point.\<close>

definition utf8 :: "nat \<Rightarrow> string" where
  "utf8 n =
     (if n < 128 then [char_of n]
      else if n < 2048 then [char_of (192 + n div 64), char_of (128 + n mod 64)]
      else if n < 65536 then
        [char_of (224 + n div 4096), char_of (128 + n div 64 mod 64), char_of (128 + n mod 64)]
      else
        [char_of (240 + n div 262144), char_of (128 + n div 4096 mod 64),
         char_of (128 + n div 64 mod 64), char_of (128 + n mod 64)])"

definition unescape :: "char \<Rightarrow> char option" where
  "unescape c =
     (if c = CHR 0x22 \<or> c = CHR 0x5C \<or> c = CHR ''/'' then Some c
      else if c = CHR ''b'' then Some CHR 0x08
      else if c = CHR ''f'' then Some CHR 0x0C
      else if c = CHR ''n'' then Some CHR 0x0A
      else if c = CHR ''r'' then Some CHR 0x0D
      else if c = CHR ''t'' then Some CHR 0x09
      else None)"

definition prepend :: "string \<Rightarrow> (string \<times> string) option \<Rightarrow> (string \<times> string) option" where
  "prepend p r = map_option (\<lambda>(t, rest). (p @ t, rest)) r"

text \<open>
  The text of a string after its opening quote.  A pair of surrogate escapes is one code point;
  a lone surrogate is kept, as the scanner does.
\<close>

fun pstr :: "string parser" where
  "pstr [] = None"
| "pstr (c # cs) =
     (if c = CHR 0x22 then Some ([], cs)
      else if c = CHR 0x5C then
        (case cs of
           [] \<Rightarrow> None
         | e # cs1 \<Rightarrow>
             if e = CHR ''u'' then
               (case cs1 of
                  h1 # h2 # h3 # h4 # rest \<Rightarrow>
                    (case hex4 h1 h2 h3 h4 of
                       None \<Rightarrow> None
                     | Some n \<Rightarrow>
                         (case rest of
                            b # u # g1 # g2 # g3 # g4 # rest' \<Rightarrow>
                              (case hex4 g1 g2 g3 g4 of
                                 Some m \<Rightarrow>
                                   if 55296 \<le> n \<and> n < 56320 \<and> b = CHR 0x5C \<and> u = CHR ''u'' \<and> 56320 \<le> m \<and> m < 57344
                                   then prepend (utf8 (65536 + (n - 55296) * 1024 + (m - 56320))) (pstr rest')
                                   else prepend (utf8 n) (pstr rest)
                               | None \<Rightarrow> prepend (utf8 n) (pstr rest))
                          | _ \<Rightarrow> prepend (utf8 n) (pstr rest)))
                | _ \<Rightarrow> None)
             else (case unescape e of None \<Rightarrow> None | Some d \<Rightarrow> prepend [d] (pstr cs1)))
      else if c < CHR 0x20 then None
      else prepend [c] (pstr cs))"

text \<open>
  Numbers: \<open>-?(0|[1-9][0-9]*)\<close>, then a fraction and an exponent if they are complete.  Either of
  the two makes the number a float.
\<close>

fun dec_norm :: "int \<Rightarrow> nat \<Rightarrow> int \<times> nat" where
  "dec_norm m e =
     (if e = 0 then (m * 10, 1) else if e = 1 then (m, 1)
      else if m mod 10 = 0 then dec_norm (m div 10) (e - 1) else (m, e))"

declare dec_norm.simps [simp del]

definition scale :: "int \<Rightarrow> nat \<Rightarrow> int \<Rightarrow> json" where
  "scale m e k =
     (let (m', e') = (if k \<le> int e then dec_norm m (nat (int e - k)) else dec_norm (m * 10 ^ nat (k - int e)) 0)
      in JDec m' e')"

definition pexp :: "string \<Rightarrow> (int \<times> string) option" where
  "pexp s =
     (case s of
        [] \<Rightarrow> None
      | c # cs \<Rightarrow>
          if c \<noteq> CHR ''e'' \<and> c \<noteq> CHR ''E'' then None
          else
            (let (neg, ds) = (case cs of
                 [] \<Rightarrow> (False, [])
               | d # ds \<Rightarrow> if d = CHR ''-'' then (True, ds) else if d = CHR ''+'' then (False, ds) else (False, d # ds));
                 xs = takeWhile is_digit ds
             in if xs = [] then None
                else Some ((if neg then - int (nat_of_str xs) else int (nat_of_str xs)), dropWhile is_digit ds)))"

definition pfrac :: "string \<Rightarrow> string \<times> string" where
  "pfrac s =
     (case s of
        [] \<Rightarrow> ([], s)
      | c # cs \<Rightarrow> if c = CHR ''.'' \<and> takeWhile is_digit cs \<noteq> [] then (takeWhile is_digit cs, dropWhile is_digit cs) else ([], s))"

definition minus_sign :: "string \<Rightarrow> bool" where
  "minus_sign s = (s \<noteq> [] \<and> hd s = CHR ''-'')"

definition int_part :: "string \<Rightarrow> string" where
  "int_part ds = (if ds \<noteq> [] \<and> hd ds = CHR ''0'' then [CHR ''0''] else ds)"

definition pnum :: "json parser" where
  "pnum s =
     (let neg = minus_sign s; s0 = (if neg then tl s else s);
          ip = int_part (takeWhile is_digit s0);
          (fp, s2) = pfrac (drop (length ip) s0);
          a = int (nat_of_str (ip @ fp)); m = (if neg then - a else a)
      in if ip = [] then None
         else case pexp s2 of
                Some (k, rest) \<Rightarrow> Some (scale m (length fp) k, rest)
              | None \<Rightarrow> Some ((if fp = [] then JInt m else scale m (length fp) 0), s2))"

definition keyword :: "string \<Rightarrow> json \<Rightarrow> json parser" where
  "keyword w v s = (if starts_with s w then Some (v, drop (length w) s) else None)"

text \<open>
  The scanner.  Every second nested call consumes a character, so twice the length of the text is
  enough fuel (\<open>loads\<close>).
\<close>

fun pval :: "nat \<Rightarrow> json parser"
  and pelems :: "nat \<Rightarrow> json list parser"
  and pfields :: "nat \<Rightarrow> fields parser"
where
  "pval 0 s = None"
| "pval (Suc n) s =
     (case s of
        [] \<Rightarrow> None
      | c # cs \<Rightarrow>
          if c = CHR 0x22 then map_option (\<lambda>(t, r). (JStr t, r)) (pstr cs)
          else if c = CHR ''{'' then
            (case skip_ws cs of
               [] \<Rightarrow> None
             | d # ds \<Rightarrow> if d = CHR ''}'' then Some (JObj [], ds)
                 else map_option (\<lambda>(fs, r). (JObj (placed_fields fs), r)) (pfields n (d # ds)))
          else if c = CHR ''['' then
            (case skip_ws cs of
               [] \<Rightarrow> None
             | d # ds \<Rightarrow> if d = CHR '']'' then Some (JList [], ds)
                 else map_option (\<lambda>(xs, r). (JList xs, r)) (pelems n (d # ds)))
          else if c = CHR ''n'' then keyword ''null'' JNull s
          else if c = CHR ''t'' then keyword ''true'' (JBool True) s
          else if c = CHR ''f'' then keyword ''false'' (JBool False) s
          else pnum s)"
| "pelems 0 s = None"
| "pelems (Suc n) s =
     (case pval n s of
        None \<Rightarrow> None
      | Some (v, r) \<Rightarrow>
          (case skip_ws r of
             [] \<Rightarrow> None
           | c # cs \<Rightarrow>
               if c = CHR '']'' then Some ([v], cs)
               else if c = CHR '','' then map_option (\<lambda>(vs, r'). (v # vs, r')) (pelems n (skip_ws cs))
               else None))"
| "pfields 0 s = None"
| "pfields (Suc n) s =
     (case s of
        [] \<Rightarrow> None
      | q # qs \<Rightarrow>
          if q \<noteq> CHR 0x22 then None
          else case pstr qs of
            None \<Rightarrow> None
          | Some (k, r) \<Rightarrow>
              (case skip_ws r of
                 [] \<Rightarrow> None
               | c # cs \<Rightarrow>
                   if c \<noteq> CHR '':'' then None
                   else case pval n (skip_ws cs) of
                     None \<Rightarrow> None
                   | Some (v, r2) \<Rightarrow>
                       (case skip_ws r2 of
                          [] \<Rightarrow> None
                        | e # es \<Rightarrow>
                            if e = CHR ''}'' then Some ([(k, v)], es)
                            else if e = CHR '','' then map_option (\<lambda>(fs, r'). ((k, v) # fs, r')) (pfields n (skip_ws es))
                            else None)))"

definition loads :: "string \<Rightarrow> json res" where
  "loads s =
     (case pval (2 * length s + 2) (skip_ws s) of
        None \<Rightarrow> Inl JSONDecodeError
      | Some (v, rest) \<Rightarrow> if skip_ws rest = [] then Inr v else Inl JSONDecodeError)"

section \<open>Reading back what was printed\<close>

lemma less_16_cases: "d < 16 \<Longrightarrow> d < 10 \<or> d = 10 \<or> d = 11 \<or> d = 12 \<or> d = 13 \<or> d = 14 \<or> d = (15::nat)"
  by arith

lemma hex_val_digit [simp]: "d < 16 \<Longrightarrow> hex_val (hex_digit d) = Some d"
proof -
  assume "d < 16"
  then consider "d < 10" | "d \<in> {10, 11, 12, 13, 14, 15}" using less_16_cases by auto
  then show ?thesis
  proof cases
    case 1
    then have "hex_digit d = digit_char d" by (simp add: hex_digit_def digit_char_def)
    with 1 show ?thesis by (simp add: hex_val_def)
  next
    case 2
    then show ?thesis
      by (auto simp: hex_val_def hex_digit_def is_digit_def less_eq_char_def)
  qed
qed

lemma hex_val_0 [simp]: "hex_val (CHR ''0'') = Some 0"
  by (simp add: hex_val_def is_digit_def digit_val_def)

declare pstr.simps [simp del]

lemma pstr_escape_u:
  assumes "n < 128" "hex4 h1 h2 h3 h4 = Some n"
  shows "pstr (CHR 0x5C # CHR ''u'' # h1 # h2 # h3 # h4 # rest) = prepend [char_of n] (pstr rest)"
  using assms by (subst pstr.simps) (simp add: utf8_def split: list.splits option.splits)

lemma pstr_escape:
  "unescape e = Some d \<Longrightarrow> e \<noteq> CHR ''u'' \<Longrightarrow> pstr (CHR 0x5C # e # rest) = prepend [d] (pstr rest)"
  by (subst pstr.simps) simp

lemma pstr_plain:
  "c \<noteq> CHR 0x22 \<Longrightarrow> c \<noteq> CHR 0x5C \<Longrightarrow> \<not> c < CHR 0x20 \<Longrightarrow> pstr (c # rest) = prepend [c] (pstr rest)"
  by (subst pstr.simps) simp

lemma of_char_lt_32: "c < CHR 0x20 \<Longrightarrow> (of_char c :: nat) < 32"
  by (simp add: less_char_def)

lemma pstr_enc_char: "pstr (enc_char c @ rest) = prepend [c] (pstr rest)"
proof (cases "c \<in> {CHR 0x22, CHR 0x5C, CHR 0x0A, CHR 0x0D, CHR 0x09, CHR 0x0C, CHR 0x08}")
  case True
  then obtain e where e: "enc_char c = [CHR 0x5C, e]" "unescape e = Some c" "e \<noteq> CHR ''u''"
    by (elim insertE) (auto simp: enc_char_def unescape_def)
  then show ?thesis by (simp add: pstr_escape)
next
  case False
  show ?thesis
  proof (cases "c < CHR 0x20")
    case True
    let ?n = "of_char c :: nat"
    have n: "?n < 32" using True by (rule of_char_lt_32)
    have "enc_char c = [CHR 0x5C, CHR ''u'', CHR ''0'', CHR ''0'', hex_digit (?n div 16), hex_digit (?n mod 16)]"
      using False True by (simp add: enc_char_def)
    moreover have "hex4 (CHR ''0'') (CHR ''0'') (hex_digit (?n div 16)) (hex_digit (?n mod 16)) = Some ?n"
      using n by simp
    ultimately show ?thesis using n pstr_escape_u [of ?n] by simp
  next
    case nc: False
    then have "enc_char c = [c]" using False by (simp add: enc_char_def)
    then show ?thesis using False nc by (simp add: pstr_plain)
  qed
qed

lemma pstr_enc: "pstr (concat (map enc_char s) @ CHR 0x22 # rest) = Some (s, rest)"
  by (induction s) (simp_all add: pstr_enc_char prepend_def pstr.simps)

text \<open>A number ends where no digit, point or exponent follows.\<close>

definition stops :: "string \<Rightarrow> bool" where
  "stops s = (case s of [] \<Rightarrow> True | c # _ \<Rightarrow> \<not> is_digit c \<and> c \<noteq> CHR ''.'' \<and> c \<noteq> CHR ''e'' \<and> c \<noteq> CHR ''E'')"

lemma takeWhile_digits: "\<forall>c \<in> set ds. is_digit c \<Longrightarrow> (case rest of [] \<Rightarrow> True | c # _ \<Rightarrow> \<not> is_digit c)
    \<Longrightarrow> takeWhile is_digit (ds @ rest) = ds \<and> dropWhile is_digit (ds @ rest) = rest"
  by (induction ds) (auto split: list.splits)

lemma pexp_stops: "stops s \<Longrightarrow> pexp s = None"
  by (auto simp: pexp_def stops_def split: list.splits)

lemma pfrac_stops: "stops s \<Longrightarrow> pfrac s = ([], s)"
  by (auto simp: pfrac_def stops_def split: list.splits)

lemma not_digit_minus [simp]: "\<not> is_digit (CHR ''-'')" "\<not> is_digit (CHR ''.'')"
  by (simp_all add: is_digit_def less_eq_char_def)

lemma hd_digit: "\<forall>c \<in> set ds. is_digit c \<Longrightarrow> ds \<noteq> [] \<Longrightarrow> hd ds \<noteq> CHR ''-''"
  by (cases ds) (auto simp: is_digit_def less_eq_char_def)

lemma str_of_nat_zero_head: "hd (str_of_nat n) = CHR ''0'' \<Longrightarrow> str_of_nat n = [CHR ''0'']"
  using str_of_nat_hd_0 [of n] by simp

text \<open>Scanning an unsigned numeral: the integer part, then the fraction.\<close>

lemma pnum_digits:
  assumes tail: "case after of [] \<Rightarrow> True | c # _ \<Rightarrow> \<not> is_digit c"
    and frac: "pfrac after = (fp, rest)" and "pexp rest = None"
  shows "pnum ((if neg then ''-'' else []) @ str_of_nat n @ after) =
    (let a = int (nat_of_str (str_of_nat n @ fp)); m = (if neg then - a else a)
     in Some (if fp = [] then JInt m else scale m (length fp) 0, rest))"
proof -
  let ?ds = "str_of_nat n"
  have tw: "takeWhile is_digit (?ds @ after) = ?ds"
    using takeWhile_digits [OF str_of_nat_digits tail] by simp
  have ip: "int_part ?ds = ?ds"
    using str_of_nat_zero_head [of n] by (auto simp: int_part_def)
  have neg: "minus_sign (CHR ''-'' # t)" "\<not> minus_sign (?ds @ after)" for t
    using hd_digit [OF str_of_nat_digits str_of_nat_not_Nil, of n] by (simp_all add: minus_sign_def)
  show ?thesis
    using neg assms by (cases neg) (simp_all add: pnum_def Let_def tw ip)
qed

lemma pnum_int: "stops rest \<Longrightarrow> pnum (str_of_int i @ rest) = Some (JInt i, rest)"
proof -
  assume st: "stops rest"
  have tail: "case rest of [] \<Rightarrow> True | c # _ \<Rightarrow> \<not> is_digit c"
    using st by (auto simp: stops_def split: list.splits)
  have "str_of_int i = (if i < 0 then ''-'' else []) @ str_of_nat (nat \<bar>i\<bar>)"
    by (simp add: str_of_int_def)
  then show ?thesis
    using pnum_digits [OF tail pfrac_stops [OF st] pexp_stops [OF st], of "i < 0" "nat \<bar>i\<bar>"]
    by (simp add: Let_def)
qed

lemma nat_of_str_append: "nat_of_str (s @ t) = nat_of_str s * 10 ^ length t + nat_of_str t"
proof (induction t rule: rev_induct)
  case Nil
  then show ?case by (simp add: nat_of_str_def)
next
  case (snoc c t)
  then show ?case by (simp flip: append_assoc add: algebra_simps)
qed

lemma nat_of_str_zeros [simp]: "nat_of_str (replicate n (CHR ''0'') @ s) = nat_of_str s"
proof -
  have "nat_of_str (replicate n (CHR ''0'')) = 0"
    by (induction n) (simp_all add: nat_of_str_def digit_val_def)
  then show ?thesis by (simp add: nat_of_str_append)
qed

lemma length_str_of_nat: "1 \<le> e \<Longrightarrow> n < 10 ^ e \<Longrightarrow> length (str_of_nat n) \<le> e"
proof (induction n arbitrary: e rule: str_of_nat.induct)
  case (1 n)
  show ?case
  proof (cases "n < 10")
    case True
    then show ?thesis using "1.prems" by (simp add: str_of_nat.simps [of n])
  next
    case False
    have "1 < e" using False "1.prems" by (cases "e = 1") auto
    then obtain f where f: "e = Suc f" "1 \<le> f" by (cases e) auto
    have "n div 10 < 10 ^ f" using "1.prems" f by (simp add: less_mult_imp_div_less)
    with 1 False f show ?thesis by (simp add: str_of_nat.simps [of n])
  qed
qed

lemma length_pad_left: "length s \<le> n \<Longrightarrow> length (pad_left n s) = n"
  by (simp add: pad_left_def)

lemma dec_norm_id: "dec_ok m e \<Longrightarrow> dec_norm m e = (m, e)"
  by (auto simp: dec_norm.simps [of m e] dec_ok_def mod_eq_0_iff_dvd)

lemma pnum_dec:
  assumes st: "stops rest" and ok: "dec_ok m e"
  shows "pnum (str_of_dec m e @ rest) = Some (JDec m e, rest)"
proof -
  let ?a = "nat \<bar>m\<bar>" and ?fp = "pad_left e (str_of_nat (nat \<bar>m\<bar> mod 10 ^ e))"
  have e: "1 \<le> e" using ok by (simp add: dec_ok_def)
  have len: "length ?fp = e" using e by (intro length_pad_left length_str_of_nat) simp_all
  have dig: "\<forall>c \<in> set ?fp. is_digit c"
    using str_of_nat_digits by (auto simp: pad_left_def is_digit_def less_eq_char_def)
  have "case rest of [] \<Rightarrow> True | c # _ \<Rightarrow> \<not> is_digit c"
    using st by (auto simp: stops_def split: list.splits)
  then have frac: "pfrac (CHR ''.'' # ?fp @ rest) = (?fp, rest)"
    using takeWhile_digits [OF dig] len e by (auto simp: pfrac_def)
  have "nat_of_str (str_of_nat (?a div 10 ^ e) @ ?fp) = ?a"
    by (simp add: nat_of_str_append len) (simp add: pad_left_def div_mult_mod_eq)
  then show ?thesis
    using pnum_digits [where after = "CHR ''.'' # ?fp @ rest", OF _ frac pexp_stops [OF st], of "m < 0" "?a div 10 ^ e"]
      len e ok by (auto simp: str_of_dec_def Let_def scale_def dec_norm_id)
qed

text \<open>The layouts whose separators the scanner accepts.\<close>

definition layout_ok :: "layout \<Rightarrow> bool" where
  "layout_ok L = (\<exists>u w. item_sep L = CHR '','' # u \<and> key_sep L = CHR '':'' # w \<and> list_all is_ws u \<and> list_all is_ws w)"

lemma layouts_ok: "layout_ok compact" "layout_ok spaced" "layout_ok (indented n)"
  by (simp_all add: layout_ok_def compact_def spaced_def indented_def is_ws_def)

lemma skip_ws_append: "list_all is_ws u \<Longrightarrow> skip_ws (u @ s) = skip_ws s"
  by (induction u) (simp_all add: skip_ws_def)

lemma newline_ws: "list_all is_ws (newline L d)"
  by (auto simp: newline_def is_ws_def list_all_iff split: option.splits)

lemma skip_ws_newline [simp]: "skip_ws (newline L d @ s) = skip_ws s"
  by (rule skip_ws_append [OF newline_ws])

lemma skip_ws_Cons: "\<not> is_ws c \<Longrightarrow> skip_ws (c # s) = c # s"
  by (simp add: skip_ws_def)

lemma newline_Cons: "\<not> is_ws c \<Longrightarrow> is_ws (hd (newline L d @ c # s)) \<or> newline L d = []"
  using newline_ws [of L d] by (cases "newline L d") simp_all

text \<open>What follows a printed value inside a container ends a number.\<close>

lemma stops_ws: "list_all is_ws u \<Longrightarrow> stops (c # s) \<Longrightarrow> stops (u @ c # s)"
  by (cases u) (auto simp: stops_def is_ws_def is_digit_def less_eq_char_def)

lemma stops_closers [simp]:
  "stops []" "stops (CHR '','' # s)" "stops (CHR '']'' # s)" "stops (CHR ''}'' # s)" "stops (CHR 0x0A # s)"
  by (simp_all add: stops_def is_digit_def less_eq_char_def)

text \<open>The first character of a printed value.\<close>

lemma enc_first:
  obtains c t where "enc L d v = c # t" "\<not> is_ws c" "c \<noteq> CHR '']''" "c \<noteq> CHR ''}''"
proof -
  have digits: "\<exists>c t. str_of_nat n @ u = c # t \<and> is_digit c" for n u
    using str_of_nat_digits [of n] str_of_nat_not_Nil [of n] by (cases "str_of_nat n") auto
  have digit: "is_digit c \<Longrightarrow> \<not> is_ws c \<and> c \<noteq> CHR '']'' \<and> c \<noteq> CHR ''}''" for c
    by (auto simp: is_digit_def is_ws_def less_eq_char_def)
  have "\<exists>c t. enc L d v = c # t \<and> \<not> is_ws c \<and> c \<noteq> CHR '']'' \<and> c \<noteq> CHR ''}''"
  proof (cases v)
    case (JInt i)
    then show ?thesis
      using digits [of "nat i" "[]"] digit by (auto simp: str_of_int_def is_ws_def)
  next
    case (JDec m e)
    then show ?thesis using digits digit by (auto simp: str_of_dec_def Let_def is_ws_def) metis
  qed (auto simp: is_ws_def enc_str_def)
  then show ?thesis using that by blast
qed

lemma skip_ws_enc [simp]: "skip_ws (enc L d v @ s) = enc L d v @ s"
  by (rule enc_first [of L d v]) (simp add: skip_ws_Cons)

lemma enc_not_Nil [simp]: "enc L d v \<noteq> []"
  by (rule enc_first [of L d v]) simp

text \<open>The fuel a value needs, and that twice the length of its text is enough.\<close>

fun fuel :: "json \<Rightarrow> nat"
  and fuel_items :: "json list \<Rightarrow> nat"
  and fuel_fields :: "fields \<Rightarrow> nat"
where
  "fuel (JList xs) = Suc (fuel_items xs)"
| "fuel (JObj fs) = Suc (fuel_fields fs)"
| "fuel v = 1"
| "fuel_items [] = 0"
| "fuel_items (x # xs) = Suc (fuel x + fuel_items xs)"
| "fuel_fields [] = 0"
| "fuel_fields ((k, v) # fs) = Suc (fuel v + fuel_fields fs)"

lemma fuel_pos [simp]: "0 < fuel v"
  by (cases v) simp_all

lemma fuel_le:
  assumes "layout_ok L"
  shows "fuel v \<le> 2 * length (enc L d v)"
    and "fuel_items xs \<le> 2 * length (enc_items L d xs) + 1"
    and "fuel_fields fs \<le> 2 * length (enc_fields L d fs) + 1"
  using assms
proof (induction L d v and L d xs and L d fs rule: enc_enc_items_enc_fields.induct)
  case (3 L d i)
  then show ?case using enc_not_Nil [of L d "JInt i"] by (cases "str_of_int i") simp_all
next
  case (4 L d m e)
  then show ?case using enc_not_Nil [of L d "JDec m e"] by (cases "str_of_dec m e") simp_all
qed (auto simp: enc_str_def layout_ok_def)

lemma skip_ws_enc_items [simp]: "xs \<noteq> [] \<Longrightarrow> skip_ws (enc_items L d xs @ s) = enc_items L d xs @ s"
  by (cases xs) simp_all

lemma skip_ws_enc_fields [simp]: "fs \<noteq> [] \<Longrightarrow> skip_ws (enc_fields L d fs @ s) = enc_fields L d fs @ s"
  by (cases fs) (auto simp: enc_str_def skip_ws_Cons is_ws_def)

lemma enc_items_first:
  assumes "xs \<noteq> []"
  obtains c t where "enc_items L d xs = c # t" "\<not> is_ws c" "c \<noteq> CHR '']''" "c \<noteq> CHR ''}''"
proof -
  obtain x ys where xs: "xs = x # ys" using assms by (cases xs) auto
  show ?thesis by (rule enc_first [of L d x]) (use that xs in auto)
qed

lemma stops_item_sep: "layout_ok L \<Longrightarrow> stops (item_sep L @ s)"
  by (auto simp: layout_ok_def)

lemma stops_newline: "stops (c # s) \<Longrightarrow> stops (newline L d @ c # s)"
  by (rule stops_ws [OF newline_ws])

lemma skip_ws_item_sep:
  "layout_ok L \<Longrightarrow> \<exists>t. item_sep L @ s = CHR '','' # t \<and> skip_ws t = skip_ws s"
  by (auto simp: layout_ok_def skip_ws_append)

lemma skip_ws_key_sep:
  "layout_ok L \<Longrightarrow> \<exists>t. key_sep L @ s = CHR '':'' # t \<and> skip_ws t = skip_ws s"
  by (auto simp: layout_ok_def skip_ws_append)

lemma pval_str: "0 < n \<Longrightarrow> pval n (enc_str s @ rest) = Some (JStr s, rest)"
  by (cases n) (simp_all add: enc_str_def pstr_enc)

lemma pval_num:
  assumes "0 < n" and p: "pnum (s @ rest) = Some (v, rest)"
    and s: "s \<noteq> []" "is_digit (hd s) \<or> hd s = CHR ''-''"
  shows "pval n (s @ rest) = Some (v, rest)"
proof -
  obtain c t where c: "s = c # t" using s by (cases s) auto
  have "c \<noteq> CHR 0x22 \<and> c \<noteq> CHR ''{'' \<and> c \<noteq> CHR ''['' \<and> c \<noteq> CHR ''n'' \<and> c \<noteq> CHR ''t'' \<and> c \<noteq> CHR ''f''"
    using s by (auto simp: c is_digit_def less_eq_char_def)
  with p \<open>0 < n\<close> show ?thesis by (cases n) (simp_all add: c)
qed

lemma numeral_first:
  "is_digit (hd (str_of_int i)) \<or> hd (str_of_int i) = CHR ''-''"
  "is_digit (hd (str_of_dec m e)) \<or> hd (str_of_dec m e) = CHR ''-''"
proof -
  have "is_digit (hd (str_of_nat n @ t))" for n t
    using str_of_nat_digits [of n] str_of_nat_not_Nil [of n] by simp
  then show "is_digit (hd (str_of_int i)) \<or> hd (str_of_int i) = CHR ''-''"
    "is_digit (hd (str_of_dec m e)) \<or> hd (str_of_dec m e) = CHR ''-''"
    using str_of_nat_digits by (auto simp: str_of_int_def str_of_dec_def Let_def)
qed

text \<open>The scanner inverts the printer, whatever follows that ends a number.\<close>

lemma pval_enc:
  assumes "layout_ok L"
  shows "wf_json v \<Longrightarrow> fuel v \<le> n \<Longrightarrow> stops rest \<Longrightarrow> pval n (enc L d v @ rest) = Some (v, rest)"
    and "wf_list xs \<Longrightarrow> xs \<noteq> [] \<Longrightarrow> fuel_items xs \<le> n \<Longrightarrow>
      pelems n (enc_items L d xs @ newline L d' @ CHR '']'' # rest) = Some (xs, rest)"
    and "wf_fields fs \<Longrightarrow> fs \<noteq> [] \<Longrightarrow> fuel_fields fs \<le> n \<Longrightarrow>
      pfields n (enc_fields L d fs @ newline L d' @ CHR ''}'' # rest) = Some (fs, rest)"
  using assms
proof (induction L d v and L d xs and L d fs arbitrary: n rest and n rest d' and n rest d'
    rule: enc_enc_items_enc_fields.induct)
  case (1 L d)
  then show ?case by (cases n) (simp_all add: keyword_def)
next
  case (2 L d b)
  then show ?case by (cases n; cases b) (simp_all add: keyword_def)
next
  case (3 L d i)
  then show ?case
    using pval_num [OF _ pnum_int, of n rest i] numeral_first enc_not_Nil [of L d "JInt i"] by simp
next
  case (4 L d m e)
  then show ?case
    using pval_num [OF _ pnum_dec, of n rest m e] numeral_first enc_not_Nil [of L d "JDec m e"] by simp
next
  case (5 L d s)
  then show ?case by (simp add: pval_str)
next
  case (6 L d xs)
  show ?case
  proof (cases "xs = []")
    case True
    with 6 show ?thesis by (cases n) (simp_all add: skip_ws_Cons is_ws_def)
  next
    case False
    obtain m where n: "n = Suc m" using "6.prems" by (cases n) auto
    obtain c t where c: "enc_items L (Suc d) xs = c # t" "c \<noteq> CHR '']''" "\<not> is_ws c"
      by (rule enc_items_first [OF False])
    have "pelems m (enc_items L (Suc d) xs @ newline L d @ CHR '']'' # rest) = Some (xs, rest)"
      using 6 False n by simp
    with c False n show ?thesis by (simp add: skip_ws_Cons)
  qed
next
  case (7 L d fs)
  show ?case
  proof (cases "fs = []")
    case True
    with 7 show ?thesis by (cases n) (simp_all add: skip_ws_Cons is_ws_def)
  next
    case False
    obtain m where n: "n = Suc m" using "7.prems" by (cases n) auto
    obtain t where c: "enc_fields L (Suc d) fs = CHR 0x22 # t"
      using False by (cases fs) (auto simp: enc_str_def)
    have "pfields m (enc_fields L (Suc d) fs @ newline L d @ CHR ''}'' # rest) = Some (fs, rest)"
      using 7 False n by simp
    with c False n "7.prems" show ?thesis by (simp add: skip_ws_Cons is_ws_def placed_fields_id)
  qed
next
  case (9 L d x xs)
  obtain m where n: "n = Suc m" using "9.prems" by (cases n) auto
  show ?case
  proof (cases "xs = []")
    case True
    have "pval m (enc L d x @ newline L d' @ CHR '']'' # rest) = Some (x, newline L d' @ CHR '']'' # rest)"
      using 9 n by (simp add: stops_newline)
    with True n show ?thesis by (simp add: skip_ws_Cons is_ws_def)
  next
    case False
    let ?s = "newline L d @ enc_items L d xs @ newline L d' @ CHR '']'' # rest"
    obtain t where t: "item_sep L @ ?s = CHR '','' # t" "skip_ws t = skip_ws ?s"
      using skip_ws_item_sep 9 by blast
    have "pval m (enc L d x @ item_sep L @ ?s) = Some (x, CHR '','' # t)"
      using 9 n t by (simp add: stops_item_sep)
    moreover have "pelems m (skip_ws t) = Some (xs, rest)"
      using 9 n t False by simp
    ultimately show ?thesis using n False t by (simp add: skip_ws_Cons is_ws_def)
  qed
next
  case (11 L d k v fs)
  obtain m where n: "n = Suc m" using "11.prems" by (cases n) auto
  let ?tail = "(if fs = [] then [] else item_sep L @ newline L d @ enc_fields L d fs) @ newline L d' @ CHR ''}'' # rest"
  obtain u where u: "key_sep L @ enc L d v @ ?tail = CHR '':'' # u" "skip_ws u = enc L d v @ ?tail"
    using skip_ws_key_sep [of L "enc L d v @ ?tail"] 11 by auto
  have "stops ?tail" using 11 by (auto simp: stops_item_sep stops_newline)
  then have v: "pval m (enc L d v @ ?tail) = Some (v, ?tail)" using 11 n by simp
  have k: "pfields n (enc_fields L d ((k, v) # fs) @ newline L d' @ CHR ''}'' # rest) =
      (case skip_ws ?tail of [] \<Rightarrow> None
        | e # es \<Rightarrow> if e = CHR ''}'' then Some ([(k, v)], es)
            else if e = CHR '','' then map_option (\<lambda>(fs, r'). ((k, v) # fs, r')) (pfields m (skip_ws es)) else None)"
    using u v n by (simp add: enc_str_def pstr_enc skip_ws_Cons is_ws_def split del: if_split)
  show ?case
  proof (cases "fs = []")
    case True
    then show ?thesis using k by (simp add: skip_ws_Cons is_ws_def)
  next
    case False
    let ?s = "newline L d @ enc_fields L d fs @ newline L d' @ CHR ''}'' # rest"
    obtain t where t: "item_sep L @ ?s = CHR '','' # t" "skip_ws t = skip_ws ?s"
      using skip_ws_item_sep 11 by blast
    have "pfields m (skip_ws t) = Some (fs, rest)" using 11 n t False by simp
    then show ?thesis using k t False by (simp add: skip_ws_Cons is_ws_def)
  qed
qed simp_all

text \<open>\<^verbatim>\<open>json.loads(json.dumps(v)) == v\<close>, surrounded by white space or not.\<close>

theorem loads_enc:
  assumes "layout_ok L" "wf_json v" "list_all is_ws u" "list_all is_ws w"
  shows "loads (u @ enc L d v @ w) = Inr v"
proof -
  have "stops w" using assms(4)
    by (cases w) (auto simp: stops_def is_ws_def is_digit_def less_eq_char_def)
  moreover have "fuel v \<le> 2 * length (u @ enc L d v @ w) + 2"
    using fuel_le(1) [OF assms(1), of v d] by simp
  ultimately have "pval (2 * length (u @ enc L d v @ w) + 2) (enc L d v @ w) = Some (v, w)"
    using assms by (intro pval_enc(1)) auto
  moreover have "skip_ws w = []"
    using assms(4) skip_ws_append [of w "[]"] by (simp add: skip_ws_def)
  ultimately show ?thesis
    by (simp only: loads_def skip_ws_append [OF assms(3)] skip_ws_enc option.case prod.case simp_thms if_True)
qed

section \<open>Codecs and content addresses\<close>

text \<open>
  What the registry relies on when it identifies a value by a digest of its text: the text can be
  read back.  Then equal texts are equal values, and equal digests are equal values or the two
  texts are a collision of the digest function.
\<close>

locale codec =
  fixes print :: "'v \<Rightarrow> string"
    and parse :: "string \<Rightarrow> 'v res"
    and good :: "'v \<Rightarrow> bool"
  assumes parse_print: "good v \<Longrightarrow> parse (print v) = Inr v"
begin

lemma print_inject: "good u \<Longrightarrow> good v \<Longrightarrow> print u = print v \<Longrightarrow> u = v"
  using parse_print by (metis Inr_inject)

lemma digest_binds:
  assumes "good u" "good v" "digest (print u) = digest (print v)"
  shows "u = v \<or> print u \<noteq> print v \<and> digest (print u) = digest (print v)"
  using assms print_inject by metis

end

interpretation canon: codec "enc compact 0" loads wf_json
  by unfold_locales (use loads_enc [OF layouts_ok(1), of _ "[]" "[]"] in simp)

interpretation pretty: codec "\<lambda>v. enc (indented 2) 0 v @ [CHR 0x0A]" loads wf_json
  by unfold_locales (use loads_enc [OF layouts_ok(3), of _ "[]" "[CHR 0x0A]"] in \<open>simp add: is_ws_def\<close>)

interpretation line: codec "\<lambda>v. enc spaced 0 v @ [CHR 0x0A]" loads wf_json
  by unfold_locales (use loads_enc [OF layouts_ok(2), of _ "[]" "[CHR 0x0A]"] in \<open>simp add: is_ws_def\<close>)


section \<open>Sorting keys\<close>

lemma sort_list_map [simp]: "sort_list xs = map sort_json xs"
  by (induction xs) simp_all

lemma sort_items_map [simp]: "sort_items fs = map (\<lambda>(k, v). (k, sort_json v)) fs"
  by (induction fs) auto

lemma map_fst_sort_items [simp]: "map fst (map (\<lambda>(k, v). (k, sort_json v)) fs) = map fst fs"
  by auto

lemma wf_sort_json: "wf_json v \<Longrightarrow> wf_json (sort_json v)"
proof (induction v rule: json_induct)
  case (Obj fs)
  let ?gs = "map (\<lambda>(k, v). (k, sort_json v)) fs"
  have d: "keys_distinct ?gs" using Obj.prems by (simp only: map_fst_sort_items wf_json.simps)
  have "wf_fields ?gs" using Obj by (auto simp: wf_fields_iff)
  then have "wf_json (dict_of ?gs)" using d by (simp only: wf_dict_of)
  then show ?case by (simp add: dict_of_def del: map_map)
qed (auto simp: wf_list_iff)

lemma sort_json_dict_of:
  assumes "keys_distinct kvs" "\<And>k v. (k, v) \<in> set kvs \<Longrightarrow> sort_json v = v"
  shows "sort_json (dict_of kvs) = dict_of kvs"
proof -
  have "map (\<lambda>(k, v). (k, sort_json v)) (sorted_fields kvs) = sorted_fields kvs"
    using assms by (auto simp: set_sorted_fields intro: map_idI)
  then show ?thesis by (simp add: dict_of_def sorted_fields_id)
qed

lemma sort_json_JList: "(\<And>x. x \<in> set xs \<Longrightarrow> sort_json x = x) \<Longrightarrow> sort_json (JList xs) = JList xs"
  by (simp add: map_idI)

lemma sort_json_jstrs [simp]: "sort_json (jstrs ss) = jstrs ss"
  by (auto simp: jstrs_def)

lemma sort_json_jopt [simp]: "sort_json (jopt x) = jopt x"
  by (simp add: jopt_def split: option.splits)

text \<open>Sorting the keys of a dictionary does not change it for Python.\<close>

lemma py_eq_sort_json: "wf_json v \<Longrightarrow> py_eq (sort_json v) v"
proof (induction v rule: json_induct)
  case (List xs)
  then show ?case by (auto simp: wf_list_iff py_eq_list_iff list_all2_map1 intro: list.rel_refl_strong)
next
  case (Obj fs)
  let ?gs = "map (\<lambda>(k, v). (k, sort_json v)) fs"
  have d: "keys_distinct ?gs" using Obj.prems by (simp only: map_fst_sort_items wf_json.simps)
  have "py_eq_fields (sorted_fields ?gs) fs"
    using Obj by (fastforce simp: py_eq_fields_iff set_sorted_fields [OF d] wf_fields_iff)
  moreover have "length (sorted_fields ?gs) = length fs"
    using length_sorted_fields [OF d] by simp
  ultimately show ?case by simp
qed simp_all

end
