(* ===== verification/PyText.thy ===== *)
theory PyText
  imports JsonText
begin

text \<open>
  The operations on byte strings and text that the tools around the registry use: splitting, white
  space, decoding UTF-8 with replacement, and the text of a JSON value with every character outside
  ASCII escaped.  A byte string is a list of characters; a Python string is the list of the bytes of
  its UTF-8 encoding.
\<close>


section \<open>Splitting\<close>

text \<open>\<^verbatim>\<open>s.split(c)\<close> for one character.\<close>

fun split_on :: "char \<Rightarrow> string \<Rightarrow> string list" where
  "split_on c [] = [[]]"
| "split_on c (x # xs) =
     (if x = c then [] # split_on c xs
      else case split_on c xs of [] \<Rightarrow> [[x]] | p # ps \<Rightarrow> (x # p) # ps)"

abbreviation NL :: char where
  "NL \<equiv> CHR 0x0A"

lemma split_on_not_Nil [simp]: "split_on c xs \<noteq> []"
  by (induction xs) (auto split: list.splits)

lemma split_on_Cons: "split_on c xs = hd (split_on c xs) # tl (split_on c xs)"
  by simp

lemma split_on_step [simp]: "x \<noteq> c \<Longrightarrow> split_on c (x # xs) = (x # hd (split_on c xs)) # tl (split_on c xs)"
  by (simp split: list.splits)

declare split_on.simps(2) [simp del]

lemma split_on_sep [simp]: "split_on c (c # xs) = [] # split_on c xs"
  by (simp add: split_on.simps(2))

text \<open>Two texts joined by a separator split into the parts of both.\<close>

lemma split_on_append: "split_on c (xs @ c # ys) = split_on c xs @ split_on c ys"
proof (induction xs)
  case (Cons x xs)
  then show ?case by (cases "x = c"; cases "split_on c xs") simp_all
qed simp

lemma split_on_single: "c \<notin> set xs \<Longrightarrow> split_on c xs = [xs]"
  by (induction xs) auto

lemma split_on_no_sep: "p \<in> set (split_on c xs) \<Longrightarrow> c \<notin> set p"
proof (induction xs arbitrary: p)
  case (Cons x xs)
  have m: "hd (split_on c xs) \<in> set (split_on c xs)" "set (tl (split_on c xs)) \<subseteq> set (split_on c xs)"
    by (simp_all add: list.set_sel(2) subsetI)
  show ?case
  proof (cases "x = c")
    case False
    then show ?thesis using Cons m by auto
  qed (use Cons in auto)
qed simp

lemma length_split_on: "length (split_on c xs) = Suc (count_list xs c)"
proof (induction xs)
  case (Cons x xs)
  have "length (tl (split_on c xs)) = count_list xs c" using Cons by simp
  then show ?case using Cons by (cases "x = c") simp_all
qed simp


text \<open>\<^verbatim>\<open>s.split(c, 1)\<close> when the character occurs: the part before its first occurrence and the part after it.\<close>

definition split_first :: "char \<Rightarrow> string \<Rightarrow> (string \<times> string) option" where
  "split_first c s = (if c \<in> set s then Some (takeWhile (\<lambda>x. x \<noteq> c) s, tl (dropWhile (\<lambda>x. x \<noteq> c) s)) else None)"


section \<open>White space\<close>

definition is_space :: "char \<Rightarrow> bool" where
  "is_space c \<longleftrightarrow> c \<in> {CHR '' '', CHR 0x09, CHR 0x0A, CHR 0x0B, CHR 0x0C, CHR 0x0D}"

text \<open>\<^verbatim>\<open>bool(b.strip())\<close> for a byte string.\<close>

definition nonblank :: "string \<Rightarrow> bool" where
  "nonblank s \<longleftrightarrow> list_ex (\<lambda>c. \<not> is_space c) s"

lemma nonblank_Nil [simp]: "\<not> nonblank []"
  by (simp add: nonblank_def)


section \<open>UTF-8\<close>

text \<open>The bytes that may follow a leading byte: how many, and the range of the first of them.\<close>

definition utf8_lead :: "nat \<Rightarrow> (nat \<times> nat \<times> nat) option" where
  "utf8_lead b =
     (if 0xC2 \<le> b \<and> b \<le> 0xDF then Some (1, 0x80, 0xBF)
      else if b = 0xE0 then Some (2, 0xA0, 0xBF)
      else if b = 0xED then Some (2, 0x80, 0x9F)
      else if 0xE1 \<le> b \<and> b \<le> 0xEF then Some (2, 0x80, 0xBF)
      else if b = 0xF0 then Some (3, 0x90, 0xBF)
      else if 0xF1 \<le> b \<and> b \<le> 0xF3 then Some (3, 0x80, 0xBF)
      else if b = 0xF4 then Some (3, 0x80, 0x8F)
      else None)"

fun utf8_follow :: "nat \<Rightarrow> nat \<Rightarrow> nat \<Rightarrow> string \<Rightarrow> nat" where
  "utf8_follow 0 lo hi cs = 0"
| "utf8_follow (Suc k) lo hi [] = 0"
| "utf8_follow (Suc k) lo hi (c # cs) =
     (if lo \<le> of_char c \<and> of_char c \<le> hi then Suc (utf8_follow k 0x80 0xBF cs) else 0)"

definition REPLACEMENT :: string where
  "REPLACEMENT = [CHR 0xEF, CHR 0xBF, CHR 0xBD]"

text \<open>\<^verbatim>\<open>b.decode("utf-8", "replace")\<close>: the longest broken prefix of a sequence becomes one U+FFFD.\<close>

function decode_replace :: "string \<Rightarrow> string" where
  "decode_replace [] = []"
| "decode_replace (c # cs) =
     (if of_char c < (0x80 :: nat) then c # decode_replace cs
      else case utf8_lead (of_char c) of
        None \<Rightarrow> REPLACEMENT @ decode_replace cs
      | Some (k, lo, hi) \<Rightarrow>
          (let j = utf8_follow k lo hi cs
           in (if j = k then c # take k cs else REPLACEMENT) @ decode_replace (drop j cs)))"
  by pat_completeness auto

termination decode_replace
  by (relation "measure length") auto

definition is_ascii :: "string \<Rightarrow> bool" where
  "is_ascii s \<longleftrightarrow> list_all (\<lambda>c. of_char c < (0x80 :: nat)) s"

lemma decode_replace_ascii: "is_ascii s \<Longrightarrow> decode_replace s = s"
  by (induction s) (simp_all add: is_ascii_def)

text \<open>Decoding never makes an ASCII character that was not there.\<close>

lemma REPLACEMENT_high: "c \<in> set REPLACEMENT \<Longrightarrow> \<not> of_char c < (0x80 :: nat)"
  by (auto simp: REPLACEMENT_def)

lemma decode_replace_chars: "of_char x < (0x80 :: nat) \<Longrightarrow> x \<in> set (decode_replace s) \<Longrightarrow> x \<in> set s"
proof (induction s rule: decode_replace.induct)
  case (2 c cs)
  show ?case
  proof (cases "of_char c < (0x80 :: nat)")
    case True
    then show ?thesis using 2 by auto
  next
    case high: False
    show ?thesis
    proof (cases "utf8_lead (of_char c)")
      case None
      then show ?thesis using 2 high REPLACEMENT_high by auto
    next
      case (Some klh)
      obtain k lo hi where k: "klh = (k, lo, hi)" by (cases klh)
      show ?thesis
        using 2(3) [OF high Some k [symmetric] refl refl] 2(4,5) high Some REPLACEMENT_high
        by (auto simp: k Let_def split: if_splits dest: in_set_takeD in_set_dropD)
    qed
  qed
qed simp

lemma decode_replace_no_newline: "NL \<notin> set s \<Longrightarrow> NL \<notin> set (decode_replace s)"
  using decode_replace_chars [of NL s] by auto

section \<open>Lines and words of a Python string\<close>

text \<open>The length of the line break at the head of a text, 0 if there is none (\<^verbatim>\<open>str.splitlines\<close>).\<close>

definition break_len :: "string \<Rightarrow> nat" where
  "break_len s =
     (if starts_with s [CHR 0x0D, CHR 0x0A] then 2
      else if s \<noteq> [] \<and> hd s \<in> {CHR 0x0A, CHR 0x0B, CHR 0x0C, CHR 0x0D, CHR 0x1C, CHR 0x1D, CHR 0x1E} then 1
      else if starts_with s [CHR 0xC2, CHR 0x85] then 2
      else if starts_with s [CHR 0xE2, CHR 0x80, CHR 0xA8] \<or> starts_with s [CHR 0xE2, CHR 0x80, CHR 0xA9] then 3
      else 0)"

text \<open>The length of the white space character at the head of a text (\<^verbatim>\<open>str.split()\<close>).\<close>

definition space_len :: "string \<Rightarrow> nat" where
  "space_len s =
     (if s \<noteq> [] \<and> (is_space (hd s) \<or> hd s \<in> {CHR 0x1C, CHR 0x1D, CHR 0x1E, CHR 0x1F}) then 1
      else if starts_with s [CHR 0xC2, CHR 0x85] \<or> starts_with s [CHR 0xC2, CHR 0xA0] then 2
      else if starts_with s [CHR 0xE1, CHR 0x9A, CHR 0x80] \<or> starts_with s [CHR 0xE3, CHR 0x80, CHR 0x80]
        \<or> starts_with s [CHR 0xE2, CHR 0x81, CHR 0x9F] then 3
      else if starts_with s [CHR 0xE2, CHR 0x80] \<and> length s > 2
        \<and> (s ! 2 \<le> CHR 0x8A \<and> s ! 2 \<ge> CHR 0x80 \<or> s ! 2 \<in> {CHR 0xA8, CHR 0xA9, CHR 0xAF}) then 3
      else 0)"

function lines_from :: "string \<Rightarrow> string \<Rightarrow> string list" where
  "lines_from acc [] = (if acc = [] then [] else [rev acc])"
| "lines_from acc (c # cs) =
     (let k = break_len (c # cs)
      in if k > 0 then rev acc # lines_from [] (drop (k - 1) cs) else lines_from (c # acc) cs)"
  by pat_completeness auto

termination lines_from
  by (relation "measure (\<lambda>(acc, s). length s)") auto

definition splitlines :: "string \<Rightarrow> string list" where
  "splitlines = lines_from []"

function words_from :: "string \<Rightarrow> string \<Rightarrow> string list" where
  "words_from acc [] = (if acc = [] then [] else [rev acc])"
| "words_from acc (c # cs) =
     (let k = space_len (c # cs)
      in if k > 0 then (if acc = [] then [] else [rev acc]) @ words_from [] (drop (k - 1) cs)
         else words_from (c # acc) cs)"
  by pat_completeness auto

termination words_from
  by (relation "measure (\<lambda>(acc, s). length s)") auto

definition split_words :: "string \<Rightarrow> string list" where
  "split_words = words_from []"

text \<open>\<^verbatim>\<open>"%-<n>s" % s\<close>: the width counts characters, that is, bytes that do not continue one.\<close>

definition char_count :: "string \<Rightarrow> nat" where
  "char_count s = length (filter (\<lambda>c. \<not> (0x80 \<le> (of_char c :: nat) \<and> of_char c < (0xC0 :: nat))) s)"

definition pad_right :: "nat \<Rightarrow> string \<Rightarrow> string" where
  "pad_right n s = s @ replicate (n - char_count s) (CHR '' '')"


section \<open>Paths\<close>

text \<open>\<^verbatim>\<open>os.path.join\<close> of two parts, \<^verbatim>\<open>os.path.normpath\<close> of an absolute path, \<^verbatim>\<open>os.path.relpath\<close>.\<close>

definition path_join :: "string \<Rightarrow> string \<Rightarrow> string" where
  "path_join a b =
     (if starts_with b ''/'' then b
      else if a = [] \<or> ends_with a ''/'' then a @ b
      else a @ ''/'' @ b)"

fun norm_parts :: "string list \<Rightarrow> string list \<Rightarrow> string list" where
  "norm_parts acc [] = acc"
| "norm_parts acc (p # ps) =
     (if p = [] \<or> p = ''.'' then norm_parts acc ps
      else if p = ''..'' then norm_parts (butlast acc) ps
      else norm_parts (acc @ [p]) ps)"

definition abs_parts :: "string \<Rightarrow> string list" where
  "abs_parts path = norm_parts [] (split_on (CHR ''/'') path)"

fun strip_common :: "string list \<Rightarrow> string list \<Rightarrow> string list \<times> string list" where
  "strip_common (x # xs) (y # ys) = (if x = y then strip_common xs ys else (x # xs, y # ys))"
| "strip_common xs ys = (xs, ys)"

definition rel_path :: "string \<Rightarrow> string \<Rightarrow> string" where
  "rel_path path start =
     (case strip_common (abs_parts start) (abs_parts path) of (up, down) \<Rightarrow>
      let parts = replicate (length up) ''..'' @ down
      in if parts = [] then ''.'' else join ''/'' parts)"


section \<open>JSON text in ASCII\<close>

text \<open>
  \<^verbatim>\<open>json.dumps\<close> escapes every character outside printable ASCII unless it is told not to.  In the text
  of a value such characters only occur inside strings.
\<close>

definition hex_u :: "nat \<Rightarrow> string" where
  "hex_u n = [CHR 0x5C, CHR ''u'', hex_digit (n div 4096 mod 16), hex_digit (n div 256 mod 16),
     hex_digit (n div 16 mod 16), hex_digit (n mod 16)]"

definition code_escape :: "nat \<Rightarrow> string" where
  "code_escape n =
     (if n < 0x10000 then hex_u n
      else hex_u (0xD800 + (n - 0x10000) div 0x400) @ hex_u (0xDC00 + (n - 0x10000) mod 0x400))"

definition lead_bits :: "nat \<Rightarrow> nat \<Rightarrow> nat" where
  "lead_bits k b = (if k = 1 then b - 0xC0 else if k = 2 then b - 0xE0 else b - 0xF0)"

function ascii_text :: "string \<Rightarrow> string" where
  "ascii_text [] = []"
| "ascii_text (c # cs) =
     (if of_char c < (0x7F :: nat) then c # ascii_text cs
      else if c = CHR 0x7F then hex_u 0x7F @ ascii_text cs
      else case utf8_lead (of_char c) of
        None \<Rightarrow> c # ascii_text cs
      | Some (k, lo, hi) \<Rightarrow>
          code_escape (fold (\<lambda>x n. 64 * n + (of_char x - 0x80)) (take k cs) (lead_bits k (of_char c)))
          @ ascii_text (drop k cs))"
  by pat_completeness auto

termination ascii_text
  by (relation "measure length") auto

definition plain_ascii :: "string \<Rightarrow> bool" where
  "plain_ascii s \<longleftrightarrow> list_all (\<lambda>c. of_char c < (0x7F :: nat)) s"

lemma ascii_text_plain: "plain_ascii s \<Longrightarrow> ascii_text s = s"
  by (induction s) (simp_all add: plain_ascii_def)

definition dumps :: "layout \<Rightarrow> json \<Rightarrow> string" where
  "dumps L v = ascii_text (enc L 0 v)"

end
