(* ===== verification/PdfText.thy ===== *)
theory PdfText
  imports Complex_Main PyText
begin

text \<open>
  Text of the report renderer (\<^verbatim>\<open>tools/render_experiment_registry_pdf.py\<close>): literals with Chinese
  characters, the characters of a text, and the width-aware wrapping \<^verbatim>\<open>_split_lines\<close>.

  A text is its UTF-8 bytes.  A literal writes a character outside ASCII as \<^verbatim>\<open>^\<close> and its four hexadecimal
  digits; \<open>uni\<close> gives the text it stands for.  The width of a text in a font is the library's, so it
  is a parameter, a function without any assumption.
\<close>


section \<open>Literals\<close>

fun uni :: "string \<Rightarrow> string" where
  "uni (h # a # b # c # d # s) =
     (if h = CHR ''^'' then (case hex4 a b c d of Some n \<Rightarrow> utf8 n | None \<Rightarrow> []) @ uni s
      else h # uni (a # b # c # d # s))"
| "uni s = s"


section \<open>Characters\<close>

text \<open>A byte that continues a character, and the characters of a text, each with its bytes.\<close>

definition is_cont :: "char \<Rightarrow> bool" where
  "is_cont c \<longleftrightarrow> 0x80 \<le> (of_char c :: nat) \<and> of_char c < (0xC0 :: nat)"

function chars :: "string \<Rightarrow> string list" where
  "chars [] = []"
| "chars (c # cs) = (c # takeWhile is_cont cs) # chars (dropWhile is_cont cs)"
  by pat_completeness auto

termination chars
  by (relation "measure length") (auto simp: le_imp_less_Suc length_dropWhile_le)

lemma concat_chars [simp]: "concat (chars s) = s"
  by (induction s rule: chars.induct) simp_all

lemma chars_nonempty: "c \<in> set (chars s) \<Longrightarrow> c \<noteq> []"
  by (induction s rule: chars.induct) auto

text \<open>White space, and \<^verbatim>\<open>rstrip\<close> and \<^verbatim>\<open>lstrip\<close> on the characters of a text.\<close>

definition is_blank :: "string \<Rightarrow> bool" where
  "is_blank c \<longleftrightarrow> 0 < space_len c"

definition rstrip :: "string list \<Rightarrow> string list" where
  "rstrip cs = rev (dropWhile is_blank (rev cs))"

definition lstrip :: "string list \<Rightarrow> string list" where
  "lstrip cs = dropWhile is_blank cs"

text \<open>What is left of a text when its white space is dropped.\<close>

definition visible :: "string list \<Rightarrow> string list" where
  "visible cs = filter (\<lambda>c. \<not> is_blank c) cs"

lemma visible_simps [simp]:
  "visible [] = []" "visible (xs @ ys) = visible xs @ visible ys"
  by (simp_all add: visible_def)

lemma visible_lstrip [simp]: "visible (lstrip cs) = visible cs"
  by (induction cs) (simp_all add: visible_def lstrip_def)

lemma visible_rev: "visible (rev cs) = rev (visible cs)"
  by (simp add: visible_def rev_filter)

lemma visible_rstrip [simp]: "visible (rstrip cs) = visible cs"
  using visible_lstrip [of "rev cs"] by (simp add: rstrip_def visible_rev lstrip_def)

text \<open>Stripping on the right leaves a beginning of the text.\<close>

lemma rstrip_prefix: "\<exists>zs. list_all is_blank zs \<and> cs = rstrip cs @ zs"
proof -
  have "rev cs = takeWhile is_blank (rev cs) @ dropWhile is_blank (rev cs)" by simp
  then have "cs = rstrip cs @ rev (takeWhile is_blank (rev cs))" unfolding rstrip_def by (metis rev_append rev_rev_ident)
  moreover have "list_all is_blank (rev (takeWhile is_blank (rev cs)))" by (auto simp: list_all_iff dest: set_takeWhileD)
  ultimately show ?thesis by blast
qed


section \<open>Wrapping\<close>

text \<open>
  The inner loop of \<^verbatim>\<open>_split_lines\<close> on the characters of one paragraph: \<open>wide t\<close> says that the text \<open>t\<close>
  is wider than the line.
\<close>

fun wrap :: "(string \<Rightarrow> bool) \<Rightarrow> string list \<Rightarrow> string list \<Rightarrow> string list list" where
  "wrap wide current [] = [rstrip current]"
| "wrap wide current (c # cs) =
     (if current \<noteq> [] \<and> wide (concat (current @ [c])) then rstrip current # wrap wide (lstrip [c]) cs
      else wrap wide (current @ [c]) cs)"

type_synonym widths = "string \<Rightarrow> string \<Rightarrow> rat \<Rightarrow> rat"

definition split_text :: "widths \<Rightarrow> string \<Rightarrow> rat \<Rightarrow> string \<Rightarrow> rat \<Rightarrow> string list" where
  "split_text string_width text max_width font size' =
     concat (map (\<lambda>paragraph. map concat (wrap (\<lambda>t. max_width < string_width t font size') [] (chars paragraph)))
       (if splitlines text = [] then [''''] else splitlines text))"

text \<open>\<^verbatim>\<open>_split_lines\<close> on any value: nothing for \<^verbatim>\<open>None\<close>, otherwise \<^verbatim>\<open>str\<close> of it.\<close>

definition split_lines :: "widths \<Rightarrow> json \<Rightarrow> rat \<Rightarrow> string \<Rightarrow> rat \<Rightarrow> string list" where
  "split_lines string_width v max_width font size' =
     (if v = JNull then [] else split_text string_width (py_str v) max_width font size')"

lemma wrap_not_Nil [simp]: "wrap wide current cs \<noteq> []"
  by (induction wide current cs rule: wrap.induct) auto

lemma split_text_not_Nil [simp]: "split_text w text mx font sz \<noteq> []"
  by (cases "splitlines text") (simp_all add: split_text_def)

text \<open>Wrapping loses, repeats and reorders nothing but white space.\<close>

lemma wrap_visible: "concat (map visible (wrap wide current cs)) = visible current @ visible cs"
proof (induction wide current cs rule: wrap.induct)
  case (2 wide current c cs)
  have "visible (lstrip [c]) @ visible cs = visible (c # cs)" using visible_simps(2) [of "[c]" cs] by simp
  moreover have "visible (current @ [c]) @ visible cs = visible current @ visible (c # cs)"
    using visible_simps(2) [of "[c]" cs] by simp
  ultimately show ?case using 2 by simp
qed simp

text \<open>
  A line fits, or has a single character, or is what is left of such a text when the blanks at its end
  are stripped.
\<close>

definition fits :: "(string \<Rightarrow> bool) \<Rightarrow> string list \<Rightarrow> bool" where
  "fits wide l \<longleftrightarrow> (\<exists>zs. list_all is_blank zs \<and> (length (l @ zs) \<le> 1 \<or> \<not> wide (concat (l @ zs))))"

lemma fits_rstrip: "length cs \<le> 1 \<or> \<not> wide (concat cs) \<Longrightarrow> fits wide (rstrip cs)"
  using rstrip_prefix [of cs] unfolding fits_def by metis

lemma wrap_fits:
  "length current \<le> 1 \<or> \<not> wide (concat current) \<Longrightarrow> l \<in> set (wrap wide current cs) \<Longrightarrow> fits wide l"
proof (induction wide current cs rule: wrap.induct)
  case (2 wide current c cs)
  have one: "length (lstrip [c]) \<le> 1" by (simp add: lstrip_def)
  show ?case
  proof (cases "current \<noteq> [] \<and> wide (concat (current @ [c]))")
    case True
    then show ?thesis using 2 one fits_rstrip [of current wide] by auto
  next
    case False
    then have "length (current @ [c]) \<le> 1 \<or> \<not> wide (concat (current @ [c]))" by auto
    then show ?thesis using 2 False by (auto split: if_splits)
  qed
qed (simp add: fits_rstrip)

end
