(* ===== verification/PdfCanvas.thy ===== *)
theory PdfCanvas
  imports PdfText
begin

text \<open>
  The canvas of the report renderer and the helpers that draw on it.

  A method call on reportlab's canvas is a value of the type \<open>draw\<close>, with the arguments of the call;
  drawing is the list of these calls in order.  Coordinates are exact rationals.  The sizes of the
  pages and the widths of texts come from reportlab: they are fields of the record \<open>pdf\<close>, together with
  the global variable \<^verbatim>\<open>TOTAL_PAGES\<close> and whether the two font files exist.
\<close>


section \<open>Calls\<close>

text \<open>\<^verbatim>\<open>Color(c.red, c.green, c.blue, alpha=a)\<close> is \<open>Faded c a\<close>.\<close>

datatype colour = HexColor string | White | Color rat rat rat rat | Faded colour rat

datatype draw =
    SetFillColor colour
  | SetStrokeColor colour
  | SetLineWidth rat
  | SetFont string rat
  | DrawString rat rat string
  | DrawRightString rat rat string
  | DrawCentredString rat rat string
  | Rect rat rat rat rat bool bool
  | RoundRect rat rat rat rat rat bool bool
  | Circle rat rat rat bool bool
  | Wedge rat rat rat rat rat rat bool bool
  | DrawLine rat rat rat rat
  | BookmarkPage string
  | AddOutlineEntry string string nat bool
  | SetPageSize rat rat
  | ShowPage
  | SetTitle string
  | SetSubject string
  | SetAuthor string
  | SetCreator string
  | Save

record pdf =
  PAGE_W :: rat
  PAGE_H :: rat
  DETAIL_PAGE_W :: rat
  DETAIL_PAGE_H :: rat
  stringWidth :: widths
  fonts_present :: bool
  TOTAL_PAGES :: nat

definition MARGIN :: rat where
  "MARGIN = 34"


section \<open>Fonts, colours and labels\<close>

definition FONT_BODY :: string where
  "FONT_BODY = ''ArialUnicode''"

definition FONT_HEAD :: string where
  "FONT_HEAD = ''STHeiti''"

definition FONT_MONO :: string where
  "FONT_MONO = ''Courier''"

definition FONT_MONO_BOLD :: string where
  "FONT_MONO_BOLD = ''Courier-Bold''"

definition NAVY :: colour where
  "NAVY = HexColor ''#0B132B''"

definition INK :: colour where
  "INK = HexColor ''#17213A''"

definition SLATE :: colour where
  "SLATE = HexColor ''#42526E''"

definition MUTED :: colour where
  "MUTED = HexColor ''#718096''"

definition LIGHT :: colour where
  "LIGHT = HexColor ''#F4F7FB''"

definition PAPER :: colour where
  "PAPER = HexColor ''#FBFCFE''"

definition BORDER :: colour where
  "BORDER = HexColor ''#DCE4EF''"

definition BLUE :: colour where
  "BLUE = HexColor ''#3478F6''"

definition TEAL :: colour where
  "TEAL = HexColor ''#16A394''"

definition CORAL :: colour where
  "CORAL = HexColor ''#F36B5D''"

definition AMBER :: colour where
  "AMBER = HexColor ''#ECA83E''"

definition RED :: colour where
  "RED = HexColor ''#D84B4B''"

definition PURPLE :: colour where
  "PURPLE = HexColor ''#7657D5''"

definition GREEN :: colour where
  "GREEN = HexColor ''#2F9E74''"

definition SKY :: colour where
  "SKY = HexColor ''#DCEBFF''"

definition TEAL_LIGHT :: colour where
  "TEAL_LIGHT = HexColor ''#DDF5F1''"

definition AMBER_LIGHT :: colour where
  "AMBER_LIGHT = HexColor ''#FFF0D2''"

definition RED_LIGHT :: colour where
  "RED_LIGHT = HexColor ''#FCE5E5''"

definition PURPLE_LIGHT :: colour where
  "PURPLE_LIGHT = HexColor ''#ECE8FB''"

definition FAMILY_LABELS :: "(string \<times> string) list" where
  "FAMILY_LABELS = [
    (''A'', uni ''^5fae^89c2^7ed3^6784^4e0e^505a^5e02''),
    (''B'', uni ''^65b9^5411^4e0e^6ce2^52a8''),
    (''C'', uni ''^76f8^5bf9^4ef7^503c''),
    (''D'', uni ''RFQ ^4e0e MVE''),
    (''E'', uni ''^7ed3^7b97^4e0e^751f^547d^5468^671f''),
    (''F'', uni ''^4f53^80b2^751f^6001^4e0e^5916^90e8^6570^636e''),
    (''G'', uni ''^6a21^578b^65b9^6cd5''),
    (''P'', uni ''^7ec4^5408^4e0e^8fd0^8425'')]"

definition FAMILY_COLORS :: "(string \<times> colour) list" where
  "FAMILY_COLORS = [
    (''A'', BLUE),
    (''B'', TEAL),
    (''C'', PURPLE),
    (''D'', AMBER),
    (''E'', CORAL),
    (''F'', RED),
    (''G'', HexColor ''#5375A6''),
    (''P'', HexColor ''#5C6475'')]"

definition TARGET_LABELS :: "(string \<times> string) list" where
  "TARGET_LABELS = [
    (''EXECUTABLE_STRATEGY'', uni ''^52a8^4f5c^578b^5b9e^9a8c''),
    (''SIGNAL'', uni ''^4fe1^53f7^5b9e^9a8c''),
    (''RESEARCH_QUESTION'', uni ''^7814^7a76^95ee^9898'')]"

definition ACTION_LABELS :: "(string \<times> string) list" where
  "ACTION_LABELS = [
    (''NO_ACTION'', uni ''^65e0^52a8^4f5c''),
    (''MODEL_COMPONENT'', uni ''^6a21^578b^7ec4^4ef6''),
    (''CONTROL_ONLY'', uni ''^63a7^5236^5b9e^9a8c''),
    (''MAKER_SPREAD'', uni ''^53cc^8fb9^505a^5e02''),
    (''MAKER_FILTER'', uni ''^505a^5e02^98ce^63a7^8fc7^6ee4''),
    (''MAKER_REFILL'', uni ''^8865^5355/^56de^8865''),
    (''T90_RANGE'', uni ''T90 ^533a^95f4^505a^5e02''),
    (''T90_REBUILD'', uni ''T90 ^91cd^5efa''),
    (''PASSIVE_FADE'', uni ''^88ab^52a8^53cd^8f6c''),
    (''TAKER_DIRECTIONAL'', uni ''^4e3b^52a8^65b9^5411^5355''),
    (''RELATIVE_VALUE'', uni ''^591a^817f^76f8^5bf9^4ef7^503c''),
    (''EXPIRY_ROLL'', uni ''^5230^671f^8fc1^79fb''),
    (''CHILD_HEDGE'', uni ''^5b50^7b56^7565^5bf9^51b2''),
    (''RFQ_GUARD'', uni ''RFQ CLOB ^98ce^63a7''),
    (''RFQ_MAKER'', uni ''RFQ ^76f4^63a5^62a5^4ef7''),
    (''MVE_DIRECT'', uni ''MVE ^76f4^63a5^6267^884c''),
    (''TERMINAL_POLICY'', uni ''^6301^4ed3^7ec8^5c40^7b56^7565''),
    (''TERMINAL_ENTRY'', uni ''^7ec8^5c40^5f00^4ed3''),
    (''CS_ASK'', ''CS-ASK''),
    (''EARLY_EXIT'', uni ''^63d0^524d^9000^51fa''),
    (''EXTERNAL_ACTION'', uni ''^5916^90e8^6570^636e^52a8^4f5c''),
    (''ROUTER'', uni ''^7b56^7565^8def^7531''),
    (''SIZE_RISK'', uni ''^4ed3^4f4d^4e0e^98ce^9669''),
    (''COMMERCIAL_ROC'', uni ''^5546^4e1a ROC'')]"

definition DATA_LABELS :: "(string \<times> string) list" where
  "DATA_LABELS = [
    (''L1'', uni ''L1/^6210^4ea4''),
    (''L2'', ''L2''),
    (''L1_L2'', ''L1+L2''),
    (''L1_PRIVATE'', uni ''L1+^79c1^6709^4ed3^4f4d''),
    (''FAMILY'', uni ''^5e02^573a^56fe^8c31''),
    (''TERMINAL'', uni ''^7ed3^7b97/^751f^547d^5468^671f''),
    (''RFQ_PUBLIC'', uni ''^516c^5f00 RFQ''),
    (''RFQ_PRIVATE'', uni ''^79c1^6709 RFQ''),
    (''MVE_PRIVATE'', uni ''^79c1^6709 MVE''),
    (''EXTERNAL'', uni ''^5916^90e8^4f53^80b2''),
    (''CATALOG'', uni ''^76ee^5f55/^89c4^5219''),
    (''MODEL'', uni ''^6a21^578b owner''),
    (''META'', uni ''^7ec4^5408/^8def^7531''),
    (''OWNER_EVPI'', ''Owner EVPI''),
    (''PRIVATE'', uni ''^79c1^6709^8d26^6237''),
    (''OUT_OF_SCOPE'', uni ''^8303^56f4^5916''),
    (''INTERNAL_CONTROL'', uni ''^5185^90e8^63a7^5236'')]"

definition BLOCKER_LABELS :: "(string \<times> string) list" where
  "BLOCKER_LABELS = [
    (''SETTLEMENT_MISSING'', uni ''^7ed3^7b97^4e0e^5f02^5e38^72b6^6001''),
    (''FEE_UNKNOWN'', uni ''^7cbe^786e^8d39^7528''),
    (''FILL_MODEL_MISSING'', uni ''^4e25^683c^6210^4ea4^6a21^578b''),
    (''LATENCY_UNMEASURED'', uni ''^5b9e^6d4b^5ef6^8fdf''),
    (''RISK_GATES_MISSING'', uni ''^98ce^9669^95e8''),
    (''INSUFFICIENT_QUALITY_DATES'', uni ''^72ec^7acb^5e72^51c0^65e5^671f''),
    (''CONFIRMED_CHILD_STRATEGIES_MISSING'', uni ''^5df2^786e^8ba4 child''),
    (''OWN_ORDER_CALIBRATION_MISSING'', uni ''^81ea^6709^8ba2^5355^6821^51c6''),
    (''VENUE_PERMISSION_MISSING'', uni ''^6267^884c^6743^9650''),
    (''INSTRUMENT_MAPPING_UNKNOWN'', uni ''^5408^7ea6^6620^5c04''),
    (''MULTI_LEG_ENGINE_MISSING'', uni ''^591a^817f^5f15^64ce''),
    (''PAYOUT_EXHAUSTIVENESS_MISSING'', uni ''^652f^4ed8^72b6^6001^7a77^5c3d''),
    (''ACTION_INCOMPLETE'', uni ''^52a8^4f5c^672a^95ed^5408''),
    (''RFQ_PUBLIC_DATA_UNRELEASED'', uni ''RFQ ^65b0^9c9c^53d1^5e03''),
    (''EXTERNAL_API_UNVERIFIED'', uni ''^5916^90e8 API ^672a^9a8c^8bc1''),
    (''EXTERNAL_SPORTS_DATA_MISSING'', uni ''^5916^90e8^4f53^80b2^6570^636e''),
    (''TIMESTAMP_SEMANTICS_UNKNOWN'', uni ''^5916^90e8^65f6^949f^8bed^4e49''),
    (''PRIVATE_ACCOUNT_STATE_MISSING'', uni ''^79c1^6709^8d26^6237^72b6^6001''),
    (''MISSING_SIGNAL_INPUT'', uni ''^4fe1^53f7^8f93^5165''),
    (''SAMPLE_TOO_SMALL'', uni ''^6837^672c^4e0d^8db3''),
    (''RFQ_PRIVATE_EVENTS_MISSING'', uni ''RFQ ^79c1^6709^4e8b^4ef6''),
    (''OUT_OF_SCOPE_CURRENT_PROGRAM'', uni ''^5f53^524d^8303^56f4^5916''),
    (''MVE_PRIVATE_EVENTS_MISSING'', uni ''MVE ^79c1^6709^4e8b^4ef6''),
    (''OPERATING_COST_UNKNOWN'', uni ''^8fd0^8425^6210^672c''),
    (''BASELINE_INCOMPLETE'', uni ''^57fa^51c6^672a^95ed^5408'')]"


section \<open>Text\<close>

text \<open>The last of the lines that are left gets three dots, after as many characters are dropped as they need.\<close>

fun shorten :: "(string \<Rightarrow> bool) \<Rightarrow> string list \<Rightarrow> string" where
  "shorten wide [] = []"
| "shorten wide (c # cs) =
     (if wide (concat (rev (c # cs)) @ ''...'') then shorten wide cs else concat (rev (c # cs)))"

definition limit_lines :: "pdf \<Rightarrow> nat option \<Rightarrow> rat \<Rightarrow> string \<Rightarrow> rat \<Rightarrow> string list \<Rightarrow> string list" where
  "limit_lines P max_lines max_width font sz lines =
     (case max_lines of
        None \<Rightarrow> lines
      | Some n \<Rightarrow>
          if length lines \<le> n then lines
          else let lines = take n lines
            in butlast lines @ [shorten (\<lambda>t. max_width < stringWidth P t font sz) (rev (chars (last lines))) @ ''...''])"

fun text_rows :: "rat \<Rightarrow> rat \<Rightarrow> rat \<Rightarrow> string list \<Rightarrow> draw list" where
  "text_rows x y leading [] = []"
| "text_rows x y leading (l # ls) = DrawString x y l # text_rows x (y - leading) leading ls"

text \<open>
  \<^verbatim>\<open>_draw_text\<close> returns the height below its last line.  The lines come from a text, or from a value of
  the registry.
\<close>

definition draw_lines :: "pdf \<Rightarrow> string list \<Rightarrow> rat \<Rightarrow> rat \<Rightarrow> rat \<Rightarrow> string \<Rightarrow> rat \<Rightarrow> colour \<Rightarrow> rat option \<Rightarrow> nat option
    \<Rightarrow> draw list \<times> rat" where
  "draw_lines P lines x y max_width font sz color leading max_lines =
     (let lead = (case leading of None \<Rightarrow> sz * (135 / 100) | Some l \<Rightarrow> l);
          lines = limit_lines P max_lines max_width font sz lines
      in ([SetFont font sz, SetFillColor color] @ text_rows x y lead lines, y - of_nat (length lines) * lead))"

definition draw_text :: "pdf \<Rightarrow> string \<Rightarrow> rat \<Rightarrow> rat \<Rightarrow> rat \<Rightarrow> string \<Rightarrow> rat \<Rightarrow> colour \<Rightarrow> rat option \<Rightarrow> nat option
    \<Rightarrow> draw list \<times> rat" where
  "draw_text P txt' x y max_width font sz =
     draw_lines P (split_text (stringWidth P) txt' max_width font sz) x y max_width font sz"

definition draw_value :: "pdf \<Rightarrow> json \<Rightarrow> rat \<Rightarrow> rat \<Rightarrow> rat \<Rightarrow> string \<Rightarrow> rat \<Rightarrow> colour \<Rightarrow> rat option \<Rightarrow> nat option
    \<Rightarrow> draw list \<times> rat" where
  "draw_value P v x y max_width font sz =
     draw_lines P (split_lines (stringWidth P) v max_width font sz) x y max_width font sz"

definition draw_centered :: "string \<Rightarrow> rat \<Rightarrow> rat \<Rightarrow> string \<Rightarrow> rat \<Rightarrow> colour \<Rightarrow> draw list" where
  "draw_centered txt' x y font sz color = [SetFont font sz, SetFillColor color, DrawCentredString x y txt']"


section \<open>Shapes\<close>

definition round_rect :: "rat \<Rightarrow> rat \<Rightarrow> rat \<Rightarrow> rat \<Rightarrow> colour \<Rightarrow> colour \<Rightarrow> rat \<Rightarrow> rat \<Rightarrow> draw list" where
  "round_rect x y w h fill stroke radius line_width =
     [SetFillColor fill, SetStrokeColor stroke, SetLineWidth line_width, RoundRect x y w h radius True True]"

definition badge :: "pdf \<Rightarrow> string \<Rightarrow> rat \<Rightarrow> rat \<Rightarrow> colour \<Rightarrow> colour \<Rightarrow> rat option \<Rightarrow> draw list" where
  "badge P txt' x y fill color width =
     (let w = (case width of None \<Rightarrow> max 52 (stringWidth P txt' FONT_HEAD 8 + 18) | Some w \<Rightarrow> w)
      in [SetFillColor fill, RoundRect x y w 20 9 True False]
         @ draw_centered txt' (x + w / 2) (y + 62 / 10) FONT_HEAD 8 color)"

definition metric_card :: "pdf \<Rightarrow> rat \<Rightarrow> rat \<Rightarrow> rat \<Rightarrow> rat \<Rightarrow> string \<Rightarrow> string \<Rightarrow> string \<Rightarrow> colour \<Rightarrow> draw list" where
  "metric_card P x y w h value' label note' accent =
     round_rect x y w h White BORDER 12 (7 / 10) @
     [SetFillColor accent, RoundRect x y 6 h 3 True False,
      SetFillColor accent, SetFont FONT_HEAD 28, DrawString (x + 20) (y + h - 40) value',
      SetFillColor INK, SetFont FONT_HEAD 11, DrawString (x + 20) (y + h - 62) label] @
     fst (draw_text P note' (x + 20) (y + h - 82) (w - 34) FONT_BODY (78 / 10) MUTED (Some 10) (Some 2))"

definition page_key :: "nat \<Rightarrow> string" where
  "page_key page_no = ''page-'' @ str_of_nat page_no"

definition page_header :: "pdf \<Rightarrow> nat \<Rightarrow> string \<Rightarrow> string \<Rightarrow> string \<Rightarrow> colour \<Rightarrow> draw list \<times> rat" where
  "page_header P page_no title subtitle section' accent =
     ([SetFillColor PAPER, Rect 0 0 (PAGE_W P) (PAGE_H P) True False,
       SetFillColor accent, RoundRect MARGIN (PAGE_H P - 38) 92 18 8 True False] @
      draw_centered section' (MARGIN + 46) (PAGE_H P - 325 / 10) FONT_HEAD (75 / 10) White @
      [SetFillColor INK, SetFont FONT_HEAD 23, DrawString MARGIN (PAGE_H P - 76) title] @
      fst (draw_text P subtitle MARGIN (PAGE_H P - 98) (PAGE_W P - 2 * MARGIN) FONT_BODY 10 SLATE (Some 13) (Some 2)) @
      [SetStrokeColor BORDER, SetLineWidth (8 / 10), DrawLine MARGIN (PAGE_H P - 112) (PAGE_W P - MARGIN) (PAGE_H P - 112),
       BookmarkPage (page_key page_no), AddOutlineEntry title (page_key page_no) 0 False],
      PAGE_H P - 132)"

text \<open>What a footer says of the page: its number and the number of all pages.\<close>

definition page_label :: "pdf \<Rightarrow> nat \<Rightarrow> string" where
  "page_label P page_no = str_of_nat page_no @ '' / '' @ str_of_nat (TOTAL_PAGES P)"

definition footer :: "pdf \<Rightarrow> nat \<Rightarrow> draw list" where
  "footer P page_no =
     [SetStrokeColor BORDER, SetLineWidth (5 / 10), DrawLine MARGIN 27 (PAGE_W P - MARGIN) 27,
      SetFont FONT_BODY (68 / 10), SetFillColor MUTED,
      DrawString MARGIN 14 ''Deep03 Registry V1 | Snapshot 2026-07-23 | Research directory only - no trading authority'',
      DrawRightString (PAGE_W P - MARGIN) 14 (page_label P page_no)]"

definition finish_page :: "pdf \<Rightarrow> nat \<Rightarrow> draw list" where
  "finish_page P page_no = footer P page_no @ [ShowPage]"

text \<open>
  A loop that draws one item after the other and moves a coordinate, and one that does not.
\<close>

fun rows :: "(rat \<Rightarrow> 'a \<Rightarrow> draw list \<times> rat) \<Rightarrow> rat \<Rightarrow> 'a list \<Rightarrow> draw list" where
  "rows f y [] = []"
| "rows f y (x # xs) = (case f y x of (ds, y') \<Rightarrow> ds @ rows f y' xs)"

definition each :: "('a \<Rightarrow> draw list) \<Rightarrow> 'a list \<Rightarrow> draw list" where
  "each f xs = concat (map f xs)"

text \<open>The value \<^verbatim>\<open>max_value\<close> is not zero at the calls; the values are those of the registry's counters.\<close>

definition hbar_chart :: "(string \<times> nat) list \<Rightarrow> rat \<Rightarrow> rat \<Rightarrow> rat \<Rightarrow> rat \<Rightarrow> colour \<Rightarrow> rat \<Rightarrow> nat \<Rightarrow> draw list" where
  "hbar_chart items x y w row_h color label_w max_value =
     (let bar_w = w - label_w - 38
      in each (\<lambda>(index, (label, v)).
        let yy = y - of_nat index * row_h
        in [SetFont FONT_BODY 8, SetFillColor SLATE, DrawRightString (x + label_w - 8) (yy + 4) label,
            SetFillColor BORDER, RoundRect (x + label_w) yy bar_w 11 5 True False,
            SetFillColor color,
            RoundRect (x + label_w) yy (max 2 (bar_w * of_nat v / of_nat max_value)) 11 5 True False,
            SetFillColor INK, SetFont FONT_MONO_BOLD 8, DrawRightString (x + w) (yy + 25 / 10) (str_of_nat v)])
        (enumerate 0 items))"

fun wedges :: "rat \<Rightarrow> rat \<Rightarrow> rat \<Rightarrow> rat \<Rightarrow> nat \<Rightarrow> (nat \<times> colour) list \<Rightarrow> draw list" where
  "wedges cx cy radius start n [] = []"
| "wedges cx cy radius start n ((v, color) # vs) =
     (let extent = - 360 * of_nat v / of_nat n
      in [SetFillColor color,
          Wedge (cx - radius) (cy - radius) (cx + radius) (cy + radius) start extent True False]
         @ wedges cx cy radius (start + extent) n vs)"

definition donut :: "rat \<Rightarrow> rat \<Rightarrow> rat \<Rightarrow> nat list \<Rightarrow> colour list \<Rightarrow> string \<Rightarrow> string \<Rightarrow> draw list" where
  "donut cx cy radius values colors center_top center_bottom =
     wedges cx cy radius 90 (sum_list values) (zip values colors) @
     [SetFillColor White, Circle cx cy (radius * (58 / 100)) True False] @
     draw_centered center_top cx (cy + 2) FONT_HEAD 19 INK @
     draw_centered center_bottom cx (cy - 17) FONT_BODY (75 / 10) MUTED"

definition arrow :: "rat \<Rightarrow> rat \<Rightarrow> rat \<Rightarrow> rat \<Rightarrow> colour \<Rightarrow> rat \<Rightarrow> draw list" where
  "arrow xa ya xb yb color width =
     [SetStrokeColor color, SetFillColor color, SetLineWidth width, DrawLine xa ya xb yb,
      DrawLine xb yb (xb - 5) (yb + 5 / 2), DrawLine xb yb (xb - 5) (yb - 5 / 2)]"


section \<open>Pages and outline of a drawing\<close>

text \<open>The number of pages a drawing ends, and the keys and titles of its outline.\<close>

fun shown :: "draw list \<Rightarrow> nat" where
  "shown [] = 0"
| "shown (ShowPage # ds) = Suc (shown ds)"
| "shown (_ # ds) = shown ds"

fun outline :: "draw list \<Rightarrow> (string \<times> string) list" where
  "outline [] = []"
| "outline (AddOutlineEntry title key _ _ # ds) = (key, title) # outline ds"
| "outline (_ # ds) = outline ds"

lemma shown_append [simp]: "shown (xs @ ys) = shown xs + shown ys"
  by (induction xs rule: shown.induct) simp_all

lemma outline_append [simp]: "outline (xs @ ys) = outline xs @ outline ys"
  by (induction xs rule: outline.induct) simp_all

text \<open>A drawing inside a page: it neither ends the page nor adds to the outline.\<close>

definition inside :: "draw list \<Rightarrow> bool" where
  "inside ds \<longleftrightarrow> shown ds = 0 \<and> outline ds = []"

named_theorems inside_intros "drawings inside a page"

lemma insideD: "inside ds \<Longrightarrow> shown ds = 0" "inside ds \<Longrightarrow> outline ds = []"
  by (simp_all add: inside_def)

lemma inside_append [inside_intros]: "inside xs \<Longrightarrow> inside ys \<Longrightarrow> inside (xs @ ys)"
  by (simp add: inside_def)

lemma inside_rows: "(\<And>y x. x \<in> set xs \<Longrightarrow> inside (fst (f y x))) \<Longrightarrow> inside (rows f y xs)"
proof (induction xs arbitrary: y)
  case (Cons x xs)
  obtain ds y' where f: "f y x = (ds, y')" by (cases "f y x")
  have "inside (fst (f y x))" using Cons.prems [of x y] by simp
  then have "inside ds" using f by simp
  then show ?case using Cons by (simp add: f inside_append)
qed (simp add: inside_def)

lemma inside_each: "(\<And>x. x \<in> set xs \<Longrightarrow> inside (f x)) \<Longrightarrow> inside (each f xs)"
  by (induction xs) (simp_all add: each_def inside_def)

lemma inside_text_rows [inside_intros]: "inside (text_rows x y leading ls)"
  by (induction x y leading ls rule: text_rows.induct) (simp_all add: inside_def)

lemma inside_draw_lines [inside_intros]:
  "inside (fst (draw_lines P ls x y w font sz color leading max_lines))"
  using inside_text_rows by (simp add: draw_lines_def Let_def inside_def)

lemma inside_helpers [inside_intros]:
  "inside (fst (draw_text P t x y w font sz color leading max_lines))"
  "inside (fst (draw_value P v x y w font sz color leading max_lines))"
  "inside (draw_centered t x y font sz color)"
  "inside (round_rect x y w h fill stroke radius line_width)"
  "inside (arrow xa ya xb yb color width')"
  "inside (footer P page_no)"
  unfolding draw_text_def draw_value_def
  by (rule inside_draw_lines)+ (simp_all add: inside_def draw_centered_def round_rect_def arrow_def footer_def)

lemma inside_badge [inside_intros]: "inside (badge P t x y fill color width')"
  using inside_helpers(3) by (simp add: badge_def Let_def inside_def)

lemma inside_metric_card [inside_intros]: "inside (metric_card P x y w h v label n accent)"
  using inside_helpers(1,4) by (simp add: metric_card_def inside_def)

lemma inside_hbar_chart [inside_intros]: "inside (hbar_chart items x y w row_h color label_w max_value)"
  unfolding hbar_chart_def Let_def by (rule inside_each) (auto simp: inside_def)

lemma inside_wedges [inside_intros]: "inside (wedges cx cy radius start n vs)"
  by (induction cx cy radius start n vs rule: wedges.induct) (simp_all add: inside_def Let_def)

lemma inside_donut [inside_intros]: "inside (donut cx cy radius vs colors a b)"
  using inside_helpers(3) inside_wedges by (simp add: donut_def inside_def)

text \<open>A header adds one entry to the outline, the end of a page ends one page.\<close>

lemma header_page [simp]:
  "shown (fst (page_header P n title subtitle s accent)) = 0"
  "outline (fst (page_header P n title subtitle s accent)) = [(page_key n, title)]"
  "snd (page_header P n title subtitle s accent) = PAGE_H P - 132"
  using inside_helpers(1,3) by (simp_all add: page_header_def inside_def)

lemma finish_page_simps [simp]: "shown (finish_page P n) = 1" "outline (finish_page P n) = []"
  using inside_helpers(6) by (simp_all add: finish_page_def inside_def)

end
