(* ===== verification/PdfLayout.thy ===== *)
theory PdfLayout
  imports PdfCanvas
begin

text \<open>
  The layout of the detail pages (\<^verbatim>\<open>_layout_detail_sections\<close>): the sections of a card are broken into
  lines and flow through the four columns of as many pages as they need.

  The inner loop does not end if a column has no room for a heading and one line, so it is a partial
  function; on pages that have the room it always returns, no column is filled beyond its height, and
  the lines can be read back in order, each below a heading of its own section in its own column; on
  pages without the room it never returns when there is a line to place.
\<close>


section \<open>Measures\<close>

definition DETAIL_MARGIN :: rat where
  "DETAIL_MARGIN = 36"

definition DETAIL_COLS :: nat where
  "DETAIL_COLS = 4"

definition DETAIL_COL_GAP :: rat where
  "DETAIL_COL_GAP = 12"

definition DETAIL_COL_W :: "pdf \<Rightarrow> rat" where
  "DETAIL_COL_W P = (DETAIL_PAGE_W P - 2 * DETAIL_MARGIN - of_nat (DETAIL_COLS - 1) * DETAIL_COL_GAP) / of_nat DETAIL_COLS"

definition DETAIL_TOP :: "pdf \<Rightarrow> rat" where
  "DETAIL_TOP P = DETAIL_PAGE_H P - 132"

definition DETAIL_BOTTOM :: rat where
  "DETAIL_BOTTOM = 44"

definition DETAIL_CONTENT_H :: "pdf \<Rightarrow> rat" where
  "DETAIL_CONTENT_H P = DETAIL_TOP P - DETAIL_BOTTOM"

definition DETAIL_FONT_SIZE :: rat where
  "DETAIL_FONT_SIZE = 84 / 10"

definition DETAIL_LEADING :: rat where
  "DETAIL_LEADING = 107 / 10"

definition DETAIL_SECTION_H :: rat where
  "DETAIL_SECTION_H = 21"


section \<open>Blocks and columns\<close>

datatype block = Section string | Entry "string list"

fun height :: "block \<Rightarrow> rat" where
  "height (Section title) = DETAIL_SECTION_H"
| "height (Entry ls) = of_nat (length ls) * DETAIL_LEADING + 5"

type_synonym page_layout = "block list list"

definition new_detail_page_layout :: page_layout where
  "new_detail_page_layout = replicate DETAIL_COLS []"

record layout_state =
  pages :: "page_layout list"
  page_index :: nat
  column_index :: nat
  used :: rat

definition advance_column :: "layout_state \<Rightarrow> layout_state" where
  "advance_column S =
     (let S = S\<lparr>column_index := column_index S + 1, used := 0\<rparr>
      in if DETAIL_COLS \<le> column_index S
         then S\<lparr>pages := pages S @ [new_detail_page_layout], page_index := page_index S + 1, column_index := 0\<rparr>
         else S)"

definition add_block :: "block \<Rightarrow> layout_state \<Rightarrow> layout_state" where
  "add_block b S =
     (let pg = pages S ! page_index S
      in S\<lparr>pages := (pages S)[page_index S := pg[column_index S := pg ! column_index S @ [b]]],
           used := used S + height b\<rparr>)"


section \<open>The layout\<close>

text \<open>\<^verbatim>\<open>xs[a:b]\<close>.\<close>

definition py_slice :: "'a list \<Rightarrow> int \<Rightarrow> int \<Rightarrow> 'a list" where
  "py_slice xs a b =
     (let n = int (length xs);
          from' = (if a < 0 then max 0 (a + n) else min a n);
          to' = (if b < 0 then max 0 (b + n) else min b n)
      in take (nat (to' - from')) (drop (nat from') xs))"

definition continued :: "string \<Rightarrow> string" where
  "continued title = title @ uni ''^ff08^7eed^ff09''"

definition available :: "pdf \<Rightarrow> layout_state \<Rightarrow> int" where
  "available P S = \<lfloor>(DETAIL_CONTENT_H P - used S - 5) / DETAIL_LEADING\<rfloor>"

definition next_column :: "string \<Rightarrow> layout_state \<Rightarrow> layout_state" where
  "next_column title S = add_block (Section (continued title)) (advance_column S)"

partial_function (option) place_lines :: "pdf \<Rightarrow> string \<Rightarrow> string list \<Rightarrow> int \<Rightarrow> layout_state \<Rightarrow> layout_state option" where
  "place_lines P title lines offset S =
     (if offset < int (length lines) then
        (let S = (if available P S < 1 then next_column title S else S);
             n = min (available P S) (int (length lines) - offset);
             S = add_block (Entry (py_slice lines offset (offset + n))) S;
             S = (if offset + n < int (length lines) then next_column title S else S)
         in place_lines P title lines (offset + n) S)
      else Some S)"

declare place_lines.simps [code]

definition entry_lines :: "pdf \<Rightarrow> string \<Rightarrow> string list" where
  "entry_lines P entry =
     (let ls = split_text (stringWidth P) entry (DETAIL_COL_W P - 22) FONT_BODY DETAIL_FONT_SIZE
      in if ls = [] then [uni ''^2014''] else ls)"

fun place_entries :: "pdf \<Rightarrow> string \<Rightarrow> string list \<Rightarrow> layout_state \<Rightarrow> layout_state option" where
  "place_entries P title [] S = Some S"
| "place_entries P title (e # es) S =
     Option.bind (place_lines P title (entry_lines P e) 0 S) (place_entries P title es)"

definition start_section :: "pdf \<Rightarrow> string \<Rightarrow> layout_state \<Rightarrow> layout_state" where
  "start_section P title S =
     add_block (Section title)
       (if DETAIL_CONTENT_H P - used S < DETAIL_SECTION_H + DETAIL_LEADING * 2 then advance_column S else S)"

fun place_sections :: "pdf \<Rightarrow> (string \<times> string list) list \<Rightarrow> layout_state \<Rightarrow> layout_state option" where
  "place_sections P [] S = Some S"
| "place_sections P ((title, entries) # sections) S =
     Option.bind (place_entries P title entries (start_section P title S)) (place_sections P sections)"

definition layout_start :: layout_state where
  "layout_start = \<lparr>pages = [new_detail_page_layout], page_index = 0, column_index = 0, used = 0\<rparr>"

definition layout_detail_sections :: "pdf \<Rightarrow> (string \<times> string list) list \<Rightarrow> page_layout list option" where
  "layout_detail_sections P sections = map_option pages (place_sections P sections layout_start)"


section \<open>The shape of a layout\<close>

text \<open>The columns that are finished and the one being filled; the columns after it are empty.\<close>

definition shape :: "layout_state \<Rightarrow> block list list \<Rightarrow> block list \<Rightarrow> bool" where
  "shape S cols col \<longleftrightarrow> (\<exists>ps pre k. pages S = ps @ [pre @ col # replicate k []] \<and> page_index S = length ps
     \<and> column_index S = length pre \<and> length pre + k = 3 \<and> cols = concat ps @ pre \<and> list_all (\<lambda>p. length p = 4) ps)"

lemma shape_start: "shape layout_start [] []"
  by (auto simp: shape_def layout_start_def new_detail_page_layout_def DETAIL_COLS_def numeral_eq_Suc
      intro!: exI [of _ "[]"] exI [of _ 3])

lemma shape_add: "shape S cols col \<Longrightarrow> shape (add_block b S) cols (col @ [b])"
  unfolding shape_def by (auto simp: add_block_def Let_def list_update_append nth_append)

lemma shape_advance:
  assumes "shape S cols col"
  shows "shape (advance_column S) (cols @ [col]) []"
proof -
  obtain ps pre k where p: "pages S = ps @ [pre @ col # replicate k []]" "page_index S = length ps"
      "column_index S = length pre" "length pre + k = 3" "cols = concat ps @ pre" "list_all (\<lambda>p. length p = 4) ps"
    using assms unfolding shape_def by blast
  show ?thesis
  proof (cases k)
    case 0
    have "pages (advance_column S) = (ps @ [pre @ [col]]) @ [[] @ [] # replicate 3 []]"
      using p 0 by (simp add: advance_column_def Let_def DETAIL_COLS_def new_detail_page_layout_def numeral_eq_Suc)
    then show ?thesis using p 0 unfolding shape_def
      by (intro exI [of _ "ps @ [pre @ [col]]"] exI [of _ "[]"] exI [of _ 3])
         (simp add: advance_column_def Let_def DETAIL_COLS_def)
  next
    case (Suc j)
    have "pages (advance_column S) = ps @ [(pre @ [col]) @ [] # replicate j []]"
      using p Suc by (simp add: advance_column_def Let_def DETAIL_COLS_def)
    then show ?thesis using p Suc unfolding shape_def
      by (intro exI [of _ ps] exI [of _ "pre @ [col]"] exI [of _ j])
         (simp add: advance_column_def Let_def DETAIL_COLS_def)
  qed
qed

lemma shape_columns: "shape S cols col \<Longrightarrow> \<exists>k. concat (pages S) = cols @ col # replicate k []"
  unfolding shape_def by auto

lemma shape_pages: "shape S cols col \<Longrightarrow> list_all (\<lambda>p. length p = 4) (pages S) \<and> pages S \<noteq> []"
  unfolding shape_def by auto

lemma used_add [simp]: "used (add_block b S) = used S + height b"
  by (simp add: add_block_def Let_def)

lemma used_advance [simp]: "used (advance_column S) = 0"
  by (simp add: advance_column_def Let_def)


section \<open>Heights\<close>

definition column_height :: "block list \<Rightarrow> rat" where
  "column_height col = sum_list (map height col)"

definition column_ok :: "pdf \<Rightarrow> block list \<Rightarrow> bool" where
  "column_ok P col \<longleftrightarrow> column_height col \<le> DETAIL_CONTENT_H P"

text \<open>A column has room for a heading and one line.\<close>

definition roomy :: "pdf \<Rightarrow> bool" where
  "roomy P \<longleftrightarrow> DETAIL_SECTION_H + DETAIL_LEADING + 5 \<le> DETAIL_CONTENT_H P"

definition filled :: "pdf \<Rightarrow> layout_state \<Rightarrow> block list list \<Rightarrow> block list \<Rightarrow> bool" where
  "filled P S cols col \<longleftrightarrow> shape S cols col \<and> used S = column_height col \<and> list_all (column_ok P) (cols @ [col])"

lemma filled_add:
  assumes "filled P S cols col" "used S + height b \<le> DETAIL_CONTENT_H P"
  shows "filled P (add_block b S) cols (col @ [b])"
  using assms shape_add [of S cols col b] by (auto simp: filled_def column_ok_def column_height_def)

lemma filled_advance:
  assumes "filled P S cols col" "0 \<le> DETAIL_CONTENT_H P"
  shows "filled P (advance_column S) (cols @ [col]) []"
  using assms shape_advance [of S cols col] by (auto simp: filled_def column_ok_def column_height_def)

lemma roomy_content: "roomy P \<Longrightarrow> 0 \<le> DETAIL_CONTENT_H P" "roomy P \<Longrightarrow> DETAIL_SECTION_H \<le> DETAIL_CONTENT_H P"
  by (auto simp: roomy_def DETAIL_SECTION_H_def DETAIL_LEADING_def)

lemma filled_next_column:
  assumes "filled P S cols col" "roomy P"
  shows "filled P (next_column title S) (cols @ [col]) [Section (continued title)]"
  using filled_add [OF filled_advance [OF assms(1) roomy_content(1) [OF assms(2)]], of "Section (continued title)"]
    roomy_content(2) [OF assms(2)] by (simp add: next_column_def)

text \<open>What fits: as many lines as are available, and at least one in a column that only has a heading.\<close>

lemma available_fits:
  assumes "int n \<le> available P S"
  shows "used S + (of_nat n * DETAIL_LEADING + 5) \<le> DETAIL_CONTENT_H P"
proof -
  have "of_nat n \<le> (DETAIL_CONTENT_H P - used S - 5) / DETAIL_LEADING"
    using assms by (simp add: available_def le_floor_iff)
  then have "of_nat n * DETAIL_LEADING \<le> DETAIL_CONTENT_H P - used S - 5"
    by (simp add: DETAIL_LEADING_def pos_le_divide_eq)
  then show ?thesis by simp
qed

lemma available_next_column: "roomy P \<Longrightarrow> 1 \<le> available P (next_column title S)"
  by (simp add: available_def next_column_def le_floor_iff DETAIL_LEADING_def pos_le_divide_eq roomy_def)


section \<open>Reading back\<close>

text \<open>The lines of a column, each with the heading above it.\<close>

fun read_column :: "string option \<Rightarrow> block list \<Rightarrow> (string option \<times> string) list" where
  "read_column h [] = []"
| "read_column h (Section title # bs) = read_column (Some title) bs"
| "read_column h (Entry ls # bs) = map (Pair h) ls @ read_column h bs"

fun last_heading :: "string option \<Rightarrow> block list \<Rightarrow> string option" where
  "last_heading h [] = h"
| "last_heading h (Section title # bs) = last_heading (Some title) bs"
| "last_heading h (Entry ls # bs) = last_heading h bs"

definition reading :: "block list list \<Rightarrow> (string option \<times> string) list" where
  "reading cols = concat (map (read_column None) cols)"

lemma read_column_append [simp]: "read_column h (xs @ ys) = read_column h xs @ read_column (last_heading h xs) ys"
  by (induction h xs rule: read_column.induct) simp_all

lemma last_heading_append [simp]: "last_heading h (xs @ ys) = last_heading (last_heading h xs) ys"
  by (induction h xs rule: last_heading.induct) simp_all

lemma reading_simps [simp]:
  "reading [] = []" "reading (c # cs) = read_column None c @ reading cs" "reading (xs @ ys) = reading xs @ reading ys"
  "reading (replicate k []) = []"
  by (simp_all add: reading_def)

text \<open>Lines below headings of a section, which may be continued.\<close>

definition below :: "string \<Rightarrow> (string option \<times> string) list \<Rightarrow> string list \<Rightarrow> bool" where
  "below title hs ls \<longleftrightarrow> map snd hs = ls \<and> list_all (\<lambda>h. fst h \<in> {Some title, Some (continued title)}) hs"

lemma below_Nil [simp]: "below title [] []"
  by (simp add: below_def)

lemma below_append: "below title hs ls \<Longrightarrow> below title hs' ls' \<Longrightarrow> below title (hs @ hs') (ls @ ls')"
  by (auto simp: below_def)

lemma below_map: "h \<in> {Some title, Some (continued title)} \<Longrightarrow> below title (map (Pair h) ls) ls"
  by (auto simp: below_def comp_def list_all_iff)


section \<open>Every line is placed\<close>

text \<open>A layout within bounds whose lines read back as \<open>rd\<close>, the last of them below a heading of the section.\<close>

definition holds :: "pdf \<Rightarrow> string \<Rightarrow> layout_state \<Rightarrow> (string option \<times> string) list \<Rightarrow> bool" where
  "holds P title S rd \<longleftrightarrow> (\<exists>cols col. filled P S cols col
     \<and> last_heading None col \<in> {Some title, Some (continued title)} \<and> reading (cols @ [col]) = rd)"

lemma holds_next_column:
  assumes "roomy P" "holds P title S rd"
  shows "holds P title (next_column title S) rd"
proof -
  obtain cols col where f: "filled P S cols col" "reading (cols @ [col]) = rd" using assms(2) unfolding holds_def by blast
  then have "reading ((cols @ [col]) @ [[Section (continued title)]]) = rd" by simp
  then show ?thesis using filled_next_column [OF f(1) assms(1), of title] unfolding holds_def by fastforce
qed

lemma holds_add_entry:
  assumes "holds P title S rd" "int (length ls) \<le> available P S"
  shows "\<exists>hs. below title hs ls \<and> holds P title (add_block (Entry ls) S) (rd @ hs)"
proof -
  obtain cols col where f: "filled P S cols col" "last_heading None col \<in> {Some title, Some (continued title)}"
      "reading (cols @ [col]) = rd"
    using assms(1) unfolding holds_def by blast
  let ?hs = "map (Pair (last_heading None col)) ls"
  have "filled P (add_block (Entry ls) S) cols (col @ [Entry ls])"
    using available_fits [OF assms(2)] by (intro filled_add [OF f(1)]) simp
  moreover have "reading (cols @ [col @ [Entry ls]]) = rd @ ?hs" using f(3) by auto
  ultimately have "holds P title (add_block (Entry ls) S) (rd @ ?hs)" using f(2) unfolding holds_def by fastforce
  then show ?thesis using below_map [OF f(2)] by blast
qed

lemma slice_within: "0 \<le> a \<Longrightarrow> 0 \<le> n \<Longrightarrow> a + n \<le> int (length xs) \<Longrightarrow> py_slice xs a (a + n) = take (nat n) (drop (nat a) xs)"
  by (simp add: py_slice_def Let_def)

lemma place_lines_step:
  assumes "offset < int (length lines)" "S1 = (if available P S < 1 then next_column title S else S)"
    "n = min (available P S1) (int (length lines) - offset)"
    "S2 = add_block (Entry (py_slice lines offset (offset + n))) S1"
    "S3 = (if offset + n < int (length lines) then next_column title S2 else S2)"
  shows "place_lines P title lines offset S = place_lines P title lines (offset + n) S3"
  using assms(1) by (subst place_lines.simps) (simp only: assms(2-5) Let_def if_True)

lemma place_lines_ok:
  assumes "roomy P" "holds P title S rd" "0 \<le> offset" "offset \<le> int (length lines)"
  shows "\<exists>S' hs. place_lines P title lines offset S = Some S' \<and> below title hs (drop (nat offset) lines)
    \<and> holds P title S' (rd @ hs)"
  using assms(2-)
proof (induction "nat (int (length lines) - offset)" arbitrary: offset S rd rule: less_induct)
  case less
  show ?case
  proof (cases "offset < int (length lines)")
    case False
    then show ?thesis using less.prems by (subst place_lines.simps) (auto intro!: exI [of _ "[]"])
  next
    case True
    define S1 where "S1 = (if available P S < 1 then next_column title S else S)"
    define n where "n = min (available P S1) (int (length lines) - offset)"
    define ls where "ls = take (nat n) (drop (nat offset) lines)"
    define S2 where "S2 = add_block (Entry ls) S1"
    define S3 where "S3 = (if offset + n < int (length lines) then next_column title S2 else S2)"
    have room: "1 \<le> available P S1" using available_next_column [OF assms(1)] by (simp add: S1_def)
    then have n: "1 \<le> n" "n \<le> available P S1" "offset + n \<le> int (length lines)" using True by (auto simp: n_def)
    have len: "int (length ls) = n" using n less.prems by (simp add: ls_def)
    have "holds P title S1 rd" using less.prems holds_next_column [OF assms(1)] by (simp add: S1_def)
    then obtain hs where hs: "below title hs ls" "holds P title S2 (rd @ hs)"
      using holds_add_entry [of P title S1 rd ls] n len unfolding S2_def by auto
    have "holds P title S3 (rd @ hs)" using hs(2) holds_next_column [OF assms(1)] by (simp add: S3_def)
    then obtain S' hs' where r: "place_lines P title lines (offset + n) S3 = Some S'"
        "below title hs' (drop (nat (offset + n)) lines)" "holds P title S' ((rd @ hs) @ hs')"
      using less.hyps [of "offset + n" S3 "rd @ hs"] n less.prems by auto
    have slice: "py_slice lines offset (offset + n) = ls"
      unfolding ls_def using n less.prems by (intro slice_within) auto
    have "place_lines P title lines offset S = Some S'"
      using place_lines_step [OF True S1_def n_def _ S3_def] r(1) by (simp add: S2_def slice)
    moreover have "ls @ drop (nat (offset + n)) lines = drop (nat offset) lines"
      using n less.prems by (simp add: ls_def nat_add_distrib flip: drop_drop) (metis add.commute append_take_drop_id drop_drop)
    ultimately show ?thesis using below_append [OF hs(1) r(2)] r(3) by (metis append_assoc)
  qed
qed

lemma place_entries_ok:
  assumes "roomy P" "holds P title S rd"
  shows "\<exists>S' hs. place_entries P title es S = Some S' \<and> below title hs (concat (map (entry_lines P) es))
    \<and> holds P title S' (rd @ hs)"
  using assms(2)
proof (induction es arbitrary: S rd)
  case Nil
  then show ?case by (auto intro!: exI [of _ "[]"])
next
  case (Cons e es)
  obtain S' hs where s: "place_lines P title (entry_lines P e) 0 S = Some S'" "below title hs (entry_lines P e)"
      "holds P title S' (rd @ hs)"
    using place_lines_ok [OF assms(1) Cons.prems, of 0 "entry_lines P e"] by auto
  obtain S'' hs' where t: "place_entries P title es S' = Some S''" "below title hs' (concat (map (entry_lines P) es))"
      "holds P title S'' ((rd @ hs) @ hs')"
    using Cons.IH [OF s(3)] by blast
  show ?case using below_append [OF s(2) t(2)] s(1) t(1,3) by (intro exI [of _ S''] exI [of _ "hs @ hs'"]) simp
qed

text \<open>The lines of the sections, part by part.\<close>

definition placed :: "pdf \<Rightarrow> (string option \<times> string) list \<Rightarrow> (string \<times> string list) list \<Rightarrow> bool" where
  "placed P rd sections \<longleftrightarrow> (\<exists>parts. rd = concat parts
     \<and> list_all2 (\<lambda>hs (title, entries). below title hs (concat (map (entry_lines P) entries))) parts sections)"

lemma start_section_holds:
  assumes "roomy P" "filled P S cols col"
  shows "holds P title (start_section P title S) (reading (cols @ [col]))"
proof (cases "DETAIL_CONTENT_H P - used S < DETAIL_SECTION_H + DETAIL_LEADING * 2")
  case True
  have "filled P (start_section P title S) (cols @ [col]) [Section title]"
    using filled_add [OF filled_advance [OF assms(2) roomy_content(1) [OF assms(1)]], of "Section title"] True
      roomy_content(2) [OF assms(1)] by (simp add: start_section_def)
  moreover have "reading ((cols @ [col]) @ [[Section title]]) = reading (cols @ [col])" by simp
  ultimately show ?thesis unfolding holds_def by fastforce
next
  case False
  then have "filled P (start_section P title S) cols (col @ [Section title])"
    using filled_add [OF assms(2), of "Section title"] by (simp add: start_section_def DETAIL_LEADING_def)
  moreover have "reading (cols @ [col @ [Section title]]) = reading (cols @ [col])" by simp
  ultimately show ?thesis unfolding holds_def by fastforce
qed

lemma place_sections_ok:
  assumes "roomy P" "filled P S cols col"
  shows "\<exists>S' cols' col' rd. place_sections P sections S = Some S' \<and> filled P S' cols' col'
    \<and> reading (cols' @ [col']) = reading (cols @ [col]) @ rd \<and> placed P rd sections"
  using assms(2)
proof (induction sections arbitrary: S cols col)
  case Nil
  have "placed P [] []" by (auto simp: placed_def)
  then show ?case using Nil by (intro exI [of _ S] exI [of _ cols] exI [of _ col] exI [of _ "[]"]) simp
next
  case (Cons sec sections)
  obtain title entries where sec: "sec = (title, entries)" by (cases sec)
  obtain S' hs where s: "place_entries P title entries (start_section P title S) = Some S'"
      "below title hs (concat (map (entry_lines P) entries))" "holds P title S' (reading (cols @ [col]) @ hs)"
    using place_entries_ok [OF assms(1) start_section_holds [OF assms(1) Cons.prems]] by blast
  obtain cols' col' where f: "filled P S' cols' col'" "reading (cols' @ [col']) = reading (cols @ [col]) @ hs"
    using s(3) unfolding holds_def by blast
  obtain S'' cols'' col'' rd where t: "place_sections P sections S' = Some S''" "filled P S'' cols'' col''"
      "reading (cols'' @ [col'']) = reading (cols' @ [col']) @ rd" "placed P rd sections"
    using Cons.IH [OF f(1)] by blast
  obtain parts where "rd = concat parts"
      "list_all2 (\<lambda>hs (title, entries). below title hs (concat (map (entry_lines P) entries))) parts sections"
    using t(4) unfolding placed_def by blast
  then have "placed P (hs @ rd) (sec # sections)"
    unfolding placed_def using s(2) sec by (intro exI [of _ "hs # parts"]) simp
  then show ?case using s(1) t f(2) sec by (intro exI [of _ S''] exI [of _ cols''] exI [of _ col''] exI [of _ "hs @ rd"]) simp
qed

lemma filled_start: "0 \<le> DETAIL_CONTENT_H P \<Longrightarrow> filled P layout_start [] []"
  using shape_start by (simp add: filled_def column_ok_def column_height_def layout_start_def)

lemma layout_ok:
  assumes "roomy P"
  obtains pgs where "layout_detail_sections P sections = Some pgs" "pgs \<noteq> []" "list_all (\<lambda>p. length p = DETAIL_COLS) pgs"
    "list_all (list_all (column_ok P)) pgs" "placed P (reading (concat pgs)) sections"
proof -
  obtain S cols col rd where s: "place_sections P sections layout_start = Some S" "filled P S cols col"
      "reading (cols @ [col]) = reading ([] @ [[]]) @ rd" "placed P rd sections"
    using place_sections_ok [OF assms filled_start [OF roomy_content(1) [OF assms]]] by blast
  have sh: "shape S cols col" and ok: "list_all (column_ok P) (cols @ [col])" using s(2) by (simp_all add: filled_def)
  obtain k where k: "concat (pages S) = cols @ col # replicate k []" using shape_columns [OF sh] by blast
  have empty: "column_ok P []" using roomy_content(1) [OF assms] by (simp add: column_ok_def column_height_def)
  have "list_all (column_ok P) (concat (pages S))" unfolding k using ok empty by (auto simp: list_all_iff)
  then have "list_all (list_all (column_ok P)) (pages S)" by (auto simp: list_all_iff)
  moreover have "reading (concat (pages S)) = rd" unfolding k using s(3) by simp
  moreover have "layout_detail_sections P sections = Some (pages S)" by (simp add: layout_detail_sections_def s(1))
  ultimately show ?thesis using that [of "pages S"] s(4) shape_pages [OF sh] by (simp add: DETAIL_COLS_def)
qed


section \<open>Pages without room\<close>

text \<open>
  Without room for a heading and one line the inner loop never ends: a new column has no line
  available, so that nothing is placed and the position does not advance.
\<close>

lemma available_none:
  assumes "\<not> roomy P" "DETAIL_SECTION_H \<le> used S"
  shows "available P S < 1"
  using assms by (simp add: available_def floor_less_iff roomy_def DETAIL_LEADING_def pos_divide_less_eq)

lemma height_nonneg [simp]: "0 \<le> height b"
  by (cases b) (simp_all add: DETAIL_SECTION_H_def DETAIL_LEADING_def)

lemma used_next_column [simp]: "used (next_column title S) = DETAIL_SECTION_H"
  by (simp add: next_column_def)

lemma place_lines_stuck:
  assumes "\<not> roomy P" "DETAIL_SECTION_H \<le> used S" "offset < int (length lines)"
  shows "place_lines P title lines offset S = None"
proof -
  let ?Q = "\<lambda>((((P, _), lines), offset), S) _. \<not> roomy P \<longrightarrow> DETAIL_SECTION_H \<le> used S \<longrightarrow> \<not> offset < int (length lines)"
  have "?Q ((((P, title), lines), offset), S) S'" if "place_lines P title lines offset S = Some S'" for S'
  proof (rule place_lines.raw_induct [of ?Q, OF _ that], unfold prod.case, intro impI notI)
    fix f P title lines offset S S'
    assume IH: "\<And>P title lines offset S S'. f P title lines offset S = Some S' \<Longrightarrow>
        \<not> roomy P \<longrightarrow> DETAIL_SECTION_H \<le> used S \<longrightarrow> \<not> offset < int (length lines)"
      and step: "(if offset < int (length lines) then
        (let S = (if available P S < 1 then next_column title S else S);
             n = min (available P S) (int (length lines) - offset);
             S = add_block (Entry (py_slice lines offset (offset + n))) S;
             S = (if offset + n < int (length lines) then next_column title S else S)
         in f P title lines (offset + n) S)
      else Some S) = Some S'"
      and inv: "\<not> roomy P" "DETAIL_SECTION_H \<le> used S" "offset < int (length lines)"
    define n where "n = min (available P (next_column title S)) (int (length lines) - offset)"
    define S2 where "S2 = add_block (Entry (py_slice lines offset (offset + n))) (next_column title S)"
    have "available P S < 1" using available_none inv by blast
    moreover have n: "offset + n < int (length lines)"
      using available_none [OF inv(1), of "next_column title S"] inv(3) by (simp add: n_def)
    ultimately have "f P title lines (offset + n) (next_column title S2) = Some S'"
      using step inv(3) unfolding Let_def S2_def n_def by (simp only: if_True)
    then show False using IH inv(1) n by (metis order_refl used_next_column)
  qed
  then show ?thesis using assms by fastforce
qed

lemma entry_lines_not_Nil [simp]: "entry_lines P e \<noteq> []"
  by (simp add: entry_lines_def Let_def)

lemma place_sections_stuck:
  "\<not> roomy P \<Longrightarrow> 0 \<le> used S \<Longrightarrow> list_ex (\<lambda>(_, entries). entries \<noteq> []) sections \<Longrightarrow> place_sections P sections S = None"
proof (induction sections arbitrary: S)
  case (Cons sec sections)
  note prems = Cons.prems
  obtain title entries where sec: "sec = (title, entries)" by (cases sec)
  have used: "DETAIL_SECTION_H \<le> used (start_section P title S)" using Cons.prems(2) by (simp add: start_section_def)
  show ?case
  proof (cases entries)
    case Nil
    then show ?thesis using Cons used by (simp add: sec DETAIL_SECTION_H_def)
  next
    case (Cons e es)
    then show ?thesis using place_lines_stuck [OF prems(1) used] by (simp add: sec)
  qed
qed simp

text \<open>So the layout returns exactly when there is room, or nothing to place.\<close>

lemma place_sections_empty: "list_all (\<lambda>(_, entries). entries = []) sections \<Longrightarrow> \<exists>S'. place_sections P sections S = Some S'"
  by (induction sections arbitrary: S) auto

lemma layout_returns_iff:
  "(\<exists>pgs. layout_detail_sections P sections = Some pgs) \<longleftrightarrow> roomy P \<or> list_all (\<lambda>(_, entries). entries = []) sections"
proof (cases "roomy P")
  case True
  then show ?thesis using layout_ok [of P sections] by blast
next
  case False
  have "list_ex (\<lambda>(_, entries). entries \<noteq> []) sections \<longleftrightarrow> \<not> list_all (\<lambda>(_, entries). entries = []) sections"
    by (auto simp: list_ex_iff list_all_iff)
  then show ?thesis using False place_sections_stuck [OF False, of layout_start sections] place_sections_empty [of sections P layout_start]
    by (auto simp: layout_detail_sections_def layout_start_def)
qed

end
