(* ===== verification/DataProfiles.thy ===== *)
theory DataProfiles
  imports RegistryTables
begin

text \<open>
  The data profiles of \<^verbatim>\<open>_data_profile\<close> (what can be computed from the data at hand, what is
  missing, what that blocks), the external-data contract of a card, its study dates and the
  blockers that concern the signal alone.
\<close>


section \<open>Profiles\<close>

record can_compute =
  signal_event :: string
  conditional_markout :: string
  strict_fill :: string
  fee_after_shadow_pnl :: string
  settlement_pnl :: string
  realized_pnl :: string

record data =
  inputs :: "string list"
  can_compute_now :: can_compute
  currently_calculable :: string
  missing :: "string list"
  acquisition_paths :: "string list"
  data_blockers :: "string list"

definition data_L1 :: data where
  "data_L1 = \<lparr>
    inputs = [''KALSHI_L1'', ''PUBLIC_TRADES'', ''CATALOG''],
    can_compute_now = \<lparr>signal_event = ''YES'', conditional_markout = ''YES'', strict_fill = ''PARTIAL'',
      fee_after_shadow_pnl = ''NO'', settlement_pnl = ''NO'', realized_pnl = ''NO''\<rparr>,
    currently_calculable = ''8 exact V3 dates can describe L1/trade signal incidence and conditional markout; this is not executable PnL.'',
    missing = [
      ''strategy-specific stateful strict-fill replay'',
      ''versioned exact fee/rounding at each simulated fill'',
      ''measured placement/cancel/exit latency'',
      ''untouched quality dates for validation''],
    acquisition_paths = [
      ''existing sealed Kalshi L1/trade pipeline'',
      ''shadow engine actual decision and order-state ledgers'',
      ''Kalshi private fills for later micro-live reconciliation''],
    data_blockers = [
      ''FILL_MODEL_MISSING'',
      ''FEE_UNKNOWN'',
      ''LATENCY_UNMEASURED'',
      ''INSUFFICIENT_QUALITY_DATES'']\<rparr>"

definition data_L2 :: data where
  "data_L2 = \<lparr>
    inputs = [''SEQUENCE_VALID_KALSHI_L2'', ''KALSHI_L1'', ''PUBLIC_TRADES''],
    can_compute_now = \<lparr>signal_event = ''YES'', conditional_markout = ''YES'', strict_fill = ''PARTIAL'',
      fee_after_shadow_pnl = ''NO'', settlement_pnl = ''NO'', realized_pnl = ''NO''\<rparr>,
    currently_calculable = ''Depth/refill/retreat signals are descriptive on clean dates 2026-07-12, 2026-07-15 and 2026-07-17 only.'',
    missing = [
      ''own queue position and order acknowledgements'',
      ''strategy-specific strict-fill and cancel-race replay'',
      ''exact fees, latency and at least 20 independent clean days''],
    acquisition_paths = [
      ''continue sequence-valid L2 capture and daily quality receipts'',
      ''own-order shadow/micro-live calibration'',
      ''private order/fill/cancel acknowledgement ledger''],
    data_blockers = [
      ''OWN_ORDER_CALIBRATION_MISSING'',
      ''FILL_MODEL_MISSING'',
      ''FEE_UNKNOWN'',
      ''LATENCY_UNMEASURED'',
      ''INSUFFICIENT_QUALITY_DATES'']\<rparr>"

definition data_L1_L2 :: data where
  "data_L1_L2 = \<lparr>
    inputs = [''KALSHI_L1'', ''PUBLIC_TRADES'', ''SEQUENCE_VALID_KALSHI_L2'', ''CATALOG''],
    can_compute_now = \<lparr>signal_event = ''YES'', conditional_markout = ''YES'', strict_fill = ''PARTIAL'',
      fee_after_shadow_pnl = ''NO'', settlement_pnl = ''NO'', realized_pnl = ''NO''\<rparr>,
    currently_calculable = ''L1 signal and 3-clean-day L2 mechanism measurements; no own-order, fee-after or realized PnL.'',
    missing = [
      ''own fills/queue/cancel-effective state'',
      ''exact fee and latency path'',
      ''additional clean L2 dates''],
    acquisition_paths = [
      ''existing L1/L2 collectors'',
      ''stateful shadow order ledger'',
      ''private fills and acknowledgements after separate authority''],
    data_blockers = [
      ''OWN_ORDER_CALIBRATION_MISSING'',
      ''FILL_MODEL_MISSING'',
      ''FEE_UNKNOWN'',
      ''LATENCY_UNMEASURED'',
      ''INSUFFICIENT_QUALITY_DATES'']\<rparr>"

definition data_L1_PRIVATE :: data where
  "data_L1_PRIVATE = \<lparr>
    inputs = [
      ''KALSHI_L1'',
      ''PUBLIC_TRADES'',
      ''CATALOG'',
      ''FROZEN_PAST_ONLY_FAIR_AND_VOLATILITY'',
      ''PRIVATE_ACCOUNT_ORDERS_POSITIONS_FILLS''],
    can_compute_now = \<lparr>signal_event = ''NO'', conditional_markout = ''PARTIAL'', strict_fill = ''NO'',
      fee_after_shadow_pnl = ''NO'', settlement_pnl = ''NO'', realized_pnl = ''NO''\<rparr>,
    currently_calculable = ''Public L1/trades can produce candidate fair and volatility features, but the reservation-skew signal is not observable without authoritative point-in-time own inventory and orders.'',
    missing = [
      ''authoritative point-in-time position and resting-order exposure'',
      ''immutable child maker definition and fair/volatility specification'',
      ''own order acknowledgements, fills, fees and reconciliation''],
    acquisition_paths = [
      ''existing sealed Kalshi L1/trade/catalog pipeline'',
      ''read-only private positions/open-orders/fills snapshots'',
      ''system-owned shadow order ledger with frozen fair/volatility model''],
    data_blockers = [
      ''PRIVATE_ACCOUNT_STATE_MISSING'',
      ''OWN_ORDER_CALIBRATION_MISSING'',
      ''FILL_MODEL_MISSING'',
      ''FEE_UNKNOWN'',
      ''LATENCY_UNMEASURED'',
      ''INSUFFICIENT_QUALITY_DATES'']\<rparr>"

definition data_FAMILY :: data where
  "data_FAMILY = \<lparr>
    inputs = [''CATALOG'', ''FAMILY_MAP'', ''KALSHI_L1'', ''KALSHI_L2''],
    can_compute_now = \<lparr>signal_event = ''PARTIAL'', conditional_markout = ''PARTIAL'', strict_fill = ''NO'',
      fee_after_shadow_pnl = ''NO'', settlement_pnl = ''NO'', realized_pnl = ''NO''\<rparr>,
    currently_calculable = ''Market-graph price residuals are monitors only; the prior B03 run found zero payout-exhaustive, fill-feasible candidates.'',
    missing = [
      ''authoritative exhaustive payout-state mapping'',
      ''all-leg exact fees and synchronized executable depth'',
      ''partial-leg/orphan unwind engine''],
    acquisition_paths = [
      ''Kalshi catalog/market rules and settlement metadata'',
      ''manual-plus-machine audited payout mapping'',
      ''stateful multi-leg shadow engine and private fills''],
    data_blockers = [
      ''PAYOUT_EXHAUSTIVENESS_MISSING'',
      ''MULTI_LEG_ENGINE_MISSING'',
      ''FEE_UNKNOWN'']\<rparr>"

definition data_TERMINAL :: data where
  "data_TERMINAL = \<lparr>
    inputs = [''KALSHI_L1'', ''CATALOG'', ''SETTLEMENT_AND_LIFECYCLE''],
    can_compute_now = \<lparr>signal_event = ''PARTIAL'', conditional_markout = ''YES'', strict_fill = ''PARTIAL'',
      fee_after_shadow_pnl = ''NO'', settlement_pnl = ''PARTIAL'', realized_pnl = ''NO''\<rparr>,
    currently_calculable = ''Price/lifecycle paths are observable; terminal coverage is not yet exact-release-bound and exhaustive for every legal state.'',
    missing = [
      ''100% resolved/void/retire/postpone terminal state coverage'',
      ''exact fill selection and fees'',
      ''capital-hours and residual inventory reconciliation''],
    acquisition_paths = [
      ''Kalshi settlements and lifecycle APIs captured append-only'',
      ''versioned market rules and settlement-source mapping'',
      ''private fills for realized reconciliation''],
    data_blockers = [''SETTLEMENT_MISSING'', ''FILL_MODEL_MISSING'', ''FEE_UNKNOWN'']\<rparr>"

definition data_RFQ_PUBLIC :: data where
  "data_RFQ_PUBLIC = \<lparr>
    inputs = [''FRESH_RFQ_CREATED_DELETED'', ''KALSHI_L1'', ''KALSHI_L2''],
    can_compute_now = \<lparr>signal_event = ''NO'', conditional_markout = ''NO'', strict_fill = ''NO'',
      fee_after_shadow_pnl = ''NO'', settlement_pnl = ''NO'', realized_pnl = ''NO''\<rparr>,
    currently_calculable = ''Code for D01-D07 exists, but the unified durable release chain has not produced a locally available eligible RFQ result.'',
    missing = [
      ''eligible fresh exact-version RFQ releases'',
      ''same-date exact CLOB joins'',
      ''own CLOB order counterfactual for risk-off PnL''],
    acquisition_paths = [
      ''finish RFQ unified seal/verify/release chain'',
      ''run D01-D07 against same-date L1/L2'',
      ''capture own shadow maker order state''],
    data_blockers = [
      ''RFQ_PUBLIC_DATA_UNRELEASED'',
      ''FILL_MODEL_MISSING'',
      ''LATENCY_UNMEASURED'']\<rparr>"

definition data_RFQ_PRIVATE :: data where
  "data_RFQ_PRIVATE = \<lparr>
    inputs = [
      ''FRESH_RFQ_CREATED_DELETED'',
      ''PRIVATE_QUOTE_ACCEPT_CONFIRM_EXECUTE'',
      ''PRIVATE_FILLS_FEES'',
      ''KALSHI_L2''],
    can_compute_now = \<lparr>signal_event = ''NO'', conditional_markout = ''NO'', strict_fill = ''NO'',
      fee_after_shadow_pnl = ''NO'', settlement_pnl = ''NO'', realized_pnl = ''NO''\<rparr>,
    currently_calculable = ''Public RFQ create/delete cannot establish direction, acceptance, fill, fee, inventory, hedge or realized PnL.'',
    missing = [
      ''separate RFQ quote-write authority'',
      ''private accepted_side/confirm/executed lifecycle'',
      ''quote-to-fill correlation, exact fees and hedge depth''],
    acquisition_paths = [
      ''separately authorized RFQ shadow/micro-live participant'',
      ''communications private events'',
      ''Kalshi portfolio fills and position/settlement reconciliation''],
    data_blockers = [
      ''RFQ_PUBLIC_DATA_UNRELEASED'',
      ''RFQ_PRIVATE_EVENTS_MISSING'',
      ''VENUE_PERMISSION_MISSING'',
      ''FEE_UNKNOWN'',
      ''LATENCY_UNMEASURED'']\<rparr>"

definition data_MVE_PRIVATE :: data where
  "data_MVE_PRIVATE = \<lparr>
    inputs = [
      ''EXACT_VERSION_MVE_CATALOG_AND_RULES'',
      ''AUDITED_MVE_LEG_ORIENTATION_AND_PAYOUT_MATRIX'',
      ''PRIVATE_MVE_PACKAGE_ORDER_ACK_FILL_FEE'',
      ''PRIVATE_LEG_FILLS_POSITIONS_AND_SETTLEMENT'',
      ''SEQUENCE_VALID_KALSHI_L2''],
    can_compute_now = \<lparr>signal_event = ''NO'', conditional_markout = ''NO'', strict_fill = ''NO'',
      fee_after_shadow_pnl = ''NO'', settlement_pnl = ''NO'', realized_pnl = ''NO''\<rparr>,
    currently_calculable = ''No admitted private MVE package lifecycle, exact leg/payout mapping, or package-to-position reconciliation is bound. RFQ public/private events are not an MVE substitute.'',
    missing = [
      ''exact-version MVE catalog, leg orientation and payout matrix'',
      ''private MVE package submit/ack/cancel/fill/fee lifecycle'',
      ''synchronized hedge-leg L2, fills, positions and settlement''],
    acquisition_paths = [
      ''capture the admitted MVE catalog and rules append-only'',
      ''separately authorized private MVE execution/shadow receipts'',
      ''join package and leg events to positions, fees and settlements''],
    data_blockers = [
      ''MVE_PRIVATE_EVENTS_MISSING'',
      ''INSTRUMENT_MAPPING_UNKNOWN'',
      ''PAYOUT_EXHAUSTIVENESS_MISSING'',
      ''MULTI_LEG_ENGINE_MISSING'',
      ''VENUE_PERMISSION_MISSING'',
      ''FEE_UNKNOWN'',
      ''LATENCY_UNMEASURED'']\<rparr>"

definition data_EXTERNAL :: data where
  "data_EXTERNAL = \<lparr>
    inputs = [''EXTERNAL_SPORTS_ASOF'', ''KALSHI_L1'', ''KALSHI_L2''],
    can_compute_now = \<lparr>signal_event = ''NO'', conditional_markout = ''NO'', strict_fill = ''NO'',
      fee_after_shadow_pnl = ''NO'', settlement_pnl = ''NO'', realized_pnl = ''NO''\<rparr>,
    currently_calculable = ''No score, serve, injury, lineup or external-odds feed is present in the exact DeepResearch data. Price proxies are forbidden.'',
    missing = [
      ''licensed direct sports/odds source'',
      ''source event timestamp and local receive clocks'',
      ''versioned event/market mapping and point-in-time snapshots''],
    acquisition_paths = [
      ''append-only Kalshi Milestones/Live Data capture for direct labels'',
      ''licensed provider historical backfill where point-in-time semantics exist'',
      ''forward commercial real-time feed with raw bytes and dual receive clocks''],
    data_blockers = [
      ''EXTERNAL_SPORTS_DATA_MISSING'',
      ''EXTERNAL_API_UNVERIFIED'',
      ''TIMESTAMP_SEMANTICS_UNKNOWN'']\<rparr>"

definition data_CATALOG :: data where
  "data_CATALOG = \<lparr>
    inputs = [''KALSHI_CATALOG_AND_MARKET_RULES''],
    can_compute_now = \<lparr>signal_event = ''PARTIAL'', conditional_markout = ''NO'', strict_fill = ''NO'',
      fee_after_shadow_pnl = ''NO'', settlement_pnl = ''NO'', realized_pnl = ''NO''\<rparr>,
    currently_calculable = ''Schema/coverage only; no action or cash PnL.'',
    missing = [''versioned semantics for any unsupported instrument''],
    acquisition_paths = [''Kalshi public catalog/rules captured by exact version''],
    data_blockers = []\<rparr>"

definition data_MODEL :: data where
  "data_MODEL = \<lparr>
    inputs = [''OWNER_EXPERIMENT_FEATURES_AND_LABEL''],
    can_compute_now = \<lparr>signal_event = ''PARTIAL'', conditional_markout = ''PARTIAL'', strict_fill = ''NO'',
      fee_after_shadow_pnl = ''NO'', settlement_pnl = ''NO'', realized_pnl = ''NO''\<rparr>,
    currently_calculable = ''Chronological forecast comparisons are possible only after a specific owner, label and split are bound; a model is not a strategy.'',
    missing = [
      ''one owner experiment with frozen action and outcome label'',
      ''nested chronological split and simple-model baseline'',
      ''owner execution PnL''],
    acquisition_paths = [''create a separate G-method x owner experiment revision''],
    data_blockers = [''ACTION_INCOMPLETE'']\<rparr>"

definition data_META :: data where
  "data_META = \<lparr>
    inputs = [''CONFIRMED_CHILD_STRATEGY_OUTPUTS'', ''COMMON_ROOT_LEDGER''],
    can_compute_now = \<lparr>signal_event = ''PARTIAL'', conditional_markout = ''NO'', strict_fill = ''NO'',
      fee_after_shadow_pnl = ''NO'', settlement_pnl = ''NO'', realized_pnl = ''NO''\<rparr>,
    currently_calculable = ''Overlap/covariance descriptions are possible; a router or portfolio PnL is not estimable without confirmed children.'',
    missing = [
      ''at least one or two confirmed child strategies as applicable'',
      ''joint root-deduped execution and capital ledger'',
      ''switch/overlap/correlation costs''],
    acquisition_paths = [
      ''complete child confirmation first'',
      ''joint shadow replay with shared order/risk ledger''],
    data_blockers = [''CONFIRMED_CHILD_STRATEGIES_MISSING'']\<rparr>"

definition data_PRIVATE :: data where
  "data_PRIVATE = \<lparr>
    inputs = [''PRIVATE_ACCOUNT_ORDERS_POSITIONS_FILLS''],
    can_compute_now = \<lparr>signal_event = ''NO'', conditional_markout = ''NO'', strict_fill = ''NO'',
      fee_after_shadow_pnl = ''NO'', settlement_pnl = ''NO'', realized_pnl = ''NO''\<rparr>,
    currently_calculable = ''Public research data cannot establish account ownership conflicts.'',
    missing = [
      ''private open-order/position/fill ownership state'',
      ''manual/system precedence and STP receipts''],
    acquisition_paths = [
      ''read-only private account snapshots'',
      ''system-owned order registry and reconciliation ledger''],
    data_blockers = [''PRIVATE_ACCOUNT_STATE_MISSING'']\<rparr>"

definition data_OUT_OF_SCOPE :: data where
  "data_OUT_OF_SCOPE = \<lparr>
    inputs = [],
    can_compute_now = \<lparr>signal_event = ''NO'', conditional_markout = ''NO'', strict_fill = ''NO'',
      fee_after_shadow_pnl = ''NO'', settlement_pnl = ''NO'', realized_pnl = ''NO''\<rparr>,
    currently_calculable = ''No computation in the current Sports program.'',
    missing = [''separate program authority and registry lineage''],
    acquisition_paths = [''new operator-approved program, if ever desired''],
    data_blockers = [''OUT_OF_SCOPE_CURRENT_PROGRAM'']\<rparr>"

definition data_INTERNAL_CONTROL :: data where
  "data_INTERNAL_CONTROL = \<lparr>
    inputs = [''INTERNAL_SEALED_RESEARCH_DATA''],
    can_compute_now = \<lparr>signal_event = ''PARTIAL'', conditional_markout = ''PARTIAL'', strict_fill = ''NO'',
      fee_after_shadow_pnl = ''NO'', settlement_pnl = ''NO'', realized_pnl = ''NO''\<rparr>,
    currently_calculable = ''Diagnostic/control statistic only; no trading action.'',
    missing = [],
    acquisition_paths = [''existing sealed research releases''],
    data_blockers = []\<rparr>"

definition data_OWNER_EVPI :: data where
  "data_OWNER_EVPI = \<lparr>
    inputs = [
      ''IMMUTABLE_OWNER_CARD_ID_REVISION_DEFINITION_SHA'',
      ''OWNER_DECISION_AND_OPPORTUNITY_LEDGER'',
      ''FROZEN_OWNER_LOSS_FUNCTIONAL'',
      ''FROZEN_NON_CAUSAL_FUTURE_ORACLE_RULE'',
      ''KALSHI_L1'',
      ''PUBLIC_TRADES'',
      ''SEQUENCE_VALID_KALSHI_L2'',
      ''CATALOG''],
    can_compute_now = \<lparr>signal_event = ''NO'', conditional_markout = ''NO'', strict_fill = ''NO'',
      fee_after_shadow_pnl = ''NO'', settlement_pnl = ''NO'', realized_pnl = ''NO''\<rparr>,
    currently_calculable = ''The future L1/L2 path exists, but EVPI is undefined until an immutable eligible owner card, its actual decision/opportunity ledger, loss functional and oracle rule are frozen.'',
    missing = [
      ''confirmed immutable owner card ID, revision and definition SHA'',
      ''owner decision/opportunity ledger including abstentions and zeros'',
      ''frozen loss functional and non-causal future-oracle rule''],
    acquisition_paths = [
      ''confirm an eligible owner experiment first'',
      ''seal the owner's shadow decision/opportunity ledger by exact release'',
      ''preregister loss and oracle functions before future-path evaluation''],
    data_blockers = [''CONFIRMED_CHILD_STRATEGIES_MISSING'']\<rparr>"

definition data_profiles :: "(string \<times> data) list" where
  "data_profiles = [
    (''L1'', data_L1),
    (''L2'', data_L2),
    (''L1_L2'', data_L1_L2),
    (''L1_PRIVATE'', data_L1_PRIVATE),
    (''FAMILY'', data_FAMILY),
    (''TERMINAL'', data_TERMINAL),
    (''RFQ_PUBLIC'', data_RFQ_PUBLIC),
    (''RFQ_PRIVATE'', data_RFQ_PRIVATE),
    (''MVE_PRIVATE'', data_MVE_PRIVATE),
    (''EXTERNAL'', data_EXTERNAL),
    (''CATALOG'', data_CATALOG),
    (''MODEL'', data_MODEL),
    (''META'', data_META),
    (''PRIVATE'', data_PRIVATE),
    (''OUT_OF_SCOPE'', data_OUT_OF_SCOPE),
    (''INTERNAL_CONTROL'', data_INTERNAL_CONTROL),
    (''OWNER_EVPI'', data_OWNER_EVPI)]"

definition data_profile :: "string \<Rightarrow> data res" where
  "data_profile name = (case map_of data_profiles name of None \<Rightarrow> Inl KeyError | Some d \<Rightarrow> Inr d)"

definition can_compute_json :: "can_compute \<Rightarrow> json" where
  "can_compute_json c = dict_of [
    (''signal_event'', JStr (signal_event c)),
    (''conditional_markout'', JStr (conditional_markout c)),
    (''strict_fill'', JStr (strict_fill c)),
    (''fee_after_shadow_pnl'', JStr (fee_after_shadow_pnl c)),
    (''settlement_pnl'', JStr (settlement_pnl c)),
    (''realized_pnl'', JStr (realized_pnl c))]"

definition data_fields :: "data \<Rightarrow> fields" where
  "data_fields d = [
    (''inputs'', jstrs (inputs d)),
    (''can_compute_now'', can_compute_json (can_compute_now d)),
    (''currently_calculable'', JStr (currently_calculable d)),
    (''missing'', jstrs (missing d)),
    (''acquisition_paths'', jstrs (acquisition_paths d)),
    (''blockers'', jstrs (data_blockers d))]"

section \<open>External sports data\<close>

text \<open>
  The external-data contract of a card (\<^verbatim>\<open>_external_contract\<close>).  The source sets
  \<^verbatim>\<open>approved_source\<close> to \<^verbatim>\<open>None\<close> on every branch, so it is not a field of the record.
\<close>

record external =
  ext_dependency :: string
  availability :: string
  required_variables :: "string list"
  provider_candidates :: "string list"
  asof_clock_status :: string
  license_status :: string
  historical_backfill_status :: string
  missing_policy :: string
  proxy_policy :: string
  ext_blockers :: "string list"

definition external_variables_or :: "string \<Rightarrow> string list \<Rightarrow> string list" where
  "external_variables_or atomic_id dflt =
     (case map_of EXTERNAL_VARIABLES_BY_EXPERIMENT atomic_id of None \<Rightarrow> dflt | Some vs \<Rightarrow> vs)"

definition append_new :: "string list \<Rightarrow> string list \<Rightarrow> string list" where
  "append_new xs vs = fold (\<lambda>x acc. if x \<in> set acc then acc else acc @ [x]) xs vs"

definition external_contract :: "string \<Rightarrow> string \<Rightarrow> external res" where
  "external_contract dep atomic_id =
    (if dep = ''NOT_REQUIRED'' then Inr \<lparr>
       ext_dependency = dep,
       availability = ''NOT_APPLICABLE'',
       required_variables = [],
       provider_candidates = [],
       asof_clock_status = ''NOT_APPLICABLE'',
       license_status = ''NOT_APPLICABLE'',
       historical_backfill_status = ''NOT_APPLICABLE'',
       missing_policy = ''NOT_APPLICABLE'',
       proxy_policy = ''PRICE_IS_NOT_SPORT_STATE'',
       ext_blockers = []\<rparr>
     else if dep = ''OPTIONAL_REFINEMENT'' then Inr \<lparr>
       ext_dependency = dep,
       availability = ''MISSING_OPTIONAL_REFINEMENT'',
       required_variables = external_variables_or atomic_id
         [''the explicitly named direct sports-state refinement''],
       provider_candidates = [''KALSHI_MILESTONES_LIVE_DATA'', ''OPTICODDS'', ''SPORTRADAR''],
       asof_clock_status = ''UNVERIFIED'',
       license_status = ''UNVERIFIED'',
       historical_backfill_status = ''UNVERIFIED_POINT_IN_TIME'',
       missing_policy = ''DO_NOT_IMPUTE_CORE_MAY_RUN_WITHOUT_FIELD'',
       proxy_policy = ''The core experiment keeps its internal proxy label and never renames it as actual sports state.'',
       ext_blockers = []\<rparr>
     else if dep = ''REQUIRED'' then Inr \<lparr>
       ext_dependency = dep,
       availability = ''MISSING'',
       required_variables = append_new
         [''provider event/publication timestamp'',
          ''local receive wall clock and monotonic clock'',
          ''versioned provider-event-to-Kalshi root/market/outcome mapping'']
         (external_variables_or atomic_id [''direct event or game state named by the experiment'']),
       provider_candidates = [''KALSHI_MILESTONES_LIVE_DATA'', ''THE_ODDS_API'', ''OPTICODDS'', ''SPORTRADAR''],
       asof_clock_status = ''UNVERIFIED'',
       license_status = ''UNVERIFIED'',
       historical_backfill_status = ''UNVERIFIED_POINT_IN_TIME'',
       missing_policy = ''BLOCK_NO_IMPUTE'',
       proxy_policy = ''Do not infer score, serve, inning, pitch, injury, lineup, round, cut, or external odds from Kalshi price/order flow.'',
       ext_blockers = [''EXTERNAL_SPORTS_DATA_MISSING'', ''EXTERNAL_API_UNVERIFIED'', ''TIMESTAMP_SEMANTICS_UNKNOWN'']\<rparr>
     else if dep \<in> set [''INHERIT_OWNER'', ''INHERIT_CHILDREN''] then Inr \<lparr>
       ext_dependency = dep,
       availability = ''UNRESOLVED_UNTIL_BINDING'',
       required_variables = [''the exact external-data contract of the bound owner or child card''],
       provider_candidates = [],
       asof_clock_status = ''INHERITED'',
       license_status = ''INHERITED'',
       historical_backfill_status = ''INHERITED'',
       missing_policy = ''BLOCK_IF_BOUND_CARD_REQUIRES_IT'',
       proxy_policy = ''PRICE_IS_NOT_SPORT_STATE'',
       ext_blockers = []\<rparr>
     else Inl (ValueError (''unknown external dependency: '' @ dep)))"

definition external_fields :: "external \<Rightarrow> fields" where
  "external_fields x = [
    (''dependency'', JStr (ext_dependency x)),
    (''availability'', JStr (availability x)),
    (''required_variables'', jstrs (required_variables x)),
    (''approved_source'', JNull),
    (''provider_candidates'', jstrs (provider_candidates x)),
    (''asof_clock_status'', JStr (asof_clock_status x)),
    (''license_status'', JStr (license_status x)),
    (''historical_backfill_status'', JStr (historical_backfill_status x)),
    (''missing_policy'', JStr (missing_policy x)),
    (''proxy_policy'', JStr (proxy_policy x)),
    (''blockers'', jstrs (ext_blockers x))]"


section \<open>Study dates and signal-level blockers\<close>

definition potential_dates :: "string \<Rightarrow> string list" where
  "potential_dates profile =
     (if profile \<in> set [''L2'', ''L1_L2'', ''FAMILY'', ''MVE_PRIVATE'', ''OWNER_EVPI'']
      then L2_ESTIMATOR_CLEAN_DATES else AVAILABLE_RELEASE_DATES)"

definition study_dates :: "string \<Rightarrow> json \<Rightarrow> json" where
  "study_dates profile signal_event_status = dict_of [
    (''available_exact_release_dates'', jstrs AVAILABLE_RELEASE_DATES),
    (''eligible_for_current_signal_description'',
      jstrs (if signal_event_status = JStr ''YES'' then potential_dates profile else [])),
    (''potential_dates_after_remaining_signal_gates_close'',
      jstrs (if signal_event_status = JStr ''PARTIAL'' then potential_dates profile else [])),
    (''signal_event_status'', signal_event_status),
    (''l2_estimator_clean_dates'', jstrs L2_ESTIMATOR_CLEAN_DATES),
    (''quality_rule'', JStr ''L2 estimands use only 2026-07-12/15/17. Damaged L2 dates 2026-07-13/14/16 stay in the coverage ledger only; 2026-07-10/11 are L2-missing. Every experiment re-runs its own input gate.''),
    (''confirmation_status'', JStr ''NO_UNTOUCHED_CONFIRMATION_COHORT_ALLOCATED'')]"

definition signal_level_table :: "(string \<times> string list) list" where
  "signal_level_table = [
    (''RFQ_PUBLIC'', [''RFQ_PUBLIC_DATA_UNRELEASED'']),
    (''RFQ_PRIVATE'', [''RFQ_PUBLIC_DATA_UNRELEASED'', ''RFQ_PRIVATE_EVENTS_MISSING'']),
    (''MVE_PRIVATE'', [''MVE_PRIVATE_EVENTS_MISSING'', ''INSTRUMENT_MAPPING_UNKNOWN'', ''PAYOUT_EXHAUSTIVENESS_MISSING'']),
    (''EXTERNAL'', [''EXTERNAL_SPORTS_DATA_MISSING'', ''EXTERNAL_API_UNVERIFIED'', ''TIMESTAMP_SEMANTICS_UNKNOWN'']),
    (''MODEL'', [''ACTION_INCOMPLETE'']),
    (''META'', [''CONFIRMED_CHILD_STRATEGIES_MISSING'']),
    (''PRIVATE'', [''PRIVATE_ACCOUNT_STATE_MISSING'']),
    (''L1_PRIVATE'', [''PRIVATE_ACCOUNT_STATE_MISSING'']),
    (''OUT_OF_SCOPE'', [''OUT_OF_SCOPE_CURRENT_PROGRAM'']),
    (''OWNER_EVPI'', [''CONFIRMED_CHILD_STRATEGIES_MISSING''])]"

definition signal_level_blockers :: "string \<Rightarrow> string list" where
  "signal_level_blockers profile =
     (case map_of signal_level_table profile of None \<Rightarrow> [] | Some bs \<Rightarrow> bs)"

end
