(* ===== verification/ActionProfiles.thy ===== *)
theory ActionProfiles
  imports RegistryTables
begin

text \<open>
  The action profiles of \<^verbatim>\<open>_action_profile\<close>: what a card would do in the market if it were
  executable.  A profile without an action type defines no action.
\<close>


section \<open>Profiles\<close>

record action =
  action_status :: string
  action_type :: "string list"
  signal_to_action_mapping :: "string option"
  instrument_side :: "string option"
  order_style :: "string option"
  price_rule :: "string option"
  quantity_rule :: "string option"
  timing_and_cancel :: "string option"
  exit_or_settlement :: "string option"
  kill_conditions :: "string list"

definition action_NO_ACTION :: action where
  "action_NO_ACTION = \<lparr>
    action_status = ''NO_ACTION_DEFINED'',
    action_type = [],
    signal_to_action_mapping = None,
    instrument_side = None,
    order_style = None,
    price_rule = None,
    quantity_rule = None,
    timing_and_cancel = None,
    exit_or_settlement = None,
    kill_conditions = []\<rparr>"

definition action_MAKER_SPREAD :: action where
  "action_MAKER_SPREAD = \<lparr>
    action_status = ''DEFINED_FOR_BACKTEST_DESIGN'',
    action_type = [''PLACE_PASSIVE_QUOTE'', ''CANCEL'', ''REPRICE''],
    signal_to_action_mapping = Some ''When the registered eligibility and net-edge trigger is true, place one post-only quote on each permitted side; cancel both when the trigger becomes false, the book gaps, or data is stale.'',
    instrument_side = Some ''TWO_SIDED_YES_NORMALIZED'',
    order_style = Some ''POST_ONLY_LIMIT'',
    price_rule = Some ''registered tick-valid bid/ask offsets from executable book'',
    quantity_rule = Some ''one contract per active side until capacity is proven'',
    timing_and_cancel = Some ''decision clock plus measured placement/cancel latency'',
    exit_or_settlement = Some ''cancel sibling, reconcile, then bounded reduce-only IOC'',
    kill_conditions = [''gap'', ''stale_book'', ''unknown_fee'', ''position_mismatch'']\<rparr>"

definition action_MAKER_FILTER :: action where
  "action_MAKER_FILTER = \<lparr>
    action_status = ''DEFINED_FOR_BACKTEST_DESIGN'',
    action_type = [''CANCEL'', ''REPRICE'', ''RESIZE'', ''CANCEL_AND_REPLACE''],
    signal_to_action_mapping = Some ''Apply the signal as a risk switch to the registered maker: cancel the vulnerable side, widen, or reduce size; restore only after the signal clears and state is reconciled.'',
    instrument_side = Some ''DERIVED_BY_SIGNAL_WITH_BOTH_SIDES_ENUMERATED'',
    order_style = Some ''POST_ONLY_LIMIT_AND_CANCEL'',
    price_rule = Some ''registered maker price plus signal-conditioned safety buffer'',
    quantity_rule = Some ''never exceed the unfiltered baseline inventory cap'',
    timing_and_cancel = Some ''cancel-effective latency is part of treatment'',
    exit_or_settlement = Some ''reconcile residual fills, then reduce-only exit'',
    kill_conditions = [''direction_unknown'', ''cancel_race'', ''gap'', ''stale_book'']\<rparr>"

definition action_MAKER_REFILL :: action where
  "action_MAKER_REFILL = \<lparr>
    action_status = ''DEFINED_FOR_BACKTEST_DESIGN'',
    action_type = [''PLACE_PASSIVE_QUOTE'', ''CANCEL_AND_REPLACE''],
    signal_to_action_mapping = Some ''After registered depletion, quote or requote only when refill state and price-band gates pass; cancel at the frozen refill deadline if recovery is absent.'',
    instrument_side = Some ''DEPLETED_SIDE_ENUMERATED_IN_YES_NORMALIZED_BOOK'',
    order_style = Some ''POST_ONLY_LIMIT'',
    price_rule = Some ''same tick or registered adjacent tick after depletion'',
    quantity_rule = Some ''one contract; no refill-size extrapolation'',
    timing_and_cancel = Some ''frozen refill window plus measured cancel-effective latency'',
    exit_or_settlement = Some ''cancel sibling and reduce-only unwind after any fill'',
    kill_conditions = [''no_refill_by_deadline'', ''gap'', ''queue_unknown'', ''stale_book'']\<rparr>"

definition action_T90_RANGE :: action where
  "action_T90_RANGE = \<lparr>
    action_status = ''DEFINED_BUT_SCOPE_AND_EXECUTION_BLOCKED'',
    action_type = [''PLACE_PASSIVE_QUOTE'', ''CANCEL'', ''REDUCE_ONLY_EXIT''],
    signal_to_action_mapping = Some ''After the frozen Tennis 88-93 leader band, causal two-way tug, flat inventory and no-retreat gates pass, post one contract at each touch (or the one preregistered behind1 variant). On any fill cancel the sibling, reconcile, and reduce only.'',
    instrument_side = Some ''FROZEN_LEADER_NORMALIZED_TWO_SIDED_PAIR'',
    order_style = Some ''NON_ATOMIC_POST_ONLY_PAIR_WITH_WORST_SEQUENCE_RESERVE'',
    price_rule = Some ''touch or one legal tick behind, frozen before YES/NO mapping'',
    quantity_rule = Some ''one contract per side; absolute root inventory <= 1'',
    timing_and_cancel = Some ''cancel-before-replace; 250ms normal reprice minimum'',
    exit_or_settlement = Some ''band exit, leader change, hard flip, timeout or safety kill at effective executable depth'',
    kill_conditions = [''retreat'', ''gap'', ''stale'', ''pause'', ''terminal'', ''leader_change'']\<rparr>"

definition action_T90_REBUILD :: action where
  "action_T90_REBUILD = \<lparr>
    action_status = ''DEFINED_BUT_SCOPE_AND_EXECUTION_BLOCKED'',
    action_type = [''PLACE_PASSIVE_QUOTE'', ''CANCEL'', ''REDUCE_ONLY_EXIT''],
    signal_to_action_mapping = Some ''Only after the parent retreat kill is complete and zero-resting is proven: require a latched burst, 3s without retreat, top-3 depth recovery >=80% of pre-kill, spread >=1.25x baseline, <=1 tick movement and the 88-93 band; then quote touch one contract per side for at most one rebuild cycle.'',
    instrument_side = Some ''FROZEN_T90_LEADER_NORMALIZED_TWO_SIDED_PAIR'',
    order_style = Some ''ONE_CYCLE_NON_ATOMIC_POST_ONLY_PAIR'',
    price_rule = Some ''touch only, bound to the frozen pre-kill baseline'',
    quantity_rule = Some ''one contract per side; one rebuild cycle per root'',
    timing_and_cancel = Some ''zero-resting precedes entry; maximum episode 30s'',
    exit_or_settlement = Some ''exit at spread <=1.10x pre-kill baseline or immediately on a new burst, renewed retreat, gap, stale or root stop'',
    kill_conditions = [
      ''renewed_retreat'',
      ''new_burst'',
      ''gap'',
      ''stale'',
      ''root_stop'',
      ''second_cycle'']\<rparr>"

definition action_PASSIVE_FADE :: action where
  "action_PASSIVE_FADE = \<lparr>
    action_status = ''DEFINED_FOR_BACKTEST_DESIGN'',
    action_type = [''PLACE_PASSIVE_QUOTE'', ''CANCEL''],
    signal_to_action_mapping = Some ''Place a post-only quote on the registered missing/cheap side only inside the eligible state; cancel on timeout or continuation.'',
    instrument_side = Some ''DERIVED_BY_SIGNAL_WITH_YES_NO_MAPPING'',
    order_style = Some ''POST_ONLY_LIMIT'',
    price_rule = Some ''registered tick at or behind the restored side'',
    quantity_rule = Some ''one contract until real-fill calibration passes'',
    timing_and_cancel = Some ''frozen fade horizon and measured cancel latency'',
    exit_or_settlement = Some ''time exit or state-recovery exit at executable price'',
    kill_conditions = [''continuation'', ''timeout'', ''gap'', ''external_state_missing'']\<rparr>"

definition action_TAKER_DIRECTIONAL :: action where
  "action_TAKER_DIRECTIONAL = \<lparr>
    action_status = ''DEFINED_FOR_BACKTEST_DESIGN'',
    action_type = [''TAKE_LIQUIDITY'', ''HEDGE''],
    signal_to_action_mapping = Some ''Map the registered signed signal to BUY_YES or BUY_NO, enter with a marketable limit after measured latency, and exit at the registered horizon or reversal using executable depth.'',
    instrument_side = Some ''DERIVED_BY_SIGNAL_EXHAUSTIVE_YES_NO_MAP'',
    order_style = Some ''MARKETABLE_LIMIT'',
    price_rule = Some ''walk current exact L2 up to frozen slippage cap'',
    quantity_rule = Some ''largest quantity whose pessimistic marginal edge remains positive'',
    timing_and_cancel = Some ''entry and exit latency measured separately'',
    exit_or_settlement = Some ''time/reversal exit; no silent upgrade to settlement hold'',
    kill_conditions = [''unsigned_signal'', ''edge_below_cost'', ''depth_shortfall'', ''gap'']\<rparr>"

definition action_RELATIVE_VALUE :: action where
  "action_RELATIVE_VALUE = \<lparr>
    action_status = ''DEFINED_BUT_ENGINE_BLOCKED'',
    action_type = [''MULTI_LEG_ATOMIC'', ''HEDGE''],
    signal_to_action_mapping = Some ''When a payout-exhaustive executable residual exceeds all-leg cost plus buffer, execute the full registered leg set or abstain.'',
    instrument_side = Some ''EXACT_LEG_VECTOR_WITH_PAYOUT_STATES'',
    order_style = Some ''BOUNDED_MARKETABLE_LIMIT_PER_LEG'',
    price_rule = Some ''all-leg executable L2, never mids'',
    quantity_rule = Some ''minimum fillable quantity across every required leg'',
    timing_and_cancel = Some ''serial-leg risk and partial fills explicitly bounded'',
    exit_or_settlement = Some ''complete hedge or joint worst-state terminal valuation'',
    kill_conditions = [''payout_incomplete'', ''partial_leg'', ''mapping_drift'', ''fee_unknown'']\<rparr>"

definition action_EXPIRY_ROLL :: action where
  "action_EXPIRY_ROLL = \<lparr>
    action_status = ''DEFINED_BUT_MAPPING_AND_ENGINE_BLOCKED'',
    action_type = [''REDUCE_OLD_EXPOSURE'', ''OPEN_EQUIVALENT_NEW_EXPOSURE'', ''RECONCILE''],
    signal_to_action_mapping = Some ''For an authoritative existing position, close the old expiry and open only the audited exposure-equivalent new contract when the complete two-leg roll cost is below holding cost.'',
    instrument_side = Some ''EXACT_EXISTING_EXPOSURE_TO_AUDITED_EQUIVALENT_VECTOR'',
    order_style = Some ''BOUNDED_MARKETABLE_LIMIT_PER_ROLL_LEG'',
    price_rule = Some ''synchronized executable depth including orphan unwind'',
    quantity_rule = Some ''no more than the reconciled old exposure and new-leg depth'',
    timing_and_cancel = Some ''serial-leg risk and partial roll are explicitly bounded'',
    exit_or_settlement = Some ''complete, unwind, or retain the frozen original exposure baseline'',
    kill_conditions = [
      ''mapping_unknown'',
      ''partial_leg'',
      ''roll_cost_above_hold'',
      ''position_mismatch'']\<rparr>"

definition action_CHILD_HEDGE :: action where
  "action_CHILD_HEDGE = \<lparr>
    action_status = ''DEFINED_BUT_CHILD_MAPPING_AND_ENGINE_BLOCKED'',
    action_type = [''OPEN_HEDGE_VECTOR'', ''RECONCILE'', ''UNWIND_HEDGE''],
    signal_to_action_mapping = Some ''Given an authoritative confirmed child exposure, execute the exact payout-verified hedge vector only when its reduction in tail/capital cost exceeds all-leg execution cost.'',
    instrument_side = Some ''EXACT_CONFIRMED_CHILD_EXPOSURE_AND_HEDGE_VECTOR'',
    order_style = Some ''BOUNDED_MARKETABLE_LIMIT_PER_HEDGE_LEG'',
    price_rule = Some ''synchronized executable all-leg depth, never mids'',
    quantity_rule = Some ''hedge no more than the reconciled child exposure'',
    timing_and_cancel = Some ''partial hedge and child-exit races are explicitly bounded'',
    exit_or_settlement = Some ''joint child-plus-hedge unwind or legal joint terminal value'',
    kill_conditions = [
      ''child_unconfirmed'',
      ''payout_incomplete'',
      ''partial_leg'',
      ''tail_benefit_below_cost'']\<rparr>"

definition action_RFQ_GUARD :: action where
  "action_RFQ_GUARD = \<lparr>
    action_status = ''DEFINED_BUT_DATA_BLOCKED'',
    action_type = [''CANCEL'', ''REPRICE'', ''RESIZE''],
    signal_to_action_mapping = Some ''Treat a public RFQ as unsigned toxicity/volatility information: cancel, widen, or shrink related CLOB quotes. Never infer a direction from public create/delete or combo composition.'',
    instrument_side = Some ''BOTH_RELATED_CLOB_SIDES_PUBLIC_UNSIGNED'',
    order_style = Some ''POST_ONLY_LIMIT_AND_CANCEL'',
    price_rule = Some ''unfiltered maker price plus RFQ risk buffer'',
    quantity_rule = Some ''at most baseline resting quantity'',
    timing_and_cancel = Some ''RFQ receive clock to cancel-effective clock'',
    exit_or_settlement = Some ''reconcile any cancel-race fill'',
    kill_conditions = [''rfq_gap'', ''mapping_ambiguous'', ''direction_inferred_publicly'']\<rparr>"

definition action_RFQ_MAKER :: action where
  "action_RFQ_MAKER = \<lparr>
    action_status = ''DEFINED_BUT_PERMISSION_AND_DATA_BLOCKED'',
    action_type = [''RFQ_SUBMIT_QUOTE'', ''RFQ_CONFIRM'', ''HEDGE''],
    signal_to_action_mapping = Some ''For a full-size hedgeable RFQ, submit bounded yes_bid/no_bid; after a private accepted_side event confirm, correlate executed orders to fills, hedge, and reconcile residual inventory.'',
    instrument_side = Some ''TWO_SIDED_RFQ_BID_THEN_PRIVATE_ACCEPTED_SIDE'',
    order_style = Some ''RFQ_QUOTE_PLUS_CLOB_MARKETABLE_LIMIT'',
    price_rule = Some ''bid no higher than fair value minus all hedge and tail costs'',
    quantity_rule = Some ''entire RFQ size only when full size is collateralized and hedgeable'',
    timing_and_cancel = Some ''standard/HVM confirmation and execution clocks measured'',
    exit_or_settlement = Some ''CLOB hedge, executable unwind, or bound settlement'',
    kill_conditions = [''private_event_missing'', ''hedge_depth_shortfall'', ''permission_missing'']\<rparr>"

definition action_MVE_DIRECT :: action where
  "action_MVE_DIRECT = \<lparr>
    action_status = ''DEFINED_BUT_PRIVATE_MVE_AND_ENGINE_BLOCKED'',
    action_type = [
      ''MVE_SUBMIT_PACKAGE_ORDER'',
      ''CANCEL'',
      ''HEDGE_LEGS'',
      ''RECONCILE'',
      ''UNWIND''],
    signal_to_action_mapping = Some ''Only for an exact-version MVE package with an audited leg, orientation and payout-state map: submit one fully collateralized package order when package price plus synchronized executable hedge cost leaves positive worst-state PnL; otherwise abstain.'',
    instrument_side = Some ''EXACT_MVE_PACKAGE_ORIENTATION_AND_AUDITED_HEDGE_VECTOR'',
    order_style = Some ''PRIVATE_MVE_PACKAGE_ORDER_PLUS_BOUNDED_LEG_LIMITS'',
    price_rule = Some ''exact executable package price plus synchronized all-leg L2, fees, orphan-unwind and tail buffer; never use mids'',
    quantity_rule = Some ''one complete package at the minimum fully hedgeable size'',
    timing_and_cancel = Some ''retain package submit/ack/cancel/fill clocks and bound serial-leg hedge latency and partial-package races'',
    exit_or_settlement = Some ''complete the audited hedge, execute the frozen orphan unwind, or use the joint legal terminal payout matrix'',
    kill_conditions = [
      ''mve_catalog_or_orientation_unknown'',
      ''private_package_event_missing'',
      ''partial_package_or_leg'',
      ''hedge_depth_shortfall'',
      ''fee_or_terminal_state_unknown'']\<rparr>"

definition action_TERMINAL_POLICY :: action where
  "action_TERMINAL_POLICY = \<lparr>
    action_status = ''DEFINED_BUT_SETTLEMENT_BLOCKED'',
    action_type = [''HOLD'', ''TAKE_LIQUIDITY'', ''CANCEL''],
    signal_to_action_mapping = Some ''At the registered terminal-state signal, choose the frozen hold or executable exit branch; cancel all risk-adding orders first.'',
    instrument_side = Some ''EXACT_EXISTING_POSITION'',
    order_style = Some ''CANCEL_THEN_REDUCE_ONLY_MARKETABLE_LIMIT_OR_HOLD'',
    price_rule = Some ''executable unwind depth or authoritative terminal value'',
    quantity_rule = Some ''no more than reconciled absolute position'',
    timing_and_cancel = Some ''freeze/settlement clock with separate exit latency'',
    exit_or_settlement = Some ''frozen exit rule or actual 0/1/void settlement'',
    kill_conditions = [''terminal_state_unknown'', ''void_rule_unknown'', ''position_mismatch'']\<rparr>"

definition action_TERMINAL_ENTRY :: action where
  "action_TERMINAL_ENTRY = \<lparr>
    action_status = ''DEFINED_BUT_SETTLEMENT_BLOCKED'',
    action_type = [''TAKE_LIQUIDITY'', ''CANCEL'', ''HOLD''],
    signal_to_action_mapping = Some ''From flat, buy exactly the registered underpriced YES or NO outcome with a marketable limit only when the terminal-value gap exceeds all fees, exit and legal-state buffers.'',
    instrument_side = Some ''EXPLICIT_BUY_YES_OR_BUY_NO_FROM_FLAT'',
    order_style = Some ''ONE_CONTRACT_MARKETABLE_LIMIT'',
    price_rule = Some ''executable ask no higher than terminal value minus all costs'',
    quantity_rule = Some ''one contract from flat; no pyramiding or naked short'',
    timing_and_cancel = Some ''decision-effective depth plus measured entry/exit latency'',
    exit_or_settlement = Some ''frozen executable exit or authoritative 0/1/void settlement'',
    kill_conditions = [
      ''terminal_state_unknown'',
      ''void_rule_unknown'',
      ''edge_below_cost'',
      ''depth_shortfall'']\<rparr>"

definition action_CS_ASK :: action where
  "action_CS_ASK = \<lparr>
    action_status = ''DEFINED_BUT_SCOPE_SETTLEMENT_AND_EXECUTION_BLOCKED'',
    action_type = [''PLACE_PASSIVE_QUOTE'', ''CANCEL'', ''HOLD_TO_SETTLEMENT''],
    signal_to_action_mapping = Some ''Freeze the high outcome and q in {0.97,0.98}; after the exact book-regime and 30s persistence gate, economically sell high from flat by posting to buy the low outcome at 1-q. Allow one contract and one fill per root with no replenish.'',
    instrument_side = Some ''FROM_FLAT_BUY_LOW_OUTCOME_AT_ONE_MINUS_Q'',
    order_style = Some ''POST_ONLY_LIMIT_ONE_FILL_MAX'',
    price_rule = Some ''q is the intended high-side ask; low-side buy price is exactly 1-q'',
    quantity_rule = Some ''one contract, one fill maximum per root, no replenish'',
    timing_and_cancel = Some ''intended quote state persists 30s; quote age 30s'',
    exit_or_settlement = Some ''actual authoritative settlement only for binding PnL'',
    kill_conditions = [
      ''price_cell_exit'',
      ''high_side_bid_retreat_one_tick'',
      ''better_ask'',
      ''leader_flip'',
      ''stale'',
      ''gap'',
      ''pause'',
      ''terminal'',
      ''fee_or_tick_unknown'']\<rparr>"

definition action_EARLY_EXIT :: action where
  "action_EARLY_EXIT = \<lparr>
    action_status = ''DEFINED_BUT_PRIVATE_AND_TERMINAL_DATA_BLOCKED'',
    action_type = [''CANCEL'', ''REDUCE_ONLY_EXIT''],
    signal_to_action_mapping = Some ''When the frozen pre-freeze deterioration signal fires, cancel risk-adding orders and unwind only the reconciled existing position at bounded executable depth.'',
    instrument_side = Some ''EXACT_EXISTING_POSITION_REDUCE_ONLY'',
    order_style = Some ''CANCEL_THEN_REDUCE_ONLY_MARKETABLE_LIMIT'',
    price_rule = Some ''decision-effective executable depth with slippage cap'',
    quantity_rule = Some ''no more than reconciled absolute position'',
    timing_and_cancel = Some ''cancel-effective and exit latency are distinct'',
    exit_or_settlement = Some ''early executable exit before freeze'',
    kill_conditions = [
      ''position_unknown'',
      ''precursor_stale'',
      ''depth_shortfall'',
      ''terminal_state_unknown'']\<rparr>"

definition action_EXTERNAL_ACTION :: action where
  "action_EXTERNAL_ACTION = \<lparr>
    action_status = ''DEFINED_BUT_EXTERNAL_DATA_BLOCKED'',
    action_type = [''CANCEL'', ''REPRICE'', ''TAKE_LIQUIDITY''],
    signal_to_action_mapping = Some ''After a verified external event/odds update with trustworthy event time, cancel stale quotes or trade only the registered venue-price discrepancy; no proxy or imputation is allowed.'',
    instrument_side = Some ''DERIVED_FROM_VERIFIED_EXTERNAL_TO_KALSHI_MAPPING'',
    order_style = Some ''CANCEL_OR_MARKETABLE_LIMIT'',
    price_rule = Some ''verified external fair value versus executable Kalshi L2'',
    quantity_rule = Some ''depth- and latency-bounded one-contract pilot'',
    timing_and_cancel = Some ''external event time, ingest time, and venue send time all retained'',
    exit_or_settlement = Some ''time/reversal exit or explicitly bound settlement'',
    kill_conditions = [
      ''external_stale'',
      ''mapping_unverified'',
      ''license_unknown'',
      ''clock_unknown'']\<rparr>"

definition action_ROUTER :: action where
  "action_ROUTER = \<lparr>
    action_status = ''DEFINED_BUT_CHILDREN_BLOCKED'',
    action_type = [''RESIZE'', ''CANCEL'', ''REPRICE''],
    signal_to_action_mapping = Some ''Select, size, or abstain among already confirmed child policies using only past state; route no action to an unconfirmed child.'',
    instrument_side = Some ''INHERITED_FROM_SELECTED_CONFIRMED_CHILD'',
    order_style = Some ''INHERITED_FROM_SELECTED_CONFIRMED_CHILD'',
    price_rule = Some ''unchanged child price rule'',
    quantity_rule = Some ''shared root/event/capital cap across children'',
    timing_and_cancel = Some ''router decision and switch latency included'',
    exit_or_settlement = Some ''unchanged child exit plus portfolio reconciliation'',
    kill_conditions = [''child_unconfirmed'', ''overlap_unresolved'', ''capital_breach'']\<rparr>"

definition action_COMMERCIAL_ROC :: action where
  "action_COMMERCIAL_ROC = \<lparr>
    action_status = ''DEFINED_BUT_CHILDREN_AND_FULL_COST_LEDGER_BLOCKED'',
    action_type = [''CONTINUE_CONFIRMED_CHILD'', ''SCALE_DOWN'', ''STOP_NEW_RISK''],
    signal_to_action_mapping = Some ''At the frozen UTC decision boundary, continue the immutable confirmed child only when fully allocated trailing commercial NetPnL and ROC clear their preregistered gates; scale down at the warning gate and stop new risk at the failure gate.'',
    instrument_side = Some ''INHERITED_UNCHANGED_FROM_IMMUTABLE_CONFIRMED_CHILD'',
    order_style = Some ''INHERITED_CHILD_OR_STOP_NEW_RISK'',
    price_rule = Some ''unchanged immutable child price rule'',
    quantity_rule = Some ''frozen full, reduced or zero-new-risk ladder only'',
    timing_and_cancel = Some ''UTC boundary decision using past-only closed accounting periods'',
    exit_or_settlement = Some ''stopped children add no new risk and retain their registered reduce-only exit and reconciliation path'',
    kill_conditions = [
      ''child_fingerprint_missing'',
      ''invoice_or_usage_unallocated'',
      ''capital_ledger_incomplete'',
      ''incident_cost_unknown'']\<rparr>"

definition action_SIZE_RISK :: action where
  "action_SIZE_RISK = \<lparr>
    action_status = ''DEFINED_BUT_PRIVATE_OR_CHILD_DATA_BLOCKED'',
    action_type = [''RESIZE'', ''CANCEL'', ''HEDGE''],
    signal_to_action_mapping = Some ''Translate the registered capacity/risk signal into a bounded size or no-new-risk decision; reconcile before any size increase.'',
    instrument_side = Some ''INHERITED_FROM_REGISTERED_CHILD_OR_POSITION'',
    order_style = Some ''INHERITED_CHILD_WITH_REDUCE_ONLY_EMERGENCY_EXIT'',
    price_rule = Some ''unchanged registered child price rule'',
    quantity_rule = Some ''frozen size ladder bounded by depth, collateral and root cap'',
    timing_and_cancel = Some ''size change only after prior orders reconcile'',
    exit_or_settlement = Some ''reduce-only exit derived from authoritative position'',
    kill_conditions = [''capacity_curve_negative'', ''tail_breach'', ''position_unknown'']\<rparr>"

definition action_MODEL_COMPONENT :: action where
  "action_MODEL_COMPONENT = \<lparr>
    action_status = ''NO_STANDALONE_ACTION_MODEL_COMPONENT'',
    action_type = [],
    signal_to_action_mapping = None,
    instrument_side = None,
    order_style = None,
    price_rule = None,
    quantity_rule = None,
    timing_and_cancel = None,
    exit_or_settlement = None,
    kill_conditions = []\<rparr>"

definition action_CONTROL_ONLY :: action where
  "action_CONTROL_ONLY = \<lparr>
    action_status = ''NO_ACTION_CONTROL_ONLY'',
    action_type = [],
    signal_to_action_mapping = None,
    instrument_side = None,
    order_style = None,
    price_rule = None,
    quantity_rule = None,
    timing_and_cancel = None,
    exit_or_settlement = None,
    kill_conditions = []\<rparr>"

text \<open>The table, and the lookup that raises \<^verbatim>\<open>KeyError\<close> on an unknown name.\<close>

definition action_profiles :: "(string \<times> action) list" where
  "action_profiles = [
    (''NO_ACTION'', action_NO_ACTION),
    (''MAKER_SPREAD'', action_MAKER_SPREAD),
    (''MAKER_FILTER'', action_MAKER_FILTER),
    (''MAKER_REFILL'', action_MAKER_REFILL),
    (''T90_RANGE'', action_T90_RANGE),
    (''T90_REBUILD'', action_T90_REBUILD),
    (''PASSIVE_FADE'', action_PASSIVE_FADE),
    (''TAKER_DIRECTIONAL'', action_TAKER_DIRECTIONAL),
    (''RELATIVE_VALUE'', action_RELATIVE_VALUE),
    (''EXPIRY_ROLL'', action_EXPIRY_ROLL),
    (''CHILD_HEDGE'', action_CHILD_HEDGE),
    (''RFQ_GUARD'', action_RFQ_GUARD),
    (''RFQ_MAKER'', action_RFQ_MAKER),
    (''MVE_DIRECT'', action_MVE_DIRECT),
    (''TERMINAL_POLICY'', action_TERMINAL_POLICY),
    (''TERMINAL_ENTRY'', action_TERMINAL_ENTRY),
    (''CS_ASK'', action_CS_ASK),
    (''EARLY_EXIT'', action_EARLY_EXIT),
    (''EXTERNAL_ACTION'', action_EXTERNAL_ACTION),
    (''ROUTER'', action_ROUTER),
    (''COMMERCIAL_ROC'', action_COMMERCIAL_ROC),
    (''SIZE_RISK'', action_SIZE_RISK),
    (''MODEL_COMPONENT'', action_MODEL_COMPONENT),
    (''CONTROL_ONLY'', action_CONTROL_ONLY)]"

definition action_profile :: "string \<Rightarrow> action res" where
  "action_profile name = (case map_of action_profiles name of None \<Rightarrow> Inl KeyError | Some a \<Rightarrow> Inr a)"

text \<open>The dictionary a profile is in the artifact.\<close>

definition action_fields :: "action \<Rightarrow> fields" where
  "action_fields a = [
    (''status'', JStr (action_status a)),
    (''action_type'', jstrs (action_type a)),
    (''signal_to_action_mapping'', jopt (signal_to_action_mapping a)),
    (''instrument_side'', jopt (instrument_side a)),
    (''order_style'', jopt (order_style a)),
    (''price_rule'', jopt (price_rule a)),
    (''quantity_rule'', jopt (quantity_rule a)),
    (''timing_and_cancel'', jopt (timing_and_cancel a)),
    (''exit_or_settlement'', jopt (exit_or_settlement a)),
    (''kill_conditions'', jstrs (kill_conditions a))]"

end
