(* ===== verification/Contracts.thy ===== *)
theory Contracts
  imports ActionProfiles
begin

text \<open>
  What an action profile implies for the rest of a card: the execution venue (\<^verbatim>\<open>_venue_for\<close>), the
  baseline it is compared with (\<^verbatim>\<open>_baseline_for\<close>), the profit-and-loss contract (\<^verbatim>\<open>_pnl_for\<close>), the
  costs (\<^verbatim>\<open>_costs_for\<close>) and the blockers that missing costs stand for (\<^verbatim>\<open>_cost_blockers\<close>).
\<close>


section \<open>Venue\<close>

record venue =
  execution_venue :: string
  required_permission :: string

definition venue_by_profile :: "(string \<times> string) list" where
  "venue_by_profile = [
    (''NO_ACTION'', ''NONE''),
    (''MODEL_COMPONENT'', ''NONE''),
    (''CONTROL_ONLY'', ''NONE''),
    (''MAKER_SPREAD'', ''KALSHI_CLOB''),
    (''MAKER_FILTER'', ''KALSHI_CLOB''),
    (''MAKER_REFILL'', ''KALSHI_CLOB''),
    (''T90_RANGE'', ''KALSHI_CLOB''),
    (''T90_REBUILD'', ''KALSHI_CLOB''),
    (''PASSIVE_FADE'', ''KALSHI_CLOB''),
    (''TAKER_DIRECTIONAL'', ''KALSHI_CLOB''),
    (''RELATIVE_VALUE'', ''KALSHI_MULTI_MARKET_CLOB''),
    (''EXPIRY_ROLL'', ''KALSHI_MULTI_MARKET_CLOB''),
    (''CHILD_HEDGE'', ''KALSHI_MULTI_MARKET_CLOB''),
    (''RFQ_GUARD'', ''KALSHI_CLOB''),
    (''RFQ_MAKER'', ''KALSHI_CLOB_AND_RFQ''),
    (''MVE_DIRECT'', ''KALSHI_MVE_PRIVATE_EXECUTION''),
    (''TERMINAL_POLICY'', ''KALSHI_CLOB''),
    (''TERMINAL_ENTRY'', ''KALSHI_CLOB''),
    (''CS_ASK'', ''KALSHI_CLOB''),
    (''EARLY_EXIT'', ''KALSHI_CLOB''),
    (''EXTERNAL_ACTION'', ''KALSHI_CLOB''),
    (''ROUTER'', ''POLICY_ROUTER_OVER_KALSHI''),
    (''COMMERCIAL_ROC'', ''POLICY_ROUTER_OVER_KALSHI''),
    (''SIZE_RISK'', ''POLICY_ROUTER_OVER_KALSHI'')]"

definition venue_for :: "string \<Rightarrow> venue res" where
  "venue_for profile =
     (case map_of venue_by_profile profile of
        None \<Rightarrow> Inl KeyError
      | Some v \<Rightarrow> Inr \<lparr>execution_venue = v,
          required_permission = (if v = ''NONE'' then ''NONE''
            else ''SEPARATE_SHADOW_OR_LIVE_AUTHORITY; registry grants none'')\<rparr>)"

definition venue_fields :: "venue \<Rightarrow> fields" where
  "venue_fields v = [
    (''execution_venue'', JStr (execution_venue v)),
    (''required_permission'', JStr (required_permission v)),
    (''availability_receipt'', JNull)]"


section \<open>Baseline\<close>

record baseline =
  baseline_id :: "string option"
  baseline_type :: string
  policy :: "string option"
  comparability :: "string option"
  secondary_baselines :: "string list"

definition baseline_for :: "string \<Rightarrow> baseline" where
  "baseline_for profile =
    (if profile \<in> set [''NO_ACTION'', ''MODEL_COMPONENT'', ''CONTROL_ONLY''] then
      \<lparr>baseline_id = None,
       baseline_type = ''NOT_APPLICABLE'',
       policy = None,
       comparability = None,
       secondary_baselines = []\<rparr>
     else if profile \<in> set [''MAKER_FILTER'', ''RFQ_GUARD''] then
      \<lparr>baseline_id = Some ''UNFILTERED_SAME_MAKER'',
       baseline_type = ''UNFILTERED_QUOTER'',
       policy = Some ''identical maker without the tested signal gate'',
       comparability = Some ''same roots, capital, latency, fill and fee assumptions'',
       secondary_baselines = [''NO_TRADE_SAME_OPPORTUNITIES'']\<rparr>
     else if profile = ''MAKER_REFILL'' then
      \<lparr>baseline_id = Some ''IMMEDIATE_SAME_PRICE_REENTRY'',
       baseline_type = ''CUSTOM_EXECUTABLE'',
       policy = Some ''replace immediately at the same tick after depletion without waiting for the tested refill/persistence gate'',
       comparability = Some ''same roots, price, size, latency, fill and fee assumptions'',
       secondary_baselines = [''NO_TRADE_SAME_OPPORTUNITIES'']\<rparr>
     else if profile = ''T90_RANGE'' then
      \<lparr>baseline_id = Some ''NO_TRADE_SAME_OPPORTUNITIES'',
       baseline_type = ''NO_TRADE'',
       policy = Some ''remain flat for every eligible T90 episode'',
       comparability = Some ''same roots, band, tug, clock, capital and data exclusions'',
       secondary_baselines = [''SAME_T90_RANGE_WITHOUT_RETREAT_KILL'']\<rparr>
     else if profile = ''T90_REBUILD'' then
      \<lparr>baseline_id = Some ''T90_PARENT_NEVER_REENTER'',
       baseline_type = ''CUSTOM_EXECUTABLE'',
       policy = Some ''same-root T90 parent transitions OFF_FOR_ROOT after the first valid retreat kill and never re-enters'',
       comparability = Some ''same parent roots, fills, kill, fees, capital and terminal path'',
       secondary_baselines = [''NO_TRADE_SAME_OPPORTUNITIES'']\<rparr>
     else if profile = ''ROUTER'' then
      \<lparr>baseline_id = Some ''BEST_FIXED_CONFIRMED_CHILD_TRAIN_ONLY'',
       baseline_type = ''CUSTOM_EXECUTABLE'',
       policy = Some ''best fixed child chosen without holdout information'',
       comparability = Some ''same roots, capital, risk caps and execution engine'',
       secondary_baselines = [''NO_TRADE_SAME_OPPORTUNITIES'']\<rparr>
     else if profile = ''SIZE_RISK'' then
      \<lparr>baseline_id = Some ''FIXED_ONE_CONTRACT_SAME_CHILD'',
       baseline_type = ''CUSTOM_EXECUTABLE'',
       policy = Some ''same child policy at one contract and unchanged risk caps'',
       comparability = Some ''same roots, prices, timing, fill and fee assumptions'',
       secondary_baselines = [''NO_TRADE_SAME_OPPORTUNITIES'']\<rparr>
     else if profile = ''TERMINAL_POLICY'' then
      \<lparr>baseline_id = Some ''FIXED_IMMEDIATE_EXECUTABLE_EXIT'',
       baseline_type = ''CUSTOM_EXECUTABLE'',
       policy = Some ''cancel then unwind at the first eligible terminal decision'',
       comparability = Some ''same inventory, roots, costs and terminal states'',
       secondary_baselines = [''NO_TRADE_OR_HOLD_AS_CARD_SPECIFIES'']\<rparr>
     else if profile = ''TERMINAL_ENTRY'' then
      \<lparr>baseline_id = Some ''NO_TRADE_SAME_OPPORTUNITIES'',
       baseline_type = ''NO_TRADE'',
       policy = Some ''remain flat and record zero cash flow for every eligible opportunity'',
       comparability = Some ''same roots, clock, capital availability and data exclusions'',
       secondary_baselines = [''SIMPLE_UNCALIBRATED_EXECUTABLE_PRICE_RULE'']\<rparr>
     else if profile = ''CS_ASK'' then
      \<lparr>baseline_id = Some ''NO_TRADE_SAME_CS_OPPORTUNITIES'',
       baseline_type = ''NO_TRADE'',
       policy = Some ''remain flat for every eligible 97/98 price/regime/phase cell'',
       comparability = Some ''same roots, q cells, persistence, fees and settlement coverage'',
       secondary_baselines = [''CS_94_TO_96_PLACEBO'', ''CS_BID_PAYOFF_CONTROL_ON_EXACT_ASK_FILL_IDS'']\<rparr>
     else if profile = ''EARLY_EXIT'' then
      \<lparr>baseline_id = Some ''WAIT_UNTIL_FREEZE_OR_TERMINAL'',
       baseline_type = ''CUSTOM_EXECUTABLE'',
       policy = Some ''retain the same reconciled position through the precursor and follow the frozen later exit/terminal rule'',
       comparability = Some ''same position, roots, clocks, fees and terminal paths'',
       secondary_baselines = [''IMMEDIATE_EXIT_BEFORE_PRECURSOR'']\<rparr>
     else if profile = ''EXPIRY_ROLL'' then
      \<lparr>baseline_id = Some ''HOLD_ORIGINAL_EXPOSURE'',
       baseline_type = ''CUSTOM_EXECUTABLE'',
       policy = Some ''do not roll; retain the exact original exposure under its frozen exit/terminal rule'',
       comparability = Some ''same starting position, roots, capital clock and legal terminal states'',
       secondary_baselines = [''IMMEDIATE_EXIT_ORIGINAL_EXPOSURE'']\<rparr>
     else if profile = ''CHILD_HEDGE'' then
      \<lparr>baseline_id = Some ''UNHEDGED_CONFIRMED_CHILD'',
       baseline_type = ''CUSTOM_EXECUTABLE'',
       policy = Some ''run the identical confirmed child without the proposed hedge'',
       comparability = Some ''same child fills, roots, capital clock, exits and terminal states'',
       secondary_baselines = [''NO_TRADE_SAME_OPPORTUNITIES'']\<rparr>
     else if profile = ''MVE_DIRECT'' then
      \<lparr>baseline_id = Some ''NO_MVE_PACKAGE_TRADE_SAME_OPPORTUNITIES'',
       baseline_type = ''NO_TRADE'',
       policy = Some ''submit no MVE package or hedge legs and record zero cash flow'',
       comparability = Some ''same package catalog, clocks, collateral and mapping exclusions'',
       secondary_baselines = [''LEG_REPLICATION_ONLY_IF_SEPARATELY_REGISTERED'']\<rparr>
     else if profile = ''COMMERCIAL_ROC'' then
      \<lparr>baseline_id = Some ''UNCHANGED_CONFIRMED_CHILD_WITHOUT_COMMERCIAL_GATE'',
       baseline_type = ''CUSTOM_EXECUTABLE'',
       policy = Some ''run the same immutable confirmed child at its frozen size and risk limits without the tested commercial continue/scale/stop gate'',
       comparability = Some ''same child fingerprint, roots, fills, capital clock, risk limits and fully allocated operating-cost ledger'',
       secondary_baselines = [''NO_TRADE_SAME_ACCOUNTING_PERIODS'']\<rparr>
     else 
      \<lparr>baseline_id = Some ''NO_TRADE_SAME_OPPORTUNITIES'',
       baseline_type = ''NO_TRADE'',
       policy = Some ''record every eligible opportunity with zero cash flow'',
       comparability = Some ''same roots, clock, capital availability and data exclusions'',
       secondary_baselines = []\<rparr>)"

definition baseline_fields :: "baseline \<Rightarrow> fields" where
  "baseline_fields b = [
    (''baseline_id'', jopt (baseline_id b)),
    (''baseline_type'', JStr (baseline_type b)),
    (''policy'', jopt (policy b)),
    (''comparability'', jopt (comparability b)),
    (''secondary_baselines'', jstrs (secondary_baselines b))]"


section \<open>Profit and loss\<close>

text \<open>The last four keys are present only on the branches that set them.\<close>

record pnl =
  pnl_status :: string
  basis :: string
  formula :: "string option"
  incremental_formula :: "string option"
  aggregation_unit :: "string option"
  zero_fill_treatment :: "string option"
  capacity_rule :: "string option"
  denominators :: "string list option"
  markout_rule :: "string option"
  roc_definition :: "string option"
  cost_allocation_rule :: "string option"

text \<open>The formula and the incremental formula of a strategy, by action profile.\<close>

definition pnl_formulas :: "string \<Rightarrow> string \<times> string" where
  "pnl_formulas profile =
    (if profile \<in> set [''MAKER_FILTER'', ''RFQ_GUARD''] then
      (''NetPnL_policy = cash_in - cash_out - exact_fees - realized_variable_costs + terminal_value(residual_inventory)'',
       ''DeltaPnL = NetPnL_signal_gated_maker - NetPnL_unfiltered_same_maker'')
     else if profile = ''RFQ_MAKER'' then
      (''NetPnL = RFQ_and_hedge_cash_in - RFQ_and_hedge_cash_out - exact_RFQ_and_CLOB_fees + terminal_value(residual_inventory)'',
       ''DeltaPnL = NetPnL_RFQ_quote_policy - 0_for_no_quote_baseline'')
     else if profile = ''MVE_DIRECT'' then
      (''NetPnL = MVE_package_and_hedge_cash_in - MVE_package_and_hedge_cash_out - exact_package_and_leg_fees - partial_package_orphan_unwind_cost + joint_terminal_value'',
       ''DeltaPnL = NetPnL_MVE_direct_policy - 0_for_same_opportunity_no_MVE_trade_baseline'')
     else if profile = ''RELATIVE_VALUE'' then
      (''NetPnL = sum(executed_leg_cashflows) - sum(exact_leg_fees) - hedge_and_partial_leg_cost + joint_terminal_value'',
       ''DeltaPnL = NetPnL_full_leg_policy - 0_for_no_trade_baseline'')
     else if profile = ''ROUTER'' then
      (''NetPnL = sum(root_deduped_child_cashflows) - exact_fees - switch_cost + joint_terminal_value'',
       ''DeltaPnL = NetPnL_router - NetPnL_best_fixed_train_only_child'')
     else if profile = ''COMMERCIAL_ROC'' then
      (''CommercialNetPnL = child_realized_and_terminal_NetPnL - exchange_fees - data_provider_license_API_cost - cloud_compute_storage_egress_cost - operations_labor_oncall_cost - incident_loss_and_remediation_cost - capital_and_collateral_cost'',
       ''DeltaCommercialPnL = CommercialNetPnL_ROC_gate - CommercialNetPnL_same_child_without_commercial_gate'')
     else if profile = ''SIZE_RISK'' then
      (''NetPnL = child_executed_cashflows - exact_fees - impact - tail_and_unwind_cost + terminal_value'',
       ''DeltaPnL = NetPnL_sized_policy - NetPnL_same_child_at_one_contract'')
     else if profile = ''TERMINAL_ENTRY'' then
      (''NetPnL = terminal_or_exit_cash_in - entry_cash_out - exact_entry_and_exit_fees - realized_variable_costs'',
       ''DeltaPnL = NetPnL_terminal_entry - 0_for_flat_no_trade_baseline'')
     else if profile = ''CS_ASK'' then
      (''NetPnL_per_strict_fill = q - Y_high_outcome_terminal - exact_net_fee_for_low_side_buy'',
       ''DeltaPnL = sum(NetPnL_on_exact_CS_ASK_fills) - 0_for_same_opportunity_no_trade_baseline'')
     else if profile = ''T90_REBUILD'' then
      (''NetPnL = parent_and_rebuild_executed_cash_in - executed_cash_out - exact_fees - forced_exit_cost + terminal_value(residual_inventory)'',
       ''DeltaPnL = NetPnL_T90_with_one_rebuild - NetPnL_same_root_T90_never_reenter'')
     else if profile = ''EARLY_EXIT'' then
      (''NetPnL = executable_exit_cash - original_position_cost - exact_fees - realized_exit_cost'',
       ''DeltaPnL = NetPnL_early_reduce_only_exit - NetPnL_same_position_wait_until_freeze_or_terminal'')
     else if profile = ''EXPIRY_ROLL'' then
      (''NetPnL = old_close_cashflow + new_exposure_cashflow - all_leg_fees - orphan_and_carry_cost + terminal_value(new_residual)'',
       ''DeltaPnL = NetPnL_roll_policy - NetPnL_hold_original_exposure'')
     else if profile = ''CHILD_HEDGE'' then
      (''NetPnL = child_cashflows + hedge_cashflows - all_leg_fees - partial_hedge_cost + joint_terminal_value'',
       ''DeltaPnL = NetPnL_child_plus_hedge - NetPnL_unhedged_same_child'')
     else 
      (''NetPnL = executed_cash_in - executed_cash_out - exact_venue_fees - realized_variable_costs + terminal_value(residual_inventory)'',
       ''DeltaPnL = NetPnL_strategy - NetPnL_registered_baseline''))"

definition pnl_for :: "string \<Rightarrow> pnl" where
  "pnl_for profile =
    (if profile \<in> set [''NO_ACTION'', ''MODEL_COMPONENT'', ''CONTROL_ONLY''] then
      \<lparr>pnl_status = ''NOT_DEFINED_NOT_A_STRATEGY'',
       basis = ''NONE'',
       formula = None, incremental_formula = None, aggregation_unit = None,
       zero_fill_treatment = None, capacity_rule = None,
       denominators = None, markout_rule = None, roc_definition = None, cost_allocation_rule = None\<rparr>
     else
      \<lparr>pnl_status = ''DEFINED_NOT_YET_ESTIMABLE'',
       basis = ''PATHWISE_AFTER_COST'',
       formula = Some (fst (pnl_formulas profile)),
       incremental_formula = Some (snd (pnl_formulas profile)),
       aggregation_unit = Some ''ROOT_EVENT_AND_UTC_DAY'',
       zero_fill_treatment = Some ''eligible no-trigger/no-fill/no-accept rows contribute zero'',
       capacity_rule = Some ''no linear extrapolation beyond executable depth and tested size'',
       denominators = Some [''per_opportunity'', ''per_trigger'', ''per_fill'', ''per_contract'', ''per_day'', ''per_peak_capital''],
       markout_rule = Some ''mid/markout is diagnostic and never cash PnL'',
       roc_definition = (if profile = ''COMMERCIAL_ROC'' then
         Some ''CommercialROC = CommercialNetPnL / max(peak_committed_capital, fully_allocated_cash_operating_cost); report both denominators separately''
         else None),
       cost_allocation_rule = (if profile = ''COMMERCIAL_ROC'' then
         Some ''Fully allocated provider, cloud, labor/on-call and incident costs use each sealed UTC accounting period, then measured card/root usage; shared fixed costs use a frozen driver and never disappear from the denominator.''
         else None)\<rparr>)"

definition opt_field :: "string \<Rightarrow> json option \<Rightarrow> fields" where
  "opt_field k x = (case x of None \<Rightarrow> [] | Some v \<Rightarrow> [(k, v)])"

definition pnl_fields :: "pnl \<Rightarrow> fields" where
  "pnl_fields p = [
    (''status'', JStr (pnl_status p)),
    (''basis'', JStr (basis p)),
    (''formula'', jopt (formula p)),
    (''incremental_formula'', jopt (incremental_formula p)),
    (''aggregation_unit'', jopt (aggregation_unit p)),
    (''zero_fill_treatment'', jopt (zero_fill_treatment p)),
    (''capacity_rule'', jopt (capacity_rule p))]
    @ opt_field ''denominators'' (map_option jstrs (denominators p))
    @ opt_field ''markout_rule'' (map_option JStr (markout_rule p))
    @ opt_field ''roc_definition'' (map_option JStr (roc_definition p))
    @ opt_field ''cost_allocation_rule'' (map_option JStr (cost_allocation_rule p))"


section \<open>Costs\<close>

record cost =
  cost_type :: string
  cost_role :: string
  cost_status :: string
  cost_rule :: string

definition COMMON_COST_COMPONENTS :: "cost list" where
  "COMMON_COST_COMPONENTS = [
      \<lparr>cost_type = ''EXCHANGE_MAKER_FEE'', cost_role = ''CASH_DEDUCTION'',
       cost_status = ''MISSING'',
       cost_rule = ''exact per-fill fee_cost or versioned series/date fee formula''\<rparr>,
      \<lparr>cost_type = ''EXCHANGE_TAKER_FEE'', cost_role = ''CASH_DEDUCTION'',
       cost_status = ''MISSING'',
       cost_rule = ''exact entry/exit/hedge fee including rounding and rebates''\<rparr>,
      \<lparr>cost_type = ''SPREAD_CROSSING'', cost_role = ''EXECUTION_MODEL_INPUT'',
       cost_status = ''CONSERVATIVE_MODELED'',
       cost_rule = ''use executable ask on buys and executable bid on sells''\<rparr>,
      \<lparr>cost_type = ''SLIPPAGE_MARKET_IMPACT'', cost_role = ''EXECUTION_MODEL_INPUT'',
       cost_status = ''MISSING'',
       cost_rule = ''walk exact L2 for requested quantity at decision-effective time''\<rparr>,
      \<lparr>cost_type = ''PLACE_CANCEL_EXIT_LATENCY'', cost_role = ''EXECUTION_MODEL_INPUT'',
       cost_status = ''MISSING'',
       cost_rule = ''separate measured placement, cancel-effective, hedge and exit paths''\<rparr>,
      \<lparr>cost_type = ''INVENTORY_TERMINAL_VOID'', cost_role = ''RISK_DIAGNOSTIC'',
       cost_status = ''MISSING'',
       cost_rule = ''joint worst legal terminal state unless actual settlement is bound''\<rparr>,
      \<lparr>cost_type = ''COLLATERAL_AND_CAPITAL'', cost_role = ''OPERATING_EXPENSE'',
       cost_status = ''MISSING'',
       cost_rule = ''peak collateral, capital-time and capacity reported separately''\<rparr>]"

definition costs_for :: "string \<Rightarrow> string \<Rightarrow> cost list" where
  "costs_for profile external_dependency =
    (if profile \<in> set [''NO_ACTION'', ''MODEL_COMPONENT'', ''CONTROL_ONLY''] then []
     else COMMON_COST_COMPONENTS
      @ (if profile = ''RFQ_MAKER'' then [
      \<lparr>cost_type = ''RFQ_SELECTION_AND_CONFIRMATION'', cost_role = ''RISK_DIAGNOSTIC'',
       cost_status = ''MISSING'',
       cost_rule = ''requester side selection, confirmation, execution and no-accept loss''\<rparr>] else [])
      @ (if external_dependency = ''REQUIRED'' then [
      \<lparr>cost_type = ''DATA_API'', cost_role = ''OPERATING_EXPENSE'',
       cost_status = ''MISSING'',
       cost_rule = ''provider subscription, redistribution and historical backfill cost''\<rparr>] else [])
      @ (if profile = ''MVE_DIRECT'' then [
      \<lparr>cost_type = ''MVE_PACKAGE_EXECUTION_AND_PARTIAL'', cost_role = ''EXECUTION_MODEL_INPUT'',
       cost_status = ''MISSING'',
       cost_rule = ''private package quote/order/fill fees plus worst-sequence partial-package and orphan-leg unwind cost''\<rparr>] else [])
      @ (if profile = ''ROUTER'' then [
      \<lparr>cost_type = ''POLICY_SWITCH_AND_OVERLAP'', cost_role = ''EXECUTION_MODEL_INPUT'',
       cost_status = ''MISSING'',
       cost_rule = ''switch latency plus common-root capital and co-tail use''\<rparr>] else [])
      @ (if profile = ''COMMERCIAL_ROC'' then [
      \<lparr>cost_type = ''DATA_PROVIDER_LICENSE_API'', cost_role = ''OPERATING_EXPENSE'',
       cost_status = ''MISSING'',
       cost_rule = ''invoice-backed provider, license, API and historical-data allocation''\<rparr>,
      \<lparr>cost_type = ''CLOUD_COMPUTE_STORAGE_EGRESS'', cost_role = ''OPERATING_EXPENSE'',
       cost_status = ''MISSING'',
       cost_rule = ''metered compute, storage, request and egress allocation by UTC period and card''\<rparr>,
      \<lparr>cost_type = ''OPS_LABOR_AND_INCIDENT'', cost_role = ''OPERATING_EXPENSE'',
       cost_status = ''MISSING'',
       cost_rule = ''labor, on-call, incident loss and remediation under a frozen allocation rule''\<rparr>] else []))"

definition cost_json :: "cost \<Rightarrow> json" where
  "cost_json c = dict_of [
    (''type'', JStr (cost_type c)),
    (''role'', JStr (cost_role c)),
    (''status'', JStr (cost_status c)),
    (''rule'', JStr (cost_rule c))]"

definition costs_json :: "cost list \<Rightarrow> json" where
  "costs_json cs = JList (map cost_json cs)"

text \<open>
  The blocker a missing cost stands for.  A cost type without an entry raises: an unknown cost
  never counts as covered.
\<close>

definition blocker_by_cost_type :: "(string \<times> string) list" where
  "blocker_by_cost_type = [
    (''EXCHANGE_MAKER_FEE'', ''FEE_UNKNOWN''),
    (''EXCHANGE_TAKER_FEE'', ''FEE_UNKNOWN''),
    (''SLIPPAGE_MARKET_IMPACT'', ''FILL_MODEL_MISSING''),
    (''PLACE_CANCEL_EXIT_LATENCY'', ''LATENCY_UNMEASURED''),
    (''INVENTORY_TERMINAL_VOID'', ''SETTLEMENT_MISSING''),
    (''COLLATERAL_AND_CAPITAL'', ''RISK_GATES_MISSING''),
    (''RFQ_SELECTION_AND_CONFIRMATION'', ''RFQ_PRIVATE_EVENTS_MISSING''),
    (''MVE_PACKAGE_EXECUTION_AND_PARTIAL'', ''MVE_PRIVATE_EVENTS_MISSING''),
    (''DATA_API'', ''EXTERNAL_API_UNVERIFIED''),
    (''POLICY_SWITCH_AND_OVERLAP'', ''RISK_GATES_MISSING''),
    (''DATA_PROVIDER_LICENSE_API'', ''OPERATING_COST_UNKNOWN''),
    (''CLOUD_COMPUTE_STORAGE_EGRESS'', ''OPERATING_COST_UNKNOWN''),
    (''OPS_LABOR_AND_INCIDENT'', ''OPERATING_COST_UNKNOWN'')]"

fun cost_blockers :: "cost list \<Rightarrow> string list res" where
  "cost_blockers [] = Inr []"
| "cost_blockers (c # cs) =
     (if cost_status c \<noteq> ''MISSING'' then cost_blockers cs
      else case map_of blocker_by_cost_type (cost_type c) of
        None \<Rightarrow> Inl (ValueError (''missing cost '' @ cost_type c @ '' has no fail-closed blocker mapping''))
      | Some b \<Rightarrow> rmap (Cons b) (cost_blockers cs))"

end
