(* ===== verification/SeedModel.thy ===== *)
theory SeedModel
  imports DataProfiles Contracts
begin

text \<open>
  The seeds of the experiment cards as data, and the two functions that register them
  (\<^verbatim>\<open>tools/experiment_registry_seeds.py\<close>).  The keyword arguments of a call are a record \<open>seed_args\<close>, the
  dictionary it stores is a record \<open>seed\<close>, and the module's dictionary \<^verbatim>\<open>CARD_SEEDS\<close> is the list of
  its items in the order they were registered.
\<close>


section \<open>Seeds\<close>

definition RECEIVE_CLOCK :: string where
  "RECEIVE_CLOCK = ''LOCAL_RECEIVE_CLOCK_PAST_ONLY''"

definition RFQ_RECEIVE_CLOCK :: string where
  "RFQ_RECEIVE_CLOCK = ''RFQ_LOCAL_RECEIVE_CLOCK_PAST_ONLY''"

definition PRIVATE_RFQ_CLOCK :: string where
  "PRIVATE_RFQ_CLOCK = ''PRIVATE_RFQ_EVENT_RECEIVE_CLOCK_PAST_ONLY''"

definition EXTERNAL_CLOCK :: string where
  "EXTERNAL_CLOCK = ''EXTERNAL_PUBLICATION_AND_LOCAL_RECEIVE_CLOCK_PAST_ONLY''"

definition TERMINAL_CLOCK :: string where
  "TERMINAL_CLOCK = ''VENUE_LIFECYCLE_RECEIVE_CLOCK_PAST_ONLY''"

definition DAY_CLOCK :: string where
  "DAY_CLOCK = ''UTC_DAY_BOUNDARY_WITH_PAST_ONLY_FEATURES''"

record signal =
  trigger :: string
  direction_semantics :: string
  decision_clock :: string
  forecast_horizon :: string
  falsifier :: string

record seed =
  seed_hypothesis :: string
  seed_signal :: signal
  seed_action_profile :: string
  seed_data_profile :: string
  seed_external_dependency :: string
  seed_target_class :: string
  seed_result_status :: string
  seed_claim_tier :: string
  seed_extra_blockers :: "string list"

type_synonym card_seeds = "(string \<times> seed) list"

definition signal_fields :: "signal \<Rightarrow> fields" where
  "signal_fields s = [
    (''trigger'', JStr (trigger s)),
    (''direction_semantics'', JStr (direction_semantics s)),
    (''decision_clock'', JStr (decision_clock s)),
    (''forecast_horizon'', JStr (forecast_horizon s)),
    (''falsifier'', JStr (falsifier s))]"

definition seed_fields :: "seed \<Rightarrow> fields" where
  "seed_fields s = [
    (''hypothesis'', JStr (seed_hypothesis s)),
    (''signal'', dict_of (signal_fields (seed_signal s))),
    (''action_profile'', JStr (seed_action_profile s)),
    (''data_profile'', JStr (seed_data_profile s)),
    (''external_dependency'', JStr (seed_external_dependency s)),
    (''target_class'', JStr (seed_target_class s)),
    (''result_status'', JStr (seed_result_status s)),
    (''claim_tier'', JStr (seed_claim_tier s)),
    (''extra_blockers'', jstrs (seed_extra_blockers s))]"


section \<open>Registration\<close>

record seed_args =
  kw_hypothesis :: string
  kw_trigger :: string
  kw_direction_semantics :: string
  kw_decision_clock :: string
  kw_forecast_horizon :: string
  kw_falsifier :: string
  kw_action_profile :: string
  kw_data_profile :: string
  kw_external_dependency :: string
  kw_target_class :: string
  kw_result_status :: string
  kw_claim_tier :: string
  kw_extra_blockers :: "string list"

text \<open>A seed that is registered already is never overwritten.\<close>

definition register :: "string \<times> seed_args \<Rightarrow> card_seeds \<Rightarrow> card_seeds res" where
  "register call seeds =
     (let (experiment_id, kw) = call in
      if experiment_id \<in> set (map fst seeds)
      then Inl (ValueError (''duplicate experiment seed: '' @ experiment_id))
      else Inr (seeds @ [(experiment_id, \<lparr>
        seed_hypothesis = kw_hypothesis kw,
        seed_signal = \<lparr>
          trigger = kw_trigger kw,
          direction_semantics = kw_direction_semantics kw,
          decision_clock = kw_decision_clock kw,
          forecast_horizon = kw_forecast_horizon kw,
          falsifier = kw_falsifier kw\<rparr>,
        seed_action_profile = kw_action_profile kw,
        seed_data_profile = kw_data_profile kw,
        seed_external_dependency = kw_external_dependency kw,
        seed_target_class = kw_target_class kw,
        seed_result_status = kw_result_status kw,
        seed_claim_tier = kw_claim_tier kw,
        seed_extra_blockers = kw_extra_blockers kw\<rparr>)]))"

text \<open>A model method registers with everything but its text fixed: a component, never a strategy.\<close>

record model_args =
  model_hypothesis :: string
  model_trigger :: string
  model_forecast_horizon :: string
  model_falsifier :: string

definition model_call :: "string \<times> model_args \<Rightarrow> string \<times> seed_args" where
  "model_call call = (case call of (experiment_id, m) \<Rightarrow> (experiment_id, \<lparr>
    kw_hypothesis = model_hypothesis m,
    kw_trigger = model_trigger m,
    kw_direction_semantics = ''inherits the exact owner label and orientation; the model method cannot invent a side, fill, action, or missing sports state'',
    kw_decision_clock = RECEIVE_CLOCK,
    kw_forecast_horizon = model_forecast_horizon m,
    kw_falsifier = model_falsifier m,
    kw_action_profile = ''MODEL_COMPONENT'',
    kw_data_profile = ''MODEL'',
    kw_external_dependency = ''INHERIT_OWNER'',
    kw_target_class = ''SIGNAL'',
    kw_result_status = ''BLOCKED_OWNER'',
    kw_claim_tier = ''MODEL_COMPONENT_ONLY'',
    kw_extra_blockers = [''ACTION_INCOMPLETE'', ''INSUFFICIENT_QUALITY_DATES'']\<rparr>))"

definition register_model :: "string \<times> model_args \<Rightarrow> card_seeds \<Rightarrow> card_seeds res" where
  "register_model call = register (model_call call)"

end
