(* ===== verification/SeedsAB.thy ===== *)
theory SeedsAB
  imports SeedModel
begin

text \<open>
  The registrations of the families A, B of \<^verbatim>\<open>tools/experiment_registry_seeds.py\<close>, in the order of the
  module: the experiment identifier and the keyword arguments of each call.
\<close>

definition call_A01 :: "string \<times> seed_args" where
  "call_A01 = (''A01-SPREAD-CAPTURE'', \<lparr>
    kw_hypothesis = ''In eligible two-sided states, passive spread capture remains positive after strict fills, adverse selection, forced exit, and exact fees.'',
    kw_trigger = ''executable spread exceeds frozen fee, markout, exit, and safety buffers'',
    kw_direction_semantics = ''two-sided passive quote; no directional forecast'',
    kw_decision_clock = RECEIVE_CLOCK,
    kw_forecast_horizon = ''fill path through 100ms, 1s, 5s, and frozen exit deadline'',
    kw_falsifier = ''pessimistic root-event fee-after PnL is non-positive on any required clean date'',
    kw_action_profile = ''MAKER_SPREAD'',
    kw_data_profile = ''L1'',
    kw_external_dependency = ''NOT_REQUIRED'',
    kw_target_class = ''EXECUTABLE_STRATEGY'',
    kw_result_status = ''PARTIAL_EVIDENCE'',
    kw_claim_tier = ''PNL_NOT_ESTIMATED'',
    kw_extra_blockers = [''FEE_UNKNOWN'', ''FILL_MODEL_MISSING'', ''LATENCY_UNMEASURED'']\<rparr>)"

definition call_A02 :: "string \<times> seed_args" where
  "call_A02 = (''A02-TOXICITY-MARKOUT'', \<lparr>
    kw_hypothesis = ''A past-only toxicity score identifies resting quotes whose cancellation avoids more adverse-selection loss than the spread opportunity forfeited.'',
    kw_trigger = ''signed flow and quote-state toxicity crosses the frozen vulnerable-side threshold'',
    kw_direction_semantics = ''cancel the quote exposed to the predicted adverse move; never open risk'',
    kw_decision_clock = RECEIVE_CLOCK,
    kw_forecast_horizon = ''cancel-effective time, 100ms, 1s, and 5s'',
    kw_falsifier = ''signal-gated maker does not beat the identical unfiltered maker after costs'',
    kw_action_profile = ''MAKER_FILTER'',
    kw_data_profile = ''L1'',
    kw_external_dependency = ''NOT_REQUIRED'',
    kw_target_class = ''EXECUTABLE_STRATEGY'',
    kw_result_status = ''DESCRIPTIVE_ONLY'',
    kw_claim_tier = ''MECHANISM_ONLY'',
    kw_extra_blockers = [''OWN_ORDER_CALIBRATION_MISSING'', ''LATENCY_UNMEASURED'', ''FEE_UNKNOWN'']\<rparr>)"

definition call_A03 :: "string \<times> seed_args" where
  "call_A03 = (''A03-DEPLETION-REFILL'', \<lparr>
    kw_hypothesis = ''Persistent refill after a level depletion creates a safer passive re-entry window than immediate replacement or permanent abstention.'',
    kw_trigger = ''registered level depletes and refill hazard plus persistence gates both pass'',
    kw_direction_semantics = ''post only on the enumerated depleted side after refill confirmation'',
    kw_decision_clock = RECEIVE_CLOCK,
    kw_forecast_horizon = ''10ms through 1s refill window plus frozen inventory exit'',
    kw_falsifier = ''refill-conditioned strict-fill PnL is non-positive or no better than immediate re-entry'',
    kw_action_profile = ''MAKER_REFILL'',
    kw_data_profile = ''L2'',
    kw_external_dependency = ''NOT_REQUIRED'',
    kw_target_class = ''EXECUTABLE_STRATEGY'',
    kw_result_status = ''PARTIAL_EVIDENCE'',
    kw_claim_tier = ''MECHANISM_ONLY'',
    kw_extra_blockers = [''OWN_ORDER_CALIBRATION_MISSING'', ''FEE_UNKNOWN'', ''INSUFFICIENT_QUALITY_DATES'']\<rparr>)"

definition call_A04 :: "string \<times> seed_args" where
  "call_A04 = (''A04-QUEUE-LAMBDA-DISTANCE'', \<lparr>
    kw_hypothesis = ''Quote distance and age provide an own-order-calibrated fill-intensity surface that improves the join, improve, or abstain decision.'',
    kw_trigger = ''calibrated benign-fill intensity at a registered distance exceeds its adverse-fill hazard'',
    kw_direction_semantics = ''place one passive quote on the side and distance explicitly enumerated by the owner card'',
    kw_decision_clock = RECEIVE_CLOCK,
    kw_forecast_horizon = ''quote lifetime through fill, cancel acknowledgement, or timeout'',
    kw_falsifier = ''public queue proxy fails to predict private own-order fills or fee-after PnL'',
    kw_action_profile = ''PASSIVE_FADE'',
    kw_data_profile = ''L1'',
    kw_external_dependency = ''NOT_REQUIRED'',
    kw_target_class = ''EXECUTABLE_STRATEGY'',
    kw_result_status = ''BLOCKED_DATA'',
    kw_claim_tier = ''NO_CLAIM'',
    kw_extra_blockers = [''OWN_ORDER_CALIBRATION_MISSING'', ''FILL_MODEL_MISSING'', ''FEE_UNKNOWN'']\<rparr>)"

definition call_A05 :: "string \<times> seed_args" where
  "call_A05 = (''A05-SNBD-LIQUIDITY-REGIMES'', \<lparr>
    kw_hypothesis = ''Past-only single-name book states select maker regimes with higher fee-after PnL than quoting throughout every valid state.'',
    kw_trigger = ''registered SNBD state enters a state-action cell with positive frozen training edge'',
    kw_direction_semantics = ''two-sided or enumerated one-sided passive action owned by the selected state cell'',
    kw_decision_clock = RECEIVE_CLOCK,
    kw_forecast_horizon = ''state dwell, transition, fill path, and frozen exit deadline'',
    kw_falsifier = ''state filtering has no incremental root-event PnL over the always-valid-state maker'',
    kw_action_profile = ''MAKER_FILTER'',
    kw_data_profile = ''L2'',
    kw_external_dependency = ''NOT_REQUIRED'',
    kw_target_class = ''EXECUTABLE_STRATEGY'',
    kw_result_status = ''DESCRIPTIVE_ONLY'',
    kw_claim_tier = ''MECHANISM_ONLY'',
    kw_extra_blockers = [''OWN_ORDER_CALIBRATION_MISSING'', ''FEE_UNKNOWN'', ''INSUFFICIENT_QUALITY_DATES'']\<rparr>)"

definition call_A06 :: "string \<times> seed_args" where
  "call_A06 = (''A06-QUOTE-LIFETIME-BURST'', \<lparr>
    kw_hypothesis = ''Very short quote lifetimes and update bursts lead toxic moves early enough for cancellation to improve a maker's PnL.'',
    kw_trigger = ''quote-lifetime lower-tail event coincides with a frozen update-rate burst'',
    kw_direction_semantics = ''cancel or widen the affected side; an unsigned burst cancels both sides'',
    kw_decision_clock = RECEIVE_CLOCK,
    kw_forecast_horizon = ''cancel-effective latency, 100ms, 1s, and 5s'',
    kw_falsifier = ''the burst does not lead adverse executable movement or false pauses erase avoided loss'',
    kw_action_profile = ''MAKER_FILTER'',
    kw_data_profile = ''L1'',
    kw_external_dependency = ''NOT_REQUIRED'',
    kw_target_class = ''EXECUTABLE_STRATEGY'',
    kw_result_status = ''DESCRIPTIVE_ONLY'',
    kw_claim_tier = ''MECHANISM_ONLY'',
    kw_extra_blockers = [''OWN_ORDER_CALIBRATION_MISSING'', ''LATENCY_UNMEASURED'', ''FEE_UNKNOWN'']\<rparr>)"

definition call_A07A :: "string \<times> seed_args" where
  "call_A07A = (''A07A-OCCUPANCY-FINGERPRINT'', \<lparr>
    kw_hypothesis = ''An occupancy fingerprint adds fee-after market-selection value beyond volume, spread, and activity without asserting participant identity.'',
    kw_trigger = ''past-only occupancy score admits a market after simple-selector controls'',
    kw_direction_semantics = ''route only an already registered child action; occupancy supplies no side'',
    kw_decision_clock = RECEIVE_CLOCK,
    kw_forecast_horizon = ''selected child root-event path and UTC-day portfolio result'',
    kw_falsifier = ''nested out-of-fold child PnL does not improve over the simple selector'',
    kw_action_profile = ''ROUTER'',
    kw_data_profile = ''L1_L2'',
    kw_external_dependency = ''NOT_REQUIRED'',
    kw_target_class = ''EXECUTABLE_STRATEGY'',
    kw_result_status = ''BLOCKED_CHILDREN'',
    kw_claim_tier = ''PNL_NOT_ESTIMATED'',
    kw_extra_blockers = [''CONFIRMED_CHILD_STRATEGIES_MISSING'', ''INSUFFICIENT_QUALITY_DATES'']\<rparr>)"

definition call_A07B :: "string \<times> seed_args" where
  "call_A07B = (''A07B-COORDINATED-RETREAT'', \<lparr>
    kw_hypothesis = ''Coordinated multi-level retreat leads adverse movement by more than cancel-effective latency, so a retreat kill reduces losses.'',
    kw_trigger = ''frozen multi-level depth-retreat score crosses its kill threshold'',
    kw_direction_semantics = ''cancel the side losing depth; cancel both if retreat direction is ambiguous'',
    kw_decision_clock = RECEIVE_CLOCK,
    kw_forecast_horizon = ''retreat onset to cancel-effective time, 100ms, 1s, and 5s'',
    kw_falsifier = ''retreat has no safety lead or avoided loss is smaller than false-kill opportunity cost'',
    kw_action_profile = ''MAKER_FILTER'',
    kw_data_profile = ''L2'',
    kw_external_dependency = ''NOT_REQUIRED'',
    kw_target_class = ''EXECUTABLE_STRATEGY'',
    kw_result_status = ''PARTIAL_EVIDENCE'',
    kw_claim_tier = ''MECHANISM_ONLY'',
    kw_extra_blockers = [''LATENCY_UNMEASURED'', ''OWN_ORDER_CALIBRATION_MISSING'', ''INSUFFICIENT_QUALITY_DATES'']\<rparr>)"

definition call_A07C :: "string \<times> seed_args" where
  "call_A07C = (''A07C-ADVERSE-SELECTION-TRANSFER'', \<lparr>
    kw_hypothesis = ''Toxic flow or retreat in one canonically linked market transfers adverse selection to a sibling book before that book reprices.'',
    kw_trigger = ''age-aligned source toxicity event occurs while the target quote remains unchanged'',
    kw_direction_semantics = ''cancel the target side exposed by the canonical outcome mapping; abstain if mapping is unknown'',
    kw_decision_clock = RECEIVE_CLOCK,
    kw_forecast_horizon = ''source event through target cancel-effective time and 5s'',
    kw_falsifier = ''target adverse markout is absent after age, root, liquidity, and placebo controls'',
    kw_action_profile = ''MAKER_FILTER'',
    kw_data_profile = ''L1_L2'',
    kw_external_dependency = ''NOT_REQUIRED'',
    kw_target_class = ''EXECUTABLE_STRATEGY'',
    kw_result_status = ''BLOCKED_MAPPING'',
    kw_claim_tier = ''NO_CLAIM'',
    kw_extra_blockers = [''INSTRUMENT_MAPPING_UNKNOWN'', ''LATENCY_UNMEASURED'', ''FEE_UNKNOWN'']\<rparr>)"

definition call_A07D :: "string \<times> seed_args" where
  "call_A07D = (''A07D-ANCHOR-MANIPULABILITY'', \<lparr>
    kw_hypothesis = ''Rejecting a fair-value anchor when its visible cost-to-move is small prevents more downstream strategy loss than it sacrifices.'',
    kw_trigger = ''anchor depth and cost-to-move fall below frozen robustness thresholds'',
    kw_direction_semantics = ''cancel affected child quotes and forbid new risk; the anchor never creates a directional trade'',
    kw_decision_clock = RECEIVE_CLOCK,
    kw_forecast_horizon = ''anchor fragility episode through child recovery and exit'',
    kw_falsifier = ''fragility gating does not improve the identical child policy or an independent anchor is unaffected'',
    kw_action_profile = ''MAKER_FILTER'',
    kw_data_profile = ''L1_L2'',
    kw_external_dependency = ''NOT_REQUIRED'',
    kw_target_class = ''EXECUTABLE_STRATEGY'',
    kw_result_status = ''BLOCKED_DATA'',
    kw_claim_tier = ''NO_CLAIM'',
    kw_extra_blockers = [''MISSING_SIGNAL_INPUT'', ''OWN_ORDER_CALIBRATION_MISSING'', ''FEE_UNKNOWN'']\<rparr>)"

definition call_A08 :: "string \<times> seed_args" where
  "call_A08 = (''A08-PRICE-GRID-ROUND-NUMBER'', \<lparr>
    kw_hypothesis = ''Round-number price levels have a reproducible fill-minus-markout difference large enough to justify a one-tick quote adjustment.'',
    kw_trigger = ''quote enters a frozen grid-distance cell with positive incremental training economics'',
    kw_direction_semantics = ''cancel and replace at the enumerated safer or higher-value tick; no side is inferred from roundness'',
    kw_decision_clock = RECEIVE_CLOCK,
    kw_forecast_horizon = ''quote lifetime, fill path, 1s markout, and exit'',
    kw_falsifier = ''grid-conditioned fee-after PnL is no better than the same quote without grid adjustment'',
    kw_action_profile = ''MAKER_FILTER'',
    kw_data_profile = ''L1'',
    kw_external_dependency = ''NOT_REQUIRED'',
    kw_target_class = ''EXECUTABLE_STRATEGY'',
    kw_result_status = ''DESCRIPTIVE_ONLY'',
    kw_claim_tier = ''MECHANISM_ONLY'',
    kw_extra_blockers = [''OWN_ORDER_CALIBRATION_MISSING'', ''FEE_UNKNOWN'', ''LATENCY_UNMEASURED'']\<rparr>)"

definition call_A09 :: "string \<times> seed_args" where
  "call_A09 = (''A09-LIQUIDITY-SEASONALITY'', \<lparr>
    kw_hypothesis = ''A frozen time or phase schedule can abstain from loss-making maker windows while retaining positive windows.'',
    kw_trigger = ''past-only time-phase cell is on the frozen allowlist and data quality is valid'',
    kw_direction_semantics = ''time selects an authorized child but supplies no market side'',
    kw_decision_clock = RECEIVE_CLOCK,
    kw_forecast_horizon = ''active window, child fill path, and UTC-day PnL'',
    kw_falsifier = ''scheduled routing fails to beat the same child active throughout all valid windows'',
    kw_action_profile = ''ROUTER'',
    kw_data_profile = ''L1'',
    kw_external_dependency = ''NOT_REQUIRED'',
    kw_target_class = ''EXECUTABLE_STRATEGY'',
    kw_result_status = ''DESCRIPTIVE_ONLY'',
    kw_claim_tier = ''PNL_NOT_ESTIMATED'',
    kw_extra_blockers = [''FEE_UNKNOWN'', ''FILL_MODEL_MISSING'', ''INSUFFICIENT_QUALITY_DATES'']\<rparr>)"

definition call_A10 :: "string \<times> seed_args" where
  "call_A10 = (''A10-CROSS-MARKET-QUOTE-SPILLOVER'', \<lparr>
    kw_hypothesis = ''A canonically linked leader quote change reaches a follower slowly enough for defensive cancellation or repricing to reduce loss.'',
    kw_trigger = ''age-aligned leader moves while follower executable quote is stale'',
    kw_direction_semantics = ''map leader outcome to follower side through audited identity; unknown mapping means abstain'',
    kw_decision_clock = RECEIVE_CLOCK,
    kw_forecast_horizon = ''10ms through 5s plus follower cancel-effective time'',
    kw_falsifier = ''time reversal, unrelated-root, or stale-age controls match the observed follower response'',
    kw_action_profile = ''MAKER_FILTER'',
    kw_data_profile = ''FAMILY'',
    kw_external_dependency = ''NOT_REQUIRED'',
    kw_target_class = ''EXECUTABLE_STRATEGY'',
    kw_result_status = ''BLOCKED_MAPPING'',
    kw_claim_tier = ''NO_CLAIM'',
    kw_extra_blockers = [''INSTRUMENT_MAPPING_UNKNOWN'', ''LATENCY_UNMEASURED'', ''FEE_UNKNOWN'']\<rparr>)"

definition call_A11 :: "string \<times> seed_args" where
  "call_A11 = (''A11-ONE-SIDED-PROVISION'', \<lparr>
    kw_hypothesis = ''Supplying the missing side of a persistent one-sided book earns positive fee-after PnL after inventory exit risk.'',
    kw_trigger = ''valid bid-only or ask-only state persists past the frozen dwell gate'',
    kw_direction_semantics = ''post only the explicitly missing YES-normalized side'',
    kw_decision_clock = RECEIVE_CLOCK,
    kw_forecast_horizon = ''one-sided dwell through fill, topology recovery, or forced exit'',
    kw_falsifier = ''missing-side strict fills are absent or their adverse/exit loss exceeds captured spread'',
    kw_action_profile = ''PASSIVE_FADE'',
    kw_data_profile = ''L1'',
    kw_external_dependency = ''NOT_REQUIRED'',
    kw_target_class = ''EXECUTABLE_STRATEGY'',
    kw_result_status = ''DESCRIPTIVE_ONLY'',
    kw_claim_tier = ''PNL_NOT_ESTIMATED'',
    kw_extra_blockers = [''FILL_MODEL_MISSING'', ''FEE_UNKNOWN'', ''LATENCY_UNMEASURED'']\<rparr>)"

definition call_A12 :: "string \<times> seed_args" where
  "call_A12 = (''A12-GENERIC-PASSIVE-SCALPING'', \<lparr>
    kw_hypothesis = ''A passive entry and passive exit inside a stable range survives strict two-leg fills, fees, and breakout loss.'',
    kw_trigger = ''frozen range, spread, volatility, and depth gates admit a round-trip opportunity'',
    kw_direction_semantics = ''enter on the enumerated cheap side and exit the same inventory; never count unmatched legs as profit'',
    kw_decision_clock = RECEIVE_CLOCK,
    kw_forecast_horizon = ''entry timeout through second fill or forced-exit deadline'',
    kw_falsifier = ''strict round trips vanish or breakout and forced-exit losses make root-event PnL non-positive'',
    kw_action_profile = ''PASSIVE_FADE'',
    kw_data_profile = ''L1'',
    kw_external_dependency = ''NOT_REQUIRED'',
    kw_target_class = ''EXECUTABLE_STRATEGY'',
    kw_result_status = ''BLOCKED_ENGINE'',
    kw_claim_tier = ''PNL_NOT_ESTIMATED'',
    kw_extra_blockers = [''FILL_MODEL_MISSING'', ''FEE_UNKNOWN'', ''LATENCY_UNMEASURED'']\<rparr>)"

definition call_A13 :: "string \<times> seed_args" where
  "call_A13 = (''A13-T90-RANGE'', \<lparr>
    kw_hypothesis = (''Past-only Tennis leader episodes in the 88'' @ [CHR 0xE2, CHR 0x80, CHR 0x93] @ ''93 cent range provide a repeatable passive range-making edge after retreat and terminal risks.''),
    kw_trigger = (''authoritative Tennis mapping, prior two-way tug, 88'' @ [CHR 0xE2, CHR 0x80, CHR 0x93] @ ''93 leader state, and depth gates all pass''),
    kw_direction_semantics = ''quote the registered high/low outcome mapping; leader flips cancel the episode'',
    kw_decision_clock = RECEIVE_CLOCK,
    kw_forecast_horizon = ''T90 episode through retreat, timeout, forced exit, or settlement'',
    kw_falsifier = ''eligible episodes are too rare or pessimistic fee-after PnL is non-positive'',
    kw_action_profile = ''T90_RANGE'',
    kw_data_profile = ''L1_L2'',
    kw_external_dependency = ''NOT_REQUIRED'',
    kw_target_class = ''EXECUTABLE_STRATEGY'',
    kw_result_status = ''BLOCKED_AUTHORITY'',
    kw_claim_tier = ''NO_CLAIM'',
    kw_extra_blockers = [''VENUE_PERMISSION_MISSING'', ''INSUFFICIENT_QUALITY_DATES'', ''FEE_UNKNOWN'']\<rparr>)"

definition call_A14 :: "string \<times> seed_args" where
  "call_A14 = (''A14-T90-REBUILD'', \<lparr>
    kw_hypothesis = ''After a completed T90 retreat kill and zero-resting reconciliation, one rebuild re-entry adds positive PnL over never re-entering.'',
    kw_trigger = ''parent retreat completed, zero resting confirmed, and frozen rebuilt-depth gate passes'',
    kw_direction_semantics = ''one passive re-entry in the parent orientation; no second cycle'',
    kw_decision_clock = RECEIVE_CLOCK,
    kw_forecast_horizon = ''rebuild window through one fill cycle, renewed retreat, or exit'',
    kw_falsifier = ''rebuild window closes before fill or paired incremental PnL over the parent is non-positive'',
    kw_action_profile = ''T90_REBUILD'',
    kw_data_profile = ''L1_L2'',
    kw_external_dependency = ''NOT_REQUIRED'',
    kw_target_class = ''EXECUTABLE_STRATEGY'',
    kw_result_status = ''BLOCKED_AUTHORITY'',
    kw_claim_tier = ''NO_CLAIM'',
    kw_extra_blockers = [''VENUE_PERMISSION_MISSING'', ''OWN_ORDER_CALIBRATION_MISSING'', ''INSUFFICIENT_QUALITY_DATES'']\<rparr>)"

definition call_A15 :: "string \<times> seed_args" where
  "call_A15 = (''A15-FAIR-MICROPRICE-PAST-FLOW'', \<lparr>
    kw_hypothesis = ''A past-flow microprice estimates near-term executable fair value better than midpoint and improves maker repricing PnL.'',
    kw_trigger = ''microprice displacement exceeds the frozen reprice threshold and costs'',
    kw_direction_semantics = ''cancel and replace quotes around the signed microprice; no aggressive opening'',
    kw_decision_clock = RECEIVE_CLOCK,
    kw_forecast_horizon = ''10ms, 100ms, 1s, and maker exit'',
    kw_falsifier = ''microprice forecast or fee-after maker increment does not beat midpoint'',
    kw_action_profile = ''MAKER_FILTER'',
    kw_data_profile = ''L1'',
    kw_external_dependency = ''NOT_REQUIRED'',
    kw_target_class = ''EXECUTABLE_STRATEGY'',
    kw_result_status = ''DESCRIPTIVE_ONLY'',
    kw_claim_tier = ''MECHANISM_ONLY'',
    kw_extra_blockers = [''FILL_MODEL_MISSING'', ''FEE_UNKNOWN'', ''LATENCY_UNMEASURED'']\<rparr>)"

definition call_A16 :: "string \<times> seed_args" where
  "call_A16 = (''A16-INVENTORY-RESERVATION-SKEW'', \<lparr>
    kw_hypothesis = ''Position-aware reservation-price skew reduces inventory tail loss without erasing spread capture.'',
    kw_trigger = ''authoritative position and frozen fair/volatility inputs imply a non-zero reservation skew'',
    kw_direction_semantics = ''widen the inventory-increasing side and improve only the reducing side'',
    kw_decision_clock = RECEIVE_CLOCK,
    kw_forecast_horizon = ''position path through flat, risk timeout, or terminal'',
    kw_falsifier = ''skewed policy does not beat the same symmetric maker on PnL and tail risk'',
    kw_action_profile = ''SIZE_RISK'',
    kw_data_profile = ''L1_PRIVATE'',
    kw_external_dependency = ''NOT_REQUIRED'',
    kw_target_class = ''EXECUTABLE_STRATEGY'',
    kw_result_status = ''BLOCKED_DATA'',
    kw_claim_tier = ''NO_CLAIM'',
    kw_extra_blockers = [''PRIVATE_ACCOUNT_STATE_MISSING'', ''FEE_UNKNOWN'', ''RISK_GATES_MISSING'']\<rparr>)"

definition call_A17 :: "string \<times> seed_args" where
  "call_A17 = (''A17-DYNAMIC-QUOTE-RADIUS'', \<lparr>
    kw_hypothesis = ''A radius driven by past-only volatility and toxicity outperforms one fixed quote radius after fill and fee costs.'',
    kw_trigger = ''frozen volatility-toxicity cell maps to a radius different from the fixed baseline'',
    kw_direction_semantics = ''symmetrically widen or narrow unless a separately registered side signal exists'',
    kw_decision_clock = RECEIVE_CLOCK,
    kw_forecast_horizon = ''quote lifetime, 1s adverse markout, and forced exit'',
    kw_falsifier = ''dynamic radius has no paired fee-after PnL improvement over fixed radius'',
    kw_action_profile = ''MAKER_FILTER'',
    kw_data_profile = ''L1'',
    kw_external_dependency = ''NOT_REQUIRED'',
    kw_target_class = ''EXECUTABLE_STRATEGY'',
    kw_result_status = ''DESCRIPTIVE_ONLY'',
    kw_claim_tier = ''PNL_NOT_ESTIMATED'',
    kw_extra_blockers = [''FILL_MODEL_MISSING'', ''FEE_UNKNOWN'', ''INSUFFICIENT_QUALITY_DATES'']\<rparr>)"

definition call_A18 :: "string \<times> seed_args" where
  "call_A18 = (''A18-TIME-SHRINKING-CAP'', \<lparr>
    kw_hypothesis = ''Reducing inventory caps as scheduled start or terminal approaches improves tail-adjusted PnL and capital use versus a constant cap.'',
    kw_trigger = ''time-to-start or time-to-terminal crosses a frozen cap step'',
    kw_direction_semantics = ''reduce or forbid risk-increasing orders; exits remain allowed'',
    kw_decision_clock = TERMINAL_CLOCK,
    kw_forecast_horizon = ''cap step through start, settlement, or complete unwind'',
    kw_falsifier = ''shrinking caps do not improve worst-tail loss or commercial return on capital'',
    kw_action_profile = ''SIZE_RISK'',
    kw_data_profile = ''TERMINAL'',
    kw_external_dependency = ''NOT_REQUIRED'',
    kw_target_class = ''EXECUTABLE_STRATEGY'',
    kw_result_status = ''BLOCKED_DATA'',
    kw_claim_tier = ''NO_CLAIM'',
    kw_extra_blockers = [''SETTLEMENT_MISSING'', ''PRIVATE_ACCOUNT_STATE_MISSING'', ''RISK_GATES_MISSING'']\<rparr>)"

definition call_A19 :: "string \<times> seed_args" where
  "call_A19 = (''A19-NO-TRADE-QUOTE-JUMP'', \<lparr>
    kw_hypothesis = ''A quote jump with no intervening public trade reveals information risk that a trade-only kill misses.'',
    kw_trigger = ''executable quote moves by the frozen threshold with zero intervening trades'',
    kw_direction_semantics = ''cancel the side made stale by the quote jump; ambiguous gaps cancel both'',
    kw_decision_clock = RECEIVE_CLOCK,
    kw_forecast_horizon = ''jump through cancel-effective time, 100ms, 1s, and 5s'',
    kw_falsifier = ''no-trade jumps do not lead adverse fills or are explained by gaps and reconnects'',
    kw_action_profile = ''MAKER_FILTER'',
    kw_data_profile = ''L1'',
    kw_external_dependency = ''NOT_REQUIRED'',
    kw_target_class = ''EXECUTABLE_STRATEGY'',
    kw_result_status = ''DESCRIPTIVE_ONLY'',
    kw_claim_tier = ''MECHANISM_ONLY'',
    kw_extra_blockers = [''LATENCY_UNMEASURED'', ''OWN_ORDER_CALIBRATION_MISSING'', ''FEE_UNKNOWN'']\<rparr>)"

definition call_A20 :: "string \<times> seed_args" where
  "call_A20 = (''A20-SYSTEM-LOAD-QUEUE-GROWTH'', \<lparr>
    kw_hypothesis = ''Local decision and send-queue growth predicts cancel-safety failure, so a load kill prevents losses.'',
    kw_trigger = ''decision age, send queue, or acknowledgement latency exceeds a frozen load threshold'',
    kw_direction_semantics = ''cancel all resting risk and forbid new risk until telemetry recovers'',
    kw_decision_clock = ''LOCAL_MONOTONIC_SYSTEM_AND_VENUE_RECEIVE_CLOCKS'',
    kw_forecast_horizon = ''load breach through cancel acknowledgement and reconciliation'',
    kw_falsifier = ''load telemetry has no relation to cancel misses or the kill loses more than it avoids'',
    kw_action_profile = ''MAKER_FILTER'',
    kw_data_profile = ''L1'',
    kw_external_dependency = ''NOT_REQUIRED'',
    kw_target_class = ''EXECUTABLE_STRATEGY'',
    kw_result_status = ''BLOCKED_DATA'',
    kw_claim_tier = ''NO_CLAIM'',
    kw_extra_blockers = [''MISSING_SIGNAL_INPUT'', ''LATENCY_UNMEASURED'', ''OWN_ORDER_CALIBRATION_MISSING'']\<rparr>)"

definition call_B01 :: "string \<times> seed_args" where
  "call_B01 = (''B01-MOMENTUM-CONTINUATION'', \<lparr>
    kw_hypothesis = ''Signed flow, quote velocity, and depletion identify continuation large enough to survive aggressive entry, exit, fees, and latency.'',
    kw_trigger = ''frozen signed-flow continuation score exceeds all-in executable cost plus safety buffer'',
    kw_direction_semantics = ''positive score buys YES and negative score buys NO through an exhaustive orientation map'',
    kw_decision_clock = RECEIVE_CLOCK,
    kw_forecast_horizon = ''100ms, 1s, 5s, and frozen time or reversal exit'',
    kw_falsifier = ''executable continuation after latency is non-positive or fee-after root PnL is non-positive'',
    kw_action_profile = ''TAKER_DIRECTIONAL'',
    kw_data_profile = ''L1'',
    kw_external_dependency = ''NOT_REQUIRED'',
    kw_target_class = ''EXECUTABLE_STRATEGY'',
    kw_result_status = ''BLOCKED_AUTHORITY'',
    kw_claim_tier = ''DESCRIPTIVE_ONLY'',
    kw_extra_blockers = [''VENUE_PERMISSION_MISSING'', ''FEE_UNKNOWN'', ''LATENCY_UNMEASURED'']\<rparr>)"

definition call_B02 :: "string \<times> seed_args" where
  "call_B02 = (''B02-MEAN-REVERSION'', \<lparr>
    kw_hypothesis = ''A shock followed by deceleration and opposing refill creates a passive fade whose reversal gain exceeds continuation loss and costs.'',
    kw_trigger = ''shock, deceleration, opposing refill, and stable-anchor gates all pass'',
    kw_direction_semantics = ''post one passive contract opposite the enumerated shock direction'',
    kw_decision_clock = RECEIVE_CLOCK,
    kw_forecast_horizon = ''100ms through 30s or frozen continuation stop'',
    kw_falsifier = ''continuation-adjusted fee-after fade PnL is non-positive'',
    kw_action_profile = ''PASSIVE_FADE'',
    kw_data_profile = ''L1_L2'',
    kw_external_dependency = ''NOT_REQUIRED'',
    kw_target_class = ''EXECUTABLE_STRATEGY'',
    kw_result_status = ''DESCRIPTIVE_ONLY'',
    kw_claim_tier = ''MECHANISM_ONLY'',
    kw_extra_blockers = [''FILL_MODEL_MISSING'', ''FEE_UNKNOWN'', ''INSUFFICIENT_QUALITY_DATES'']\<rparr>)"

definition call_B03 :: "string \<times> seed_args" where
  "call_B03 = (''B03-POST-JUMP-CONTINUATION-VS-REVERSAL'', \<lparr>
    kw_hypothesis = ''Past-only post-jump state distinguishes follow from fade well enough to outperform either unconditional action.'',
    kw_trigger = ''jump classifier assigns follow or reverse with confidence above the frozen abstention threshold'',
    kw_direction_semantics = ''follow maps to jump sign, reverse maps against it, and uncertain state takes no order'',
    kw_decision_clock = RECEIVE_CLOCK,
    kw_forecast_horizon = ''100ms, 1s, 5s, and registered stop'',
    kw_falsifier = ''chronological paired PnL fails to beat both always-follow and always-fade baselines'',
    kw_action_profile = ''TAKER_DIRECTIONAL'',
    kw_data_profile = ''L1'',
    kw_external_dependency = ''NOT_REQUIRED'',
    kw_target_class = ''EXECUTABLE_STRATEGY'',
    kw_result_status = ''BLOCKED_AUTHORITY'',
    kw_claim_tier = ''DESCRIPTIVE_ONLY'',
    kw_extra_blockers = [''VENUE_PERMISSION_MISSING'', ''FEE_UNKNOWN'', ''LATENCY_UNMEASURED'']\<rparr>)"

definition call_B04 :: "string \<times> seed_args" where
  "call_B04 = (''B04-LARGE-FLOW-CONTINUATION-VS-REVERSAL'', \<lparr>
    kw_hypothesis = ''Large public trades have a conditional continuation or reversal response that remains tradable after impact and costs.'',
    kw_trigger = ''trade size percentile and frozen post-trade book response select follow or fade'',
    kw_direction_semantics = ''use audited aggressor orientation; unknown trade side means abstain'',
    kw_decision_clock = RECEIVE_CLOCK,
    kw_forecast_horizon = ''10ms through 30s and frozen exit'',
    kw_falsifier = ''large-flow conditional executable return is non-positive after fees and impact'',
    kw_action_profile = ''TAKER_DIRECTIONAL'',
    kw_data_profile = ''L1'',
    kw_external_dependency = ''NOT_REQUIRED'',
    kw_target_class = ''EXECUTABLE_STRATEGY'',
    kw_result_status = ''BLOCKED_AUTHORITY'',
    kw_claim_tier = ''DESCRIPTIVE_ONLY'',
    kw_extra_blockers = [''VENUE_PERMISSION_MISSING'', ''FEE_UNKNOWN'', ''LATENCY_UNMEASURED'']\<rparr>)"

definition call_B05 :: "string \<times> seed_args" where
  "call_B05 = (''B05-OFI-PREDICTIVITY'', \<lparr>
    kw_hypothesis = ''Sequence-valid order-flow imbalance adds signed executable-return information beyond public trade flow.'',
    kw_trigger = ''past-only OFI crosses a frozen side-specific threshold after simple-flow controls'',
    kw_direction_semantics = ''positive normalized OFI buys YES and negative normalized OFI buys NO'',
    kw_decision_clock = RECEIVE_CLOCK,
    kw_forecast_horizon = ''100ms, 1s, 5s, and 30s'',
    kw_falsifier = ''OFI has no chronological incremental return or fees consume the predicted move'',
    kw_action_profile = ''TAKER_DIRECTIONAL'',
    kw_data_profile = ''L1_L2'',
    kw_external_dependency = ''NOT_REQUIRED'',
    kw_target_class = ''EXECUTABLE_STRATEGY'',
    kw_result_status = ''DESCRIPTIVE_ONLY'',
    kw_claim_tier = ''MECHANISM_ONLY'',
    kw_extra_blockers = [''INSUFFICIENT_QUALITY_DATES'', ''FEE_UNKNOWN'', ''VENUE_PERMISSION_MISSING'']\<rparr>)"

definition call_B06 :: "string \<times> seed_args" where
  "call_B06 = (''B06-BOOK-IMBALANCE-PREDICTIVITY'', \<lparr>
    kw_hypothesis = ''Top-k depth imbalance predicts signed executable returns after spread, liquidity, and price controls.'',
    kw_trigger = ''sequence-valid top-k imbalance exceeds the frozen directional threshold'',
    kw_direction_semantics = ''buy the outcome whose normalized same-side pressure is positive; unknown depth abstains'',
    kw_decision_clock = RECEIVE_CLOCK,
    kw_forecast_horizon = ''100ms, 1s, 5s, and 30s'',
    kw_falsifier = ''shuffle, matched-state, or chronological tests remove the directional increment'',
    kw_action_profile = ''TAKER_DIRECTIONAL'',
    kw_data_profile = ''L2'',
    kw_external_dependency = ''NOT_REQUIRED'',
    kw_target_class = ''EXECUTABLE_STRATEGY'',
    kw_result_status = ''DESCRIPTIVE_ONLY'',
    kw_claim_tier = ''MECHANISM_ONLY'',
    kw_extra_blockers = [''INSUFFICIENT_QUALITY_DATES'', ''FEE_UNKNOWN'', ''VENUE_PERMISSION_MISSING'']\<rparr>)"

definition call_B07 :: "string \<times> seed_args" where
  "call_B07 = (''B07-MICROPRICE-PREDICTIVITY'', \<lparr>
    kw_hypothesis = ''Microprice displacement predicts a large enough bid/ask move to cover crossing costs and latency.'',
    kw_trigger = ''microprice minus midpoint exceeds the frozen executable-cost threshold'',
    kw_direction_semantics = ''positive displacement buys YES and negative displacement buys NO'',
    kw_decision_clock = RECEIVE_CLOCK,
    kw_forecast_horizon = ''10ms, 100ms, 1s, and 5s'',
    kw_falsifier = ''future executable return fails to exceed midpoint baseline and all-in cost'',
    kw_action_profile = ''TAKER_DIRECTIONAL'',
    kw_data_profile = ''L1_L2'',
    kw_external_dependency = ''NOT_REQUIRED'',
    kw_target_class = ''EXECUTABLE_STRATEGY'',
    kw_result_status = ''DESCRIPTIVE_ONLY'',
    kw_claim_tier = ''MECHANISM_ONLY'',
    kw_extra_blockers = [''FEE_UNKNOWN'', ''LATENCY_UNMEASURED'', ''VENUE_PERMISSION_MISSING'']\<rparr>)"

definition call_B08 :: "string \<times> seed_args" where
  "call_B08 = (''B08-CONTINUOUS-PRICE-CALIBRATION'', \<lparr>
    kw_hypothesis = ''Outside the registered E04 near-terminal window, a continuously point-in-time calibrated probability differs from executable price enough to support a bounded hold-to-terminal action.'',
    kw_trigger = ''outside E04_PRE_FREEZE_NEAR_TERMINAL_WINDOW, chronological calibrated probability minus executable price exceeds fee and tail buffers'',
    kw_direction_semantics = ''buy YES when calibrated probability is higher and buy NO when its complement is higher'',
    kw_decision_clock = TERMINAL_CLOCK,
    kw_forecast_horizon = ''non-E04 lifecycle entry through frozen exit or actual terminal settlement'',
    kw_falsifier = ''calibration vanishes out of sample or settlement PnL is non-positive'',
    kw_action_profile = ''TERMINAL_ENTRY'',
    kw_data_profile = ''TERMINAL'',
    kw_external_dependency = ''NOT_REQUIRED'',
    kw_target_class = ''EXECUTABLE_STRATEGY'',
    kw_result_status = ''BLOCKED_TERMINAL'',
    kw_claim_tier = ''NO_CLAIM'',
    kw_extra_blockers = [''SETTLEMENT_MISSING'', ''FEE_UNKNOWN'', ''VENUE_PERMISSION_MISSING'']\<rparr>)"

definition call_B09 :: "string \<times> seed_args" where
  "call_B09 = (''B09-LISTING-TO-START-DRIFT'', \<lparr>
    kw_hypothesis = ''A frozen listing-to-scheduled-start phase has a repeatable signed drift that remains after executable costs.'',
    kw_trigger = ''time-since-listing and time-to-scheduled-start enter an admitted drift cell'',
    kw_direction_semantics = ''direction is the cell's training-frozen sign; no actual game state is inferred'',
    kw_decision_clock = RECEIVE_CLOCK,
    kw_forecast_horizon = ''next phase boundary or frozen pre-start exit'',
    kw_falsifier = ''leave-day-out drift changes sign or executable fee-after PnL is non-positive'',
    kw_action_profile = ''TAKER_DIRECTIONAL'',
    kw_data_profile = ''L1'',
    kw_external_dependency = ''NOT_REQUIRED'',
    kw_target_class = ''EXECUTABLE_STRATEGY'',
    kw_result_status = ''DESCRIPTIVE_ONLY'',
    kw_claim_tier = ''PNL_NOT_ESTIMATED'',
    kw_extra_blockers = [''FEE_UNKNOWN'', ''LATENCY_UNMEASURED'', ''INSUFFICIENT_QUALITY_DATES'']\<rparr>)"

definition call_B10 :: "string \<times> seed_args" where
  "call_B10 = (''B10-INPLAY-PROXY-PRICE-EROSION'', \<lparr>
    kw_hypothesis = ''The explicitly labeled scheduled-start proxy has a repeatable signed price-erosion pattern that survives executable costs; it is not a claim about actual live-game state.'',
    kw_trigger = ''scheduled-start proxy boundary and a training-frozen signed erosion cell are both active'',
    kw_direction_semantics = ''trade only the cell's frozen observed price sign; never call it score, serve, period, inning, or true in-play state'',
    kw_decision_clock = RECEIVE_CLOCK,
    kw_forecast_horizon = ''scheduled-start proxy through the frozen post-proxy exit'',
    kw_falsifier = ''signed post-proxy drift is unstable or non-positive after executable costs and start-time mismatch stress'',
    kw_action_profile = ''TAKER_DIRECTIONAL'',
    kw_data_profile = ''L1'',
    kw_external_dependency = ''OPTIONAL_REFINEMENT'',
    kw_target_class = ''EXECUTABLE_STRATEGY'',
    kw_result_status = ''DESCRIPTIVE_ONLY'',
    kw_claim_tier = ''NO_CLAIM'',
    kw_extra_blockers = [''FEE_UNKNOWN'', ''LATENCY_UNMEASURED'', ''VENUE_PERMISSION_MISSING'']\<rparr>)"

definition call_B11 :: "string \<times> seed_args" where
  "call_B11 = (''B11-REALIZED-VOL-BY-TIME'', \<lparr>
    kw_hypothesis = ''Past-only time and phase volatility forecasts improve maker quote radius relative to one fixed radius.'',
    kw_trigger = ''time-phase conditional volatility maps to a different frozen safety radius'',
    kw_direction_semantics = ''volatility is unsigned and changes width only'',
    kw_decision_clock = RECEIVE_CLOCK,
    kw_forecast_horizon = ''next 1s, 30s, 5m, and child quote lifetime'',
    kw_falsifier = ''conditional volatility has no out-of-sample forecast or maker-PnL increment'',
    kw_action_profile = ''MAKER_FILTER'',
    kw_data_profile = ''L1'',
    kw_external_dependency = ''NOT_REQUIRED'',
    kw_target_class = ''EXECUTABLE_STRATEGY'',
    kw_result_status = ''DESCRIPTIVE_ONLY'',
    kw_claim_tier = ''MECHANISM_ONLY'',
    kw_extra_blockers = [''FILL_MODEL_MISSING'', ''FEE_UNKNOWN'', ''INSUFFICIENT_QUALITY_DATES'']\<rparr>)"

definition call_B12 :: "string \<times> seed_args" where
  "call_B12 = (''B12-JUMP-HAZARD'', \<lparr>
    kw_hypothesis = ''A past-only jump hazard rises early enough for cancellation to reduce a maker's adverse tail.'',
    kw_trigger = ''frozen jump-hazard estimate exceeds its cancel threshold'',
    kw_direction_semantics = ''unsigned hazard cancels both sides; a separately audited side signal may cancel one'',
    kw_decision_clock = RECEIVE_CLOCK,
    kw_forecast_horizon = ''cancel-effective time, 100ms, 1s, and 5s'',
    kw_falsifier = ''hazard lacks cancel headroom or false-pause cost exceeds avoided jump loss'',
    kw_action_profile = ''MAKER_FILTER'',
    kw_data_profile = ''L1'',
    kw_external_dependency = ''NOT_REQUIRED'',
    kw_target_class = ''EXECUTABLE_STRATEGY'',
    kw_result_status = ''DESCRIPTIVE_ONLY'',
    kw_claim_tier = ''MECHANISM_ONLY'',
    kw_extra_blockers = [''LATENCY_UNMEASURED'', ''OWN_ORDER_CALIBRATION_MISSING'', ''FEE_UNKNOWN'']\<rparr>)"

definition call_B13 :: "string \<times> seed_args" where
  "call_B13 = (''B13-CALM-TO-BURST'', \<lparr>
    kw_hypothesis = ''Activity acceleration during a calm state predicts a burst early enough for a temporary risk-off action to add PnL.'',
    kw_trigger = ''calm dwell plus quote/trade acceleration crosses the frozen burst threshold'',
    kw_direction_semantics = ''burst probability is unsigned and cancels or widens both sides'',
    kw_decision_clock = RECEIVE_CLOCK,
    kw_forecast_horizon = ''burst onset through frozen recovery dwell'',
    kw_falsifier = ''burst precision after latency is low or false pauses erase avoided loss'',
    kw_action_profile = ''MAKER_FILTER'',
    kw_data_profile = ''L1'',
    kw_external_dependency = ''NOT_REQUIRED'',
    kw_target_class = ''EXECUTABLE_STRATEGY'',
    kw_result_status = ''DESCRIPTIVE_ONLY'',
    kw_claim_tier = ''MECHANISM_ONLY'',
    kw_extra_blockers = [''LATENCY_UNMEASURED'', ''FILL_MODEL_MISSING'', ''FEE_UNKNOWN'']\<rparr>)"

definition call_B14 :: "string \<times> seed_args" where
  "call_B14 = (''B14-VOL-HARVEST'', \<lparr>
    kw_hypothesis = ''When executable spread is wide relative to past-only volatility and jump risk, selective passive quoting has positive fee-after PnL.'',
    kw_trigger = ''spread exceeds predicted adverse move, exact fees, exit cost, and tail buffer'',
    kw_direction_semantics = ''two-sided passive quote; no volatility-derived direction'',
    kw_decision_clock = RECEIVE_CLOCK,
    kw_forecast_horizon = ''quote lifetime through jump kill, fill, and forced exit'',
    kw_falsifier = ''adverse-jump expected shortfall or strict-fill loss exceeds captured spread'',
    kw_action_profile = ''MAKER_SPREAD'',
    kw_data_profile = ''L1'',
    kw_external_dependency = ''NOT_REQUIRED'',
    kw_target_class = ''EXECUTABLE_STRATEGY'',
    kw_result_status = ''DESCRIPTIVE_ONLY'',
    kw_claim_tier = ''PNL_NOT_ESTIMATED'',
    kw_extra_blockers = [''FILL_MODEL_MISSING'', ''FEE_UNKNOWN'', ''LATENCY_UNMEASURED'']\<rparr>)"

definition call_B15 :: "string \<times> seed_args" where
  "call_B15 = (''B15-VOL-BREAKOUT'', \<lparr>
    kw_hypothesis = ''A calm-to-burst transition with independent directional confirmation continues far enough to support an aggressive breakout trade.'',
    kw_trigger = ''burst detector and signed flow or quote-velocity confirmation agree'',
    kw_direction_semantics = ''trade only the confirmed sign; unsigned bursts abstain'',
    kw_decision_clock = RECEIVE_CLOCK,
    kw_forecast_horizon = ''100ms, 1s, 5s, or frozen reversal stop'',
    kw_falsifier = ''false breakouts or latency consume the continuation edge'',
    kw_action_profile = ''TAKER_DIRECTIONAL'',
    kw_data_profile = ''L1'',
    kw_external_dependency = ''NOT_REQUIRED'',
    kw_target_class = ''EXECUTABLE_STRATEGY'',
    kw_result_status = ''BLOCKED_AUTHORITY'',
    kw_claim_tier = ''DESCRIPTIVE_ONLY'',
    kw_extra_blockers = [''VENUE_PERMISSION_MISSING'', ''FEE_UNKNOWN'', ''LATENCY_UNMEASURED'']\<rparr>)"

definition call_B16 :: "string \<times> seed_args" where
  "call_B16 = (''B16-CS-ASK'', \<lparr>
    kw_hypothesis = ''At verified 97 or 98 cent high-side states, economically selling high by buying the low-side outcome earns positive exact settlement PnL.'',
    kw_trigger = ''registered high-side ask persists at 97c or 98c with complete terminal and fee facts'',
    kw_direction_semantics = ''from flat buy the low-side outcome at 1-q; never assume a naked high-side sale'',
    kw_decision_clock = TERMINAL_CLOCK,
    kw_forecast_horizon = ''actual settlement including void, retirement, and postponement paths'',
    kw_falsifier = ''conditional upset rate plus exact fee exceeds break-even or settlement-PnL lower bound is non-positive'',
    kw_action_profile = ''CS_ASK'',
    kw_data_profile = ''TERMINAL'',
    kw_external_dependency = ''NOT_REQUIRED'',
    kw_target_class = ''EXECUTABLE_STRATEGY'',
    kw_result_status = ''BLOCKED_AUTHORITY'',
    kw_claim_tier = ''NO_CLAIM'',
    kw_extra_blockers = [''SETTLEMENT_MISSING'', ''VENUE_PERMISSION_MISSING'', ''FEE_UNKNOWN'']\<rparr>)"

definition call_B17 :: "string \<times> seed_args" where
  "call_B17 = (''B17-CS-BID-CONTROL'', \<lparr>
    kw_hypothesis = ''On exactly the B16 ASK fill IDs, the counterfactual BID payoff does not explain the proposed ASK edge.'',
    kw_trigger = ''a B16 strict ASK fill has exact q, terminal Y, and counterfactual fee facts'',
    kw_direction_semantics = ''payoff transform only; it submits no BID and has no fill or capacity claim'',
    kw_decision_clock = TERMINAL_CLOCK,
    kw_forecast_horizon = ''same terminal outcome as the paired B16 fill'',
    kw_falsifier = ''paired ASK-minus-BID payoff contrast is absent or reverses'',
    kw_action_profile = ''CONTROL_ONLY'',
    kw_data_profile = ''TERMINAL'',
    kw_external_dependency = ''NOT_REQUIRED'',
    kw_target_class = ''RESEARCH_QUESTION'',
    kw_result_status = ''CONTROL_ONLY'',
    kw_claim_tier = ''CONTROL_ONLY'',
    kw_extra_blockers = [''SETTLEMENT_MISSING'', ''FILL_MODEL_MISSING'', ''FEE_UNKNOWN'']\<rparr>)"

end
