(* ===== verification/SeedsCE.thy ===== *)
theory SeedsCE
  imports SeedModel
begin

text \<open>
  The registrations of the families C, D, E of \<^verbatim>\<open>tools/experiment_registry_seeds.py\<close>, in the order of the
  module: the experiment identifier and the keyword arguments of each call.
\<close>

definition call_C01 :: "string \<times> seed_args" where
  "call_C01 = (''C01-THREEWAY-OVERROUND'', \<lparr>
    kw_hypothesis = ''An exhaustive three-way outcome family occasionally has an all-leg executable basket residual larger than fees and orphan risk.'',
    kw_trigger = ''sum of synchronized executable leg costs violates the exact exhaustive payout bound'',
    kw_direction_semantics = ''buy or hedge the complete payout vector specified by the audited residual; never trade one leg alone'',
    kw_decision_clock = RECEIVE_CLOCK,
    kw_forecast_horizon = ''all-leg execution through hedge completion or joint terminal settlement'',
    kw_falsifier = ''no residual survives quote age, all-leg depth, exact fees, and worst-sequence execution'',
    kw_action_profile = ''RELATIVE_VALUE'',
    kw_data_profile = ''FAMILY'',
    kw_external_dependency = ''NOT_REQUIRED'',
    kw_target_class = ''EXECUTABLE_STRATEGY'',
    kw_result_status = ''BLOCKED_ENGINE'',
    kw_claim_tier = ''NO_CLAIM'',
    kw_extra_blockers = [''PAYOUT_EXHAUSTIVENESS_MISSING'', ''MULTI_LEG_ENGINE_MISSING'', ''FEE_UNKNOWN'']\<rparr>)"

definition call_C02 :: "string \<times> seed_args" where
  "call_C02 = (''C02-BRACKET-MONOTONICITY'', \<lparr>
    kw_hypothesis = ''Ordered bracket contracts contain a statewise monotonicity violation that can be hedged for positive all-leg PnL.'',
    kw_trigger = ''audited adjacent-bracket or cumulative probability constraint is violated after costs'',
    kw_direction_semantics = ''buy the underpriced payout vector and hedge the dominated vector using exact bracket states'',
    kw_decision_clock = RECEIVE_CLOCK,
    kw_forecast_horizon = ''multi-leg completion, unwind, or joint terminal'',
    kw_falsifier = ''monotonicity residual disappears under payout mapping, executable depth, or orphan stress'',
    kw_action_profile = ''RELATIVE_VALUE'',
    kw_data_profile = ''FAMILY'',
    kw_external_dependency = ''NOT_REQUIRED'',
    kw_target_class = ''EXECUTABLE_STRATEGY'',
    kw_result_status = ''BLOCKED_ENGINE'',
    kw_claim_tier = ''NO_CLAIM'',
    kw_extra_blockers = [''PAYOUT_EXHAUSTIVENESS_MISSING'', ''MULTI_LEG_ENGINE_MISSING'', ''INSTRUMENT_MAPPING_UNKNOWN'']\<rparr>)"

definition call_C03 :: "string \<times> seed_args" where
  "call_C03 = (''C03-THRESHOLD-MONOTONICITY'', \<lparr>
    kw_hypothesis = ''Nested threshold contracts sometimes violate statewise probability ordering by more than joint execution costs.'',
    kw_trigger = ''a higher threshold is priced above a lower threshold after synchronized executable-cost adjustment'',
    kw_direction_semantics = ''trade the exact lower/higher threshold hedge implied by the statewise dominance proof'',
    kw_decision_clock = RECEIVE_CLOCK,
    kw_forecast_horizon = ''all-leg completion, forced unwind, or joint terminal'',
    kw_falsifier = ''no violation survives exact threshold semantics, fees, depth, and serial-leg risk'',
    kw_action_profile = ''RELATIVE_VALUE'',
    kw_data_profile = ''FAMILY'',
    kw_external_dependency = ''NOT_REQUIRED'',
    kw_target_class = ''EXECUTABLE_STRATEGY'',
    kw_result_status = ''BLOCKED_ENGINE'',
    kw_claim_tier = ''NO_CLAIM'',
    kw_extra_blockers = [''PAYOUT_EXHAUSTIVENESS_MISSING'', ''MULTI_LEG_ENGINE_MISSING'', ''INSTRUMENT_MAPPING_UNKNOWN'']\<rparr>)"

definition call_C04 :: "string \<times> seed_args" where
  "call_C04 = (''C04-SAME-EVENT-FAMILY-COHERENCE'', \<lparr>
    kw_hypothesis = ''Canonically linked same-event contracts have a payout-constrained incoherence that remains after age, fees, and all-leg execution.'',
    kw_trigger = ''family residual exceeds its frozen cost and mapping-confidence threshold'',
    kw_direction_semantics = ''execute only the full statewise-verified family hedge; unknown orientation abstains'',
    kw_decision_clock = RECEIVE_CLOCK,
    kw_forecast_horizon = ''joint execution through unwind or terminal'',
    kw_falsifier = ''residual is explained by quote age, incomplete payout states, or infeasible fills'',
    kw_action_profile = ''RELATIVE_VALUE'',
    kw_data_profile = ''FAMILY'',
    kw_external_dependency = ''NOT_REQUIRED'',
    kw_target_class = ''EXECUTABLE_STRATEGY'',
    kw_result_status = ''BLOCKED_ENGINE'',
    kw_claim_tier = ''NO_CLAIM'',
    kw_extra_blockers = [''PAYOUT_EXHAUSTIVENESS_MISSING'', ''MULTI_LEG_ENGINE_MISSING'', ''FEE_UNKNOWN'']\<rparr>)"

definition call_C05 :: "string \<times> seed_args" where
  "call_C05 = (''C05-SOCCER-POISSON'', \<lparr>
    kw_hypothesis = ''A real Soccer Poisson estimate built from authoritative point-in-time sport data can expose a payout-verified relative-value discrepancy; internal implied-rate consistency alone is not a trading strategy.'',
    kw_trigger = ''external-as-of fitted score-rate distribution and mapped contracts produce an all-leg residual above costs'',
    kw_direction_semantics = ''trade only the full payout-mapped vector; never infer score, lineup, or match state from prices'',
    kw_decision_clock = EXTERNAL_CLOCK,
    kw_forecast_horizon = ''external observation through multi-leg completion, pre-start unwind, or terminal'',
    kw_falsifier = ''external model is uncalibrated, one common rate fits within uncertainty, or execution removes the residual'',
    kw_action_profile = ''RELATIVE_VALUE'',
    kw_data_profile = ''EXTERNAL'',
    kw_external_dependency = ''REQUIRED'',
    kw_target_class = ''EXECUTABLE_STRATEGY'',
    kw_result_status = ''BLOCKED_EXTERNAL'',
    kw_claim_tier = ''NO_CLAIM'',
    kw_extra_blockers = [''EXTERNAL_SPORTS_DATA_MISSING'', ''EXTERNAL_API_UNVERIFIED'', ''PAYOUT_EXHAUSTIVENESS_MISSING'', ''MULTI_LEG_ENGINE_MISSING'']\<rparr>)"

definition call_C06 :: "string \<times> seed_args" where
  "call_C06 = (''C06-WITHIN-EVENT-LEADLAG'', \<lparr>
    kw_hypothesis = ''A frozen same-event leader reprices before a mapped follower often enough for a defensive follower cancel to improve PnL.'',
    kw_trigger = ''age-aligned leader move occurs while the canonical follower quote remains stale'',
    kw_direction_semantics = ''cancel the follower side exposed by audited payout orientation; this seed does not authorize a directional opener'',
    kw_decision_clock = RECEIVE_CLOCK,
    kw_forecast_horizon = ''10ms through 5s and follower cancel-effective time'',
    kw_falsifier = ''time-reversal or unrelated-root placebo matches the lag, or cancel headroom is absent'',
    kw_action_profile = ''MAKER_FILTER'',
    kw_data_profile = ''FAMILY'',
    kw_external_dependency = ''NOT_REQUIRED'',
    kw_target_class = ''EXECUTABLE_STRATEGY'',
    kw_result_status = ''BLOCKED_MAPPING'',
    kw_claim_tier = ''NO_CLAIM'',
    kw_extra_blockers = [''INSTRUMENT_MAPPING_UNKNOWN'', ''LATENCY_UNMEASURED'', ''FEE_UNKNOWN'']\<rparr>)"

definition call_C07 :: "string \<times> seed_args" where
  "call_C07 = (''C07-STALE-LEG'', \<lparr>
    kw_hypothesis = ''After a mapped leader reprices, a stale sibling leg can be traded and hedged for positive joint PnL.'',
    kw_trigger = ''leader shock plus follower quote-age gap creates a payout-verified residual above all costs'',
    kw_direction_semantics = ''take the stale leg and execute the exact registered hedge vector'',
    kw_decision_clock = RECEIVE_CLOCK,
    kw_forecast_horizon = ''stale-leg entry through hedge completion, unwind, or terminal'',
    kw_falsifier = ''joint fill, latency, fee, or orphan accounting makes residual non-positive'',
    kw_action_profile = ''RELATIVE_VALUE'',
    kw_data_profile = ''FAMILY'',
    kw_external_dependency = ''NOT_REQUIRED'',
    kw_target_class = ''EXECUTABLE_STRATEGY'',
    kw_result_status = ''BLOCKED_ENGINE'',
    kw_claim_tier = ''NO_CLAIM'',
    kw_extra_blockers = [''MULTI_LEG_ENGINE_MISSING'', ''PAYOUT_EXHAUSTIVENESS_MISSING'', ''LATENCY_UNMEASURED'']\<rparr>)"

definition call_C08 :: "string \<times> seed_args" where
  "call_C08 = (''C08-COMBO-VS-LEG-COST'', \<lparr>
    kw_hypothesis = ''A verified MVE or combo package and its complete leg replication differ by more than all execution, fee, and orphan costs.'',
    kw_trigger = ''package-versus-legs executable residual exceeds the registered joint safety buffer'',
    kw_direction_semantics = ''buy the cheaper complete payout and hedge with the more expensive complete replication'',
    kw_decision_clock = RECEIVE_CLOCK,
    kw_forecast_horizon = ''package and leg completion through unwind or terminal'',
    kw_falsifier = ''no residual survives exact package semantics, synchronized depth, and partial-leg stress'',
    kw_action_profile = ''RELATIVE_VALUE'',
    kw_data_profile = ''FAMILY'',
    kw_external_dependency = ''NOT_REQUIRED'',
    kw_target_class = ''EXECUTABLE_STRATEGY'',
    kw_result_status = ''BLOCKED_AUTHORITY'',
    kw_claim_tier = ''NO_CLAIM'',
    kw_extra_blockers = [''VENUE_PERMISSION_MISSING'', ''MULTI_LEG_ENGINE_MISSING'', ''PAYOUT_EXHAUSTIVENESS_MISSING'']\<rparr>)"

definition call_C09 :: "string \<times> seed_args" where
  "call_C09 = (''C09-PAYOUT-STATE-DOMINANCE'', \<lparr>
    kw_hypothesis = ''One verified contract portfolio statewise dominates another while costing less by more than joint execution costs.'',
    kw_trigger = ''machine-audited payout matrix proves dominance and executable price difference exceeds costs'',
    kw_direction_semantics = ''buy the dominating portfolio and hedge or sell only through a legally supported complete vector'',
    kw_decision_clock = RECEIVE_CLOCK,
    kw_forecast_horizon = ''joint execution, residual unwind, or all legal terminal states'',
    kw_falsifier = ''any legal payout state breaks dominance or joint PnL is non-positive'',
    kw_action_profile = ''RELATIVE_VALUE'',
    kw_data_profile = ''FAMILY'',
    kw_external_dependency = ''NOT_REQUIRED'',
    kw_target_class = ''EXECUTABLE_STRATEGY'',
    kw_result_status = ''BLOCKED_ENGINE'',
    kw_claim_tier = ''NO_CLAIM'',
    kw_extra_blockers = [''PAYOUT_EXHAUSTIVENESS_MISSING'', ''MULTI_LEG_ENGINE_MISSING'', ''INSTRUMENT_MAPPING_UNKNOWN'']\<rparr>)"

definition call_C10 :: "string \<times> seed_args" where
  "call_C10 = (''C10-MULTIDAY-SERIES'', \<lparr>
    kw_hypothesis = ''Matched contracts across dates have a term-structure residual that can be hedged without assuming unlike economic exposure is equivalent.'',
    kw_trigger = ''audited exposure-equivalent dates show an executable residual above fees and capital cost'',
    kw_direction_semantics = ''buy the cheap maturity and hedge the exact mapped exposure in the rich maturity'',
    kw_decision_clock = RECEIVE_CLOCK,
    kw_forecast_horizon = ''two-leg completion through roll, unwind, or both terminals'',
    kw_falsifier = ''exposure mapping, carry, capital, or serial-leg risk removes the residual'',
    kw_action_profile = ''RELATIVE_VALUE'',
    kw_data_profile = ''FAMILY'',
    kw_external_dependency = ''NOT_REQUIRED'',
    kw_target_class = ''EXECUTABLE_STRATEGY'',
    kw_result_status = ''BLOCKED_ENGINE'',
    kw_claim_tier = ''NO_CLAIM'',
    kw_extra_blockers = [''INSTRUMENT_MAPPING_UNKNOWN'', ''MULTI_LEG_ENGINE_MISSING'', ''FEE_UNKNOWN'']\<rparr>)"

definition call_D01 :: "string \<times> seed_args" where
  "call_D01 = (''D01-RFQ-FLOW-CENSUS'', \<lparr>
    kw_hypothesis = ''RFQ arrival intensity varies enough by market and time to define capacity and risk strata, but arrival alone supplies no trading side.'',
    kw_trigger = ''fresh exact-version rfq_created or rfq_deleted event enters a registered stratum'',
    kw_direction_semantics = ''unsigned census only; no order'',
    kw_decision_clock = RFQ_RECEIVE_CLOCK,
    kw_forecast_horizon = ''same RFQ lifecycle and UTC-day count'',
    kw_falsifier = ''eligible fresh RFQ coverage is absent or intensity has no stable strata'',
    kw_action_profile = ''NO_ACTION'',
    kw_data_profile = ''RFQ_PUBLIC'',
    kw_external_dependency = ''NOT_REQUIRED'',
    kw_target_class = ''RESEARCH_QUESTION'',
    kw_result_status = ''BLOCKED_DATA'',
    kw_claim_tier = ''NO_CLAIM'',
    kw_extra_blockers = [''RFQ_PUBLIC_DATA_UNRELEASED'']\<rparr>)"

definition call_D02 :: "string \<times> seed_args" where
  "call_D02 = (''D02-RFQ-SIZE-INTENT'', \<lparr>
    kw_hypothesis = ''RFQ contracts or target-cost size predicts unsigned CLOB toxicity strongly enough for a size-conditioned quote guard.'',
    kw_trigger = ''public RFQ size bucket exceeds the frozen absolute-risk threshold'',
    kw_direction_semantics = ''size is not buy or sell intent; cancel or widen both related CLOB sides'',
    kw_decision_clock = RFQ_RECEIVE_CLOCK,
    kw_forecast_horizon = ''RFQ creation through 100ms, 1s, 5s, and deletion'',
    kw_falsifier = ''size does not predict absolute move, spread, or depth loss, or guard PnL fails'',
    kw_action_profile = ''RFQ_GUARD'',
    kw_data_profile = ''RFQ_PUBLIC'',
    kw_external_dependency = ''NOT_REQUIRED'',
    kw_target_class = ''EXECUTABLE_STRATEGY'',
    kw_result_status = ''BLOCKED_DATA'',
    kw_claim_tier = ''NO_CLAIM'',
    kw_extra_blockers = [''RFQ_PUBLIC_DATA_UNRELEASED'', ''FILL_MODEL_MISSING'', ''LATENCY_UNMEASURED'']\<rparr>)"

definition call_D03 :: "string \<times> seed_args" where
  "call_D03 = (''D03-RFQ-LIFECYCLE-SURVIVAL'', \<lparr>
    kw_hypothesis = ''RFQ lifetime and deletion survival identify how long a CLOB maker should remain in an unsigned risk-off state.'',
    kw_trigger = ''RFQ survival state enters a frozen high-risk lifetime bucket'',
    kw_direction_semantics = ''lifecycle is unsigned; guard both related CLOB sides'',
    kw_decision_clock = RFQ_RECEIVE_CLOCK,
    kw_forecast_horizon = ''creation through deletion plus frozen recovery dwell'',
    kw_falsifier = ''lifetime does not condition CLOB risk or a fixed guard window performs as well'',
    kw_action_profile = ''RFQ_GUARD'',
    kw_data_profile = ''RFQ_PUBLIC'',
    kw_external_dependency = ''NOT_REQUIRED'',
    kw_target_class = ''EXECUTABLE_STRATEGY'',
    kw_result_status = ''BLOCKED_DATA'',
    kw_claim_tier = ''NO_CLAIM'',
    kw_extra_blockers = [''RFQ_PUBLIC_DATA_UNRELEASED'', ''FILL_MODEL_MISSING'', ''LATENCY_UNMEASURED'']\<rparr>)"

definition call_D04 :: "string \<times> seed_args" where
  "call_D04 = (''D04-RFQ-COMBO-DEMAND-LEG-PRESSURE'', \<lparr>
    kw_hypothesis = ''A combo RFQ may predict absolute pressure in its listed legs, but its combo side never reveals the requester's transaction direction.'',
    kw_trigger = ''public combo RFQ with an auditable leg map is received'',
    kw_direction_semantics = ''UNSIGNED_ONLY; combo side describes contract composition, not RFQ buy or sell direction'',
    kw_decision_clock = RFQ_RECEIVE_CLOCK,
    kw_forecast_horizon = ''RFQ creation through each leg's 100ms, 1s, and 5s absolute response'',
    kw_falsifier = ''listed legs show no absolute pressure beyond matched non-combo RFQs'',
    kw_action_profile = ''NO_ACTION'',
    kw_data_profile = ''RFQ_PUBLIC'',
    kw_external_dependency = ''NOT_REQUIRED'',
    kw_target_class = ''RESEARCH_QUESTION'',
    kw_result_status = ''BLOCKED_DATA'',
    kw_claim_tier = ''NO_CLAIM'',
    kw_extra_blockers = [''RFQ_PUBLIC_DATA_UNRELEASED'', ''INSTRUMENT_MAPPING_UNKNOWN'']\<rparr>)"

definition call_D05 :: "string \<times> seed_args" where
  "call_D05 = (''D05-RFQ-REQUESTER-HASH'', \<lparr>
    kw_hypothesis = ''A stable non-identifying requester hash can segment subsequent unsigned toxicity enough to improve an RFQ CLOB guard.'',
    kw_trigger = ''requester hash has sufficient past support and exceeds its frozen absolute-impact risk score'',
    kw_direction_semantics = ''requester strata never infer identity or side; high risk guards both sides'',
    kw_decision_clock = RFQ_RECEIVE_CLOCK,
    kw_forecast_horizon = ''creation through deletion and 5s post-RFQ response'',
    kw_falsifier = ''out-of-fold requester strata are unstable or add no guard PnL'',
    kw_action_profile = ''RFQ_GUARD'',
    kw_data_profile = ''RFQ_PUBLIC'',
    kw_external_dependency = ''NOT_REQUIRED'',
    kw_target_class = ''EXECUTABLE_STRATEGY'',
    kw_result_status = ''BLOCKED_DATA'',
    kw_claim_tier = ''NO_CLAIM'',
    kw_extra_blockers = [''RFQ_PUBLIC_DATA_UNRELEASED'', ''SAMPLE_TOO_SMALL'', ''FILL_MODEL_MISSING'']\<rparr>)"

definition call_D06 :: "string \<times> seed_args" where
  "call_D06 = (''D06-RFQ-DIRECTION-VOL-SIGNAL'', \<lparr>
    kw_hypothesis = ''Only a private accepted RFQ side can support a signed RFQ-to-CLOB return test; public create/delete and combo composition cannot.'',
    kw_trigger = ''private quote_accepted event with exact accepted_side and correlated RFQ is received'',
    kw_direction_semantics = ''PUBLIC_UNSIGNED; PRIVATE accepted_side is authoritative for signed analysis; combo side and public RFQ fields are forbidden substitutes'',
    kw_decision_clock = PRIVATE_RFQ_CLOCK,
    kw_forecast_horizon = ''acceptance through confirmation, hedge, 100ms, 1s, and 5s'',
    kw_falsifier = ''accepted-side signed return is absent after latency or cannot cover hedge costs'',
    kw_action_profile = ''NO_ACTION'',
    kw_data_profile = ''RFQ_PRIVATE'',
    kw_external_dependency = ''NOT_REQUIRED'',
    kw_target_class = ''SIGNAL'',
    kw_result_status = ''BLOCKED_DATA_AND_AUTHORITY'',
    kw_claim_tier = ''NO_CLAIM'',
    kw_extra_blockers = [''RFQ_PRIVATE_EVENTS_MISSING'', ''VENUE_PERMISSION_MISSING'', ''RFQ_PUBLIC_DATA_UNRELEASED'']\<rparr>)"

definition call_D07 :: "string \<times> seed_args" where
  "call_D07 = (''D07-RFQ-TO-CLOB-IMPACT'', \<lparr>
    kw_hypothesis = ''A public RFQ creation event predicts unsigned short-horizon CLOB toxicity early enough for cancellation or widening to reduce maker loss.'',
    kw_trigger = ''fresh mapped RFQ arrives while a related CLOB maker quote is resting'',
    kw_direction_semantics = ''guard both sides unless a separate private-direction card is authorized'',
    kw_decision_clock = RFQ_RECEIVE_CLOCK,
    kw_forecast_horizon = ''RFQ receive through cancel-effective time, 100ms, 1s, and 5s'',
    kw_falsifier = ''RFQ impact lacks cancel headroom or the identical unguarded maker has equal or higher PnL'',
    kw_action_profile = ''RFQ_GUARD'',
    kw_data_profile = ''RFQ_PUBLIC'',
    kw_external_dependency = ''NOT_REQUIRED'',
    kw_target_class = ''EXECUTABLE_STRATEGY'',
    kw_result_status = ''BLOCKED_DATA'',
    kw_claim_tier = ''NO_CLAIM'',
    kw_extra_blockers = [''RFQ_PUBLIC_DATA_UNRELEASED'', ''FILL_MODEL_MISSING'', ''LATENCY_UNMEASURED'']\<rparr>)"

definition call_D08 :: "string \<times> seed_args" where
  "call_D08 = (''D08-RFQ-DIRECT-QUOTE-PNL'', \<lparr>
    kw_hypothesis = ''A fully collateralized two-sided RFQ quote can earn positive PnL after selection, confirmation, CLOB hedge, fees, and residual inventory.'',
    kw_trigger = ''full RFQ size is hedgeable and both bounded yes_bid and no_bid satisfy frozen net-edge limits'',
    kw_direction_semantics = ''quote both sides, then use only private accepted_side to confirm and hedge'',
    kw_decision_clock = PRIVATE_RFQ_CLOCK,
    kw_forecast_horizon = ''quote submission through acceptance, confirmation, fills, hedge, and terminal residual'',
    kw_falsifier = ''acceptance-weighted RFQ plus hedge PnL is non-positive or tail inventory breaches limits'',
    kw_action_profile = ''RFQ_MAKER'',
    kw_data_profile = ''RFQ_PRIVATE'',
    kw_external_dependency = ''NOT_REQUIRED'',
    kw_target_class = ''EXECUTABLE_STRATEGY'',
    kw_result_status = ''BLOCKED_DATA_AND_AUTHORITY'',
    kw_claim_tier = ''NO_CLAIM'',
    kw_extra_blockers = [''RFQ_PRIVATE_EVENTS_MISSING'', ''VENUE_PERMISSION_MISSING'', ''FEE_UNKNOWN'']\<rparr>)"

definition call_D09 :: "string \<times> seed_args" where
  "call_D09 = (''D09-MVE-CATALOG-SCHEMA'', \<lparr>
    kw_hypothesis = ''MVE catalog records can reconstruct every leg, orientation, and payout state without heuristic inference.'',
    kw_trigger = ''an admitted MVE catalog object is available under exact version'',
    kw_direction_semantics = ''schema and coverage only; no order'',
    kw_decision_clock = RECEIVE_CLOCK,
    kw_forecast_horizon = ''catalog-version validity interval'',
    kw_falsifier = ''any leg, orientation, version, or payout state remains ambiguous'',
    kw_action_profile = ''NO_ACTION'',
    kw_data_profile = ''CATALOG'',
    kw_external_dependency = ''NOT_REQUIRED'',
    kw_target_class = ''RESEARCH_QUESTION'',
    kw_result_status = ''BLOCKED_MAPPING'',
    kw_claim_tier = ''NO_CLAIM'',
    kw_extra_blockers = [''INSTRUMENT_MAPPING_UNKNOWN'']\<rparr>)"

definition call_D10 :: "string \<times> seed_args" where
  "call_D10 = (''D10-MVE-DIRECT-TRADING'', \<lparr>
    kw_hypothesis = ''An MVE package can be directly traded and hedged at positive joint PnL after private fills, fees, and partial-package risk.'',
    kw_trigger = ''payout-verified package residual exceeds all package, leg, hedge, and tail costs'',
    kw_direction_semantics = ''execute the exact package orientation and complete registered hedge vector'',
    kw_decision_clock = ''PRIVATE_MVE_EVENT_RECEIVE_CLOCK_PAST_ONLY'',
    kw_forecast_horizon = ''package entry through hedge completion, unwind, or joint terminal'',
    kw_falsifier = ''private execution, fees, or partial-package stress makes joint PnL non-positive'',
    kw_action_profile = ''MVE_DIRECT'',
    kw_data_profile = ''MVE_PRIVATE'',
    kw_external_dependency = ''NOT_REQUIRED'',
    kw_target_class = ''EXECUTABLE_STRATEGY'',
    kw_result_status = ''BLOCKED_DATA_AND_AUTHORITY'',
    kw_claim_tier = ''NO_CLAIM'',
    kw_extra_blockers = [''MVE_PRIVATE_EVENTS_MISSING'', ''VENUE_PERMISSION_MISSING'', ''MULTI_LEG_ENGINE_MISSING'', ''PAYOUT_EXHAUSTIVENESS_MISSING'', ''INSTRUMENT_MAPPING_UNKNOWN'']\<rparr>)"

definition call_E01 :: "string \<times> seed_args" where
  "call_E01 = (''E01-SETTLEMENT-CONVERGENCE'', \<lparr>
    kw_hypothesis = ''Executable prices converge toward later actual settlement value as point-in-time venue lifecycle states approach terminal resolution.'',
    kw_trigger = ''point-in-time venue lifecycle snapshots can be joined to a later exact settlement label without exposing that label at the snapshot clock'',
    kw_direction_semantics = ''retrospective convergence control only; the later settlement label never triggers an order'',
    kw_decision_clock = TERMINAL_CLOCK,
    kw_forecast_horizon = ''actual settlement, void, retirement, cancellation, or postponement resolution'',
    kw_falsifier = ''price error does not shrink with lifecycle proximity or legal-state mapping is incomplete'',
    kw_action_profile = ''CONTROL_ONLY'',
    kw_data_profile = ''TERMINAL'',
    kw_external_dependency = ''NOT_REQUIRED'',
    kw_target_class = ''SIGNAL'',
    kw_result_status = ''BLOCKED_TERMINAL'',
    kw_claim_tier = ''NO_CLAIM'',
    kw_extra_blockers = [''SETTLEMENT_MISSING'']\<rparr>)"

definition call_E02 :: "string \<times> seed_args" where
  "call_E02 = (''E02-EXPIRY-LIQUIDITY-MIGRATION'', \<lparr>
    kw_hypothesis = ''Rolling an exposure from a deteriorating expiry into an audited equivalent contract reduces execution and capital cost.'',
    kw_trigger = ''old-contract liquidity deteriorates while an exposure-equivalent mapped contract passes the roll-cost gate'',
    kw_direction_semantics = ''close the exact old exposure and open only the audited equivalent new exposure'',
    kw_decision_clock = TERMINAL_CLOCK,
    kw_forecast_horizon = ''two-leg roll through reconciliation or both terminal states'',
    kw_falsifier = ''mapping, two-leg fees, orphan risk, or carry makes the roll worse than holding'',
    kw_action_profile = ''EXPIRY_ROLL'',
    kw_data_profile = ''TERMINAL'',
    kw_external_dependency = ''NOT_REQUIRED'',
    kw_target_class = ''EXECUTABLE_STRATEGY'',
    kw_result_status = ''BLOCKED_ENGINE'',
    kw_claim_tier = ''NO_CLAIM'',
    kw_extra_blockers = [''INSTRUMENT_MAPPING_UNKNOWN'', ''MULTI_LEG_ENGINE_MISSING'', ''SETTLEMENT_MISSING'']\<rparr>)"

definition call_E03 :: "string \<times> seed_args" where
  "call_E03 = (''E03-FREEZE-WINDOW'', \<lparr>
    kw_hypothesis = ''Observable pre-freeze liquidity deterioration permits an earlier reduce-only exit that avoids more loss than it costs.'',
    kw_trigger = ''time-to-freeze and update/depth precursor enter the frozen exit-risk cell'',
    kw_direction_semantics = ''cancel all risk-adding orders and reduce only the authoritative position'',
    kw_decision_clock = TERMINAL_CLOCK,
    kw_forecast_horizon = ''precursor through freeze, executable exit, or terminal'',
    kw_falsifier = ''precursor does not lead freeze or early exit underperforms waiting under identical inventory'',
    kw_action_profile = ''EARLY_EXIT'',
    kw_data_profile = ''TERMINAL'',
    kw_external_dependency = ''NOT_REQUIRED'',
    kw_target_class = ''EXECUTABLE_STRATEGY'',
    kw_result_status = ''BLOCKED_TERMINAL'',
    kw_claim_tier = ''NO_CLAIM'',
    kw_extra_blockers = [''SETTLEMENT_MISSING'', ''PRIVATE_ACCOUNT_STATE_MISSING'', ''LATENCY_UNMEASURED'']\<rparr>)"

definition call_E04 :: "string \<times> seed_args" where
  "call_E04 = (''E04-SETTLEMENT-CALIBRATION'', \<lparr>
    kw_hypothesis = ''Inside a preregistered pre-freeze near-terminal lifecycle window, exception-aware settlement frequency has a stable executable calibration bias relative to market price.'',
    kw_trigger = ''inside E04_PRE_FREEZE_NEAR_TERMINAL_WINDOW, out-of-fold lifecycle- and exception-aware terminal probability differs from executable price by more than exact cost and uncertainty'',
    kw_direction_semantics = ''buy YES or NO according to the signed calibrated probability gap'',
    kw_decision_clock = TERMINAL_CLOCK,
    kw_forecast_horizon = ''actual terminal settlement'',
    kw_falsifier = ''bias vanishes on untouched dates or fill-conditioned terminal PnL is non-positive'',
    kw_action_profile = ''TERMINAL_ENTRY'',
    kw_data_profile = ''TERMINAL'',
    kw_external_dependency = ''NOT_REQUIRED'',
    kw_target_class = ''EXECUTABLE_STRATEGY'',
    kw_result_status = ''BLOCKED_TERMINAL'',
    kw_claim_tier = ''NO_CLAIM'',
    kw_extra_blockers = [''SETTLEMENT_MISSING'', ''FILL_MODEL_MISSING'', ''FEE_UNKNOWN'']\<rparr>)"

definition call_E05 :: "string \<times> seed_args" where
  "call_E05 = (''E05-TERMINAL-EXCEPTION-STATES'', \<lparr>
    kw_hypothesis = ''Void, retirement, postponement, cancellation, and other exception states materially change candidate-strategy tail economics.'',
    kw_trigger = ''a versioned lifecycle path enters a non-standard legal terminal state'',
    kw_direction_semantics = ''diagnostic enumeration only; this base experiment submits no order'',
    kw_decision_clock = TERMINAL_CLOCK,
    kw_forecast_horizon = ''exception declaration through final cash-flow reconciliation'',
    kw_falsifier = ''exception frequency and cash-flow effect are immaterial under every owner policy'',
    kw_action_profile = ''NO_ACTION'',
    kw_data_profile = ''TERMINAL'',
    kw_external_dependency = ''NOT_REQUIRED'',
    kw_target_class = ''RESEARCH_QUESTION'',
    kw_result_status = ''BLOCKED_TERMINAL'',
    kw_claim_tier = ''NO_CLAIM'',
    kw_extra_blockers = [''SETTLEMENT_MISSING'']\<rparr>)"

definition call_E06 :: "string \<times> seed_args" where
  "call_E06 = (''E06-HOLD-TO-TERMINAL-TAIL'', \<lparr>
    kw_hypothesis = ''For a specified strict fill, holding to terminal has better paired PnL than the frozen early exit without unacceptable tail loss.'',
    kw_trigger = ''existing reconciled position enters a terminal-authorized hold cell with complete lifecycle facts'',
    kw_direction_semantics = ''hold only the existing position; never convert this decision into a new opening trade'',
    kw_decision_clock = TERMINAL_CLOCK,
    kw_forecast_horizon = ''actual terminal versus paired frozen executable exit'',
    kw_falsifier = ''paired hold increment is non-positive or terminal expected shortfall breaches the frozen limit'',
    kw_action_profile = ''TERMINAL_POLICY'',
    kw_data_profile = ''TERMINAL'',
    kw_external_dependency = ''NOT_REQUIRED'',
    kw_target_class = ''EXECUTABLE_STRATEGY'',
    kw_result_status = ''BLOCKED_TERMINAL'',
    kw_claim_tier = ''NO_CLAIM'',
    kw_extra_blockers = [''SETTLEMENT_MISSING'', ''PRIVATE_ACCOUNT_STATE_MISSING'', ''FEE_UNKNOWN'']\<rparr>)"

end
