(* ===== verification/SeedsFP.thy ===== *)
theory SeedsFP
  imports SeedModel
begin

text \<open>
  The registrations of the families F, G, P of \<^verbatim>\<open>tools/experiment_registry_seeds.py\<close>, in the order of the
  module: the experiment identifier and the keyword arguments of each call.
\<close>

definition call_F01 :: "string \<times> seed_args" where
  "call_F01 = (''F01-PARTICIPANT-MIX-PROXY'', \<lparr>
    kw_hypothesis = ''Non-identifying flow and occupancy proxies improve a maker risk filter without claiming to identify participant types.'',
    kw_trigger = ''past-only proxy score enters a frozen high-toxicity or benign-flow cell'',
    kw_direction_semantics = ''proxy can cancel or admit an owner quote but never infers trader identity or side by itself'',
    kw_decision_clock = RECEIVE_CLOCK,
    kw_forecast_horizon = ''proxy event through child fill, cancel, and 5s markout'',
    kw_falsifier = ''proxy adds no out-of-fold child PnL beyond volume, spread, and activity'',
    kw_action_profile = ''MAKER_FILTER'',
    kw_data_profile = ''L1'',
    kw_external_dependency = ''NOT_REQUIRED'',
    kw_target_class = ''EXECUTABLE_STRATEGY'',
    kw_result_status = ''DESCRIPTIVE_ONLY'',
    kw_claim_tier = ''MECHANISM_ONLY'',
    kw_extra_blockers = [''FILL_MODEL_MISSING'', ''FEE_UNKNOWN'', ''INSUFFICIENT_QUALITY_DATES'']\<rparr>)"

definition call_F02 :: "string \<times> seed_args" where
  "call_F02 = (''F02-FEE-STRUCTURE-EFFECT'', \<lparr>
    kw_hypothesis = ''Exact series, date, role, and account fee facts change whether a child should make, take, or abstain.'',
    kw_trigger = ''versioned exact fee lookup changes the frozen child's marginal net edge sign'',
    kw_direction_semantics = ''fee chooses action eligibility and order role, not a market direction'',
    kw_decision_clock = RECEIVE_CLOCK,
    kw_forecast_horizon = ''each intended fill through order-level fee accumulation and exit'',
    kw_falsifier = ''fee-aware routing has no incremental PnL or fee facts cannot reconcile to account charges'',
    kw_action_profile = ''ROUTER'',
    kw_data_profile = ''L1'',
    kw_external_dependency = ''NOT_REQUIRED'',
    kw_target_class = ''EXECUTABLE_STRATEGY'',
    kw_result_status = ''BLOCKED_DATA'',
    kw_claim_tier = ''NO_CLAIM'',
    kw_extra_blockers = [''FEE_UNKNOWN'', ''CONFIRMED_CHILD_STRATEGIES_MISSING'']\<rparr>)"

definition call_F03 :: "string \<times> seed_args" where
  "call_F03 = (''F03-NEW-MARKET-COLD-START'', \<lparr>
    kw_hypothesis = ''Waiting for a new market to pass topology, depth, and activity readiness gates improves maker PnL over quoting immediately after listing.'',
    kw_trigger = ''market age plus two-sided uptime, depth, and activity pass the frozen readiness gate'',
    kw_direction_semantics = ''start the same two-sided maker only after readiness; listing age supplies no side'',
    kw_decision_clock = RECEIVE_CLOCK,
    kw_forecast_horizon = ''listing through readiness, fills, and UTC-day close'',
    kw_falsifier = ''delayed start does not beat immediate quoting or eliminates nearly all capacity'',
    kw_action_profile = ''MAKER_SPREAD'',
    kw_data_profile = ''L1'',
    kw_external_dependency = ''NOT_REQUIRED'',
    kw_target_class = ''EXECUTABLE_STRATEGY'',
    kw_result_status = ''DESCRIPTIVE_ONLY'',
    kw_claim_tier = ''PNL_NOT_ESTIMATED'',
    kw_extra_blockers = [''FILL_MODEL_MISSING'', ''FEE_UNKNOWN'', ''INSUFFICIENT_QUALITY_DATES'']\<rparr>)"

definition call_F04 :: "string \<times> seed_args" where
  "call_F04 = (''F04-CROSS-SECTIONAL-RANK'', \<lparr>
    kw_hypothesis = ''Ranking comparable markets by past-only expected net edge allocates a fixed child action better than equal-weight or all-eligible routing.'',
    kw_trigger = ''market enters the frozen top rank after root, liquidity, and phase matching'',
    kw_direction_semantics = ''rank selects a confirmed child and inherits its side unchanged'',
    kw_decision_clock = RECEIVE_CLOCK,
    kw_forecast_horizon = ''ranking rebalance through child root-event and UTC-day PnL'',
    kw_falsifier = ''ranked child PnL does not beat equal-weight and best simple selector out of sample'',
    kw_action_profile = ''ROUTER'',
    kw_data_profile = ''L1'',
    kw_external_dependency = ''NOT_REQUIRED'',
    kw_target_class = ''EXECUTABLE_STRATEGY'',
    kw_result_status = ''BLOCKED_CHILDREN'',
    kw_claim_tier = ''NO_CLAIM'',
    kw_extra_blockers = [''CONFIRMED_CHILD_STRATEGIES_MISSING'', ''INSUFFICIENT_QUALITY_DATES'']\<rparr>)"

definition call_F05 :: "string \<times> seed_args" where
  "call_F05 = (''F05-SCANNER-SPREAD-FLOW-DEPTH'', \<lparr>
    kw_hypothesis = ''A spread, flow, and depth scanner selects child opportunities with higher fee-after PnL than any one scanner input alone.'',
    kw_trigger = ''frozen composite scanner score passes the opportunity and data-quality gates'',
    kw_direction_semantics = ''scanner selects only; the registered child supplies side and order semantics'',
    kw_decision_clock = RECEIVE_CLOCK,
    kw_forecast_horizon = ''trigger through child fill, exit, and day result'',
    kw_falsifier = ''composite selector fails to beat spread-only, flow-only, and depth-only baselines'',
    kw_action_profile = ''ROUTER'',
    kw_data_profile = ''L1_L2'',
    kw_external_dependency = ''NOT_REQUIRED'',
    kw_target_class = ''EXECUTABLE_STRATEGY'',
    kw_result_status = ''BLOCKED_CHILDREN'',
    kw_claim_tier = ''NO_CLAIM'',
    kw_extra_blockers = [''CONFIRMED_CHILD_STRATEGIES_MISSING'', ''INSUFFICIENT_QUALITY_DATES'']\<rparr>)"

definition call_F06 :: "string \<times> seed_args" where
  "call_F06 = (''F06-NICHE-COMPOSITE'', \<lparr>
    kw_hypothesis = ''A narrow sport, structure, phase, and liquidity niche retains incremental child PnL after matched controls and concentration tests.'',
    kw_trigger = ''all frozen niche dimensions match and the selected child is authorized'',
    kw_direction_semantics = ''niche selects the child but does not alter its side'',
    kw_decision_clock = RECEIVE_CLOCK,
    kw_forecast_horizon = ''niche episode through child exit and day-level concentration'',
    kw_falsifier = ''delete-best event, league, or day removes the increment or support is insufficient'',
    kw_action_profile = ''ROUTER'',
    kw_data_profile = ''L1_L2'',
    kw_external_dependency = ''NOT_REQUIRED'',
    kw_target_class = ''EXECUTABLE_STRATEGY'',
    kw_result_status = ''BLOCKED_CHILDREN'',
    kw_claim_tier = ''NO_CLAIM'',
    kw_extra_blockers = [''CONFIRMED_CHILD_STRATEGIES_MISSING'', ''SAMPLE_TOO_SMALL'']\<rparr>)"

definition call_F07 :: "string \<times> seed_args" where
  "call_F07 = (''F07-LOW-OCC-INDEPENDENT-FAIR'', \<lparr>
    kw_hypothesis = ''A low-occupancy market with a genuinely independent stable fair value supports a one-contract maker after adverse-selection costs.'',
    kw_trigger = ''occupancy is below threshold and an audited independent fair plus spread gate passes'',
    kw_direction_semantics = ''quote around the independent fair; missing or circular fair means no order'',
    kw_decision_clock = RECEIVE_CLOCK,
    kw_forecast_horizon = ''quote lifetime through fill, cancel, and bounded exit'',
    kw_falsifier = ''empty books produce no fills, informed fills dominate, or the fair is not independent'',
    kw_action_profile = ''MAKER_SPREAD'',
    kw_data_profile = ''L1_L2'',
    kw_external_dependency = ''NOT_REQUIRED'',
    kw_target_class = ''EXECUTABLE_STRATEGY'',
    kw_result_status = ''BLOCKED_DATA'',
    kw_claim_tier = ''NO_CLAIM'',
    kw_extra_blockers = [''MISSING_SIGNAL_INPUT'', ''FILL_MODEL_MISSING'', ''FEE_UNKNOWN'']\<rparr>)"

definition call_F08 :: "string \<times> seed_args" where
  "call_F08 = (''F08-SPORT-FACTORY'', \<lparr>
    kw_hypothesis = ''Mechanism effects differ across captured sports, so each sport must retain its own support and falsifier instead of being pooled away.'',
    kw_trigger = ''a captured sport and atomic owner pair emits a support or zero-support row'',
    kw_direction_semantics = ''factory only; no order and no side'',
    kw_decision_clock = RECEIVE_CLOCK,
    kw_forecast_horizon = ''owner-defined horizon with sport-stratified reporting'',
    kw_falsifier = ''sport interaction is unsupported and the pooled mechanism is stable under leave-one-sport tests'',
    kw_action_profile = ''NO_ACTION'',
    kw_data_profile = ''CATALOG'',
    kw_external_dependency = ''NOT_REQUIRED'',
    kw_target_class = ''RESEARCH_QUESTION'',
    kw_result_status = ''DESCRIPTIVE_ONLY'',
    kw_claim_tier = ''DESCRIPTIVE_ONLY'',
    kw_extra_blockers = []\<rparr>)"

definition call_F09 :: "string \<times> seed_args" where
  "call_F09 = (''F09-TENNIS-BO3-BO5'', \<lparr>
    kw_hypothesis = ''Authoritative best-of-three versus best-of-five format changes Tennis state transitions or a bound child policy's PnL.'',
    kw_trigger = ''point-in-time authoritative match-format label joins a Tennis market before decision'',
    kw_direction_semantics = ''format selects a child stratum only; it never supplies side'',
    kw_decision_clock = EXTERNAL_CLOCK,
    kw_forecast_horizon = ''match-format stratum through owner-defined exit or terminal'',
    kw_falsifier = ''matched BO3 and BO5 effects are equal or format support is too small'',
    kw_action_profile = ''NO_ACTION'',
    kw_data_profile = ''EXTERNAL'',
    kw_external_dependency = ''REQUIRED'',
    kw_target_class = ''RESEARCH_QUESTION'',
    kw_result_status = ''BLOCKED_EXTERNAL'',
    kw_claim_tier = ''NO_CLAIM'',
    kw_extra_blockers = [''EXTERNAL_SPORTS_DATA_MISSING'', ''EXTERNAL_API_UNVERIFIED'']\<rparr>)"

definition call_F10 :: "string \<times> seed_args" where
  "call_F10 = (''F10-BASEBALL-ONE-SIDE'', \<lparr>
    kw_hypothesis = ''Baseball one-sided-book episodes admit a missing-side passive quote with positive fee-after PnL without inferring inning or pitch state.'',
    kw_trigger = ''authoritative Baseball identity plus persistent bid-only or ask-only state passes gates'',
    kw_direction_semantics = ''post the explicitly missing book side; no inning, pitch, or score is inferred'',
    kw_decision_clock = RECEIVE_CLOCK,
    kw_forecast_horizon = ''one-sided dwell through fill, recovery, or forced exit'',
    kw_falsifier = ''strict missing-side fills are absent or their adverse loss exceeds spread capture'',
    kw_action_profile = ''PASSIVE_FADE'',
    kw_data_profile = ''L1_L2'',
    kw_external_dependency = ''NOT_REQUIRED'',
    kw_target_class = ''EXECUTABLE_STRATEGY'',
    kw_result_status = ''DESCRIPTIVE_ONLY'',
    kw_claim_tier = ''PNL_NOT_ESTIMATED'',
    kw_extra_blockers = [''FILL_MODEL_MISSING'', ''FEE_UNKNOWN'', ''INSUFFICIENT_QUALITY_DATES'']\<rparr>)"

definition call_F11 :: "string \<times> seed_args" where
  "call_F11 = (''F11-GOLF-THIN-LONG-LIFECYCLE'', \<lparr>
    kw_hypothesis = ''Observable Golf market thinness and long lifecycle identify an internal one-contract passive window that survives fill, capital, and terminal risk.'',
    kw_trigger = ''authoritative Golf identity plus catalog age and a frozen thin-book spread/liquidity gate'',
    kw_direction_semantics = ''quote the registered two-sided book without inferring round, cut, score, or field state'',
    kw_decision_clock = RECEIVE_CLOCK,
    kw_forecast_horizon = ''quote lifetime through executable exit or tournament terminal'',
    kw_falsifier = ''capital duration, no-fill rate, or terminal tail erases spread economics'',
    kw_action_profile = ''MAKER_SPREAD'',
    kw_data_profile = ''L1'',
    kw_external_dependency = ''OPTIONAL_REFINEMENT'',
    kw_target_class = ''EXECUTABLE_STRATEGY'',
    kw_result_status = ''DESCRIPTIVE_ONLY'',
    kw_claim_tier = ''NO_CLAIM'',
    kw_extra_blockers = [''FILL_MODEL_MISSING'', ''FEE_UNKNOWN'', ''SETTLEMENT_MISSING'']\<rparr>)"

definition call_F12 :: "string \<times> seed_args" where
  "call_F12 = (''F12-EXTERNAL-ODDS-LEADLAG'', \<lparr>
    kw_hypothesis = ''A licensed external-odds update leads the mapped Kalshi executable price by more than provider latency and total trading cost.'',
    kw_trigger = ''verified external fair-value update creates a mapped executable discrepancy above cost'',
    kw_direction_semantics = ''buy the Kalshi outcome underpriced relative to the audited external mapping'',
    kw_decision_clock = EXTERNAL_CLOCK,
    kw_forecast_horizon = ''provider publication through Kalshi repricing or frozen exit'',
    kw_falsifier = ''lead disappears under publication/receive clocks or net PnL is non-positive'',
    kw_action_profile = ''EXTERNAL_ACTION'',
    kw_data_profile = ''EXTERNAL'',
    kw_external_dependency = ''REQUIRED'',
    kw_target_class = ''EXECUTABLE_STRATEGY'',
    kw_result_status = ''BLOCKED_EXTERNAL'',
    kw_claim_tier = ''NO_CLAIM'',
    kw_extra_blockers = [''EXTERNAL_SPORTS_DATA_MISSING'', ''EXTERNAL_API_UNVERIFIED'', ''TIMESTAMP_SEMANTICS_UNKNOWN'']\<rparr>)"

definition call_F13 :: "string \<times> seed_args" where
  "call_F13 = (''F13-EXTERNAL-SPORT-STATE'', \<lparr>
    kw_hypothesis = ''A licensed score, serve, injury, lineup, or official state change leads a mapped Kalshi repricing enough for cancellation or trade.'',
    kw_trigger = ''verified point-in-time sport-state event changes the audited contract fair value above cost'',
    kw_direction_semantics = ''derive side from the explicit state-to-payout mapping; missing fields never impute direction'',
    kw_decision_clock = EXTERNAL_CLOCK,
    kw_forecast_horizon = ''source publication through venue reaction, stop, or terminal'',
    kw_falsifier = ''state event has no latency-adjusted executable effect or data timing is unverifiable'',
    kw_action_profile = ''EXTERNAL_ACTION'',
    kw_data_profile = ''EXTERNAL'',
    kw_external_dependency = ''REQUIRED'',
    kw_target_class = ''EXECUTABLE_STRATEGY'',
    kw_result_status = ''BLOCKED_EXTERNAL'',
    kw_claim_tier = ''NO_CLAIM'',
    kw_extra_blockers = [''EXTERNAL_SPORTS_DATA_MISSING'', ''EXTERNAL_API_UNVERIFIED'', ''TIMESTAMP_SEMANTICS_UNKNOWN'']\<rparr>)"

definition call_F14 :: "string \<times> seed_args" where
  "call_F14 = (''F14-PROVIDER-PRICE-LATENCY-TIER'', \<lparr>
    kw_hypothesis = ''Provider usefulness depends on effective point-in-time coverage, latency, reliability, license, and cost rather than nominal feed speed.'',
    kw_trigger = ''two or more verified provider streams expose comparable publication and receive timestamps'',
    kw_direction_semantics = ''provider-selection diagnostic only; it submits no order'',
    kw_decision_clock = EXTERNAL_CLOCK,
    kw_forecast_horizon = ''publication-to-receive latency distribution and daily coverage'',
    kw_falsifier = ''no provider has positive value after latency, missingness, and commercial cost'',
    kw_action_profile = ''NO_ACTION'',
    kw_data_profile = ''EXTERNAL'',
    kw_external_dependency = ''REQUIRED'',
    kw_target_class = ''RESEARCH_QUESTION'',
    kw_result_status = ''BLOCKED_EXTERNAL'',
    kw_claim_tier = ''NO_CLAIM'',
    kw_extra_blockers = [''EXTERNAL_API_UNVERIFIED'', ''TIMESTAMP_SEMANTICS_UNKNOWN'']\<rparr>)"

definition call_F15 :: "string \<times> seed_args" where
  "call_F15 = (''F15-BLINDNESS-EVPI'', \<lparr>
    kw_hypothesis = ''A non-causal future-information oracle on the same internal L1/L2 paths bounds how much loss an ideal external signal could avoid.'',
    kw_trigger = ''an internal blind owner decision and its later same-path L1/L2 outcome can be paired with the frozen oracle rule'',
    kw_direction_semantics = ''future-information upper-bound control only; the oracle is never a live signal or order action'',
    kw_decision_clock = RECEIVE_CLOCK,
    kw_forecast_horizon = ''owner decision through its internal future-path outcome and avoided-loss ceiling'',
    kw_falsifier = ''oracle-minus-blind upper bound is below any plausible provider and implementation cost'',
    kw_action_profile = ''CONTROL_ONLY'',
    kw_data_profile = ''OWNER_EVPI'',
    kw_external_dependency = ''NOT_REQUIRED'',
    kw_target_class = ''RESEARCH_QUESTION'',
    kw_result_status = ''CONTROL_ONLY'',
    kw_claim_tier = ''CONTROL_ONLY'',
    kw_extra_blockers = []\<rparr>)"

definition call_F16 :: "string \<times> seed_args" where
  "call_F16 = (''F16-COURTSIDE-SPEED-OUT-OF-SCOPE'', \<lparr>
    kw_hypothesis = ''Courtside-speed information would require separate legal, licensing, network, and action authority and is excluded from this program.'',
    kw_trigger = ''none in the current program'',
    kw_direction_semantics = ''no order'',
    kw_decision_clock = EXTERNAL_CLOCK,
    kw_forecast_horizon = ''not applicable'',
    kw_falsifier = ''not evaluated unless a new durable program explicitly admits the source and action'',
    kw_action_profile = ''NO_ACTION'',
    kw_data_profile = ''OUT_OF_SCOPE'',
    kw_external_dependency = ''REQUIRED'',
    kw_target_class = ''RESEARCH_QUESTION'',
    kw_result_status = ''OUT_OF_SCOPE'',
    kw_claim_tier = ''NO_CLAIM'',
    kw_extra_blockers = [''OUT_OF_SCOPE_CURRENT_PROGRAM'', ''EXTERNAL_SPORTS_DATA_MISSING'']\<rparr>)"

definition call_F17 :: "string \<times> seed_args" where
  "call_F17 = (''F17-CRYPTO-SPOT-ANCHOR-OUT-OF-SCOPE'', \<lparr>
    kw_hypothesis = ''Crypto spot anchoring has no admitted mechanism inside the Sports program and belongs to a separate registry.'',
    kw_trigger = ''none in the Sports program'',
    kw_direction_semantics = ''no order'',
    kw_decision_clock = RECEIVE_CLOCK,
    kw_forecast_horizon = ''not applicable'',
    kw_falsifier = ''a separately authorized non-Sports program establishes an explicit mapped instrument'',
    kw_action_profile = ''NO_ACTION'',
    kw_data_profile = ''OUT_OF_SCOPE'',
    kw_external_dependency = ''NOT_REQUIRED'',
    kw_target_class = ''RESEARCH_QUESTION'',
    kw_result_status = ''OUT_OF_SCOPE'',
    kw_claim_tier = ''NO_CLAIM'',
    kw_extra_blockers = [''OUT_OF_SCOPE_CURRENT_PROGRAM'']\<rparr>)"

definition call_G01 :: "string \<times> model_args" where
  "call_G01 = (''G01-CHANGEPOINT-REGIME'', \<lparr>
    model_hypothesis = ''A past-only change-point detector improves an owner's regime forecast over a fixed rolling window.'',
    model_trigger = ''online change probability crosses the owner-frozen regime boundary'',
    model_forecast_horizon = ''owner horizon from detected break through next stable segment'',
    model_falsifier = ''chronological owner loss and eventual fee-after PnL do not beat the fixed-window baseline''\<rparr>)"

definition call_G02 :: "string \<times> model_args" where
  "call_G02 = (''G02-HMM-HSMM-STATE'', \<lparr>
    model_hypothesis = ''Filtered HMM or HSMM state and dwell improve an owner outcome over deterministic SNBD state.'',
    model_trigger = ''filtered, never smoothed, state posterior crosses the owner-frozen threshold'',
    model_forecast_horizon = ''owner horizon plus latent-state dwell'',
    model_falsifier = ''latent states are unstable or add no calibrated owner increment out of sample''\<rparr>)"

definition call_G03 :: "string \<times> model_args" where
  "call_G03 = (''G03-POINT-PROCESS-HAWKES'', \<lparr>
    model_hypothesis = ''History-only point-process intensity improves an owner's fill, jump, or flow hazard forecast.'',
    model_trigger = ''causal self- or cross-excitation intensity exceeds the owner-frozen hazard threshold'',
    model_forecast_horizon = ''next event time and owner hazard horizon'',
    model_falsifier = ''Poisson or empirical hazard matches the model chronologically or owner economics do not improve''\<rparr>)"

definition call_G04 :: "string \<times> model_args" where
  "call_G04 = (''G04-GARCH-STOCHASTIC-VOL'', \<lparr>
    model_hypothesis = ''Conditional GARCH or stochastic-volatility forecasts improve an owner's risk or radius decision.'',
    model_trigger = ''one-step conditional volatility enters a different owner-frozen action cell'',
    model_forecast_horizon = ''next 1s, 30s, 5m, or owner-defined quote horizon'',
    model_falsifier = ''rolling realized volatility forecasts as well or the owner action gains no PnL''\<rparr>)"

definition call_G05 :: "string \<times> model_args" where
  "call_G05 = (''G05-STATE-SPACE-KALMAN'', \<lparr>
    model_hypothesis = ''A filtered state-space fair value and uncertainty improve an owner action over midpoint or EWMA.'',
    model_trigger = ''filtered fair displacement and posterior uncertainty pass the owner gate'',
    model_forecast_horizon = ''owner fair-value and exit horizon'',
    model_falsifier = ''midpoint, microprice, or EWMA matches forecast and owner PnL''\<rparr>)"

definition call_G06 :: "string \<times> model_args" where
  "call_G06 = (''G06-PCA-FACTOR-CLUSTER'', \<lparr>
    model_hypothesis = ''Past-fit common factors expose owner residuals that survive matched cross-market controls.'',
    model_trigger = ''factor-neutral residual exceeds the owner-frozen threshold in a mapped comparable panel'',
    model_forecast_horizon = ''owner convergence or risk horizon'',
    model_falsifier = ''residual vanishes under rolling fit, leave-root-out tests, or joint execution costs''\<rparr>)"

definition call_G07 :: "string \<times> model_args" where
  "call_G07 = (''G07-COINTEGRATION-VECM'', \<lparr>
    model_hypothesis = ''A past-fit long-run relation produces a stable error-correction signal for an owner relative-value card.'',
    model_trigger = ''causal error-correction residual exceeds the owner-frozen entry boundary'',
    model_forecast_horizon = ''owner convergence, stop, or joint terminal horizon'',
    model_falsifier = ''relation breaks chronologically or executable joint PnL is non-positive''\<rparr>)"

definition call_G08 :: "string \<times> model_args" where
  "call_G08 = (''G08-REGULARIZED-GLM-SURVIVAL'', \<lparr>
    model_hypothesis = ''A regularized GLM or survival model adds calibrated owner prediction beyond a univariate hazard.'',
    model_trigger = ''out-of-fold probability or hazard crosses the owner-frozen decision threshold'',
    model_forecast_horizon = ''owner binary, return, fill, or survival horizon'',
    model_falsifier = ''simple empirical or univariate baseline matches calibration and owner economics''\<rparr>)"

definition call_G09 :: "string \<times> model_args" where
  "call_G09 = (''G09-TREE-BOOSTING'', \<lparr>
    model_hypothesis = ''Tree boosting captures stable nonlinear owner interactions beyond a regularized GLM.'',
    model_trigger = ''chronological out-of-fold tree score crosses the owner-frozen threshold'',
    model_forecast_horizon = ''owner outcome horizon'',
    model_falsifier = ''nested out-of-fold increment, calibration, or eventual owner PnL is absent''\<rparr>)"

definition call_G10 :: "string \<times> model_args" where
  "call_G10 = (''G10-NEURAL-SEQUENCE'', \<lparr>
    model_hypothesis = ''A causal neural sequence model adds owner value beyond tree and GLM baselines after latency and drift costs.'',
    model_trigger = ''causal sequence score crosses the owner-frozen threshold within its latency budget'',
    model_forecast_horizon = ''owner sequence outcome horizon'',
    model_falsifier = ''simpler models match performance or inference, drift, and execution costs erase the increment''\<rparr>)"

definition call_G11 :: "string \<times> model_args" where
  "call_G11 = (''G11-ENSEMBLE-STACKING'', \<lparr>
    model_hypothesis = ''An out-of-fold-only stack improves owner calibration and PnL over the best frozen single model.'',
    model_trigger = ''meta-score built only from out-of-fold base predictions crosses the owner gate'',
    model_forecast_horizon = ''owner outcome and action horizon'',
    model_falsifier = ''the best single model matches the stack or switching and compute costs erase the increment''\<rparr>)"

definition call_G12 :: "string \<times> model_args" where
  "call_G12 = (''G12-DRIFT-CALIBRATION-RETRAINING'', \<lparr>
    model_hypothesis = ''A frozen drift detector and retraining cadence improve live-like owner calibration and PnL.'',
    model_trigger = ''calibration or feature drift crosses the frozen retrain or abstention boundary'',
    model_forecast_horizon = ''walk-forward owner horizon through the next retraining checkpoint'',
    model_falsifier = ''never-retrain or fixed-cadence baseline matches performance after retraining costs''\<rparr>)"

definition call_P01 :: "string \<times> seed_args" where
  "call_P01 = (''P01-STRATEGY-OVERLAP-PRECEDENCE'', \<lparr>
    kw_hypothesis = ''Frozen precedence among overlapping confirmed strategies prevents duplicate or contradictory root risk and improves joint PnL.'',
    kw_trigger = ''two confirmed child intents overlap on the same root, market, or outcome exposure'',
    kw_direction_semantics = ''select one precedence winner, cancel conflicts, reach zero resting, then route its unchanged side'',
    kw_decision_clock = RECEIVE_CLOCK,
    kw_forecast_horizon = ''conflict through cancellation, reconciliation, child exit, and day PnL'',
    kw_falsifier = ''joint precedence PnL does not beat independently running children under shared risk'',
    kw_action_profile = ''ROUTER'',
    kw_data_profile = ''META'',
    kw_external_dependency = ''INHERIT_CHILDREN'',
    kw_target_class = ''EXECUTABLE_STRATEGY'',
    kw_result_status = ''BLOCKED_CHILDREN'',
    kw_claim_tier = ''NO_CLAIM'',
    kw_extra_blockers = [''CONFIRMED_CHILD_STRATEGIES_MISSING'', ''RISK_GATES_MISSING'']\<rparr>)"

definition call_P02 :: "string \<times> seed_args" where
  "call_P02 = (''P02-ROUTER-ABSTENTION-SWITCH'', \<lparr>
    kw_hypothesis = ''A frozen router with abstention and hysteresis outperforms the best fixed confirmed child after switch costs.'',
    kw_trigger = ''past-only regime score selects a different child beyond the frozen hysteresis boundary'',
    kw_direction_semantics = ''no new risk, cancel, zero resting, reconcile, then inherit the selected child's side'',
    kw_decision_clock = RECEIVE_CLOCK,
    kw_forecast_horizon = ''router state through switch completion and child root-event outcome'',
    kw_falsifier = ''router fails to beat the best fixed training-selected child on untouched evidence'',
    kw_action_profile = ''ROUTER'',
    kw_data_profile = ''META'',
    kw_external_dependency = ''INHERIT_CHILDREN'',
    kw_target_class = ''EXECUTABLE_STRATEGY'',
    kw_result_status = ''BLOCKED_CHILDREN'',
    kw_claim_tier = ''NO_CLAIM'',
    kw_extra_blockers = [''CONFIRMED_CHILD_STRATEGIES_MISSING'', ''RISK_GATES_MISSING'']\<rparr>)"

definition call_P03 :: "string \<times> seed_args" where
  "call_P03 = (''P03-COMMON-ROOT-COVARIANCE-COTAIL'', \<lparr>
    kw_hypothesis = ''Aggregating exposure by canonical root and enforcing a co-tail cap reduces portfolio tail loss without destroying expected PnL.'',
    kw_trigger = ''root exposure, covariance, or co-tail stress exceeds a frozen joint risk limit'',
    kw_direction_semantics = ''deny new risk and preserve reduce-only actions across every affected child'',
    kw_decision_clock = RECEIVE_CLOCK,
    kw_forecast_horizon = ''risk breach through joint unwind, terminal, and daily tail result'',
    kw_falsifier = ''joint cap does not reduce expected shortfall or sacrifices more PnL than the frozen tolerance'',
    kw_action_profile = ''SIZE_RISK'',
    kw_data_profile = ''META'',
    kw_external_dependency = ''INHERIT_CHILDREN'',
    kw_target_class = ''EXECUTABLE_STRATEGY'',
    kw_result_status = ''BLOCKED_CHILDREN'',
    kw_claim_tier = ''NO_CLAIM'',
    kw_extra_blockers = [''CONFIRMED_CHILD_STRATEGIES_MISSING'', ''RISK_GATES_MISSING'']\<rparr>)"

definition call_P04 :: "string \<times> seed_args" where
  "call_P04 = (''P04-MULTIMARKET-ALLOCATION'', \<lparr>
    kw_hypothesis = ''Allocating fixed risk units by marginal net edge, covariance, capital, and token use beats equal allocation.'',
    kw_trigger = ''confirmed-child scores and joint risk ledger produce a frozen non-equal allocation'',
    kw_direction_semantics = ''allocation changes size only and inherits every child's side unchanged'',
    kw_decision_clock = DAY_CLOCK,
    kw_forecast_horizon = ''allocation interval through root-deduped day PnL and capital peak'',
    kw_falsifier = ''allocation fails to beat equal weight and best single child after turnover and costs'',
    kw_action_profile = ''SIZE_RISK'',
    kw_data_profile = ''META'',
    kw_external_dependency = ''INHERIT_CHILDREN'',
    kw_target_class = ''EXECUTABLE_STRATEGY'',
    kw_result_status = ''BLOCKED_CHILDREN'',
    kw_claim_tier = ''NO_CLAIM'',
    kw_extra_blockers = [''CONFIRMED_CHILD_STRATEGIES_MISSING'', ''RISK_GATES_MISSING'']\<rparr>)"

definition call_P05 :: "string \<times> seed_args" where
  "call_P05 = (''P05-BRACKET-HEDGE'', \<lparr>
    kw_hypothesis = ''A payout-verified bracket hedge reduces a confirmed child's tail or capital use by more than all-leg execution cost.'',
    kw_trigger = ''authoritative child position plus bracket hedge residual passes the frozen benefit threshold'',
    kw_direction_semantics = ''execute the exact statewise hedge vector; never use a name-only bracket match'',
    kw_decision_clock = RECEIVE_CLOCK,
    kw_forecast_horizon = ''hedge entry through child exit, orphan unwind, or joint terminal'',
    kw_falsifier = ''joint fill costs or any legal payout state makes the hedge increment non-positive'',
    kw_action_profile = ''CHILD_HEDGE'',
    kw_data_profile = ''FAMILY'',
    kw_external_dependency = ''NOT_REQUIRED'',
    kw_target_class = ''EXECUTABLE_STRATEGY'',
    kw_result_status = ''BLOCKED_ENGINE'',
    kw_claim_tier = ''NO_CLAIM'',
    kw_extra_blockers = [''PAYOUT_EXHAUSTIVENESS_MISSING'', ''MULTI_LEG_ENGINE_MISSING'', ''CONFIRMED_CHILD_STRATEGIES_MISSING'']\<rparr>)"

definition call_P06 :: "string \<times> seed_args" where
  "call_P06 = (''P06-DYNAMIC-DAILY-SELECTION'', \<lparr>
    kw_hypothesis = ''Selecting only past-predicted positive confirmed children each day outperforms static daily activation after turnover.'',
    kw_trigger = ''prior-day-only quality, capacity, and edge score places a child on the daily allowlist'',
    kw_direction_semantics = ''daily selector inherits child actions and sides; excluded children submit nothing'',
    kw_decision_clock = DAY_CLOCK,
    kw_forecast_horizon = ''next UTC day with no intraday refit'',
    kw_falsifier = ''daily selector fails to beat always-on and best fixed child on untouched days'',
    kw_action_profile = ''ROUTER'',
    kw_data_profile = ''META'',
    kw_external_dependency = ''INHERIT_CHILDREN'',
    kw_target_class = ''EXECUTABLE_STRATEGY'',
    kw_result_status = ''BLOCKED_CHILDREN'',
    kw_claim_tier = ''NO_CLAIM'',
    kw_extra_blockers = [''CONFIRMED_CHILD_STRATEGIES_MISSING'', ''INSUFFICIENT_QUALITY_DATES'']\<rparr>)"

definition call_P07 :: "string \<times> seed_args" where
  "call_P07 = (''P07-CAPACITY-FILL-DECAY-IMPACT'', \<lparr>
    kw_hypothesis = ''Fill probability decays and impact grows with size, producing a finite PnL-maximizing capacity rather than linear scale.'',
    kw_trigger = ''marginal tested size has positive pessimistic PnL after fill decay and impact'',
    kw_direction_semantics = ''change quantity only and inherit the child side'',
    kw_decision_clock = RECEIVE_CLOCK,
    kw_forecast_horizon = ''order lifetime through fills, impact, unwind, and daily capacity'',
    kw_falsifier = ''no size above one has positive marginal PnL or capacity estimates fail micro-live calibration'',
    kw_action_profile = ''SIZE_RISK'',
    kw_data_profile = ''META'',
    kw_external_dependency = ''INHERIT_CHILDREN'',
    kw_target_class = ''EXECUTABLE_STRATEGY'',
    kw_result_status = ''BLOCKED_CHILDREN'',
    kw_claim_tier = ''NO_CLAIM'',
    kw_extra_blockers = [''CONFIRMED_CHILD_STRATEGIES_MISSING'', ''OWN_ORDER_CALIBRATION_MISSING'', ''RISK_GATES_MISSING'']\<rparr>)"

definition call_P08 :: "string \<times> seed_args" where
  "call_P08 = (''P08-PROGRESSIVE-SCALING'', \<lparr>
    kw_hypothesis = ''A maximum two-times size ladder increases dollar PnL only while every tier retains positive marginal economics and tail safety.'',
    kw_trigger = ''previous tier passes frozen PnL, drawdown, impact, and reconciliation gates'',
    kw_direction_semantics = ''raise or lower size only; inherit child side and immediately allow reduce-only exit'',
    kw_decision_clock = DAY_CLOCK,
    kw_forecast_horizon = ''one complete tier evaluation window before any next step'',
    kw_falsifier = ''a tier has non-positive marginal PnL, excess tail, or unmodeled impact'',
    kw_action_profile = ''SIZE_RISK'',
    kw_data_profile = ''META'',
    kw_external_dependency = ''INHERIT_CHILDREN'',
    kw_target_class = ''EXECUTABLE_STRATEGY'',
    kw_result_status = ''BLOCKED_CHILDREN'',
    kw_claim_tier = ''NO_CLAIM'',
    kw_extra_blockers = [''CONFIRMED_CHILD_STRATEGIES_MISSING'', ''RISK_GATES_MISSING'', ''OWN_ORDER_CALIBRATION_MISSING'']\<rparr>)"

definition call_P09 :: "string \<times> seed_args" where
  "call_P09 = (''P09-MANUAL-SYSTEM-COEXISTENCE'', \<lparr>
    kw_hypothesis = ''Authoritative ownership, self-trade prevention, and precedence allow manual and system orders to coexist without conflict loss.'',
    kw_trigger = ''private account state reports overlapping manual and system exposure or orders'',
    kw_direction_semantics = ''forbid system new risk, cancel only system-owned conflicts, and reconcile before resuming'',
    kw_decision_clock = ''PRIVATE_ACCOUNT_EVENT_RECEIVE_CLOCK_PAST_ONLY'',
    kw_forecast_horizon = ''conflict detection through cancel, reconciliation, and position normalization'',
    kw_falsifier = ''ownership cannot be proven or coexistence produces duplicate fills, self-trades, or unexplained exposure'',
    kw_action_profile = ''SIZE_RISK'',
    kw_data_profile = ''PRIVATE'',
    kw_external_dependency = ''NOT_REQUIRED'',
    kw_target_class = ''EXECUTABLE_STRATEGY'',
    kw_result_status = ''BLOCKED_DATA'',
    kw_claim_tier = ''NO_CLAIM'',
    kw_extra_blockers = [''PRIVATE_ACCOUNT_STATE_MISSING'', ''RISK_GATES_MISSING'']\<rparr>)"

definition call_P10 :: "string \<times> seed_args" where
  "call_P10 = (''P10-COMMERCIAL-ROC-COST'', \<lparr>
    kw_hypothesis = ''A confirmed strategy remains commercially worthwhile after exchange, data, cloud, capital, labor, and incident costs.'',
    kw_trigger = ''rolling commercial net PnL and return on committed capital pass frozen continue or stop gates'',
    kw_direction_semantics = ''deploy, continue, scale down, or stop a confirmed child; no independent market side'',
    kw_decision_clock = DAY_CLOCK,
    kw_forecast_horizon = ''daily, monthly, and capital-payback windows'',
    kw_falsifier = ''commercial net PnL or risk-adjusted return on cost is non-positive'',
    kw_action_profile = ''COMMERCIAL_ROC'',
    kw_data_profile = ''META'',
    kw_external_dependency = ''INHERIT_CHILDREN'',
    kw_target_class = ''EXECUTABLE_STRATEGY'',
    kw_result_status = ''BLOCKED_CHILDREN'',
    kw_claim_tier = ''NO_CLAIM'',
    kw_extra_blockers = [''CONFIRMED_CHILD_STRATEGIES_MISSING'']\<rparr>)"

definition call_P11 :: "string \<times> seed_args" where
  "call_P11 = (''P11-UNCLASSIFIED-BACKLOG'', \<lparr>
    kw_hypothesis = ''Valid observations with no falsifiable action and PnL contract should remain unclassified rather than be promoted by narrative.'',
    kw_trigger = ''valid evidence matches no atomic experiment with a complete target and action'',
    kw_direction_semantics = ''no order'',
    kw_decision_clock = RECEIVE_CLOCK,
    kw_forecast_horizon = ''not applicable until a new audited lineage exists'',
    kw_falsifier = ''an independently audited taxonomy proposal supplies a unique action, baseline, and PnL contract'',
    kw_action_profile = ''NO_ACTION'',
    kw_data_profile = ''INTERNAL_CONTROL'',
    kw_external_dependency = ''INHERIT_CHILDREN'',
    kw_target_class = ''RESEARCH_QUESTION'',
    kw_result_status = ''UNCLASSIFIED_BACKLOG'',
    kw_claim_tier = ''NO_CLAIM'',
    kw_extra_blockers = [''ACTION_INCOMPLETE'', ''BASELINE_INCOMPLETE'']\<rparr>)"

end
