(* ===== verification/CardSeeds.thy ===== *)
theory CardSeeds
  imports SeedsAB SeedsCE SeedsFP
begin

text \<open>
  The module \<^verbatim>\<open>tools/experiment_registry_seeds.py\<close> as a whole: its registrations in order, the checks
  \<^verbatim>\<open>_validate_seeds\<close> makes when the module is imported, and what a successful import guarantees
  about every seed.
\<close>


section \<open>Registrations in order\<close>

definition seed_calls :: "(string \<times> seed_args) list" where
  "seed_calls = [
     call_A01, call_A02, call_A03, call_A04, call_A05, call_A06, call_A07A, call_A07B,
     call_A07C, call_A07D, call_A08, call_A09, call_A10, call_A11, call_A12, call_A13,
     call_A14, call_A15, call_A16, call_A17, call_A18, call_A19, call_A20, call_B01,
     call_B02, call_B03, call_B04, call_B05, call_B06, call_B07, call_B08, call_B09,
     call_B10, call_B11, call_B12, call_B13, call_B14, call_B15, call_B16, call_B17,
     call_C01, call_C02, call_C03, call_C04, call_C05, call_C06, call_C07, call_C08,
     call_C09, call_C10, call_D01, call_D02, call_D03, call_D04, call_D05, call_D06,
     call_D07, call_D08, call_D09, call_D10, call_E01, call_E02, call_E03, call_E04,
     call_E05, call_E06, call_F01, call_F02, call_F03, call_F04, call_F05, call_F06,
     call_F07, call_F08, call_F09, call_F10, call_F11, call_F12, call_F13, call_F14,
     call_F15, call_F16, call_F17, model_call call_G01, model_call call_G02, model_call call_G03, model_call call_G04, model_call call_G05,
     model_call call_G06, model_call call_G07, model_call call_G08, model_call call_G09, model_call call_G10, model_call call_G11, model_call call_G12, call_P01,
     call_P02, call_P03, call_P04, call_P05, call_P06, call_P07, call_P08, call_P09,
     call_P10, call_P11]"

definition registered_seeds :: "card_seeds res" where
  "registered_seeds = fold (\<lambda>call seeds. rbind seeds (register call)) seed_calls (Inr [])"


section \<open>Validation\<close>

definition EXPECTED_FAMILY_COUNTS :: "(string \<times> nat) list" where
  "EXPECTED_FAMILY_COUNTS = [(''A'', 23), (''B'', 17), (''C'', 10), (''D'', 10), (''E'', 6), (''F'', 17), (''G'', 12), (''P'', 11)]"

definition CARD_KEYS :: "string list" where
  "CARD_KEYS = [
     ''hypothesis'', ''signal'', ''action_profile'', ''data_profile'',
     ''external_dependency'', ''target_class'', ''result_status'', ''claim_tier'',
     ''extra_blockers'']"

definition SIGNAL_KEYS :: "string list" where
  "SIGNAL_KEYS = [
     ''trigger'', ''direction_semantics'', ''decision_clock'', ''forecast_horizon'',
     ''falsifier'']"

definition SEED_ACTION_PROFILES :: "string list" where
  "SEED_ACTION_PROFILES = [
     ''NO_ACTION'', ''MAKER_SPREAD'', ''MAKER_FILTER'', ''MAKER_REFILL'',
     ''T90_RANGE'', ''T90_REBUILD'', ''PASSIVE_FADE'', ''TAKER_DIRECTIONAL'',
     ''RELATIVE_VALUE'', ''EXPIRY_ROLL'', ''CHILD_HEDGE'', ''RFQ_GUARD'',
     ''RFQ_MAKER'', ''MVE_DIRECT'', ''TERMINAL_POLICY'', ''TERMINAL_ENTRY'',
     ''CS_ASK'', ''EARLY_EXIT'', ''EXTERNAL_ACTION'', ''ROUTER'',
     ''COMMERCIAL_ROC'', ''SIZE_RISK'', ''MODEL_COMPONENT'', ''CONTROL_ONLY'']"

definition SEED_DATA_PROFILES :: "string list" where
  "SEED_DATA_PROFILES = [
     ''L1'', ''L2'', ''L1_L2'', ''L1_PRIVATE'',
     ''FAMILY'', ''TERMINAL'', ''RFQ_PUBLIC'', ''RFQ_PRIVATE'',
     ''MVE_PRIVATE'', ''EXTERNAL'', ''CATALOG'', ''MODEL'',
     ''META'', ''PRIVATE'', ''OUT_OF_SCOPE'', ''INTERNAL_CONTROL'',
     ''OWNER_EVPI'']"

definition SEED_EXTERNAL_DEPENDENCIES :: "string list" where
  "SEED_EXTERNAL_DEPENDENCIES = [
     ''NOT_REQUIRED'', ''REQUIRED'', ''OPTIONAL_REFINEMENT'', ''INHERIT_OWNER'',
     ''INHERIT_CHILDREN'']"

definition TARGET_CLASSES :: "string list" where
  "TARGET_CLASSES = [
     ''RESEARCH_QUESTION'', ''SIGNAL'', ''EXECUTABLE_STRATEGY'']"

definition KNOWN_BLOCKERS :: "string list" where
  "KNOWN_BLOCKERS = [
     ''MISSING_SIGNAL_INPUT'', ''TIMESTAMP_SEMANTICS_UNKNOWN'', ''EXTERNAL_SPORTS_DATA_MISSING'', ''EXTERNAL_API_UNVERIFIED'',
     ''VENUE_PERMISSION_MISSING'', ''INSTRUMENT_MAPPING_UNKNOWN'', ''ACTION_INCOMPLETE'', ''BASELINE_INCOMPLETE'',
     ''FEE_UNKNOWN'', ''FILL_MODEL_MISSING'', ''OWN_ORDER_CALIBRATION_MISSING'', ''LATENCY_UNMEASURED'',
     ''SETTLEMENT_MISSING'', ''PAYOUT_EXHAUSTIVENESS_MISSING'', ''RFQ_PRIVATE_EVENTS_MISSING'', ''RFQ_PUBLIC_DATA_UNRELEASED'',
     ''MVE_PRIVATE_EVENTS_MISSING'', ''MULTI_LEG_ENGINE_MISSING'', ''CONFIRMED_CHILD_STRATEGIES_MISSING'', ''PRIVATE_ACCOUNT_STATE_MISSING'',
     ''INSUFFICIENT_QUALITY_DATES'', ''SAMPLE_TOO_SMALL'', ''DATA_INTEGRITY_BLOCKED'', ''RISK_GATES_MISSING'',
     ''OPERATING_COST_UNKNOWN'', ''OUT_OF_SCOPE_CURRENT_PROGRAM'']"

text \<open>
  \<^verbatim>\<open>repr\<close> of a set of strings, with the elements in order: Python leaves the order open, and only
  messages of exceptions show it.
\<close>

definition repr_str_set :: "string list \<Rightarrow> string" where
  "repr_str_set xs = (if xs = [] then ''set()''
     else ''{'' @ join '', '' (map repr_str (sorted_set xs)) @ ''}'')"

definition sym_diff :: "string list \<Rightarrow> string list \<Rightarrow> string list" where
  "sym_diff xs ys = filter (\<lambda>x. x \<notin> set ys) xs @ filter (\<lambda>y. y \<notin> set xs) ys"

definition repr_counts :: "(string \<times> nat) list \<Rightarrow> string" where
  "repr_counts cs = py_repr (JObj (map (\<lambda>(k, n). (k, JInt (int n))) cs))"

text \<open>The locals of the loop.\<close>

record seed_scan =
  family_counts :: "(string \<times> nat) list"
  hypotheses :: "string list"
  triggers :: "string list"

definition scan_start :: seed_scan where
  "scan_start = \<lparr>family_counts = map (\<lambda>(k, _). (k, 0)) EXPECTED_FAMILY_COUNTS,
     hypotheses = [], triggers = []\<rparr>"

text \<open>The body of the loop over \<^verbatim>\<open>CARD_SEEDS.items()\<close>.\<close>

definition scan_seed :: "string \<times> seed \<Rightarrow> seed_scan \<Rightarrow> seed_scan res" where
  "scan_seed item scan =
     (let (experiment_id, card) = item;
          fail = (\<lambda>m. Inl (ValueError (experiment_id @ m)));
          family = take 1 experiment_id;
          unknown = filter (\<lambda>b. b \<notin> set KNOWN_BLOCKERS) (seed_extra_blockers card);
          hypothesis = seed_hypothesis card;
          trig = trigger (seed_signal card)
      in if experiment_id = [] then Inl IndexError
      else case map_of (family_counts scan) family of
        None \<Rightarrow> Inl (ValueError (''unknown family for '' @ experiment_id))
      | Some n \<Rightarrow>
        if set (map fst (seed_fields card)) \<noteq> set CARD_KEYS
          then fail ('': wrong card keys '' @ repr_str_set (sym_diff (map fst (seed_fields card)) CARD_KEYS))
        else if set (map fst (signal_fields (seed_signal card))) \<noteq> set SIGNAL_KEYS
          then fail ('': wrong signal keys '' @
            repr_str_set (sym_diff (map fst (signal_fields (seed_signal card))) SIGNAL_KEYS))
        else if seed_action_profile card \<notin> set SEED_ACTION_PROFILES then fail '': unknown action profile''
        else if seed_data_profile card \<notin> set SEED_DATA_PROFILES then fail '': unknown data profile''
        else if seed_external_dependency card \<notin> set SEED_EXTERNAL_DEPENDENCIES
          then fail '': unknown external dependency''
        else if seed_target_class card \<notin> set TARGET_CLASSES then fail '': unknown target class''
        else if unknown \<noteq> [] then fail ('': unknown blockers '' @ repr_str_set unknown)
        else if hypothesis \<in> set (hypotheses scan) then fail '': duplicate hypothesis''
        else if trig \<in> set (triggers scan) then fail '': duplicate signal trigger''
        else if seed_action_profile card \<in> set [''NO_ACTION'', ''MODEL_COMPONENT'', ''CONTROL_ONLY'']
            \<and> seed_target_class card = ''EXECUTABLE_STRATEGY''
          then fail '': non-action cannot be a strategy''
        else if seed_external_dependency card = ''REQUIRED''
            \<and> seed_data_profile card \<notin> set [''EXTERNAL'', ''OUT_OF_SCOPE'']
          then fail '': required external data not explicit''
        else Inr \<lparr>family_counts = fput family (n + 1) (family_counts scan),
          hypotheses = hypothesis # hypotheses scan, triggers = trig # triggers scan\<rparr>)"

fun scan_seeds :: "card_seeds \<Rightarrow> seed_scan \<Rightarrow> seed_scan res" where
  "scan_seeds [] scan = Inr scan"
| "scan_seeds (item # items) scan = rbind (scan_seed item scan) (scan_seeds items)"

definition seed_direction :: "card_seeds \<Rightarrow> string \<Rightarrow> string res" where
  "seed_direction seeds experiment_id =
     (case map_of seeds experiment_id of
        None \<Rightarrow> Inl KeyError
      | Some s \<Rightarrow> Inr (direction_semantics (seed_signal s)))"

definition validate_seeds :: "card_seeds \<Rightarrow> unit res" where
  "validate_seeds seeds =
     (if length seeds \<noteq> 106
      then Inl (ValueError (''expected exactly 106 card seeds, got '' @ str_of_nat (length seeds)))
      else rbind (scan_seeds seeds scan_start) (\<lambda>scan.
      if family_counts scan \<noteq> EXPECTED_FAMILY_COUNTS
      then Inl (ValueError (''family counts differ: expected '' @ repr_counts EXPECTED_FAMILY_COUNTS
        @ '', got '' @ repr_counts (family_counts scan)))
      else rbind (seed_direction seeds ''D04-RFQ-COMBO-DEMAND-LEG-PRESSURE'') (\<lambda>d04.
      rbind (seed_direction seeds ''D06-RFQ-DIRECTION-VOL-SIGNAL'') (\<lambda>d06.
      if \<not> contains ''combo side'' d04 \<or> \<not> contains ''not RFQ buy or sell'' d04
      then Inl (ValueError ''D04 must state that combo side is not RFQ direction'')
      else if \<not> contains ''PUBLIC_UNSIGNED'' d06 \<or> \<not> contains ''PRIVATE accepted_side'' d06
          \<or> \<not> contains ''forbidden substitutes'' d06
      then Inl (ValueError ''D06 must fail closed on public RFQ direction'')
      else Inr ()))))"

text \<open>What importing the module gives its client: the validated seeds.\<close>

definition load_card_seeds :: "card_seeds res" where
  "load_card_seeds = rbind registered_seeds (\<lambda>seeds. rmap (\<lambda>_. seeds) (validate_seeds seeds))"


section \<open>What the import guarantees\<close>

text \<open>The dictionary a call stores, and the items of the module in order.\<close>

definition seed_of :: "seed_args \<Rightarrow> seed" where
  "seed_of kw = \<lparr>
     seed_hypothesis = kw_hypothesis kw,
     seed_signal = \<lparr>
       trigger = kw_trigger kw,
       direction_semantics = kw_direction_semantics kw,
       decision_clock = kw_decision_clock kw,
       forecast_horizon = kw_forecast_horizon kw,
       falsifier = kw_falsifier kw\<rparr>,
     seed_action_profile = kw_action_profile kw,
     seed_data_profile = kw_data_profile kw,
     seed_external_dependency = kw_external_dependency kw,
     seed_target_class = kw_target_class kw,
     seed_result_status = kw_result_status kw,
     seed_claim_tier = kw_claim_tier kw,
     seed_extra_blockers = kw_extra_blockers kw\<rparr>"

lemma register_eq:
  "register (i, kw) seeds = (if i \<in> set (map fst seeds)
     then Inl (ValueError (''duplicate experiment seed: '' @ i)) else Inr (seeds @ [(i, seed_of kw)]))"
  by (simp add: register_def seed_of_def)

lemma register_distinct:
  "distinct (map fst seeds @ map fst calls) \<Longrightarrow>
   fold (\<lambda>call seeds. rbind seeds (register call)) calls (Inr seeds)
     = Inr (seeds @ map (\<lambda>(i, kw). (i, seed_of kw)) calls)"
proof (induction calls arbitrary: seeds)
  case (Cons call calls)
  obtain i kw where c: "call = (i, kw)" by fastforce
  show ?case using Cons.prems Cons.IH [of "seeds @ [(i, seed_of kw)]"]
    by (auto simp: c register_eq)
qed simp

definition card_seed_items :: card_seeds where
  "card_seed_items = map (\<lambda>(i, kw). (i, seed_of kw)) seed_calls"

text \<open>A list has no repetition when some function of its elements has none.\<close>

lemma distinct_fingerprint: "distinct (map (\<lambda>x. h (f x)) xs) \<Longrightarrow> distinct (map f xs)"
  by (induction xs) (auto simp: image_iff)

lemma seed_calls_distinct: "distinct (map fst seed_calls)"
proof (rule distinct_fingerprint)
  show "distinct (map (\<lambda>call. take 4 (fst call)) seed_calls)" by code_simp
qed

lemma registered_seeds_eq: "registered_seeds = Inr card_seed_items"
  using register_distinct [of "[]" seed_calls] seed_calls_distinct
  by (simp add: registered_seeds_def card_seed_items_def)

text \<open>The conditions \<^verbatim>\<open>_validate_seeds\<close> puts on one seed.\<close>

definition seed_admissible :: "seed \<Rightarrow> bool" where
  "seed_admissible s \<longleftrightarrow>
     seed_action_profile s \<in> set SEED_ACTION_PROFILES
   \<and> seed_data_profile s \<in> set SEED_DATA_PROFILES
   \<and> seed_external_dependency s \<in> set SEED_EXTERNAL_DEPENDENCIES
   \<and> seed_target_class s \<in> set TARGET_CLASSES
   \<and> list_all (\<lambda>b. b \<in> set KNOWN_BLOCKERS) (seed_extra_blockers s)
   \<and> (seed_target_class s = ''EXECUTABLE_STRATEGY''
        \<longrightarrow> seed_action_profile s \<notin> set [''NO_ACTION'', ''MODEL_COMPONENT'', ''CONTROL_ONLY''])
   \<and> (seed_external_dependency s = ''REQUIRED''
        \<longrightarrow> seed_data_profile s \<in> set [''EXTERNAL'', ''OUT_OF_SCOPE''])"

lemma seed_keys: "map fst (seed_fields s) = CARD_KEYS" "map fst (signal_fields g) = SIGNAL_KEYS"
  by (simp_all add: seed_fields_def CARD_KEYS_def signal_fields_def SIGNAL_KEYS_def)

lemma scan_seed_iff:
  "scan_seed (i, s) scan = Inr scan' \<longleftrightarrow>
     i \<noteq> [] \<and> seed_admissible s
   \<and> seed_hypothesis s \<notin> set (hypotheses scan)
   \<and> trigger (seed_signal s) \<notin> set (triggers scan)
   \<and> (\<exists>n. map_of (family_counts scan) (take 1 i) = Some n
        \<and> scan' = \<lparr>family_counts = fput (take 1 i) (n + 1) (family_counts scan),
            hypotheses = seed_hypothesis s # hypotheses scan,
            triggers = trigger (seed_signal s) # triggers scan\<rparr>)"
  unfolding scan_seed_def seed_admissible_def Let_def
  by (auto simp: seed_keys list_all_iff filter_empty_conv split: option.splits)

abbreviation seed_hyp :: "string \<times> seed \<Rightarrow> string" where
  "seed_hyp item \<equiv> seed_hypothesis (snd item)"

abbreviation seed_trig :: "string \<times> seed \<Rightarrow> string" where
  "seed_trig item \<equiv> trigger (seed_signal (snd item))"

text \<open>The family counts after a sequence of families; \<open>None\<close> on an unknown one.\<close>

fun tally :: "string list \<Rightarrow> (string \<times> nat) list \<Rightarrow> (string \<times> nat) list option" where
  "tally [] cs = Some cs"
| "tally (f # fs) cs = (case map_of cs f of None \<Rightarrow> None | Some n \<Rightarrow> tally fs (fput f (n + 1) cs))"

lemma scan_seeds_iff:
  "scan_seeds items scan = Inr scan' \<longleftrightarrow>
     list_all (\<lambda>(i, s). i \<noteq> [] \<and> seed_admissible s) items
   \<and> distinct (map seed_hyp items) \<and> set (map seed_hyp items) \<inter> set (hypotheses scan) = {}
   \<and> distinct (map seed_trig items) \<and> set (map seed_trig items) \<inter> set (triggers scan) = {}
   \<and> tally (map (take 1 \<circ> fst) items) (family_counts scan) = Some (family_counts scan')
   \<and> hypotheses scan' = rev (map seed_hyp items) @ hypotheses scan
   \<and> triggers scan' = rev (map seed_trig items) @ triggers scan"
proof (induction items arbitrary: scan)
  case Nil
  show ?case by (cases scan; cases scan') auto
next
  case (Cons item items)
  obtain i s where it: "item = (i, s)" by fastforce
  show ?case
    by (auto simp: it rbind_eq_Inr scan_seed_iff Cons.IH split: option.splits)
qed

text \<open>The same conditions on the five arguments they are about, which evaluate without building the seed.\<close>

definition call_key :: "string \<times> seed_args \<Rightarrow> string \<times> string \<times> string \<times> string \<times> string list" where
  "call_key call = (case call of (_, kw) \<Rightarrow>
     (kw_action_profile kw, kw_data_profile kw, kw_external_dependency kw, kw_target_class kw, kw_extra_blockers kw))"

definition key_admissible :: "string \<times> string \<times> string \<times> string \<times> string list \<Rightarrow> bool" where
  "key_admissible key = (case key of (act, dat, dep, target, extra) \<Rightarrow>
     act \<in> set SEED_ACTION_PROFILES \<and> dat \<in> set SEED_DATA_PROFILES
   \<and> dep \<in> set SEED_EXTERNAL_DEPENDENCIES \<and> target \<in> set TARGET_CLASSES
   \<and> list_all (\<lambda>b. b \<in> set KNOWN_BLOCKERS) extra
   \<and> (target = ''EXECUTABLE_STRATEGY'' \<longrightarrow> act \<notin> set [''NO_ACTION'', ''MODEL_COMPONENT'', ''CONTROL_ONLY''])
   \<and> (dep = ''REQUIRED'' \<longrightarrow> dat \<in> set [''EXTERNAL'', ''OUT_OF_SCOPE'']))"

lemma key_admissible_iff: "key_admissible (call_key (i, kw)) \<longleftrightarrow> seed_admissible (seed_of kw)"
  by (simp add: seed_admissible_def key_admissible_def call_key_def seed_of_def)

lemma items_all: "list_all P card_seed_items \<longleftrightarrow> list_all (\<lambda>(i, kw). P (i, seed_of kw)) seed_calls"
  by (simp add: card_seed_items_def list.pred_map comp_def split_def)

lemma items_map: "map f card_seed_items = map (\<lambda>(i, kw). f (i, seed_of kw)) seed_calls"
  by (simp add: card_seed_items_def comp_def split_def)

lemma calls_admissible: "list_all key_admissible (map call_key seed_calls)"
  by code_simp

lemma calls_named: "list_all (\<lambda>i. i \<noteq> []) (map fst seed_calls)"
  by code_simp

lemma items_admissible: "list_all (\<lambda>(i, s). i \<noteq> [] \<and> seed_admissible s) card_seed_items"
  unfolding items_all using calls_admissible calls_named
  by (fastforce simp: list_all_iff key_admissible_iff)

lemma items_hyps: "distinct (map seed_hyp card_seed_items)"
proof (rule distinct_fingerprint)
  have "distinct (map (\<lambda>(i, kw). take 4 (drop 11 (kw_hypothesis kw))) seed_calls)" by code_simp
  then show "distinct (map (\<lambda>x. take 4 (drop 11 (seed_hyp x))) card_seed_items)"
    by (simp add: items_map seed_of_def)
qed

lemma items_trigs: "distinct (map seed_trig card_seed_items)"
proof (rule distinct_fingerprint)
  have "distinct (map (\<lambda>(i, kw). take 2 (kw_trigger kw) @ take 2 (drop 22 (kw_trigger kw))) seed_calls)" by code_simp
  then show "distinct (map (\<lambda>x. take 2 (seed_trig x) @ take 2 (drop 22 (seed_trig x))) card_seed_items)"
    by (simp add: items_map seed_of_def)
qed

lemma calls_tally: "tally (map (\<lambda>(i, _). take 1 i) seed_calls) (family_counts scan_start) = Some EXPECTED_FAMILY_COUNTS"
  by code_simp

lemma items_tally:
  "tally (map (take 1 \<circ> fst) card_seed_items) (family_counts scan_start) = Some EXPECTED_FAMILY_COUNTS"
  using calls_tally by (simp only: items_map comp_def prod.case fst_conv)

lemma items_keys: "map fst card_seed_items = map fst seed_calls"
  by (simp add: card_seed_items_def split_def)

lemma items_lookup: "(i, kw) \<in> set seed_calls \<Longrightarrow> map_of card_seed_items i = Some (seed_of kw)"
proof -
  assume "(i, kw) \<in> set seed_calls"
  then have "(i, seed_of kw) \<in> set card_seed_items" by (force simp: card_seed_items_def)
  then show ?thesis by (intro map_of_is_SomeI) (simp_all add: items_keys seed_calls_distinct)
qed
lemma items_direction:
  "call \<in> set seed_calls \<Longrightarrow> seed_direction card_seed_items (fst call) = Inr (kw_direction_semantics (snd call))"
  using items_lookup [of "fst call" "snd call"] by (simp add: seed_direction_def seed_of_def)

lemma items_d04: "seed_direction card_seed_items ''D04-RFQ-COMBO-DEMAND-LEG-PRESSURE''
    = Inr (kw_direction_semantics (snd call_D04))"
  using items_direction [of call_D04] by (simp add: seed_calls_def call_D04_def)

lemma items_d06: "seed_direction card_seed_items ''D06-RFQ-DIRECTION-VOL-SIGNAL''
    = Inr (kw_direction_semantics (snd call_D06))"
  using items_direction [of call_D06] by (simp add: seed_calls_def call_D06_def)

lemma directions_stated:
  "contains ''combo side'' (kw_direction_semantics (snd call_D04))"
  "contains ''not RFQ buy or sell'' (kw_direction_semantics (snd call_D04))"
  "contains ''PUBLIC_UNSIGNED'' (kw_direction_semantics (snd call_D06))"
  "contains ''PRIVATE accepted_side'' (kw_direction_semantics (snd call_D06))"
  "contains ''forbidden substitutes'' (kw_direction_semantics (snd call_D06))"
  by code_simp+

lemma items_scan: "scan_seeds card_seed_items scan_start = Inr \<lparr>family_counts = EXPECTED_FAMILY_COUNTS,
    hypotheses = rev (map seed_hyp card_seed_items), triggers = rev (map seed_trig card_seed_items)\<rparr>"
proof -
  have "hypotheses scan_start = []" "triggers scan_start = []" by (simp_all add: scan_start_def)
  with items_tally show ?thesis by (simp add: scan_seeds_iff items_admissible items_hyps items_trigs)
qed

lemma items_length: "length card_seed_items = 106"
  by (simp add: card_seed_items_def seed_calls_def)

lemma items_validated: "validate_seeds card_seed_items = Inr ()"
  by (simp add: validate_seeds_def items_length items_scan items_d04 items_d06 directions_stated)

lemma load_card_seeds_eq: "load_card_seeds = Inr card_seed_items"
  by (simp add: load_card_seeds_def registered_seeds_eq items_validated)

lemma items_keys_atomic: "map fst card_seed_items = ATOMIC_IDS"
  unfolding items_keys by code_simp

text \<open>What a successful validation guarantees, for any dictionary of seeds.\<close>

lemma validate_seeds_sound:
  assumes "validate_seeds seeds = Inr ()"
  shows "length seeds = 106" "\<And>i s. (i, s) \<in> set seeds \<Longrightarrow> seed_admissible s"
    "distinct (map seed_hyp seeds)" "distinct (map seed_trig seeds)"
    "tally (map (take 1 \<circ> fst) seeds) (family_counts scan_start) = Some EXPECTED_FAMILY_COUNTS"
  using assms unfolding validate_seeds_def
  by (auto simp: scan_seeds_iff rbind_eq_Inr list_all_iff split: if_splits)

end
