(* ===== verification/Classify.thy ===== *)
theory Classify
  imports CardSeeds
begin

text \<open>
  How the blockers and the class of a card follow from its seed and its contracts
  (\<^verbatim>\<open>_expected_blockers\<close>, \<^verbatim>\<open>_gap_contract\<close>, \<^verbatim>\<open>_base_class\<close>, \<^verbatim>\<open>_classification\<close>,
  \<^verbatim>\<open>_claim_tier_for_observation\<close>), and that the classification fails closed.
\<close>


section \<open>Blockers\<close>

definition expected_blockers :: "seed \<Rightarrow> data \<Rightarrow> external \<Rightarrow> cost list \<Rightarrow> bool \<Rightarrow> string list res" where
  "expected_blockers s d ext costs has_action =
     rbind (if has_action then cost_blockers costs else Inr []) (\<lambda>cost_bs.
     Inr (sorted_set (
       (if has_action then data_blockers d else signal_level_blockers (seed_data_profile s))
       @ cost_bs
       @ (if seed_action_profile s \<in> set CHILD_DEPENDENT_ACTION_PROFILES
          then [''CONFIRMED_CHILD_STRATEGIES_MISSING''] else [])
       @ (if has_action \<and> seed_external_dependency s = ''REQUIRED''
          then [''INSTRUMENT_MAPPING_UNKNOWN''] else [])
       @ ext_blockers ext
       @ seed_extra_blockers s)))"

definition gap_contract :: "string \<Rightarrow> string \<Rightarrow> json res" where
  "gap_contract atomic_id blocker =
     (case map_of BLOCKER_REMEDIATION_CATALOG blocker of
        None \<Rightarrow> Inl KeyError
      | Some (catalog_missing, catalog_acquisition, blocking_stage) \<Rightarrow>
        (let (gap_missing, gap_acquisition) =
               (case map_of CARD_SPECIFIC_GAP_OVERRIDES (atomic_id, blocker) of
                  None \<Rightarrow> (catalog_missing, catalog_acquisition)
                | Some override \<Rightarrow> override)
         in Inr (dict_of [
           (''blocker'', JStr blocker),
           (''blocking_stage'', JStr blocking_stage),
           (''missing_evidence'', JStr gap_missing),
           (''acquisition_or_build_path'', JStr gap_acquisition),
           (''external_api_candidate_ids'', jstrs
             (if blocker \<in> set [''EXTERNAL_SPORTS_DATA_MISSING'', ''EXTERNAL_API_UNVERIFIED'']
              then [''KALSHI_MILESTONES_LIVE_DATA'', ''THE_ODDS_API'', ''OPTICODDS'', ''SPORTRADAR'']
              else [])),
           (''unknown_value_policy'', JStr ''BLOCK_NOT_ZERO'')])))"


section \<open>Class\<close>

definition has_action :: "action \<Rightarrow> bool" where
  "has_action a \<longleftrightarrow> action_type a \<noteq> []"

definition opt_truthy :: "string option \<Rightarrow> bool" where
  "opt_truthy x \<longleftrightarrow> (case x of None \<Rightarrow> False | Some s \<Rightarrow> s \<noteq> [])"

definition base_class :: "string \<Rightarrow> action \<Rightarrow> venue \<Rightarrow> baseline \<Rightarrow> pnl \<Rightarrow> string" where
  "base_class target_class a v b p =
     (if target_class = ''RESEARCH_QUESTION'' then ''RESEARCH_QUESTION''
      else if \<not> has_action a then ''SIGNAL''
      else if execution_venue v \<noteq> ''NONE'' \<and> baseline_id b \<noteq> None
          \<and> basis p = ''PATHWISE_AFTER_COST'' \<and> opt_truthy (incremental_formula p)
        then ''EXECUTABLE_STRATEGY''
      else ''SIGNAL'')"

record classification =
  class_target :: string
  computed_class :: string
  blocked_from :: "string option"
  strategy_eligible :: bool
  lifecycle :: string

definition classification_of :: "string \<Rightarrow> string \<Rightarrow> string list \<Rightarrow> classification" where
  "classification_of target_class base blockers =
     (let (computed, from_class, life) =
        (if blockers \<noteq> [] then (''BLOCKED'', Some base, ''REGISTERED_BLOCKED'')
         else (base, None, if base = ''EXECUTABLE_STRATEGY'' then ''REGISTERED_ACTION_SPEC_COMPLETE''
           else ''REGISTERED_RESEARCH_ONLY''))
      in \<lparr>class_target = target_class, computed_class = computed, blocked_from = from_class,
        strategy_eligible = (computed = ''EXECUTABLE_STRATEGY''), lifecycle = life\<rparr>)"

definition classification_fields :: "classification \<Rightarrow> fields" where
  "classification_fields c = [
    (''target_class'', JStr (class_target c)),
    (''computed_class'', JStr (computed_class c)),
    (''blocked_from'', jopt (blocked_from c)),
    (''strategy_eligible'', JBool (strategy_eligible c)),
    (''lifecycle'', JStr (lifecycle c)),
    (''promotion_rule'', JStr ''Only a new immutable revision with all critical blockers closed, an untouched confirmation cohort, and a fee-after pathwise PnL receipt may become a deployment candidate.'')]"

definition claim_tier_for_observation :: "string \<Rightarrow> string" where
  "claim_tier_for_observation observation_status =
     (if starts_with observation_status ''DESCRIPTIVE'' then ''DESCRIPTIVE_ONLY_NO_PNL''
      else if contains ''NOT_ESTIMABLE'' observation_status then ''NOT_ESTIMABLE''
      else ''NONE'')"


section \<open>Fail-closed behaviour\<close>

lemma strategy_eligible_iff:
  "strategy_eligible (classification_of target base blockers)
     \<longleftrightarrow> blockers = [] \<and> base = ''EXECUTABLE_STRATEGY''"
  by (simp add: classification_of_def)

lemma classification_blocked:
  "blockers \<noteq> [] \<Longrightarrow> classification_of target base blockers = \<lparr>class_target = target,
     computed_class = ''BLOCKED'', blocked_from = Some base, strategy_eligible = False,
     lifecycle = ''REGISTERED_BLOCKED''\<rparr>"
  by (simp add: classification_of_def)

lemma base_class_strategy:
  "base_class target a v b p = ''EXECUTABLE_STRATEGY'' \<longleftrightarrow>
     target \<noteq> ''RESEARCH_QUESTION'' \<and> has_action a \<and> execution_venue v \<noteq> ''NONE''
     \<and> baseline_id b \<noteq> None \<and> basis p = ''PATHWISE_AFTER_COST'' \<and> opt_truthy (incremental_formula p)"
  by (simp add: base_class_def)

lemma cost_blockers_Inr:
  "cost_blockers costs = Inr bs \<longleftrightarrow>
     list_all2 (\<lambda>c b. map_of blocker_by_cost_type (cost_type c) = Some b)
       (filter (\<lambda>c. cost_status c = ''MISSING'') costs) bs"
proof (induction costs arbitrary: bs)
  case (Cons c costs)
  show ?case
    by (cases bs) (auto simp: Cons.IH rmap_eq_Inr split: option.splits)
qed auto

lemma cost_blockers_covers:
  assumes "cost_blockers costs = Inr bs" "c \<in> set costs" "cost_status c = ''MISSING''"
  shows "\<exists>b \<in> set bs. map_of blocker_by_cost_type (cost_type c) = Some b"
proof -
  let ?ms = "filter (\<lambda>c. cost_status c = ''MISSING'') costs"
  have "c \<in> set ?ms" using assms by simp
  then obtain i where "i < length ?ms" "?ms ! i = c" by (metis in_set_conv_nth)
  moreover have "list_all2 (\<lambda>c b. map_of blocker_by_cost_type (cost_type c) = Some b) ?ms bs"
    using assms by (simp add: cost_blockers_Inr)
  ultimately have "i < length bs" "map_of blocker_by_cost_type (cost_type c) = Some (bs ! i)"
    by (auto simp: list_all2_conv_all_nth)
  then show ?thesis by auto
qed

lemma cost_blockers_total:
  assumes "\<And>c. c \<in> set costs \<Longrightarrow> cost_status c = ''MISSING'' \<Longrightarrow> cost_type c \<in> set (map fst blocker_by_cost_type)"
  shows "\<exists>bs. cost_blockers costs = Inr bs \<and> set bs \<subseteq> snd ` set blocker_by_cost_type"
  using assms
proof (induction costs)
  case (Cons c costs)
  then obtain bs where bs: "cost_blockers costs = Inr bs" "set bs \<subseteq> snd ` set blocker_by_cost_type" by auto
  show ?case
  proof (cases "cost_status c = ''MISSING''")
    case True
    with Cons.prems obtain b where "map_of blocker_by_cost_type (cost_type c) = Some b"
      by (metis list.set_intros(1) map_of_eq_None_iff not_None_eq set_map)
    with True bs show ?thesis by (force dest: map_of_SomeD)
  qed (use bs in simp)
qed simp

lemma expected_blockers_set:
  "expected_blockers s d ext costs act = Inr bs \<longleftrightarrow>
     (\<exists>cs. (if act then cost_blockers costs = Inr cs else cs = []) \<and>
        bs = sorted_set ((if act then data_blockers d else signal_level_blockers (seed_data_profile s)) @ cs
       @ (if seed_action_profile s \<in> set CHILD_DEPENDENT_ACTION_PROFILES
          then [''CONFIRMED_CHILD_STRATEGIES_MISSING''] else [])
       @ (if act \<and> seed_external_dependency s = ''REQUIRED'' then [''INSTRUMENT_MAPPING_UNKNOWN''] else [])
       @ ext_blockers ext @ seed_extra_blockers s))"
  by (auto simp: expected_blockers_def rbind_eq_Inr)
end
