(* ===== verification/CardBuilder.thy ===== *)
theory CardBuilder
  imports Classify JsonText
begin

text \<open>
  The registry generator: \<^verbatim>\<open>_build_card\<close> assembles one experiment card from its seed,
  \<^verbatim>\<open>_summary_for_cards\<close> counts the cards, and \<^verbatim>\<open>build_registry\<close> puts 106 cards, the summary and the
  two levels of content hashes together.  SHA-256 is a parameter: the hexadecimal digest of a byte
  string.
\<close>


section \<open>Canonical JSON and hashes\<close>

definition canonical_json :: "json \<Rightarrow> string" where
  "canonical_json v = enc compact 0 (sort_json v)"

definition sha256_json :: "(string \<Rightarrow> string) \<Rightarrow> json \<Rightarrow> string" where
  "sha256_json sha v = sha (canonical_json v)"


section \<open>One card\<close>

definition identity_json :: "string \<Rightarrow> json res" where
  "identity_json atomic_id =
     (case atomic_id of
        [] \<Rightarrow> Inl IndexError
      | c # _ \<Rightarrow>
        (case map_of FAMILY_NAMES [c] of
           None \<Rightarrow> Inl KeyError
         | Some family_name \<Rightarrow> Inr (dict_of [
             (''experiment_id'', JStr atomic_id),
             (''registry_id'', JStr REGISTRY_ID),
             (''version'', JInt 1),
             (''family_code'', JStr [c]),
             (''family_name'', JStr family_name),
             (''lineage_status'', JStr ''BREADTH_ATOMIC_DIRECTION''),
             (''source_atomic_id'', JStr atomic_id)])))"

definition registered_signal_to_action :: "seed \<Rightarrow> action \<Rightarrow> string option" where
  "registered_signal_to_action s a =
     (if has_action a
      then Some (''IF ['' @ trigger (seed_signal s) @ ''] THEN apply ['' @ seed_action_profile s
        @ ''] exactly as specified below; ELSE preserve the registered baseline/no-trade branch.'')
      else None)"

definition card_action_json :: "seed \<Rightarrow> action \<Rightarrow> json" where
  "card_action_json s a = dict_of (action_fields a @ [
     (''profile_id'', JStr (seed_action_profile s)),
     (''current_execution_authority'', JStr ''NONE''),
     (''registered_signal_to_action'', jopt (registered_signal_to_action s a))])"

definition falsifiable_statement :: "seed \<Rightarrow> action \<Rightarrow> string" where
  "falsifiable_statement s a =
     (if has_action a
      then ''Under preregistered eligibility, if ['' @ trigger (seed_signal s) @ ''], the registered ''
        @ seed_action_profile s @ '' policy must improve its primary estimand against the registered baseline; otherwise the hypothesis fails or remains non-strategic.''
      else ''Under preregistered eligibility, test whether ['' @ trigger (seed_signal s)
        @ ''] changes the registered signal/outcome contrast versus its stated control. Failure of that contrast rejects the signal; no action or PnL claim follows from this card.'')"

definition hypothesis_json :: "seed \<Rightarrow> action \<Rightarrow> json" where
  "hypothesis_json s a = dict_of [
     (''mechanism'', JStr (seed_hypothesis s)),
     (''falsifiable_statement'', JStr (falsifiable_statement s a)),
     (''primary_estimand'', JStr (if has_action a
       then ''fee-after pathwise incremental NetPnL versus registered baseline''
       else ''registered signal/outcome contrast; no PnL claim'')),
     (''failure_conditions'', dict_of [
       (''signal'', JStr (falsifier (seed_signal s))),
       (''execution'', JStr (if has_action a
         then ''No pessimistically valid fills/acceptances after latency, queue, depth and reconciliation rules.''
         else ''No action is defined, so execution and PnL are not testable.'')),
       (''economics'', JStr (if has_action a
         then ''Out-of-sample incremental NetPnL after every registered cost is <= 0 or its lower confidence bound misses the frozen commercial threshold.''
         else ''NOT_APPLICABLE_UNTIL_ACTION_AND_PNL_EXIST'')),
       (''capacity'', JStr (if has_action a
         then ''Positive one-contract economics disappear at the first tested size step or peak-capital return is below threshold.''
         else ''NOT_APPLICABLE_UNTIL_ACTION_AND_PNL_EXIST''))])]"

text \<open>A card whose signal input is missing calculates nothing from its data profile.\<close>

definition effective_data :: "data \<Rightarrow> string list \<Rightarrow> data" where
  "effective_data d blockers =
     (if ''MISSING_SIGNAL_INPUT'' \<in> set blockers
      then d\<lparr>can_compute_now := (can_compute_now d)\<lparr>signal_event := ''NO''\<rparr>,
        currently_calculable := ''The base feed may exist, but this experiment's named signal input is absent; current signal incidence and effect are not calculable.''\<rparr>
      else d)"

definition data_json :: "string \<Rightarrow> data \<Rightarrow> json list \<Rightarrow> json" where
  "data_json profile d gaps = dict_of ([(''profile_id'', JStr profile)] @ data_fields d @ [
     (''critical_gaps'', JList gaps),
     (''study_dates'', study_dates profile (JStr (signal_event (can_compute_now d))))])"

definition design_json :: "string \<Rightarrow> seed \<Rightarrow> baseline \<Rightarrow> json" where
  "design_json atomic_id s b = dict_of [
     (''unit'', JStr ''ROOT_EVENT_X_MARKET_X_DECISION_OPPORTUNITY''),
     (''eligibility'', JStr ''past-only, gap-free, exact-release-bound card-specific gate''),
     (''clock_rule'', JStr (decision_clock (seed_signal s))),
     (''forecast_horizon'', JStr (forecast_horizon (seed_signal s))),
     (''comparison'', JStr (case policy b of
        Some p \<Rightarrow> p
      | None \<Rightarrow> ''signal/control contrast only; no executable comparison'')),
     (''overlap_and_precedence'', JStr (case map_of OVERLAP_PRECEDENCE_BY_EXPERIMENT atomic_id of
        Some rule \<Rightarrow> rule
      | None \<Rightarrow> ''No card-specific overlap exception registered; shared roots, orders, capital and PnL must be deduplicated at portfolio evaluation.'')),
     (''split_status'', JStr ''NOT_FROZEN_FOR_THIS_CARD''),
     (''minimum_evidence'', JStr ''independent days and roots, zeros retained, root/day clustered uncertainty, untouched validation and confirmation''),
     (''multiple_testing_family'', JStr (''DEEP03-'' @ take 1 atomic_id @ ''-BREADTH'')),
     (''stop_rule'', JStr ''Fail or remain blocked; never extend data because the observed result is unprofitable or insignificant.'')]"

definition observed_signal :: "string \<Rightarrow> json" where
  "observed_signal atomic_id =
     (case map_of OBSERVED_SIGNAL_EVIDENCE atomic_id of
        Some v \<Rightarrow> v
      | None \<Rightarrow> dict_of [
          (''status'', JStr ''NOT_MEASURED_IN_CURRENT_RELEASE''),
          (''values'', JNull),
          (''source'', JNull)])"

definition current_result_json :: "string \<Rightarrow> seed \<Rightarrow> json res" where
  "current_result_json atomic_id s =
     rbind (py_index (observed_signal atomic_id) ''status'') (\<lambda>status.
     case status of
       JStr st \<Rightarrow> Inr (dict_of [
         (''status'', JStr st),
         (''claim_tier'', JStr (claim_tier_for_observation st)),
         (''registry_design_status'', JStr (seed_result_status s)),
         (''registered_claim_ceiling'', JStr (seed_claim_tier s)),
         (''observed_signal'', observed_signal atomic_id),
         (''strategy_pnl_claim'', JStr ''NONE''),
         (''live_pnl_claim'', JStr ''NONE''),
         (''note'', JStr ''A descriptive signal result does not establish fillability, fee-after PnL, capacity, or live profitability.'')])
     | _ \<Rightarrow> Inl AttributeError)"

definition next_evidence_json :: "action \<Rightarrow> data \<Rightarrow> external \<Rightarrow> json" where
  "next_evidence_json a d ext = dict_of [
     (''to_measure_signal'', jstrs (acquisition_paths d)),
     (''to_measure_pnl'', jstrs (if has_action a
       then [''freeze this exact card and baseline before outcome reads'',
         ''stateful pessimistic shadow replay with exact fees and clocks'',
         ''own-order shadow then separately authorized one-contract micro-live'',
         ''untouched chronological confirmation with root/day accounting'']
       else [''define a deterministic action, executable baseline and PnL first''])),
     (''external_source_ids'', jstrs (provider_candidates ext))]"

text \<open>What \<^verbatim>\<open>_build_card\<close> derives from the seed before it writes the card.\<close>

record parts =
  part_action :: action
  part_venue :: venue
  part_baseline :: baseline
  part_pnl :: pnl
  part_costs :: "cost list"
  part_data :: data
  part_external :: external
  part_blockers :: "string list"

definition derive_parts :: "string \<Rightarrow> seed \<Rightarrow> parts res" where
  "derive_parts atomic_id s =
     (let profile = seed_action_profile s; dep = seed_external_dependency s in
      rbind (action_profile profile) (\<lambda>a.
      rbind (venue_for profile) (\<lambda>v.
      rbind (data_profile (seed_data_profile s)) (\<lambda>d.
      rbind (external_contract dep atomic_id) (\<lambda>ext.
      rbind (expected_blockers s d ext (costs_for profile dep) (has_action a)) (\<lambda>blockers.
      Inr \<lparr>part_action = a, part_venue = v, part_baseline = baseline_for profile,
        part_pnl = pnl_for profile, part_costs = costs_for profile dep,
        part_data = effective_data d blockers, part_external = ext, part_blockers = blockers\<rparr>))))))"

definition card_class :: "seed \<Rightarrow> parts \<Rightarrow> classification" where
  "card_class s p = classification_of (seed_target_class s)
     (base_class (seed_target_class s) (part_action p) (part_venue p) (part_baseline p) (part_pnl p))
     (part_blockers p)"

definition card_body :: "string \<Rightarrow> seed \<Rightarrow> parts \<Rightarrow> json \<Rightarrow> json \<Rightarrow> json list \<Rightarrow> fields" where
  "card_body atomic_id s p identity result gaps = [
     (''identity'', identity),
     (''classification'', dict_of (classification_fields (card_class s p))),
     (''hypothesis'', hypothesis_json s (part_action p)),
     (''signal'', dict_of (signal_fields (seed_signal s))),
     (''action'', card_action_json s (part_action p)),
     (''venue'', dict_of (venue_fields (part_venue p))),
     (''baseline'', dict_of (baseline_fields (part_baseline p))),
     (''pnl'', dict_of (pnl_fields (part_pnl p))),
     (''costs'', costs_json (part_costs p)),
     (''data'', data_json (seed_data_profile s) (part_data p) gaps),
     (''external_sports_data'', dict_of (external_fields (part_external p))),
     (''experiment_design'', design_json atomic_id s (part_baseline p)),
     (''current_result'', result),
     (''blockers'', jstrs (part_blockers p)),
     (''next_evidence'', next_evidence_json (part_action p) (part_data p) (part_external p))]"

definition build_card :: "(string \<Rightarrow> string) \<Rightarrow> string \<Rightarrow> seed \<Rightarrow> json res" where
  "build_card sha atomic_id s =
     rbind (derive_parts atomic_id s) (\<lambda>p.
     rbind (traverse (gap_contract atomic_id) (part_blockers p)) (\<lambda>gaps.
     rbind (identity_json atomic_id) (\<lambda>identity.
     rbind (current_result_json atomic_id s) (\<lambda>result.
     let body = card_body atomic_id s p identity result gaps
     in Inr (dict_of (body @ [(''definition_sha256'', JStr (sha256_json sha (dict_of body)))]))))))"


section \<open>Summary\<close>

text \<open>
  A counting dictionary.  The keys come from the cards, which the validator does not trust: any
  hashable value is a key, and equal values are the same key.
\<close>

type_synonym counts = "(json \<times> int) list"

fun bump :: "json \<Rightarrow> counts \<Rightarrow> counts" where
  "bump k [] = [(k, 1)]"
| "bump k ((k', n) # cs) = (if py_eq k k' then (k', n + 1) # cs else (k', n) # bump k cs)"

definition count_key :: "json \<Rightarrow> counts \<Rightarrow> counts res" where
  "count_key k cs = (if hashable k then Inr (bump k cs) else Inl TypeError)"

text \<open>\<^verbatim>\<open>total + v\<close> where \<^verbatim>\<open>total\<close> is a number and \<^verbatim>\<open>v\<close> any value; decimals are added exactly.\<close>

fun num_add :: "int \<times> nat \<Rightarrow> int \<times> nat \<Rightarrow> int \<times> nat" where
  "num_add (m, e) (m', e') = (m * 10 ^ e' + m' * 10 ^ e, e + e')"

definition add_num :: "int \<times> nat \<Rightarrow> json \<Rightarrow> (int \<times> nat) res" where
  "add_num acc v = (case num v of None \<Rightarrow> Inl TypeError | Some x \<Rightarrow> Inr (num_add acc x))"

record summary =
  total_cards :: nat
  summary_families :: counts
  summary_computed :: counts
  summary_targets :: counts
  eligible_now :: "int \<times> nat"

definition summary_step :: "json \<Rightarrow> counts \<times> counts \<times> counts \<Rightarrow> (counts \<times> counts \<times> counts) res" where
  "summary_step crd acc =
     (case acc of (families, computeds, targets) \<Rightarrow>
      rbind (py_index2 crd ''identity'' ''family_code'') (\<lambda>family.
      rbind (py_index2 crd ''classification'' ''computed_class'') (\<lambda>computed.
      rbind (py_index2 crd ''classification'' ''target_class'') (\<lambda>target.
      rbind (count_key family families) (\<lambda>families'.
      rbind (count_key computed computeds) (\<lambda>computeds'.
      rbind (count_key target targets) (\<lambda>targets'.
      Inr (families', computeds', targets'))))))))"

fun rfold :: "('a \<Rightarrow> 'b \<Rightarrow> 'b res) \<Rightarrow> 'a list \<Rightarrow> 'b \<Rightarrow> 'b res" where
  "rfold f [] acc = Inr acc"
| "rfold f (x # xs) acc = rbind (f x acc) (rfold f xs)"

definition summary_for_cards :: "json list \<Rightarrow> summary res" where
  "summary_for_cards cards =
     rbind (rfold summary_step cards ([], [], [])) (\<lambda>(families, computeds, targets).
     rbind (rfold (\<lambda>crd acc. rbind (py_index2 crd ''classification'' ''strategy_eligible'') (add_num acc))
       cards (0, 0)) (\<lambda>eligible.
     Inr \<lparr>total_cards = length cards, summary_families = families, summary_computed = computeds,
       summary_targets = targets, eligible_now = eligible\<rparr>))"

definition summary_warning :: string where
  "summary_warning = ''A registered action-shaped experiment is not evidence of profit and carries no permission to shadow, quote, trade or spend.''"

text \<open>The summary as the registry stores it; the keys the generator counts are strings.\<close>

definition counts_json :: "counts \<Rightarrow> json" where
  "counts_json cs = dict_of (map (\<lambda>(k, n). (py_str k, JInt n)) cs)"

fun num_json :: "int \<times> nat \<Rightarrow> json" where
  "num_json (m, e) = (if e = 0 then JInt m else JDec m e)"

definition summary_json :: "summary \<Rightarrow> json" where
  "summary_json s = dict_of [
     (''total_cards'', JInt (int (total_cards s))),
     (''family_counts'', counts_json (summary_families s)),
     (''computed_class_counts'', counts_json (summary_computed s)),
     (''target_class_counts'', counts_json (summary_targets s)),
     (''strategy_eligible_now'', num_json (eligible_now s)),
     (''warning'', JStr summary_warning)]"


section \<open>The registry\<close>

definition scope_json :: json where
  "scope_json = dict_of [
     (''objective'', JStr ''Convert the full Deep03 idea surface into falsifiable, action-linked, cost-complete PnL experiments.''),
     (''breadth_policy'', JStr ''REGISTER_ALL_106_BEFORE_DEPTH_RANKING''),
     (''strategy_definition'', JStr ''No concrete action, venue, executable baseline and after-cost PnL definition means it is not a strategy.''),
     (''deployment_authority'', JStr ''NONE''),
     (''order_authority'', JStr ''NONE''),
     (''action_authority'', JStr ''NONE''),
     (''external_data_policy'', JStr ''MISSING_EXTERNAL_DATA_BLOCK_NO_IMPUTE'')]"

definition classification_contract_json :: json where
  "classification_contract_json = dict_of [
     (''classes'', jstrs [''RESEARCH_QUESTION'', ''SIGNAL'', ''EXECUTABLE_STRATEGY'', ''BLOCKED'']),
     (''rule'', JStr ''Target class records intent; computed class records present readiness. A critical missing input yields BLOCKED and preserves blocked_from. Unknown PnL is never zero.'')]"

definition pnl_contract_json :: json where
  "pnl_contract_json = dict_of [
     (''primary'', JStr ''incremental pathwise NetPnL after all costs''),
     (''cash_authority'', JStr ''executable fills or separately authorized actual fills only''),
     (''diagnostic_only'', jstrs [''mid return'', ''markout'', ''microprice'', ''spread opportunity'']),
     (''denominator_policy'', JStr ''retain eligible no-trigger, no-fill and no-accept opportunities; report per opportunity, trigger, fill, contract, day and peak capital''),
     (''capacity_policy'', JStr ''no linear extrapolation beyond tested executable depth'')]"

definition registry_body :: "json list \<Rightarrow> summary \<Rightarrow> fields" where
  "registry_body cards smry = [
     (''schema_version'', JStr SCHEMA_VERSION),
     (''registry_id'', JStr REGISTRY_ID),
     (''generated_by'', JStr ''tools/experiment_registry.py''),
     (''scope'', scope_json),
     (''source_bindings'', SOURCE_BINDINGS),
     (''classification_contract'', classification_contract_json),
     (''pnl_contract'', pnl_contract_json),
     (''external_source_catalog'', EXTERNAL_SOURCE_CATALOG),
     (''summary'', summary_json smry),
     (''experiments'', JList cards)]"

definition seed_of_id :: "card_seeds \<Rightarrow> string \<Rightarrow> seed res" where
  "seed_of_id seeds atomic_id = (case map_of seeds atomic_id of None \<Rightarrow> Inl KeyError | Some s \<Rightarrow> Inr s)"

definition missing_ids :: "string list \<Rightarrow> string list \<Rightarrow> string list" where
  "missing_ids xs ys = sorted_set (filter (\<lambda>x. x \<notin> set ys) xs)"

definition build_registry_from :: "(string \<Rightarrow> string) \<Rightarrow> card_seeds \<Rightarrow> json res" where
  "build_registry_from sha seeds =
     (if set (map fst seeds) \<noteq> set ATOMIC_IDS
      then Inl (ValueError (''seed ID mismatch: missing='' @ py_repr (jstrs (missing_ids ATOMIC_IDS (map fst seeds)))
        @ '', extra='' @ py_repr (jstrs (missing_ids (map fst seeds) ATOMIC_IDS))))
      else rbind (traverse (\<lambda>i. rmap (\<lambda>s. (seed_hypothesis s, trigger (seed_signal s))) (seed_of_id seeds i)) ATOMIC_IDS)
        (\<lambda>pairs.
      if \<not> distinct pairs then Inl (ValueError ''duplicate hypothesis/signal seed pair'')
      else rbind (traverse (\<lambda>i. rbind (seed_of_id seeds i) (build_card sha i)) ATOMIC_IDS) (\<lambda>cards.
      rbind (summary_for_cards cards) (\<lambda>smry.
      let body = registry_body cards smry
      in Inr (dict_of (body @ [(''registry_sha256'', JStr (sha256_json sha (dict_of body)))]))))))"

definition build_registry :: "(string \<Rightarrow> string) \<Rightarrow> json res" where
  "build_registry sha = rbind load_card_seeds (build_registry_from sha)"

end
