(* ===== verification/CardFacts.thy ===== *)
theory CardFacts
  imports CardBuilder
begin

text \<open>
  What holds of every card the generator builds from an admissible seed: the tables are complete,
  the card is built without an exception, its blockers are known and each has a remediation, and no
  card is eligible as a strategy.
\<close>


section \<open>The tables are complete\<close>

text \<open>
  A profile with an action names every part of a strategy (mapping, side, style, price, quantity,
  timing, exit, kill conditions, venue, baseline, after-cost formula); a profile without one names
  no venue and no PnL.
\<close>

definition action_contract_ok :: "string \<Rightarrow> bool" where
  "action_contract_ok profile =
     (case (action_profile profile, venue_for profile) of
        (Inr a, Inr v) \<Rightarrow>
          (let b = baseline_for profile; p = pnl_for profile in
           execution_venue v \<in> set EXECUTION_VENUES
         \<and> (if has_action a
            then profile \<notin> set [''NO_ACTION'', ''MODEL_COMPONENT'', ''CONTROL_ONLY'']
              \<and> list_all opt_truthy [signal_to_action_mapping a, instrument_side a, order_style a, price_rule a,
                  quantity_rule a, timing_and_cancel a, exit_or_settlement a]
              \<and> kill_conditions a \<noteq> []
              \<and> execution_venue v \<noteq> ''NONE''
              \<and> baseline_id b \<noteq> None \<and> baseline_type b \<in> set BASELINE_TYPES
              \<and> opt_truthy (policy b) \<and> opt_truthy (comparability b)
              \<and> basis p = ''PATHWISE_AFTER_COST''
              \<and> list_all opt_truthy [formula p, incremental_formula p, markout_rule p, zero_fill_treatment p, capacity_rule p]
              \<and> denominators p \<noteq> None \<and> denominators p \<noteq> Some []
            else profile \<in> set [''NO_ACTION'', ''MODEL_COMPONENT'', ''CONTROL_ONLY'']
              \<and> execution_venue v = ''NONE'' \<and> pnl_status p = ''NOT_DEFINED_NOT_A_STRATEGY''))
      | _ \<Rightarrow> False)"

definition cost_valid :: "cost \<Rightarrow> bool" where
  "cost_valid c \<longleftrightarrow> cost_type c \<in> set COST_TYPES \<and> cost_role c \<in> set COST_ROLES
     \<and> cost_status c \<in> set COST_STATUSES \<and> cost_rule c \<noteq> []
     \<and> (cost_status c = ''MISSING'' \<longrightarrow> cost_type c \<in> set (map fst blocker_by_cost_type))"

lemma action_contracts_ok: "list_all action_contract_ok SEED_ACTION_PROFILES"
  by code_simp

lemma action_contract_okD:
  "profile \<in> set SEED_ACTION_PROFILES \<Longrightarrow> action_contract_ok profile"
  using action_contracts_ok by (simp add: list_all_iff)

lemma common_costs_valid: "list_all cost_valid COMMON_COST_COMPONENTS"
  by code_simp

lemma costs_valid: "c \<in> set (costs_for profile dep) \<Longrightarrow> cost_valid c"
proof -
  have "list_all cost_valid (costs_for profile dep)"
    unfolding costs_for_def
    by (simp add: common_costs_valid)
       (simp add: cost_valid_def COST_TYPES_def COST_ROLES_def COST_STATUSES_def blocker_by_cost_type_def)
  then show "c \<in> set (costs_for profile dep) \<Longrightarrow> cost_valid c" by (simp add: list_all_iff)
qed

lemma costs_for_has_action:
  "profile \<notin> set [''NO_ACTION'', ''MODEL_COMPONENT'', ''CONTROL_ONLY''] \<Longrightarrow>
   set COMMON_COST_COMPONENTS \<subseteq> set (costs_for profile dep)"
  "profile \<in> set [''NO_ACTION'', ''MODEL_COMPONENT'', ''CONTROL_ONLY''] \<Longrightarrow> costs_for profile dep = []"
  by (simp_all add: costs_for_def)

lemma data_profiles_ok:
  "list_all (\<lambda>p. case data_profile p of Inr d \<Rightarrow> list_all (\<lambda>b. b \<in> set CRITICAL_BLOCKERS) (data_blockers d)
     | Inl _ \<Rightarrow> False) SEED_DATA_PROFILES"
  by code_simp

lemma data_profile_ok:
  assumes "profile \<in> set SEED_DATA_PROFILES"
  obtains d where "data_profile profile = Inr d" "set (data_blockers d) \<subseteq> set CRITICAL_BLOCKERS"
proof -
  have "case data_profile profile of Inr d \<Rightarrow> list_all (\<lambda>b. b \<in> set CRITICAL_BLOCKERS) (data_blockers d)
     | Inl _ \<Rightarrow> False"
    using data_profiles_ok [unfolded list_all_iff, rule_format, OF assms] by (simp only: list_all_iff)
  then show thesis using that by (cases "data_profile profile") (auto simp: list_all_iff)
qed

lemma table_blockers_known:
  "list_all (\<lambda>b. b \<in> set CRITICAL_BLOCKERS) (concat (map snd signal_level_table))"
  "list_all (\<lambda>b. b \<in> set CRITICAL_BLOCKERS) (map snd blocker_by_cost_type)"
  "list_all (\<lambda>b. b \<in> set CRITICAL_BLOCKERS) KNOWN_BLOCKERS"
  "list_all (\<lambda>b. b \<in> set (map fst BLOCKER_REMEDIATION_CATALOG)) CRITICAL_BLOCKERS"
  by code_simp+

lemma signal_level_blockers_known: "set (signal_level_blockers profile) \<subseteq> set CRITICAL_BLOCKERS"
proof (cases "map_of signal_level_table profile")
  case (Some bs)
  then have "bs \<in> set (map snd signal_level_table)" by (force dest: map_of_SomeD)
  with Some show ?thesis
    using table_blockers_known(1) by (auto simp: signal_level_blockers_def list_all_iff)
qed (simp add: signal_level_blockers_def)

lemma external_contract_ok:
  assumes "dep \<in> set SEED_EXTERNAL_DEPENDENCIES"
  obtains ext where "external_contract dep i = Inr ext" "set (ext_blockers ext) \<subseteq> set CRITICAL_BLOCKERS"
    "ext_dependency ext = dep"
proof -
  have "\<exists>ext. external_contract dep i = Inr ext \<and> set (ext_blockers ext) \<subseteq> set CRITICAL_BLOCKERS
    \<and> ext_dependency ext = dep"
    using assms
    by (auto simp: SEED_EXTERNAL_DEPENDENCIES_def external_contract_def CRITICAL_BLOCKERS_def)
  then show thesis using that by blast
qed

lemma gap_contract_total:
  "b \<in> set CRITICAL_BLOCKERS \<Longrightarrow> \<exists>g. gap_contract i b = Inr g"
proof -
  assume "b \<in> set CRITICAL_BLOCKERS"
  then have "b \<in> set (map fst BLOCKER_REMEDIATION_CATALOG)"
    using table_blockers_known(4) by (simp add: list_all_iff)
  then obtain x where "map_of BLOCKER_REMEDIATION_CATALOG b = Some x"
    by (metis map_of_eq_None_iff not_None_eq set_map)
  then show ?thesis by (cases x) (simp add: gap_contract_def split_def Let_def)
qed


section \<open>The generator on an admissible seed\<close>

lemma derive_parts_Inr:
  "derive_parts i s = Inr p \<longleftrightarrow>
     (\<exists>d. action_profile (seed_action_profile s) = Inr (part_action p)
      \<and> venue_for (seed_action_profile s) = Inr (part_venue p)
      \<and> data_profile (seed_data_profile s) = Inr d
      \<and> external_contract (seed_external_dependency s) i = Inr (part_external p)
      \<and> expected_blockers s d (part_external p) (part_costs p) (has_action (part_action p)) = Inr (part_blockers p)
      \<and> part_baseline p = baseline_for (seed_action_profile s)
      \<and> part_pnl p = pnl_for (seed_action_profile s)
      \<and> part_costs p = costs_for (seed_action_profile s) (seed_external_dependency s)
      \<and> part_data p = effective_data d (part_blockers p))"
  by (cases p) (auto simp: derive_parts_def Let_def rbind_eq_Inr)

lemma costs_blockers_known:
  "\<exists>bs. cost_blockers (costs_for profile dep) = Inr bs \<and> set bs \<subseteq> set CRITICAL_BLOCKERS"
proof -
  have "\<exists>bs. cost_blockers (costs_for profile dep) = Inr bs \<and> set bs \<subseteq> snd ` set blocker_by_cost_type"
    by (rule cost_blockers_total) (use costs_valid in \<open>simp add: cost_valid_def\<close>)
  then show ?thesis using table_blockers_known(2) by (fastforce simp: list_all_iff)
qed

lemma derive_parts_total:
  assumes "seed_admissible s"
  obtains p where "derive_parts i s = Inr p" "set (part_blockers p) \<subseteq> set CRITICAL_BLOCKERS"
proof -
  let ?act = "seed_action_profile s" and ?dep = "seed_external_dependency s"
  have adm: "?act \<in> set SEED_ACTION_PROFILES" "seed_data_profile s \<in> set SEED_DATA_PROFILES"
      "?dep \<in> set SEED_EXTERNAL_DEPENDENCIES" "set (seed_extra_blockers s) \<subseteq> set KNOWN_BLOCKERS"
    using assms by (auto simp: seed_admissible_def list_all_iff)
  obtain a v where av: "action_profile ?act = Inr a" "venue_for ?act = Inr v"
    using action_contract_okD [OF adm(1)] by (auto simp: action_contract_ok_def split: sum.splits)
  obtain d where d: "data_profile (seed_data_profile s) = Inr d" "set (data_blockers d) \<subseteq> set CRITICAL_BLOCKERS"
    using data_profile_ok [OF adm(2)] .
  obtain ext where ext: "external_contract ?dep i = Inr ext" "set (ext_blockers ext) \<subseteq> set CRITICAL_BLOCKERS"
    using external_contract_ok [OF adm(3)] by blast
  obtain cs where cs: "cost_blockers (costs_for ?act ?dep) = Inr cs" "set cs \<subseteq> set CRITICAL_BLOCKERS"
    using costs_blockers_known by blast
  have extra: "set (seed_extra_blockers s) \<subseteq> set CRITICAL_BLOCKERS"
    using adm(4) table_blockers_known(3) by (auto simp: list_all_iff)
  have fixed: "{''CONFIRMED_CHILD_STRATEGIES_MISSING'', ''INSTRUMENT_MAPPING_UNKNOWN''} \<subseteq> set CRITICAL_BLOCKERS"
    by (simp add: CRITICAL_BLOCKERS_def)
  obtain bs where bs: "expected_blockers s d ext (costs_for ?act ?dep) (has_action a) = Inr bs"
    using cs by (cases "has_action a") (auto simp: expected_blockers_def)
  then have "set bs \<subseteq> set CRITICAL_BLOCKERS"
    using d ext cs extra fixed signal_level_blockers_known [of "seed_data_profile s"]
    by (auto simp: expected_blockers_set split: if_splits)
  then show thesis
    using that av d ext bs by (simp add: derive_parts_def Let_def)
qed

lemma build_card_Inr:
  "build_card sha i s = Inr c \<longleftrightarrow>
     (\<exists>p gaps identity result. derive_parts i s = Inr p
      \<and> traverse (gap_contract i) (part_blockers p) = Inr gaps
      \<and> identity_json i = Inr identity \<and> current_result_json i s = Inr result
      \<and> c = dict_of (card_body i s p identity result gaps @
          [(''definition_sha256'', JStr (sha256_json sha (dict_of (card_body i s p identity result gaps))))]))"
  by (auto simp: build_card_def rbind_eq_Inr Let_def)

section \<open>Values that survive sorting and reading back\<close>

text \<open>A tidy value has no repeated key and its dictionaries are sorted by key, at every depth.\<close>

definition tidy :: "json \<Rightarrow> bool" where
  "tidy v \<longleftrightarrow> wf_json v \<and> sort_json v = v"

named_theorems tidy_intros \<open>how tidy values are built\<close>

lemma tidy_atoms [simp, tidy_intros]:
  "tidy JNull" "tidy (JBool b)" "tidy (JInt n)" "tidy (JStr s)" "tidy (jstrs ss)" "tidy (jopt x)"
  by (simp_all add: tidy_def)

lemma tidy_JList [tidy_intros]: "list_all tidy xs \<Longrightarrow> tidy (JList xs)"
  by (auto simp: tidy_def list_all_iff wf_list_iff intro: map_idI)

lemma tidy_dict_of [tidy_intros]:
  "keys_distinct kvs \<Longrightarrow> list_all (\<lambda>(k, v). tidy v) kvs \<Longrightarrow> tidy (dict_of kvs)"
  by (auto simp: tidy_def list_all_iff wf_dict_of wf_fields_iff intro!: sort_json_dict_of)

lemma tidy_contracts [simp]:
  "tidy (dict_of (signal_fields g))" "tidy (dict_of (venue_fields v))" "tidy (dict_of (baseline_fields b))"
  "tidy (dict_of (classification_fields c))" "tidy (dict_of (external_fields x))" "tidy (cost_json k)"
  "tidy (can_compute_json m)"
  by (simp_all add: tidy_dict_of signal_fields_def venue_fields_def baseline_fields_def
      classification_fields_def external_fields_def cost_json_def can_compute_json_def)

lemma tidy_pnl [simp]: "tidy (dict_of (pnl_fields p))"
  by (rule tidy_dict_of) (auto simp: pnl_fields_def opt_field_def split: option.splits)

lemma tidy_costs [simp]: "tidy (costs_json cs)"
  by (auto simp: costs_json_def list_all_iff intro: tidy_JList)

lemma tidy_action [simp]: "tidy (card_action_json s a)"
  by (simp add: card_action_json_def action_fields_def tidy_dict_of)

lemma tidy_hypothesis [simp]: "tidy (hypothesis_json s a)"
  by (simp add: hypothesis_json_def tidy_dict_of)

lemma tidy_study_dates [simp]: "tidy x \<Longrightarrow> tidy (study_dates profile x)"
  by (simp add: study_dates_def tidy_dict_of)

lemma tidy_data [simp]: "list_all tidy gaps \<Longrightarrow> tidy (data_json profile d gaps)"
  by (simp add: data_json_def data_fields_def tidy_dict_of tidy_JList)

lemma tidy_design [simp]: "tidy (design_json i s b)"
  by (simp add: design_json_def tidy_dict_of)

lemma tidy_next_evidence [simp]: "tidy (next_evidence_json a d x)"
  by (simp add: next_evidence_json_def tidy_dict_of)

lemma tidy_gap: "gap_contract i b = Inr g \<Longrightarrow> tidy g"
  by (auto simp: gap_contract_def tidy_dict_of Let_def split: option.splits prod.splits)

lemma tidy_gaps: "traverse (gap_contract i) bs = Inr gaps \<Longrightarrow> list_all tidy gaps"
  by (auto simp: traverse_eq_Inr list_all2_conv_all_nth list_all_length dest: tidy_gap)

lemma tidy_identity: "identity_json i = Inr v \<Longrightarrow> tidy v"
  by (auto simp: identity_json_def tidy_dict_of split: list.splits option.splits)

lemma observed_ok:
  "list_all (\<lambda>(_, v). wf_json v \<and> sort_json v = v
     \<and> (case py_index v ''status'' of Inr (JStr _) \<Rightarrow> True | _ \<Rightarrow> False)) OBSERVED_SIGNAL_EVIDENCE"
  by code_simp

lemma observed_signal_ok: "tidy (observed_signal i)" "\<exists>st. py_index (observed_signal i) ''status'' = Inr (JStr st)"
proof -
  have "tidy (observed_signal i) \<and> (\<exists>st. py_index (observed_signal i) ''status'' = Inr (JStr st))"
  proof (cases "map_of OBSERVED_SIGNAL_EVIDENCE i")
    case None
    then show ?thesis by (simp add: observed_signal_def tidy_dict_of py_index_dict_of)
  next
    case (Some v)
    then have "(i, v) \<in> set OBSERVED_SIGNAL_EVIDENCE" by (rule map_of_SomeD)
    then have "wf_json v \<and> sort_json v = v
       \<and> (case py_index v ''status'' of Inr (JStr _) \<Rightarrow> True | _ \<Rightarrow> False)"
      using observed_ok [unfolded list_all_iff] by fast
    then show ?thesis
      by (auto simp: Some observed_signal_def tidy_def split: sum.splits json.splits)
  qed
  then show "tidy (observed_signal i)" "\<exists>st. py_index (observed_signal i) ''status'' = Inr (JStr st)" by auto
qed

lemma tidy_current_result: "current_result_json i s = Inr v \<Longrightarrow> tidy v"
  using observed_signal_ok(2) [of i]
  by (auto simp: current_result_json_def tidy_dict_of observed_signal_ok(1))

lemma card_body_keys: "map fst (card_body i s p identity result gaps) =
  [''identity'', ''classification'', ''hypothesis'', ''signal'', ''action'', ''venue'', ''baseline'', ''pnl'',
   ''costs'', ''data'', ''external_sports_data'', ''experiment_design'', ''current_result'', ''blockers'', ''next_evidence'']"
  by (simp add: card_body_def)

lemma tidy_build_card: "build_card sha i s = Inr c \<Longrightarrow> tidy c"
proof -
  assume "build_card sha i s = Inr c"
  then obtain p gaps identity result where
    g: "traverse (gap_contract i) (part_blockers p) = Inr gaps" and
    d: "identity_json i = Inr identity" and r: "current_result_json i s = Inr result" and
    c: "c = dict_of (card_body i s p identity result gaps @
          [(''definition_sha256'', JStr (sha256_json sha (dict_of (card_body i s p identity result gaps))))])"
    by (auto simp: build_card_Inr)
  show ?thesis unfolding c
    by (rule tidy_dict_of)
       (simp_all add: card_body_def tidy_identity [OF d] tidy_current_result [OF r] tidy_gaps [OF g])
qed

lemma build_card_total:
  assumes "seed_admissible s" and "take 1 i \<in> set (map fst FAMILY_NAMES)" and "i \<noteq> []"
  shows "\<exists>c. build_card sha i s = Inr c"
proof -
  obtain p where p: "derive_parts i s = Inr p" "set (part_blockers p) \<subseteq> set CRITICAL_BLOCKERS"
    using derive_parts_total [OF assms(1)] .
  have "\<exists>gaps. traverse (gap_contract i) (part_blockers p) = Inr gaps"
    using traverse_all_Inr [of "part_blockers p" "gap_contract i" "\<lambda>b. projr (gap_contract i b)"]
      gap_contract_total p(2) by (metis in_mono sum.sel(2))
  moreover have "\<exists>v. identity_json i = Inr v"
    using assms(2,3) by (cases i) (auto simp: identity_json_def split: option.splits dest: weak_map_of_SomeI)
  moreover have "\<exists>v. current_result_json i s = Inr v"
    using observed_signal_ok(2) [of i] by (auto simp: current_result_json_def)
  ultimately show ?thesis using p by (auto simp: build_card_Inr)
qed


section \<open>No card is eligible\<close>

lemma action_of_parts:
  assumes "seed_admissible s" "derive_parts i s = Inr p"
  shows "has_action (part_action p) \<longleftrightarrow> seed_action_profile s \<notin> set [''NO_ACTION'', ''MODEL_COMPONENT'', ''CONTROL_ONLY'']"
  using action_contract_okD [of "seed_action_profile s"] assms
  by (auto simp: seed_admissible_def derive_parts_Inr action_contract_ok_def Let_def split: if_splits)

text \<open>An action card always carries the blocker of its unknown exchange fees.\<close>

lemma action_blocked_by_fees:
  assumes "seed_admissible s" "derive_parts i s = Inr p" "has_action (part_action p)"
  shows "''FEE_UNKNOWN'' \<in> set (part_blockers p)"
proof -
  let ?costs = "costs_for (seed_action_profile s) (seed_external_dependency s)"
  obtain d where d: "expected_blockers s d (part_external p) ?costs True = Inr (part_blockers p)"
    using assms by (auto simp: derive_parts_Inr)
  then obtain cs where cs: "cost_blockers ?costs = Inr cs" "set cs \<subseteq> set (part_blockers p)"
    by (fastforce simp: expected_blockers_set)
  have "hd COMMON_COST_COMPONENTS \<in> set ?costs"
    using costs_for_has_action(1) action_of_parts [OF assms(1,2)] assms(3)
    by (auto simp: COMMON_COST_COMPONENTS_def)
  then obtain b where "b \<in> set cs" "map_of blocker_by_cost_type (cost_type (hd COMMON_COST_COMPONENTS)) = Some b"
    using cost_blockers_covers [OF cs(1), of "hd COMMON_COST_COMPONENTS"]
    by (auto simp: COMMON_COST_COMPONENTS_def)
  then show ?thesis using cs by (auto simp: COMMON_COST_COMPONENTS_def blocker_by_cost_type_def)
qed

lemma card_never_eligible:
  assumes "seed_admissible s" "derive_parts i s = Inr p"
  shows "\<not> strategy_eligible (card_class s p)"
  using action_blocked_by_fees [OF assms]
  by (auto simp: card_class_def strategy_eligible_iff base_class_strategy)

end
