(* ===== verification/Validator.thy ===== *)
theory Validator
  imports CardFacts
begin

text \<open>
  \<^verbatim>\<open>validate_registry\<close>: the checks a registry artifact must pass, on any JSON value.  The value is
  not trusted, so every access is Python's, with the exceptions Python raises; the result is the
  list of error messages, or the exception that ends the call.

  The repository is a parameter: its root, the regular files below the file system root (by path,
  without symbolic links), SHA-256, and the text of a library exception in a message.
\<close>


section \<open>The environment\<close>

text \<open>
  A regular file: \<open>Text s\<close> holds the UTF-8 encoding of a Python string \<open>s\<close> (which the model
  represents by exactly those bytes), \<open>Binary b\<close> bytes that are not UTF-8, and an \<open>Unreadable\<close> file
  raises when it is opened.
\<close>

datatype file_entry = Text string | Binary string | Unreadable

record env =
  sha256 :: "string \<Rightarrow> string"
  root :: "string list"
  files :: "string list \<Rightarrow> file_entry option"
  exc_text :: "py_exc \<Rightarrow> string"

text \<open>
  \<^verbatim>\<open>(ROOT / p).resolve()\<close>.  An absolute path replaces the root; empty components and \<^verbatim>\<open>.\<close> vanish,
  \<^verbatim>\<open>..\<close> drops the component before it.  A null byte raises.
\<close>

fun split_slash :: "string \<Rightarrow> string list" where
  "split_slash [] = [[]]"
| "split_slash (c # cs) =
     (if c = CHR ''/'' then [] # split_slash cs
      else case split_slash cs of [] \<Rightarrow> [[c]] | p # ps \<Rightarrow> (c # p) # ps)"

fun resolve_parts :: "string list \<Rightarrow> string list \<Rightarrow> string list" where
  "resolve_parts acc [] = acc"
| "resolve_parts acc (p # ps) =
     (if p = [] \<or> p = ''.'' then resolve_parts acc ps
      else if p = ''..'' then resolve_parts (butlast acc) ps
      else resolve_parts (acc @ [p]) ps)"

definition resolve :: "env \<Rightarrow> string \<Rightarrow> string list res" where
  "resolve E p =
     (if CHR 0x00 \<in> set p then Inl (ValueError ''embedded null byte'')
      else Inr (resolve_parts (if starts_with p ''/'' then [] else root E) (split_slash p)))"

definition relative_to_root :: "env \<Rightarrow> string list \<Rightarrow> bool" where
  "relative_to_root E path \<longleftrightarrow> take (length (root E)) path = root E"

definition is_file :: "env \<Rightarrow> string list \<Rightarrow> bool" where
  "is_file E path \<longleftrightarrow> files E path \<noteq> None"

definition read_bytes :: "env \<Rightarrow> string list \<Rightarrow> string res" where
  "read_bytes E path = (case files E path of
     Some (Text s) \<Rightarrow> Inr s
   | Some (Binary b) \<Rightarrow> Inr b
   | _ \<Rightarrow> Inl OSError)"

definition file_sha256 :: "env \<Rightarrow> string list \<Rightarrow> string res" where
  "file_sha256 E path = rmap (sha256 E) (read_bytes E path)"

text \<open>\<^verbatim>\<open>read_text(encoding="utf-8")\<close>.\<close>

definition read_text :: "env \<Rightarrow> string list \<Rightarrow> string res" where
  "read_text E path = (case files E path of
     Some (Text s) \<Rightarrow> Inr s
   | Some (Binary b) \<Rightarrow> Inl UnicodeDecodeError
   | _ \<Rightarrow> Inl OSError)"


section \<open>Expectations\<close>

type_synonym errors = "string list res"

definition expect :: "bool res \<Rightarrow> string \<Rightarrow> errors" where
  "expect condition message = rmap (\<lambda>b. if b then [] else [message]) condition"

abbreviation expect_that :: "bool \<Rightarrow> string \<Rightarrow> errors" where
  "expect_that b message \<equiv> expect (Inr b) message"

text \<open>\<^verbatim>\<open>v.get(k)\<close>, \<^verbatim>\<open>v.get(k) == x\<close>, \<^verbatim>\<open>v[k] == x\<close> and their truth values.\<close>

abbreviation get :: "json \<Rightarrow> string \<Rightarrow> json res" where
  "get v k \<equiv> py_get v k JNull"

definition get_is :: "json \<Rightarrow> string \<Rightarrow> json \<Rightarrow> bool res" where
  "get_is v k x = rmap (\<lambda>w. py_eq w x) (get v k)"

definition index_is :: "json \<Rightarrow> string \<Rightarrow> json \<Rightarrow> bool res" where
  "index_is v k x = rmap (\<lambda>w. py_eq w x) (py_index v k)"

definition get_true :: "json \<Rightarrow> string \<Rightarrow> bool res" where
  "get_true v k = rmap truthy (get v k)"

definition index_true :: "json \<Rightarrow> string \<Rightarrow> bool res" where
  "index_true v k = rmap truthy (py_index v k)"

abbreviation rnot :: "bool res \<Rightarrow> bool res" where
  "rnot b \<equiv> rmap Not b"

abbreviation rands :: "bool res list \<Rightarrow> bool res" where
  "rands bs \<equiv> rall (\<lambda>b. b) bs"


section \<open>Scope and source bindings\<close>

definition check_scope :: "json \<Rightarrow> errors" where
  "check_scope registry =
     rbind (py_get registry ''scope'' (JObj [])) (\<lambda>scope.
     collect (expect_that (is_dict scope) ''scope must be an object'' #
       (if is_dict scope then
          map (\<lambda>field. expect (get_is scope field (JStr ''NONE''))
              (''scope.'' @ field @ '' must remain NONE''))
            [''deployment_authority'', ''order_authority'', ''action_authority''] @
          [expect (get_is scope ''breadth_policy'' (JStr ''REGISTER_ALL_106_BEFORE_DEPTH_RANKING''))
             ''scope breadth policy drift'',
           expect (get_is scope ''external_data_policy'' (JStr ''MISSING_EXTERNAL_DATA_BLOCK_NO_IMPUTE''))
             ''scope external-data fail-closed policy drift'']
        else [])))"

definition check_binding :: "env \<Rightarrow> json \<Rightarrow> errors" where
  "check_binding E binding =
     (if \<not> is_dict binding then Inr [''source binding must be an object'']
      else rbind (py_get binding ''role'' (JStr ''<missing>'')) (\<lambda>role.
      rbind (get binding ''path'') (\<lambda>relative_path.
      case relative_path of
        JStr p \<Rightarrow>
          rbind (resolve E p) (\<lambda>resolved.
          if \<not> relative_to_root E resolved then Inr [py_str role @ '': source path escapes repository root'']
          else rbind (get_true binding ''local_required'') (\<lambda>local_required.
          if local_required \<and> \<not> is_file E resolved then Inr [py_str role @ '': required source file missing'']
          else if is_file E resolved then
            rbind (file_sha256 E resolved) (\<lambda>digest.
            expect (get_is binding ''sha256'' (JStr digest)) (py_str role @ '': source file SHA mismatch''))
          else Inr []))
      | _ \<Rightarrow> Inr [py_str role @ '': source path missing''])))"

text \<open>\<^verbatim>\<open>[b for b in bs if p(b)]\<close>.\<close>

fun rfilter :: "('a \<Rightarrow> bool res) \<Rightarrow> 'a list \<Rightarrow> 'a list res" where
  "rfilter p [] = Inr []"
| "rfilter p (x # xs) = rbind (p x) (\<lambda>keep. rmap (\<lambda>ys. if keep then x # ys else ys) (rfilter p xs))"

definition ORIGIN_DOCUMENT_SHA :: string where
  "ORIGIN_DOCUMENT_SHA = ''ded84065dec179ce713377b53607b04adad342ae77e5c3c2b894247bc07b5d36''"

definition check_authority :: "env \<Rightarrow> json \<Rightarrow> errors" where
  "check_authority E binding =
     rbind (py_index binding ''path'') (\<lambda>path.
     case path of
       JStr p \<Rightarrow>
         rbind (resolve E p) (\<lambda>authority_path.
         if \<not> is_file E authority_path then Inr []
         else (case rbind (read_text E authority_path) loads of
           Inl exc \<Rightarrow>
             (if exc \<in> {OSError, JSONDecodeError}
              then Inr [''atomic direction authority unreadable: '' @ exc_text E exc]
              else Inl exc)
         | Inr authority \<Rightarrow> collect [
             expect (rbind (py_get authority ''atomic_ids'' (JList [])) (\<lambda>ids.
               rmap (\<lambda>xs. xs = map JStr ATOMIC_IDS) (py_iter ids)))
               ''atomic direction authority IDs differ from generator'',
             expect (get_is authority ''source_document_sha256'' (JStr ORIGIN_DOCUMENT_SHA))
               ''atomic authority origin document SHA mismatch'']))
     | _ \<Rightarrow> Inl TypeError)"

definition check_bindings :: "env \<Rightarrow> json \<Rightarrow> errors" where
  "check_bindings E registry =
     rbind (get registry ''source_bindings'') (\<lambda>source_bindings.
     case source_bindings of
       JList bindings \<Rightarrow> collect [
         expect_that (py_eq source_bindings SOURCE_BINDINGS)
           ''source bindings differ from the five canonical evidence roles'',
         collect (map (check_binding E) bindings),
         rbind (rfilter (\<lambda>b. get_is b ''role'' (JStr ''ATOMIC_DIRECTION_AUTHORITY'')) bindings) (\<lambda>authorities.
         collect [
           expect_that (length authorities = 1) ''exactly one atomic direction authority binding is required'',
           (case authorities of [b] \<Rightarrow> check_authority E b | _ \<Rightarrow> Inr [])])]
     | _ \<Rightarrow> Inr [''source_bindings must be a list''])"

definition check_header :: "env \<Rightarrow> json \<Rightarrow> errors" where
  "check_header E registry = collect [
     expect (get_is registry ''schema_version'' (JStr SCHEMA_VERSION)) ''bad schema_version'',
     expect (get_is registry ''registry_id'' (JStr REGISTRY_ID)) ''bad registry_id'',
     check_scope registry,
     check_bindings E registry,
     expect (get_is registry ''external_source_catalog'' EXTERNAL_SOURCE_CATALOG) ''external source catalog drift'']"

end
