(* ===== verification/CardChecks.thy ===== *)
theory CardChecks
  imports Validator
begin

text \<open>
  The body of the loop of \<^verbatim>\<open>validate_registry\<close> over the experiment cards.  Each definition is a run of
  consecutive statements of the body; \<open>check_card\<close> puts them together with the early \<^verbatim>\<open>continue\<close>s.
\<close>


section \<open>Identity, hypothesis and contracts\<close>

definition required_sections :: "string list" where
  "required_sections = [''classification'', ''hypothesis'', ''signal'', ''action'', ''venue'', ''baseline'', ''pnl'',
     ''costs'', ''data'', ''external_sports_data'', ''experiment_design'', ''current_result'', ''blockers'',
     ''next_evidence'']"

text \<open>The sections of a card the loop names.\<close>

record view =
  v_card :: json
  v_identity :: json
  v_action :: json
  v_venue :: json
  v_baseline :: json
  v_pnl :: json
  v_classification :: json
  v_costs :: json
  v_data :: json
  v_ext :: json
  v_blockers :: json

definition check_types :: "string \<Rightarrow> view \<Rightarrow> errors" where
  "check_types i c = collect [
     expect_that (is_dict (v_action c)) (i @ '': action must be an object''),
     expect_that (is_dict (v_venue c)) (i @ '': venue must be an object''),
     expect_that (is_dict (v_baseline c)) (i @ '': baseline must be an object''),
     expect_that (is_dict (v_pnl c)) (i @ '': pnl must be an object''),
     expect_that (is_list (v_costs c)) (i @ '': costs must be a list''),
     expect_that (is_dict (v_data c)) (i @ '': data must be an object''),
     expect_that (is_dict (v_ext c)) (i @ '': external contract must be an object''),
     expect_that (is_list (v_blockers c)) (i @ '': blockers must be a list'')]"

definition types_ok :: "view \<Rightarrow> bool" where
  "types_ok c \<longleftrightarrow> is_dict (v_action c) \<and> is_dict (v_venue c) \<and> is_dict (v_baseline c) \<and> is_dict (v_pnl c)
     \<and> is_list (v_costs c) \<and> is_dict (v_data c) \<and> is_dict (v_ext c) \<and> is_list (v_blockers c)"

definition check_source :: "string \<Rightarrow> seed \<Rightarrow> view \<Rightarrow> errors" where
  "check_source i s c = collect [
     rbind (identity_json i) (\<lambda>expected.
       expect_that (py_eq (v_identity c) expected) (i @ '': identity contract drift'')),
     expect (rbind (py_index (v_card c) ''hypothesis'') (\<lambda>h. get_is h ''mechanism'' (JStr (seed_hypothesis s))))
       (i @ '': hypothesis differs from canonical seed''),
     expect (rmap (\<lambda>g. py_eq g (dict_of (signal_fields (seed_signal s)))) (py_index (v_card c) ''signal''))
       (i @ '': signal differs from canonical seed''),
     expect (get_is (v_action c) ''profile_id'' (JStr (seed_action_profile s)))
       (i @ '': action profile differs from canonical seed''),
     rbind (action_profile (seed_action_profile s)) (\<lambda>a.
       expect_that (py_eq (v_action c) (card_action_json s a)) (i @ '': action contract drift''))]"

definition check_contracts :: "string \<Rightarrow> seed \<Rightarrow> view \<Rightarrow> errors" where
  "check_contracts i s c = collect (
     [expect (rbind (py_index (v_card c) ''hypothesis'') (\<lambda>h.
        rand (index_true h ''mechanism'') (index_true h ''falsifiable_statement'')))
        (i @ '': empty hypothesis'')]
     @ map (\<lambda>key. expect (rbind (py_index (v_card c) ''signal'') (\<lambda>g. get_true g key))
         (i @ '': missing signal.'' @ key))
         [''trigger'', ''direction_semantics'', ''decision_clock'', ''forecast_horizon'', ''falsifier'']
     @ [expect (rbind (get (v_venue c) ''execution_venue'') (\<lambda>x. in_set x EXECUTION_VENUES)) (i @ '': unknown venue''),
        expect (get_is (v_action c) ''current_execution_authority'' (JStr ''NONE''))
          (i @ '': execution authority must remain NONE''),
        rbind (venue_for (seed_action_profile s)) (\<lambda>v.
          expect_that (py_eq (v_venue c) (dict_of (venue_fields v))) (i @ '': venue contract drift'')),
        expect_that (py_eq (v_baseline c) (dict_of (baseline_fields (baseline_for (seed_action_profile s)))))
          (i @ '': baseline contract drift''),
        expect_that (py_eq (v_pnl c) (dict_of (pnl_fields (pnl_for (seed_action_profile s)))))
          (i @ '': PnL contract drift''),
        expect_that (py_eq (v_costs c)
            (costs_json (costs_for (seed_action_profile s) (seed_external_dependency s))))
          (i @ '': cost contract drift''),
        rbind (external_contract (seed_external_dependency s) i) (\<lambda>ext.
          expect_that (py_eq (v_ext c) (dict_of (external_fields ext))) (i @ '': external-data contract drift'')),
        expect (rbind (get (v_ext c) ''dependency'') (\<lambda>x. in_set x EXTERNAL_DEPENDENCIES))
          (i @ '': unknown external dependency'')])"


section \<open>With and without an action\<close>

definition check_no_action :: "string \<Rightarrow> view \<Rightarrow> errors" where
  "check_no_action i c = collect [
     expect (index_is (v_venue c) ''execution_venue'' (JStr ''NONE'')) (i @ '': no-action card has venue''),
     expect (index_is (v_pnl c) ''status'' (JStr ''NOT_DEFINED_NOT_A_STRATEGY'')) (i @ '': no-action card has PnL''),
     expect (rnot (index_true (v_classification c) ''strategy_eligible'')) (i @ '': no-action card marked strategy''),
     expect (rnot (rmap truthy (py_index (v_card c) ''costs''))) (i @ '': no-action card has execution costs'')]"

text \<open>The conjunction stops at the first false operand: a value that is no dictionary is not asked for its keys.\<close>

definition cost_is_valid :: "json \<Rightarrow> bool res" where
  "cost_is_valid cost = rands [
     Inr (is_dict cost),
     rbind (get cost ''type'') (\<lambda>x. in_set x COST_TYPES),
     rbind (get cost ''role'') (\<lambda>x. in_set x COST_ROLES),
     rbind (get cost ''status'') (\<lambda>x. in_set x COST_STATUSES),
     get_true cost ''rule'']"

fun check_costs :: "string \<Rightarrow> nat \<Rightarrow> json list \<Rightarrow> (bool \<times> string list) res" where
  "check_costs i n [] = Inr (True, [])"
| "check_costs i n (cost # costs) =
     rbind (cost_is_valid cost) (\<lambda>ok.
     rmap (\<lambda>(oks, es). (ok \<and> oks,
       (if ok then [] else [i @ '': invalid cost contract at index '' @ str_of_nat n]) @ es))
       (check_costs i (n + 1) costs))"

text \<open>\<^verbatim>\<open>_cost_blockers\<close> on cost entries of an artifact.\<close>

fun cost_blockers_json :: "json list \<Rightarrow> string list res" where
  "cost_blockers_json [] = Inr []"
| "cost_blockers_json (cost # costs) =
     rbind (py_index cost ''status'') (\<lambda>status.
     if status \<noteq> JStr ''MISSING'' then cost_blockers_json costs
     else rbind (py_index cost ''type'') (\<lambda>type.
     if \<not> hashable type then Inl TypeError
     else case (case type of JStr t \<Rightarrow> map_of blocker_by_cost_type t | _ \<Rightarrow> None) of
       None \<Rightarrow> Inl (ValueError (''missing cost '' @ py_str type @ '' has no fail-closed blocker mapping''))
     | Some b \<Rightarrow> rmap (Cons b) (cost_blockers_json costs)))"

text \<open>\<^verbatim>\<open>set(xs) <= set(blockers)\<close> for strings \<^verbatim>\<open>xs\<close>: a blocker that cannot be hashed raises.\<close>

definition subset_of_json :: "string list \<Rightarrow> json list \<Rightarrow> bool res" where
  "subset_of_json xs ys = (if list_all hashable ys then Inr (list_all (\<lambda>x. JStr x \<in> set ys) xs) else Inl TypeError)"

definition check_action :: "string \<Rightarrow> view \<Rightarrow> json list \<Rightarrow> json list \<Rightarrow> errors" where
  "check_action i c costs blockers = collect (
     map (\<lambda>field. expect (get_true (v_action c) field) (i @ '': action.'' @ field @ '' is empty''))
       [''signal_to_action_mapping'', ''instrument_side'', ''order_style'', ''price_rule'', ''quantity_rule'',
        ''timing_and_cancel'', ''exit_or_settlement'', ''kill_conditions'', ''registered_signal_to_action'']
     @ [expect (rnot (index_is (v_venue c) ''execution_venue'' (JStr ''NONE''))) (i @ '': action lacks venue''),
        expect (rmap (\<lambda>x. x \<noteq> JNull) (py_index (v_baseline c) ''baseline_id'')) (i @ '': action lacks baseline''),
        expect (rands [rbind (get (v_baseline c) ''baseline_type'') (\<lambda>x. in_set x BASELINE_TYPES),
            get_true (v_baseline c) ''policy'', get_true (v_baseline c) ''comparability''])
          (i @ '': action baseline policy/comparability is incomplete''),
        expect (rands [index_is (v_pnl c) ''basis'' (JStr ''PATHWISE_AFTER_COST''),
            get_true (v_pnl c) ''formula'', get_true (v_pnl c) ''incremental_formula'',
            get_true (v_pnl c) ''markout_rule'', get_true (v_pnl c) ''denominators'',
            get_true (v_pnl c) ''zero_fill_treatment'', get_true (v_pnl c) ''capacity_rule''])
          (i @ '': action lacks after-cost incremental PnL''),
        expect_that (costs \<noteq> []) (i @ '': action lacks costs''),
        rbind (check_costs i 0 costs) (\<lambda>(valid, es).
          if valid then rbind (cost_blockers_json costs) (\<lambda>bs.
              rmap ((@) es) (expect (subset_of_json bs blockers)
                (i @ '': missing cost is not represented by a critical blocker'')))
          else Inr es)])"


section \<open>Blockers, data and classification\<close>

definition gap_complete :: "json \<Rightarrow> bool res" where
  "gap_complete gap = rands [get_true gap ''missing_evidence'', get_true gap ''acquisition_or_build_path'',
     get_is gap ''unknown_value_policy'' (JStr ''BLOCK_NOT_ZERO'')]"

definition check_data :: "string \<Rightarrow> seed \<Rightarrow> view \<Rightarrow> json list \<Rightarrow> errors" where
  "check_data i s c blockers =
     collect [
       expect (rall (\<lambda>b. in_set b CRITICAL_BLOCKERS) blockers) (i @ '': unknown blocker''),
       rbind (derive_parts i s) (\<lambda>p. collect [
         expect_that (py_eq (JList blockers) (jstrs (part_blockers p)))
           (i @ '': blocker set differs from fail-closed contract''),
         rbind (traverse (gap_contract i) (part_blockers p)) (\<lambda>gaps.
           expect_that (py_eq (v_data c) (data_json (seed_data_profile s) (part_data p) gaps))
             (i @ '': data and study-date contract drift'')),
         rbind (py_get (v_data c) ''critical_gaps'' (JList [])) (\<lambda>gap_contracts.
         rbind (py_iter gap_contracts) (\<lambda>gaps. collect [
           expect (rmap (\<lambda>bs. py_eq (JList bs) (JList blockers)) (traverse (\<lambda>g. get g ''blocker'') gaps))
             (i @ '': critical gap contracts do not match blockers''),
           expect (rall gap_complete gaps) (i @ '': incomplete blocker remediation contract'')])),
         expect_that (py_eq (v_classification c) (dict_of (classification_fields (card_class s p))))
           (i @ '': computed classification drift'')])]"


section \<open>External data, dates and results\<close>

abbreviation mapping_variable :: string where
  "mapping_variable \<equiv> ''versioned provider-event-to-Kalshi root/market/outcome mapping''"

definition check_required :: "string \<Rightarrow> view \<Rightarrow> json list \<Rightarrow> json list \<Rightarrow> bool \<Rightarrow> errors" where
  "check_required i c costs blockers acts = collect (
     [expect (rand (index_is (v_ext c) ''availability'' (JStr ''MISSING''))
          (index_is (v_ext c) ''missing_policy'' (JStr ''BLOCK_NO_IMPUTE'')))
        (i @ '': required external data not fail-closed''),
      expect_that (py_member (JStr ''EXTERNAL_SPORTS_DATA_MISSING'') blockers) (i @ '': external blocker absent''),
      expect (rnot (index_true (v_classification c) ''strategy_eligible'')) (i @ '': missing external data promoted''),
      expect (rbind (py_get (v_ext c) ''required_variables'' (JList [])) (py_in (JStr mapping_variable)))
        (i @ '': external mapping variable absent'')]
     @ (if acts then
         [expect_that (py_member (JStr ''INSTRUMENT_MAPPING_UNKNOWN'') blockers)
            (i @ '': external action mapping blocker absent''),
          expect (rany (\<lambda>cost. get_is cost ''type'' (JStr ''DATA_API'')) costs)
            (i @ '': external action omits data/API cost'')]
        else []))"

definition check_external :: "string \<Rightarrow> view \<Rightarrow> json list \<Rightarrow> json list \<Rightarrow> bool \<Rightarrow> errors" where
  "check_external i c costs blockers acts = collect [
     rbind (get_is (v_ext c) ''dependency'' (JStr ''REQUIRED'')) (\<lambda>req.
       if req then check_required i c costs blockers acts else Inr []),
     rbind (get_is (v_ext c) ''dependency'' (JStr ''OPTIONAL_REFINEMENT'')) (\<lambda>opt.
       if opt then expect (rands [
           index_is (v_ext c) ''availability'' (JStr ''MISSING_OPTIONAL_REFINEMENT''),
           index_is (v_ext c) ''missing_policy'' (JStr ''DO_NOT_IMPUTE_CORE_MAY_RUN_WITHOUT_FIELD''),
           rnot (index_true (v_ext c) ''blockers'')])
         (i @ '': optional external refinement contract is invalid'')
       else Inr [])]"

definition check_dates :: "string \<Rightarrow> seed \<Rightarrow> view \<Rightarrow> json list \<Rightarrow> errors" where
  "check_dates i s c blockers =
     rbind (py_index2 (v_data c) ''can_compute_now'' ''signal_event'') (\<lambda>status. collect [
       expect (get_is (v_data c) ''study_dates'' (study_dates (seed_data_profile s) status))
         (i @ '': fixed study dates drift''),
       (if status \<noteq> JStr ''YES'' then
          expect (rnot (rmap truthy
              (py_index2 (v_data c) ''study_dates'' ''eligible_for_current_signal_description'')))
            (i @ '': dates marked eligible although signal_event is '' @ py_str status)
        else Inr []),
       (if py_member (JStr ''MISSING_SIGNAL_INPUT'') blockers then
          expect_that (status = JStr ''NO'') (i @ '': missing signal input still marked calculable'')
        else Inr [])])"

definition check_result :: "env \<Rightarrow> string \<Rightarrow> seed \<Rightarrow> view \<Rightarrow> errors" where
  "check_result E i s c =
     rbind (py_index (v_card c) ''current_result'') (\<lambda>r. collect [
       expect (get_is r ''observed_signal'' (observed_signal i)) (i @ '': current evidence binding drift''),
       expect (rand (get_is r ''registry_design_status'' (JStr (seed_result_status s)))
           (get_is r ''registered_claim_ceiling'' (JStr (seed_claim_tier s))))
         (i @ '': design status differs from canonical seed''),
       expect (rand (index_is r ''strategy_pnl_claim'' (JStr ''NONE'')) (index_is r ''live_pnl_claim'' (JStr ''NONE'')))
         (i @ '': unsupported PnL claim''),
       expect (rmap (py_eq (v_card c)) (build_card (sha256 E) i s))
         (i @ '': card differs from canonical materialization'')])"


section \<open>The loop body\<close>

text \<open>After the types are known: everything the loop checks of a card with a canonical seed.\<close>

definition check_typed :: "env \<Rightarrow> string \<Rightarrow> seed \<Rightarrow> view \<Rightarrow> json list \<Rightarrow> json list \<Rightarrow> errors" where
  "check_typed E i s c costs blockers = collect [
     check_source i s c,
     rbind (get_true (v_action c) ''action_type'') (\<lambda>acts. collect [
       check_contracts i s c,
       (if acts then check_action i c costs blockers else check_no_action i c),
       check_data i s c blockers,
       check_external i c costs blockers acts,
       check_dates i s c blockers,
       check_result E i s c])]"

definition view_of :: "json \<Rightarrow> json \<Rightarrow> view res" where
  "view_of c identity =
     rbind (py_index c ''action'') (\<lambda>action.
     rbind (py_index c ''venue'') (\<lambda>venue.
     rbind (py_index c ''baseline'') (\<lambda>baseline.
     rbind (py_index c ''pnl'') (\<lambda>pnl.
     rbind (py_index c ''classification'') (\<lambda>classification.
     rbind (py_index c ''costs'') (\<lambda>costs.
     rbind (py_index c ''data'') (\<lambda>data.
     rbind (py_index c ''external_sports_data'') (\<lambda>ext.
     rbind (py_index c ''blockers'') (\<lambda>blockers.
     Inr \<lparr>v_card = c, v_identity = identity, v_action = action, v_venue = venue, v_baseline = baseline,
       v_pnl = pnl, v_classification = classification, v_costs = costs, v_data = data, v_ext = ext,
       v_blockers = blockers\<rparr>)))))))))"

definition seed_get :: "card_seeds \<Rightarrow> json \<Rightarrow> (string \<times> seed) option res" where
  "seed_get seeds card_id =
     (if \<not> hashable card_id then Inl TypeError
      else case card_id of
        JStr i \<Rightarrow> Inr (map_option (Pair i) (map_of seeds i))
      | _ \<Rightarrow> Inr None)"

definition check_sections :: "env \<Rightarrow> card_seeds \<Rightarrow> json \<Rightarrow> json \<Rightarrow> json \<Rightarrow> errors" where
  "check_sections E seeds c identity card_id =
     rbind (py_iter c) (\<lambda>keys.
     if \<not> list_all (\<lambda>k. JStr k \<in> set keys) required_sections
     then Inr [py_str card_id @ '': missing required sections'']
     else rbind (seed_get seeds card_id) (\<lambda>found.
     case found of
       None \<Rightarrow> Inr [py_str card_id @ '': no canonical seed'']
     | Some (i, s) \<Rightarrow>
       rbind (view_of c identity) (\<lambda>v. collect [
         check_types i v,
         (case (v_costs v, v_blockers v) of
            (JList costs, JList blockers) \<Rightarrow> if types_ok v then check_typed E i s v costs blockers else Inr []
          | _ \<Rightarrow> Inr [])])))"

fun without_key :: "string \<Rightarrow> json \<Rightarrow> json" where
  "without_key k (JObj fs) = JObj (fdel k fs)"
| "without_key k v = v"

definition check_card :: "env \<Rightarrow> card_seeds \<Rightarrow> json \<Rightarrow> json \<Rightarrow> errors" where
  "check_card E seeds c identity =
     rbind (py_get identity ''experiment_id'' (JStr ''<missing>'')) (\<lambda>card_id. collect [
       expect (get_is c ''definition_sha256'' (JStr (sha256_json (sha256 E) (without_key ''definition_sha256'' c))))
         (py_str card_id @ '': definition SHA mismatch''),
       check_sections E seeds c identity card_id])"

text \<open>One turn of the loop: the family is counted before the card is checked.\<close>

definition check_item :: "env \<Rightarrow> card_seeds \<Rightarrow> json \<Rightarrow> counts \<Rightarrow> (counts \<times> string list) res" where
  "check_item E seeds c counted =
     (if \<not> is_dict c then Inr (counted, [''experiment card must be an object''])
      else rbind (py_get c ''identity'' (JObj [])) (\<lambda>identity.
      rbind (py_get identity ''experiment_id'' (JStr ''<missing>'')) (\<lambda>_.
      rbind (get identity ''family_code'') (\<lambda>family.
      rbind (count_key family counted) (\<lambda>counted'.
      rmap (Pair counted') (check_card E seeds c identity))))))"

fun check_items :: "env \<Rightarrow> card_seeds \<Rightarrow> json list \<Rightarrow> counts \<Rightarrow> (counts \<times> string list) res" where
  "check_items E seeds [] counted = Inr (counted, [])"
| "check_items E seeds (c # cs) counted =
     rbind (check_item E seeds c counted) (\<lambda>(counted', es).
     rmap (\<lambda>(final, es'). (final, es @ es')) (check_items E seeds cs counted'))"

end
