(* ===== verification/RegistryChecks.thy ===== *)
theory RegistryChecks
  imports CardChecks
begin

text \<open>
  The checks of \<^verbatim>\<open>validate_registry\<close> that look across cards (identifiers, family counts, the RFQ,
  settlement and MVE cards, child-dependent profiles), the summary and the registry hash, and the
  function as a whole.
\<close>


section \<open>Identifiers\<close>

fun all_ids :: "json list \<Rightarrow> json list res" where
  "all_ids [] = Inr []"
| "all_ids (c # cs) =
     (if is_dict c
      then rbind (py_get c ''identity'' (JObj [])) (\<lambda>identity.
           rbind (get identity ''experiment_id'') (\<lambda>i. rmap (Cons i) (all_ids cs)))
      else all_ids cs)"

text \<open>\<^verbatim>\<open>len(set(xs))\<close>: equal values count once, a value that cannot be hashed raises.\<close>

fun py_distinct :: "json list \<Rightarrow> json list" where
  "py_distinct [] = []"
| "py_distinct (x # xs) = (if py_member x xs then py_distinct xs else x # py_distinct xs)"

definition set_size :: "json list \<Rightarrow> nat res" where
  "set_size xs = (if list_all hashable xs then Inr (length (py_distinct xs)) else Inl TypeError)"

definition check_ids :: "json list \<Rightarrow> errors" where
  "check_ids experiments =
     rbind (all_ids experiments) (\<lambda>ids. collect [
       expect_that (length experiments = 106) (''expected 106 cards, got '' @ str_of_nat (length experiments)),
       expect_that (ids = map JStr ATOMIC_IDS) ''card IDs/order differ from atomic authority'',
       expect (rmap (\<lambda>n. n = length ids) (set_size ids)) ''duplicate experiment IDs''])"


section \<open>Counts and the summary\<close>

text \<open>Equality of a counting dictionary and a dictionary with string keys.\<close>

definition counts_eq :: "json \<Rightarrow> counts \<Rightarrow> bool" where
  "counts_eq v cs = (case v of
     JObj fs \<Rightarrow> length fs = length cs
       \<and> list_all (\<lambda>(k, n). case k of
           JStr s \<Rightarrow> (case map_of fs s of Some w \<Rightarrow> py_eq w (JInt n) | None \<Rightarrow> False)
         | _ \<Rightarrow> False) cs
   | _ \<Rightarrow> False)"

definition expected_family_counts :: json where
  "expected_family_counts = dict_of [
     (''A'', JInt 23), (''B'', JInt 17), (''C'', JInt 10), (''D'', JInt 10),
     (''E'', JInt 6), (''F'', JInt 17), (''G'', JInt 12), (''P'', JInt 11)]"

definition repr_json_counts :: "counts \<Rightarrow> string" where
  "repr_json_counts cs = ''{'' @ join '', '' (map (\<lambda>(k, n). py_repr k @ '': '' @ str_of_int n) cs) @ ''}''"

definition summary_eq :: "json \<Rightarrow> summary \<Rightarrow> bool" where
  "summary_eq v s = (case v of
     JObj fs \<Rightarrow> length fs = 6
       \<and> (case map_of fs ''total_cards'' of Some w \<Rightarrow> py_eq w (JInt (int (total_cards s))) | None \<Rightarrow> False)
       \<and> (case map_of fs ''family_counts'' of Some w \<Rightarrow> counts_eq w (summary_families s) | None \<Rightarrow> False)
       \<and> (case map_of fs ''computed_class_counts'' of Some w \<Rightarrow> counts_eq w (summary_computed s) | None \<Rightarrow> False)
       \<and> (case map_of fs ''target_class_counts'' of Some w \<Rightarrow> counts_eq w (summary_targets s) | None \<Rightarrow> False)
       \<and> (case map_of fs ''strategy_eligible_now'' of Some w \<Rightarrow> py_eq w (num_json (eligible_now s)) | None \<Rightarrow> False)
       \<and> (case map_of fs ''warning'' of Some w \<Rightarrow> py_eq w (JStr summary_warning) | None \<Rightarrow> False)
   | _ \<Rightarrow> False)"

definition check_summary :: "json \<Rightarrow> json list \<Rightarrow> errors" where
  "check_summary registry experiments =
     rbind (get registry ''summary'') (\<lambda>stored.
     rbind (summary_for_cards experiments) (\<lambda>computed.
     expect_that (summary_eq stored computed) ''registry summary does not recompute from cards''))"


section \<open>Cards with rules of their own\<close>

text \<open>\<^verbatim>\<open>by_id\<close>: the last card with an identifier.\<close>

fun index_by_id :: "json list \<Rightarrow> (json \<times> json) list res" where
  "index_by_id [] = Inr []"
| "index_by_id (c # cs) =
     rbind (py_index2 c ''identity'' ''experiment_id'') (\<lambda>i.
     if hashable i then rmap (\<lambda>m. m @ [(i, c)]) (index_by_id cs) else Inl TypeError)"

text \<open>The list is in the reverse order of the cards, so that a lookup finds the last one.\<close>

definition with_card :: "(json \<times> json) list \<Rightarrow> string \<Rightarrow> (json \<Rightarrow> errors) \<Rightarrow> errors" where
  "with_card by_id i f = (case map_of by_id (JStr i) of None \<Rightarrow> Inr [] | Some c \<Rightarrow> f c)"

definition check_unsigned :: "(json \<times> json) list \<Rightarrow> string \<Rightarrow> errors" where
  "check_unsigned by_id i = with_card by_id i (\<lambda>c.
     rbind (py_index2 c ''signal'' ''direction_semantics'') (\<lambda>direction.
     case direction of
       JStr d \<Rightarrow> expect_that (contains ''UNSIGNED'' (upper d) \<or> contains ''NO_DIRECTION'' (upper d))
         (i @ '': public RFQ direction must remain unsigned'')
     | _ \<Rightarrow> Inl AttributeError))"

definition index2_is :: "json \<Rightarrow> string \<Rightarrow> string \<Rightarrow> json \<Rightarrow> bool res" where
  "index2_is v k k' x = rmap (\<lambda>w. py_eq w x) (py_index2 v k k')"

definition check_guard :: "(json \<times> json) list \<Rightarrow> string \<Rightarrow> errors" where
  "check_guard by_id i = with_card by_id i (\<lambda>c. collect [
     expect (rands [
         index2_is c ''action'' ''profile_id'' (JStr ''RFQ_GUARD''),
         index2_is c ''action'' ''instrument_side'' (JStr ''BOTH_RELATED_CLOB_SIDES_PUBLIC_UNSIGNED''),
         index2_is c ''action'' ''action_type'' (jstrs [''CANCEL'', ''REPRICE'', ''RESIZE''])])
       (i @ '': public RFQ guard action drift''),
     rbind (py_index c ''action'') (\<lambda>action.
       let action_text = upper (canonical_json action)
       in expect_that (list_all (\<lambda>token. \<not> contains token action_text)
            [''BUY_YES'', ''BUY_NO'', ''SELL_YES'', ''SELL_NO'', ''ACCEPTED_SIDE''])
         (i @ '': public RFQ guard contains directional action''))])"

definition check_d06 :: "(json \<times> json) list \<Rightarrow> errors" where
  "check_d06 by_id = with_card by_id ''D06-RFQ-DIRECTION-VOL-SIGNAL'' (\<lambda>c.
     expect (rand (index2_is c ''data'' ''profile_id'' (JStr ''RFQ_PRIVATE''))
         (rnot (rmap truthy (py_index2 c ''action'' ''action_type''))))
       ''D06: signed accepted-side analysis must remain private and no-action'')"

definition check_child :: "json \<Rightarrow> errors" where
  "check_child c =
     (if \<not> is_dict c then Inr []
      else rbind (py_get c ''action'' (JObj [])) (\<lambda>action.
      rbind (get action ''profile_id'') (\<lambda>profile.
      rbind (in_set profile CHILD_DEPENDENT_ACTION_PROFILES) (\<lambda>dependent.
      if dependent then
        rbind (rbind (py_get c ''blockers'' (JList [])) (py_in (JStr ''CONFIRMED_CHILD_STRATEGIES_MISSING''))) (\<lambda>present.
        rbind (py_get c ''identity'' (JObj [])) (\<lambda>identity.
        rbind (get identity ''experiment_id'') (\<lambda>i.
        expect_that present
          (py_str i @ '': child-dependent profile lacks immutable child binding blocker''))))
      else Inr []))))"

definition check_e01 :: "(json \<times> json) list \<Rightarrow> errors" where
  "check_e01 by_id = with_card by_id ''E01-SETTLEMENT-CONVERGENCE'' (\<lambda>c.
     expect (rands [
         index2_is c ''action'' ''profile_id'' (JStr ''CONTROL_ONLY''),
         rnot (rmap truthy (py_index2 c ''action'' ''action_type'')),
         rbind (py_index2 c ''signal'' ''direction_semantics'') (py_in (JStr ''never triggers an order''))])
       ''E01: final settlement label must remain a no-action retrospective control'')"

definition check_d09 :: "(json \<times> json) list \<Rightarrow> errors" where
  "check_d09 by_id = with_card by_id ''D09-MVE-CATALOG-SCHEMA'' (\<lambda>c.
     expect (rand (index2_is c ''venue'' ''execution_venue'' (JStr ''NONE''))
         (rnot (rbind (py_index c ''blockers'') (py_in (JStr ''VENUE_PERMISSION_MISSING'')))))
       ''D09: read-only catalog card must not request venue permission'')"

definition check_d10 :: "(json \<times> json) list \<Rightarrow> errors" where
  "check_d10 by_id = with_card by_id ''D10-MVE-DIRECT-TRADING'' (\<lambda>c.
     expect (rands [
         index2_is c ''action'' ''profile_id'' (JStr ''MVE_DIRECT''),
         index2_is c ''data'' ''profile_id'' (JStr ''MVE_PRIVATE''),
         index2_is c ''venue'' ''execution_venue'' (JStr ''KALSHI_MVE_PRIVATE_EXECUTION''),
         rnot (rbind (py_index c ''blockers'') (py_in (JStr ''RFQ_PUBLIC_DATA_UNRELEASED'')))])
       ''D10: MVE execution must not reuse RFQ contracts'')"

definition check_special :: "json list \<Rightarrow> errors" where
  "check_special experiments =
     rbind (index_by_id experiments) (\<lambda>by_id. collect [
       collect (map (check_unsigned by_id)
         [''D01-RFQ-FLOW-CENSUS'', ''D04-RFQ-COMBO-DEMAND-LEG-PRESSURE'', ''D06-RFQ-DIRECTION-VOL-SIGNAL'']),
       collect (map (check_guard by_id)
         [''D02-RFQ-SIZE-INTENT'', ''D03-RFQ-LIFECYCLE-SURVIVAL'', ''D05-RFQ-REQUESTER-HASH'', ''D07-RFQ-TO-CLOB-IMPACT'']),
       check_d06 by_id,
       collect (map check_child experiments),
       check_e01 by_id,
       check_d09 by_id,
       check_d10 by_id])"


section \<open>The whole validation\<close>

definition check_experiments :: "env \<Rightarrow> json \<Rightarrow> json list \<Rightarrow> errors" where
  "check_experiments E registry experiments = collect [
     check_ids experiments,
     rbind load_card_seeds (\<lambda>seeds.
       rbind (check_items E seeds experiments []) (\<lambda>(counted, es).
       rmap ((@) es) (expect_that (counts_eq expected_family_counts counted)
         (''family counts mismatch: '' @ repr_json_counts counted)))),
     check_special experiments,
     check_summary registry experiments,
     expect (get_is registry ''registry_sha256''
         (JStr (sha256_json (sha256 E) (without_key ''registry_sha256'' registry))))
       ''registry SHA mismatch'']"

definition validate_registry :: "env \<Rightarrow> json \<Rightarrow> errors" where
  "validate_registry E registry = collect [
     check_header E registry,
     rbind (get registry ''experiments'') (\<lambda>experiments.
       case experiments of
         JList cards \<Rightarrow> check_experiments E registry cards
       | _ \<Rightarrow> Inr [''experiments must be a list''])]"

end
