(* ===== verification/PdfDetail.thy ===== *)
theory PdfDetail
  imports PdfText RegistryChecks
begin

text \<open>
  The text of the detail pages (\<^verbatim>\<open>_card_detail_sections\<close> and its helpers): every field of a card as a
  line, in twelve sections.  The registry and the card are arbitrary JSON values; a missing key or a
  value of another type raises what Python raises.
\<close>


section \<open>Values\<close>

definition NOT_APPLICABLE :: string where
  "NOT_APPLICABLE = uni ''NOT_APPLICABLE / ^4e0d^662f^7b56^7565''"

fun detail_value :: "string \<Rightarrow> json \<Rightarrow> string"
  and detail_values :: "json list \<Rightarrow> string list"
  and detail_fields :: "fields \<Rightarrow> string list"
where
  "detail_value null_text JNull = null_text"
| "detail_value null_text (JBool b) = (if b then ''TRUE'' else ''FALSE'')"
| "detail_value null_text (JObj fs) = (if fs = [] then ''NONE'' else join ''; '' (detail_fields fs))"
| "detail_value null_text (JList xs) = (if xs = [] then ''NONE'' else join '' | '' (detail_values xs))"
| "detail_value null_text (JInt i) = join '' '' (split_words (py_str (JInt i)))"
| "detail_value null_text (JDec m e) = join '' '' (split_words (py_str (JDec m e)))"
| "detail_value null_text (JStr s) = join '' '' (split_words (py_str (JStr s)))"
| "detail_values [] = []"
| "detail_values (x # xs) = detail_value NOT_APPLICABLE x # detail_values xs"
| "detail_fields [] = []"
| "detail_fields ((k, v) # fs) = (k @ ''='' @ detail_value NOT_APPLICABLE v) # detail_fields fs"

definition shown_value :: "json \<Rightarrow> string" where
  "shown_value v = detail_value NOT_APPLICABLE v"

text \<open>\<^verbatim>\<open>v.items()\<close>.\<close>

fun py_items :: "json \<Rightarrow> fields res" where
  "py_items (JObj fs) = Inr fs"
| "py_items _ = Inl AttributeError"

definition entry :: "string \<Rightarrow> string \<Rightarrow> string" where
  "entry label v = label @ '' | '' @ v"

definition detail_entries :: "(string \<times> string) list \<Rightarrow> json \<Rightarrow> string list res" where
  "detail_entries labels v =
     rmap (map (\<lambda>(k, v). entry (case map_of labels k of Some l \<Rightarrow> l | None \<Rightarrow> k) (shown_value v))) (py_items v)"

text \<open>One entry for a value looked up, with \<^verbatim>\<open>_detail_value\<close> and with \<^verbatim>\<open>str\<close>.\<close>

definition detail_entry :: "string \<Rightarrow> json res \<Rightarrow> string list res" where
  "detail_entry label r = rmap (\<lambda>v. [entry label (shown_value v)]) r"

definition plain_entry :: "string \<Rightarrow> json res \<Rightarrow> string list res" where
  "plain_entry label r = rmap (\<lambda>v. [entry label (py_str v)]) r"

text \<open>The entries of a loop over the items of a dictionary.\<close>

definition item_entries :: "string \<Rightarrow> fields \<Rightarrow> string list" where
  "item_entries front fs = map (\<lambda>(k, v). entry (front @ k) (shown_value v)) fs"


section \<open>Sources and providers\<close>

text \<open>\<^verbatim>\<open>Path(p).name\<close>.\<close>

definition path_name :: "string \<Rightarrow> string" where
  "path_name p =
     (let parts = filter (\<lambda>x. x \<noteq> [] \<and> x \<noteq> ''.'') (split_on (CHR ''/'') p)
      in if parts = [] then [] else last parts)"

text \<open>\<^verbatim>\<open>s.split("::", 1)[0]\<close>.\<close>

fun before_colons :: "string \<Rightarrow> string" where
  "before_colons (a # b # s) = (if a = CHR '':'' \<and> b = CHR '':'' then [] else a # before_colons (b # s))"
| "before_colons s = s"

fun find_binding :: "string \<Rightarrow> string \<Rightarrow> json list \<Rightarrow> string res" where
  "find_binding source basename [] = Inr (source @ '' | SOURCE_BINDING_NOT_FOUND'')"
| "find_binding source basename (b # bs) =
     rbind (py_index b ''path'') (\<lambda>p. case p of
       JStr path \<Rightarrow>
         if path_name path = basename then
           rbind (py_index b ''role'') (\<lambda>role.
           rbind (py_index b ''sha256'') (\<lambda>digest.
           Inr (source @ '' | role='' @ py_str role @ '' | sha256='' @ py_str digest)))
         else find_binding source basename bs
     | _ \<Rightarrow> Inl TypeError)"

definition source_binding_for_observation :: "json \<Rightarrow> json \<Rightarrow> string res" where
  "source_binding_for_observation registry source =
     (if \<not> truthy source then Inr ''NOT_MEASURED''
      else case source of
        JStr s \<Rightarrow> rbind (rbind (py_index registry ''source_bindings'') py_iter) (find_binding s (before_colons s))
      | _ \<Rightarrow> Inl AttributeError)"

text \<open>The catalog, last entry first, so that a lookup finds the last one.\<close>

fun catalog_of :: "json list \<Rightarrow> (json \<times> json) list res" where
  "catalog_of [] = Inr []"
| "catalog_of (s # ss) =
     rbind (py_index s ''source_id'') (\<lambda>i.
     if hashable i then rmap (\<lambda>m. m @ [(i, s)]) (catalog_of ss) else Inl TypeError)"

definition catalog_get :: "(json \<times> json) list \<Rightarrow> json \<Rightarrow> json option res" where
  "catalog_get catalog k =
     (if hashable k then Inr (map_option snd (find (\<lambda>(i, _). py_eq i k) catalog)) else Inl TypeError)"

definition provider_row :: "(json \<times> json) list \<Rightarrow> json \<Rightarrow> string res" where
  "provider_row catalog source_id =
     rbind (catalog_get catalog source_id) (\<lambda>found.
     case found of
       None \<Rightarrow> Inr (py_str source_id @ ''=CATALOG_MISSING'')
     | Some JNull \<Rightarrow> Inr (py_str source_id @ ''=CATALOG_MISSING'')
     | Some source \<Rightarrow>
         rbind (py_index source ''status'') (\<lambda>status.
         rbind (py_index source ''live_use'') (\<lambda>live_use.
         rbind (py_index source ''historical_backfill'') (\<lambda>historical.
         Inr (py_str source_id @ '': status='' @ py_str status @ ''; live_use='' @ py_str live_use
           @ ''; historical='' @ py_str historical)))))"

definition provider_statuses :: "json \<Rightarrow> json list \<Rightarrow> string res" where
  "provider_statuses registry source_ids =
     rbind (rbind (rbind (py_index2 registry ''external_source_catalog'' ''sources'') py_iter) catalog_of) (\<lambda>catalog.
     rmap (\<lambda>rs. if rs = [] then ''NONE'' else join '' | '' rs) (traverse (provider_row catalog) source_ids))"

text \<open>\<^verbatim>\<open>v or []\<close>, as something to iterate over.\<close>

definition iter_or_empty :: "json \<Rightarrow> json list res" where
  "iter_or_empty v = (if truthy v then py_iter v else Inr [])"


section \<open>Labels\<close>

definition identity_labels :: "(string \<times> string) list" where
  "identity_labels = [
    (''experiment_id'', uni ''^5b9e^9a8c^5361 ID''),
    (''family_code'', uni ''^5bb6^65cf''),
    (''family_name'', uni ''^5bb6^65cf^540d^79f0''),
    (''version'', uni ''^5361^7247^7248^672c''),
    (''lineage_status'', uni ''^8840^7f18^72b6^6001''),
    (''source_atomic_id'', uni ''^539f^5b50^6765^6e90 ID''),
    (''registry_id'', ''Registry ID'')]"

definition classification_labels :: "(string \<times> string) list" where
  "classification_labels = [
    (''target_class'', uni ''^76ee^6807^7c7b^522b''),
    (''computed_class'', uni ''^5f53^524d^7c7b^522b''),
    (''blocked_from'', uni ''^963b^65ad^81ea''),
    (''lifecycle'', uni ''^751f^547d^5468^671f''),
    (''strategy_eligible'', uni ''^5f53^524d^7b56^7565^5408^683c''),
    (''promotion_rule'', uni ''^5347^7ea7^89c4^5219'')]"

definition signal_labels :: "(string \<times> string) list" where
  "signal_labels = [
    (''trigger'', uni ''^89e6^53d1^4fe1^53f7''),
    (''direction_semantics'', uni ''^65b9^5411^8bed^4e49''),
    (''decision_clock'', uni ''^51b3^7b56^65f6^949f''),
    (''forecast_horizon'', uni ''^9884^6d4b/^6301^6709^533a^95f4''),
    (''falsifier'', uni ''^4fe1^53f7^8bc1^4f2a'')]"

definition action_labels :: "(string \<times> string) list" where
  "action_labels = [
    (''profile_id'', uni ''^52a8^4f5c profile''),
    (''status'', uni ''^52a8^4f5c^72b6^6001''),
    (''registered_signal_to_action'', uni ''^767b^8bb0^7684 signal -> action''),
    (''signal_to_action_mapping'', uni ''^5177^4f53^4fe1^53f7^5230^52a8^4f5c^6620^5c04''),
    (''action_type'', uni ''^52a8^4f5c^7c7b^578b''),
    (''instrument_side'', uni ''^4ea4^6613^54ea^4e00^8fb9''),
    (''order_style'', uni ''^8ba2^5355^7c7b^578b''),
    (''price_rule'', uni ''^4ef7^683c^89c4^5219''),
    (''quantity_rule'', uni ''^6570^91cf^89c4^5219''),
    (''timing_and_cancel'', uni ''^65f6^5e8f^4e0e^64a4^5355''),
    (''exit_or_settlement'', uni ''^9000^51fa/^7ed3^7b97''),
    (''kill_conditions'', uni ''^505c^6b62^6761^4ef6''),
    (''current_execution_authority'', uni ''^5f53^524d^6267^884c^6743^9650'')]"

definition venue_labels :: "(string \<times> string) list" where
  "venue_labels = [
    (''execution_venue'', uni ''^6267^884c^573a^6240''),
    (''availability_receipt'', uni ''^573a^6240^53ef^7528^6536^636e''),
    (''required_permission'', uni ''^6240^9700^6743^9650'')]"

definition baseline_labels :: "(string \<times> string) list" where
  "baseline_labels = [
    (''baseline_id'', uni ''^57fa^51c6 ID''),
    (''baseline_type'', uni ''^57fa^51c6^7c7b^578b''),
    (''policy'', uni ''^57fa^51c6^7b56^7565''),
    (''comparability'', uni ''^53ef^6bd4^6027''),
    (''secondary_baselines'', uni ''^6b21^7ea7^57fa^51c6'')]"

definition pnl_labels :: "(string \<times> string) list" where
  "pnl_labels = [
    (''status'', uni ''PnL ^72b6^6001''),
    (''basis'', uni ''PnL ^53e3^5f84''),
    (''formula'', uni ''^73b0^91d1 PnL ^516c^5f0f''),
    (''incremental_formula'', uni ''^76f8^5bf9^57fa^51c6^589e^91cf PnL''),
    (''aggregation_unit'', uni ''^805a^5408^5355^5143''),
    (''denominators'', uni ''^62a5^544a^5206^6bcd''),
    (''zero_fill_treatment'', uni ''^96f6^89e6^53d1/^96f6^6210^4ea4^5904^7406''),
    (''capacity_rule'', uni ''^5bb9^91cf^89c4^5219''),
    (''markout_rule'', uni ''markout ^8fb9^754c''),
    (''cost_allocation_rule'', uni ''^6210^672c^5206^644a^89c4^5219''),
    (''roc_definition'', uni ''^5546^4e1a ROC ^5b9a^4e49'')]"

definition external_labels :: "(string \<times> string) list" where
  "external_labels = [
    (''dependency'', uni ''^5916^90e8^4f53^80b2^4f9d^8d56''),
    (''availability'', uni ''^53ef^7528^72b6^6001''),
    (''required_variables'', uni ''^6240^9700^76f4^63a5^53d8^91cf''),
    (''approved_source'', uni ''^5df2^6279^51c6^6765^6e90''),
    (''provider_candidates'', uni ''^5019^9009 provider''),
    (''asof_clock_status'', uni ''^65f6^949f^72b6^6001''),
    (''license_status'', uni ''^8bb8^53ef^72b6^6001''),
    (''historical_backfill_status'', uni ''^5386^53f2^70b9^65f6^72b6^6001''),
    (''missing_policy'', uni ''^7f3a^5931^7b56^7565''),
    (''proxy_policy'', uni ''^4ee3^7406^7981^533a''),
    (''blockers'', uni ''^5916^90e8^6570^636e blockers'')]"

definition design_labels :: "(string \<times> string) list" where
  "design_labels = [
    (''unit'', uni ''^68c0^9a8c^5355^5143''),
    (''eligibility'', uni ''^5165^6837^8d44^683c''),
    (''clock_rule'', uni ''^65f6^95f4^89c4^5219''),
    (''forecast_horizon'', uni ''^51bb^7ed3^533a^95f4''),
    (''comparison'', uni ''^6bd4^8f83^65b9^6cd5''),
    (''overlap_and_precedence'', uni ''^91cd^53e0^4e0e^4f18^5148^7ea7''),
    (''split_status'', uni ''^5207^5206^72b6^6001''),
    (''minimum_evidence'', uni ''^6700^4f4e^8bc1^636e''),
    (''multiple_testing_family'', uni ''^591a^91cd^68c0^9a8c^65cf''),
    (''stop_rule'', uni ''^505c^6b62^89c4^5219'')]"

definition next_labels :: "(string \<times> string) list" where
  "next_labels = [
    (''to_measure_signal'', uni ''^8865^9f50^4fe1^53f7''),
    (''to_measure_pnl'', uni ''^8865^9f50 PnL''),
    (''external_source_ids'', uni ''^5916^90e8^6765^6e90 ID'')]"


section \<open>The sections of a card\<close>

definition status_entries :: "json \<Rightarrow> json \<Rightarrow> json \<Rightarrow> json \<Rightarrow> string list res" where
  "status_entries registry crd identity classification = collect [
     detail_entries identity_labels identity,
     detail_entries classification_labels classification,
     plain_entry ''definition_sha256'' (py_index crd ''definition_sha256''),
     plain_entry ''Registry action authority'' (py_index2 registry ''scope'' ''action_authority''),
     plain_entry ''Registry order authority'' (py_index2 registry ''scope'' ''order_authority''),
     plain_entry ''Registry deployment authority'' (py_index2 registry ''scope'' ''deployment_authority'')]"

definition hypothesis_entries :: "json \<Rightarrow> string list res" where
  "hypothesis_entries crd = collect [
     detail_entry (uni ''^7ecf^6d4e^673a^5236 mechanism'') (py_index2 crd ''hypothesis'' ''mechanism''),
     detail_entry (uni ''^53ef^8bc1^4f2a^9648^8ff0 falsifiable_statement'') (py_index2 crd ''hypothesis'' ''falsifiable_statement''),
     detail_entry (uni ''^4e3b^4f30^8ba1^91cf primary_estimand'') (py_index2 crd ''hypothesis'' ''primary_estimand''),
     rmap (item_entries (uni ''^5931^8d25^6761^4ef6 ''))
       (rbind (py_index2 crd ''hypothesis'' ''failure_conditions'') py_items)]"

definition signal_entries :: "json \<Rightarrow> json \<Rightarrow> json \<Rightarrow> string list res" where
  "signal_entries registry crd observed = collect [
     rbind (py_index crd ''signal'') (detail_entries signal_labels),
     rmap (\<lambda>fs. item_entries (uni ''^5f53^524d^8bc1^636e '') (filter (\<lambda>(k, _). k \<noteq> ''observed_signal'') fs))
       (rbind (py_index crd ''current_result'') py_items),
     rmap (\<lambda>v. [entry ''observed_signal.status'' (detail_value ''NOT_MEASURED'' v)]) (py_get observed ''status'' JNull),
     rmap (\<lambda>v. [entry ''observed_signal.values'' (detail_value ''NOT_MEASURED'' v)]) (py_get observed ''values'' JNull),
     rmap (\<lambda>s. [entry ''observed_signal.source'' s])
       (rbind (py_get observed ''source'' JNull) (source_binding_for_observation registry))]"

definition venue_baseline_entries :: "json \<Rightarrow> string list res" where
  "venue_baseline_entries crd = collect [
     rbind (py_index crd ''venue'') (detail_entries venue_labels),
     rbind (py_index crd ''baseline'') (detail_entries baseline_labels)]"

definition two_digits :: "nat \<Rightarrow> string" where
  "two_digits n = pad_left 2 (str_of_nat n)"

text \<open>\<^verbatim>\<open>name=_detail_value(v.get(key))\<close> for the pairs of a row, separated by semicolons.\<close>

definition row_fields :: "(string \<times> string) list \<Rightarrow> json \<Rightarrow> string res" where
  "row_fields ks v =
     rmap (join ''; '') (traverse (\<lambda>(name, key). rmap (\<lambda>x. name @ ''='' @ shown_value x) (py_get v key JNull)) ks)"

definition numbered_rows :: "string \<Rightarrow> (string \<times> string) list \<Rightarrow> json list \<Rightarrow> string list res" where
  "numbered_rows label ks vs =
     traverse (\<lambda>(i, v). rmap (\<lambda>r. entry (label @ two_digits i) r) (row_fields ks v)) (enumerate 1 vs)"

definition cost_entries :: "json \<Rightarrow> string list res" where
  "cost_entries crd =
     rbind (py_index crd ''costs'') (\<lambda>costs.
     if truthy costs then
       rbind (py_iter costs) (numbered_rows (uni ''^6210^672c '')
         [(''type'', ''type''), (''status'', ''status''), (''role'', ''role''), (''rule'', ''rule'')])
     else Inr [uni ''^6210^672c | NOT_APPLICABLE / ^4e0d^662f^7b56^7565^ff1b^672a^77e5 PnL ^4e0d^663e^793a^4e3a 0''])"

definition data_entries :: "json \<Rightarrow> string list res" where
  "data_entries data = collect [
     detail_entry ''data profile'' (py_index data ''profile_id''),
     detail_entry (uni ''^8f93^5165 inputs'') (py_index data ''inputs''),
     detail_entry (uni ''^5f53^524d^80fd^7b97 can_compute_now'') (py_index data ''can_compute_now''),
     detail_entry (uni ''^76ee^524d^53ef^8ba1^7b97'') (py_index data ''currently_calculable''),
     detail_entry ''data blockers'' (py_index data ''blockers''),
     detail_entry (uni ''^7f3a^5931^6570^636e missing'') (py_index data ''missing''),
     detail_entry (uni ''^91c7^96c6/^5efa^8bbe^8def^5f84 acquisition_paths'') (py_index data ''acquisition_paths''),
     rmap (item_entries ''study_dates.'') (rbind (py_index data ''study_dates'') py_items)]"

definition gap_entries :: "json \<Rightarrow> json \<Rightarrow> string list res" where
  "gap_entries crd data = collect [
     detail_entry (uni ''^5b8c^6574^5361^7ea7 blockers'') (py_index crd ''blockers''),
     rbind (py_index data ''critical_gaps'') (\<lambda>gaps.
     if truthy gaps then
       rbind (py_iter gaps) (numbered_rows (uni ''^7f3a^53e3 '')
         [(''blocker'', ''blocker''), (''stage'', ''blocking_stage''), (''missing'', ''missing_evidence''),
          (uni ''^8865^6570/^5efa^8bbe'', ''acquisition_or_build_path''),
          (''API candidates'', ''external_api_candidate_ids''), (''unknown policy'', ''unknown_value_policy'')])
     else Inr [''critical_gaps | NONE''])]"

definition external_entries :: "json \<Rightarrow> json \<Rightarrow> string list res" where
  "external_entries registry crd =
     rbind (py_index crd ''external_sports_data'') (\<lambda>external. collect [
       detail_entries external_labels external,
       rmap (\<lambda>s. [entry (uni ''^5019^9009^6765^6e90^76ee^5f55^72b6^6001'') s])
         (rbind (rbind (py_get external ''provider_candidates'' JNull) iter_or_empty) (provider_statuses registry))])"

definition next_entries :: "json \<Rightarrow> json \<Rightarrow> string list res" where
  "next_entries registry crd =
     rbind (py_index crd ''next_evidence'') (\<lambda>evidence. collect [
       detail_entries next_labels evidence,
       rmap (\<lambda>s. [entry (uni ''^5916^90e8^6765^6e90^76ee^5f55^89e3^6790'') s])
         (rbind (rbind (py_get evidence ''external_source_ids'' JNull) iter_or_empty) (provider_statuses registry))])"

definition card_detail_sections :: "json \<Rightarrow> json \<Rightarrow> (string \<times> string list) list res" where
  "card_detail_sections registry crd =
     rbind (py_index crd ''identity'') (\<lambda>identity.
     rbind (py_index crd ''classification'') (\<lambda>classification.
     rbind (rbind (py_index crd ''current_result'') (\<lambda>r. py_get r ''observed_signal'' JNull)) (\<lambda>found.
     let observed = (if truthy found then found else JObj [])
     in traverse (\<lambda>(title, r). rmap (Pair title) r) [
       (uni ''^8eab^4efd^3001^72b6^6001^4e0e^6743^9650'', status_entries registry crd identity classification),
       (uni ''^5047^8bbe^4e0e^5931^8d25^6761^4ef6'', hypothesis_entries crd),
       (uni ''^4fe1^53f7^4e0e^5f53^524d^8bc1^636e'', signal_entries registry crd observed),
       (uni ''^89e6^53d1^540e^7684^5177^4f53^52a8^4f5c'', rbind (py_index crd ''action'') (detail_entries action_labels)),
       (uni ''^6267^884c^573a^6240^4e0e^57fa^51c6^7b56^7565'', venue_baseline_entries crd),
       (uni ''^73b0^91d1 PnL ^5408^7ea6'', rbind (py_index crd ''pnl'') (detail_entries pnl_labels)),
       (uni ''^6210^672c^9010^9879'', cost_entries crd),
       (uni ''^5f53^524d^53ef^7b97^3001^6570^636e^4e0e^65e5^671f'', rbind (py_index crd ''data'') data_entries),
       (uni ''^5b8c^6574^7f3a^53e3^4e0e^8865^6570^8def^5f84'', rbind (py_index crd ''data'') (gap_entries crd)),
       (uni ''^5916^90e8^4f53^80b2^6570^636e^5951^7ea6'', external_entries registry crd),
       (uni ''^68c0^9a8c^8bbe^8ba1'', rbind (py_index crd ''experiment_design'') (detail_entries design_labels)),
       (uni ''^4e0b^4e00^6b65^8bc1^636e'', next_entries registry crd)])))"

end
