(* ===== verification/PdfPages.thy ===== *)
theory PdfPages
  imports PdfCanvas PdfDetail
begin

text \<open>
  The first eight summary pages of the report, from the cover to the blockers, each the list of its
  drawing calls.  What a page reads of the registry is looked up first, so that a page is either an
  exception or a drawing; an exception leaves no document behind, whenever it is raised.
\<close>


section \<open>What the pages read of the registry\<close>

text \<open>A value as a number of an expression with floats; \<^verbatim>\<open>f"{x:.3f}"\<close>; a value as the text of a drawing call.\<close>

fun number :: "json \<Rightarrow> rat res" where
  "number (JInt i) = Inr (of_int i)"
| "number (JBool b) = Inr (of_bool b)"
| "number (JDec m e) = Inr (of_int m / 10 ^ e)"
| "number _ = Inl TypeError"

definition fixed3 :: "rat \<Rightarrow> string" where
  "fixed3 x =
     (let y = \<bar>x\<bar> * 1000; q = \<lfloor>y\<rfloor>; r = y - of_int q;
          n = (if r < 1 / 2 \<or> r = 1 / 2 \<and> even q then q else q + 1)
      in (if x < 0 then ''-'' else []) @ str_of_dec n 3)"

text \<open>Formatting a text as a number is a \<^verbatim>\<open>ValueError\<close>, anything else that is not a number a \<^verbatim>\<open>TypeError\<close>.\<close>

definition format3 :: "json \<Rightarrow> string res" where
  "format3 v = (case v of
     JStr _ \<Rightarrow> Inl (ValueError (''Unknown format code 'f' for object of type '' @ [CHR 0x27] @ ''str'' @ [CHR 0x27]))
   | _ \<Rightarrow> rmap fixed3 (number v))"

fun as_text :: "json \<Rightarrow> string res" where
  "as_text (JStr s) = Inr s"
| "as_text _ = Inl TypeError"

definition hashed :: "json \<Rightarrow> json res" where
  "hashed v = (if hashable v then Inr v else Inl TypeError)"

definition label_of :: "(string \<times> string) list \<Rightarrow> string \<Rightarrow> string" where
  "label_of labels k = (case map_of labels k of Some l \<Rightarrow> l | None \<Rightarrow> [])"

definition cards_of :: "json \<Rightarrow> json list res" where
  "cards_of registry = rbind (py_index registry ''experiments'') py_iter"

text \<open>\<^verbatim>\<open>_card_by_id\<close>, and its subscript.\<close>

definition card_by_id :: "json \<Rightarrow> (json \<times> json) list res" where
  "card_by_id registry = rbind (cards_of registry) index_by_id"

definition named_card :: "json \<Rightarrow> string \<Rightarrow> json res" where
  "named_card registry i =
     rbind (card_by_id registry) (\<lambda>by_id. case map_of by_id (JStr i) of Some c \<Rightarrow> Inr c | None \<Rightarrow> Inl KeyError)"

text \<open>\<^verbatim>\<open>Counter(xs)\<close>: the entry of a string, and the most common values, the first counted first.\<close>

definition counter_get :: "json list \<Rightarrow> string \<Rightarrow> nat" where
  "counter_get vs k = length (filter (\<lambda>v. py_eq v (JStr k)) vs)"

fun count_in :: "json \<Rightarrow> (json \<times> nat) list \<Rightarrow> (json \<times> nat) list" where
  "count_in v [] = [(v, 1)]"
| "count_in v ((w, n) # cs) = (if py_eq v w then (w, n + 1) # cs else (w, n) # count_in v cs)"

definition most_common :: "nat \<Rightarrow> json list \<Rightarrow> (json \<times> nat) list" where
  "most_common k vs = take k (sort_key (\<lambda>(_, n). - int n) (fold count_in vs []))"

text \<open>What each page needs.\<close>

definition target_counts :: "json \<Rightarrow> json list res" where
  "target_counts registry =
     rbind (py_index2 registry ''summary'' ''target_class_counts'') (\<lambda>counts.
     traverse (py_index counts) [''EXECUTABLE_STRATEGY'', ''SIGNAL'', ''RESEARCH_QUESTION''])"

definition with_numbers :: "json list \<Rightarrow> (json \<times> rat) list res" where
  "with_numbers vs = rmap (zip vs) (traverse number vs)"

definition blocker_label :: "json \<Rightarrow> json res" where
  "blocker_label b =
     (if hashable b then Inr (case b of JStr s \<Rightarrow> (case map_of BLOCKER_LABELS s of Some l \<Rightarrow> JStr l | None \<Rightarrow> b) | _ \<Rightarrow> b)
      else Inl TypeError)"

definition card_blockers :: "json \<Rightarrow> json list res" where
  "card_blockers c = rbind (py_index c ''blockers'') py_iter"

definition anatomy_data :: "json \<Rightarrow> (string list \<times> json list) res" where
  "anatomy_data registry =
     rbind (named_card registry ''A01-SPREAD-CAPTURE'') (\<lambda>c.
     rbind (rbind (py_index2 c ''current_result'' ''observed_signal'') (\<lambda>o'. py_index2 o' ''values'' ''pooled_signed_markout_logodds'')) (\<lambda>markout.
     rbind (traverse (\<lambda>h. rbind (py_index markout h) format3) [''1s'', ''5s'', ''30s'']) (\<lambda>figures.
     rbind (rbind (card_blockers c) (traverse blocker_label)) (\<lambda>labels.
     Inr (figures, labels)))))"

definition family_codes :: "json list \<Rightarrow> json list res" where
  "family_codes cs = traverse (\<lambda>c. rbind (py_index2 c ''identity'' ''family_code'') hashed) cs"

definition strategy_cards :: "json list \<Rightarrow> json list res" where
  "strategy_cards cs =
     rfilter (\<lambda>c. rmap (\<lambda>t. py_eq t (JStr ''EXECUTABLE_STRATEGY'')) (py_index2 c ''classification'' ''target_class'')) cs"

definition signal_events :: "json \<Rightarrow> json list res" where
  "signal_events registry =
     rbind (cards_of registry) (traverse (\<lambda>c.
       rbind (py_index2 c ''data'' ''can_compute_now'') (\<lambda>now. rbind (py_index now ''signal_event'') hashed)))"

definition top_blockers :: "json \<Rightarrow> (string \<times> nat) list res" where
  "top_blockers registry =
     rbind (rbind (cards_of registry) (traverse (\<lambda>c. rbind (card_blockers c) (traverse hashed)))) (\<lambda>bs.
     traverse (\<lambda>(b, n). rmap (\<lambda>l. (l, n)) (rbind (blocker_label b) as_text)) (most_common 10 (concat bs)))"

declare uni.simps [simp del]


section \<open>The pages\<close>

definition page_cover :: "pdf \<Rightarrow> json \<Rightarrow> nat \<Rightarrow> draw list res" where
  "page_cover P registry page_no =
   rbind (py_index registry ''registry_sha256'') (\<lambda>digest. Inr (
    let da = [SetFillColor NAVY, Rect 0 0 (PAGE_W P) (PAGE_H P) True False, SetFillColor BLUE,
      Circle (PAGE_W P - 65) (PAGE_H P - 30) 150 True False, SetFillColor TEAL, Circle (PAGE_W P - 10) 70 115 True False,
      SetFillColor NAVY, Circle (PAGE_W P - 35) 84 73 True False] @
      badge P ''REGISTRY V1'' MARGIN (PAGE_H P - 68) (Color 1 1 1 (16 / 100)) White (Some 92) @
      [SetFillColor White, SetFont FONT_HEAD 36, DrawString MARGIN (PAGE_H P - 135) (uni
        ''^4ece^201c^4e00^56e2^6d46^7cca^201d^5230^5b9e^9a8c^5de5^5382''), SetFont FONT_HEAD 22,
        SetFillColor (HexColor ''#CFE1FF''), DrawString MARGIN (PAGE_H P - 172) (uni
        ''DeepResearch V3 ^7edf^4e00^5b9e^9a8c^53d8^73b0 Registry'')] @
      fst (draw_text P (uni
        ''^628a 106 ^4e2a^7814^7a76^65b9^5411^7edf^4e00^6210^201c^5047^8bbe - ^4fe1^53f7 - ^52a8^4f5c - ^573a^6240 - ^57fa^51c6 - ^6210^672c - PnL - ^6570^636e^7f3a^53e3^201d^7684^53ef^5ba1^8ba1^64cd^4f5c^7cfb^7edf^3002'')
        MARGIN (PAGE_H P - 210) 555 FONT_BODY 12 White (Some 18) (Some 2));
        labels = [
          (uni ''^5047^8bbe'', BLUE),
          (uni ''^4fe1^53f7'', TEAL),
          (uni ''^52a8^4f5c'', AMBER),
          (uni ''^6210^4ea4'', PURPLE),
          (uni ''^6210^672c'', CORAL),
          (''PnL'', RED)];
        x = MARGIN;
        y = 230;
        box_w = 88;
        db = rows (\<lambda>x (index, (label, color)).
        let da = [SetFillColor (Faded color (2 / 10)), SetStrokeColor color, RoundRect x y box_w 54 10 True True] @
          draw_centered label (x + box_w / 2) (y + 20) FONT_HEAD 12 White @
          (if index < ((length labels) - 1) then arrow (x + box_w + 4) (y + 27) (x + box_w + 22) (y + 27) White (12 / 10) else
            []);
            x = x + 108
        in (da, x)) x (enumerate 0 labels);
        metrics = [
          (''106'', uni ''^5168^90e8^5b9e^9a8c''),
          (''80'', uni ''^52a8^4f5c^578b^76ee^6807''),
          (''0'', uni ''^5f53^524d^5b9e^76d8^5408^683c'')];
        x = MARGIN
    in da @ db @ rows (\<lambda>x (v, label).
        let da = [
              SetFillColor (Color 1 1 1 (8 / 100)),
              RoundRect x 82 150 90 13 True False,
              SetFillColor White,
              SetFont FONT_HEAD 27,
              DrawString (x + 18) 126 v,
              SetFont FONT_BODY 9,
              SetFillColor (HexColor ''#C9D7EE''),
              DrawString (x + 18) 104 label];
            x = x + 166
        in (da, x)) x metrics @
      [SetFillColor White, SetFont FONT_HEAD 9, DrawRightString (PAGE_W P - MARGIN) 43 (uni
        ''^72ec^7acb^5ba1^8ba1 PASS | P0=0 | P1=0''), SetFont FONT_MONO (65 / 10), SetFillColor (HexColor ''#C9D7EE''),
        DrawRightString (PAGE_W P - MARGIN) 28 (''registry_sha256 '' @ py_str digest), SetFont FONT_BODY (68 / 10),
        SetFillColor (HexColor ''#C9D7EE''), DrawRightString (PAGE_W P - MARGIN) 14 (page_label P page_no), ShowPage]))"

definition page_dashboard :: "pdf \<Rightarrow> json \<Rightarrow> nat \<Rightarrow> draw list res" where
  "page_dashboard P registry page_no =
   rbind (rbind (target_counts registry) with_numbers) (\<lambda>counts. Inr (
    let (da, y) = page_header P page_no (uni
      ''^7b54^6848^5148^8bf4^ff1a^76ee^5f55^5b8c^6210^ff0c^7b56^7565^5c1a^672a^5b8c^6210'') (uni
      ''80 ^5f20^5361^5df2^7ecf^5199^51fa^52a8^4f5c^4e0e^8d39^7528^540e PnL ^5408^7ea6^ff0c^4f46^6ca1^6709^4e00^5f20^901a^8fc7^5f53^524d^5168^90e8^8bc1^636e^95e8^3002'')
      (uni ''^7ba1^7406^6458^8981'') BLUE;
        metrics = [
          (''106'', uni ''^5168^90e8^5b9e^9a8c'', uni ''8 ^4e2a^5bb6^65cf^5b8c^6574^8986^76d6'', BLUE),
          (''80'', uni ''^52a8^4f5c^578b^76ee^6807'', uni
            ''^76ee^6807^7c7b^522b^ff0c^4e0d^7b49^4e8e^5df2^9a8c^8bc1^7b56^7565'', TEAL),
          (''0'', uni ''^5f53^524d^5408^683c^7b56^7565'', uni ''^672a^77e5 PnL ^7edd^4e0d^5f53^6210 0'', RED),
          (''105 + 1'', uni ''^5f53^524d^5206^7c7b'', uni ''105 BLOCKED / 1 ^7814^7a76^95ee^9898'', AMBER)];
        gap = 12;
        card_w = (PAGE_W P - 2 * MARGIN - gap * 3) / 4;
        db = each (\<lambda>(index, (figure, caption, remark, accent)).
        metric_card P (MARGIN + of_nat index * (card_w + gap)) (y - 104) card_w 92 figure caption remark accent) (enumerate 0
          metrics);
        left_x = MARGIN;
        left_y = 70;
        left_w = 470;
        left_h = 260;
        dc = round_rect left_x left_y left_w left_h White BORDER 10 (7 / 10) @
      [SetFont FONT_HEAD 12, SetFillColor INK, DrawString (left_x + 18) (left_y + left_h - 28) (uni
        ''^76ee^6807^7c7b^522b vs ^5f53^524d^4e8b^5b9e'')];
        bars = [
          (uni ''^52a8^4f5c^578b^76ee^6807'', counts ! 0, TEAL),
          (uni ''^4fe1^53f7^76ee^6807'', counts ! 1, BLUE),
          (uni ''^7814^7a76^95ee^9898'', counts ! 2, PURPLE)];
        bar_x = left_x + 28;
        bar_y = left_y + left_h - 75;
        max_w = 205;
        dd = each (\<lambda>(idx, (label, v, color)).
        let yy = bar_y - of_nat idx * 43
        in [SetFillColor color, RoundRect bar_x yy (max_w * snd v / 80) 17 7 True False, SetFont FONT_BODY (85 / 10),
          SetFillColor SLATE, DrawString bar_x (yy - 14) label, SetFont FONT_MONO_BOLD 9, SetFillColor INK,
          DrawRightString (bar_x + max_w + 28) (yy + 4) (py_str (fst v))]) (enumerate 0 bars) @
      [SetStrokeColor BORDER, DrawLine (left_x + 280) (left_y + 30) (left_x + 280) (left_y + left_h - 45)] @
      donut (left_x + 370) (left_y + 145) 68 [105, 1] [RED, PURPLE] ''0'' (uni ''^5f53^524d^53ef^5b9e^76d8'') @
      badge P ''BLOCKED 105'' (left_x + 310) (left_y + 42) RED_LIGHT RED (Some 92) @
      badge P (uni ''^7814^7a76^95ee^9898 1'') (left_x + 310) (left_y + 16) PURPLE_LIGHT PURPLE (Some 92);
        right_x = left_x + left_w + 14;
        right_w = PAGE_W P - MARGIN - right_x;
        de = round_rect right_x left_y right_w left_h NAVY NAVY 10 (7 / 10) @
      [SetFont FONT_HEAD 12, SetFillColor White, DrawString (right_x + 18) (left_y + left_h - 28) (uni
        ''^7ba1^7406^8005^5fc5^987b^8bb0^4f4f^7684^4e09^53e5^8bdd'')];
        guardrails = [
          (''01'', uni ''106 ^9879^5b9e^9a8c ^2260 106 ^4e2a^7b56^7565^3002''),
          (''02'', uni ''BLOCKED ^2260 ^5047^8bbe^5931^8d25^ff0c^4e5f ^2260 PnL ^4e3a 0^3002''),
          (''03'', uni
            ''^6ca1^6709^52a8^4f5c^3001^573a^6240^3001^57fa^51c6^548c^8d39^7528^540e PnL^ff0c^5c31^4e0d^7b97^7b56^7565^3002'')];
        yy = left_y + left_h - 70
    in da @ db @ dc @ dd @ de @ rows (\<lambda>yy (number, words).
        let da = [SetFillColor BLUE, Circle (right_x + 34) (yy + 4) 14 True False] @
          draw_centered number (right_x + 34) yy FONT_MONO_BOLD 7 White @
          fst (draw_text P words (right_x + 58) (yy + 9) (right_w - 78) FONT_BODY 10 White (Some 14) (Some 2));
            yy = yy - 55
        in (da, yy)) yy guardrails @
      fst (draw_text P (uni
        ''^4e0b^4e00^6b65^4e0d^662f^7ee7^7eed^5806^60f3^6cd5^ff0c^800c^662f^5148^5173^95ed^5171^4eab^6267^884c^95e8^ff0c^518d^8ba9^5c11^6570^5361^8fdb^5165 Shadow^3002'')
        (right_x + 20) (left_y + 42) (right_w - 40) FONT_HEAD 10 (HexColor ''#CFE1FF'') (Some 14) (Some 2)) @
      finish_page P page_no))"

definition page_operating_change :: "pdf \<Rightarrow> json \<Rightarrow> nat \<Rightarrow> draw list res" where
  "page_operating_change P registry page_no =
   Inr (
    let (da, y) = page_header P page_no (uni ''^8fd0^8425^65b9^5f0f^53d1^751f^4e86^4ec0^4e48^6539^53d8'') (uni
      ''^4ece^201c^89e3^91ca^5e02^573a^201d^6539^6210^201c^7528^73b0^91d1^95ed^73af^8bc1^4f2a^52a8^4f5c^201d^ff1b^4efb^4e00^786c^95e8^5931^8d25^90fd^56de^9000^6216^5173^95ed^3002'')
      (uni ''^64cd^4f5c^7cfb^7edf'') TEAL;
        box_y = 250;
        box_h = 220;
        col_w = (PAGE_W P - 2 * MARGIN - 22) / 2;
        db = round_rect MARGIN box_y col_w box_h RED_LIGHT (HexColor ''#F5CACA'') 10 (7 / 10) @
      badge P (uni ''^4ee5^524d'') (MARGIN + 18) (box_y + box_h - 37) RED White (Some 58);
        stale = [
          uni ''^770b^5230^76d8^53e3^5f62^6001^ff0c^8bb2^4e00^4e2a^53ef^80fd^7684^6545^4e8b'',
          uni ''^7528 markout^3001mid return ^6216^6bdb^5229^4ee3^66ff^73b0^91d1^6536^76ca'',
          uni ''^6a21^578b^3001RFQ^3001^4f53^80b2^72b6^6001^4e0e^6267^884c^6743^9650^6df7^5728^4e00^8d77'',
          uni ''^7f3a^6570^636e^65f6^7528^4ef7^683c^6216^65f6^95f4^4ee3^7406^8865^5168'',
          uni ''^5931^8d25^6807^51c6^3001^57fa^51c6^548c^6210^672c^7ecf^5e38^540e^8865''];
        yy = box_y + box_h - 75;
        dc = rows (\<lambda>yy item.
        let da = [SetFillColor RED, Circle (MARGIN + 28) (yy + 2) (32 / 10) True False];
            (db, below) = draw_text P item (MARGIN + 42) (yy + 7) (col_w - 62) FONT_BODY (92 / 10) INK (Some 13) (Some 2);
            yy = below - 12
        in (da @ db, yy)) yy stale;
        right_x = MARGIN + col_w + 22;
        dd = round_rect right_x box_y col_w box_h TEAL_LIGHT (HexColor ''#B7E6DE'') 10 (7 / 10) @
      badge P (uni ''^73b0^5728'') (right_x + 18) (box_y + box_h - 37) TEAL White (Some 58);
        fresh = [
          uni ''^5148^5199^53ef^8bc1^4f2a^5047^8bbe^548c^70b9^65f6^53ef^5f97^4fe1^53f7'',
          uni ''^660e^786e^770b^5230^4fe1^53f7^540e^5728^54ea^3001^4ee5^4ec0^4e48^4ef7^683c^548c^6570^91cf^884c^52a8'',
          uni ''^51bb^7ed3^53ef^6267^884c^57fa^51c6^4e0e^9010^8def^5f84^8d39^7528^540e^589e^91cf PnL'',
          uni ''^6bcf^4e2a^672a^77e5^6570^636e^548c^6210^672c^76f4^63a5^53d8^6210 BLOCKER'',
          uni ''Registry ^4e0d^6388^4e88 AWS^3001^4e0b^5355^6216^8d44^91d1^6743^9650''];
        yy = box_y + box_h - 75;
        de = rows (\<lambda>yy item.
        let da = [SetFillColor TEAL, Circle (right_x + 28) (yy + 2) (32 / 10) True False];
            (db, below) = draw_text P item (right_x + 42) (yy + 7) (col_w - 62) FONT_BODY (92 / 10) INK (Some 13) (Some 2);
            yy = below - 12
        in (da @ db, yy)) yy fresh;
        stages = [
          (uni ''^5047^8bbe'', uni ''^7ecf^6d4e^673a^5236''),
          (uni ''^4fe1^53f7'', uni ''^8fc7^53bb^65f6^949f''),
          (uni ''^52a8^4f5c'', uni ''^8fb9/^4ef7/^91cf/^9000^51fa''),
          (uni ''^573a^6240'', uni ''^771f^5b9e^63a5^53e3''),
          (uni ''^57fa^51c6'', uni ''^540c^673a^4f1a^96c6''),
          (uni ''^6210^672c'', uni ''^4e0d^51c6^586b 0''),
          (''PnL'', uni ''^73b0^91d1^8def^5f84''),
          (uni ''^8bc1^4f2a'', uni ''^5931^8d25^5373^505c'')];
        start_x = MARGIN;
        stage_y = 112;
        stage_w = (PAGE_W P - 2 * MARGIN - 7 * 8) / 8
    in da @ db @ dc @ dd @ de @ rows (\<lambda>start_x (index, (title, subline)).
        let color = ([BLUE, TEAL, AMBER, PURPLE, BLUE, CORAL, RED, INK] ! index);
            da = round_rect start_x stage_y stage_w 76 White color 9 (12 / 10) @
          draw_centered title (start_x + stage_w / 2) (stage_y + 44) FONT_HEAD 10 color @
          draw_centered subline (start_x + stage_w / 2) (stage_y + 22) FONT_BODY (68 / 10) MUTED @
          (if index < 7 then arrow (start_x + stage_w + 1) (stage_y + 38) (start_x + stage_w + 7) (stage_y + 38) MUTED (12 /
            10) else []);
            start_x = start_x + (stage_w + 8)
        in (da, start_x)) start_x (enumerate 0 stages) @
      fst (draw_text P (uni
        ''STOP ^89c4^5219^ff1a^7f3a^4efb^4f55^4e00^683c^ff0ccomputed_class ^53ea^80fd^662f BLOCKED^3001SIGNAL ^6216 RESEARCH_QUESTION^3002'')
        MARGIN 75 (PAGE_W P - 2 * MARGIN) FONT_HEAD (95 / 10) RED None (Some 1)) @
      finish_page P page_no)"

definition page_card_anatomy :: "pdf \<Rightarrow> json \<Rightarrow> nat \<Rightarrow> draw list res" where
  "page_card_anatomy P registry page_no =
   rbind (anatomy_data registry) (\<lambda>(figures, labels). Inr (
    let (da, y) = page_header P page_no (uni ''^4e00^5f20^5408^683c^5b9e^9a8c^5361^957f^4ec0^4e48^6837'') (uni
      ''A01 ^5df2^7ecf^6709^6e05^695a^52a8^4f5c^4e0e PnL ^5b9a^4e49^ff0c^4f46^63cf^8ff0^6027 markout ^4ecd^4e0d^80fd^8bc1^660e^76c8^5229^3002'')
      (uni ''^5361^7247^89e3^5256'') AMBER;
        card_x = MARGIN;
        card_y = 62;
        card_w = 520;
        card_h = y - card_y;
        db = round_rect card_x card_y card_w card_h White BORDER 14 (7 / 10) @
      badge P ''A01'' (card_x + 18) (card_y + card_h - 42) BLUE White (Some 48) @
      badge P ''BLOCKED'' (card_x + 76) (card_y + card_h - 42) RED_LIGHT RED (Some 72) @
      badge P ''NO PNL CLAIM'' (card_x + 158) (card_y + card_h - 42) AMBER_LIGHT (HexColor ''#9C6507'') (Some 100) @
      badge P ''NO TRADING AUTHORITY'' (card_x + 268) (card_y + card_h - 42) PURPLE_LIGHT PURPLE (Some 140);
        fields = [
          (uni ''^5047^8bbe'', uni
            ''^5728^5408^683c^53cc^8fb9^76d8^53e3^4e2d^ff0c^88ab^52a8^8d5a^53d6^70b9^5dee^5728^4e25^683c^6210^4ea4^3001^9006^5411^9009^62e9^3001^5f3a^5236^9000^51fa^548c^7cbe^786e^8d39^7528^540e^4ecd^4e3a^6b63^3002''),
          (uni ''^4fe1^53f7'', uni
            ''^53ef^6267^884c^70b9^5dee^8d85^8fc7^9884^5148^51bb^7ed3^7684^8d39^7528^3001markout^3001^9000^51fa^548c^5b89^5168^7f13^51b2^3002''),
          (uni ''^52a8^4f5c'', uni
            ''^5728^5141^8bb8^7684^4e24^8fb9^5404^6302 1 ^5f20 post-only^ff1b^4fe1^53f7^6d88^5931^3001^76d8^53e3^65ad^6863^6216^6570^636e^8fc7^671f^65f6^7acb^5373^64a4^5355^5e76^5bf9^8d26^3002''),
          (uni ''^573a^6240'', uni ''Kalshi CLOB^3002Registry ^672c^8eab^4e0d^6388^4e88^4e0b^5355^6743^9650^3002''),
          (uni ''^57fa^51c6'', uni
            ''^76f8^540c^673a^4f1a^96c6^4fdd^6301^7a7a^4ed3^ff0c^73b0^91d1^6d41^8bb0 0^ff1b^6240^6709^96f6^89e6^53d1^548c^96f6^6210^4ea4^673a^4f1a^4fdd^7559^3002''),
          (''PnL'', uni
            ''^7b56^7565^9010^8def^5f84^73b0^91d1 PnL - ^76f8^540c^673a^4f1a^4e0d^4ea4^6613^57fa^51c6^ff1b^6263^9664^8d39^7528^3001^6ed1^70b9^3001^5ef6^8fdf^3001^5e93^5b58^548c^8d44^672c^6210^672c^3002''),
          (uni ''^5931^8d25'', uni
            ''untouched ^6837^672c^7684^8d39^7528^540e^589e^91cf NetPnL <= 0^ff0c^6216^5bb9^91cf/^5c3e^90e8^98ce^9669^672a^901a^8fc7^51bb^7ed3^95e8^3002'')];
        yy = card_y + card_h - 72;
        label_w = 56;
        dc = rows (\<lambda>yy (label, v).
        let da = [SetFillColor LIGHT, RoundRect (card_x + 18) (yy - 17) label_w 22 7 True False] @
          draw_centered label (card_x + 18 + label_w / 2) (yy - 10) FONT_HEAD 8 SLATE;
            (db, new_y) = draw_text P v (card_x + 88) yy (card_w - 108) FONT_BODY (76 / 10) INK (Some 10) (Some 2);
            yy = min (yy - 34) (new_y - 9)
        in (da @ db, yy)) yy fields;
        side_x = card_x + card_w + 16;
        side_w = PAGE_W P - MARGIN - side_x;
        dd = round_rect side_x 305 side_w 165 NAVY NAVY 12 (7 / 10) @
      [SetFillColor White, SetFont FONT_HEAD 11, DrawString (side_x + 18) 442 (uni ''^5f53^524d^771f^5b9e^89c2^6d4b'')];
        yy = 407;
        de = rows (\<lambda>yy (horizon, figure).
        let da = [
              SetFont FONT_MONO_BOLD 11,
              SetFillColor (HexColor ''#CFE1FF''),
              DrawString (side_x + 18) yy horizon,
              SetFillColor White,
              DrawRightString (side_x + side_w - 20) yy figure];
            yy = yy - 28
        in (da, yy)) yy (zip [''1s'', ''5s'', ''30s''] figures) @
      fst (draw_text P (uni
        ''^4ec5^8868^793a pooled half-spread ^4e0e signed markout ^7684^63cf^8ff0^5173^7cfb^ff1b^5c1a^672a^6263^8d39^7528^3001^6a21^62df^6210^4ea4^3001^5ef6^8fdf^548c^9000^51fa^3002'')
        (side_x + 18) 326 (side_w - 36) FONT_BODY (76 / 10) (HexColor ''#C9D7EE'') (Some 10) (Some 3)) @
      round_rect side_x 62 side_w 226 RED_LIGHT (HexColor ''#F2C5C5'') 12 (7 / 10) @
      [SetFillColor RED, SetFont FONT_HEAD 11, DrawString (side_x + 18) 260 (uni ''^4e3a^4ec0^4e48^8fd8^4e0d^80fd^4e0b^5355'')];
        yy = 230
    in da @ db @ dc @ dd @ de @ rows (\<lambda>yy blocker.
        let da = [SetFillColor RED, Circle (side_x + 24) (yy + 2) (28 / 10) True False];
            (db, below) = draw_value P blocker (side_x + 36) (yy + 6) (side_w - 55) FONT_BODY (78 / 10) INK (Some 10) (Some 1);
            yy = below - 8
        in (da @ db, yy)) yy labels @
      finish_page P page_no))"

definition page_families :: "pdf \<Rightarrow> json \<Rightarrow> nat \<Rightarrow> draw list res" where
  "page_families P registry page_no =
   rbind (cards_of registry) (\<lambda>cs.
   rbind (family_codes cs) (\<lambda>families.
   rbind (rbind (strategy_cards cs) family_codes) (\<lambda>strategies. Inr (
    let (da, y) = page_header P page_no (uni ''^5e7f^5ea6^5df2^7ecf^94fa^5f00^ff1a8 ^4e2a^5b9e^9a8c^5bb6^65cf'') (uni
      ''^8986^76d6^9762^662f^7814^7a76^76ee^5f55^7684^5e7f^5ea6^ff0c^4e0d^662f^4ef7^503c^6392^540d^ff0c^4e5f^4e0d^662f 106 ^6b21^72ec^7acb^4e0b^6ce8^3002'')
      (uni ''^5b9e^9a8c^7248^56fe'') PURPLE;
        items = map (\<lambda>f. (f, counter_get families f)) [''A'', ''B'', ''C'', ''F'', ''G'', ''P'', ''D'', ''E''];
        left_x = MARGIN;
        db = round_rect left_x 70 390 (y - 75) White BORDER 10 (7 / 10) @
      [SetFont FONT_HEAD 11, SetFillColor INK, DrawString (left_x + 18) (y - 28) (uni ''^5bb6^65cf^89c4^6a21'')] @
      hbar_chart (map (\<lambda>(f, v). (f @ ''  '' @ label_of FAMILY_LABELS f,
        v)) items) (left_x + 15) (y - 63) 360 37 PURPLE 145 23;
        right_x = left_x + 404;
        right_w = PAGE_W P - MARGIN - right_x;
        dc = round_rect right_x 70 right_w (y - 75) White BORDER 10 (7 / 10) @
      [SetFont FONT_HEAD 11, SetFillColor INK, DrawString (right_x + 18) (y - 28) (uni
        ''^52a8^4f5c^578b^76ee^6807 / ^975e^7b56^7565^6761^76ee'')];
        bar_x = right_x + 120;
        bar_w = right_w - 170;
        yy = y - 64
    in da @ db @ dc @ rows (\<lambda>yy family.
        let n_all = counter_get families family;
            n_action = counter_get strategies family;
            n_non = n_all - n_action;
            da = [SetFillColor SLATE, SetFont FONT_BODY 8, DrawRightString (bar_x - 12) (yy + 2) (family @ '' '' @
              label_of FAMILY_LABELS family), SetFillColor TEAL, Rect bar_x yy (bar_w * of_nat n_action / 23) 12 True False,
              SetFillColor PURPLE_LIGHT, Rect (bar_x + bar_w * of_nat n_action / 23) yy (bar_w * of_nat n_non / 23) 12 True
              False, SetFont FONT_MONO_BOLD (75 / 10), SetFillColor INK,
              DrawString (bar_x + bar_w + 8) (yy + (15 / 10)) (str_of_nat n_action @ ''/'' @ str_of_nat n_non)];
            yy = yy - 37
        in (da, yy)) yy [''A'', ''B'', ''C'', ''D'', ''E'', ''F'', ''G'', ''P''] @
      badge P (uni ''^52a8^4f5c^578b^76ee^6807 80'') (right_x + 18) 90 TEAL_LIGHT TEAL (Some 102) @
      badge P (uni ''^4fe1^53f7/^7814^7a76 26'') (right_x + 130) 90 PURPLE_LIGHT PURPLE (Some 102) @
      finish_page P page_no))))"

definition page_target_vs_current :: "pdf \<Rightarrow> json \<Rightarrow> nat \<Rightarrow> draw list res" where
  "page_target_vs_current P registry page_no =
   rbind (target_counts registry) (\<lambda>counts.
   rbind (signal_events registry) (\<lambda>events. Inr (
    let (da, y) = page_header P page_no (uni
      ''^201c^60f3^505a^4ec0^4e48^201d^4e0e^201c^73b0^5728^80fd^505a^4ec0^4e48^201d^5fc5^987b^5206^5f00'') (uni
      ''target_class ^8bb0^5f55^76ee^6807^ff1bcomputed_class ^53ea^8ba4^5f53^524d^5df2^95ed^5408^8bc1^636e^3002'') (uni
      ''^6210^719f^5ea6'') BLUE;
        left_x = MARGIN;
        mid_x = PAGE_W P / 2;
        db = round_rect left_x 205 300 260 White BORDER 10 (7 / 10) @
      round_rect (PAGE_W P - MARGIN - 300) 205 300 260 White BORDER 10 (7 / 10) @
      [SetFont FONT_HEAD 13, SetFillColor INK, DrawString (left_x + 20) 435 (uni ''^76ee^6807^7c7b^522b''),
        DrawString (PAGE_W P - MARGIN - 280) 435 (uni ''^5f53^524d^7c7b^522b'')];
        left_rows = [
          (uni ''^52a8^4f5c^578b^5b9e^9a8c'', py_str (counts ! 0), TEAL),
          (uni ''^4fe1^53f7^5b9e^9a8c'', py_str (counts ! 1), BLUE),
          (uni ''^7814^7a76^95ee^9898'', py_str (counts ! 2), PURPLE)];
        yy = 380;
        dc = rows (\<lambda>yy (label, v, color).
        let da = [
              SetFillColor color,
              Circle (left_x + 35) (yy + 4) 8 True False,
              SetFillColor INK,
              SetFont FONT_HEAD 10,
              DrawString (left_x + 55) yy label,
              SetFont FONT_MONO_BOLD 18,
              SetFillColor color,
              DrawRightString (left_x + 275) (yy - 3) v];
            yy = yy - 62
        in (da, yy)) yy left_rows;
        right_x = PAGE_W P - MARGIN - 300;
        dd = donut (right_x + 150) 337 91 [105, 1] [RED, PURPLE] ''0'' ''EXECUTABLE'' @
      badge P ''BLOCKED 105'' (right_x + 68) 225 RED_LIGHT RED (Some 100) @
      badge P (uni ''^7814^7a76^95ee^9898 1'') (right_x + 172) 225 PURPLE_LIGHT PURPLE (Some 92) @
      arrow (left_x + 315) 337 (right_x - 15) 337 AMBER 2 @
      [SetFillColor AMBER, SetFont FONT_HEAD 9, DrawCentredString mid_x 355 (uni ''^8bc1^636e^95e8^91cd^65b0^8ba1^7b97'')] @
      round_rect MARGIN 65 (PAGE_W P - 2 * MARGIN) 115 NAVY NAVY 10 (7 / 10) @
      [SetFillColor White, SetFont FONT_HEAD 11, DrawString (MARGIN + 20) 151 (uni
        ''^5f53^524d^4fe1^53f7^53ef^8ba1^7b97^6027'')];
        statuses = [
          (''YES'', str_of_nat (counter_get events ''YES''), TEAL, uni ''^4fe1^53f7^53ef^63cf^8ff0''),
          (''PARTIAL'', str_of_nat (counter_get events ''PARTIAL''), AMBER, uni ''^4ec5^90e8^5206^8f93^5165/^673a^5236''),
          (''NO'', str_of_nat (counter_get events ''NO''), RED, uni ''^5f53^524d^4e0d^53ef^8ba1^7b97'')];
        start_x = MARGIN + 190
    in da @ db @ dc @ dd @ rows (\<lambda>start_x (status, v, color, remark).
        let da = [SetFillColor color, RoundRect start_x 98 122 44 10 True False] @
          draw_centered v (start_x + 25) 114 FONT_HEAD 17 White @
          fst (draw_text P remark (start_x + 51) 123 64 FONT_BODY 7 White (Some 9) (Some 2));
            start_x = start_x + 150
        in (da, start_x)) start_x statuses @
      fst (draw_text P (uni
        ''^5373^4f7f signal_event=YES^ff0c^4e5f^4e0d^4ee3^8868^4e25^683c^6210^4ea4^3001^8d39^7528^540e shadow PnL ^6216 realized PnL ^53ef^7b97^3002'')
        (MARGIN + 20) 82 (PAGE_W P - 2 * MARGIN - 40) FONT_BODY (82 / 10) (HexColor ''#C9D7EE'') None (Some 1)) @
      finish_page P page_no)))"

definition page_data_truth :: "pdf \<Rightarrow> json \<Rightarrow> nat \<Rightarrow> draw list res" where
  "page_data_truth P registry page_no =
   Inr (
    let (da, y) = page_header P page_no (uni ''^5f53^524d^6570^636e^5230^5e95^80fd^652f^6301^4ec0^4e48'') (uni
      ''L1/^6210^4ea4^6709 8 ^4e2a exact release^ff1bL2 ^4f30^8ba1^53ea^80fd^7528 7/12^30017/15^30017/17^3002'') (uni
      ''^6570^636e^4e8b^5b9e'') TEAL;
        db = round_rect MARGIN 315 (PAGE_W P - 2 * MARGIN) 145 White BORDER 10 (7 / 10) @
      [SetFillColor INK, SetFont FONT_HEAD 11, DrawString (MARGIN + 18) 433 (uni
        ''2026-07-10 ^81f3 2026-07-17 ^6570^636e^5e26'')];
        dates = map (\<lambda>d. ''7/'' @ str_of_nat d) [10..<18];
        start_x = MARGIN + 25;
        cell_w = (PAGE_W P - 2 * MARGIN - 50) / 8;
        l2_clean = [''7/12'', ''7/15'', ''7/17''];
        l2_excluded = [''7/13'', ''7/14''];
        l2_conditional = [''7/16''];
        l2_missing = [''7/10'', ''7/11''];
        dc = rows (\<lambda>start_x day.
        let x = start_x;
            da = [SetFillColor SKY, RoundRect x 370 (cell_w - 8) 44 8 True False] @
          draw_centered day (x + (cell_w - 8) / 2) 395 FONT_HEAD 9 BLUE @
          draw_centered ''L1 / trades'' (x + (cell_w - 8) / 2) 378 FONT_BODY (67 / 10) SLATE;
            (fill, color, label) = (if day \<in> set l2_clean
        then (TEAL_LIGHT, TEAL, ''L2 CLEAN'')
        else (if day \<in> set l2_excluded
        then (RED_LIGHT, RED, uni ''L2 ^6392^9664'')
        else (if day \<in> set l2_conditional
        then (AMBER_LIGHT, AMBER, uni ''V1 ^6392^9664*'')
        else (LIGHT, MUTED, uni ''L2 ^7f3a^5931''))));
            db = [SetFillColor fill, RoundRect x 332 (cell_w - 8) 29 7 True False] @
          draw_centered label (x + (cell_w - 8) / 2) 342 FONT_HEAD (68 / 10) color;
            start_x = start_x + cell_w
        in (da @ db, start_x)) start_x dates @
      fst (draw_text P (uni
        ''* 7/16 ^540e^7eed^6839^56e0^5ba1^8ba1^5224^5b9a^4e3a^201c^7ef4^62a4^7a97^6761^4ef6^53ef^6551^201d^ff1b^5f85^9010^65e5^8d28^91cf^95e8^3001^7a97^53e3^5254^9664^3001^65b0^6536^636e^4e0e Registry ^65b0 revision ^540e^624d^80fd^7eb3^5165^3002'')
        (MARGIN + 18) 321 (PAGE_W P - 2 * MARGIN - 36) FONT_BODY (64 / 10) AMBER None (Some 1));
        left_w = 370;
        dd = round_rect MARGIN 70 left_w 225 NAVY NAVY 10 (7 / 10) @
      [SetFillColor White, SetFont FONT_HEAD 11, DrawString (MARGIN + 18) 268 (uni ''^73b0^6709^6570^636e^53ef^4ee5^505a'')];
        allowed = [
          uni ''L1/^6210^4ea4^4fe1^53f7^53d1^751f^7387^4e0e^6761^4ef6 markout'',
          uni ''3 ^4e2a^5e72^51c0 L2 ^65e5^7684^6df1^5ea6^3001^56de^8865^3001^64a4^9000^673a^5236'',
          uni ''^76ee^5f55^3001^5e02^573a^56fe^8c31^4e0e^751f^547d^5468^671f^8986^76d6^68c0^67e5'',
          uni ''^4fdd^7559^5168^90e8^96f6^89e6^53d1^3001^96f6^6210^4ea4^673a^4f1a''];
        yy = 235;
        de = rows (\<lambda>yy item.
        let da = [SetFillColor TEAL, Circle (MARGIN + 25) (yy + 3) 3 True False];
            (db, below) = draw_text P item (MARGIN + 38) (yy + 8) (left_w - 56) FONT_BODY (84 / 10) White (Some 11) (Some 2);
            yy = below - 11
        in (da @ db, yy)) yy allowed;
        right_x = MARGIN + left_w + 15;
        right_w = PAGE_W P - MARGIN - right_x;
        df = round_rect right_x 70 right_w 225 RED_LIGHT (HexColor ''#F3C8C8'') 10 (7 / 10) @
      [SetFillColor RED, SetFont FONT_HEAD 11, DrawString (right_x + 18) 268 (uni
        ''^73b0^6709^6570^636e^4e0d^80fd^8bc1^660e'')];
        forbidden = [
          uni ''^81ea^5df1^7684^961f^5217^4f4d^7f6e^3001^771f^5b9e^6210^4ea4^4e0e^64a4^5355^7ade^6001'',
          uni ''^7cbe^786e^624b^7eed^8d39^3001^5b9e^6d4b^5ef6^8fdf^4e0e^8d39^7528^540e^73b0^91d1 PnL'',
          uni ''^5b8c^6574^7ed3^7b97^3001^4f5c^5e9f^3001^5ef6^671f^548c^6b8b^4f59^5e93^5b58^73b0^91d1^6d41'',
          uni ''^5916^90e8^6bd4^5206^3001^5c40/^76d8^3001^9635^5bb9^3001^4f24^75c5^6216^771f^5b9e in-play'',
          uni ''untouched confirmation cohort ^4e0a^7684^53ef^590d^5236^6536^76ca''];
        yy = 235
    in da @ db @ dc @ dd @ de @ df @ rows (\<lambda>yy item.
        let da = [SetFillColor RED, Circle (right_x + 25) (yy + 3) 3 True False];
            (db, below) = draw_text P item (right_x + 38) (yy + 8) (right_w - 56) FONT_BODY (82 / 10) INK (Some 11) (Some 2);
            yy = below - 9
        in (da @ db, yy)) yy forbidden @
      finish_page P page_no)"

definition page_blockers :: "pdf \<Rightarrow> json \<Rightarrow> nat \<Rightarrow> draw list res" where
  "page_blockers P registry page_no =
   rbind (top_blockers registry) (\<lambda>tops. Inr (
    let (da, y) = page_header P page_no (uni ''^6700^5927^95ee^9898^4e0d^662f 80 ^4e2a^7b56^7565^5404^81ea^574f^4e86'') (uni
      ''^524d^4e94^4e2a^5171^4eab^6267^884c^95e8^540c^65f6^963b^65ad^7ea6 80 ^5f20^5361^ff1b^5148^4fee^516c^5171^80fd^529b^ff0c^590d^7528^4ef7^503c^6700^9ad8^3002'')
      (uni ''^963b^65ad Pareto'') RED;
        left_w = 520;
        db = round_rect MARGIN 70 left_w (y - 75) White BORDER 10 (7 / 10) @
      [SetFont FONT_HEAD 11, SetFillColor INK, DrawString (MARGIN + 18) (y - 28) (uni
        ''^5361^7247-^963b^65ad^5173^7cfb^6b21^6570'')] @
      hbar_chart tops (MARGIN + 18) (y - 62) (left_w - 36) 33 RED 155 83;
        right_x = MARGIN + left_w + 15;
        right_w = PAGE_W P - MARGIN - right_x;
        dc = round_rect right_x 280 right_w 182 NAVY NAVY 10 (7 / 10) @
      [SetFillColor White, SetFont FONT_HEAD 11, DrawString (right_x + 18) 434 (uni
        ''Wave 0^ff1a^5171^4eab^6267^884c^6838^5fc3'')];
        core = [
          (uni ''^8d39^7528'', ''exact fee / rounding / rebate''),
          (uni ''^6210^4ea4'', ''strict fill / queue / cancel race''),
          (uni ''^5ef6^8fdf'', ''place / cancel-effective / exit''),
          (uni ''^7ed3^7b97'', ''0/1/void/retire/postpone''),
          (uni ''^98ce^9669'', ''capital / inventory / tail / stop'')];
        yy = 404;
        dd = rows (\<lambda>yy (label, remark).
        let da = badge P label (right_x + 18) (yy - 9) (Color 1 1 1 (12 / 100)) White (Some 46) @
          fst (draw_text P remark (right_x + 74) (yy + 3) (right_w - 92) FONT_MONO (67 / 10) (HexColor ''#C9D7EE'') None (Some
            1));
            yy = yy - 27
        in (da, yy)) yy core @
      round_rect right_x 70 right_w 195 AMBER_LIGHT (HexColor ''#F0D49D'') 10 (7 / 10) @
      [SetFillColor (HexColor ''#8A5A06''), SetFont FONT_HEAD 11, DrawString (right_x + 18) 236 (uni
        ''^600e^4e48^8bfb^8fd9^5f20^56fe'')];
        notes = [
          uni ''^6b21^6570^4e0d^662f^72ec^7acb^6545^969c^6570^ff0c^4e0d^80fd^76f8^52a0^3002'',
          uni ''^5173^95ed^516c^5171^95e8^53ea^8ba9 PnL ^53ef^6d4b^ff0c^4e0d^4fdd^8bc1^4e3a^6b63^3002'',
          uni ''^6bcf^5f20^5361^4ecd^9700^81ea^5df1^7684^4fe1^53f7^3001^52a8^4f5c^4e0e^57fa^51c6^9a8c^8bc1^3002'',
          uni ''^5148^4fee^5171^540c^95e8^ff0c^6bd4^9010^5361^5199^65b0^4ee3^7801^66f4^5feb^63a5^8fd1^73b0^91d1^9a8c^8bc1^3002''];
        yy = 204
    in da @ db @ dc @ dd @ rows (\<lambda>yy remark.
        let da = [SetFillColor AMBER, Circle (right_x + 24) (yy + 3) 3 True False];
            (db, below) = draw_text P remark (right_x + 37) (yy + 8) (right_w - 55) FONT_BODY (78 / 10) INK (Some 10) (Some 2);
            yy = below - 8
        in (da @ db, yy)) yy notes @
      finish_page P page_no))"

end
