(* ===== verification/ValidatorSound.thy ===== *)
theory ValidatorSound
  imports RegistryChecks
begin

text \<open>
  What an empty list of errors means: every card of the artifact equals the card the generator
  builds from the canonical seed of the same position, so everything proved of generated cards
  holds of validated ones.
\<close>


section \<open>Reading an empty result\<close>

lemma expect_Nil: "expect b m = Inr [] \<longleftrightarrow> b = Inr True"
  by (auto simp: expect_def rmap_eq_Inr)

lemma rmap_append_Nil: "rmap ((@) es) r = Inr [] \<longleftrightarrow> es = [] \<and> r = Inr []"
  by (auto simp: rmap_eq_Inr)

lemmas nil_simps = collect_eq_Nil expect_Nil rmap_append_Nil rbind_eq_Inr rmap_eq_Inr

text \<open>Equal dictionaries have the same keys, with equal values.\<close>

lemma py_eq_keys:
  assumes "py_eq (JObj fs) (JObj gs)" "keys_distinct fs" "keys_distinct gs"
  shows "set (map fst fs) = set (map fst gs)"
proof (rule card_subset_eq)
  show "set (map fst fs) \<subseteq> set (map fst gs)"
  proof
    fix k assume "k \<in> set (map fst fs)"
    then obtain v where "(k, v) \<in> set fs" by auto
    then obtain w where "map_of gs k = Some w" using assms(1) by (auto simp: py_eq_fields_iff)
    then show "k \<in> set (map fst gs)" by (force dest: map_of_SomeD)
  qed
  show "card (set (map fst fs)) = card (set (map fst gs))"
    using assms by (simp only: distinct_card length_map py_eq.simps json.case)
qed simp

lemma py_eq_lookup:
  assumes "py_eq (JObj fs) (JObj gs)" "keys_distinct fs" "keys_distinct gs" "map_of gs k = Some w"
  shows "\<exists>v. map_of fs k = Some v \<and> py_eq v w"
proof -
  have "k \<in> set (map fst gs)" using assms(4) by (force dest: map_of_SomeD)
  then obtain v where "map_of fs k = Some v"
    using py_eq_keys [OF assms(1-3)] by (metis map_of_eq_None_iff not_None_eq set_map)
  moreover have "\<exists>w'. map_of gs k = Some w' \<and> py_eq v w'"
    using assms(1) map_of_SomeD [OF calculation] by (auto simp: py_eq_fields_iff)
  ultimately show ?thesis using assms(4) by auto
qed

lemma py_eq_dict:
  assumes "py_eq v (dict_of kvs)" "wf_json v" "keys_distinct kvs" "map_of kvs k = Some w"
  shows "\<exists>u. py_index v k = Inr u \<and> py_eq u w \<and> wf_json u"
proof -
  obtain fs where v: "v = JObj fs" using assms(1) by (cases v) (auto simp: dict_of_def num_same_def)
  obtain u where u: "map_of fs k = Some u" "py_eq u w"
    using py_eq_lookup [of fs "sorted_fields kvs" k w] assms
    by (auto simp: v dict_of_def map_of_sorted_fields keys_sorted_distinct)
  moreover have "wf_json u" using u(1) assms(2) by (force simp: v wf_fields_iff dest: map_of_SomeD)
  ultimately show ?thesis by (auto simp: v)
qed

lemma py_eq_truthy: "py_eq v (JBool b) \<Longrightarrow> truthy v = b"
  by (cases v) (auto simp: num_same_def)


section \<open>One card\<close>

lemma check_types_Nil: "check_types i v = Inr [] \<longleftrightarrow> types_ok v"
  by (auto simp: check_types_def types_ok_def nil_simps)

lemma view_of_Inr: "view_of c identity = Inr v \<Longrightarrow> v_card v = c \<and> v_identity v = identity"
  by (auto simp: view_of_def rbind_eq_Inr)

lemma check_sections_Nil:
  assumes "check_sections E seeds c identity card_id = Inr []"
  obtains i s v costs blockers where "card_id = JStr i" "map_of seeds i = Some s" "view_of c identity = Inr v"
    "v_costs v = JList costs" "v_blockers v = JList blockers" "check_typed E i s v costs blockers = Inr []"
proof -
  obtain i s v where v: "seed_get seeds card_id = Inr (Some (i, s))" "view_of c identity = Inr v"
    "check_types i v = Inr []" and
    rest: "(case (v_costs v, v_blockers v) of
            (JList costs, JList blockers) \<Rightarrow> if types_ok v then check_typed E i s v costs blockers else Inr []
          | _ \<Rightarrow> Inr []) = Inr []"
    using assms by (auto simp: check_sections_def nil_simps split: if_splits option.splits)
  have t: "types_ok v" using v(3) by (simp add: check_types_Nil)
  then obtain costs blockers where l: "v_costs v = JList costs" "v_blockers v = JList blockers"
    by (cases "v_costs v"; cases "v_blockers v") (simp_all add: types_ok_def)
  have i: "card_id = JStr i" "map_of seeds i = Some s"
    using v(1) by (auto simp: seed_get_def split: if_splits json.splits)
  show thesis using that [OF i v(2) l] rest t l by simp
qed

lemma check_typed_Nil:
  assumes "check_typed E i s v costs blockers = Inr []"
  shows "check_source i s v = Inr []" "check_data i s v blockers = Inr []" "check_result E i s v = Inr []"
  using assms by (auto simp: check_typed_def nil_simps)

lemma check_result_Nil:
  "check_result E i s v = Inr [] \<Longrightarrow> \<exists>b. build_card (sha256 E) i s = Inr b \<and> py_eq (v_card v) b"
  by (auto simp: check_result_def nil_simps)

text \<open>A card that passes is the generator's card for the seed with its identifier.\<close>

definition canonical_card :: "env \<Rightarrow> card_seeds \<Rightarrow> string \<Rightarrow> json \<Rightarrow> bool" where
  "canonical_card E seeds i c \<longleftrightarrow>
     (\<exists>s b. map_of seeds i = Some s \<and> build_card (sha256 E) i s = Inr b \<and> py_eq c b)"

lemma check_card_Nil:
  assumes "check_card E seeds c identity = Inr []"
  obtains i where "py_get identity ''experiment_id'' (JStr ''<missing>'') = Inr (JStr i)" "canonical_card E seeds i c"
    "get_is c ''definition_sha256'' (JStr (sha256_json (sha256 E) (without_key ''definition_sha256'' c))) = Inr True"
proof -
  obtain card_id where id: "py_get identity ''experiment_id'' (JStr ''<missing>'') = Inr card_id"
    and sec: "check_sections E seeds c identity card_id = Inr []" and
    sha: "get_is c ''definition_sha256'' (JStr (sha256_json (sha256 E) (without_key ''definition_sha256'' c))) = Inr True"
    using assms by (auto simp: check_card_def nil_simps)
  obtain i s v costs blockers where i: "card_id = JStr i" "map_of seeds i = Some s" "view_of c identity = Inr v"
    "check_typed E i s v costs blockers = Inr []"
    using check_sections_Nil [OF sec] .
  obtain b where "build_card (sha256 E) i s = Inr b" "py_eq (v_card v) b"
    using check_result_Nil [OF check_typed_Nil(3) [OF i(4)]] by blast
  then have "canonical_card E seeds i c"
    using i(2) view_of_Inr [OF i(3)] by (auto simp: canonical_card_def)
  then show thesis using that id sha i(1) by blast
qed


section \<open>All cards\<close>

text \<open>The identifier of a card, as the loop reads it.\<close>

definition id_of :: "json \<Rightarrow> json res" where
  "id_of c = rbind (py_get c ''identity'' (JObj [])) (\<lambda>identity. py_get identity ''experiment_id'' (JStr ''<missing>''))"

lemma check_item_Nil:
  assumes "check_item E seeds c counted = Inr (counted', [])"
  obtains i where "is_dict c" "id_of c = Inr (JStr i)" "canonical_card E seeds i c"
proof -
  obtain identity where d: "is_dict c" "py_get c ''identity'' (JObj []) = Inr identity"
      "check_card E seeds c identity = Inr []"
    using assms by (auto simp: check_item_def nil_simps split: if_splits)
  obtain i where "py_get identity ''experiment_id'' (JStr ''<missing>'') = Inr (JStr i)" "canonical_card E seeds i c"
    using check_card_Nil [OF d(3)] by blast
  then show thesis using that d by (simp add: id_of_def)
qed

lemma check_items_Nil:
  "check_items E seeds cs counted = Inr (final, []) \<Longrightarrow>
   \<forall>c \<in> set cs. is_dict c \<and> (\<exists>i. id_of c = Inr (JStr i) \<and> canonical_card E seeds i c)"
proof (induction cs arbitrary: counted)
  case (Cons c cs)
  then obtain counted' where "check_item E seeds c counted = Inr (counted', [])"
      "check_items E seeds cs counted' = Inr (final, [])"
    by (auto simp: nil_simps)
  then show ?case using check_item_Nil Cons.IH by (metis set_ConsD)
qed simp

lemma get_missing: "py_get v k (JStr d) = Inr (JStr i) \<Longrightarrow> get v k = Inr (JStr i) \<or> (get v k = Inr JNull \<and> i = d)"
  by (cases v) (auto split: option.splits)

lemma all_ids_dicts:
  assumes "\<forall>c \<in> set cs. is_dict c \<and> (\<exists>i. id_of c = Inr (JStr i) \<and> P i c)" "all_ids cs = Inr (map JStr ids)"
  shows "list_all2 P ids cs"
  using assms
proof (induction cs arbitrary: ids)
  case (Cons c cs)
  obtain i where i: "is_dict c" "id_of c = Inr (JStr i)" "P i c" using Cons.prems(1) by auto
  obtain identity where d: "py_get c ''identity'' (JObj []) = Inr identity"
      "py_get identity ''experiment_id'' (JStr ''<missing>'') = Inr (JStr i)"
    using i(2) by (auto simp: id_of_def rbind_eq_Inr)
  obtain x xs where x: "ids = x # xs" "get identity ''experiment_id'' = Inr (JStr x)" "all_ids cs = Inr (map JStr xs)"
    using Cons.prems(2) i(1) d(1) by (auto simp: nil_simps)
  have "x = i" using get_missing [OF d(2)] x(2) by auto
  then show ?case using Cons.IH [OF _ x(3)] Cons.prems(1) i x by simp
qed simp

lemma check_experiments_Nil:
  assumes "check_experiments E registry cards = Inr []"
  shows "list_all2 (canonical_card E card_seed_items) ATOMIC_IDS cards"
    "check_summary registry cards = Inr []"
    "get_is registry ''registry_sha256'' (JStr (sha256_json (sha256 E) (without_key ''registry_sha256'' registry))) = Inr True"
proof -
  obtain final where "check_items E card_seed_items cards [] = Inr (final, [])"
    using assms by (auto simp: check_experiments_def nil_simps load_card_seeds_eq)
  note items = check_items_Nil [OF this]
  have "all_ids cards = Inr (map JStr ATOMIC_IDS)"
    using assms by (auto simp: check_experiments_def check_ids_def nil_simps)
  then show "list_all2 (canonical_card E card_seed_items) ATOMIC_IDS cards" using all_ids_dicts [OF items] by simp
qed (use assms in \<open>auto simp: check_experiments_def nil_simps\<close>)

lemma validate_registry_Nil:
  assumes "validate_registry E registry = Inr []"
  obtains cards where "get registry ''experiments'' = Inr (JList cards)" "check_header E registry = Inr []"
    "check_experiments E registry cards = Inr []"
proof -
  obtain v where v: "get registry ''experiments'' = Inr v" and h: "check_header E registry = Inr []" and
    c: "(case v of JList cards \<Rightarrow> check_experiments E registry cards | _ \<Rightarrow> Inr [''experiments must be a list'']) = Inr []"
    using assms by (auto simp: validate_registry_def nil_simps)
  show thesis using that v h c by (cases v) simp_all
qed

end
