(* ===== verification/ValidatorComplete.thy ===== *)
theory ValidatorComplete
  imports ValidatorSound
begin

text \<open>
  The generator's own output passes the validation: card by card, for every admissible seed, and
  then for the registry as a whole.
\<close>


section \<open>A built card\<close>

text \<open>The texts of a seed that a card must not leave empty.\<close>

definition seed_texts_ok :: "seed \<Rightarrow> bool" where
  "seed_texts_ok s \<longleftrightarrow> seed_hypothesis s \<noteq> [] \<and> trigger (seed_signal s) \<noteq> []
     \<and> direction_semantics (seed_signal s) \<noteq> [] \<and> decision_clock (seed_signal s) \<noteq> []
     \<and> forecast_horizon (seed_signal s) \<noteq> [] \<and> falsifier (seed_signal s) \<noteq> []"

text \<open>A card of the generator with the parts it was built from.\<close>

definition built :: "(string \<Rightarrow> string) \<Rightarrow> string \<Rightarrow> seed \<Rightarrow> parts \<Rightarrow> json list \<Rightarrow> json \<Rightarrow> json \<Rightarrow> json \<Rightarrow> bool" where
  "built sha i s p gaps identity result c \<longleftrightarrow>
     seed_admissible s \<and> seed_texts_ok s
   \<and> derive_parts i s = Inr p \<and> traverse (gap_contract i) (part_blockers p) = Inr gaps
   \<and> identity_json i = Inr identity \<and> current_result_json i s = Inr result
   \<and> c = dict_of (card_body i s p identity result gaps @
       [(''definition_sha256'', JStr (sha256_json sha (dict_of (card_body i s p identity result gaps))))])"

lemma builtI:
  assumes "seed_admissible s" "seed_texts_ok s" "build_card sha i s = Inr c"
  obtains p gaps identity result where "built sha i s p gaps identity result c"
  using assms by (auto simp: built_def build_card_Inr)

lemma built_build: "built sha i s p gaps identity result c \<Longrightarrow> build_card sha i s = Inr c"
  by (auto simp: built_def build_card_Inr)

lemma built_tidy: "built sha i s p gaps identity result c \<Longrightarrow> tidy c"
  using built_build tidy_build_card by blast

lemma tidy_py_eq [simp]: "tidy v \<Longrightarrow> py_eq v v"
  by (simp add: tidy_def py_eq_refl)

lemma built_keys_distinct:
  "keys_distinct (card_body i s p identity result gaps @ [(''definition_sha256'', h)])"
  by (simp add: card_body_keys)

lemma built_index:
  assumes "built sha i s p gaps identity result c"
  shows "py_index c ''identity'' = Inr identity"
    "py_index c ''classification'' = Inr (dict_of (classification_fields (card_class s p)))"
    "py_index c ''hypothesis'' = Inr (hypothesis_json s (part_action p))"
    "py_index c ''signal'' = Inr (dict_of (signal_fields (seed_signal s)))"
    "py_index c ''action'' = Inr (card_action_json s (part_action p))"
    "py_index c ''venue'' = Inr (dict_of (venue_fields (part_venue p)))"
    "py_index c ''baseline'' = Inr (dict_of (baseline_fields (part_baseline p)))"
    "py_index c ''pnl'' = Inr (dict_of (pnl_fields (part_pnl p)))"
    "py_index c ''costs'' = Inr (costs_json (part_costs p))"
    "py_index c ''data'' = Inr (data_json (seed_data_profile s) (part_data p) gaps)"
    "py_index c ''external_sports_data'' = Inr (dict_of (external_fields (part_external p)))"
    "py_index c ''current_result'' = Inr result"
    "py_index c ''blockers'' = Inr (jstrs (part_blockers p))"
    "py_index c ''definition_sha256'' = Inr (JStr (sha256_json sha (dict_of (card_body i s p identity result gaps))))"
  using assms by (simp_all add: built_def py_index_dict_of card_body_keys)
    (simp_all add: card_body_def)

lemma py_get_index: "py_index v k = Inr w \<Longrightarrow> py_get v k d = Inr w"
  by (cases v) (auto split: option.splits)

lemma built_view:
  assumes "built sha i s p gaps identity result c"
  shows "view_of c identity = Inr \<lparr>v_card = c, v_identity = identity,
     v_action = card_action_json s (part_action p),
     v_venue = dict_of (venue_fields (part_venue p)),
     v_baseline = dict_of (baseline_fields (part_baseline p)),
     v_pnl = dict_of (pnl_fields (part_pnl p)),
     v_classification = dict_of (classification_fields (card_class s p)),
     v_costs = costs_json (part_costs p),
     v_data = data_json (seed_data_profile s) (part_data p) gaps,
     v_ext = dict_of (external_fields (part_external p)),
     v_blockers = jstrs (part_blockers p)\<rparr>"
  by (simp add: view_of_def built_index [OF assms])

lemma built_identity:
  assumes "built sha i s p gaps identity result c"
  shows "py_index identity ''experiment_id'' = Inr (JStr i)"
    "py_index identity ''family_code'' = Inr (JStr (take 1 i))" "tidy identity" "is_dict identity" "i \<noteq> []"
proof -
  have "identity_json i = Inr identity" using assms by (simp add: built_def)
  moreover from this show "tidy identity" by (rule tidy_identity)
  ultimately show "py_index identity ''experiment_id'' = Inr (JStr i)"
    "py_index identity ''family_code'' = Inr (JStr (take 1 i))" "is_dict identity" "i \<noteq> []"
    by (auto simp: identity_json_def py_index_dict_of split: list.splits option.splits)
qed

text \<open>The stored hash is the hash of the card without it.\<close>

lemma without_key_dict_of:
  "keys_distinct (kvs @ [(k, v)]) \<Longrightarrow> without_key k (dict_of (kvs @ [(k, v)])) = dict_of kvs"
  using sorted_fields_put [of kvs k v] by (simp add: dict_of_def)

lemma built_sha:
  assumes "built sha i s p gaps identity result c"
  shows "get_is c ''definition_sha256'' (JStr (sha256_json sha (without_key ''definition_sha256'' c))) = Inr True"
proof -
  have "without_key ''definition_sha256'' c = dict_of (card_body i s p identity result gaps)"
    using assms without_key_dict_of [OF built_keys_distinct] by (simp add: built_def)
  then show ?thesis
    by (simp add: get_is_def py_get_index [OF built_index(14) [OF assms]])
qed

section \<open>The checks of the loop body, one by one\<close>

lemma check_source_built:
  assumes "built sha i s p gaps identity result c" "view_of c identity = Inr v"
  shows "check_source i s v = Inr []"
proof -
  have f: "identity_json i = Inr identity" "action_profile (seed_action_profile s) = Inr (part_action p)"
    using assms(1) by (auto simp: built_def derive_parts_Inr)
  have v: "v_card v = c" "v_identity v = identity" "v_action v = card_action_json s (part_action p)"
    using assms by (auto simp: built_view)
  show ?thesis
    by (simp add: check_source_def nil_simps f v built_index [OF assms(1)] built_identity(3) [OF assms(1)] get_is_def
        hypothesis_json_def py_get_dict_of card_action_json_def action_fields_def tidy_dict_of)
qed

lemma profile_of_parts:
  assumes "built sha i s p gaps identity result c"
  shows "action_contract_ok (seed_action_profile s)"
    "action_profile (seed_action_profile s) = Inr (part_action p)"
    "venue_for (seed_action_profile s) = Inr (part_venue p)"
    "external_contract (seed_external_dependency s) i = Inr (part_external p)"
    "part_baseline p = baseline_for (seed_action_profile s)" "part_pnl p = pnl_for (seed_action_profile s)"
    "part_costs p = costs_for (seed_action_profile s) (seed_external_dependency s)"
  using assms by (auto simp: built_def derive_parts_Inr seed_admissible_def intro: action_contract_okD)

lemma in_set_JStr [simp]: "in_set (JStr x) xs = Inr (x \<in> set xs)"
  by (auto simp: in_set_def)

lemma external_dependency_known:
  assumes "built sha i s p gaps identity result c"
  shows "ext_dependency (part_external p) = seed_external_dependency s"
    "seed_external_dependency s \<in> set EXTERNAL_DEPENDENCIES"
proof -
  have d: "seed_external_dependency s \<in> set SEED_EXTERNAL_DEPENDENCIES"
    using assms by (simp add: built_def seed_admissible_def)
  then show "seed_external_dependency s \<in> set EXTERNAL_DEPENDENCIES"
    by (auto simp: SEED_EXTERNAL_DEPENDENCIES_def EXTERNAL_DEPENDENCIES_def)
  show "ext_dependency (part_external p) = seed_external_dependency s"
    using external_contract_ok [OF d, of i] profile_of_parts(4) [OF assms] by (metis sum.inject(2))
qed

lemma check_contracts_built:
  assumes "built sha i s p gaps identity result c" "view_of c identity = Inr v"
  shows "check_contracts i s v = Inr []"
proof -
  have v: "v_card v = c" "v_action v = card_action_json s (part_action p)"
     "v_venue v = dict_of (venue_fields (part_venue p))" "v_baseline v = dict_of (baseline_fields (part_baseline p))"
     "v_pnl v = dict_of (pnl_fields (part_pnl p))" "v_costs v = costs_json (part_costs p)"
     "v_ext v = dict_of (external_fields (part_external p))"
    using assms by (auto simp: built_view)
  have ok: "execution_venue (part_venue p) \<in> set EXECUTION_VENUES"
    using profile_of_parts(1-3) [OF assms(1)] by (simp add: action_contract_ok_def Let_def)
  have texts: "seed_texts_ok s" using assms(1) by (simp add: built_def)
  have hyp: "falsifiable_statement s (part_action p) \<noteq> []" by (simp add: falsifiable_statement_def)
  note parts = profile_of_parts(3-7) [OF assms(1)]
  show ?thesis
    using texts
    by (simp add: check_contracts_def nil_simps v built_index [OF assms(1)] parts(1,2) parts(3-5) [symmetric]
        get_is_def get_true_def index_true_def hypothesis_json_def py_get_dict_of py_index_dict_of hyp seed_texts_ok_def
        signal_fields_def venue_fields_def card_action_json_def action_fields_def ok external_fields_def
        external_dependency_known [OF assms(1)] tidy_dict_of)
qed

lemma jopt_truthy [simp]: "truthy (jopt x) = opt_truthy x"
  by (simp add: opt_truthy_def)

declare truthy_jopt [simp del]

lemma no_action_costs:
  assumes "built sha i s p gaps identity result c"
  shows "has_action (part_action p) \<longleftrightarrow> seed_action_profile s \<notin> set [''NO_ACTION'', ''MODEL_COMPONENT'', ''CONTROL_ONLY'']"
  using assms action_of_parts [of s i p] by (simp add: built_def)

lemma never_eligible:
  assumes "built sha i s p gaps identity result c"
  shows "\<not> strategy_eligible (card_class s p)"
  using assms card_never_eligible [of s i p] by (simp add: built_def)

lemma check_no_action_built:
  assumes "built sha i s p gaps identity result c" "view_of c identity = Inr v" "\<not> has_action (part_action p)"
  shows "check_no_action i v = Inr []"
proof -
  have v: "v_card v = c" "v_venue v = dict_of (venue_fields (part_venue p))" "v_pnl v = dict_of (pnl_fields (part_pnl p))"
     "v_classification v = dict_of (classification_fields (card_class s p))"
    using assms by (auto simp: built_view)
  have ok: "execution_venue (part_venue p) = ''NONE''" "pnl_status (part_pnl p) = ''NOT_DEFINED_NOT_A_STRATEGY''"
    using profile_of_parts [OF assms(1)] assms(3) by (auto simp: action_contract_ok_def Let_def)
  have "part_costs p = []"
    using profile_of_parts(7) [OF assms(1)] no_action_costs [OF assms(1)] assms(3) costs_for_has_action(2) by simp
  then show ?thesis
    by (simp add: check_no_action_def nil_simps v built_index [OF assms(1)] index_is_def index_true_def ok
        py_index_dict_of venue_fields_def pnl_fields_def classification_fields_def never_eligible [OF assms(1)] costs_json_def
        opt_field_def split: option.splits)
qed

lemma cost_is_valid_json: "cost_valid c \<Longrightarrow> cost_is_valid (cost_json c) = Inr True"
  by (simp add: cost_is_valid_def cost_json_def py_get_dict_of cost_valid_def get_true_def)

lemma check_costs_valid:
  "list_all cost_valid cs \<Longrightarrow> check_costs i n (map cost_json cs) = Inr (True, [])"
  by (induction cs arbitrary: n) (simp_all add: cost_is_valid_json)

lemma cost_blockers_json_eq: "cost_blockers_json (map cost_json cs) = cost_blockers cs"
  by (induction cs) (simp_all add: cost_json_def py_index_dict_of py_str_def split: option.splits)

lemma built_cost_blockers:
  assumes "built sha i s p gaps identity result c" "has_action (part_action p)"
  obtains bs where "cost_blockers (part_costs p) = Inr bs" "set bs \<subseteq> set (part_blockers p)"
proof -
  obtain d where "expected_blockers s d (part_external p) (part_costs p) True = Inr (part_blockers p)"
    using assms by (auto simp: built_def derive_parts_Inr)
  then show thesis using that by (fastforce simp: expected_blockers_set)
qed

lemma truthy_opt_list: "x \<noteq> None \<Longrightarrow> x \<noteq> Some [] \<Longrightarrow> \<exists>ys. x = Some ys \<and> ys \<noteq> []"
  by (cases x) auto

lemma opt_truthy_Some: "opt_truthy x \<Longrightarrow> \<exists>y. x = Some y \<and> y \<noteq> []"
  by (simp add: opt_truthy_def split: option.splits)

lemma pnl_gets:
  "py_get (dict_of (pnl_fields q)) ''formula'' JNull = Inr (jopt (formula q))"
  "py_get (dict_of (pnl_fields q)) ''incremental_formula'' JNull = Inr (jopt (incremental_formula q))"
  "py_get (dict_of (pnl_fields q)) ''zero_fill_treatment'' JNull = Inr (jopt (zero_fill_treatment q))"
  "py_get (dict_of (pnl_fields q)) ''capacity_rule'' JNull = Inr (jopt (capacity_rule q))"
  "py_get (dict_of (pnl_fields q)) ''markout_rule'' JNull = Inr (jopt (markout_rule q))"
  "py_get (dict_of (pnl_fields q)) ''denominators'' JNull = Inr (case denominators q of None \<Rightarrow> JNull | Some ds \<Rightarrow> jstrs ds)"
  "py_index (dict_of (pnl_fields q)) ''basis'' = Inr (JStr (basis q))"
proof -
  have d: "keys_distinct (pnl_fields q)" by (simp add: pnl_fields_def opt_field_def split: option.splits)
  show "py_get (dict_of (pnl_fields q)) ''formula'' JNull = Inr (jopt (formula q))"
    "py_get (dict_of (pnl_fields q)) ''incremental_formula'' JNull = Inr (jopt (incremental_formula q))"
    "py_get (dict_of (pnl_fields q)) ''zero_fill_treatment'' JNull = Inr (jopt (zero_fill_treatment q))"
    "py_get (dict_of (pnl_fields q)) ''capacity_rule'' JNull = Inr (jopt (capacity_rule q))"
    "py_get (dict_of (pnl_fields q)) ''markout_rule'' JNull = Inr (jopt (markout_rule q))"
    "py_get (dict_of (pnl_fields q)) ''denominators'' JNull = Inr (case denominators q of None \<Rightarrow> JNull | Some ds \<Rightarrow> jstrs ds)"
    "py_index (dict_of (pnl_fields q)) ''basis'' = Inr (JStr (basis q))"
    by (simp_all add: py_get_dict_of [OF d] py_index_dict_of [OF d])
       (simp_all add: pnl_fields_def opt_field_def jopt_def split: option.splits)
qed

lemma check_action_built:
  assumes "built sha i s p gaps identity result c" "view_of c identity = Inr v" "has_action (part_action p)"
  shows "check_action i v (map cost_json (part_costs p)) (map JStr (part_blockers p)) = Inr []"
proof -
  let ?a = "part_action p" and ?b = "part_baseline p" and ?q = "part_pnl p"
  have v: "v_action v = card_action_json s ?a" "v_venue v = dict_of (venue_fields (part_venue p))"
     "v_baseline v = dict_of (baseline_fields ?b)" "v_pnl v = dict_of (pnl_fields ?q)"
    using assms by (auto simp: built_view)
  have ok: "seed_action_profile s \<notin> set [''NO_ACTION'', ''MODEL_COMPONENT'', ''CONTROL_ONLY'']
      \<and> list_all opt_truthy [signal_to_action_mapping ?a, instrument_side ?a, order_style ?a, price_rule ?a,
          quantity_rule ?a, timing_and_cancel ?a, exit_or_settlement ?a]
      \<and> kill_conditions ?a \<noteq> [] \<and> execution_venue (part_venue p) \<noteq> ''NONE''
      \<and> baseline_id ?b \<noteq> None \<and> baseline_type ?b \<in> set BASELINE_TYPES
      \<and> opt_truthy (policy ?b) \<and> opt_truthy (comparability ?b) \<and> basis ?q = ''PATHWISE_AFTER_COST''
      \<and> list_all opt_truthy [formula ?q, incremental_formula ?q, markout_rule ?q, zero_fill_treatment ?q, capacity_rule ?q]
      \<and> denominators ?q \<noteq> None \<and> denominators ?q \<noteq> Some []"
    using profile_of_parts [OF assms(1)] assms(3) by (simp add: action_contract_ok_def Let_def)
  obtain bs where bs: "cost_blockers (part_costs p) = Inr bs" "set bs \<subseteq> set (part_blockers p)"
    using built_cost_blockers [OF assms(1,3)] .
  have "COMMON_COST_COMPONENTS \<noteq> []" by (simp add: COMMON_COST_COMPONENTS_def)
  then have ne: "part_costs p \<noteq> []"
    using profile_of_parts(7) [OF assms(1)]
      costs_for_has_action(1) [OF conjunct1 [OF ok], of "seed_external_dependency s"] by auto
  have cv: "list_all cost_valid (part_costs p)"
    using profile_of_parts(7) [OF assms(1)] costs_valid by (simp add: list_all_iff)
  have sub: "subset_of_json bs (map JStr (part_blockers p)) = Inr True"
    using bs(2) by (auto simp: subset_of_json_def list_all_iff)
  have reg: "opt_truthy (registered_signal_to_action s ?a)"
    using assms(3) by (simp add: registered_signal_to_action_def opt_truthy_def)
  obtain y where y: "baseline_id ?b = Some y" using ok by auto
  obtain ds where ds: "denominators ?q = Some ds" "ds \<noteq> []" using ok truthy_opt_list by blast
  show ?thesis
    by (simp add: check_action_def nil_simps v get_true_def index_is_def card_action_json_def action_fields_def
        py_get_dict_of py_index_dict_of venue_fields_def baseline_fields_def pnl_gets ok [simplified] ds ne reg y jopt_def [of "Some y"]
        check_costs_valid [OF cv] cost_blockers_json_eq bs(1) sub)
qed

lemma gap_contract_keys:
  assumes "gap_contract i b = Inr g"
  shows "get g ''blocker'' = Inr (JStr b)" "get g ''unknown_value_policy'' = Inr (JStr ''BLOCK_NOT_ZERO'')"
    "\<exists>m q. get g ''missing_evidence'' = Inr (JStr m) \<and> get g ''acquisition_or_build_path'' = Inr (JStr q)
      \<and> (\<exists>stage. map_of BLOCKER_REMEDIATION_CATALOG b = Some (m, q, stage) \<or> map_of CARD_SPECIFIC_GAP_OVERRIDES (i, b) = Some (m, q))"
  using assms
  by (auto simp: gap_contract_def Let_def py_get_dict_of split: option.splits prod.splits)

lemma remediation_texts:
  "list_all (\<lambda>(_, m, q, _). m \<noteq> [] \<and> q \<noteq> []) BLOCKER_REMEDIATION_CATALOG"
  "list_all (\<lambda>(_, m, q). m \<noteq> [] \<and> q \<noteq> []) CARD_SPECIFIC_GAP_OVERRIDES"
  by code_simp+

lemma gap_complete_contract: "gap_contract i b = Inr g \<Longrightarrow> gap_complete g = Inr True"
proof -
  assume g: "gap_contract i b = Inr g"
  obtain m q stage where m: "get g ''missing_evidence'' = Inr (JStr m)" "get g ''acquisition_or_build_path'' = Inr (JStr q)"
      "map_of BLOCKER_REMEDIATION_CATALOG b = Some (m, q, stage) \<or> map_of CARD_SPECIFIC_GAP_OVERRIDES (i, b) = Some (m, q)"
    using gap_contract_keys(3) [OF g] by blast
  have "m \<noteq> [] \<and> q \<noteq> []"
    using m(3)
  proof
    assume "map_of BLOCKER_REMEDIATION_CATALOG b = Some (m, q, stage)"
    then have "(b, m, q, stage) \<in> set BLOCKER_REMEDIATION_CATALOG" by (rule map_of_SomeD)
    then show ?thesis using remediation_texts(1) by (auto simp: list_all_iff)
  next
    assume "map_of CARD_SPECIFIC_GAP_OVERRIDES (i, b) = Some (m, q)"
    then have "((i, b), m, q) \<in> set CARD_SPECIFIC_GAP_OVERRIDES" by (rule map_of_SomeD)
    then show ?thesis using remediation_texts(2) by (auto simp: list_all_iff)
  qed
  then show ?thesis by (simp add: gap_complete_def get_true_def get_is_def m gap_contract_keys(2) [OF g])
qed

lemma gaps_blockers:
  "traverse (gap_contract i) bs = Inr gaps \<Longrightarrow>
   traverse (\<lambda>g. get g ''blocker'') gaps = Inr (map JStr bs) \<and> rall gap_complete gaps = Inr True"
proof (induction bs arbitrary: gaps)
  case (Cons b bs)
  then obtain g gs where "gap_contract i b = Inr g" "traverse (gap_contract i) bs = Inr gs" "gaps = g # gs"
    by (auto simp: rbind_eq_Inr rmap_eq_Inr)
  then show ?case using Cons.IH gap_contract_keys(1) gap_complete_contract by simp
qed simp

lemma data_json_gets:
  "py_get (data_json prof_name d gaps) ''critical_gaps'' x = Inr (JList gaps)"
  "py_get (data_json prof_name d gaps) ''study_dates'' x = Inr (study_dates prof_name (JStr (signal_event (can_compute_now d))))"
  "py_index (data_json prof_name d gaps) ''study_dates'' = Inr (study_dates prof_name (JStr (signal_event (can_compute_now d))))"
  "py_index2 (data_json prof_name d gaps) ''can_compute_now'' ''signal_event'' = Inr (JStr (signal_event (can_compute_now d)))"
  "py_index (data_json prof_name d gaps) ''profile_id'' = Inr (JStr prof_name)"
  by (simp_all add: data_json_def data_fields_def py_get_dict_of py_index_dict_of py_index2_def can_compute_json_def)

lemma check_data_built:
  assumes "built sha i s p gaps identity result c" "view_of c identity = Inr v"
  shows "check_data i s v (map JStr (part_blockers p)) = Inr []"
proof -
  have v: "v_data v = data_json (seed_data_profile s) (part_data p) gaps"
     "v_classification v = dict_of (classification_fields (card_class s p))"
    using assms by (auto simp: built_view)
  have f: "derive_parts i s = Inr p" "traverse (gap_contract i) (part_blockers p) = Inr gaps"
    using assms(1) by (simp_all add: built_def)
  have known: "set (part_blockers p) \<subseteq> set CRITICAL_BLOCKERS"
    using assms(1) derive_parts_total [of s i] by (metis built_def sum.inject(2))
  then have "rall (\<lambda>b. in_set b CRITICAL_BLOCKERS) (map JStr (part_blockers p)) = Inr True"
    by (auto simp: rall_eq_True)
  then show ?thesis
    using gaps_blockers [OF f(2)] tidy_gaps [OF f(2)] py_eq_refl [OF wf_jstrs]
    by (simp add: check_data_def nil_simps v f data_json_gets jstrs_def)
qed

lemma append_new_superset: "set vs \<union> set xs \<subseteq> set (append_new xs vs)"
proof (induction xs arbitrary: vs)
  case (Cons x xs)
  have "set (if x \<in> set vs then vs else vs @ [x]) \<union> set xs
      \<subseteq> set (append_new xs (if x \<in> set vs then vs else vs @ [x]))"
    by (rule Cons.IH)
  then show ?case by (auto simp: append_new_def)
qed (simp add: append_new_def)

lemma append_new_mem: "x \<in> set xs \<Longrightarrow> x \<in> set (append_new xs vs)"
  using append_new_superset by blast

lemma external_required:
  assumes "external_contract dep i = Inr ext"
  shows "dep = ''REQUIRED'' \<Longrightarrow> availability ext = ''MISSING'' \<and> missing_policy ext = ''BLOCK_NO_IMPUTE''
      \<and> mapping_variable \<in> set (required_variables ext) \<and> ''EXTERNAL_SPORTS_DATA_MISSING'' \<in> set (ext_blockers ext)"
    "dep = ''OPTIONAL_REFINEMENT'' \<Longrightarrow> availability ext = ''MISSING_OPTIONAL_REFINEMENT''
      \<and> missing_policy ext = ''DO_NOT_IMPUTE_CORE_MAY_RUN_WITHOUT_FIELD'' \<and> ext_blockers ext = []"
  using assms by (auto simp: external_contract_def intro!: append_new_mem)

lemma built_external_blockers:
  assumes "built sha i s p gaps identity result c"
  shows "set (ext_blockers (part_external p)) \<subseteq> set (part_blockers p)"
    "has_action (part_action p) \<Longrightarrow> seed_external_dependency s = ''REQUIRED'' \<Longrightarrow>
      ''INSTRUMENT_MAPPING_UNKNOWN'' \<in> set (part_blockers p)"
    "seed_action_profile s \<in> set CHILD_DEPENDENT_ACTION_PROFILES \<Longrightarrow>
      ''CONFIRMED_CHILD_STRATEGIES_MISSING'' \<in> set (part_blockers p)"
  using assms by (auto simp: built_def derive_parts_Inr expected_blockers_set)

lemma data_api_cost:
  assumes "built sha i s p gaps identity result c" "has_action (part_action p)" "seed_external_dependency s = ''REQUIRED''"
  shows "rany (\<lambda>k. get_is k ''type'' (JStr ''DATA_API'')) (map cost_json (part_costs p)) = Inr True"
proof -
  have "\<exists>k \<in> set (part_costs p). cost_type k = ''DATA_API''"
    using profile_of_parts(7) [OF assms(1)] no_action_costs [OF assms(1)] assms(2,3) by (auto simp: costs_for_def)
  moreover have "rany (\<lambda>k. get_is k ''type'' (JStr t)) (map cost_json ks) = Inr (\<exists>k \<in> set ks. cost_type k = t)" for t ks
    by (induction ks) (auto simp: get_is_def cost_json_def py_get_dict_of ror_def)
  ultimately show ?thesis by simp
qed

lemma check_external_built:
  assumes "built sha i s p gaps identity result c" "view_of c identity = Inr v"
  shows "check_external i v (map cost_json (part_costs p)) (map JStr (part_blockers p)) (has_action (part_action p)) = Inr []"
proof -
  let ?x = "part_external p"
  have v: "v_ext v = dict_of (external_fields ?x)" "v_classification v = dict_of (classification_fields (card_class s p))"
    using assms by (auto simp: built_view)
  note ext = profile_of_parts(4) [OF assms(1)] and dep = external_dependency_known(1) [OF assms(1)]
  have d: "get_is (v_ext v) ''dependency'' (JStr t) = Inr (seed_external_dependency s = t)" for t
    by (simp add: v py_get_dict_of get_is_def external_fields_def dep)
  have "seed_external_dependency s = ''REQUIRED'' \<Longrightarrow>
      check_required i v (map cost_json (part_costs p)) (map JStr (part_blockers p)) (has_action (part_action p)) = Inr []"
    using external_required(1) [OF ext] built_external_blockers [OF assms(1)] data_api_cost [OF assms(1)]
    by (cases "has_action (part_action p)") (simp_all add: check_required_def nil_simps v py_get_dict_of py_index_dict_of index_is_def index_true_def external_fields_def jstrs_def
        classification_fields_def subset_iff never_eligible [OF assms(1)])
  moreover have "seed_external_dependency s = ''OPTIONAL_REFINEMENT'' \<Longrightarrow> ext_blockers ?x = []
      \<and> availability ?x = ''MISSING_OPTIONAL_REFINEMENT'' \<and> missing_policy ?x = ''DO_NOT_IMPUTE_CORE_MAY_RUN_WITHOUT_FIELD''"
    using external_required(2) [OF ext] by simp
  ultimately show ?thesis
    by (simp add: check_external_def nil_simps d) (simp add: v py_index_dict_of index_is_def index_true_def external_fields_def)
qed

lemma check_dates_built:
  assumes "built sha i s p gaps identity result c" "view_of c identity = Inr v"
  shows "check_dates i s v (map JStr (part_blockers p)) = Inr []"
proof -
  let ?st = "signal_event (can_compute_now (part_data p))"
  have v: "v_data v = data_json (seed_data_profile s) (part_data p) gaps"
    using assms by (auto simp: built_view)
  have eqd: "py_eq (study_dates (seed_data_profile s) (JStr ?st)) (study_dates (seed_data_profile s) (JStr ?st))"
    by simp
  have el: "py_index (study_dates prof_name (JStr st)) ''eligible_for_current_signal_description''
      = Inr (jstrs (if st = ''YES'' then potential_dates prof_name else []))" for prof_name st
    by (simp add: study_dates_def py_index_dict_of)
  have "''MISSING_SIGNAL_INPUT'' \<in> set (part_blockers p) \<Longrightarrow> ?st = ''NO''"
    using assms(1) by (auto simp: built_def derive_parts_Inr effective_data_def)
  then show ?thesis
    by (auto simp: check_dates_def v data_json_gets get_is_def eqd nil_simps py_index2_def el data_json_gets(4) [unfolded py_index2_def])
qed

lemma check_result_built:
  assumes "built (sha256 E) i s p gaps identity result c" "view_of c identity = Inr v"
  shows "check_result E i s v = Inr []"
proof -
  have v: "v_card v = c" using assms by (auto simp: built_view)
  obtain st where st: "py_index (observed_signal i) ''status'' = Inr (JStr st)" using observed_signal_ok(2) by blast
  have "current_result_json i s = Inr result" using assms(1) by (simp add: built_def)
  then have r: "result = dict_of [
         (''status'', JStr st),
         (''claim_tier'', JStr (claim_tier_for_observation st)),
         (''registry_design_status'', JStr (seed_result_status s)),
         (''registered_claim_ceiling'', JStr (seed_claim_tier s)),
         (''observed_signal'', observed_signal i),
         (''strategy_pnl_claim'', JStr ''NONE''),
         (''live_pnl_claim'', JStr ''NONE''),
         (''note'', JStr ''A descriptive signal result does not establish fillability, fee-after PnL, capacity, or live profitability.'')]"
    by (simp add: current_result_json_def st)
  show ?thesis
    using built_tidy [OF assms(1)] observed_signal_ok(1) [of i]
    by (simp add: check_result_def nil_simps v built_index [OF assms(1)] r get_is_def index_is_def py_get_dict_of
        py_index_dict_of built_build [OF assms(1)])
qed

section \<open>The loop\<close>

lemma check_typed_built:
  assumes "built (sha256 E) i s p gaps identity result c" "view_of c identity = Inr v"
  shows "check_typed E i s v (map cost_json (part_costs p)) (map JStr (part_blockers p)) = Inr []"
proof -
  have "v_action v = card_action_json s (part_action p)" using assms by (auto simp: built_view)
  then have "get_true (v_action v) ''action_type'' = Inr (has_action (part_action p))"
    by (simp add: get_true_def card_action_json_def action_fields_def py_get_dict_of has_action_def)
  then show ?thesis
    by (simp add: check_typed_def nil_simps check_source_built [OF assms] check_contracts_built [OF assms]
        check_action_built [OF assms] check_no_action_built [OF assms] check_data_built [OF assms]
        check_external_built [OF assms] check_dates_built [OF assms] check_result_built [OF assms])
qed

lemma py_iter_dict_of: "py_iter (dict_of kvs) = Inr (map (\<lambda>(k, _). JStr k) (sorted_fields kvs))"
  by (simp add: dict_of_def)

lemma built_sections:
  assumes "built sha i s p gaps identity result c"
  shows "\<exists>keys. py_iter c = Inr keys \<and> list_all (\<lambda>k. JStr k \<in> set keys) required_sections"
proof -
  let ?kvs = "card_body i s p identity result gaps @
    [(''definition_sha256'', JStr (sha256_json sha (dict_of (card_body i s p identity result gaps))))]"
  have c: "c = dict_of ?kvs" using assms by (simp add: built_def)
  have "JStr k \<in> set (map (\<lambda>(k, _). JStr k) (sorted_fields ?kvs)) \<longleftrightarrow> k \<in> set (map fst ?kvs)" for k
    unfolding set_map set_sorted_fields [OF built_keys_distinct] by force
  moreover have "list_all (\<lambda>k. k \<in> set (map fst ?kvs)) required_sections"
    by (simp add: card_body_keys required_sections_def)
  ultimately show ?thesis unfolding c py_iter_dict_of by (simp only: sum.inject list_all_iff) auto
qed

lemma is_dict_json [simp]:
  "is_dict (card_action_json s a)" "is_dict (data_json q d gaps)" "is_list (costs_json cs)"
  by (simp_all add: card_action_json_def data_json_def costs_json_def)

lemma built_types:
  assumes "built sha i s p gaps identity result c" "view_of c identity = Inr v"
  shows "types_ok v" "v_costs v = JList (map cost_json (part_costs p))" "v_blockers v = JList (map JStr (part_blockers p))"
  using assms by (auto simp: built_view types_ok_def costs_json_def jstrs_def)

lemma check_card_built:
  assumes b: "built (sha256 E) i s p gaps identity result c" and s: "map_of seeds i = Some s"
  shows "check_card E seeds c identity = Inr []"
proof -
  obtain v where v: "view_of c identity = Inr v" using built_view [OF b] by blast
  obtain keys where k: "py_iter c = Inr keys" "list_all (\<lambda>k. JStr k \<in> set keys) required_sections"
    using built_sections [OF b] by blast
  have "seed_get seeds (JStr i) = Inr (Some (i, s))" by (simp add: seed_get_def s)
  then have "check_sections E seeds c identity (JStr i) = Inr []"
    using built_types [OF b v] check_typed_built [OF b v]
    by (simp add: check_sections_def k v nil_simps check_types_Nil)
  then show ?thesis
    by (simp add: check_card_def nil_simps py_get_index [OF built_identity(1) [OF b]] built_sha [OF b])
qed

lemma built_is_dict: "built sha i s p gaps identity result c \<Longrightarrow> is_dict c"
  by (simp add: built_def)

lemma check_item_built:
  assumes b: "built (sha256 E) i s p gaps identity result c" and s: "map_of seeds i = Some s"
  shows "check_item E seeds c counted = Inr (bump (JStr (take 1 i)) counted, [])"
  using built_is_dict [OF b] check_card_built [OF b s]
  by (simp add: check_item_def py_get_index [OF built_index(1) [OF b]] py_get_index [OF built_identity(1) [OF b]]
      py_get_index [OF built_identity(2) [OF b]] count_key_def)

text \<open>The cards of a list of identifiers, each built from the seed the dictionary has for it.\<close>

definition cards_for :: "(string \<Rightarrow> string) \<Rightarrow> card_seeds \<Rightarrow> string list \<Rightarrow> json list \<Rightarrow> bool" where
  "cards_for sha seeds ids cards \<longleftrightarrow>
     list_all2 (\<lambda>i c. \<exists>s p gaps identity result. map_of seeds i = Some s \<and> built sha i s p gaps identity result c) ids cards"

lemma cards_for_Cons:
  "cards_for sha seeds (i # ids) cards \<longleftrightarrow>
     (\<exists>c cs s p gaps identity result. cards = c # cs \<and> map_of seeds i = Some s
        \<and> built sha i s p gaps identity result c \<and> cards_for sha seeds ids cs)"
  by (simp add: cards_for_def list_all2_Cons1) blast

lemma check_items_built:
  "cards_for (sha256 E) seeds ids cards \<Longrightarrow>
   check_items E seeds cards counted = Inr (fold bump (map (\<lambda>i. JStr (take 1 i)) ids) counted, [])"
proof (induction ids arbitrary: cards counted)
  case Nil
  then show ?case by (simp add: cards_for_def)
next
  case (Cons i ids)
  then show ?case by (auto simp: cards_for_Cons check_item_built)
qed

lemma all_ids_built: "cards_for sha seeds ids cards \<Longrightarrow> all_ids cards = Inr (map JStr ids)"
proof (induction ids arbitrary: cards)
  case Nil
  then show ?case by (simp add: cards_for_def)
next
  case (Cons i ids)
  then show ?case
    by (auto simp: cards_for_Cons built_is_dict py_get_index [OF built_index(1)] py_get_index [OF built_identity(1)])
qed

lemma index_by_id_built:
  "cards_for sha seeds ids cards \<Longrightarrow> index_by_id cards = Inr (rev (zip (map JStr ids) cards))"
proof (induction ids arbitrary: cards)
  case Nil
  then show ?case by (simp add: cards_for_def)
next
  case (Cons i ids)
  then show ?case by (auto simp: cards_for_Cons py_index2_def built_index(1) built_identity(1))
qed

end
