(* ===== verification/UpperText.thy ===== *)
theory UpperText
  imports ValidatorComplete
begin

text \<open>
  Searching JSON text without regard to case: what the validation of the public RFQ guards does
  with \<^verbatim>\<open>_canonical_json(card["action"]).decode("utf-8").upper()\<close>, reduced to a search in the strings
  of the value.
\<close>


section \<open>Searching upper-cased text\<close>

text \<open>
  On ASCII text a search in \<^verbatim>\<open>s.upper()\<close> is a search in \<open>s\<close> that ignores case, which evaluates
  without computing the upper case.
\<close>

fun ci_prefix :: "(char \<times> char) list \<Rightarrow> string \<Rightarrow> bool" where
  "ci_prefix [] s = True"
| "ci_prefix (p # ps) [] = False"
| "ci_prefix ((u, l) # ps) (c # cs) = (if c = u \<or> c = l then ci_prefix ps cs else False)"

fun ci_contains :: "(char \<times> char) list \<Rightarrow> string \<Rightarrow> bool" where
  "ci_contains ps [] = (ps = [])"
| "ci_contains ps (c # cs) = (if ci_prefix ps (c # cs) then True else ci_contains ps cs)"

definition case_pair :: "char \<times> char \<Rightarrow> bool" where
  "case_pair p \<longleftrightarrow> (\<forall>c. upper_char c = fst p \<longleftrightarrow> c = fst p \<or> c = snd p)"

abbreviation is_ascii :: "string \<Rightarrow> bool" where
  "is_ascii s \<equiv> list_all (\<lambda>c. \<not> digit7 c) s"

lemma upper_special_bytes: "list_all (\<lambda>(p, _). case p of [] \<Rightarrow> False | c # _ \<Rightarrow> digit7 c) upper_special"
  by code_simp

lemma upper_ascii: "is_ascii s \<Longrightarrow> upper s = map upper_char s"
proof (induction s)
  case (Cons c cs)
  have "\<not> starts_with (c # cs) p" if "(p, u) \<in> set upper_special" for p u
    using upper_special_bytes that Cons.prems by (cases p) (auto simp: list_all_iff)
  then have "find (\<lambda>(p, _). starts_with (c # cs) p) upper_special = None"
    by (auto simp: find_None_iff)
  then show ?case using Cons by simp
qed simp

lemma ci_prefix_iff:
  "list_all case_pair ps \<Longrightarrow> ci_prefix ps s \<longleftrightarrow> starts_with (map upper_char s) (map fst ps)"
proof (induction ps s rule: ci_prefix.induct)
  case (3 u l ps c cs)
  then show ?case by (auto simp: case_pair_def)
qed simp_all

lemma ci_contains_iff:
  "list_all case_pair ps \<Longrightarrow> ci_contains ps s \<longleftrightarrow> contains (map fst ps) (map upper_char s)"
proof (induction s)
  case (Cons c cs)
  then show ?case using ci_prefix_iff [OF Cons.prems, of "c # cs"] by simp
qed simp

lemma contains_upper: "is_ascii s \<Longrightarrow> list_all case_pair ps \<Longrightarrow> contains (map fst ps) (upper s) \<longleftrightarrow> ci_contains ps s"
  by (simp add: upper_ascii ci_contains_iff)

lemma of_char_upper: "(of_char (upper_char c) :: nat)
    = (if 97 \<le> (of_char c :: nat) \<and> (of_char c :: nat) \<le> 122 then of_char c - 32 else of_char c)"
  by (auto simp: upper_char_def less_eq_char_def)

lemma case_pairI:
  "65 \<le> (of_char u :: nat) \<Longrightarrow> (of_char u :: nat) \<le> 90 \<Longrightarrow> (of_char l :: nat) = of_char u + 32 \<Longrightarrow> case_pair (u, l)"
  "(of_char u :: nat) < 65 \<or> 90 < (of_char u :: nat) \<and> (of_char u :: nat) < 97 \<Longrightarrow> case_pair (u, u)"
proof -
  have eq: "c = d \<longleftrightarrow> (of_char c :: nat) = of_char d" for c d by simp
  show "65 \<le> (of_char u :: nat) \<Longrightarrow> (of_char u :: nat) \<le> 90 \<Longrightarrow> (of_char l :: nat) = of_char u + 32 \<Longrightarrow> case_pair (u, l)"
    unfolding case_pair_def fst_conv snd_conv eq of_char_upper by auto
  show "(of_char u :: nat) < 65 \<or> 90 < (of_char u :: nat) \<and> (of_char u :: nat) < 97 \<Longrightarrow> case_pair (u, u)"
    unfolding case_pair_def fst_conv snd_conv eq of_char_upper by auto
qed

lemma case_pairs:
  "list_all case_pair [(CHR ''B'', CHR ''b''), (CHR ''U'', CHR ''u''), (CHR ''Y'', CHR ''y''), (CHR ''_'', CHR ''_'')]"
  "list_all case_pair [(CHR ''S'', CHR ''s''), (CHR ''E'', CHR ''e''), (CHR ''L'', CHR ''l''), (CHR ''L'', CHR ''l''), (CHR ''_'', CHR ''_'')]"
  "list_all case_pair [(CHR ''A'', CHR ''a''), (CHR ''C'', CHR ''c''), (CHR ''C'', CHR ''c''), (CHR ''E'', CHR ''e''), (CHR ''P'', CHR ''p'')]"
  "list_all case_pair [(CHR ''U'', CHR ''u''), (CHR ''N'', CHR ''n''), (CHR ''S'', CHR ''s''), (CHR ''I'', CHR ''i''),
     (CHR ''G'', CHR ''g''), (CHR ''N'', CHR ''n''), (CHR ''E'', CHR ''e''), (CHR ''D'', CHR ''d'')]"
  by (simp_all add: case_pairI)


text \<open>A quoted text, or a JSON value without numbers, contains a token only inside one of its strings.\<close>

definition no_token :: "string \<Rightarrow> string \<Rightarrow> bool" where
  "no_token t s \<longleftrightarrow> \<not> contains t (map upper_char s)"

definition token_ok :: "string \<Rightarrow> bool" where
  "token_ok t \<longleftrightarrow> t \<noteq> [] \<and> set t \<inter> set ''{}[],:'' = {} \<and> CHR 0x22 \<notin> set t
     \<and> no_token t ''null'' \<and> no_token t ''true'' \<and> no_token t ''false''"

fun json_texts :: "json \<Rightarrow> string list"
  and list_texts :: "json list \<Rightarrow> string list"
  and fields_texts :: "fields \<Rightarrow> string list"
where
  "json_texts (JStr s) = [s]"
| "json_texts (JList xs) = list_texts xs"
| "json_texts (JObj fs) = fields_texts fs"
| "json_texts _ = []"
| "list_texts [] = []"
| "list_texts (x # xs) = json_texts x @ list_texts xs"
| "fields_texts [] = []"
| "fields_texts ((k, v) # fs) = k # json_texts v @ fields_texts fs"

fun no_numbers :: "json \<Rightarrow> bool"
  and no_numbers_list :: "json list \<Rightarrow> bool"
  and no_numbers_fields :: "fields \<Rightarrow> bool"
where
  "no_numbers (JInt i) = False"
| "no_numbers (JDec m e) = False"
| "no_numbers (JList xs) = no_numbers_list xs"
| "no_numbers (JObj fs) = no_numbers_fields fs"
| "no_numbers _ = True"
| "no_numbers_list [] = True"
| "no_numbers_list (x # xs) = (no_numbers x \<and> no_numbers_list xs)"
| "no_numbers_fields [] = True"
| "no_numbers_fields ((k, v) # fs) = (no_numbers v \<and> no_numbers_fields fs)"

lemma contains_sep:
  assumes "c \<notin> set t" "t \<noteq> []"
  shows "contains t (xs @ c # ys) \<longleftrightarrow> contains t xs \<or> contains t ys"
proof -
  have "\<not> prefix (z # zs) (c # ys)" if "t = us @ z # zs" for us z zs using that assms(1) by auto
  then have "sublist t (c # ys) \<longleftrightarrow> sublist t ys" using assms by (cases t) (auto simp: sublist_Cons_right)
  moreover have "sublist t xs" if "t = us @ zs" "suffix us xs" "prefix zs (c # ys)" for us zs
    using that assms(1) by (cases zs) (auto simp: suffix_imp_sublist)
  ultimately show ?thesis by (auto simp: contains_iff sublist_append)
qed

lemma upper_char_struct [simp]:
  "upper_char (CHR ''{'') = CHR ''{''" "upper_char (CHR ''}'') = CHR ''}''" "upper_char (CHR ''['') = CHR ''[''"
  "upper_char (CHR '']'') = CHR '']''" "upper_char (CHR '','') = CHR '',''" "upper_char (CHR '':'') = CHR '':''"
  "upper_char (CHR 0x22) = CHR 0x22"
  by (simp_all add: upper_char_def)

lemma no_token_sep:
  assumes "token_ok t" "c \<in> set ''{}[],:'' \<or> c = CHR 0x22"
  shows "no_token t (xs @ c # ys) \<longleftrightarrow> no_token t xs \<and> no_token t ys"
    "no_token t (c # ys) \<longleftrightarrow> no_token t ys"
proof -
  have c: "upper_char c = c" "c \<notin> set t" using assms by (auto simp: token_ok_def)
  have t: "t \<noteq> []" using assms by (simp add: token_ok_def)
  show "no_token t (xs @ c # ys) \<longleftrightarrow> no_token t xs \<and> no_token t ys" for xs
    using contains_sep [OF c(2) t] by (simp add: no_token_def c)
  from this [of "[]"] show "no_token t (c # ys) \<longleftrightarrow> no_token t ys" using t by (simp add: no_token_def)
qed

lemma no_token_Nil: "token_ok t \<Longrightarrow> no_token t []"
  by (simp add: token_ok_def no_token_def)

lemma no_token_enc:
  assumes "token_ok t"
  shows "no_numbers v \<Longrightarrow> list_all (\<lambda>s. no_token t (concat (map enc_char s))) (json_texts v) \<Longrightarrow> no_token t (enc compact d v)"
    "no_numbers_list xs \<Longrightarrow> list_all (\<lambda>s. no_token t (concat (map enc_char s))) (list_texts xs) \<Longrightarrow> no_token t (enc_items compact d xs)"
    "no_numbers_fields fs \<Longrightarrow> list_all (\<lambda>s. no_token t (concat (map enc_char s))) (fields_texts fs) \<Longrightarrow> no_token t (enc_fields compact d fs)"
proof (induction v and xs and fs arbitrary: d and d and d rule: json_texts_list_texts_fields_texts.induct)
  case (1 s)
  then show ?case
    using no_token_sep [OF assms, of "CHR 0x22"] no_token_Nil [OF assms] by (simp add: enc_str_def)
qed (use no_token_sep [OF assms] no_token_Nil [OF assms] assms in \<open>auto simp: compact_def newline_def enc_str_def token_ok_def\<close>)

lemma ascii_enc:
  shows "no_numbers v \<Longrightarrow> list_all (\<lambda>s. is_ascii (concat (map enc_char s))) (json_texts v) \<Longrightarrow> is_ascii (enc compact d v)"
    "no_numbers_list xs \<Longrightarrow> list_all (\<lambda>s. is_ascii (concat (map enc_char s))) (list_texts xs) \<Longrightarrow> is_ascii (enc_items compact d xs)"
    "no_numbers_fields fs \<Longrightarrow> list_all (\<lambda>s. is_ascii (concat (map enc_char s))) (fields_texts fs) \<Longrightarrow> is_ascii (enc_fields compact d fs)"
  by (induction v and xs and fs arbitrary: d and d and d rule: json_texts_list_texts_fields_texts.induct)
    (auto simp: compact_def newline_def enc_str_def)

text \<open>The tokens of the public RFQ guard all contain one of three fragments.\<close>

definition guard_fragments :: "(char \<times> char) list list" where
  "guard_fragments = [
     [(CHR ''B'', CHR ''b''), (CHR ''U'', CHR ''u''), (CHR ''Y'', CHR ''y''), (CHR ''_'', CHR ''_'')],
     [(CHR ''S'', CHR ''s''), (CHR ''E'', CHR ''e''), (CHR ''L'', CHR ''l''), (CHR ''L'', CHR ''l''), (CHR ''_'', CHR ''_'')],
     [(CHR ''A'', CHR ''a''), (CHR ''C'', CHR ''c''), (CHR ''C'', CHR ''c''), (CHR ''E'', CHR ''e''), (CHR ''P'', CHR ''p'')]]"

definition text_clean :: "string \<Rightarrow> bool" where
  "text_clean s \<longleftrightarrow> (let b = concat (map enc_char s) in is_ascii b \<and> list_all (\<lambda>f. \<not> ci_contains f b) guard_fragments)"

lemma fragments_ok: "list_all (\<lambda>f. list_all case_pair f \<and> token_ok (map fst f)) guard_fragments"
  using case_pairs
  by (simp add: guard_fragments_def token_ok_def no_token_def upper_char_def char_of_def bit_0)

lemma clean_value:
  assumes "no_numbers v" "list_all text_clean (json_texts v)" "f \<in> set guard_fragments"
  shows "\<not> contains (map fst f) (upper (enc compact 0 v))"
proof -
  have f: "list_all case_pair f" "token_ok (map fst f)" using fragments_ok assms(3) by (auto simp: list_all_iff)
  have a: "is_ascii (enc compact 0 v)"
    using assms(2) by (intro ascii_enc(1) [OF assms(1)]) (auto simp: text_clean_def Let_def list_all_iff)
  have "no_token (map fst f) (concat (map enc_char s))" if "s \<in> set (json_texts v)" for s
  proof -
    have "\<not> ci_contains f (concat (map enc_char s))"
      using assms(2,3) that by (auto simp: text_clean_def Let_def list_all_iff)
    then show ?thesis unfolding no_token_def ci_contains_iff [OF f(1), symmetric] .
  qed
  then have "no_token (map fst f) (enc compact 0 v)"
    by (intro no_token_enc(1) [OF f(2) assms(1)]) (simp add: list_all_iff)
  then show ?thesis by (simp add: no_token_def upper_ascii [OF a])
qed

lemma contains_infix: "contains (a @ b @ c) s \<Longrightarrow> contains b s"
  unfolding contains_iff sublist_def by (metis append.assoc)

lemma clean_tokens:
  assumes "no_numbers v" "list_all text_clean (json_texts v)"
  shows "list_all (\<lambda>token. \<not> contains token (upper (enc compact 0 v)))
     [''BUY_YES'', ''BUY_NO'', ''SELL_YES'', ''SELL_NO'', ''ACCEPTED_SIDE'']"
proof -
  let ?t = "upper (enc compact 0 v)"
  have "\<not> contains ''BUY_'' ?t" "\<not> contains ''SELL_'' ?t" "\<not> contains ''ACCEP'' ?t"
    using clean_value [OF assms] by (force simp: guard_fragments_def)+
  then show ?thesis
    using contains_infix [of "[]" "''BUY_''" "''YES''" ?t] contains_infix [of "[]" "''BUY_''" "''NO''" ?t]
      contains_infix [of "[]" "''SELL_''" "''YES''" ?t] contains_infix [of "[]" "''SELL_''" "''NO''" ?t]
      contains_infix [of "[]" "''ACCEP''" "''TED_SIDE''" ?t] by auto
qed

definition guard_call_ok :: "string \<times> seed_args \<Rightarrow> bool" where
  "guard_call_ok call \<longleftrightarrow> (let v = card_action_json (seed_of (snd call)) action_RFQ_GUARD
     in no_numbers v \<and> list_all text_clean (json_texts v))"

end
