(* ===== verification/RegistryComplete.thy ===== *)
theory RegistryComplete
  imports UpperText
begin

text \<open>
  The registry as a whole: \<^verbatim>\<open>build_registry\<close> returns, and what it returns passes
  \<^verbatim>\<open>validate_registry\<close> in every repository whose bound source files are intact.
\<close>


section \<open>Counts and the summary\<close>

text \<open>A counting dictionary with string keys, each once.\<close>

definition str_counts :: "counts \<Rightarrow> bool" where
  "str_counts cs \<longleftrightarrow> distinct (map fst cs) \<and> (\<forall>kn \<in> set cs. is_str (fst kn))"

lemma is_str_iff: "is_str v \<longleftrightarrow> (\<exists>s. v = JStr s)"
  by (cases v) auto

lemma bump_keys: "str_counts cs \<Longrightarrow> fst ` set (bump (JStr s) cs) = insert (JStr s) (fst ` set cs)"
proof (induction cs)
  case (Cons kn cs)
  then obtain t n where k: "kn = (JStr t, n)" by (cases kn) (auto simp: str_counts_def is_str_iff)
  have "str_counts cs" using Cons.prems by (simp add: str_counts_def)
  then show ?case using Cons.IH by (auto simp: k)
qed simp

lemma str_counts_bump: "str_counts cs \<Longrightarrow> str_counts (bump (JStr s) cs)"
proof (induction cs)
  case (Cons kn cs)
  then obtain t n where k: "kn = (JStr t, n)" by (cases kn) (auto simp: str_counts_def is_str_iff)
  have c: "str_counts cs" using Cons.prems by (simp add: str_counts_def)
  have "JStr t \<notin> fst ` set cs" using Cons.prems by (simp add: str_counts_def k)
  then show ?case using Cons.IH [OF c] bump_keys [OF c, of s] Cons.prems by (simp add: k str_counts_def)
qed (simp add: str_counts_def)

lemma str_counts_fold: "str_counts cs \<Longrightarrow> str_counts (fold bump (map JStr ss) cs)"
  by (induction ss arbitrary: cs) (simp_all add: str_counts_bump)

lemma str_counts_Nil [simp]: "str_counts []"
  by (simp add: str_counts_def)

lemma counts_keys:
  assumes "str_counts cs"
  shows "keys_distinct (map (\<lambda>(k, n). (py_str k, JInt n)) cs)"
  using assms by (induction cs) (auto simp: str_counts_def is_str_iff py_str_def image_iff, force)

lemma counts_eq_json: "str_counts cs \<Longrightarrow> counts_eq (counts_json cs) cs"
proof -
  assume cs: "str_counts cs"
  let ?fs = "map (\<lambda>(k, n). (py_str k, JInt n)) cs"
  have "list_all (\<lambda>(k, n). case k of
        JStr s \<Rightarrow> (case map_of ?fs s of Some w \<Rightarrow> py_eq w (JInt n) | None \<Rightarrow> False) | _ \<Rightarrow> False) cs"
    unfolding list_all_iff
  proof (clarify, goal_cases)
    case (1 k n)
    then obtain s where k: "k = JStr s" using cs by (force simp: str_counts_def is_str_iff)
    have "(s, JInt n) \<in> set ?fs" using 1 by (force simp: k py_str_def)
    then have "map_of ?fs s = Some (JInt n)" using counts_keys [OF cs] by (simp add: map_of_is_SomeI)
    then show ?case by (simp add: k num_same_def)
  qed
  then show ?thesis
    unfolding counts_eq_def counts_json_def dict_of_def json.case map_of_sorted_fields [OF counts_keys [OF cs]]
      length_sorted_fields [OF counts_keys [OF cs]] by simp
qed

lemma num_same_JInt [simp]: "num_same (JInt n) (JInt n)"
  by (simp add: num_same_def)

lemma summary_eq_json:
  assumes "str_counts (summary_families s)" "str_counts (summary_computed s)" "str_counts (summary_targets s)"
    and "eligible_now s = (0, 0)"
  shows "summary_eq (summary_json s) s"
proof -
  let ?kvs = "[(''total_cards'', JInt (int (total_cards s))),
     (''family_counts'', counts_json (summary_families s)),
     (''computed_class_counts'', counts_json (summary_computed s)),
     (''target_class_counts'', counts_json (summary_targets s)),
     (''strategy_eligible_now'', num_json (eligible_now s)),
     (''warning'', JStr summary_warning)]"
  have d: "keys_distinct ?kvs" by simp
  show ?thesis
    unfolding summary_json_def summary_eq_def dict_of_def json.case map_of_sorted_fields [OF d] length_sorted_fields [OF d]
    using assms by (simp add: counts_eq_json)
qed

lemma tidy_counts: "str_counts cs \<Longrightarrow> tidy (counts_json cs)"
  unfolding counts_json_def by (rule tidy_dict_of [OF counts_keys]) (auto simp: list_all_iff)

lemma tidy_summary:
  assumes "str_counts (summary_families s)" "str_counts (summary_computed s)" "str_counts (summary_targets s)"
    and "eligible_now s = (0, 0)"
  shows "tidy (summary_json s)"
  using assms by (simp add: summary_json_def tidy_dict_of tidy_counts)

lemma summary_step_built:
  assumes "built sha i s p gaps identity result c"
  shows "summary_step c (f, k, t) = Inr (bump (JStr (take 1 i)) f,
     bump (JStr (computed_class (card_class s p))) k, bump (JStr (class_target (card_class s p))) t)"
  by (simp add: summary_step_def py_index2_def built_index [OF assms] built_identity [OF assms] py_index_dict_of
      classification_fields_def count_key_def)

lemma summary_scan_built:
  "cards_for sha seeds ids cards \<Longrightarrow> str_counts f \<Longrightarrow> str_counts k \<Longrightarrow> str_counts t \<Longrightarrow>
   \<exists>f' k' t'. rfold summary_step cards (f, k, t) = Inr (f', k', t') \<and> str_counts f' \<and> str_counts k' \<and> str_counts t'"
proof (induction ids arbitrary: cards f k t)
  case Nil
  then show ?case by (simp add: cards_for_def)
next
  case (Cons i ids)
  then obtain c cs s p gaps identity result where
    c: "cards = c # cs" "built sha i s p gaps identity result c" "cards_for sha seeds ids cs"
    unfolding cards_for_Cons by blast
  show ?case using Cons.IH [OF c(3)] Cons.prems(2-4) by (simp add: c(1) summary_step_built [OF c(2)] str_counts_bump)
qed

lemma eligible_sum_built:
  "cards_for sha seeds ids cards \<Longrightarrow>
   rfold (\<lambda>crd acc. rbind (py_index2 crd ''classification'' ''strategy_eligible'') (add_num acc)) cards (0, 0) = Inr (0, 0)"
proof (induction ids arbitrary: cards)
  case Nil
  then show ?case by (simp add: cards_for_def)
next
  case (Cons i ids)
  then obtain c cs s p gaps identity result where
    c: "cards = c # cs" "built sha i s p gaps identity result c" "cards_for sha seeds ids cs"
    unfolding cards_for_Cons by blast
  have "py_index2 c ''classification'' ''strategy_eligible'' = Inr (JBool False)"
    using never_eligible [OF c(2)]
    by (simp add: py_index2_def built_index [OF c(2)] py_index_dict_of classification_fields_def)
  then show ?case using Cons.IH [OF c(3)] by (simp add: c(1) add_num_def)
qed

lemma summary_built:
  assumes "cards_for sha seeds ids cards"
  obtains smry where "summary_for_cards cards = Inr smry" "summary_eq (summary_json smry) smry"
    "eligible_now smry = (0, 0)" "total_cards smry = length ids" "tidy (summary_json smry)"
proof -
  obtain f k t where fkt: "rfold summary_step cards ([], [], []) = Inr (f, k, t)"
      "str_counts f" "str_counts k" "str_counts t"
    using summary_scan_built [OF assms, of "[]" "[]" "[]"] by auto
  have "length cards = length ids" using assms by (auto simp: cards_for_def dest: list_all2_lengthD)
  then show thesis
    using that [of "\<lparr>total_cards = length cards, summary_families = f, summary_computed = k, summary_targets = t,
        eligible_now = (0, 0)\<rparr>"] fkt summary_eq_json tidy_summary
    by (simp add: summary_for_cards_def eligible_sum_built [OF assms])
qed

section \<open>The cards of the canonical seeds\<close>

definition call_texts :: "string \<times> seed_args \<Rightarrow> string list" where
  "call_texts call = (case call of (_, kw) \<Rightarrow> map (take 1) [kw_hypothesis kw, kw_trigger kw,
     kw_direction_semantics kw, kw_decision_clock kw, kw_forecast_horizon kw, kw_falsifier kw])"

lemma calls_texts: "list_all (list_all (\<lambda>t. t \<noteq> [])) (map call_texts seed_calls)"
  by code_simp

lemma items_texts: "list_all (\<lambda>(_, s). seed_texts_ok s) card_seed_items"
  unfolding items_all using calls_texts
  by (fastforce simp: list_all_iff seed_texts_ok_def call_texts_def seed_of_def)

lemma atomic_families: "list_all (\<lambda>i. i \<noteq> [] \<and> take 1 i \<in> set (map fst FAMILY_NAMES)) ATOMIC_IDS"
  by code_simp

lemma atomic_distinct: "distinct ATOMIC_IDS"
  using items_keys_atomic items_keys seed_calls_distinct by simp

lemma item_facts:
  assumes "i \<in> set ATOMIC_IDS"
  obtains s where "map_of card_seed_items i = Some s" "seed_admissible s" "seed_texts_ok s" "i \<noteq> []"
    "take 1 i \<in> set (map fst FAMILY_NAMES)"
proof -
  have "i \<in> fst ` set card_seed_items" using assms by (metis items_keys_atomic set_map)
  then obtain s where s: "map_of card_seed_items i = Some s" by (metis map_of_eq_None_iff not_None_eq)
  then have m: "(i, s) \<in> set card_seed_items" by (rule map_of_SomeD)
  have "seed_admissible s" using items_admissible m by (auto simp: list_all_iff)
  moreover have "seed_texts_ok s" using items_texts m by (auto simp: list_all_iff)
  ultimately show thesis using that s atomic_families assms by (simp add: list_all_iff)
qed

lemma cards_total:
  "\<exists>cards. traverse (\<lambda>i. rbind (seed_of_id card_seed_items i) (build_card sha i)) ATOMIC_IDS = Inr cards
    \<and> cards_for sha card_seed_items ATOMIC_IDS cards"
proof -
  let ?f = "\<lambda>i. rbind (seed_of_id card_seed_items i) (build_card sha i)"
  have "\<exists>c s p gaps identity result. ?f i = Inr c \<and> map_of card_seed_items i = Some s
      \<and> built sha i s p gaps identity result c" if mem: "i \<in> set ATOMIC_IDS" for i
  proof -
    obtain s where s: "map_of card_seed_items i = Some s" "seed_admissible s" "seed_texts_ok s" "i \<noteq> []"
        "take 1 i \<in> set (map fst FAMILY_NAMES)"
      using item_facts [OF mem] .
    obtain c where c: "build_card sha i s = Inr c" using build_card_total [OF s(2,5,4)] by blast
    obtain p gaps identity result where "built sha i s p gaps identity result c" using builtI [OF s(2,3) c] .
    then show ?thesis using s c by (auto simp: seed_of_id_def)
  qed
  then have "\<forall>i \<in> set ATOMIC_IDS. \<exists>c. ?f i = Inr c \<and> (\<exists>s p gaps identity result.
      map_of card_seed_items i = Some s \<and> built sha i s p gaps identity result c)" by blast
  then obtain g where g: "\<forall>i \<in> set ATOMIC_IDS. ?f i = Inr (g i) \<and> (\<exists>s p gaps identity result.
      map_of card_seed_items i = Some s \<and> built sha i s p gaps identity result (g i))"
    by (auto simp: bchoice_iff)
  have "traverse ?f ATOMIC_IDS = Inr (map g ATOMIC_IDS)" by (rule traverse_all_Inr) (use g in blast)
  moreover have "cards_for sha card_seed_items ATOMIC_IDS (map g ATOMIC_IDS)"
    unfolding cards_for_def list_all2_map2 using g by (intro list.rel_refl_strong) blast
  ultimately show ?thesis by blast
qed

lemma pairs_distinct:
  "\<exists>pairs. traverse (\<lambda>i. rmap (\<lambda>s. (seed_hypothesis s, trigger (seed_signal s))) (seed_of_id card_seed_items i)) ATOMIC_IDS
     = Inr pairs \<and> distinct pairs"
proof -
  let ?h = "\<lambda>i. the (map_of card_seed_items i)"
  have "traverse (\<lambda>i. rmap (\<lambda>s. (seed_hypothesis s, trigger (seed_signal s))) (seed_of_id card_seed_items i)) ATOMIC_IDS
      = Inr (map (\<lambda>i. (seed_hypothesis (?h i), trigger (seed_signal (?h i)))) ATOMIC_IDS)"
  proof (rule traverse_all_Inr)
    fix i assume "i \<in> set ATOMIC_IDS"
    then obtain s where "map_of card_seed_items i = Some s" using item_facts by blast
    then show "rmap (\<lambda>s. (seed_hypothesis s, trigger (seed_signal s))) (seed_of_id card_seed_items i)
        = Inr (seed_hypothesis (?h i), trigger (seed_signal (?h i)))"
      by (simp add: seed_of_id_def)
  qed
  moreover have "distinct (map (\<lambda>i. (seed_hypothesis (?h i), trigger (seed_signal (?h i)))) ATOMIC_IDS)"
  proof (rule distinct_fingerprint [where h = "\<lambda>x. x" and f = "\<lambda>i. (seed_hypothesis (?h i), trigger (seed_signal (?h i)))"],
      rule distinct_fingerprint [where h = fst])
    have d: "keys_distinct card_seed_items" by (simp only: items_keys seed_calls_distinct)
    have "map (\<lambda>i. seed_hypothesis (?h i)) (map fst card_seed_items) = map seed_hyp card_seed_items"
      unfolding map_map comp_def by (rule map_cong [OF refl]) (metis d map_of_is_SomeI option.sel prod.collapse)
    then show "distinct (map (\<lambda>x. fst (seed_hypothesis (?h x), trigger (seed_signal (?h x)))) ATOMIC_IDS)"
      using items_hyps unfolding items_keys_atomic fst_conv by (simp only:)
  qed
  ultimately show ?thesis by blast
qed

lemma build_registry_eq:
  obtains cards smry where "cards_for sha card_seed_items ATOMIC_IDS cards" "summary_for_cards cards = Inr smry"
    "summary_eq (summary_json smry) smry" "eligible_now smry = (0, 0)" "total_cards smry = 106" "tidy (summary_json smry)"
    "build_registry sha = Inr (dict_of (registry_body cards smry @
       [(''registry_sha256'', JStr (sha256_json sha (dict_of (registry_body cards smry))))]))"
proof -
  obtain cards where c: "traverse (\<lambda>i. rbind (seed_of_id card_seed_items i) (build_card sha i)) ATOMIC_IDS = Inr cards"
      "cards_for sha card_seed_items ATOMIC_IDS cards"
    using cards_total by blast
  obtain smry where s: "summary_for_cards cards = Inr smry" "summary_eq (summary_json smry) smry"
      "eligible_now smry = (0, 0)" "total_cards smry = length ATOMIC_IDS" "tidy (summary_json smry)"
    using summary_built [OF c(2)] .
  obtain pairs where p: "traverse (\<lambda>i. rmap (\<lambda>s. (seed_hypothesis s, trigger (seed_signal s))) (seed_of_id card_seed_items i))
      ATOMIC_IDS = Inr pairs" "distinct pairs"
    using pairs_distinct by blast
  have "length ATOMIC_IDS = 106" using items_length items_keys_atomic by (metis length_map)
  then show thesis
    using that [OF c(2) s(1-3)] s(4,5) items_keys_atomic p
    by (simp add: build_registry_def load_card_seeds_eq build_registry_from_def c(1) s(1) Let_def)
qed

section \<open>Cards with rules of their own\<close>

lemma special_card:
  assumes "cards_for sha card_seed_items ATOMIC_IDS cards" "(i, kw) \<in> set seed_calls"
  obtains c p gaps identity result where "map_of (rev (zip (map JStr ATOMIC_IDS) cards)) (JStr i) = Some c"
    "built sha i (seed_of kw) p gaps identity result c"
proof -
  have len: "length ATOMIC_IDS = length cards" using assms(1) by (auto simp: cards_for_def dest: list_all2_lengthD)
  have s: "map_of card_seed_items i = Some (seed_of kw)" by (rule items_lookup [OF assms(2)])
  then have "i \<in> set ATOMIC_IDS" by (metis fst_conv image_eqI items_keys_atomic map_of_SomeD set_map)
  then obtain n where n: "n < length ATOMIC_IDS" "ATOMIC_IDS ! n = i" by (metis in_set_conv_nth)
  let ?z = "zip (map JStr ATOMIC_IDS) cards"
  have "(JStr i, cards ! n) \<in> set (rev ?z)" using n len by (auto simp: set_zip intro!: exI [of _ n])
  moreover have "map fst ?z = map JStr ATOMIC_IDS" using len by simp
  then have "distinct (map fst (rev ?z))"
    using atomic_distinct by (simp add: rev_map [symmetric] distinct_map inj_on_def)
  ultimately have "map_of (rev ?z) (JStr i) = Some (cards ! n)" by (simp add: map_of_is_SomeI)
  moreover obtain p gaps identity result where "built sha i (seed_of kw) p gaps identity result (cards ! n)"
    using assms(1) n s by (auto simp: cards_for_def list_all2_conv_all_nth)
  ultimately show thesis using that by blast
qed

lemma special_action:
  assumes "built sha i (seed_of kw) p gaps identity result c" "action_profile (kw_action_profile kw) = Inr a"
  shows "part_action p = a"
  using profile_of_parts(2) [OF assms(1)] assms(2) by (simp add: seed_of_def)

lemma check_unsigned_built:
  assumes "cards_for sha card_seed_items ATOMIC_IDS cards" "(i, kw) \<in> set seed_calls"
    and "contains ''UNSIGNED'' (upper (kw_direction_semantics kw)) \<or> contains ''NO_DIRECTION'' (upper (kw_direction_semantics kw))"
  shows "check_unsigned (rev (zip (map JStr ATOMIC_IDS) cards)) i = Inr []"
proof -
  obtain c p gaps identity result where c: "map_of (rev (zip (map JStr ATOMIC_IDS) cards)) (JStr i) = Some c"
    "built sha i (seed_of kw) p gaps identity result c" using special_card [OF assms(1,2)] .
  show ?thesis using assms(3)
    by (simp add: check_unsigned_def with_card_def c(1) py_index2_def built_index [OF c(2)] py_index_dict_of
        signal_fields_def seed_of_def nil_simps)
qed

lemma action_json_gets:
  "py_index2 c ''action'' ''profile_id'' = Inr (JStr (seed_action_profile s))"
  "py_index2 c ''action'' ''instrument_side'' = Inr (jopt (instrument_side (part_action p)))"
  "py_index2 c ''action'' ''action_type'' = Inr (jstrs (action_type (part_action p)))"
  if "built sha i s p gaps identity result c"
  by (simp_all add: py_index2_def built_index [OF that] card_action_json_def action_fields_def py_index_dict_of)

lemma rfq_guard_profile:
  "action_profile ''RFQ_GUARD'' = Inr action_RFQ_GUARD"
  "instrument_side action_RFQ_GUARD = Some ''BOTH_RELATED_CLOB_SIDES_PUBLIC_UNSIGNED''"
  "action_type action_RFQ_GUARD = [''CANCEL'', ''REPRICE'', ''RESIZE'']"
  by (simp_all add: action_profile_def action_profiles_def action_RFQ_GUARD_def)

lemma check_guard_built:
  assumes "cards_for sha card_seed_items ATOMIC_IDS cards" "(i, kw) \<in> set seed_calls" "guard_call_ok (i, kw)"
    and g: "kw_action_profile kw = ''RFQ_GUARD''"
  shows "check_guard (rev (zip (map JStr ATOMIC_IDS) cards)) i = Inr []"
proof -
  obtain c p gaps identity result where c: "map_of (rev (zip (map JStr ATOMIC_IDS) cards)) (JStr i) = Some c"
    "built sha i (seed_of kw) p gaps identity result c" using special_card [OF assms(1,2)] .
  have a: "part_action p = action_RFQ_GUARD" using special_action [OF c(2)] rfq_guard_profile g by simp
  have "canonical_json (card_action_json (seed_of kw) action_RFQ_GUARD) = enc compact 0 (card_action_json (seed_of kw) action_RFQ_GUARD)"
    using tidy_action [of "seed_of kw" action_RFQ_GUARD] by (simp only: canonical_json_def tidy_def)
  then have t: "list_all (\<lambda>token. \<not> contains token (upper (canonical_json (card_action_json (seed_of kw) action_RFQ_GUARD))))
      [''BUY_YES'', ''BUY_NO'', ''SELL_YES'', ''SELL_NO'', ''ACCEPTED_SIDE'']"
    using clean_tokens [of "card_action_json (seed_of kw) action_RFQ_GUARD"] assms(3)
    by (simp only: guard_call_ok_def Let_def snd_conv)
  have s: "seed_action_profile (seed_of kw) = ''RFQ_GUARD''" by (simp add: seed_of_def g)
  show ?thesis using py_eq_refl [OF wf_jstrs, of "[''CANCEL'', ''REPRICE'', ''RESIZE'']"]
    unfolding check_guard_def with_card_def c(1) option.case nil_simps built_index(5) [OF c(2)] a rbind_simps Let_def
    using t by (simp add: index2_is_def action_json_gets [OF c(2)] a rfq_guard_profile s jopt_def expect_Nil)
qed

lemma special_unsigned:
  "ci_contains [(CHR ''U'', CHR ''u''), (CHR ''N'', CHR ''n''), (CHR ''S'', CHR ''s''), (CHR ''I'', CHR ''i''),
     (CHR ''G'', CHR ''g''), (CHR ''N'', CHR ''n''), (CHR ''E'', CHR ''e''), (CHR ''D'', CHR ''d'')]
     (kw_direction_semantics (snd call))" "is_ascii (kw_direction_semantics (snd call))"
  if "call \<in> {call_D01, call_D04, call_D06}"
  using that by (elim insertE emptyE; simp only:; code_simp)+

lemma special_guards: "guard_call_ok call_D02" "guard_call_ok call_D03" "guard_call_ok call_D05" "guard_call_ok call_D07"
  by code_simp+

lemma special_calls:
  "(''D01-RFQ-FLOW-CENSUS'', snd call_D01) \<in> set seed_calls"
  "(''D02-RFQ-SIZE-INTENT'', snd call_D02) \<in> set seed_calls"
  "(''D03-RFQ-LIFECYCLE-SURVIVAL'', snd call_D03) \<in> set seed_calls"
  "(''D04-RFQ-COMBO-DEMAND-LEG-PRESSURE'', snd call_D04) \<in> set seed_calls"
  "(''D05-RFQ-REQUESTER-HASH'', snd call_D05) \<in> set seed_calls"
  "(''D06-RFQ-DIRECTION-VOL-SIGNAL'', snd call_D06) \<in> set seed_calls"
  "(''D07-RFQ-TO-CLOB-IMPACT'', snd call_D07) \<in> set seed_calls"
  "(''D09-MVE-CATALOG-SCHEMA'', snd call_D09) \<in> set seed_calls"
  "(''D10-MVE-DIRECT-TRADING'', snd call_D10) \<in> set seed_calls"
  "(''E01-SETTLEMENT-CONVERGENCE'', snd call_E01) \<in> set seed_calls"
proof -
  have m: "call_D01 \<in> set seed_calls" "call_D02 \<in> set seed_calls" "call_D03 \<in> set seed_calls"
    "call_D04 \<in> set seed_calls" "call_D05 \<in> set seed_calls" "call_D06 \<in> set seed_calls"
    "call_D07 \<in> set seed_calls" "call_D09 \<in> set seed_calls" "call_D10 \<in> set seed_calls" "call_E01 \<in> set seed_calls"
    by (simp_all add: seed_calls_def)
  have f: "fst call_D01 = ''D01-RFQ-FLOW-CENSUS''" "fst call_D02 = ''D02-RFQ-SIZE-INTENT''"
    "fst call_D03 = ''D03-RFQ-LIFECYCLE-SURVIVAL''" "fst call_D04 = ''D04-RFQ-COMBO-DEMAND-LEG-PRESSURE''"
    "fst call_D05 = ''D05-RFQ-REQUESTER-HASH''" "fst call_D06 = ''D06-RFQ-DIRECTION-VOL-SIGNAL''"
    "fst call_D07 = ''D07-RFQ-TO-CLOB-IMPACT''" "fst call_D09 = ''D09-MVE-CATALOG-SCHEMA''"
    "fst call_D10 = ''D10-MVE-DIRECT-TRADING''" "fst call_E01 = ''E01-SETTLEMENT-CONVERGENCE''"
    by (simp_all add: call_D01_def call_D02_def call_D03_def call_D04_def call_D05_def call_D06_def call_D07_def
        call_D09_def call_D10_def call_E01_def)
  show "(''D01-RFQ-FLOW-CENSUS'', snd call_D01) \<in> set seed_calls"
    "(''D02-RFQ-SIZE-INTENT'', snd call_D02) \<in> set seed_calls"
    "(''D03-RFQ-LIFECYCLE-SURVIVAL'', snd call_D03) \<in> set seed_calls"
    "(''D04-RFQ-COMBO-DEMAND-LEG-PRESSURE'', snd call_D04) \<in> set seed_calls"
    "(''D05-RFQ-REQUESTER-HASH'', snd call_D05) \<in> set seed_calls"
    "(''D06-RFQ-DIRECTION-VOL-SIGNAL'', snd call_D06) \<in> set seed_calls"
    "(''D07-RFQ-TO-CLOB-IMPACT'', snd call_D07) \<in> set seed_calls"
    "(''D09-MVE-CATALOG-SCHEMA'', snd call_D09) \<in> set seed_calls"
    "(''D10-MVE-DIRECT-TRADING'', snd call_D10) \<in> set seed_calls"
    "(''E01-SETTLEMENT-CONVERGENCE'', snd call_E01) \<in> set seed_calls"
    using m unfolding f [symmetric] prod.collapse .
qed

lemma special_profiles:
  "kw_action_profile (snd call_D02) = ''RFQ_GUARD''" "kw_action_profile (snd call_D03) = ''RFQ_GUARD''"
  "kw_action_profile (snd call_D05) = ''RFQ_GUARD''" "kw_action_profile (snd call_D07) = ''RFQ_GUARD''"
  "kw_action_profile (snd call_D06) = ''NO_ACTION''" "kw_action_profile (snd call_D09) = ''NO_ACTION''"
  "kw_action_profile (snd call_D10) = ''MVE_DIRECT''" "kw_action_profile (snd call_E01) = ''CONTROL_ONLY''"
  "kw_data_profile (snd call_D06) = ''RFQ_PRIVATE''" "kw_data_profile (snd call_D10) = ''MVE_PRIVATE''"
  by (simp_all add: call_D02_def call_D03_def call_D05_def call_D07_def call_D06_def call_D09_def call_D10_def call_E01_def)

lemma special_blockers:
  "rmap (\<lambda>p. ''VENUE_PERMISSION_MISSING'' \<in> set (part_blockers p))
     (derive_parts ''D09-MVE-CATALOG-SCHEMA'' (seed_of (snd call_D09))) = Inr False"
  "rmap (\<lambda>p. ''RFQ_PUBLIC_DATA_UNRELEASED'' \<in> set (part_blockers p))
     (derive_parts ''D10-MVE-DIRECT-TRADING'' (seed_of (snd call_D10))) = Inr False"
  by code_simp+

lemma special_venues:
  "venue_for ''NO_ACTION'' = Inr \<lparr>execution_venue = ''NONE'', required_permission = ''NONE''\<rparr>"
  "rmap execution_venue (venue_for ''MVE_DIRECT'') = Inr ''KALSHI_MVE_PRIVATE_EXECUTION''"
  by code_simp+

lemma special_no_action: "action_profile ''NO_ACTION'' = Inr action_NO_ACTION"
  "action_profile ''CONTROL_ONLY'' = Inr action_CONTROL_ONLY"
  "action_type action_NO_ACTION = []" "action_type action_CONTROL_ONLY = []"
  by (simp_all add: action_profile_def action_profiles_def action_NO_ACTION_def action_CONTROL_ONLY_def)

lemma never_triggers: "contains ''never triggers an order'' (kw_direction_semantics (snd call_E01))"
  by code_simp

lemma check_d06_built:
  assumes "cards_for sha card_seed_items ATOMIC_IDS cards"
  shows "check_d06 (rev (zip (map JStr ATOMIC_IDS) cards)) = Inr []"
proof -
  obtain c p gaps identity result where c: "map_of (rev (zip (map JStr ATOMIC_IDS) cards)) (JStr ''D06-RFQ-DIRECTION-VOL-SIGNAL'') = Some c"
    "built sha ''D06-RFQ-DIRECTION-VOL-SIGNAL'' (seed_of (snd call_D06)) p gaps identity result c"
    using special_card [OF assms special_calls(6)] .
  have a: "part_action p = action_NO_ACTION"
    using special_action [OF c(2)] special_profiles(5) special_no_action(1) by simp
  have d: "seed_data_profile (seed_of (snd call_D06)) = ''RFQ_PRIVATE''" by (simp add: seed_of_def special_profiles)
  show ?thesis
    by (simp add: check_d06_def with_card_def c(1) nil_simps index2_is_def action_json_gets [OF c(2)] a special_no_action
        py_index2_def built_index(5,10) [OF c(2)] data_json_gets d action_json_gets [OF c(2), unfolded py_index2_def]
        card_action_json_def action_fields_def py_index_dict_of)
qed

lemma check_e01_built:
  assumes "cards_for sha card_seed_items ATOMIC_IDS cards"
  shows "check_e01 (rev (zip (map JStr ATOMIC_IDS) cards)) = Inr []"
proof -
  obtain c p gaps identity result where c: "map_of (rev (zip (map JStr ATOMIC_IDS) cards)) (JStr ''E01-SETTLEMENT-CONVERGENCE'') = Some c"
    "built sha ''E01-SETTLEMENT-CONVERGENCE'' (seed_of (snd call_E01)) p gaps identity result c"
    using special_card [OF assms special_calls(10)] .
  have a: "part_action p = action_CONTROL_ONLY"
    using special_action [OF c(2)] special_profiles(8) special_no_action(2) by simp
  have s: "seed_action_profile (seed_of (snd call_E01)) = ''CONTROL_ONLY''"
    "direction_semantics (seed_signal (seed_of (snd call_E01))) = kw_direction_semantics (snd call_E01)"
    by (simp_all add: seed_of_def special_profiles)
  have d: "py_index2 c ''signal'' ''direction_semantics'' = Inr (JStr (kw_direction_semantics (snd call_E01)))"
    by (simp add: py_index2_def built_index(4) [OF c(2)] signal_fields_def py_index_dict_of s)
  show ?thesis
    by (simp add: check_e01_def with_card_def c(1) nil_simps index2_is_def action_json_gets [OF c(2)] a special_no_action
        s d never_triggers)
qed

lemma check_d09_built:
  assumes "cards_for sha card_seed_items ATOMIC_IDS cards"
  shows "check_d09 (rev (zip (map JStr ATOMIC_IDS) cards)) = Inr []"
proof -
  obtain c p gaps identity result where c: "map_of (rev (zip (map JStr ATOMIC_IDS) cards)) (JStr ''D09-MVE-CATALOG-SCHEMA'') = Some c"
    "built sha ''D09-MVE-CATALOG-SCHEMA'' (seed_of (snd call_D09)) p gaps identity result c"
    using special_card [OF assms special_calls(8)] .
  have "venue_for (seed_action_profile (seed_of (snd call_D09))) = Inr (part_venue p)" by (rule profile_of_parts(3) [OF c(2)])
  then have v: "execution_venue (part_venue p) = ''NONE''"
    using special_venues(1) special_profiles(6) by (metis (no_types, lifting) seed.select_convs(3) seed_of_def
        sum.inject(2) venue.select_convs(1))
  have b: "''VENUE_PERMISSION_MISSING'' \<notin> set (part_blockers p)"
    using special_blockers(1) c(2) by (auto simp: built_def)
  show ?thesis using b
    by (auto simp: check_d09_def with_card_def c(1) nil_simps index2_is_def py_index2_def built_index [OF c(2)]
        venue_fields_def py_index_dict_of v jstrs_def)
qed

lemma check_d10_built:
  assumes "cards_for sha card_seed_items ATOMIC_IDS cards"
  shows "check_d10 (rev (zip (map JStr ATOMIC_IDS) cards)) = Inr []"
proof -
  obtain c p gaps identity result where c: "map_of (rev (zip (map JStr ATOMIC_IDS) cards)) (JStr ''D10-MVE-DIRECT-TRADING'') = Some c"
    "built sha ''D10-MVE-DIRECT-TRADING'' (seed_of (snd call_D10)) p gaps identity result c"
    using special_card [OF assms special_calls(9)] .
  have s: "seed_action_profile (seed_of (snd call_D10)) = ''MVE_DIRECT''" "seed_data_profile (seed_of (snd call_D10)) = ''MVE_PRIVATE''"
    by (simp_all add: seed_of_def special_profiles)
  have v: "execution_venue (part_venue p) = ''KALSHI_MVE_PRIVATE_EXECUTION''"
    using special_venues(2) profile_of_parts(3) [OF c(2)] by (simp add: s)
  have b: "''RFQ_PUBLIC_DATA_UNRELEASED'' \<notin> set (part_blockers p)"
    using special_blockers(2) c(2) by (auto simp: built_def)
  then have n: "JStr ''RFQ_PUBLIC_DATA_UNRELEASED'' \<notin> JStr ` set (part_blockers p)" by auto
  have i: "py_index2 c ''data'' ''profile_id'' = Inr (JStr ''MVE_PRIVATE'')"
    "py_index2 c ''venue'' ''execution_venue'' = Inr (JStr ''KALSHI_MVE_PRIVATE_EXECUTION'')"
    by (simp_all add: py_index2_def built_index [OF c(2)] data_json_gets venue_fields_def py_index_dict_of v s)
  show ?thesis
    by (simp add: check_d10_def with_card_def c(1) nil_simps index2_is_def i action_json_gets [OF c(2)] s n
        built_index(13) [OF c(2)] jstrs_def)
qed

lemma check_child_built:
  assumes "built sha i s p gaps identity result c"
  shows "check_child c = Inr []"
proof -
  have g: "py_get c ''action'' (JObj []) = Inr (card_action_json s (part_action p))"
    "py_get c ''blockers'' (JList []) = Inr (jstrs (part_blockers p))"
    "py_get c ''identity'' (JObj []) = Inr identity" "get identity ''experiment_id'' = Inr (JStr i)"
    using built_index [OF assms] built_identity [OF assms] by (simp_all add: py_get_index)
  have a: "get (card_action_json s (part_action p)) ''profile_id'' = Inr (JStr (seed_action_profile s))"
    by (simp add: card_action_json_def action_fields_def py_get_dict_of)
  show ?thesis
    using built_external_blockers(3) [OF assms]
    by (auto simp: check_child_def built_is_dict [OF assms] g a jstrs_def expect_Nil)
qed

lemma check_special_built:
  assumes c: "cards_for sha card_seed_items ATOMIC_IDS cards"
  shows "check_special cards = Inr []"
proof -
  let ?m = "rev (zip (map JStr ATOMIC_IDS) cards)"
  have u: "contains ''UNSIGNED'' (upper (kw_direction_semantics (snd call)))" if "call \<in> {call_D01, call_D04, call_D06}" for call
    using contains_upper [OF special_unsigned(2) [OF that] case_pairs(4)] special_unsigned(1) [OF that] by simp
  have "check_unsigned ?m ''D01-RFQ-FLOW-CENSUS'' = Inr []" "check_unsigned ?m ''D04-RFQ-COMBO-DEMAND-LEG-PRESSURE'' = Inr []"
    "check_unsigned ?m ''D06-RFQ-DIRECTION-VOL-SIGNAL'' = Inr []"
    using u check_unsigned_built [OF c special_calls(1)] check_unsigned_built [OF c special_calls(4)]
      check_unsigned_built [OF c special_calls(6)] by blast+
  moreover have "check_guard ?m ''D02-RFQ-SIZE-INTENT'' = Inr []" "check_guard ?m ''D03-RFQ-LIFECYCLE-SURVIVAL'' = Inr []"
    "check_guard ?m ''D05-RFQ-REQUESTER-HASH'' = Inr []" "check_guard ?m ''D07-RFQ-TO-CLOB-IMPACT'' = Inr []"
    using special_guards special_profiles(1-4)
    by (auto intro!: check_guard_built [OF c] special_calls simp: guard_call_ok_def)
  moreover have "collect (map check_child cards) = Inr []"
    unfolding collect_eq_Nil using c check_child_built by (fastforce simp: cards_for_def list_all2_conv_all_nth in_set_conv_nth)
  ultimately show ?thesis
    by (simp add: check_special_def index_by_id_built [OF c] check_d06_built [OF c] check_e01_built [OF c]
        check_d09_built [OF c] check_d10_built [OF c])
qed



section \<open>The repository\<close>

text \<open>
  The bound source files are in place: each is below the root under its path, readable, with the
  digest its binding names; the authority file is text that parses, and names the 106 identifiers and
  the origin document.
\<close>

definition source_intact :: "env \<Rightarrow> json \<Rightarrow> bool" where
  "source_intact E b = (case (py_index b ''path'', py_index b ''sha256'') of
     (Inr (JStr p), Inr (JStr h)) \<Rightarrow>
       (case files E (root E @ split_slash p) of Some (Text t) \<Rightarrow> sha256 E t = h
          | Some (Binary bytes) \<Rightarrow> sha256 E bytes = h | _ \<Rightarrow> False)
   | _ \<Rightarrow> False)"

definition authority_path :: string where
  "authority_path = ''Deepresearch V3/registry/sources/DEEP03_ATOMIC_DIRECTION_AUTHORITY_V1.json''"

definition authority_intact :: "env \<Rightarrow> bool" where
  "authority_intact E \<longleftrightarrow> (\<exists>t fs. files E (root E @ split_slash authority_path) = Some (Text t)
     \<and> loads t = Inr (JObj fs) \<and> map_of fs ''atomic_ids'' = Some (jstrs ATOMIC_IDS)
     \<and> map_of fs ''source_document_sha256'' = Some (JStr ORIGIN_DOCUMENT_SHA))"

definition repository_intact :: "env \<Rightarrow> bool" where
  "repository_intact E \<longleftrightarrow> (case SOURCE_BINDINGS of JList bs \<Rightarrow> list_all (source_intact E) bs | _ \<Rightarrow> False)
     \<and> authority_intact E"

definition plain_path :: "string \<Rightarrow> bool" where
  "plain_path p \<longleftrightarrow> CHR 0x00 \<notin> set p \<and> \<not> starts_with p ''/''
     \<and> list_all (\<lambda>c. c \<noteq> [] \<and> c \<noteq> ''.'' \<and> c \<noteq> ''..'') (split_slash p)"

lemma resolve_parts_plain:
  "list_all (\<lambda>c. c \<noteq> [] \<and> c \<noteq> ''.'' \<and> c \<noteq> ''..'') ps \<Longrightarrow> resolve_parts acc ps = acc @ ps"
  by (induction ps arbitrary: acc) auto

lemma resolve_plain: "plain_path p \<Longrightarrow> resolve E p = Inr (root E @ split_slash p)"
  by (simp add: resolve_def plain_path_def resolve_parts_plain)

lemma relative_root [simp]: "relative_to_root E (root E @ ps)"
  by (simp add: relative_to_root_def)

text \<open>The bindings of the module: plain relative paths, all required.\<close>

definition binding_ok :: "json \<Rightarrow> bool" where
  "binding_ok b \<longleftrightarrow> is_dict b
     \<and> (case py_index b ''path'' of Inr (JStr p) \<Rightarrow> plain_path p | _ \<Rightarrow> False)
     \<and> (case py_index b ''local_required'' of Inr v \<Rightarrow> truthy v | _ \<Rightarrow> False)
     \<and> (case py_index b ''role'' of Inr _ \<Rightarrow> True | _ \<Rightarrow> False)"

definition is_authority :: "json \<Rightarrow> bool" where
  "is_authority b \<longleftrightarrow> py_index b ''role'' = Inr (JStr ''ATOMIC_DIRECTION_AUTHORITY'')"

lemma bindings_ok:
  "(case SOURCE_BINDINGS of JList bs \<Rightarrow> list_all binding_ok bs
     \<and> map (\<lambda>b. py_index b ''path'') (filter is_authority bs) = [Inr (JStr authority_path)] | _ \<Rightarrow> False)"
  by code_simp

lemma bindings_tidy: "wf_json SOURCE_BINDINGS \<and> sort_json SOURCE_BINDINGS = SOURCE_BINDINGS"
  by code_simp

lemma catalog_tidy: "wf_json EXTERNAL_SOURCE_CATALOG \<and> sort_json EXTERNAL_SOURCE_CATALOG = EXTERNAL_SOURCE_CATALOG"
  by code_simp

lemma check_binding_intact:
  assumes "binding_ok b" "source_intact E b"
  shows "check_binding E b = Inr []"
proof -
  obtain p where p: "py_index b ''path'' = Inr (JStr p)" "plain_path p"
    using assms(1) by (auto simp: binding_ok_def split: sum.splits json.splits)
  obtain h where h: "py_index b ''sha256'' = Inr (JStr h)" "file_sha256 E (root E @ split_slash p) = Inr h"
      "is_file E (root E @ split_slash p)"
    using assms(2) p(1)
    by (auto simp: source_intact_def file_sha256_def read_bytes_def is_file_def
        split: sum.splits json.splits option.splits file_entry.splits)
  obtain l r where l: "py_index b ''local_required'' = Inr l" "truthy l" and r: "py_index b ''role'' = Inr r"
    using assms(1) by (auto simp: binding_ok_def split: sum.splits)
  have "is_dict b" using assms(1) by (simp add: binding_ok_def)
  then show ?thesis
    by (simp add: check_binding_def py_get_index [OF p(1)] py_get_index [OF r] py_get_index [OF l(1)] py_get_index [OF h(1)]
        resolve_plain [OF p(2)] get_true_def l(2) h(2,3) get_is_def nil_simps)
qed

lemma check_authority_intact:
  assumes "py_index b ''path'' = Inr (JStr authority_path)" "authority_intact E"
  shows "check_authority E b = Inr []"
proof -
  obtain t fs where t: "files E (root E @ split_slash authority_path) = Some (Text t)" "loads t = Inr (JObj fs)"
      "map_of fs ''atomic_ids'' = Some (jstrs ATOMIC_IDS)"
      "map_of fs ''source_document_sha256'' = Some (JStr ORIGIN_DOCUMENT_SHA)"
    using assms(2) by (auto simp: authority_intact_def)
  have "plain_path authority_path" by code_simp
  then show ?thesis
    by (simp add: check_authority_def assms(1) resolve_plain is_file_def read_text_def t nil_simps get_is_def
        jstrs_def)
qed

lemma rfilter_total: "(\<And>x. x \<in> set xs \<Longrightarrow> p x = Inr (q x)) \<Longrightarrow> rfilter p xs = Inr (filter q xs)"
  by (induction xs) auto

lemma check_bindings_intact:
  assumes "repository_intact E" "get registry ''source_bindings'' = Inr SOURCE_BINDINGS"
  shows "check_bindings E registry = Inr []"
proof -
  obtain bs where bs: "SOURCE_BINDINGS = JList bs" using bindings_ok by (auto split: json.splits)
  have ok: "list_all binding_ok bs" "map (\<lambda>b. py_index b ''path'') (filter is_authority bs) = [Inr (JStr authority_path)]"
    using bindings_ok by (simp_all add: bs)
  have intact: "list_all (source_intact E) bs" "authority_intact E" using assms(1) by (simp_all add: repository_intact_def bs)
  have each: "collect (map (check_binding E) bs) = Inr []"
    unfolding collect_eq_Nil using ok(1) intact(1) by (auto simp: list_all_iff intro: check_binding_intact)
  have "rfilter (\<lambda>b. get_is b ''role'' (JStr ''ATOMIC_DIRECTION_AUTHORITY'')) bs = Inr (filter is_authority bs)"
  proof (rule rfilter_total)
    fix b assume "b \<in> set bs"
    then have "binding_ok b" using ok(1) by (simp add: list_all_iff)
    then obtain r where "py_index b ''role'' = Inr r"
      by (cases "py_index b ''role''") (simp_all add: binding_ok_def)
    then show "get_is b ''role'' (JStr ''ATOMIC_DIRECTION_AUTHORITY'') = Inr (is_authority b)"
      by (simp add: get_is_def py_get_index is_authority_def)
  qed
  moreover obtain b where "filter is_authority bs = [b]" "py_index b ''path'' = Inr (JStr authority_path)"
    using ok(2) by (cases "filter is_authority bs") auto
  ultimately show ?thesis
    using bindings_tidy py_eq_refl [of SOURCE_BINDINGS] each check_authority_intact intact(2)
    by (simp add: check_bindings_def assms(2) bs expect_def)
qed


section \<open>The generated registry passes\<close>

lemma registry_body_keys: "map fst (registry_body cards smry) = [''schema_version'', ''registry_id'', ''generated_by'', ''scope'',
    ''source_bindings'', ''classification_contract'', ''pnl_contract'', ''external_source_catalog'', ''summary'', ''experiments'']"
  by (simp add: registry_body_def)

lemma registry_gets:
  fixes h :: json and cards :: "json list" and smry :: summary
  defines "r \<equiv> dict_of (registry_body cards smry @ [(''registry_sha256'', h)])"
  shows "get r ''schema_version'' = Inr (JStr SCHEMA_VERSION)" "get r ''registry_id'' = Inr (JStr REGISTRY_ID)"
    "py_get r ''scope'' (JObj []) = Inr scope_json" "get r ''source_bindings'' = Inr SOURCE_BINDINGS"
    "get r ''external_source_catalog'' = Inr EXTERNAL_SOURCE_CATALOG" "get r ''summary'' = Inr (summary_json smry)"
    "get r ''experiments'' = Inr (JList cards)" "get r ''registry_sha256'' = Inr h"
  by (simp_all add: r_def py_get_dict_of registry_body_keys) (simp_all add: registry_body_def)

lemma check_scope_built: "py_get r ''scope'' (JObj []) = Inr scope_json \<Longrightarrow> check_scope r = Inr []"
  by (simp add: check_scope_def scope_json_def nil_simps get_is_def py_get_dict_of)

lemma check_header_built:
  assumes "repository_intact E"
  shows "check_header E (dict_of (registry_body cards smry @ [(''registry_sha256'', h)])) = Inr []"
  using check_bindings_intact [OF assms registry_gets(4)] catalog_tidy
  by (simp add: check_header_def expect_def get_is_def registry_gets check_scope_built py_eq_refl)

lemma py_distinct_strs: "distinct ss \<Longrightarrow> py_distinct (map JStr ss) = map JStr ss"
  by (induction ss) auto

lemma check_ids_built:
  assumes "cards_for sha card_seed_items ATOMIC_IDS cards"
  shows "check_ids cards = Inr []"
proof -
  have "length cards = length ATOMIC_IDS" using assms by (auto simp: cards_for_def dest: list_all2_lengthD)
  moreover have "length ATOMIC_IDS = 106" using items_length items_keys_atomic by (metis length_map)
  ultimately show ?thesis
    by (simp add: check_ids_def all_ids_built [OF assms] nil_simps set_size_def list_all_iff py_distinct_strs atomic_distinct)
qed

lemma family_counts_eq: "counts_eq expected_family_counts (fold bump (map (\<lambda>i. JStr (take 1 i)) ATOMIC_IDS) [])"
  by code_simp

theorem generated_registry_passes:
  assumes "repository_intact E"
  obtains r where "build_registry (sha256 E) = Inr r" "validate_registry E r = Inr []"
proof -
  obtain cards smry where c: "cards_for (sha256 E) card_seed_items ATOMIC_IDS cards" "summary_for_cards cards = Inr smry"
      "summary_eq (summary_json smry) smry" and r: "build_registry (sha256 E) = Inr (dict_of (registry_body cards smry @
       [(''registry_sha256'', JStr (sha256_json (sha256 E) (dict_of (registry_body cards smry))))]))"
    using build_registry_eq by metis
  let ?h = "JStr (sha256_json (sha256 E) (dict_of (registry_body cards smry)))"
  let ?r = "dict_of (registry_body cards smry @ [(''registry_sha256'', ?h)])"
  have "without_key ''registry_sha256'' ?r = dict_of (registry_body cards smry)"
    by (rule without_key_dict_of) (simp add: registry_body_keys)
  then have "check_experiments E ?r cards = Inr []" using family_counts_eq
    by (simp add: check_experiments_def check_ids_built [OF c(1)] load_card_seeds_eq check_items_built [OF c(1)]
        expect_def check_special_built [OF c(1)] check_summary_def registry_gets c(2,3) get_is_def)
  then have "validate_registry E ?r = Inr []"
    by (simp add: validate_registry_def check_header_built [OF assms] registry_gets)
  then show thesis using that r by blast
qed

end
