(* ===== verification/SampleRepo.thy ===== *)
theory SampleRepo
  imports RegistryComplete
begin

text \<open>
  A concrete repository in which every bound source file is intact, on which the properties that
  assume one are exercised.
\<close>

definition sample_authority :: string where
  "sample_authority = enc compact 0 (dict_of [
     (''atomic_ids'', jstrs ATOMIC_IDS), (''source_document_sha256'', JStr ORIGIN_DOCUMENT_SHA)])"

definition sample_digests :: "(string \<times> string) list" where
  "sample_digests = [
     (''results'', ''e2265284704a828ec9dd0c700c66f16bdf11c9729530b583e9578561e27782f6''),
     (''estimability'', ''50a63f633db2edccfc315d482684d5d6ea488fdbd5526106e9a2c60b5831c7de''),
     (''tables'', ''e97fe0376cf4700829ed5afccc6eeaa10f4c368b417d335b0e1af7df490d0f52''),
     (''waterfall'', ''3e8136820158d320bbc1df52edb7239af9d29c281308c7c97dad3297d0deef4a''),
     (sample_authority, ''85db70587525ab34af7b5e1cba8bb70929581ea2ff64eb075eabaf5f98ea337e'')]"

definition sample_files :: "(string list \<times> file_entry) list" where
  "sample_files = [
     ([''repo'', ''Deepresearch V3'', ''run_2026-07-22_D3-W2A'', ''RESULTS.json''], Text ''results''),
     ([''repo'', ''Deepresearch V3'', ''run_2026-07-22_D3-W2A'', ''ESTIMABILITY_PREFLIGHT.json''], Text ''estimability''),
     ([''repo'', ''Deepresearch V3'', ''run_2026-07-22_D3-W2A'', ''FULLSCOPE_L2_REPORT_TABLES.json''], Text ''tables''),
     ([''repo'', ''Deepresearch V3'', ''run_2026-07-22_D3-W2A'', ''EXCLUSION_WATERFALL.json''], Text ''waterfall''),
     ([''repo'', ''Deepresearch V3'', ''registry'', ''sources'', ''DEEP03_ATOMIC_DIRECTION_AUTHORITY_V1.json''],
       Text sample_authority)]"

definition sample_env :: env where
  "sample_env = \<lparr>
     sha256 = (\<lambda>b. case map_of sample_digests b of Some h \<Rightarrow> h | None \<Rightarrow> b),
     root = [''repo''],
     files = map_of sample_files,
     exc_text = (\<lambda>_. ''error'')\<rparr>"

lemma sample_sources: "case SOURCE_BINDINGS of JList bs \<Rightarrow> list_all (source_intact sample_env) bs | _ \<Rightarrow> False"
  by code_simp

lemma sample_path: "split_slash authority_path
    = [''Deepresearch V3'', ''registry'', ''sources'', ''DEEP03_ATOMIC_DIRECTION_AUTHORITY_V1.json'']"
  by code_simp

lemma sample_authority_intact: "authority_intact sample_env"
proof -
  let ?kvs = "[(''atomic_ids'', jstrs ATOMIC_IDS), (''source_document_sha256'', JStr ORIGIN_DOCUMENT_SHA)]"
  have d: "keys_distinct ?kvs" by simp
  have "files sample_env (root sample_env @ split_slash authority_path) = Some (Text sample_authority)"
    by (simp add: sample_env_def sample_files_def sample_path)
  moreover have "loads sample_authority = Inr (dict_of ?kvs)"
    unfolding sample_authority_def by (rule canon.parse_print) (simp add: wf_dict_of)
  ultimately show ?thesis
    unfolding authority_intact_def dict_of_def
    using map_of_sorted_fields [OF d] by auto
qed

lemma sample_intact: "repository_intact sample_env"
  using sample_sources sample_authority_intact by (simp add: repository_intact_def)

end
