(* ===== verification/RegistryMain.thy ===== *)
theory RegistryMain
  imports SampleRepo
begin

text \<open>
  The command line of the registry generator: \<^verbatim>\<open>_write_registry\<close>, \<^verbatim>\<open>_read_registry\<close>,
  \<^verbatim>\<open>_print_summary\<close> and \<^verbatim>\<open>main\<close>.  The parsed arguments are a record; the run is a function of the
  repository, which \<^verbatim>\<open>--write\<close> changes, and gives the lines printed and the exit status.
\<close>


section \<open>The artifact\<close>

definition REGISTRY_PATH :: "string list" where
  "REGISTRY_PATH = [''Deepresearch V3'', ''registry'', ''EXPERIMENT_REGISTRY_V1.json'']"

definition registry_path :: "env \<Rightarrow> string list" where
  "registry_path E = root E @ REGISTRY_PATH"

text \<open>\<^verbatim>\<open>json.dumps(registry, ensure_ascii=False, sort_keys=True, indent=2) + "\n"\<close>.\<close>

definition registry_text :: "json \<Rightarrow> string" where
  "registry_text registry = enc (indented 2) 0 (sort_json registry) @ [CHR 0x0A]"

definition write_registry :: "env \<Rightarrow> json \<Rightarrow> env" where
  "write_registry E registry = E\<lparr>files := (files E)(registry_path E \<mapsto> Text (registry_text registry))\<rparr>"

definition read_registry :: "env \<Rightarrow> json res" where
  "read_registry E = rbind (read_text E (registry_path E)) loads"

definition summary_line :: "json \<Rightarrow> string res" where
  "summary_line registry =
     rbind (py_index registry ''summary'') (\<lambda>smry.
     rbind (py_index smry ''total_cards'') (\<lambda>total_v.
     rbind (py_index smry ''family_counts'') (\<lambda>families.
     rbind (py_index smry ''computed_class_counts'') (\<lambda>computed.
     rbind (py_index smry ''strategy_eligible_now'') (\<lambda>eligible.
     rbind (py_index registry ''registry_sha256'') (\<lambda>digest.
     Inr (''experiment registry ok: '' @ py_str total_v @ '' cards; families='' @ py_str families
       @ ''; computed='' @ py_str computed @ ''; strategy_eligible_now='' @ py_str eligible
       @ ''; sha256='' @ py_str digest)))))))"


section \<open>main\<close>

record args =
  arg_write :: bool
  arg_check :: bool
  arg_summary :: bool

record outcome =
  out_env :: env
  out_stdout :: "string list"
  out_stderr :: "string list"
  out_status :: nat

definition fail_lines :: "string list \<Rightarrow> string list" where
  "fail_lines errs = map (\<lambda>e. ''FAIL: '' @ e) errs"

definition path_text :: "string list \<Rightarrow> string" where
  "path_text ps = concat (map (\<lambda>p. ''/'' @ p) ps)"

text \<open>The part of \<^verbatim>\<open>main\<close> after the artifact is read.\<close>

definition main_check :: "env \<Rightarrow> json \<Rightarrow> json \<Rightarrow> outcome res" where
  "main_check E expected actual =
     rbind (validate_registry E actual) (\<lambda>errs.
     let errs' = errs @ (if py_eq actual expected then [] else
           [''checked-in registry differs from generator output; run python3 tools/experiment_registry.py --write''])
     in if errs' \<noteq> [] then Inr \<lparr>out_env = E, out_stdout = [], out_stderr = fail_lines errs', out_status = 1\<rparr>
        else rbind (summary_line actual) (\<lambda>l.
          Inr \<lparr>out_env = E, out_stdout = [l], out_stderr = [], out_status = 0\<rparr>))"

definition main :: "env \<Rightarrow> args \<Rightarrow> outcome res" where
  "main E a =
     rbind (build_registry (sha256 E)) (\<lambda>expected.
     if arg_write a then
       rbind (validate_registry E expected) (\<lambda>errs.
       if errs \<noteq> [] then Inr \<lparr>out_env = E, out_stdout = [], out_stderr = fail_lines errs, out_status = 1\<rparr>
       else let E' = write_registry E expected
            in rbind (read_registry E') (main_check E' expected))
     else if files E (registry_path E) = None then
       Inr \<lparr>out_env = E, out_stdout = [],
         out_stderr = [''FAIL: missing registry artifact: '' @ path_text (registry_path E)], out_status = 1\<rparr>
     else rbind (read_registry E) (main_check E expected))"


section \<open>Round trip through the file\<close>

lemma env_write [simp]:
  "sha256 (write_registry E r) = sha256 E" "root (write_registry E r) = root E"
  "registry_path (write_registry E r) = registry_path E"
  "path \<noteq> registry_path E \<Longrightarrow> files (write_registry E r) path = files E path"
  "files (write_registry E r) (registry_path E) = Some (Text (registry_text r))"
  by (simp_all add: write_registry_def registry_path_def)

lemma loads_registry_text: "wf_json r \<Longrightarrow> loads (registry_text r) = Inr (sort_json r)"
  unfolding registry_text_def by (rule pretty.parse_print) (rule wf_sort_json)

lemma read_write_registry: "wf_json r \<Longrightarrow> read_registry (write_registry E r) = Inr (sort_json r)"
  by (simp add: read_registry_def read_text_def loads_registry_text)

text \<open>The artifact is not one of the bound sources, so writing it keeps the repository intact.\<close>

lemma bound_paths_differ:
  "case SOURCE_BINDINGS of JList bs \<Rightarrow> list_all (\<lambda>b. case py_index b ''path'' of
     Inr (JStr p) \<Rightarrow> split_slash p \<noteq> REGISTRY_PATH | _ \<Rightarrow> False) bs | _ \<Rightarrow> False"
  by code_simp

lemma authority_path_differs: "split_slash authority_path \<noteq> REGISTRY_PATH"
  by code_simp

lemma source_intact_write:
  assumes "source_intact E b" "\<And>p. py_index b ''path'' = Inr (JStr p) \<Longrightarrow> split_slash p \<noteq> REGISTRY_PATH"
  shows "source_intact (write_registry E r) b"
proof -
  obtain p where p: "py_index b ''path'' = Inr (JStr p)"
    using assms(1) by (auto simp: source_intact_def split: sum.splits json.splits)
  have f: "files (write_registry E r) (root E @ split_slash p) = files E (root E @ split_slash p)"
    using assms(2) [OF p] by (simp add: registry_path_def)
  have "source_intact (write_registry E r) b = source_intact E b"
    unfolding source_intact_def p env_write(1,2) prod.case sum.case json.case f ..
  then show ?thesis using assms(1) by simp
qed

lemma repository_intact_write:
  assumes "repository_intact E"
  shows "repository_intact (write_registry E r)"
proof -
  obtain bs where bs: "SOURCE_BINDINGS = JList bs" using bindings_ok by (auto split: json.splits)
  have b: "split_slash p \<noteq> REGISTRY_PATH" if "b \<in> set bs" "py_index b ''path'' = Inr (JStr p)" for b p
    using bound_paths_differ that by (auto simp: bs list_all_iff)
  have "list_all (source_intact (write_registry E r)) bs"
    using assms b by (auto simp: repository_intact_def bs list_all_iff intro: source_intact_write)
  moreover have "authority_intact (write_registry E r)"
    using assms authority_path_differs
    by (simp add: repository_intact_def authority_intact_def registry_path_def)
  ultimately show ?thesis by (simp add: repository_intact_def bs)
qed



section \<open>Writing and checking\<close>

lemma tidy_registry_parts:
  "tidy scope_json" "tidy classification_contract_json" "tidy pnl_contract_json" "tidy SOURCE_BINDINGS" "tidy EXTERNAL_SOURCE_CATALOG"
proof -
  show "tidy SOURCE_BINDINGS" "tidy EXTERNAL_SOURCE_CATALOG" using bindings_tidy catalog_tidy by (simp_all add: tidy_def)
qed (simp_all add: scope_json_def classification_contract_json_def pnl_contract_json_def tidy_dict_of)

text \<open>What the generator returns, with everything the command line needs to know about it.\<close>

lemma generated_registry:
  assumes "repository_intact E"
  obtains r where "build_registry (sha256 E) = Inr r" "validate_registry E r = Inr []" "tidy r"
    "\<exists>l. summary_line r = Inr l"
proof -
  obtain r where r: "build_registry (sha256 E) = Inr r" "validate_registry E r = Inr []"
    using generated_registry_passes [OF assms] .
  obtain cards smry where c: "cards_for (sha256 E) card_seed_items ATOMIC_IDS cards" "tidy (summary_json smry)"
      and eq: "build_registry (sha256 E) = Inr (dict_of (registry_body cards smry @
       [(''registry_sha256'', JStr (sha256_json (sha256 E) (dict_of (registry_body cards smry))))]))"
    using build_registry_eq by metis
  let ?h = "JStr (sha256_json (sha256 E) (dict_of (registry_body cards smry)))"
  have r': "r = dict_of (registry_body cards smry @ [(''registry_sha256'', ?h)])" using r(1) eq by simp
  have "list_all tidy cards"
    using c(1) built_tidy by (fastforce simp: cards_for_def list_all2_conv_all_nth list_all_length)
  then have t: "tidy r" unfolding r'
    by (intro tidy_dict_of) (simp_all add: registry_body_keys, simp_all add: registry_body_def tidy_registry_parts c(2) tidy_JList)
  have i: "py_index r ''summary'' = Inr (summary_json smry)" "py_index r ''registry_sha256'' = Inr ?h"
    unfolding r' by (simp_all add: py_index_dict_of registry_body_keys) (simp_all add: registry_body_def)
  have "\<exists>l. summary_line r = Inr l"
    by (simp add: summary_line_def i) (simp add: summary_json_def py_index_dict_of)
  then show thesis using that r t by blast
qed

lemma main_check_ok:
  assumes "repository_intact E" "build_registry (sha256 E) = Inr r"
  shows "\<exists>l. main_check E r r = Inr \<lparr>out_env = E, out_stdout = [l], out_stderr = [], out_status = 0\<rparr>"
proof -
  obtain l where "validate_registry E r = Inr []" "tidy r" "summary_line r = Inr l"
    using generated_registry [OF assms(1)] assms(2) by (metis Inr_inject)
  then show ?thesis by (simp add: main_check_def)
qed

lemma main_check_status:
  assumes "main_check E expected actual = Inr o'"
  shows "out_env o' = E" "out_status o' = 0 \<longleftrightarrow> validate_registry E actual = Inr [] \<and> py_eq actual expected"
    "out_status o' = 0 \<or> (out_status o' = 1 \<and> out_stderr o' \<noteq> [])"
  using assms by (auto simp: main_check_def Let_def rbind_eq_Inr fail_lines_def split: if_splits)

lemma main_write_ok:
  assumes "repository_intact E" "build_registry (sha256 E) = Inr r" "arg_write a"
  shows "\<exists>l. main E a = Inr \<lparr>out_env = write_registry E r, out_stdout = [l], out_stderr = [], out_status = 0\<rparr>"
proof -
  have "tidy r" "validate_registry E r = Inr []"
    using generated_registry [OF assms(1)] assms(2) by (metis Inr_inject)+
  moreover from this have "read_registry (write_registry E r) = Inr r" using read_write_registry [of r E] by (simp add: tidy_def)
  moreover have "\<exists>l. main_check (write_registry E r) r r
      = Inr \<lparr>out_env = write_registry E r, out_stdout = [l], out_stderr = [], out_status = 0\<rparr>"
    using main_check_ok [OF repository_intact_write [OF assms(1)]] assms(2) by simp
  ultimately show ?thesis using assms(2,3) by (simp add: main_def)
qed

lemma main_check_after_write:
  assumes "repository_intact E" "build_registry (sha256 E) = Inr r" "\<not> arg_write a"
  shows "\<exists>l. main (write_registry E r) a
    = Inr \<lparr>out_env = write_registry E r, out_stdout = [l], out_stderr = [], out_status = 0\<rparr>"
proof -
  have "tidy r" using generated_registry [OF assms(1)] assms(2) by (metis Inr_inject)
  then have "read_registry (write_registry E r) = Inr r" using read_write_registry [of r E] by (simp add: tidy_def)
  moreover have "\<exists>l. main_check (write_registry E r) r r
      = Inr \<lparr>out_env = write_registry E r, out_stdout = [l], out_stderr = [], out_status = 0\<rparr>"
    using main_check_ok [OF repository_intact_write [OF assms(1)]] assms(2) by simp
  ultimately show ?thesis using assms(2,3) by (simp add: main_def)
qed

end
