(* ===== verification/PdfPages2.thy ===== *)
theory PdfPages2
  imports PdfPages RegistryMain
begin

text \<open>
  The remaining summary pages of the report, from the PnL contract to the sources.
\<close>


section \<open>What the pages read of the registry\<close>

definition mve_action_label :: "json \<Rightarrow> string res" where
  "mve_action_label registry =
     rbind (named_card registry ''D10-MVE-DIRECT-TRADING'') (\<lambda>c.
     rbind (py_index2 c ''action'' ''profile_id'') (\<lambda>p.
     if \<not> hashable p then Inl TypeError
     else case p of
       JStr s \<Rightarrow> (case map_of ACTION_LABELS s of Some l \<Rightarrow> Inr l | None \<Rightarrow> Inl KeyError)
     | _ \<Rightarrow> Inl KeyError))"

text \<open>\<^verbatim>\<open>_sha256_file(REGISTRY_PATH)\<close>: the digest of the artifact's bytes.\<close>

definition registry_file_sha :: "env \<Rightarrow> string res" where
  "registry_file_sha E = file_sha256 E (registry_path E)"

definition binding_rows :: "json \<Rightarrow> (json \<times> json \<times> json) list res" where
  "binding_rows registry =
     rbind (rbind (py_index registry ''source_bindings'') py_iter) (traverse (\<lambda>b.
       rbind (py_index b ''role'') (\<lambda>role.
       rbind (py_index b ''path'') (\<lambda>path.
       rbind (py_index b ''sha256'') (\<lambda>sha. Inr (role, path, sha))))))"


section \<open>The pages\<close>

definition page_pnl :: "pdf \<Rightarrow> json \<Rightarrow> nat \<Rightarrow> draw list res" where
  "page_pnl P registry page_no =
   Inr (
    let (da, y) = page_header P page_no (uni
      ''^771f^6b63^7684 PnL ^662f^73b0^91d1^7011^5e03^ff0c^4e0d^662f^6f02^4eae^7684 markout'') (uni
      ''^552f^4e00^4e3b^6307^6807^ff1a^76f8^5bf9^53ef^6267^884c^57fa^51c6^7684^9010^8def^5f84^8d39^7528^540e^589e^91cf^73b0^91d1 PnL^3002'')
      (uni ''PNL ^5408^7ea6'') CORAL;
        formula_y = 430;
        db = [SetFont FONT_HEAD 14, SetFillColor INK, DrawString MARGIN formula_y
          ''DeltaPnL = NetPnL(strategy) - NetPnL(executable baseline)''] @
      fst (draw_text P (uni
        ''^6240^6709 eligible no-trigger^3001no-fill^3001no-accept ^673a^4f1a^90fd^4fdd^7559^4e3a 0^ff1b^5bb9^91cf^4e0d^5f97^8d85^8fc7^6d4b^8bd5^8fc7^7684^53ef^6267^884c^6df1^5ea6^3002'')
        MARGIN (formula_y - 25) (PAGE_W P - 2 * MARGIN) FONT_BODY (85 / 10) SLATE None (Some 1));
        waterfall = [
          (uni ''^6210^4ea4^73b0^91d1^6d41'', BLUE, ''+''),
          (uni ''^4ea4^6613^6240^8d39^7528'', RED, ''-''),
          (uni ''^70b9^5dee/^6ed1^70b9/^51b2^51fb'', CORAL, ''-''),
          (uni ''^4e0b^5355/^64a4^5355/^9000^51fa^5ef6^8fdf'', AMBER, ''-''),
          (uni ''^5e93^5b58/^4f5c^5e9f/^7ed3^7b97'', PURPLE, ''-''),
          (uni ''^62b5^62bc^4e0e^8d44^672c'', SLATE, ''-''),
          (uni ''^8d39^7528^540e NetPnL'', TEAL, ''='')];
        start_x = MARGIN;
        box_w = (PAGE_W P - 2 * MARGIN - 6 * 9) / 7;
        yy = 282;
        heights = [105, 88, 76, 67, 58, 48, 40];
        dc = each (\<lambda>(index, ((label, color, sgn), h)).
        let x = start_x + of_nat index * (box_w + 9);
            da = [SetFillColor color, RoundRect x yy box_w h 8 True False];
            (sign_y, label_y, label_size, label_lines) = (if h < 60
        then ((yy + h - 16), (yy + 13), (65 / 10), 1)
        else ((yy + h - 25), (yy + h - 43), (73 / 10), 3))
        in da @ draw_centered sgn (x + 15) sign_y FONT_HEAD 15 White @
          fst (draw_text P label (x + 13) label_y (box_w - 24) FONT_BODY label_size White (Some 9) (Some label_lines)))
            (enumerate 0 (zip waterfall heights)) @
      round_rect MARGIN 72 480 178 NAVY NAVY 10 (7 / 10) @
      [SetFillColor White, SetFont FONT_HEAD 11, DrawString (MARGIN + 18) 222 (uni
        ''P10 ^5546^4e1a ROC ^989d^5916^6263^9664'')];
        extras = [
          uni ''^6570^636e^6e90 / ^8bb8^53ef / API / ^5386^53f2^56de^586b'',
          uni ''^4e91^8ba1^7b97 / ^5b58^50a8 / ^8bf7^6c42 / ^51fa^7f51'',
          uni ''^8fd0^8425^4eba^5de5 / ^503c^73ed / ^4e8b^6545^635f^5931^4e0e^4fee^590d'',
          uni ''^5b8c^6574^8d44^672c^4e0e^62b5^62bc^65f6^95f4^6210^672c''];
        yy = 191;
        dd = rows (\<lambda>yy item.
        let da = [SetFillColor CORAL, Circle (MARGIN + 25) (yy + 3) 3 True False];
            (db, below) = draw_text P item (MARGIN + 38) (yy + 8) 430 FONT_BODY (84 / 10) White (Some 11) (Some 1);
            yy = below - 10
        in (da @ db, yy)) yy extras;
        right_x = MARGIN + 495;
        right_w = PAGE_W P - MARGIN - right_x;
        de = round_rect right_x 72 right_w 178 RED_LIGHT (HexColor ''#F3C8C8'') 10 (7 / 10) @
      [SetFillColor RED, SetFont FONT_HEAD 11, DrawString (right_x + 18) 222 (uni
        ''^53ea^5141^8bb8^505a^8bca^65ad^ff0c^4e0d^662f^73b0^91d1 PnL'')];
        diagnostics = [''mid return'', ''markout'', ''microprice'', ''spread opportunity''];
        yy = 188
    in da @ db @ dc @ dd @ de @ rows (\<lambda>yy item.
        let da = badge P item (right_x + 18) (yy - 8) White RED (Some 120);
            yy = yy - 28
        in (da, yy)) yy diagnostics @
      fst (draw_text P (uni ''^6210^672c^672a^77e5^65f6^5fc5^987b BLOCK^ff0c^4e0d^5f97^586b 0^3002'') (right_x + 150) 191
        (right_w - 168) FONT_HEAD 9 RED (Some 13) (Some 3)) @
      finish_page P page_no)"

definition page_rfq :: "pdf \<Rightarrow> json \<Rightarrow> nat \<Rightarrow> draw list res" where
  "page_rfq P registry page_no =
   Inr (
    let (da, y) = page_header P page_no (uni
      ''RFQ^ff1a^516c^5f00^4fe1^606f^80fd^505a^98ce^9669^63a7^5236^ff0c^4e0d^80fd^731c^65b9^5411'') (uni
      ''^516c^5f00 create/delete ^662f unsigned^ff1b^65b9^5411^4e0e^76f4^63a5^62a5^4ef7 PnL ^53ea^80fd^6765^81ea^79c1^6709 accepted_side ^548c^771f^5b9e^6210^4ea4^94fe^3002'')
      (uni ''RFQ ^8fb9^754c'') PURPLE;
        lane_y = 238;
        lane_h = 225;
        lane_w = (PAGE_W P - 2 * MARGIN - 18) / 2;
        db = round_rect MARGIN lane_y lane_w lane_h SKY (HexColor ''#BFD6F7'') 10 (7 / 10) @
      badge P ''PUBLIC - UNSIGNED'' (MARGIN + 18) (lane_y + lane_h - 40) BLUE White (Some 132);
        public_steps = [
          ''create / delete / size / lifetime / requester hash'',
          uni ''^53ea^6d4b^5230^8fbe^7387^3001^89c4^6a21^3001^5bff^547d^3001^7edd^5bf9^6ce2^52a8/^6bd2^6027'',
          uni ''^5141^8bb8^52a8^4f5c^ff1a^64a4^5355^3001^653e^5bbd^3001^7f29^91cf^ff0c^540c^65f6^4fdd^62a4^4e24^8fb9'',
          ''D02 / D03 / D05 / D07 -> RFQ_GUARD''];
        yy = lane_y + lane_h - 78;
        dc = rows (\<lambda>yy step.
        let da = [SetFillColor BLUE, Circle (MARGIN + 27) (yy + 3) 3 True False];
            (db, below) = draw_text P step (MARGIN + 40) (yy + 8) (lane_w - 60) FONT_BODY (82 / 10) INK (Some 11) (Some 2);
            yy = below - 12
        in (da @ db, yy)) yy public_steps;
        right_x = MARGIN + lane_w + 18;
        dd = round_rect right_x lane_y lane_w lane_h PURPLE_LIGHT (HexColor ''#CDC3F0'') 10 (7 / 10) @
      badge P ''PRIVATE - SIGNED'' (right_x + 18) (lane_y + lane_h - 40) PURPLE White (Some 132);
        private_steps = [
          ''accepted_side / quote / confirmation / executed'',
          ''fills / fees / hedge / inventory / settlement'',
          uni ''D06 ^4ec5^505a^79c1^6709^65b9^5411^4fe1^53f7^5206^6790^ff0c^65e0^52a8^4f5c'',
          uni ''D08 ^624d^80fd^5b9a^4e49 RFQ quote + hedge ^7684^73b0^91d1 PnL''];
        yy = lane_y + lane_h - 78
    in da @ db @ dc @ dd @ rows (\<lambda>yy step.
        let da = [SetFillColor PURPLE, Circle (right_x + 27) (yy + 3) 3 True False];
            (db, below) = draw_text P step (right_x + 40) (yy + 8) (lane_w - 60) FONT_BODY (82 / 10) INK (Some 11) (Some 2);
            yy = below - 12
        in (da @ db, yy)) yy private_steps @
      round_rect MARGIN 72 (PAGE_W P - 2 * MARGIN) 142 NAVY NAVY 10 (7 / 10) @
      [SetFillColor RED, RoundRect (MARGIN + 22) 105 245 70 11 True False] @
      draw_centered ''combo leg side'' (MARGIN + 144) 151 FONT_HEAD 11 White @
      draw_centered (uni ''^2260 requester ^4e70^5356^65b9^5411'') (MARGIN + 144) 126 FONT_HEAD 10 White @
      arrow (MARGIN + 288) 140 (MARGIN + 365) 140 White (18 / 10) @
      fst (draw_text P (uni
        ''^5f53^524d RFQ_PUBLIC_DATA_UNRELEASED ^548c RFQ_PRIVATE_EVENTS_MISSING ^4ecd^5728^963b^65ad^ff1bD08 ^4e0d^80fd^5ba3^79f0^53ef^4ea4^6613^3002'')
        (MARGIN + 390) 154 (PAGE_W P - MARGIN - (MARGIN + 410)) FONT_HEAD (92 / 10) White (Some 14) (Some 3)) @
      finish_page P page_no)"

definition page_mve :: "pdf \<Rightarrow> json \<Rightarrow> nat \<Rightarrow> draw list res" where
  "page_mve P registry page_no =
   rbind (mve_action_label registry) (\<lambda>action_label. Inr (
    let (da, y) = page_header P page_no (uni ''MVE^ff1a^72ec^7acb^6267^884c^4ea7^54c1^ff0c^4e0d^662f RFQ ^7684^522b^540d'')
      (uni ''D10 ^4f7f^7528^4e13^7528 MVE ^79c1^6709^6570^636e^5951^7ea6^ff1bRFQ ^4e8b^4ef6^4e0d^80fd^8de8^7ebf^66ff^4ee3 package ^6267^884c^3002'')
      (uni ''MVE ^8fb9^754c'') AMBER;
        steps = [
          (''01'', ''Exact MVE catalog'', uni ''^4ea7^54c1^7248^672c^4e0e^89c4^5219''),
          (''02'', ''Leg / orientation'', uni ''^652f^4ed8^77e9^9635^7a77^5c3d''),
          (''03'', uni ''^540c^6b65 leg L2'', uni ''^771f^5b9e^53ef^6267^884c^6df1^5ea6''),
          (''04'', ''Private package'', ''order / ack / fill / fee''),
          (''05'', ''Hedge + settlement'', uni ''^5b64^817f^4e0e^90e8^5206^5305^98ce^9669''),
          (''06'', ''Joint NetPnL'', uni ''^5168^817f^8d39^7528^540e^73b0^91d1'')];
        x = MARGIN;
        box_y = 320;
        box_w = (PAGE_W P - 2 * MARGIN - 5 * 10) / 6;
        db = rows (\<lambda>x (index, (no, title, remark)).
        let color = ([BLUE, PURPLE, TEAL, AMBER, CORAL, RED] ! index);
            da = round_rect x box_y box_w 125 White color 10 (12 / 10) @
          [SetFillColor color, Circle (x + 22) (box_y + 100) 13 True False] @
          draw_centered no (x + 22) (box_y + 96) FONT_MONO_BOLD 7 White @
          fst (draw_text P title (x + 16) (box_y + 70) (box_w - 30) FONT_HEAD (85 / 10) INK (Some 11) (Some 2)) @
          fst (draw_text P remark (x + 16) (box_y + 36) (box_w - 30) FONT_BODY 7 MUTED (Some 9) (Some 2)) @
          (if index < 5 then arrow (x + box_w + 1) (box_y + 62) (x + box_w + 8) (box_y + 62) MUTED (12 / 10) else []);
            x = x + (box_w + 10)
        in (da, x)) x (enumerate 0 steps) @
      round_rect MARGIN 72 465 215 AMBER_LIGHT (HexColor ''#F0D49D'') 10 (7 / 10) @
      [SetFillColor (HexColor ''#8A5A06''), SetFont FONT_HEAD 11, DrawString (MARGIN + 18) 258 (uni
        ''D10 ^5df2^7ecf^5b9a^4e49^7684^52a8^4f5c'')];
        details = [
          (uni ''^52a8^4f5c'', action_label),
          (uni ''^573a^6240'', ''Kalshi MVE private execution''),
          (uni ''^57fa^51c6'', uni ''^76f8^540c^673a^4f1a^4e0d^505a MVE package''),
          (''PnL'', uni ''package + hedge ^73b0^91d1 - ^5168^817f^8d39^7528 - ^5b64^817f^6210^672c + joint terminal''),
          (uni ''^72b6^6001'', ''BLOCKED / NO AUTHORITY'')];
        yy = 224;
        dc = rows (\<lambda>yy (label, v).
        let da = [SetFillColor AMBER, SetFont FONT_HEAD 8, DrawString (MARGIN + 20) yy label];
            (db, below) = draw_text P v (MARGIN + 70) (yy + 2) 370 FONT_BODY (74 / 10) INK (Some 10) (Some 2);
            yy = below - 10
        in (da @ db, yy)) yy details;
        right_x = MARGIN + 480;
        right_w = PAGE_W P - MARGIN - right_x;
        dd = round_rect right_x 72 right_w 215 RED_LIGHT (HexColor ''#F3C8C8'') 10 (7 / 10) @
      [SetFillColor RED, SetFont FONT_HEAD 11, DrawString (right_x + 18) 258 (uni ''^4ecd^7136^7f3a^5931'')];
        missing = [
          ''MVE private package lifecycle'',
          ''exact leg/orientation/payout mapping'',
          ''multi-leg atomic/orphan-safe engine'',
          ''fees, latency, risk and settlement''];
        yy = 224
    in da @ db @ dc @ dd @ rows (\<lambda>yy item.
        let da = [SetFillColor RED, Circle (right_x + 25) (yy + 2) 3 True False];
            (db, below) = draw_text P item (right_x + 38) (yy + 7) (right_w - 56) FONT_BODY (78 / 10) INK (Some 10) (Some 2);
            yy = below - 12
        in (da @ db, yy)) yy missing @
      finish_page P page_no))"

definition page_external :: "pdf \<Rightarrow> json \<Rightarrow> nat \<Rightarrow> draw list res" where
  "page_external P registry page_no =
   Inr (
    let (da, y) = page_header P page_no (uni ''^5916^90e8^4f53^80b2^6570^636e^ff1a^6ca1^6709^5c31^660e^786e^5199^6ca1^6709'')
      (uni ''^5f53^524d^6ca1^6709^76f4^63a5^4f53^80b2^6570^636e adapter^ff1b^7f3a^5931^5fc5^987b BLOCK_NO_IMPUTE^ff0c^5019^9009 API ^4e0d^7b49^4e8e^5df2^63a5^5165^3002'')
      (uni ''^5916^90e8^6570^636e'') RED;
        missing = [
          uni ''^6bd4^5206'',
          uni ''^5c40/^76d8/^8282'',
          uni ''^9635^5bb9'',
          uni ''^4f24^75c5'',
          uni ''^771f^5b9e^5f00^8d5b^72b6^6001'',
          uni ''^5916^90e8^8d54^7387''];
        x = MARGIN;
        db = rows (\<lambda>x item.
        let da = badge P (item @ ''  MISSING'') x 426 RED_LIGHT RED (Some 112);
            x = x + 122
        in (da, x)) x missing @
      round_rect MARGIN 250 (PAGE_W P - 2 * MARGIN) 150 White BORDER 10 (7 / 10) @
      [SetFont FONT_HEAD 11, SetFillColor INK, DrawString (MARGIN + 18) 372 (uni
        ''^5019^9009^6765^6e90 - ^5168^90e8^5f85^9a8c^8bc1'')];
        sources = [
          (''Kalshi Live Data'', ''direct labels / live state''),
          (''The Odds API'', ''external odds''),
          (''OpticOdds'', ''odds / results / lineup''),
          (''Sportradar'', ''play-by-play / roster''),
          (''NOAA / NCEI'', ''weather control'')];
        col_w = (PAGE_W P - 2 * MARGIN - 36) / 5;
        x = MARGIN + 10;
        dc = rows (\<lambda>x (name, kind).
        let da = round_rect x 277 col_w 72 AMBER_LIGHT (HexColor ''#F0D49D'') 8 (7 / 10) @
          fst (draw_text P name (x + 10) 329 (col_w - 20) FONT_HEAD (75 / 10) (HexColor ''#8A5A06'') (Some 9) (Some 2)) @
          fst (draw_text P kind (x + 10) 298 (col_w - 20) FONT_MONO (58 / 10) SLATE (Some 8) (Some 2));
            x = x + (col_w + 9)
        in (da, x)) x sources;
        stages = [
          uni ''^6388^6743/^8bb8^53ef'',
          uni ''^5b57^6bb5^8bed^4e49'',
          ''source + receive clocks'',
          ''append-only capture'',
          ''event/market mapping'',
          uni ''point-in-time ^9a8c^8bc1''];
        x = MARGIN
    in da @ db @ dc @ rows (\<lambda>x (index, stage).
        let box_w = (PAGE_W P - 2 * MARGIN - 5 * 9) / 6;
            da = round_rect x 145 box_w 72 NAVY NAVY 8 (7 / 10) @
          draw_centered (str_of_nat (index + 1)) (x + 18) 190 FONT_MONO_BOLD 8 TEAL @
          fst (draw_text P stage (x + 12) 175 (box_w - 24) FONT_BODY (68 / 10) White (Some 9) (Some 3)) @
          (if index < 5 then arrow (x + box_w + 1) 181 (x + box_w + 7) 181 MUTED (12 / 10) else []);
            x = x + (box_w + 9)
        in (da, x)) x (enumerate 0 stages) @
      round_rect MARGIN 72 (PAGE_W P - 2 * MARGIN) 50 RED_LIGHT (HexColor ''#F3C8C8'') 10 (7 / 10) @
      fst (draw_text P (uni
        ''^7981^6b62^ff1a^4ece^76d8^53e3^4ef7^683c^63a8^65ad^6bd4^5206/^4f24^75c5^ff1b^628a^5f53^524d snapshot ^4f2a^88c5^6210^5386^53f2 point-in-time^ff1b^628a scheduled-start proxy ^6539^540d^4e3a^771f^5b9e in-play^3002'')
        (MARGIN + 18) 100 (PAGE_W P - 2 * MARGIN - 36) FONT_HEAD (85 / 10) RED (Some 11) (Some 2)) @
      finish_page P page_no)"

definition page_priority :: "pdf \<Rightarrow> json \<Rightarrow> nat \<Rightarrow> draw list res" where
  "page_priority P registry page_no =
   rbind (card_by_id registry) (\<lambda>by_id. Inr (
    let (da, y) = page_header P page_no (uni
      ''^4f18^5148^961f^5217^ff1a^5148^89e3^516c^5171^95e8^ff0c^518d^6d4b^6700^63a5^8fd1^73b0^91d1^7684^5361'') (uni
      ''^8fd9^662f^201c^79bb^53ef^5ba1^8ba1 PnL ^6709^591a^8fdc^201d^7684^8fd0^8425^6392^5e8f^ff0c^4e0d^662f^9884^671f^6536^76ca^6392^540d^6216^4ea4^6613^63a8^8350^3002'')
      (uni ''^9a8c^8bc1^961f^5217'') AMBER;
        priority = [
          (''A01-SPREAD-CAPTURE'', uni ''^5df2^6709 gross ^63cf^8ff0'', ''strict fill + fee''),
          (''A11-ONE-SIDED-PROVISION'', uni ''^5df2^6709^7a84 pre-start ^63cf^8ff0'', uni ''fail-fast ^4e25^683c^6210^4ea4''),
          (''A12-GENERIC-PASSIVE-SCALPING'', uni ''L1 ^4fe1^53f7^53ef^6784^9020'', uni ''^88ab^52a8^6210^4ea4^4e0e^9000^51fa''),
          (''B09-LISTING-TO-START-DRIFT'', uni ''^53ea^9700^5185^90e8^65f6^949f'', uni ''^65b9^5411^6210^4ea4^4e0e^6743^9650''),
          (''B14-VOL-HARVEST'', ''past-only vol'', uni ''maker ^8d39^7528^540e replay''),
          (''F03-NEW-MARKET-COLD-START'', uni ''^5185^90e8 age/uptime'', uni ''^4f55^65f6^62a5^4ef7^7684 shadow''),
          (''F11-GOLF-THIN-LONG-LIFECYCLE'', uni ''^5916^90e8^6570^636e^4ec5 optional'',
            uni ''^8d44^672c^4e0e^7ec8^5c40^5c3e^90e8''),
          (''A03-DEPLETION-REFILL'', uni ''3 ^4e2a clean L2 ^65e5'', uni ''own-order ^6821^51c6''),
          (''A04-QUEUE-LAMBDA-DISTANCE'', uni ''L1 ^4fe1^53f7^53ef^6784^9020'', uni ''queue/fill ^6821^51c6''),
          (''B01-MOMENTUM-CONTINUATION'', uni ''L1 ^65b9^5411^4fe1^53f7'', ''venue authority'')];
        table_x = MARGIN;
        table_y = 100;
        table_w = 535;
        table_h = y - 110;
        db = round_rect table_x table_y table_w table_h White BORDER 10 (7 / 10);
        headers = [
          (''#'', 28),
          (uni ''^5b9e^9a8c'', 205),
          (uni ''^73b0^6709^63a5^8fd1^5ea6'', 145),
          (uni ''^7b2c^4e00^65b0^589e^95e8'', 135)];
        x = table_x + 10;
        dc = rows (\<lambda>x (title, width).
        let da = [SetFillColor LIGHT, Rect x (table_y + table_h - 34) width 24 True False] @
          fst (draw_text P title (x + 5) (table_y + table_h - 20) (width - 10) FONT_HEAD 7 SLATE None (Some 1));
            x = x + width
        in (da, x)) x headers;
        row_h = 29;
        yy = table_y + table_h - 58;
        dd = rows (\<lambda>yy (index, (card_id, reason, first_gate)).
        let da = (if (index mod 2) = 0 then [SetFillColor LIGHT, Rect (table_x + 10) (yy - 9) (table_w - 20) row_h True False]
          else []) @
          [SetFont FONT_MONO_BOLD 7, SetFillColor AMBER, DrawString (table_x + 18) (yy + 7) (two_digits index)] @
          fst (draw_text P card_id (table_x + 48) (yy + 8) 195 FONT_MONO_BOLD (63 / 10) INK None (Some 1)) @
          fst (draw_text P reason (table_x + 253) (yy + 8) 135 FONT_BODY (68 / 10) SLATE None (Some 2)) @
          fst (draw_text P first_gate (table_x + 398) (yy + 8) 125 FONT_BODY (68 / 10) RED None (Some 2));
            yy = yy - row_h
        in (da, yy)) yy (enumerate 1 priority);
        right_x = table_x + table_w + 15;
        right_w = PAGE_W P - MARGIN - right_x;
        de = round_rect right_x 300 right_w (y - 310) NAVY NAVY 10 (7 / 10) @
      [SetFillColor White, SetFont FONT_HEAD 11, DrawString (right_x + 18) (y - 28) (uni ''Wave 0 ^5148^505a'')];
        wave0 = [
          ''exact fee facts'',
          ''shadow order ledger'',
          ''strict fill + latency'',
          ''settlement + risk gates''];
        yy = y - 61;
        df = rows (\<lambda>yy (index, item).
        let da = [SetFillColor TEAL, Circle (right_x + 26) (yy + 3) 10 True False] @
          draw_centered (str_of_nat index) (right_x + 26) yy FONT_MONO_BOLD (68 / 10) White @
          fst (draw_text P item (right_x + 45) (yy + 6) (right_w - 63) FONT_MONO (66 / 10) White None (Some 1));
            yy = yy - 31
        in (da, yy)) yy (enumerate 1 wave0) @
      round_rect right_x 100 right_w 185 RED_LIGHT (HexColor ''#F3C8C8'') 10 (7 / 10) @
      [SetFillColor RED, SetFont FONT_HEAD 10, DrawString (right_x + 18) 257 (uni
        ''^7ee7^7eed^4fdd^6301^7ea2^8272^963b^65ad'')];
        blocked = [
          ''D08 RFQ direct quote'',
          ''D10 MVE direct trading'',
          ''C05 / F12 / F13 external'',
          uni ''G/P ^4f9d^8d56^5df2^786e^8ba4 child''];
        yy = 226
    in da @ db @ dc @ dd @ de @ df @ rows (\<lambda>yy item.
        let da = [SetFillColor RED, Circle (right_x + 25) (yy + 2) 3 True False];
            (db, below) = draw_text P item (right_x + 38) (yy + 7) (right_w - 56) FONT_BODY (67 / 10) INK (Some 9) (Some 2);
            yy = below - 12
        in (da @ db, yy)) yy blocked @
      fst (draw_text P (uni
        ''A11 ^5f53^524d^5e7f^4e49 one-sided fade ^88ab^53cd^9a73^ff1b^8fdb^5165^961f^5217^662f^4e3a^4e86^4f4e^6210^672c^8bc1^4f2a^7a84 cell^ff0c^4e0d^662f^770b^591a^3002'')
        (right_x + 18) 130 (right_w - 36) FONT_BODY (72 / 10) RED (Some 10) (Some 3)) @
      finish_page P page_no))"

definition page_roadmap :: "pdf \<Rightarrow> json \<Rightarrow> nat \<Rightarrow> draw list res" where
  "page_roadmap P registry page_no =
   Inr (
    let (da, y) = page_header P page_no (uni ''^4e0b^4e00^8f6e^5982^4f55^771f^6b63^8d70^5230^5b9e^76d8'') (uni
      ''^6bcf^5f20^5361^6309^6536^636e^9010^7ea7^5347^7ea7^ff1aRegistry -> Signal -> Shadow -> Micro-live -> Live^ff1b^4efb^4f55^4e00^7ea7^4e0d^5f97^81ea^52a8^8d8a^7ea7^3002'')
      (uni ''^843d^5730^8def^7ebf'') TEAL;
        stages = [(''1'', ''Registry'', uni ''^5361^7247^51bb^7ed3'' @ [CHR 0x0A] @ uni ''^65e0^6743^9650''), (''2'',
          ''Signal'', uni ''^6837^672c^5916^4fe1^53f7'' @ [CHR 0x0A] @ uni ''^4fdd^7559^96f6^673a^4f1a''), (''3'', ''Shadow'',
          uni ''^65e0^4e0b^5355'' @ [CHR 0x0A] @ uni ''^8def^5f84^7ea7 PnL''), (''4'', ''Micro-live'',
          uni ''^4e00^6b21^6027^6388^6743'' @ [CHR 0x0A] @ ''1 contract''), (''5'', ''Live'', uni ''^771f^5b9e^5bf9^8d26'' @
          [CHR 0x0A] @ uni ''^53e6^884c^6269^5bb9'')];
        x = MARGIN;
        box_y = 305;
        box_w = (PAGE_W P - 2 * MARGIN - 4 * 15) / 5;
        db = rows (\<lambda>x (index, (no, title, remark)).
        let color = ([BLUE, TEAL, AMBER, CORAL, RED] ! index);
            da = round_rect x box_y box_w 140 White color 12 (14 / 10) @
          [SetFillColor color, Circle (x + box_w / 2) (box_y + 110) 19 True False] @
          draw_centered no (x + box_w / 2) (box_y + 104) FONT_HEAD 12 White @
          draw_centered title (x + box_w / 2) (box_y + 71) FONT_HEAD 10 INK @
          fst (draw_text P remark (x + 20) (box_y + 48) (box_w - 40) FONT_BODY 7 MUTED (Some 10) (Some 3)) @
          (if index < 4 then arrow (x + box_w + 2) (box_y + 70) (x + box_w + 13) (box_y + 70) MUTED (12 / 10) else []);
            x = x + (box_w + 15)
        in (da, x)) x (enumerate 0 stages) @
      round_rect MARGIN 72 475 202 NAVY NAVY 10 (7 / 10) @
      [SetFillColor White, SetFont FONT_HEAD 11, DrawString (MARGIN + 18) 246 (uni
        ''^4e0b^4e00^8f6e^4e09^4ef6^5b9e^7269^4ea4^4ed8'')];
        deliverables = [
          (''01'', uni ''^5171^4eab^6267^884c^8d26^672c'', ''fee / order / fill / latency / settlement / risk''),
          (''02'', uni ''Top-3 Shadow ^62a5^544a'', uni ''^8def^5f84^7ea7 DeltaPnL + ^5168^90e8^96f6^673a^4f1a + ^5bb9^91cf''),
          (''03'', uni ''Go / No-Go ^8868'', uni ''^5931^8d25^4e5f^51fa^7248^ff0c^4e0d^81ea^52a8^8fdb^5165 micro-live'')];
        yy = 208;
        dc = rows (\<lambda>yy (no, title, remark).
        let da = [SetFillColor TEAL, Circle (MARGIN + 31) (yy + 4) 13 True False] @
          draw_centered no (MARGIN + 31) yy FONT_MONO_BOLD (65 / 10) White @
          [SetFillColor White, SetFont FONT_HEAD (85 / 10), DrawString (MARGIN + 53) (yy + 5) title] @
          fst (draw_text P remark (MARGIN + 170) (yy + 7) 315 FONT_BODY (62 / 10) (HexColor ''#C9D7EE'') None (Some 2));
            yy = yy - 49
        in (da, yy)) yy deliverables;
        right_x = MARGIN + 490;
        right_w = PAGE_W P - MARGIN - right_x;
        dd = round_rect right_x 72 right_w 202 White BORDER 10 (7 / 10) @
      [SetFillColor INK, SetFont FONT_HEAD 11, DrawString (right_x + 18) 246 (uni ''^8d28^91cf^4e0e^6743^9650^6536^53e3'')];
        facts = [
          (uni ''^72ec^7acb^5ba1^8ba1'', ''PASS / P0=0 / P1=0''),
          (''Registry tests'', ''21 / 21 PASS''),
          (uni ''^5b8c^6574 make check'', ''PASS''),
          (uni ''AWS / ^4e0b^5355^5199^5165'', ''NONE''),
          (uni ''^552f^4e00 P2'', uni ''B08/E04 ^6df1^5ea6^5361^51bb^7ed3^9000^51fa^89c4^5219'')];
        yy = 213
    in da @ db @ dc @ dd @ rows (\<lambda>yy (label, v).
        let da = [
              SetFont FONT_BODY (76 / 10),
              SetFillColor MUTED,
              DrawString (right_x + 18) yy label,
              SetFont FONT_BODY (65 / 10),
              SetFillColor (if (contains ''PASS'' v) \<or> (v = ''NONE'') then TEAL else AMBER),
              DrawRightString (right_x + right_w - 18) yy v];
            yy = yy - 28
        in (da, yy)) yy facts @
      finish_page P page_no)"

definition page_provenance :: "env \<Rightarrow> pdf \<Rightarrow> json \<Rightarrow> nat \<Rightarrow> draw list res" where
  "page_provenance E P registry page_no =
   rbind (registry_file_sha E) (\<lambda>file_digest.
   rbind (rbind (py_index registry ''registry_sha256'') as_text) (\<lambda>digest.
   rbind (binding_rows registry) (\<lambda>bindings. Inr (
    let (da, y) = page_header P page_no (uni ''^8bc1^636e^951a^ff1a^8fd9^4efd^62a5^544a^4ece^54ea^91cc^6765'') (uni
      ''Registry^3001^6765^6e90^6587^4ef6^4e0e^7248^672c^63d0^4ea4^5747^7ed9^51fa^4e0d^53ef^53d8^6307^7eb9^ff1b^4f1a^8bdd^72ec^7acb^5ba1^8ba1^6ca1^6709^4f2a^88c5^6210^4ed3^5e93^5185^6301^4e45^6536^636e^3002'')
      ''PROVENANCE'' PURPLE;
        commit = ''ea6246a44f4d4f6a57f36931fc445810f740b899'';
        db = round_rect MARGIN 372 (PAGE_W P - 2 * MARGIN) 88 NAVY NAVY 10 (7 / 10);
        anchors = [
          (''Registry commit'', commit),
          (''Canonical registry SHA'', digest),
          (''Registry JSON file SHA'', file_digest)];
        yy = 433;
        dc = rows (\<lambda>yy (label, v).
        let da = [
              SetFont FONT_HEAD (78 / 10),
              SetFillColor (HexColor ''#9FB7DA''),
              DrawString (MARGIN + 18) yy label,
              SetFont FONT_MONO (72 / 10),
              SetFillColor White,
              DrawString (MARGIN + 150) yy v];
            yy = yy - 23
        in (da, yy)) yy anchors @
      round_rect MARGIN 164 (PAGE_W P - 2 * MARGIN) 192 White BORDER 10 (7 / 10) @
      [SetFillColor INK, SetFont FONT_HEAD (105 / 10), DrawString (MARGIN + 16) 334 (uni
        ''5 ^4e2a^672c^5730^6765^6e90^7ed1^5b9a'')];
        headers = [(uni ''^89d2^8272'', 150), (uni ''^672c^5730^8def^5f84'', 390), (''SHA-256'', 225)];
        x = MARGIN + 14;
        dd = rows (\<lambda>x (label, width).
        let da = [SetFillColor LIGHT, Rect x 298 width 23 True False] @
          fst (draw_text P label (x + 5) 311 (width - 10) FONT_HEAD 7 SLATE None (Some 1));
            x = x + width
        in (da, x)) x headers;
        yy = 274;
        de = rows (\<lambda>yy (index, (role, path, sha)).
        let da = (if index mod 2 \<noteq> 0 then [SetFillColor LIGHT, Rect (MARGIN + 14) (yy - 11) (PAGE_W P - 2 * MARGIN - 28)
          31 True False] else []);
            x = MARGIN + 19;
            db = fst (draw_value P role x (yy + 6) 140 FONT_MONO_BOLD (66 / 10) PURPLE None (Some 2));
            x = x + 150;
            dc = fst (draw_value P path x (yy + 6) 380 FONT_BODY (67 / 10) INK None (Some 2));
            x = x + 390;
            dd = fst (draw_value P sha x (yy + 6) 215 FONT_MONO (63 / 10) SLATE None (Some 2));
            yy = yy - 31
        in (da @ db @ dc @ dd, yy)) yy (enumerate 0 bindings);
        gap = 14;
        box_w = (PAGE_W P - 2 * MARGIN - gap) / 2;
        df = round_rect MARGIN 44 box_w 88 TEAL_LIGHT (HexColor ''#B9E4DB'') 10 (7 / 10) @
      [SetFillColor TEAL, SetFont FONT_HEAD (92 / 10), DrawString (MARGIN + 15) 112 (uni
        ''^6821^9a8c^4e8b^5b9e^4e0e^8bda^5b9e^8fb9^754c'')] @
      fst (draw_text P (uni
        ''^72ec^7acb^4f1a^8bdd^5ba1^8ba1^ff1aPASS / P0=0 / P1=0 / P2=1^ff1bRegistry tests 21/21^ff0cmake check PASS^3002^76ee^524d^6ca1^6709^4ed3^5e93^5185^72ec^7acb^5ba1^8ba1^6536^636e^ff0c^56e0^6b64^672c^9875^4e0d^4ee5 PDF ^81ea^8eab^4f5c^5faa^73af^8bc1^660e^3002'')
        (MARGIN + 15) 93 (box_w - 30) FONT_BODY (73 / 10) INK (Some 10) (Some 5));
        right_x = MARGIN + box_w + gap
    in da @ db @ dc @ dd @ de @ df @ round_rect right_x 44 box_w 88 AMBER_LIGHT (HexColor ''#F0D7A7'') 10 (7 / 10) @
      [SetFillColor AMBER, SetFont FONT_HEAD (92 / 10), DrawString (right_x + 15) 112 (uni
        ''7/16 ^7684^7248^672c^5316^53e3^5f84'')] @
      fst (draw_text P (uni
        ''Registry V1 ^6309^65e7^5ba1^8ba1^6392^9664^ff1b^540e^7eed^6839^56e0^5ba1^8ba1^5224^5b9a^201c^7ef4^62a4^7a97^6761^4ef6^53ef^6551^201d^3002^53ea^6709^9010^65e5^8d28^91cf^95e8^3001^7a97^53e3^5254^9664^3001^65b0^6536^636e^548c^65b0 Registry revision ^5168^90e8^843d^5730^540e^624d^53ef^7eb3^5165^3002'')
        (right_x + 15) 93 (box_w - 30) FONT_BODY (73 / 10) INK (Some 10) (Some 5)) @
      finish_page P page_no))))"

end
