(* ===== verification/PdfMain.thy ===== *)
theory PdfMain
  imports PdfLayout PdfPages2
begin

text \<open>
  The detail pages of the report and the document as a whole: \<^verbatim>\<open>_render_detail_card\<close>, \<^verbatim>\<open>build_pdf\<close> and
  \<^verbatim>\<open>main\<close>.

  A document is the list of the calls on its canvas, the last of which saves it.  Since the layout of
  the detail pages may run forever, the result of \<open>build_pdf\<close> is an option; an exception is a left
  value inside it.
\<close>


section \<open>Header and footer of a detail page\<close>

definition SUMMARY_PAGES :: nat where
  "SUMMARY_PAGES = 15"

text \<open>\<^verbatim>\<open>table[key]\<close> with a key from the registry.\<close>

definition table_get :: "(string \<times> 'a) list \<Rightarrow> json \<Rightarrow> 'a res" where
  "table_get table k =
     (if \<not> hashable k then Inl TypeError
      else case k of
        JStr s \<Rightarrow> (case map_of table s of Some v \<Rightarrow> Inr v | None \<Rightarrow> Inl KeyError)
      | _ \<Rightarrow> Inl KeyError)"

definition three_digits :: "nat \<Rightarrow> string" where
  "three_digits n = pad_left 3 (str_of_nat n)"

text \<open>What the header reads of the card: family, colour, label, identifier, and the chips.\<close>

record header_data =
  hd_family :: string
  hd_accent :: colour
  hd_label :: string
  hd_id :: string
  hd_chips :: "string list"

definition chip :: "string \<Rightarrow> json \<Rightarrow> string" where
  "chip name v = name @ '' '' @ py_str v"

definition header_data_of :: "json \<Rightarrow> header_data res" where
  "header_data_of crd =
     rbind (py_index crd ''identity'') (\<lambda>identity.
     rbind (py_index crd ''classification'') (\<lambda>classification.
     rbind (py_index identity ''family_code'') (\<lambda>family.
     rbind (table_get FAMILY_COLORS family) (\<lambda>accent.
     rbind (table_get FAMILY_LABELS family) (\<lambda>label.
     rbind (rbind (py_index identity ''experiment_id'') as_text) (\<lambda>i.
     rbind (py_index classification ''target_class'') (\<lambda>target.
     rbind (py_index classification ''computed_class'') (\<lambda>computed.
     rbind (py_index2 crd ''action'' ''profile_id'') (\<lambda>act.
     rbind (py_index2 crd ''data'' ''profile_id'') (\<lambda>data.
     rbind (py_index2 crd ''venue'' ''execution_venue'') (\<lambda>venue.
     Inr \<lparr>hd_family = py_str family, hd_accent = accent, hd_label = label, hd_id = i,
       hd_chips = [chip ''target'' target, chip ''current'' computed, chip ''action'' act, chip ''data'' data,
         chip ''venue'' venue, ''AUTHORITY NONE'']\<rparr>)))))))))))"

definition card_key :: "string \<Rightarrow> string" where
  "card_key i = ''card-'' @ i"

definition draw_chips :: "pdf \<Rightarrow> header_data \<Rightarrow> draw list" where
  "draw_chips P D =
     rows (\<lambda>x (index, chip).
       let chip_color = (if index = 1 \<or> index = 5 then RED else hd_accent D);
           width = min 225 (max 92 (stringWidth P chip FONT_MONO_BOLD (72 / 10) + 18))
       in ([SetFillColor (Faded chip_color (12 / 100)), SetStrokeColor chip_color,
            RoundRect x (DETAIL_PAGE_H P - 106) width 20 8 True True] @
           draw_centered chip (x + width / 2) (DETAIL_PAGE_H P - 99) FONT_MONO_BOLD (72 / 10) chip_color, x + (width + 8)))
       DETAIL_MARGIN (enumerate 0 (hd_chips D))"

definition detail_page_header :: "pdf \<Rightarrow> header_data \<Rightarrow> nat \<Rightarrow> nat \<Rightarrow> nat \<Rightarrow> draw list" where
  "detail_page_header P D card_index card_page_index card_page_count =
     [SetPageSize (DETAIL_PAGE_W P) (DETAIL_PAGE_H P),
      SetFillColor PAPER, Rect 0 0 (DETAIL_PAGE_W P) (DETAIL_PAGE_H P) True False,
      SetFillColor (hd_accent D), RoundRect DETAIL_MARGIN (DETAIL_PAGE_H P - 40) 150 19 8 True False] @
     draw_centered (hd_family D @ uni '' ^00b7 '' @ hd_label D) (DETAIL_MARGIN + 75) (DETAIL_PAGE_H P - 34) FONT_HEAD 8 White @
     [SetFillColor INK, SetFont FONT_HEAD 18,
      DrawString DETAIL_MARGIN (DETAIL_PAGE_H P - 76)
        ((if card_page_index = 1 then uni ''^5b9e^9a8c^5361 ID:'' else uni ''^5b9e^9a8c^5361^7eed^9875:'') @ '' '' @ hd_id D),
      SetFont FONT_HEAD (85 / 10), SetFillColor MUTED,
      DrawRightString (DETAIL_PAGE_W P - DETAIL_MARGIN) (DETAIL_PAGE_H P - 33)
        (uni ''^7b2c '' @ three_digits card_index @ uni '' / 106 ^5f20 ^00b7 ^672c^5361 '' @ str_of_nat card_page_index
          @ '' / '' @ str_of_nat card_page_count @ uni '' ^9875'')] @
     draw_chips P D @
     [SetStrokeColor BORDER, SetLineWidth (8 / 10),
      DrawLine DETAIL_MARGIN (DETAIL_PAGE_H P - 119) (DETAIL_PAGE_W P - DETAIL_MARGIN) (DETAIL_PAGE_H P - 119)] @
     (if card_page_index = 1
      then [BookmarkPage (card_key (hd_id D)), AddOutlineEntry (hd_id D) (card_key (hd_id D)) 0 False] else [])"

definition detail_page_footer :: "pdf \<Rightarrow> json \<Rightarrow> json \<Rightarrow> nat \<Rightarrow> draw list" where
  "detail_page_footer P registry_digest digest page_no =
     [SetStrokeColor BORDER, SetLineWidth (5 / 10), DrawLine DETAIL_MARGIN 31 (DETAIL_PAGE_W P - DETAIL_MARGIN) 31,
      SetFont FONT_MONO (68 / 10), SetFillColor MUTED,
      DrawString DETAIL_MARGIN 17 (''registry_sha256 '' @ py_str registry_digest),
      DrawCentredString (DETAIL_PAGE_W P / 2) 17 (''definition_sha256 '' @ py_str digest),
      DrawRightString (DETAIL_PAGE_W P - DETAIL_MARGIN) 17 (uni ''NO AUTHORITY ^00b7 '' @ page_label P page_no)]"


section \<open>Columns\<close>

definition draw_block :: "pdf \<Rightarrow> colour \<Rightarrow> rat \<Rightarrow> rat \<Rightarrow> block \<Rightarrow> draw list" where
  "draw_block P accent x y b =
     (case b of
        Section title \<Rightarrow>
          [SetFillColor (Faded accent (12 / 100)),
           RoundRect (x + 6) (y - DETAIL_SECTION_H + 3) (DETAIL_COL_W P - 12) (DETAIL_SECTION_H - 5) 5 True False,
           SetFillColor accent, SetFont FONT_HEAD 9, DrawString (x + 13) (y - 11) title]
      | Entry ls \<Rightarrow>
          [SetFillColor accent, Circle (x + 11) (y - 7) (17 / 10) True False,
           SetFillColor INK, SetFont FONT_BODY DETAIL_FONT_SIZE] @
          text_rows (x + 17) (y - 10) DETAIL_LEADING ls)"

fun draw_blocks :: "pdf \<Rightarrow> colour \<Rightarrow> rat \<Rightarrow> rat \<Rightarrow> block list \<Rightarrow> draw list \<times> rat" where
  "draw_blocks P accent x y [] = ([], y)"
| "draw_blocks P accent x y (b # bs) =
     (case draw_blocks P accent x (y - height b) bs of (ds, y') \<Rightarrow> (draw_block P accent x y b @ ds, y'))"

text \<open>A column, which must not be filled beyond its foot.\<close>

definition overflow_text :: "string \<Rightarrow> nat \<Rightarrow> nat \<Rightarrow> string" where
  "overflow_text i card_page_index column =
     ''detail layout overflow: '' @ i @ '' page '' @ str_of_nat card_page_index @ '' column '' @ str_of_nat column"

definition draw_column :: "pdf \<Rightarrow> header_data \<Rightarrow> nat \<Rightarrow> nat \<times> block list \<Rightarrow> draw list res" where
  "draw_column P D card_page_index indexed =
     (case indexed of (col_no, blocks) \<Rightarrow>
      let x = DETAIL_MARGIN + of_nat col_no * (DETAIL_COL_W P + DETAIL_COL_GAP);
          (ds, y) = draw_blocks P (hd_accent D) x (DETAIL_TOP P) blocks
      in if y < DETAIL_BOTTOM - 1 / 10
         then Inl (AssertionError (overflow_text (hd_id D) card_page_index (col_no + 1)))
         else Inr (round_rect x DETAIL_BOTTOM (DETAIL_COL_W P) (DETAIL_CONTENT_H P) White BORDER 8 (6 / 10) @ ds))"


section \<open>The pages of a card\<close>

definition detail_page :: "pdf \<Rightarrow> json \<Rightarrow> json \<Rightarrow> header_data \<Rightarrow> nat \<Rightarrow> nat \<Rightarrow> nat \<Rightarrow> nat \<Rightarrow> page_layout \<Rightarrow> draw list res" where
  "detail_page P registry crd D card_index card_page_count page_no card_page_index columns =
     rbind (traverse (draw_column P D card_page_index) (enumerate 0 columns)) (\<lambda>drawn.
     rbind (py_index registry ''registry_sha256'') (\<lambda>registry_digest.
     rbind (py_index crd ''definition_sha256'') (\<lambda>digest.
     Inr (detail_page_header P D card_index card_page_index card_page_count @ concat drawn
       @ detail_page_footer P registry_digest digest page_no @ [ShowPage]))))"

fun detail_pages :: "pdf \<Rightarrow> json \<Rightarrow> json \<Rightarrow> header_data \<Rightarrow> nat \<Rightarrow> nat \<Rightarrow> nat \<Rightarrow> nat \<Rightarrow> page_layout list
    \<Rightarrow> (draw list \<times> nat) res" where
  "detail_pages P registry crd D card_index n page_no i [] = Inr ([], page_no)"
| "detail_pages P registry crd D card_index n page_no i (pl # pls) =
     rbind (detail_page P registry crd D card_index n page_no i pl) (\<lambda>ds.
     rmap (\<lambda>(ds', page_no'). (ds @ ds', page_no')) (detail_pages P registry crd D card_index n (page_no + 1) (i + 1) pls))"

definition render_detail_card :: "pdf \<Rightarrow> json \<Rightarrow> json \<Rightarrow> nat \<Rightarrow> page_layout list \<Rightarrow> nat \<Rightarrow> (draw list \<times> nat) res" where
  "render_detail_card P registry crd card_index layouts first_page_no =
     rbind (header_data_of crd) (\<lambda>D.
     detail_pages P registry crd D card_index (length layouts) first_page_no 1 layouts)"

fun render_cards :: "pdf \<Rightarrow> json \<Rightarrow> nat \<Rightarrow> (json \<times> page_layout list) list \<Rightarrow> nat \<Rightarrow> (draw list \<times> nat) res" where
  "render_cards P registry card_index [] page_no = Inr ([], page_no)"
| "render_cards P registry card_index ((crd, layouts) # cs) page_no =
     rbind (render_detail_card P registry crd card_index layouts page_no) (\<lambda>(ds, page_no').
     rmap (\<lambda>(ds', page_no''). (ds @ ds', page_no'')) (render_cards P registry (card_index + 1) cs page_no'))"


section \<open>The document\<close>

fun detail_payloads :: "pdf \<Rightarrow> json \<Rightarrow> json list \<Rightarrow> (json \<times> page_layout list) list res option" where
  "detail_payloads P registry [] = Some (Inr [])"
| "detail_payloads P registry (c # cs) =
     (case card_detail_sections registry c of
        Inl e \<Rightarrow> Some (Inl e)
      | Inr sections \<Rightarrow>
          Option.bind (layout_detail_sections P sections) (\<lambda>layouts.
          map_option (rmap (Cons (c, layouts))) (detail_payloads P registry cs)))"

definition summary_pages :: "env \<Rightarrow> pdf \<Rightarrow> json \<Rightarrow> draw list list res" where
  "summary_pages E P registry = traverse (\<lambda>(page_no, renderer). renderer page_no) (enumerate 1 [
     page_cover P registry, page_dashboard P registry, page_operating_change P registry,
     page_card_anatomy P registry, page_families P registry, page_target_vs_current P registry,
     page_data_truth P registry, page_blockers P registry, page_pnl P registry, page_rfq P registry,
     page_mve P registry, page_external P registry, page_priority P registry, page_roadmap P registry,
     page_provenance E P registry])"

definition metadata :: "draw list" where
  "metadata = [
     SetTitle (uni ''DeepResearch V3 ^7edf^4e00^5b9e^9a8c^53d8^73b0 Registry ^5b8c^6574^53ef^89c6^5316^7248''),
     SetSubject (uni ''^7ba1^7406^6458^8981^4e0e 106 ^5f20^5b8c^6574^5b9e^9a8c^5361^ff1a^4ece^5047^8bbe^3001^52a8^4f5c^548c^6570^636e^5230^771f^5b9e PnL''),
     SetAuthor ''Deep03 Experiment Registry'',
     SetCreator ''tools/render_experiment_registry_pdf.py'']"

definition draw_document :: "env \<Rightarrow> pdf \<Rightarrow> json \<Rightarrow> (json \<times> page_layout list) list \<Rightarrow> draw list res" where
  "draw_document E P registry payloads =
     rbind (summary_pages E P registry) (\<lambda>front.
     rbind (render_cards P registry 1 payloads (1 + length front)) (\<lambda>(cards, page_no).
     if page_no - 1 \<noteq> TOTAL_PAGES P
     then Inl (AssertionError (''expected '' @ str_of_nat (TOTAL_PAGES P) @ '' pages, rendered '' @ str_of_nat (page_no - 1)))
     else Inr (metadata @ concat front @ cards @ [Save])))"

text \<open>\<^verbatim>\<open>_register_fonts\<close> raises a \<^verbatim>\<open>FileNotFoundError\<close>, an \<^verbatim>\<open>OSError\<close>, if one of the two font files is missing.\<close>

definition register_fonts :: "pdf \<Rightarrow> unit res" where
  "register_fonts P = (if fonts_present P then Inr () else Inl OSError)"

definition build_pdf :: "env \<Rightarrow> pdf \<Rightarrow> json \<Rightarrow> draw list res option" where
  "build_pdf E P registry =
     (case rbind (register_fonts P) (\<lambda>_. cards_of registry) of
        Inl e \<Rightarrow> Some (Inl e)
      | Inr cards \<Rightarrow>
          if length cards \<noteq> 106
          then Some (Inl (AssertionError (''expected 106 experiment cards, found '' @ str_of_nat (length cards))))
          else map_option (\<lambda>r. rbind r (\<lambda>payloads.
              draw_document E (P\<lparr>TOTAL_PAGES := SUMMARY_PAGES + sum_list (map (\<lambda>(_, layouts). length layouts) payloads)\<rparr>)
                registry payloads))
            (detail_payloads P registry cards))"

definition OUTPUT_PATH :: "string list" where
  "OUTPUT_PATH = [''output'', ''pdf'', ''DEEP03_EXPERIMENT_FACTORY_TO_REAL_PNL_V1_CN.pdf'']"

definition pdf_main :: "env \<Rightarrow> pdf \<Rightarrow> (draw list \<times> string) res option" where
  "pdf_main E P =
     (case read_registry E of
        Inl e \<Rightarrow> Some (Inl e)
      | Inr registry \<Rightarrow> map_option (rmap (\<lambda>document. (document, path_text (root E @ OUTPUT_PATH)))) (build_pdf E P registry))"

end
