(* ===== verification/PdfFacts.thy ===== *)
theory PdfFacts
  imports PdfMain
begin

text \<open>
  What a document of the renderer contains: every page function ends exactly one page, the outline has
  one entry for every summary page after the cover and one for every card, and the two assertions of
  the code cannot fail on pages with room for a line.
\<close>


section \<open>Drawings inside a page\<close>

lemma inside_Cons [simp]:
  "inside []"
  "inside (SetFillColor c # ds) = inside ds" "inside (SetStrokeColor c # ds) = inside ds"
  "inside (SetLineWidth w # ds) = inside ds" "inside (SetFont f z # ds) = inside ds"
  "inside (DrawString x y t # ds) = inside ds" "inside (DrawRightString x y t # ds) = inside ds"
  "inside (DrawCentredString x y t # ds) = inside ds" "inside (Rect x y w' h p q # ds) = inside ds"
  "inside (RoundRect x y w' h r p q # ds) = inside ds" "inside (Circle x y r p q # ds) = inside ds"
  "inside (DrawLine x y x' y' # ds) = inside ds"
  "inside (SetPageSize x y # ds) = inside ds" "inside (BookmarkPage k # ds) = inside ds"
  "\<not> inside (ShowPage # ds)"
  by (simp_all add: inside_def)

lemma inside_app [simp]: "inside (xs @ ys) \<longleftrightarrow> inside xs \<and> inside ys"
  by (auto simp: inside_def)

lemma inside_if [simp]: "inside (if b then xs else ys) \<longleftrightarrow> (if b then inside xs else inside ys)"
  by simp

lemma inside_loops [simp]:
  "(\<And>y x. inside (fst (f y x))) \<Longrightarrow> inside (rows f z xs)"
  "(\<And>x. inside (g x)) \<Longrightarrow> inside (each g xs')"
  by (auto intro: inside_rows inside_each)

lemmas inside_drawn [simp] = inside_helpers inside_badge inside_metric_card inside_hbar_chart inside_donut inside_text_rows

text \<open>One page: it ends once, and its part of the outline.\<close>

definition one_page :: "(string \<times> string) list \<Rightarrow> draw list \<Rightarrow> bool" where
  "one_page entries ds \<longleftrightarrow> shown ds = 1 \<and> outline ds = entries"

lemmas unlet = Let_def case_prod_unfold fst_conv snd_conv

lemmas page_rules = unlet one_page_def shown_append outline_append shown.simps outline.simps insideD header_page
  finish_page_simps inside_Cons inside_app inside_if inside_loops inside_drawn append_Nil append_Nil2 add_0 add_0_right
  One_nat_def simp_thms if_True if_False if_cancel list.inject prod.inject

lemmas page_defs = page_cover_def page_dashboard_def page_operating_change_def page_card_anatomy_def page_families_def
  page_target_vs_current_def page_data_truth_def page_blockers_def page_pnl_def page_rfq_def page_mve_def
  page_external_def page_priority_def page_roadmap_def page_provenance_def

lemma page_entries:
  "page_cover P r n = Inr ds \<Longrightarrow> one_page [] ds"
  "page_dashboard P r n = Inr ds \<Longrightarrow> \<exists>t. one_page [(page_key n, t)] ds"
  "page_operating_change P r n = Inr ds \<Longrightarrow> \<exists>t. one_page [(page_key n, t)] ds"
  "page_card_anatomy P r n = Inr ds \<Longrightarrow> \<exists>t. one_page [(page_key n, t)] ds"
  "page_families P r n = Inr ds \<Longrightarrow> \<exists>t. one_page [(page_key n, t)] ds"
  "page_target_vs_current P r n = Inr ds \<Longrightarrow> \<exists>t. one_page [(page_key n, t)] ds"
  "page_data_truth P r n = Inr ds \<Longrightarrow> \<exists>t. one_page [(page_key n, t)] ds"
  "page_blockers P r n = Inr ds \<Longrightarrow> \<exists>t. one_page [(page_key n, t)] ds"
  "page_pnl P r n = Inr ds \<Longrightarrow> \<exists>t. one_page [(page_key n, t)] ds"
  "page_rfq P r n = Inr ds \<Longrightarrow> \<exists>t. one_page [(page_key n, t)] ds"
  "page_mve P r n = Inr ds \<Longrightarrow> \<exists>t. one_page [(page_key n, t)] ds"
  "page_external P r n = Inr ds \<Longrightarrow> \<exists>t. one_page [(page_key n, t)] ds"
  "page_priority P r n = Inr ds \<Longrightarrow> \<exists>t. one_page [(page_key n, t)] ds"
  "page_roadmap P r n = Inr ds \<Longrightarrow> \<exists>t. one_page [(page_key n, t)] ds"
  "page_provenance E P r n = Inr ds \<Longrightarrow> \<exists>t. one_page [(page_key n, t)] ds"
  by (simp only: page_defs rbind_eq_Inr case_prod_unfold sum.inject, (elim exE conjE)?, hypsubst, simp only: page_rules)+


section \<open>Which exceptions a computation can raise\<close>

definition raises_only :: "(py_exc \<Rightarrow> bool) \<Rightarrow> 'a res \<Rightarrow> bool" where
  "raises_only ok r \<longleftrightarrow> (case r of Inl e \<Rightarrow> ok e | Inr _ \<Rightarrow> True)"

named_theorems raises_intros "what composed computations can raise"

lemma raises_rbind [raises_intros]:
  "raises_only ok m \<Longrightarrow> (\<And>x. m = Inr x \<Longrightarrow> raises_only ok (f x)) \<Longrightarrow> raises_only ok (rbind m f)"
  by (cases m) (simp_all add: raises_only_def)

lemma raises_rmap [raises_intros]: "raises_only ok m \<Longrightarrow> raises_only ok (rmap f m)"
  by (cases m) (simp_all add: raises_only_def)

lemma raises_traverse [raises_intros]:
  "(\<And>x. x \<in> set xs \<Longrightarrow> raises_only ok (f x)) \<Longrightarrow> raises_only ok (traverse f xs)"
  by (induction xs) (auto intro!: raises_intros simp: raises_only_def [of _ "Inr _"])

lemma raises_rfilter [raises_intros]:
  "(\<And>x. x \<in> set xs \<Longrightarrow> raises_only ok (f x)) \<Longrightarrow> raises_only ok (rfilter f xs)"
  by (induction xs) (auto intro!: raises_intros simp: raises_only_def [of _ "Inr _"])

lemma raises_collect [raises_intros]: "list_all (raises_only ok) rs \<Longrightarrow> raises_only ok (collect rs)"
  by (induction rs) (auto intro!: raises_intros simp: raises_only_def [of _ "Inr _"])

text \<open>Computations that do not fail an assertion.\<close>

definition benign :: "'a res \<Rightarrow> bool" where
  "benign r \<longleftrightarrow> (\<forall>m. r \<noteq> Inl (AssertionError m))"

named_theorems benign_intros "computations that do not fail an assertion"

lemma benign_raises: "benign = raises_only (\<lambda>e. \<forall>m. e \<noteq> AssertionError m)"
  by (rule ext) (simp add: benign_def raises_only_def split: sum.split)

lemma benign_Inr [simp]: "benign (Inr x)" "benign (Inl KeyError)" "benign (Inl TypeError)" "benign (Inl AttributeError)"
    "benign (Inl OSError)"
  by (simp_all add: benign_def)

lemmas benign_rbind [benign_intros] = raises_rbind [of "\<lambda>e. \<forall>m. e \<noteq> AssertionError m", folded benign_raises]

lemmas benign_rmap [benign_intros] = raises_rmap [of "\<lambda>e. \<forall>m. e \<noteq> AssertionError m", folded benign_raises]

lemmas benign_traverse [benign_intros] = raises_traverse [of _ "\<lambda>e. \<forall>m. e \<noteq> AssertionError m", folded benign_raises]

lemmas benign_rfilter [benign_intros] = raises_rfilter [of _ "\<lambda>e. \<forall>m. e \<noteq> AssertionError m", folded benign_raises]

lemmas benign_collect [benign_intros] = raises_collect [of "\<lambda>e. \<forall>m. e \<noteq> AssertionError m", folded benign_raises]

lemma benign_lookups [benign_intros]:
  "benign (py_index v k)" "benign (py_iter v)" "benign (number v)" "benign (as_text v)"
  "benign (hashed v)" "benign (blocker_label v)" "benign (table_get table v)"
  by (cases v; simp add: hashed_def blocker_label_def table_get_def split: option.split)+

lemma benign_format3 [benign_intros]: "benign (format3 v)"
  by (cases v) (auto simp: format3_def benign_def)

lemma benign_index2 [benign_intros]: "benign (py_index2 v k l)"
  unfolding py_index2_def by (intro benign_intros)

lemma benign_index_by_id [benign_intros]: "benign (index_by_id cs)"
  by (induction cs) (auto intro!: benign_intros)

lemma benign_read [benign_intros]: "benign (read_bytes E p)"
  by (simp add: read_bytes_def split: option.split file_entry.split)

text \<open>What the summary pages look up.\<close>

lemma benign_page_data [benign_intros]:
  "benign (cards_of r)" "benign (named_card r i)" "benign (target_counts r)" "benign (with_numbers vs)"
  "benign (anatomy_data r)" "benign (family_codes cs)" "benign (strategy_cards cs)" "benign (signal_events r)"
  "benign (top_blockers r)" "benign (card_by_id r)" "benign (mve_action_label r)" "benign (registry_file_sha E)"
  "benign (binding_rows r)" "benign (header_data_of c)"
  unfolding named_card_def card_by_id_def cards_of_def target_counts_def with_numbers_def anatomy_data_def card_blockers_def
    family_codes_def strategy_cards_def signal_events_def top_blockers_def mve_action_label_def registry_file_sha_def
    file_sha256_def binding_rows_def header_data_of_def
  by (auto intro!: benign_intros split: option.split json.split)

lemma benign_pages [benign_intros]:
  "benign (page_cover P r n)" "benign (page_dashboard P r n)" "benign (page_operating_change P r n)"
  "benign (page_card_anatomy P r n)" "benign (page_families P r n)" "benign (page_target_vs_current P r n)"
  "benign (page_data_truth P r n)" "benign (page_blockers P r n)" "benign (page_pnl P r n)" "benign (page_rfq P r n)"
  "benign (page_mve P r n)" "benign (page_external P r n)" "benign (page_priority P r n)" "benign (page_roadmap P r n)"
  "benign (page_provenance E P r n)"
  unfolding page_defs case_prod_unfold by (intro benign_intros benign_Inr)+


section \<open>The summary pages\<close>

lemma benign_summary [benign_intros]: "benign (summary_pages E P registry)"
  unfolding summary_pages_def by (rule benign_traverse) (auto simp: enumerate_eq_zip intro: benign_pages)

text \<open>The keys of the outline: the pages after the cover.\<close>

definition summary_keys :: "string list" where
  "summary_keys = map page_key [2..<16]"

text \<open>
  What the pages promise: each ends one page and adds the entry of its number.  Drawn one after the
  other, they end as many pages as there are and their entries have the numbers in order.
\<close>

locale page_sequence =
  fixes renderers :: "(nat \<Rightarrow> draw list res) list"
  assumes ends_one_page: "f \<in> set renderers \<Longrightarrow> f n = Inr ds \<Longrightarrow> \<exists>t. one_page [(page_key n, t)] ds"
begin

lemma drawn_in_order:
  assumes "traverse (\<lambda>(n, f). f n) (enumerate k renderers) = Inr drawn"
  shows "length drawn = length renderers \<and> shown (concat drawn) = length renderers
    \<and> map fst (outline (concat drawn)) = map page_key [k..<k + length renderers]"
proof -
  have "length drawn = length fs \<and> shown (concat drawn) = length fs
      \<and> map fst (outline (concat drawn)) = map page_key [k..<k + length fs]"
    if "set fs \<subseteq> set renderers" "traverse (\<lambda>(n, f). f n) (enumerate k fs) = Inr drawn" for fs
    using that
  proof (induction fs arbitrary: k drawn)
    case (Cons f fs)
    obtain ds rest where d: "f k = Inr ds" "traverse (\<lambda>(n, f). f n) (enumerate (Suc k) fs) = Inr rest" "drawn = ds # rest"
      using Cons.prems(2) by (auto simp: rbind_eq_Inr rmap_eq_Inr)
    obtain t where "one_page [(page_key k, t)] ds" using ends_one_page [of f k ds] d(1) Cons.prems(1) by auto
    moreover have "[k..<k + length (f # fs)] = k # [Suc k..<Suc k + length fs]" by (simp add: upt_conv_Cons del: upt_Suc)
    ultimately show ?case using Cons.IH [OF _ d(2)] Cons.prems(1) d(3) by (simp add: one_page_def del: upt_Suc)
  qed simp
  then show ?thesis using assms by blast
qed

end

interpretation summary: page_sequence
  "[page_dashboard P registry, page_operating_change P registry, page_card_anatomy P registry, page_families P registry,
    page_target_vs_current P registry, page_data_truth P registry, page_blockers P registry, page_pnl P registry,
    page_rfq P registry, page_mve P registry, page_external P registry, page_priority P registry, page_roadmap P registry,
    page_provenance E P registry]"
  by unfold_locales (auto dest: page_entries(2-))

lemma summary_pages_Inr:
  assumes "summary_pages E P registry = Inr front"
  shows "length front = SUMMARY_PAGES \<and> shown (concat front) = SUMMARY_PAGES
    \<and> map fst (outline (concat front)) = summary_keys"
proof -
  obtain cover rest where f: "front = cover # rest" "page_cover P registry 1 = Inr cover"
      "traverse (\<lambda>(n, f). f n) (enumerate 2 [page_dashboard P registry, page_operating_change P registry,
        page_card_anatomy P registry, page_families P registry, page_target_vs_current P registry, page_data_truth P registry,
        page_blockers P registry, page_pnl P registry, page_rfq P registry, page_mve P registry, page_external P registry,
        page_priority P registry, page_roadmap P registry, page_provenance E P registry]) = Inr rest"
    using assms unfolding summary_pages_def enumerate_simps traverse.simps rbind_eq_Inr rmap_eq_Inr prod.case
    by (auto simp: numeral_2_eq_2 simp del: traverse.simps)
  show ?thesis using summary.drawn_in_order [OF f(3)] page_entries(1) [OF f(2)]
    by (simp add: f(1) one_page_def SUMMARY_PAGES_def summary_keys_def)
qed


section \<open>Detail pages\<close>

lemma inside_draw_block [simp]: "inside (draw_block P accent x y b)"
  by (simp add: draw_block_def split: block.split)

lemma inside_draw_blocks [simp]: "inside (fst (draw_blocks P accent x y bs))"
  by (induction bs arbitrary: y) (simp_all add: case_prod_unfold)

lemma draw_blocks_foot: "snd (draw_blocks P accent x y bs) = y - column_height bs"
  by (induction bs arbitrary: y) (simp_all add: case_prod_unfold column_height_def)

text \<open>A column within its height does not fail the assertion about its foot.\<close>

lemma draw_column_ok: "column_ok P (snd col) \<Longrightarrow> \<exists>ds. draw_column P D i col = Inr ds"
  by (auto simp: draw_column_def Let_def case_prod_unfold draw_blocks_foot column_ok_def DETAIL_CONTENT_H_def)

lemma draw_column_inside: "draw_column P D i col = Inr ds \<Longrightarrow> inside ds"
  by (auto simp: draw_column_def Let_def case_prod_unfold split: if_splits)

lemma inside_concat: "list_all inside dss \<Longrightarrow> inside (concat dss)"
  by (induction dss) simp_all

lemma draw_columns_inside: "traverse (draw_column P D i) cols = Inr drawn \<Longrightarrow> inside (concat drawn)"
  by (intro inside_concat) (auto simp: traverse_eq_Inr list_all2_conv_all_nth list_all_length dest: draw_column_inside)

definition first_entry :: "header_data \<Rightarrow> nat \<Rightarrow> (string \<times> string) list" where
  "first_entry D i = (if i = 1 then [(card_key (hd_id D), hd_id D)] else [])"

lemma inside_chips [simp]: "inside (draw_chips P D)"
  unfolding draw_chips_def by (rule inside_loops(1)) (simp add: Let_def case_prod_unfold)

lemma detail_header_simps [simp]:
  "shown (detail_page_header P D ci i n) = 0" "outline (detail_page_header P D ci i n) = first_entry D i"
  using inside_helpers(3) inside_chips by (simp_all add: detail_page_header_def first_entry_def insideD)

lemma inside_detail_footer [simp]: "inside (detail_page_footer P r d n)"
  by (simp add: detail_page_footer_def)

lemma detail_page_Inr: "detail_page P registry crd D ci n page_no i cols = Inr ds \<Longrightarrow> one_page (first_entry D i) ds"
  by (auto simp: detail_page_def rbind_eq_Inr one_page_def insideD dest: draw_columns_inside)

lemma benign_detail_page:
  assumes "list_all (column_ok P) cols"
  shows "benign (detail_page P registry crd D ci n page_no i cols)"
proof -
  have "benign (traverse (draw_column P D i) (enumerate 0 cols))"
  proof (rule benign_traverse)
    fix c assume "c \<in> set (enumerate 0 cols)"
    then have "snd c \<in> set cols" using nth_mem [of "fst c" cols] by (simp add: in_set_enumerate_eq)
    then have "column_ok P (snd c)" using assms by (simp add: list_all_iff)
    then show "benign (draw_column P D i c)" using draw_column_ok [of P c D i] by auto
  qed
  then show ?thesis unfolding detail_page_def by (auto intro!: benign_rbind benign_lookups)
qed

lemma detail_pages_Inr:
  "detail_pages P registry crd D ci n page_no i pls = Inr (ds, page_no') \<Longrightarrow>
   shown ds = length pls \<and> page_no' = page_no + length pls
   \<and> outline ds = (if i \<le> 1 \<and> 1 < i + length pls then first_entry D 1 else [])"
proof (induction pls arbitrary: page_no i ds)
  case (Cons pl pls)
  then obtain a b where d: "detail_page P registry crd D ci n page_no i pl = Inr a"
      "detail_pages P registry crd D ci n (page_no + 1) (i + 1) pls = Inr (b, page_no')" "ds = a @ b"
    by (auto simp: rbind_eq_Inr rmap_eq_Inr)
  show ?case using detail_page_Inr [OF d(1)] Cons.IH [OF d(2)] d(3) by (auto simp: one_page_def first_entry_def)
qed auto

lemma benign_detail_pages:
  "list_all (list_all (column_ok P)) pls \<Longrightarrow> benign (detail_pages P registry crd D ci n page_no i pls)"
  by (induction pls arbitrary: page_no i) (auto intro!: benign_intros benign_detail_page)

text \<open>A card: as many pages as its layout has, and one entry of the outline, its identifier.\<close>

lemma render_detail_card_Inr:
  assumes "render_detail_card P registry crd ci pls page_no = Inr (ds, page_no')" "pls \<noteq> []"
  obtains D where "header_data_of crd = Inr D" "shown ds = length pls" "page_no' = page_no + length pls"
    "outline ds = [(card_key (hd_id D), hd_id D)]"
proof -
  obtain D where D: "header_data_of crd = Inr D" "detail_pages P registry crd D ci (length pls) page_no 1 pls = Inr (ds, page_no')"
    using assms(1) by (auto simp: render_detail_card_def rbind_eq_Inr)
  show ?thesis using that [OF D(1)] detail_pages_Inr [OF D(2)] assms(2) by (auto simp: first_entry_def)
qed

lemma benign_render_detail_card:
  "list_all (list_all (column_ok P)) pls \<Longrightarrow> benign (render_detail_card P registry crd ci pls page_no)"
  unfolding render_detail_card_def by (intro benign_intros benign_detail_pages)


section \<open>The document\<close>

definition page_count :: "(json \<times> page_layout list) list \<Rightarrow> nat" where
  "page_count payloads = sum_list (map (\<lambda>(_, layouts). length layouts) payloads)"

text \<open>The payloads of a layout with room: no page overflows, no card is without a page.\<close>

definition payload_ok :: "pdf \<Rightarrow> json \<times> page_layout list \<Rightarrow> bool" where
  "payload_ok P c \<longleftrightarrow> snd c \<noteq> [] \<and> list_all (list_all (column_ok P)) (snd c)"

lemma detail_payloads_roomy:
  assumes "roomy P"
  shows "\<exists>r. detail_payloads P registry cards = Some r
    \<and> (\<forall>payloads. r = Inr payloads \<longrightarrow> map fst payloads = cards \<and> list_all (payload_ok P) payloads)"
proof (induction cards)
  case (Cons c cards)
  show ?case
  proof (cases "card_detail_sections registry c")
    case (Inr sections)
    obtain pgs where "layout_detail_sections P sections = Some pgs" "pgs \<noteq> []" "list_all (list_all (column_ok P)) pgs"
      using layout_ok [OF assms] .
    then show ?thesis using Cons Inr by (auto simp: payload_ok_def rmap_eq_Inr)
  qed simp
qed simp

lemma render_cards_Inr:
  "render_cards P registry ci payloads page_no = Inr (ds, page_no') \<Longrightarrow> list_all (payload_ok Q) payloads \<Longrightarrow>
   shown ds = page_count payloads \<and> page_no' = page_no + page_count payloads
   \<and> list_all2 (\<lambda>c e. \<exists>D. header_data_of (fst c) = Inr D \<and> e = (card_key (hd_id D), hd_id D)) payloads (outline ds)"
proof (induction payloads arbitrary: ci page_no ds)
  case (Cons c payloads)
  obtain crd pls where c: "c = (crd, pls)" by (cases c)
  obtain a n b where d: "render_detail_card P registry crd ci pls page_no = Inr (a, n)"
      "render_cards P registry (ci + 1) payloads n = Inr (b, page_no')" "ds = a @ b"
    using Cons.prems(1) by (auto simp: c rbind_eq_Inr rmap_eq_Inr)
  have "pls \<noteq> []" using Cons.prems(2) by (simp add: c payload_ok_def)
  then obtain D where "header_data_of crd = Inr D" "shown a = length pls" "n = page_no + length pls"
      "outline a = [(card_key (hd_id D), hd_id D)]"
    using render_detail_card_Inr [OF d(1)] by blast
  then show ?case using Cons.IH [OF d(2)] Cons.prems(2) d(3) by (auto simp: c page_count_def)
qed (simp add: page_count_def)

lemma benign_render_cards:
  "list_all (payload_ok P) payloads \<Longrightarrow> benign (render_cards P registry ci payloads page_no)"
proof (induction payloads arbitrary: ci page_no)
  case (Cons c payloads)
  then show ?case
    by (cases c) (auto simp: payload_ok_def intro!: benign_intros benign_render_detail_card)
qed simp

lemma column_ok_total [simp]: "column_ok (P\<lparr>TOTAL_PAGES := n\<rparr>) = column_ok P"
  by (rule ext) (simp add: column_ok_def DETAIL_CONTENT_H_def DETAIL_TOP_def)

lemma payload_ok_total [simp]: "payload_ok (P\<lparr>TOTAL_PAGES := n\<rparr>) = payload_ok P"
  by (rule ext) (simp add: payload_ok_def)

text \<open>The page numbers add up, whatever the registry is.\<close>

lemma draw_document_ok:
  assumes "list_all (payload_ok P) payloads" "TOTAL_PAGES P = SUMMARY_PAGES + page_count payloads"
  shows "benign (draw_document E P registry payloads)"
  unfolding draw_document_def
proof (intro benign_rbind benign_summary benign_render_cards assms(1))
  fix front x assume f: "summary_pages E P registry = Inr front"
    and r: "render_cards P registry 1 payloads (1 + length front) = Inr x"
  obtain ds n where x: "x = (ds, n)" by (cases x)
  have "n = 1 + length front + page_count payloads" using render_cards_Inr [OF r [unfolded x] assms(1)] by simp
  then show "benign (case x of (cards, page_no) \<Rightarrow> if page_no - 1 \<noteq> TOTAL_PAGES P
      then Inl (AssertionError (''expected '' @ str_of_nat (TOTAL_PAGES P) @ '' pages, rendered '' @ str_of_nat (page_no - 1)))
      else Inr (metadata @ concat front @ cards @ [Save]))"
    using summary_pages_Inr [OF f] assms(2) by (simp add: x)
qed

lemma shown_frame [simp]: "shown metadata = 0" "outline metadata = []" "shown [Save] = 0" "outline [Save] = []"
  by (simp_all add: metadata_def)

lemma draw_document_Inr:
  assumes "draw_document E P registry payloads = Inr ds" "list_all (payload_ok Q) payloads"
  shows "shown ds = TOTAL_PAGES P \<and> last ds = Save \<and> TOTAL_PAGES P = SUMMARY_PAGES + page_count payloads
    \<and> (\<exists>front cards. outline ds = front @ cards \<and> map fst front = summary_keys
      \<and> list_all2 (\<lambda>c e. \<exists>D. header_data_of (fst c) = Inr D \<and> e = (card_key (hd_id D), hd_id D)) payloads cards)"
proof -
  obtain front cards n where f: "summary_pages E P registry = Inr front"
      "render_cards P registry 1 payloads (1 + length front) = Inr (cards, n)" "n - 1 = TOTAL_PAGES P"
      "ds = metadata @ concat front @ cards @ [Save]"
    using assms(1) by (auto simp: draw_document_def rbind_eq_Inr split: if_splits)
  have s: "length front = SUMMARY_PAGES" "shown (concat front) = SUMMARY_PAGES"
      "map fst (outline (concat front)) = summary_keys"
    using summary_pages_Inr [OF f(1)] by simp_all
  have r: "shown cards = page_count payloads" "n = 1 + length front + page_count payloads"
      "list_all2 (\<lambda>c e. \<exists>D. header_data_of (fst c) = Inr D \<and> e = (card_key (hd_id D), hd_id D)) payloads (outline cards)"
    using render_cards_Inr [OF f(2) assms(2)] by simp_all
  have "outline ds = outline (concat front) @ outline cards" by (simp only: f(4) outline_append shown_frame append_Nil append_Nil2)
  moreover have "shown ds = TOTAL_PAGES P" using f(3) r(1,2) s(1,2) by (simp only: f(4) shown_append shown_frame)
  moreover have "last ds = Save" by (simp add: f(4))
  moreover have "TOTAL_PAGES P = SUMMARY_PAGES + page_count payloads" using f(3) r(2) s(1) by simp
  ultimately show ?thesis using s(3) r(3) by blast
qed

text \<open>The text of a card does not fail an assertion either.\<close>

lemma benign_get [benign_intros]: "benign (py_get v k d)" "benign (py_items v)"
  by (cases v; simp)+

lemma benign_find_binding [benign_intros]: "benign (find_binding s b bs)"
  by (induction bs) (auto intro!: benign_intros split: json.split)

lemma benign_catalog [benign_intros]: "benign (catalog_of ss)" "benign (catalog_get m k)"
  by (induction ss) (auto simp: catalog_get_def intro!: benign_intros)

lemma benign_provider [benign_intros]: "benign (provider_row m i)" "benign (provider_statuses r is')" "benign (iter_or_empty v)"
  unfolding provider_row_def provider_statuses_def iter_or_empty_def
  by (auto intro!: benign_intros split: option.split json.split)

lemma benign_source [benign_intros]: "benign (source_binding_for_observation r v)"
  unfolding source_binding_for_observation_def by (auto intro!: benign_intros split: json.split)

lemma benign_entries [benign_intros]:
  "benign (detail_entries labels v)" "benign r \<Longrightarrow> benign (detail_entry l r)" "benign r \<Longrightarrow> benign (plain_entry l r)"
  "benign (numbered_rows l ks vs)"
  unfolding detail_entries_def detail_entry_def plain_entry_def numbered_rows_def row_fields_def
  by (auto intro!: benign_intros)

lemma benign_sections [benign_intros]: "benign (card_detail_sections r c)"
  unfolding card_detail_sections_def status_entries_def hypothesis_entries_def signal_entries_def venue_baseline_entries_def
    cost_entries_def data_entries_def gap_entries_def external_entries_def next_entries_def Let_def
  by (auto intro!: benign_intros)

lemma benign_payloads: "detail_payloads P registry cards = Some r \<Longrightarrow> benign r"
proof (induction cards arbitrary: r)
  case (Cons c cards)
  show ?case
  proof (cases "card_detail_sections registry c")
    case (Inl e)
    then show ?thesis using Cons.prems benign_sections [of registry c] by (auto simp: benign_def)
  next
    case (Inr sections)
    then show ?thesis using Cons by (auto simp: bind_eq_Some_conv intro!: benign_intros)
  qed
qed simp

text \<open>
  With room for a line the renderer returns; the only assertion it can fail is the one about the number
  of cards; and a document has the pages it says it has.
\<close>

lemma build_pdf_returns:
  assumes "roomy P"
  shows "\<exists>r. build_pdf E P registry = Some r
    \<and> (\<forall>m. r = Inl (AssertionError m) \<longrightarrow> (\<exists>k. m = ''expected 106 experiment cards, found '' @ k))"
proof (cases "cards_of registry")
  case (Inl e)
  then show ?thesis using benign_page_data(1) [of registry] by (auto simp: build_pdf_def register_fonts_def benign_def)
next
  case (Inr cards)
  obtain r where r: "detail_payloads P registry cards = Some r"
      "\<And>payloads. r = Inr payloads \<Longrightarrow> list_all (payload_ok P) payloads"
    using detail_payloads_roomy [OF assms, of registry cards] by blast
  have "benign (rbind r (\<lambda>payloads. draw_document E
      (P\<lparr>TOTAL_PAGES := SUMMARY_PAGES + sum_list (map (\<lambda>(_, layouts). length layouts) payloads)\<rparr>) registry payloads))"
    using r(2) benign_payloads [OF r(1)] by (auto intro!: benign_rbind draw_document_ok simp: page_count_def)
  then show ?thesis using Inr r(1) by (auto simp: build_pdf_def register_fonts_def benign_def)
qed

lemma build_pdf_document:
  assumes "roomy P" "build_pdf E P registry = Some (Inr ds)"
  obtains cards payloads front entries where "cards_of registry = Inr cards" "length cards = 106"
    "detail_payloads P registry cards = Some (Inr payloads)" "shown ds = SUMMARY_PAGES + page_count payloads" "last ds = Save"
    "outline ds = front @ entries" "map fst front = summary_keys"
    "list_all2 (\<lambda>c e. \<exists>D. header_data_of c = Inr D \<and> e = (card_key (hd_id D), hd_id D)) cards entries"
proof -
  obtain cards where c: "cards_of registry = Inr cards" "length cards = 106" "fonts_present P"
    using assms(2) by (auto simp: build_pdf_def register_fonts_def split: if_splits sum.splits)
  obtain r where r: "detail_payloads P registry cards = Some r"
      "\<And>payloads. r = Inr payloads \<Longrightarrow> map fst payloads = cards \<and> list_all (payload_ok P) payloads"
    using detail_payloads_roomy [OF assms(1), of registry cards] by blast
  obtain payloads where p: "r = Inr payloads" "draw_document E
      (P\<lparr>TOTAL_PAGES := SUMMARY_PAGES + page_count payloads\<rparr>) registry payloads = Inr ds"
    using assms(2) c r(1) by (auto simp: build_pdf_def register_fonts_def rbind_eq_Inr page_count_def)
  obtain front entries where f: "shown ds = SUMMARY_PAGES + page_count payloads" "last ds = Save" "outline ds = front @ entries"
      "map fst front = summary_keys"
      "list_all2 (\<lambda>c e. \<exists>D. header_data_of (fst c) = Inr D \<and> e = (card_key (hd_id D), hd_id D)) payloads entries"
    using draw_document_Inr [OF p(2) conjunct2 [OF r(2) [OF p(1)]]] by auto
  have "list_all2 (\<lambda>c e. \<exists>D. header_data_of c = Inr D \<and> e = (card_key (hd_id D), hd_id D)) (map fst payloads) entries"
    using f(5) by (simp add: list_all2_map1)
  then show ?thesis using that [OF c(1,2) _ f(1-4)] r p(1) by blast
qed

end
