(* ===== verification/PdfRegistry.thy ===== *)
theory PdfRegistry
  imports PdfFacts RegistryComplete
begin

text \<open>
  The generator and the renderer together: on the registry that \<^verbatim>\<open>build_registry\<close> returns, every lookup
  of the renderer succeeds, so that the document is complete, with one part of its outline for every
  card of the catalogue in its order.
\<close>


section \<open>Computations that succeed\<close>

definition fine :: "'a res \<Rightarrow> bool" where
  "fine r \<longleftrightarrow> (\<exists>x. r = Inr x)"

named_theorems fine_intros "computations that succeed"

lemma fine_Inr [simp]: "fine (Inr x)"
  by (simp add: fine_def)

lemma fineE: "fine r \<Longrightarrow> (\<And>x. r = Inr x \<Longrightarrow> thesis) \<Longrightarrow> thesis"
  unfolding fine_def by blast

lemma fine_raises: "fine = raises_only (\<lambda>_. False)"
  by (rule ext) (simp add: fine_def raises_only_def split: sum.split)

lemmas fine_rbind [fine_intros] = raises_rbind [of "\<lambda>_. False", folded fine_raises]

lemmas fine_rmap [fine_intros] = raises_rmap [of "\<lambda>_. False", folded fine_raises]

lemmas fine_traverse [fine_intros] = raises_traverse [of _ "\<lambda>_. False", folded fine_raises]

lemmas fine_rfilter [fine_intros] = raises_rfilter [of _ "\<lambda>_. False", folded fine_raises]

lemmas fine_collect [fine_intros] = raises_collect [of "\<lambda>_. False", folded fine_raises]

declare collect.simps [simp del] uni.simps [simp del]

lemma fine_dict [simp]:
  "fine (py_items (dict_of kvs))" "fine (detail_entries labels (dict_of kvs))" "fine (py_get (dict_of kvs) k d)"
  by (simp_all add: dict_of_def detail_entries_def)

lemma fine_entry [fine_intros]: "fine r \<Longrightarrow> fine (detail_entry l r)" "fine r \<Longrightarrow> fine (plain_entry l r)"
  by (auto simp: detail_entry_def plain_entry_def intro: fine_intros)

lemma fine_rows [fine_intros]: "(\<And>v. v \<in> set vs \<Longrightarrow> is_dict v) \<Longrightarrow> fine (numbered_rows l ks vs)"
proof -
  have get: "fine (py_get v k d)" if "is_dict v" for v k d using that by (cases v) simp_all
  assume d: "\<And>v. v \<in> set vs \<Longrightarrow> is_dict v"
  have "is_dict (snd iv)" if "iv \<in> set (enumerate 1 vs)" for iv
    using that d nth_mem [of "fst iv - 1" vs] by (auto simp: in_set_enumerate_eq)
  then show ?thesis unfolding numbered_rows_def row_fields_def
    by (auto intro!: fine_intros get simp: case_prod_unfold)
qed


section \<open>Constants\<close>

text \<open>The bound sources have a role, a path and a digest; the catalogued providers their three statuses.\<close>

definition source_row_ok :: "json \<Rightarrow> bool" where
  "source_row_ok b \<longleftrightarrow> (case (py_index b ''path'', py_index b ''role'', py_index b ''sha256'') of
     (Inr (JStr _), Inr _, Inr _) \<Rightarrow> True | _ \<Rightarrow> False)"

lemma sources_rows: "case SOURCE_BINDINGS of JList bs \<Rightarrow> list_all source_row_ok bs | _ \<Rightarrow> False"
  by code_simp

lemma source_list: obtains bs where "SOURCE_BINDINGS = JList bs" "list_all source_row_ok bs"
  using sources_rows by (auto split: json.splits)

definition provider_ok :: "json \<Rightarrow> bool" where
  "provider_ok s \<longleftrightarrow> (case (py_index s ''source_id'', py_index s ''status'', py_index s ''live_use'', py_index s ''historical_backfill'') of
     (Inr (JStr _), Inr _, Inr _, Inr _) \<Rightarrow> True | _ \<Rightarrow> False)"

lemma providers_ok: "case py_index EXTERNAL_SOURCE_CATALOG ''sources'' of Inr (JList ss) \<Rightarrow> list_all provider_ok ss | _ \<Rightarrow> False"
  by code_simp

lemma provider_list: obtains ss where "py_index EXTERNAL_SOURCE_CATALOG ''sources'' = Inr (JList ss)" "list_all provider_ok ss"
  using providers_ok by (auto split: sum.splits json.splits)

text \<open>A measured signal names its source as a text; every family has a colour and a label.\<close>

lemma observed_sources:
  "list_all (\<lambda>(_, v). is_dict v \<and> (case py_get v ''source'' JNull of Inr (JStr _) \<Rightarrow> True | Inr JNull \<Rightarrow> True | _ \<Rightarrow> False))
     OBSERVED_SIGNAL_EVIDENCE"
  by code_simp

lemma family_tables: "list_all (\<lambda>(f, _). f \<in> set (map fst FAMILY_COLORS) \<and> f \<in> set (map fst FAMILY_LABELS)) FAMILY_NAMES"
  by (simp add: FAMILY_NAMES_def FAMILY_COLORS_def FAMILY_LABELS_def)

definition anatomy_figures_ok :: "json \<Rightarrow> bool" where
  "anatomy_figures_ok v \<longleftrightarrow> (case py_index2 v ''values'' ''pooled_signed_markout_logodds'' of
     Inr m \<Rightarrow> list_all (\<lambda>h. case py_index m h of Inr (JDec _ _) \<Rightarrow> True | Inr (JInt _) \<Rightarrow> True | _ \<Rightarrow> False) [''1s'', ''5s'', ''30s'']
   | _ \<Rightarrow> False)"

lemma anatomy_figures: "anatomy_figures_ok (observed_signal ''A01-SPREAD-CAPTURE'')"
proof -
  obtain rest remark where obs: "OBSERVED_SIGNAL_EVIDENCE = (''A01-SPREAD-CAPTURE'', dict_of [
      (''status'', JStr ''DESCRIPTIVE_GROSS_SIGNAL_ONLY''),
      (''values'', dict_of [
        (''pooled_signed_markout_logodds'', dict_of [(''1s'', JDec 38 3), (''5s'', JDec 46 3), (''30s'', JDec 56 3)]),
        (''interpretation'', remark)]),
      (''source'', JStr ''RESULTS.json::base_methods[D3-B01-MARKOUT]'')]) # rest"
    by (simp only: OBSERVED_SIGNAL_EVIDENCE_def)
  show ?thesis unfolding observed_signal_def obs by (simp add: anatomy_figures_ok_def py_index2_def py_index_dict_of)
qed


section \<open>The generated registry\<close>

definition generated :: "json list \<Rightarrow> summary \<Rightarrow> string \<Rightarrow> json" where
  "generated cards smry digest = dict_of (registry_body cards smry @ [(''registry_sha256'', JStr digest)])"

lemma generated_index:
  "py_index (generated cards smry digest) ''scope'' = Inr scope_json"
  "py_index (generated cards smry digest) ''source_bindings'' = Inr SOURCE_BINDINGS"
  "py_index (generated cards smry digest) ''external_source_catalog'' = Inr EXTERNAL_SOURCE_CATALOG"
  "py_index (generated cards smry digest) ''summary'' = Inr (summary_json smry)"
  "py_index (generated cards smry digest) ''experiments'' = Inr (JList cards)"
  "py_index (generated cards smry digest) ''registry_sha256'' = Inr (JStr digest)"
  by (simp_all add: generated_def py_index_dict_of registry_body_keys) (simp_all add: registry_body_def)

text \<open>The sources of a measurement and the statuses of providers can be looked up.\<close>

lemma source_rowE:
  assumes "source_row_ok b"
  obtains path role digest where "py_index b ''path'' = Inr (JStr path)" "py_index b ''role'' = Inr role"
    "py_index b ''sha256'' = Inr digest"
  using assms unfolding source_row_ok_def
  by (cases "py_index b ''path''"; cases "py_index b ''role''"; cases "py_index b ''sha256''") (auto split: json.splits)

lemma find_binding_fine: "list_all source_row_ok bs \<Longrightarrow> fine (find_binding s k bs)"
  by (induction bs) (auto elim!: source_rowE)

lemma source_fine:
  assumes "v = JNull \<or> is_str v"
  shows "fine (source_binding_for_observation (generated cards smry digest) v)"
proof -
  obtain bs where bs: "SOURCE_BINDINGS = JList bs" "list_all source_row_ok bs" by (rule source_list)
  have "fine (rbind (py_iter SOURCE_BINDINGS) (find_binding s k))" for s k
    unfolding bs(1) using bs(2) by (simp add: find_binding_fine)
  then show ?thesis using assms by (auto simp: source_binding_for_observation_def generated_index is_str_iff)
qed

lemma providerE:
  assumes "provider_ok s"
  obtains i status live_use historical where "py_index s ''source_id'' = Inr (JStr i)" "py_index s ''status'' = Inr status"
    "py_index s ''live_use'' = Inr live_use" "py_index s ''historical_backfill'' = Inr historical"
  using assms unfolding provider_ok_def
  by (cases "py_index s ''source_id''"; cases "py_index s ''status''"; cases "py_index s ''live_use''";
      cases "py_index s ''historical_backfill''") (auto split: json.splits)

lemma catalog_fine:
  "list_all provider_ok ss \<Longrightarrow> \<exists>m. catalog_of ss = Inr m \<and> list_all (\<lambda>(_, s). provider_ok s) m"
proof (induction ss)
  case (Cons s ss)
  then obtain m where "catalog_of ss = Inr m" "list_all (\<lambda>(_, s). provider_ok s) m" by auto
  moreover obtain i where "py_index s ''source_id'' = Inr (JStr i)" using Cons.prems by (auto elim: providerE)
  ultimately show ?case using Cons.prems by simp
qed simp

lemma provider_row_fine:
  assumes "list_all (\<lambda>(_, s). provider_ok s) m"
  shows "fine (provider_row m (JStr i))"
proof (cases "find (\<lambda>(j, _). py_eq j (JStr i)) m")
  case None
  then show ?thesis by (simp add: provider_row_def catalog_get_def)
next
  case (Some js)
  then have "js \<in> set m" unfolding find_Some_iff by (metis nth_mem)
  then have "provider_ok (snd js)" using assms by (auto simp: list_all_iff)
  then show ?thesis using Some
    by (auto simp: provider_row_def catalog_get_def split: json.split elim!: providerE)
qed

lemma providers_fine [fine_intros]: "fine (provider_statuses (generated cards smry digest) (map JStr is'))"
proof -
  obtain ss where ss: "py_index EXTERNAL_SOURCE_CATALOG ''sources'' = Inr (JList ss)" "list_all provider_ok ss"
    by (rule provider_list)
  obtain m where "catalog_of ss = Inr m" "list_all (\<lambda>(_, s). provider_ok s) m" using catalog_fine [OF ss(2)] by blast
  then show ?thesis unfolding provider_statuses_def py_index2_def generated_index
    by (auto simp: ss(1) intro!: fine_intros provider_row_fine)
qed

lemma iter_strs_fine: "iter_or_empty (jstrs ss) = Inr (map JStr ss)"
  by (simp add: iter_or_empty_def jstrs_def)


section \<open>The sections of a generated card\<close>

lemma fine_is_dict [fine_intros]:
  "is_dict v \<Longrightarrow> fine (py_items v)" "is_dict v \<Longrightarrow> fine (detail_entries labels v)" "is_dict v \<Longrightarrow> fine (py_get v k d)"
  by (cases v; simp add: detail_entries_def)+

lemma observed_signal_source:
  "is_dict (observed_signal i)" "\<exists>v. py_get (observed_signal i) ''source'' JNull = Inr v \<and> (v = JNull \<or> is_str v)"
proof -
  have "is_dict (observed_signal i) \<and> (\<exists>v. py_get (observed_signal i) ''source'' JNull = Inr v \<and> (v = JNull \<or> is_str v))"
  proof (cases "map_of OBSERVED_SIGNAL_EVIDENCE i")
    case None
    then show ?thesis by (simp add: observed_signal_def py_get_dict_of)
  next
    case (Some v)
    then have "is_dict v \<and> (case py_get v ''source'' JNull of Inr (JStr _) \<Rightarrow> True | Inr JNull \<Rightarrow> True | _ \<Rightarrow> False)"
      using observed_sources map_of_SomeD [OF Some] by (auto simp: list_all_iff)
    then show ?thesis using Some by (cases "py_get v ''source'' JNull") (auto simp: observed_signal_def split: json.splits)
  qed
  then show "is_dict (observed_signal i)" "\<exists>v. py_get (observed_signal i) ''source'' JNull = Inr v \<and> (v = JNull \<or> is_str v)"
    by blast+
qed

lemma current_result_fields:
  assumes "built sha i s p gaps identity result c"
  shows "is_dict result" "py_index result ''observed_signal'' = Inr (observed_signal i)"
    "py_get result ''observed_signal'' JNull = Inr (observed_signal i)"
proof -
  obtain st where "py_index (observed_signal i) ''status'' = Inr (JStr st)" using observed_signal_ok(2) by blast
  then show "is_dict result" "py_index result ''observed_signal'' = Inr (observed_signal i)"
      "py_get result ''observed_signal'' JNull = Inr (observed_signal i)"
    using assms by (auto simp: built_def current_result_json_def py_index_dict_of py_get_dict_of)
qed

lemma gaps_dicts:
  assumes "built sha i s p gaps identity result c" "g \<in> set gaps"
  shows "is_dict g"
proof -
  obtain b where "gap_contract i b = Inr g"
    using assms by (auto simp: built_def traverse_eq_Inr list_all2_conv_all_nth in_set_conv_nth)
  then show ?thesis by (auto simp: gap_contract_def Let_def split: option.splits prod.splits)
qed

text \<open>What is left of the lookups on a card that was built.\<close>

lemma built_design:
  assumes "built sha i s p gaps identity result c"
  shows "py_index c ''experiment_design'' = Inr (design_json i s (part_baseline p))"
    "py_index c ''next_evidence'' = Inr (next_evidence_json (part_action p) (part_data p) (part_external p))"
    "\<exists>h. py_index c ''definition_sha256'' = Inr (JStr h)"
  using assms unfolding built_def by (simp_all add: py_index_dict_of card_body_keys) (simp_all add: card_body_def)

lemmas built_lookups = built_index built_design(1,2) current_result_fields

lemma data_json_index:
  "py_index (data_json profile d gaps) ''profile_id'' = Inr (JStr profile)"
  "py_index (data_json profile d gaps) ''inputs'' = Inr (jstrs (inputs d))"
  "py_index (data_json profile d gaps) ''can_compute_now'' = Inr (can_compute_json (can_compute_now d))"
  "py_index (data_json profile d gaps) ''currently_calculable'' = Inr (JStr (currently_calculable d))"
  "py_index (data_json profile d gaps) ''blockers'' = Inr (jstrs (data_blockers d))"
  "py_index (data_json profile d gaps) ''missing'' = Inr (jstrs (missing d))"
  "py_index (data_json profile d gaps) ''acquisition_paths'' = Inr (jstrs (acquisition_paths d))"
  "py_index (data_json profile d gaps) ''critical_gaps'' = Inr (JList gaps)"
  "is_dict (study_dates profile v)"
  "py_index (data_json profile d gaps) ''study_dates'' = Inr (study_dates profile (JStr (signal_event (can_compute_now d))))"
  by (simp_all add: data_json_def data_fields_def py_index_dict_of study_dates_def)

lemma sections_fine:
  assumes b: "built sha i s p gaps identity result c"
  shows "fine (card_detail_sections (generated cards smry digest) c)"
proof -
  let ?r = "generated cards smry digest"
  obtain h where h: "py_index c ''definition_sha256'' = Inr (JStr h)" using built_design(3) [OF b] by blast
  obtain v where v: "py_get (observed_signal i) ''source'' JNull = Inr v" "v = JNull \<or> is_str v"
    using observed_signal_source(2) by blast
  note look = built_lookups [OF b] py_index2_def generated_index data_json_index
  have truth: "truthy (observed_signal i)"
    using observed_signal_ok(2) [of i] observed_signal_source(1) [of i] by (cases "observed_signal i") auto
  have "fine (status_entries ?r c identity (dict_of (classification_fields (card_class s p))))"
    unfolding status_entries_def look h
    by (simp add: scope_json_def py_index_dict_of fine_collect fine_entry fine_is_dict built_identity(4) [OF b])
  moreover have "fine (hypothesis_entries c)"
    unfolding hypothesis_entries_def look
    by (simp add: hypothesis_json_def py_index_dict_of fine_collect fine_entry fine_rmap)
  moreover have "fine (signal_entries ?r c (observed_signal i))"
    unfolding signal_entries_def look using observed_signal_source(1) [of i] source_fine [OF v(2)]
    by (simp add: v(1) fine_collect fine_rmap fine_is_dict look)
  moreover have "fine (venue_baseline_entries c)"
    unfolding venue_baseline_entries_def look by (simp add: fine_collect)
  moreover have "fine (cost_entries c)"
    unfolding cost_entries_def look by (auto simp: costs_json_def cost_json_def intro!: fine_rows)
  moreover have "fine (data_entries (data_json (seed_data_profile s) (part_data p) gaps))"
    unfolding data_entries_def look by (simp add: fine_collect fine_entry fine_rmap fine_is_dict data_json_index)
  moreover have "fine (gap_entries c (data_json (seed_data_profile s) (part_data p) gaps))"
    unfolding gap_entries_def look using gaps_dicts [OF b] by (auto simp: fine_entry intro!: fine_collect fine_rows)
  moreover have "fine (external_entries ?r c)"
    unfolding external_entries_def look
    by (simp add: external_fields_def py_get_dict_of iter_strs_fine fine_collect fine_rmap providers_fine)
  moreover have "fine (next_entries ?r c)"
    unfolding next_entries_def look
    by (simp add: next_evidence_json_def py_get_dict_of iter_strs_fine fine_collect fine_rmap providers_fine)
  ultimately show ?thesis unfolding card_detail_sections_def look
    by (simp add: look truth card_action_json_def design_json_def fine_rbind fine_rmap)
qed

end
