(* ===== verification/PdfComplete.thy ===== *)
theory PdfComplete
  imports PdfRegistry
begin

text \<open>
  The document of the generated registry: every lookup of the summary pages and of the page headers
  succeeds, so that \<^verbatim>\<open>build_pdf\<close> returns a document with every card, and the command line of the
  generator followed by the one of the renderer produces it.
\<close>


section \<open>The cards\<close>

lemma cards_forD:
  assumes "cards_for sha seeds ids cards" "c \<in> set cards"
  obtains i s p gaps identity result where "i \<in> set ids" "map_of seeds i = Some s" "built sha i s p gaps identity result c"
  using assms unfolding cards_for_def list_all2_conv_all_nth in_set_conv_nth by metis

lemma table_get_known: "k \<in> set (map fst table) \<Longrightarrow> \<exists>v. table_get table (JStr k) = Inr v"
  by (cases "map_of table k") (auto simp: table_get_def map_of_eq_None_iff)

lemma built_header:
  assumes b: "built sha i s p gaps identity result c"
  shows "\<exists>D. header_data_of c = Inr D \<and> hd_id D = i"
proof -
  have "take 1 i \<in> set (map fst FAMILY_NAMES)"
    using assms by (auto simp: built_def identity_json_def dest: map_of_SomeD split: list.splits option.splits intro: rev_image_eqI)
  then have "take 1 i \<in> set (map fst FAMILY_COLORS)" "take 1 i \<in> set (map fst FAMILY_LABELS)"
    using family_tables by (auto simp: list_all_iff)
  then obtain accent label where t: "table_get FAMILY_COLORS (JStr (take 1 i)) = Inr accent"
      "table_get FAMILY_LABELS (JStr (take 1 i)) = Inr label"
    using table_get_known by metis
  show ?thesis unfolding header_data_of_def py_index2_def
    by (simp add: built_lookups [OF b] built_identity [OF b] t [unfolded One_nat_def] data_json_index card_action_json_def action_fields_def
        classification_fields_def venue_fields_def py_index_dict_of)
qed


section \<open>Counts\<close>

lemma card_class_target [simp]: "class_target (card_class s p) = seed_target_class s"
  by (simp add: card_class_def classification_of_def)

lemma target_keys:
  "cards_for sha seeds ids cards \<Longrightarrow> rfold summary_step cards (f, k, t) = Inr (f', k', t') \<Longrightarrow> str_counts t \<Longrightarrow>
   str_counts t' \<and> fst ` set t \<subseteq> fst ` set t'
   \<and> (\<forall>i \<in> set ids. \<forall>s. map_of seeds i = Some s \<longrightarrow> JStr (seed_target_class s) \<in> fst ` set t')"
proof (induction ids arbitrary: cards f k t)
  case Nil
  then show ?case by (simp add: cards_for_def)
next
  case (Cons i ids)
  obtain c cs s p gaps identity result where
    c: "cards = c # cs" "map_of seeds i = Some s" "built sha i s p gaps identity result c" "cards_for sha seeds ids cs"
    using Cons.prems(1) unfolding cards_for_Cons by blast
  let ?t = "bump (JStr (seed_target_class s)) t"
  have t: "str_counts ?t" "fst ` set ?t = insert (JStr (seed_target_class s)) (fst ` set t)"
    using Cons.prems(3) by (simp_all add: str_counts_bump bump_keys)
  have "rfold summary_step cs (bump (JStr (take 1 i)) f, bump (JStr (computed_class (card_class s p))) k, ?t) = Inr (f', k', t')"
    using Cons.prems(2) by (simp add: c(1) summary_step_built [OF c(3)])
  note IH = Cons.IH [OF c(4) this t(1)]
  then have "JStr (seed_target_class s) \<in> fst ` set t'" unfolding t(2) by blast
  then show ?case using IH c(2) unfolding t(2) by simp
qed

lemma counts_lookup:
  assumes "str_counts cs" "JStr k \<in> fst ` set cs"
  shows "\<exists>n. py_index (counts_json cs) k = Inr (JInt n)"
proof -
  let ?fs = "map (\<lambda>(k, n). (py_str k, JInt n)) cs"
  have "k \<in> fst ` set ?fs" using assms(2) by (force simp: py_str_def)
  then obtain v where v: "map_of ?fs k = Some v" by (metis map_of_eq_None_iff not_Some_eq)
  then have "(k, v) \<in> set ?fs" by (rule map_of_SomeD)
  then show ?thesis using v by (auto simp: counts_json_def py_index_dict_of [OF counts_keys [OF assms(1)]])
qed

lemma seed_of_target: "seed_target_class (seed_of kw) = kw_target_class kw"
  by (simp add: seed_of_def)

lemma target_calls:
  "kw_target_class (snd call_D10) = ''EXECUTABLE_STRATEGY''" "kw_target_class (snd call_D06) = ''SIGNAL''"
  "kw_target_class (snd call_D01) = ''RESEARCH_QUESTION''"
  by (simp_all add: call_D10_def call_D06_def call_D01_def)

lemma target_counts_built:
  assumes "cards_for sha card_seed_items ATOMIC_IDS cards" "summary_for_cards cards = Inr smry"
  obtains a b c where "target_counts (generated cards smry digest) = Inr [JInt a, JInt b, JInt c]"
proof -
  obtain f k t where t: "rfold summary_step cards ([], [], []) = Inr (f, k, t)" "summary_targets smry = t"
    using assms(2) by (auto simp: summary_for_cards_def rbind_eq_Inr)
  have keys: "str_counts t" "\<And>i s. i \<in> set ATOMIC_IDS \<Longrightarrow> map_of card_seed_items i = Some s \<Longrightarrow>
      JStr (seed_target_class s) \<in> fst ` set t"
    using target_keys [OF assms(1) t(1)] by simp_all
  have "JStr (kw_target_class kw) \<in> fst ` set t" if "(i, kw) \<in> set seed_calls" for i kw
  proof -
    have "map_of card_seed_items i = Some (seed_of kw)" using that by (rule items_lookup)
    then show ?thesis using keys(2) [of i "seed_of kw"] items_keys_atomic
      by (metis fst_conv image_eqI map_of_SomeD set_map seed_of_target)
  qed
  note member = this [OF special_calls(9)] this [OF special_calls(6)] this [OF special_calls(1)]
  have counts: "py_index2 (generated cards smry digest) ''summary'' ''target_class_counts'' = Inr (counts_json t)"
    by (simp add: py_index2_def generated_index summary_json_def py_index_dict_of t(2))
  show ?thesis using counts_lookup [OF keys(1) member(1)] counts_lookup [OF keys(1) member(2)]
      counts_lookup [OF keys(1) member(3)] that
    unfolding target_counts_def counts target_calls by auto
qed


section \<open>What the summary pages look up\<close>

lemma generated_cards [simp]: "cards_of (generated cards smry digest) = Inr cards"
  by (simp add: cards_of_def generated_index)

lemma fine_hashed [simp]: "fine (hashed (JStr s))" "fine (as_text (JStr s))" "fine (number (JInt n))"
  by (simp_all add: hashed_def)

lemma blocker_label_str: "\<exists>l. blocker_label (JStr b) = Inr (JStr l)"
  by (cases "map_of BLOCKER_LABELS b") (simp_all add: blocker_label_def)

lemma card_blockers_built: "built sha i s p gaps identity result c \<Longrightarrow> card_blockers c = Inr (map JStr (part_blockers p))"
  by (simp add: card_blockers_def built_index jstrs_def)

lemma named_card_built:
  assumes "cards_for sha card_seed_items ATOMIC_IDS cards" "(i, kw) \<in> set seed_calls"
  obtains c p gaps identity result where "named_card (generated cards smry digest) i = Inr c"
    "built sha i (seed_of kw) p gaps identity result c"
proof -
  obtain c p gaps identity result where c: "map_of (rev (zip (map JStr ATOMIC_IDS) cards)) (JStr i) = Some c"
    "built sha i (seed_of kw) p gaps identity result c" using special_card [OF assms] .
  show ?thesis using that [OF _ c(2)] c(1) by (simp add: named_card_def card_by_id_def index_by_id_built [OF assms(1)])
qed

lemma call_A01_listed: "(''A01-SPREAD-CAPTURE'', snd call_A01) \<in> set seed_calls"
proof -
  have "call_A01 \<in> set seed_calls" by (simp add: seed_calls_def)
  moreover have "call_A01 = (''A01-SPREAD-CAPTURE'', snd call_A01)" by (simp add: call_A01_def)
  ultimately show ?thesis by simp
qed

lemma anatomy_fine:
  assumes "cards_for sha card_seed_items ATOMIC_IDS cards"
  shows "fine (anatomy_data (generated cards smry digest))"
proof -
  obtain c p gaps identity result where c: "named_card (generated cards smry digest) ''A01-SPREAD-CAPTURE'' = Inr c"
    "built sha ''A01-SPREAD-CAPTURE'' (seed_of (snd call_A01)) p gaps identity result c"
    using named_card_built [OF assms call_A01_listed] .
  obtain m where m: "py_index2 (observed_signal ''A01-SPREAD-CAPTURE'') ''values'' ''pooled_signed_markout_logodds'' = Inr m"
    "list_all (\<lambda>h. case py_index m h of Inr (JDec _ _) \<Rightarrow> True | Inr (JInt _) \<Rightarrow> True | _ \<Rightarrow> False) [''1s'', ''5s'', ''30s'']"
    using anatomy_figures unfolding anatomy_figures_ok_def by (auto split: sum.splits)
  have figure: "fine (rbind (py_index m h) format3)" if "h \<in> set [''1s'', ''5s'', ''30s'']" for h
    using m(2) that unfolding list_all_iff by (cases "py_index m h") (fastforce simp: format3_def split: json.splits)+
  have observed: "py_index2 c ''current_result'' ''observed_signal'' = Inr (observed_signal ''A01-SPREAD-CAPTURE'')"
    by (simp add: py_index2_def built_lookups [OF c(2)])
  have "fine (traverse blocker_label (map JStr bs))" for bs
    using blocker_label_str by (intro fine_traverse) (auto simp: fine_def)
  then show ?thesis unfolding anatomy_data_def c(1) using figure
    by (simp only: rbind_simps m(1) observed card_blockers_built [OF c(2)])
       (blast intro: fine_rbind fine_Inr fine_traverse)
qed

lemma families_fine:
  assumes "cards_for sha card_seed_items ATOMIC_IDS cards" "set cs \<subseteq> set cards"
  shows "fine (family_codes cs)"
  unfolding family_codes_def
proof (rule fine_traverse)
  fix c assume "c \<in> set cs"
  then obtain i s p gaps identity result where "built sha i s p gaps identity result c"
    using assms by (meson cards_forD subsetD)
  then show "fine (rbind (py_index2 c ''identity'' ''family_code'') hashed)"
    by (simp add: py_index2_def built_index built_identity)
qed

lemma strategies_fine:
  assumes "cards_for sha card_seed_items ATOMIC_IDS cards"
  shows "fine (rbind (strategy_cards cards) family_codes)"
proof -
  let ?p = "\<lambda>c. rmap (\<lambda>t. py_eq t (JStr ''EXECUTABLE_STRATEGY'')) (py_index2 c ''classification'' ''target_class'')"
  have "?p c = Inr (?p c = Inr True)" if c: "c \<in> set cards" for c
  proof -
    obtain i s p gaps identity result where "built sha i s p gaps identity result c" using cards_forD [OF assms c] .
    then show ?thesis by (simp add: py_index2_def built_index classification_fields_def py_index_dict_of)
  qed
  then have "strategy_cards cards = Inr (filter (\<lambda>c. ?p c = Inr True) cards)"
    unfolding strategy_cards_def by (rule rfilter_total)
  then show ?thesis using families_fine [OF assms, of "filter (\<lambda>c. ?p c = Inr True) cards"] by auto
qed

lemma events_fine:
  assumes "cards_for sha card_seed_items ATOMIC_IDS cards"
  shows "fine (signal_events (generated cards smry digest))"
  unfolding signal_events_def generated_cards rbind_simps
proof (rule fine_traverse)
  fix c assume "c \<in> set cards"
  then obtain i s p gaps identity result where "built sha i s p gaps identity result c" using cards_forD [OF assms] by metis
  then show "fine (rbind (py_index2 c ''data'' ''can_compute_now'') (\<lambda>now. rbind (py_index now ''signal_event'') hashed))"
    by (simp add: py_index2_def built_index data_json_index can_compute_json_def py_index_dict_of)
qed

text \<open>The most common blockers are texts, since all blockers are.\<close>

lemma count_in_keys: "fst ` set (count_in v cs) \<subseteq> insert v (fst ` set cs)"
  by (induction v cs rule: count_in.induct) auto

lemma most_common_keys: "fst ` set (most_common k vs) \<subseteq> set vs"
proof -
  have "fst ` set (fold count_in vs cs) \<subseteq> set vs \<union> fst ` set cs" for cs
  proof (induction vs arbitrary: cs)
    case (Cons v vs)
    show ?case using Cons [of "count_in v cs"] count_in_keys [of v cs] by auto
  qed simp
  then have "fst ` set (fold count_in vs []) \<subseteq> set vs" by fastforce
  then show ?thesis unfolding most_common_def by (fastforce dest!: in_set_takeD)
qed

lemma blockers_hashed:
  assumes "cards_for sha card_seed_items ATOMIC_IDS cards"
  obtains bss where "traverse (\<lambda>c. rbind (card_blockers c) (traverse hashed)) cards = Inr bss"
    "list_all (list_all is_str) bss"
proof -
  have strs: "traverse hashed (map JStr bs) = Inr (map JStr bs)" for bs
    by (induction bs) (simp_all add: hashed_def)
  have one: "\<exists>bs. rbind (card_blockers c) (traverse hashed) = Inr (map JStr bs)" if c: "c \<in> set cards" for c
  proof -
    obtain i s p gaps identity result where "built sha i s p gaps identity result c" using cards_forD [OF assms c] .
    then show ?thesis using strs by (auto simp: card_blockers_built)
  qed
  then have "fine (traverse (\<lambda>c. rbind (card_blockers c) (traverse hashed)) cards)"
    by (intro fine_traverse) (auto simp: fine_def)
  then obtain bss where bss: "traverse (\<lambda>c. rbind (card_blockers c) (traverse hashed)) cards = Inr bss" by (rule fineE)
  then have "list_all2 (\<lambda>c bs. rbind (card_blockers c) (traverse hashed) = Inr bs) cards bss" by (simp add: traverse_eq_Inr)
  then have "list_all is_str bs" if "bs \<in> set bss" for bs
    using one that by (fastforce simp: list_all2_conv_all_nth in_set_conv_nth list_all_length)
  then show ?thesis using that [OF bss] by (simp add: list_all_iff)
qed

lemma top_blockers_fine:
  assumes "cards_for sha card_seed_items ATOMIC_IDS cards"
  shows "fine (top_blockers (generated cards smry digest))"
proof -
  obtain bss where b: "traverse (\<lambda>c. rbind (card_blockers c) (traverse hashed)) cards = Inr bss" "list_all (list_all is_str) bss"
    using blockers_hashed [OF assms] .
  have "fine (traverse (\<lambda>(b, n). rmap (\<lambda>l. (l, n)) (rbind (blocker_label b) as_text)) (most_common 10 (concat bss)))"
  proof (rule fine_traverse)
    fix bn assume "bn \<in> set (most_common 10 (concat bss))"
    then have "fst bn \<in> set (concat bss)" using most_common_keys [of 10 "concat bss"] by auto
    then obtain s where "fst bn = JStr s" using b(2) by (auto simp: list_all_iff is_str_iff)
    then show "fine (case bn of (b, n) \<Rightarrow> rmap (\<lambda>l. (l, n)) (rbind (blocker_label b) as_text))"
      using blocker_label_str [of s] by (cases bn) auto
  qed
  then show ?thesis by (simp add: top_blockers_def b(1))
qed

lemma mve_fine:
  assumes "cards_for sha card_seed_items ATOMIC_IDS cards"
  shows "fine (mve_action_label (generated cards smry digest))"
proof -
  obtain c p gaps identity result where c: "named_card (generated cards smry digest) ''D10-MVE-DIRECT-TRADING'' = Inr c"
    "built sha ''D10-MVE-DIRECT-TRADING'' (seed_of (snd call_D10)) p gaps identity result c"
    using named_card_built [OF assms special_calls(9)] .
  have "seed_action_profile (seed_of (snd call_D10)) = ''MVE_DIRECT''" by (simp add: seed_of_def special_profiles)
  moreover have "''MVE_DIRECT'' \<in> set (map fst ACTION_LABELS)" by (simp add: ACTION_LABELS_def)
  ultimately show ?thesis unfolding mve_action_label_def c(1)
    by (simp add: action_json_gets [OF c(2)] map_of_eq_None_iff split: option.split)
qed

lemma bindings_fine: "fine (binding_rows (generated cards smry digest))"
proof -
  obtain bs where bs: "SOURCE_BINDINGS = JList bs" "list_all source_row_ok bs" by (rule source_list)
  let ?row = "\<lambda>b. rbind (py_index b ''role'') (\<lambda>role.
       rbind (py_index b ''path'') (\<lambda>path. rbind (py_index b ''sha256'') (\<lambda>sha. Inr (role, path, sha))))"
  have "fine (?row b)" if "source_row_ok b" for b using that by (rule source_rowE) simp
  then have "fine (traverse ?row bs)" using bs(2) by (auto simp: list_all_iff intro: fine_traverse)
  then show ?thesis unfolding binding_rows_def generated_index bs(1) by simp
qed


section \<open>The document\<close>

text \<open>A registry that supplies everything the summary pages look up.\<close>

definition supplied :: "env \<Rightarrow> json \<Rightarrow> json list \<Rightarrow> bool" where
  "supplied E r cards \<longleftrightarrow> cards_of r = Inr cards \<and> fine (py_index r ''registry_sha256'') \<and> fine (rbind (target_counts r) with_numbers)
   \<and> fine (target_counts r) \<and> fine (anatomy_data r) \<and> fine (signal_events r) \<and> fine (top_blockers r)
   \<and> fine (mve_action_label r) \<and> fine (card_by_id r) \<and> fine (registry_file_sha E)
   \<and> fine (rbind (py_index r ''registry_sha256'') as_text) \<and> fine (binding_rows r) \<and> fine (family_codes cards)
   \<and> fine (rbind (strategy_cards cards) family_codes)"

lemma supplied_pages:
  assumes "supplied E r cards"
  shows "fine (page_cover P r n)" "fine (page_dashboard P r n)" "fine (page_operating_change P r n)"
    "fine (page_card_anatomy P r n)" "fine (page_families P r n)" "fine (page_target_vs_current P r n)"
    "fine (page_data_truth P r n)" "fine (page_blockers P r n)" "fine (page_pnl P r n)" "fine (page_rfq P r n)"
    "fine (page_mve P r n)" "fine (page_external P r n)" "fine (page_priority P r n)" "fine (page_roadmap P r n)"
    "fine (page_provenance E P r n)"
proof -
  note s = assms [unfolded supplied_def]
  note cs = conjunct1 [OF s] and t = conjunct2 [OF s]
  show "fine (page_families P r n)"
    unfolding page_families_def case_prod_unfold cs rbind_simps
    by (rule fine_rbind, use t in blast, rule fine_rbind, use t in blast, rule fine_Inr)
  show "fine (page_cover P r n)" "fine (page_dashboard P r n)" "fine (page_operating_change P r n)"
    "fine (page_card_anatomy P r n)" "fine (page_target_vs_current P r n)"
    "fine (page_data_truth P r n)" "fine (page_blockers P r n)" "fine (page_pnl P r n)" "fine (page_rfq P r n)"
    "fine (page_mve P r n)" "fine (page_external P r n)" "fine (page_priority P r n)" "fine (page_roadmap P r n)"
    "fine (page_provenance E P r n)"
    unfolding page_defs case_prod_unfold by (rule fine_Inr | (rule fine_rbind, use t in blast))+
qed

lemma supplied_summary:
  assumes "supplied E r cards"
  shows "fine (summary_pages E P r)"
  unfolding summary_pages_def
  by (rule fine_traverse) (auto simp: enumerate_eq_zip intro: supplied_pages [OF assms])

text \<open>Cards whose headers and digests can be looked up are drawn.\<close>

lemma detail_pages_fine:
  assumes "fine (py_index r ''registry_sha256'')" "fine (py_index c ''definition_sha256'')"
  shows "list_all (list_all (column_ok P)) pls \<Longrightarrow> fine (detail_pages P r c D ci n page_no i pls)"
proof (induction pls arbitrary: page_no i)
  case (Cons pl pls)
  have "fine (draw_column P D i col)" if "col \<in> set (enumerate 0 pl)" for col
  proof -
    have "snd col \<in> set pl" using that nth_mem [of "fst col" pl] by (simp add: in_set_enumerate_eq)
    then have "column_ok P (snd col)" using Cons.prems by (simp add: list_all_iff)
    then show ?thesis unfolding fine_def by (rule draw_column_ok)
  qed
  then have "fine (detail_page P r c D ci n page_no i pl)"
    unfolding detail_page_def by (intro fine_rbind fine_traverse fine_Inr assms)
  then show ?case using Cons by (auto intro!: fine_rbind fine_rmap)
qed simp

lemma render_cards_fine:
  assumes "fine (py_index r ''registry_sha256'')"
  shows "list_all (\<lambda>c. payload_ok P c \<and> fine (header_data_of (fst c)) \<and> fine (py_index (fst c) ''definition_sha256'')) payloads \<Longrightarrow>
    fine (render_cards P r ci payloads page_no)"
proof (induction payloads arbitrary: ci page_no)
  case (Cons c payloads)
  obtain crd pls where c: "c = (crd, pls)" by (cases c)
  have "fine (render_detail_card P r crd ci pls page_no)"
    using Cons.prems unfolding render_detail_card_def
    by (intro fine_rbind detail_pages_fine assms) (auto simp: c payload_ok_def)
  then show ?case using Cons by (auto simp: c case_prod_unfold intro!: fine_rbind fine_rmap)
qed simp

lemma payloads_fine:
  assumes "roomy P"
  shows "list_all (\<lambda>c. fine (card_detail_sections r c)) cards \<Longrightarrow> \<exists>payloads. detail_payloads P r cards = Some (Inr payloads)"
proof (induction cards)
  case (Cons c cards)
  then obtain sections payloads where "card_detail_sections r c = Inr sections" "detail_payloads P r cards = Some (Inr payloads)"
    by (auto elim: fineE)
  moreover obtain pgs where "layout_detail_sections P sections = Some pgs" using layout_ok [OF assms] .
  ultimately show ?case by simp
qed simp

lemma generated_supplied:
  assumes "cards_for sha card_seed_items ATOMIC_IDS cards" "summary_for_cards cards = Inr smry" "fine (registry_file_sha E)"
  shows "supplied E (generated cards smry digest) cards"
proof -
  obtain a b c where t: "target_counts (generated cards smry digest) = Inr [JInt a, JInt b, JInt c]"
    using target_counts_built [OF assms(1,2)] .
  show ?thesis unfolding supplied_def
    using anatomy_fine [OF assms(1)] events_fine [OF assms(1)] top_blockers_fine [OF assms(1)] mve_fine [OF assms(1)]
      families_fine [OF assms(1)] strategies_fine [OF assms(1)] bindings_fine assms(3)
    by (simp add: t generated_index with_numbers_def card_by_id_def index_by_id_built [OF assms(1)])
qed

text \<open>The renderer on the generated registry: a complete document.\<close>

lemma generated_document:
  assumes "build_registry sha = Inr r" "fonts_present P" "roomy P" "fine (registry_file_sha E)"
  obtains ds where "build_pdf E P r = Some (Inr ds)"
proof -
  obtain cards smry digest where c: "cards_for sha card_seed_items ATOMIC_IDS cards" "summary_for_cards cards = Inr smry"
      "r = generated cards smry digest"
    using build_registry_eq [of sha] assms(1) by (metis generated_def sum.inject(2))
  have "length ATOMIC_IDS = 106" using items_length items_keys_atomic by (metis length_map)
  then have len: "length cards = 106" using list_all2_lengthD [OF c(1) [unfolded cards_for_def]] by simp
  have built: "fine (header_data_of x) \<and> fine (py_index x ''definition_sha256'') \<and> fine (card_detail_sections r x)"
    if x: "x \<in> set cards" for x
  proof -
    obtain i s p gaps identity result where "built sha i s p gaps identity result x" using cards_forD [OF c(1) x] .
    then show ?thesis using built_header built_design(3) sections_fine unfolding c(3) fine_def by metis
  qed
  obtain payloads where p: "detail_payloads P r cards = Some (Inr payloads)"
    using payloads_fine [OF assms(3), of r cards] built by (auto simp: list_all_iff)
  then have pls: "map fst payloads = cards" "list_all (payload_ok P) payloads"
    using detail_payloads_roomy [OF assms(3), of r cards] by auto
  let ?P = "P\<lparr>TOTAL_PAGES := SUMMARY_PAGES + page_count payloads\<rparr>"
  have s: "supplied E r cards" unfolding c(3) by (rule generated_supplied [OF c(1,2) assms(4)])
  have "fst x \<in> set cards" if "x \<in> set payloads" for x using that pls(1) by (metis image_eqI set_map)
  then have "list_all (\<lambda>c. payload_ok ?P c \<and> fine (header_data_of (fst c)) \<and> fine (py_index (fst c) ''definition_sha256'')) payloads"
    using pls(2) built by (simp add: list_all_iff)
  then have rc: "fine (render_cards ?P r 1 payloads n)" for n
    using render_cards_fine s by (auto simp: supplied_def)
  have "fine (draw_document E ?P r payloads)"
    unfolding draw_document_def
  proof (intro fine_rbind supplied_summary [OF s] rc)
    fix front x assume f: "summary_pages E ?P r = Inr front" and x: "render_cards ?P r 1 payloads (1 + length front) = Inr x"
    obtain ds n where xn: "x = (ds, n)" by (cases x)
    have "n = 1 + length front + page_count payloads" using render_cards_Inr [OF x [unfolded xn]] pls(2) by simp
    then show "fine (case x of (cards, page_no) \<Rightarrow> if page_no - 1 \<noteq> TOTAL_PAGES ?P
        then Inl (AssertionError (''expected '' @ str_of_nat (TOTAL_PAGES ?P) @ '' pages, rendered '' @ str_of_nat (page_no - 1)))
        else Inr (metadata @ concat front @ cards @ [Save]))"
      using summary_pages_Inr [OF f] by (simp add: xn)
  qed
  then obtain ds where "draw_document E ?P r payloads = Inr ds" by (rule fineE)
  then have "build_pdf E P r = Some (Inr ds)"
    using assms(2) len by (simp add: build_pdf_def register_fonts_def c(3) p [unfolded c(3)] page_count_def)
  then show ?thesis by (rule that)
qed

text \<open>Its outline: the summary pages, then every card in the order of the catalogue.\<close>

lemma generated_outline:
  assumes "build_registry sha = Inr r" "roomy P" "build_pdf E P r = Some (Inr ds)"
  obtains front where "outline ds = front @ map (\<lambda>i. (card_key i, i)) ATOMIC_IDS" "map fst front = summary_keys"
proof -
  obtain cards smry digest where c: "cards_for sha card_seed_items ATOMIC_IDS cards" "r = generated cards smry digest"
    using build_registry_eq [of sha] assms(1) by (metis generated_def sum.inject(2))
  obtain front entries where o: "outline ds = front @ entries" "map fst front = summary_keys"
      "list_all2 (\<lambda>c e. \<exists>D. header_data_of c = Inr D \<and> e = (card_key (hd_id D), hd_id D)) cards entries"
    by (rule build_pdf_document [OF assms(2,3)]) (simp add: c(2))
  have "list_all2 (\<lambda>i c. \<exists>D. header_data_of c = Inr D \<and> hd_id D = i) ATOMIC_IDS cards"
    using c(1) unfolding cards_for_def by (rule list_all2_mono) (use built_header in blast)
  then have "list_all2 (\<lambda>i e. e = (card_key i, i)) ATOMIC_IDS entries"
    by (rule list_all2_trans [rotated, OF _ o(3)]) auto
  then have "entries = map (\<lambda>i. (card_key i, i)) ATOMIC_IDS"
    by (simp add: list_all2_conv_all_nth list_eq_iff_nth_eq)
  then show ?thesis using that o(1,2) by blast
qed

text \<open>The command lines one after the other: the generator writes the registry, the renderer reads it back.\<close>

lemma written_report:
  assumes "repository_intact E" "build_registry (sha256 E) = Inr r" "fonts_present P" "roomy P"
  obtains ds where "build_pdf (write_registry E r) P r = Some (Inr ds)"
    "pdf_main (write_registry E r) P = Some (Inr (ds, path_text (root E @ OUTPUT_PATH)))"
proof -
  have "tidy r" using generated_registry [OF assms(1)] assms(2) by (metis Inr_inject)
  then have read: "read_registry (write_registry E r) = Inr r" using read_write_registry [of r E] by (simp add: tidy_def)
  have "fine (registry_file_sha (write_registry E r))"
    by (simp add: registry_file_sha_def file_sha256_def read_bytes_def)
  then obtain ds where "build_pdf (write_registry E r) P r = Some (Inr ds)"
    using generated_document [OF assms(2-4)] by blast
  then show ?thesis using that read by (simp add: pdf_main_def)
qed


section \<open>A concrete canvas\<close>

text \<open>Pages of the sizes A4 and A3, and characters of one width.\<close>

definition sample_pdf :: pdf where
  "sample_pdf = \<lparr>PAGE_W = 842, PAGE_H = 595, DETAIL_PAGE_W = 1191, DETAIL_PAGE_H = 842,
     stringWidth = (\<lambda>t font size'. of_nat (length (chars t)) * size' * 6 / 10), fonts_present = True, TOTAL_PAGES = 0\<rparr>"

lemma sample_pdf_ok: "roomy sample_pdf" "fonts_present sample_pdf"
  by (simp_all add: roomy_def sample_pdf_def DETAIL_SECTION_H_def DETAIL_LEADING_def DETAIL_CONTENT_H_def DETAIL_TOP_def
      DETAIL_BOTTOM_def)

end
