(* ===== verification/ReportFigures.thy ===== *)
theory ReportFigures
  imports PdfComplete
begin

text \<open>
  The figures of the report.  Some of them are constants of the code (106 cards, 80 with an action as
  their target, none eligible, 105 blocked and one research question); the generator counts the same
  numbers.
\<close>


section \<open>Counting\<close>

definition counted :: "counts \<Rightarrow> string \<Rightarrow> int" where
  "counted cs k = (case map_of cs (JStr k) of None \<Rightarrow> 0 | Some n \<Rightarrow> n)"

lemma counted_Nil [simp]: "counted [] k = 0"
  by (simp add: counted_def)

lemma bump_lookup: "str_counts cs \<Longrightarrow> map_of (bump (JStr s) cs) (JStr k) =
    (if k = s then Some (case map_of cs (JStr s) of None \<Rightarrow> 1 | Some n \<Rightarrow> n + 1) else map_of cs (JStr k))"
  by (induction cs) (auto simp: str_counts_def is_str_iff)

lemma counted_bump: "str_counts cs \<Longrightarrow> counted (bump (JStr s) cs) k = counted cs k + (if k = s then 1 else 0)"
  by (simp add: counted_def bump_lookup split: option.split)

lemma counted_fold:
  "str_counts cs \<Longrightarrow> counted (fold bump (map JStr ss) cs) k = counted cs k + int (count_list ss k)"
  by (induction ss arbitrary: cs) (auto simp: counted_bump str_counts_bump)

text \<open>An entry that was counted can be looked up.\<close>

lemma counts_json_counted:
  assumes "str_counts cs" "counted cs k \<noteq> 0"
  shows "py_index (counts_json cs) k = Inr (JInt (counted cs k))"
proof -
  obtain n where n: "map_of cs (JStr k) = Some n" "counted cs k = n"
    using assms(2) by (auto simp: counted_def split: option.splits)
  have "(py_str (JStr k), JInt n) \<in> set (map (\<lambda>(k, n). (py_str k, JInt n)) cs)" using map_of_SomeD [OF n(1)] by force
  then have "map_of (map (\<lambda>(k, n). (py_str k, JInt n)) cs) k = Some (JInt n)"
    using counts_keys [OF assms(1)] by (simp add: py_str_def map_of_is_SomeI)
  then show ?thesis using n(2) by (simp add: counts_json_def py_index_dict_of [OF counts_keys [OF assms(1)]])
qed


section \<open>The classes of the generated cards\<close>

definition class_of :: "string \<Rightarrow> seed \<Rightarrow> string" where
  "class_of i s = (case derive_parts i s of Inr p \<Rightarrow> computed_class (card_class s p) | Inl _ \<Rightarrow> [])"

lemma summary_scan_exact:
  "cards_for sha seeds ids cards \<Longrightarrow> rfold summary_step cards (f, k, t) = Inr (
     fold bump (map (\<lambda>i. JStr (take 1 i)) ids) f,
     fold bump (map (\<lambda>i. JStr (class_of i (the (map_of seeds i)))) ids) k,
     fold bump (map (\<lambda>i. JStr (seed_target_class (the (map_of seeds i)))) ids) t)"
proof (induction ids arbitrary: cards f k t)
  case Nil
  then show ?case by (simp add: cards_for_def)
next
  case (Cons i ids)
  obtain c cs s p gaps identity result where
    c: "cards = c # cs" "map_of seeds i = Some s" "built sha i s p gaps identity result c" "cards_for sha seeds ids cs"
    using Cons.prems unfolding cards_for_Cons by blast
  have "class_of i s = computed_class (card_class s p)" using c(3) by (simp add: built_def class_of_def)
  then show ?case using Cons.IH [OF c(4)] c(2) by (simp add: c(1) summary_step_built [OF c(3)])
qed

text \<open>A seed is blocked if its target is a strategy, which has an action, or if it has blockers of its own.\<close>

lemma blocked_class:
  assumes "seed_admissible s" "seed_target_class s = ''EXECUTABLE_STRATEGY'' \<or> seed_extra_blockers s \<noteq> []"
  shows "class_of i s = ''BLOCKED''"
proof -
  obtain p where p: "derive_parts i s = Inr p" using derive_parts_total [OF assms(1)] by blast
  have "part_blockers p \<noteq> []"
  proof (cases "has_action (part_action p)")
    case True
    then show ?thesis using action_blocked_by_fees [OF assms(1) p] by auto
  next
    case False
    then have "seed_extra_blockers s \<noteq> []"
      using action_of_parts [OF assms(1) p] assms by (auto simp: seed_admissible_def)
    moreover obtain d where "expected_blockers s d (part_external p) (part_costs p) False = Inr (part_blockers p)"
      using p False by (auto simp: derive_parts_Inr)
    ultimately have "set (part_blockers p) \<noteq> {}" by (auto simp: expected_blockers_set)
    then show ?thesis by auto
  qed
  then show ?thesis using p by (simp add: class_of_def card_class_def classification_of_def)
qed

lemma factory_classes:
  "class_of ''F08-SPORT-FACTORY'' (seed_of (snd call_F08)) = ''RESEARCH_QUESTION''"
  "class_of ''F15-BLINDNESS-EVPI'' (seed_of (snd call_F15)) = ''BLOCKED''"
  by code_simp+

definition open_call :: "string \<times> seed_args \<Rightarrow> bool" where
  "open_call c \<longleftrightarrow> hd (kw_target_class (snd c)) \<noteq> CHR ''E'' \<and> kw_extra_blockers (snd c) = []"

lemma open_calls: "map fst (filter snd (map (\<lambda>c. (take 4 (fst c), open_call c)) seed_calls)) = [''F08-'', ''F15-'']"
  by code_simp

lemma target_letters: "map (count_list (map (\<lambda>c. take 1 (kw_target_class (snd c))) seed_calls)) [''E'', ''S'', ''R''] = [80, 14, 12]"
  by code_simp

lemma calls_by_letters: "distinct (map (\<lambda>c. take 4 (fst c)) seed_calls)"
  by code_simp

lemma call_listed: "call_F08 \<in> set seed_calls" "call_F15 \<in> set seed_calls"
    "take 4 (fst call_F08) = ''F08-''" "take 4 (fst call_F15) = ''F15-''"
    "fst call_F08 = ''F08-SPORT-FACTORY''" "fst call_F15 = ''F15-BLINDNESS-EVPI''"
  by (simp_all add: seed_calls_def call_F08_def call_F15_def)

lemma open_call_cases:
  assumes "c \<in> set seed_calls" "open_call c"
  shows "c = call_F08 \<or> c = call_F15"
proof -
  have "take 4 (fst c) \<in> set (map fst (filter snd (map (\<lambda>c. (take 4 (fst c), open_call c)) seed_calls)))"
    using assms by force
  then have "take 4 (fst c) = take 4 (fst call_F08) \<or> take 4 (fst c) = take 4 (fst call_F15)"
    unfolding open_calls call_listed by simp
  moreover have "inj_on (\<lambda>c. take 4 (fst c)) (set seed_calls)" using calls_by_letters by (simp add: distinct_map)
  ultimately show ?thesis using assms(1) call_listed(1,2) by (auto dest: inj_onD)
qed

lemma call_class:
  assumes "c \<in> set seed_calls"
  shows "class_of (fst c) (seed_of (snd c)) = (if c = call_F08 then ''RESEARCH_QUESTION'' else ''BLOCKED'')"
proof -
  have adm: "seed_admissible (seed_of (snd c))"
    using calls_admissible assms key_admissible_iff [of "fst c" "snd c"] by (auto simp: list_all_iff)
  then have "kw_target_class (snd c) \<in> set TARGET_CLASSES" by (simp add: seed_admissible_def seed_of_def)
  then have target: "kw_target_class (snd c) = ''EXECUTABLE_STRATEGY''" if "hd (kw_target_class (snd c)) = CHR ''E''"
    using that by (auto simp: TARGET_CLASSES_def)
  show ?thesis
  proof (cases "open_call c")
    case True
    moreover have "call_F15 \<noteq> call_F08" by (simp add: call_F15_def call_F08_def)
    ultimately show ?thesis using open_call_cases [OF assms] factory_classes call_listed(5,6) by auto
  next
    case False
    have "\<not> open_call call_F08" if "c = call_F08" using False that by simp
    moreover have "open_call call_F08" by (simp add: open_call_def call_F08_def)
    ultimately have "c \<noteq> call_F08" by blast
    then show ?thesis using False target blocked_class [OF adm] by (auto simp: open_call_def seed_of_def)
  qed
qed


section \<open>The figures\<close>

lemma ids_calls:
  "map (\<lambda>i. g i (the (map_of card_seed_items i))) ATOMIC_IDS = map (\<lambda>c. g (fst c) (seed_of (snd c))) seed_calls"
proof -
  have "the (map_of card_seed_items (fst c)) = seed_of (snd c)" if "c \<in> set seed_calls" for c
    using items_lookup [of "fst c" "snd c"] that by simp
  then show ?thesis unfolding items_keys_atomic [symmetric] items_keys by simp
qed

lemma count_if: "count_list (map (\<lambda>c. if c = x then a else b) cs) k =
    (if k = a then count_list cs x else 0) + (if k = b then length cs - count_list cs x else 0)"
proof (induction cs)
  case (Cons c cs)
  have "count_list cs x \<le> length cs" by (rule count_le_length)
  then show ?case using Cons by auto
qed simp

lemma count_distinct: "distinct xs \<Longrightarrow> x \<in> set xs \<Longrightarrow> count_list xs x = 1"
  by (induction xs) (auto simp: count_list_0_iff)

lemma class_counts:
  "count_list (map (\<lambda>c. class_of (fst c) (seed_of (snd c))) seed_calls) ''BLOCKED'' = 105"
  "count_list (map (\<lambda>c. class_of (fst c) (seed_of (snd c))) seed_calls) ''RESEARCH_QUESTION'' = 1"
proof -
  have classes: "map (\<lambda>c. class_of (fst c) (seed_of (snd c))) seed_calls
      = map (\<lambda>c. if c = call_F08 then ''RESEARCH_QUESTION'' else ''BLOCKED'') seed_calls"
    using call_class by (intro map_cong refl)
  have "count_list seed_calls call_F08 = 1"
    using call_listed(1) distinct_map seed_calls_distinct count_distinct by metis
  moreover have "length seed_calls = 106" using items_length by (simp add: card_seed_items_def)
  ultimately show "count_list (map (\<lambda>c. class_of (fst c) (seed_of (snd c))) seed_calls) ''BLOCKED'' = 105"
    "count_list (map (\<lambda>c. class_of (fst c) (seed_of (snd c))) seed_calls) ''RESEARCH_QUESTION'' = 1"
    unfolding classes by (simp_all add: count_if)
qed

lemma count_fingerprint:
  "inj_on h A \<Longrightarrow> set xs \<subseteq> A \<Longrightarrow> k \<in> A \<Longrightarrow> count_list (map h xs) (h k) = count_list xs k"
  by (induction xs) (auto dest: inj_onD)

lemma target_counts_exact:
  "count_list (map (\<lambda>c. kw_target_class (snd c)) seed_calls) ''EXECUTABLE_STRATEGY'' = 80"
  "count_list (map (\<lambda>c. kw_target_class (snd c)) seed_calls) ''SIGNAL'' = 14"
  "count_list (map (\<lambda>c. kw_target_class (snd c)) seed_calls) ''RESEARCH_QUESTION'' = 12"
proof -
  let ?ts = "map (\<lambda>c. kw_target_class (snd c)) seed_calls"
  have inj: "inj_on (take 1) (set TARGET_CLASSES)" by (auto simp: TARGET_CLASSES_def inj_on_def)
  have sub: "set ?ts \<subseteq> set TARGET_CLASSES"
    using calls_admissible by (auto simp: list_all_iff key_admissible_def call_key_def)
  have letters: "map (take 1) ?ts = map (\<lambda>c. take 1 (kw_target_class (snd c))) seed_calls" by simp
  have known: "''EXECUTABLE_STRATEGY'' \<in> set TARGET_CLASSES" "''SIGNAL'' \<in> set TARGET_CLASSES"
    "''RESEARCH_QUESTION'' \<in> set TARGET_CLASSES" by (simp_all add: TARGET_CLASSES_def)
  note count = count_fingerprint [OF inj sub, unfolded letters, symmetric]
  show "count_list ?ts ''EXECUTABLE_STRATEGY'' = 80" "count_list ?ts ''SIGNAL'' = 14" "count_list ?ts ''RESEARCH_QUESTION'' = 12"
    unfolding count [OF known(1)] count [OF known(2)] count [OF known(3)] using target_letters by simp_all
qed

text \<open>What the generator counts.\<close>

lemma generated_figures:
  assumes "cards_for sha card_seed_items ATOMIC_IDS cards" "summary_for_cards cards = Inr smry"
  shows "target_counts (generated cards smry digest) = Inr [JInt 80, JInt 14, JInt 12]"
    "py_index2 (generated cards smry digest) ''summary'' ''computed_class_counts'' = Inr (counts_json (summary_computed smry))"
    "py_index (counts_json (summary_computed smry)) ''BLOCKED'' = Inr (JInt 105)"
    "py_index (counts_json (summary_computed smry)) ''RESEARCH_QUESTION'' = Inr (JInt 1)"
proof -
  have scan: "summary_computed smry = fold bump (map JStr (map (\<lambda>c. class_of (fst c) (seed_of (snd c))) seed_calls)) []"
    "summary_targets smry = fold bump (map JStr (map (\<lambda>c. kw_target_class (snd c)) seed_calls)) []"
    using assms(2) ids_calls [of "\<lambda>i s. JStr (class_of i s)"] ids_calls [of "\<lambda>i s. JStr (seed_target_class s)"]
    by (auto simp: summary_for_cards_def summary_scan_exact [OF assms(1)] rbind_eq_Inr seed_of_target comp_def)
  have strs: "str_counts (summary_computed smry)" "str_counts (summary_targets smry)"
    unfolding scan by (simp_all only: str_counts_fold str_counts_Nil)
  have computed: "counted (summary_computed smry) k
      = int (count_list (map (\<lambda>c. class_of (fst c) (seed_of (snd c))) seed_calls) k)" for k
    unfolding scan by (simp only: counted_fold [OF str_counts_Nil] counted_Nil add_0)
  have targets: "counted (summary_targets smry) k = int (count_list (map (\<lambda>c. kw_target_class (snd c)) seed_calls) k)" for k
    unfolding scan by (simp only: counted_fold [OF str_counts_Nil] counted_Nil add_0)
  show "py_index (counts_json (summary_computed smry)) ''BLOCKED'' = Inr (JInt 105)"
    "py_index (counts_json (summary_computed smry)) ''RESEARCH_QUESTION'' = Inr (JInt 1)"
    using counts_json_counted [OF strs(1)] class_counts computed by simp_all
  have "py_index (counts_json (summary_targets smry)) ''EXECUTABLE_STRATEGY'' = Inr (JInt 80)"
    "py_index (counts_json (summary_targets smry)) ''SIGNAL'' = Inr (JInt 14)"
    "py_index (counts_json (summary_targets smry)) ''RESEARCH_QUESTION'' = Inr (JInt 12)"
    using counts_json_counted [OF strs(2)] target_counts_exact targets by simp_all
  then show "target_counts (generated cards smry digest) = Inr [JInt 80, JInt 14, JInt 12]"
    by (simp add: target_counts_def py_index2_def generated_index summary_json_def py_index_dict_of)
  show "py_index2 (generated cards smry digest) ''summary'' ''computed_class_counts'' = Inr (counts_json (summary_computed smry))"
    by (simp add: py_index2_def generated_index summary_json_def py_index_dict_of)
qed


section \<open>The figures on the page\<close>

fun drawn_texts :: "draw list \<Rightarrow> string list" where
  "drawn_texts [] = []"
| "drawn_texts (DrawString x y t # ds) = t # drawn_texts ds"
| "drawn_texts (DrawRightString x y t # ds) = t # drawn_texts ds"
| "drawn_texts (DrawCentredString x y t # ds) = t # drawn_texts ds"
| "drawn_texts (_ # ds) = drawn_texts ds"

lemma drawn_texts_append [simp]: "drawn_texts (xs @ ys) = drawn_texts xs @ drawn_texts ys"
  by (induction xs rule: drawn_texts.induct) simp_all

lemma metric_card_texts: "value' \<in> set (drawn_texts (metric_card P x y w h value' label note' accent))"
  by (simp add: metric_card_def round_rect_def)

lemma dashboard_texts:
  assumes "page_dashboard P r n = Inr ds"
  shows "{''106'', ''80'', ''0'', ''105 + 1''} \<subseteq> set (drawn_texts ds)"
  using assms unfolding page_dashboard_def Let_def case_prod_unfold rbind_eq_Inr sum.inject
  by (elim exE conjE, hypsubst) (simp add: each_def metric_card_texts)

lemma dashboard_drawn: "target_counts r = Inr [JInt a, JInt b, JInt c] \<Longrightarrow> \<exists>ds. page_dashboard P r n = Inr ds"
  unfolding page_dashboard_def case_prod_unfold fine_def [symmetric]
  by (rule fine_rbind [OF _ fine_Inr]) (simp add: with_numbers_def)

lemma registry_figures:
  obtains r cards counts where "build_registry sha = Inr r" "cards_of r = Inr cards" "length cards = 106"
    "target_counts r = Inr [JInt 80, JInt 14, JInt 12]" "py_index2 r ''summary'' ''computed_class_counts'' = Inr counts"
    "py_index counts ''BLOCKED'' = Inr (JInt 105)" "py_index counts ''RESEARCH_QUESTION'' = Inr (JInt 1)"
    "py_index2 r ''summary'' ''strategy_eligible_now'' = Inr (JInt 0)"
proof -
  obtain cards smry where c: "cards_for sha card_seed_items ATOMIC_IDS cards" "summary_for_cards cards = Inr smry"
      "eligible_now smry = (0, 0)" "build_registry sha = Inr (generated cards smry (sha256_json sha (dict_of (registry_body cards smry))))"
    using build_registry_eq [of sha] unfolding generated_def by metis
  have "length ATOMIC_IDS = 106" using items_length items_keys_atomic by (metis length_map)
  then have "length cards = 106" using list_all2_lengthD [OF c(1) [unfolded cards_for_def]] by simp
  moreover have "py_index2 (generated cards smry digest) ''summary'' ''strategy_eligible_now'' = Inr (JInt 0)" for digest
    by (simp add: py_index2_def generated_index summary_json_def py_index_dict_of c(3))
  ultimately show ?thesis using that [OF c(4)] generated_figures [OF c(1,2)] generated_cards by blast
qed

end
