(* ===== verification/ValidatedCards.thy ===== *)
theory ValidatedCards
  imports RegistryComplete
begin

text \<open>
  Consequences of a validation that reports nothing, for any artifact; and the inputs on which the
  validation raises although it means to report.
\<close>


section \<open>Reading through an equality\<close>

lemma py_eq_index:
  assumes "py_eq v w" "wf_json v" "wf_json w" "py_index w k = Inr x"
  shows "\<exists>u. py_index v k = Inr u \<and> py_eq u x \<and> wf_json u \<and> wf_json x"
proof -
  obtain gs where w: "w = JObj gs" "map_of gs k = Some x"
    using assms(4) by (cases w) (auto split: option.splits)
  obtain fs where v: "v = JObj fs" using assms(1) by (cases v) (auto simp: w num_same_def)
  obtain u where u: "map_of fs k = Some u" "py_eq u x"
    using py_eq_lookup [of fs gs k x] assms(1-3) w(2) by (auto simp: v w(1))
  have "wf_json u" "wf_json x"
    using u(1) w(2) assms(2,3) by (force simp: v w(1) wf_fields_iff dest: map_of_SomeD)+
  then show ?thesis using u by (auto simp: v)
qed

lemma py_eq_index2:
  assumes "py_eq v w" "wf_json v" "wf_json w" "py_index2 w k k' = Inr x"
  shows "\<exists>u. py_index2 v k k' = Inr u \<and> py_eq u x"
proof -
  obtain y where y: "py_index w k = Inr y" "py_index y k' = Inr x"
    using assms(4) by (auto simp: py_index2_def rbind_eq_Inr)
  obtain z where z: "py_index v k = Inr z" "py_eq z y" "wf_json z" "wf_json y"
    using py_eq_index [OF assms(1-3) y(1)] by blast
  show ?thesis using py_eq_index [OF z(2-4) y(2)] by (auto simp: py_index2_def z(1))
qed


section \<open>Validated cards\<close>

lemma list_all2_partner: "list_all2 P xs ys \<Longrightarrow> y \<in> set ys \<Longrightarrow> \<exists>x \<in> set xs. P x y"
  by (induction rule: list_all2_induct) auto

lemma canonical_card_built:
  assumes "canonical_card E card_seed_items i c" "i \<in> set ATOMIC_IDS"
  obtains s p gaps identity result b where "built (sha256 E) i s p gaps identity result b" "py_eq c b"
proof -
  obtain s b where b: "map_of card_seed_items i = Some s" "build_card (sha256 E) i s = Inr b" "py_eq c b"
    using assms(1) by (auto simp: canonical_card_def)
  obtain t where t: "map_of card_seed_items i = Some t" "seed_admissible t" "seed_texts_ok t"
    using item_facts [OF assms(2)] .
  have "t = s" using t(1) b(1) by simp
  then have a: "seed_admissible s" "seed_texts_ok s" using t(2,3) by simp_all
  obtain p gaps identity result where "built (sha256 E) i s p gaps identity result b" using builtI [OF a b(2)] .
  then show thesis using that b(3) by simp
qed

lemma built_claims:
  assumes "built sha i s p gaps identity result c"
  shows "py_index2 c ''classification'' ''strategy_eligible'' = Inr (JBool False)"
    "py_index2 c ''action'' ''current_execution_authority'' = Inr (JStr ''NONE'')"
    "py_index2 c ''current_result'' ''strategy_pnl_claim'' = Inr (JStr ''NONE'')"
    "py_index2 c ''current_result'' ''live_pnl_claim'' = Inr (JStr ''NONE'')"
    "py_index2 c ''identity'' ''experiment_id'' = Inr (JStr i)"
proof -
  obtain st where st: "py_index (observed_signal i) ''status'' = Inr (JStr st)" using observed_signal_ok(2) by blast
  have r: "current_result_json i s = Inr result" using assms by (simp add: built_def)
  show "py_index2 c ''current_result'' ''strategy_pnl_claim'' = Inr (JStr ''NONE'')"
    "py_index2 c ''current_result'' ''live_pnl_claim'' = Inr (JStr ''NONE'')"
    using r by (auto simp: current_result_json_def st py_index2_def built_index [OF assms] py_index_dict_of)
qed (use never_eligible [OF assms] in \<open>simp_all add: py_index2_def built_index [OF assms] built_identity [OF assms]
      classification_fields_def card_action_json_def action_fields_def py_index_dict_of\<close>)

lemma validated_card_claims:
  assumes "canonical_card E card_seed_items i c" "i \<in> set ATOMIC_IDS" "wf_json c"
  shows "(\<exists>x. py_index2 c ''classification'' ''strategy_eligible'' = Inr x \<and> \<not> truthy x)
    \<and> py_index2 c ''action'' ''current_execution_authority'' = Inr (JStr ''NONE'')
    \<and> py_index2 c ''current_result'' ''strategy_pnl_claim'' = Inr (JStr ''NONE'')
    \<and> py_index2 c ''current_result'' ''live_pnl_claim'' = Inr (JStr ''NONE'')"
proof -
  obtain s p gaps identity result b where b: "built (sha256 E) i s p gaps identity result b" "py_eq c b"
    using canonical_card_built [OF assms(1,2)] .
  have w: "wf_json b" using built_tidy [OF b(1)] by (simp add: tidy_def)
  note read = py_eq_index2 [OF b(2) assms(3) w]
  show ?thesis
    using read [OF built_claims(1) [OF b(1)]] read [OF built_claims(2) [OF b(1)]] read [OF built_claims(3) [OF b(1)]]
      read [OF built_claims(4) [OF b(1)]] py_eq_truthy by auto
qed

lemma validated_cards:
  assumes "validate_registry E registry = Inr []"
  obtains cards where "get registry ''experiments'' = Inr (JList cards)"
    "list_all2 (canonical_card E card_seed_items) ATOMIC_IDS cards" "check_header E registry = Inr []"
    "get_is registry ''registry_sha256'' (JStr (sha256_json (sha256 E) (without_key ''registry_sha256'' registry))) = Inr True"
proof -
  obtain cards where c: "get registry ''experiments'' = Inr (JList cards)" "check_header E registry = Inr []"
      "check_experiments E registry cards = Inr []"
    using validate_registry_Nil [OF assms] .
  show thesis using that [OF c(1) check_experiments_Nil(1) [OF c(3)] c(2) check_experiments_Nil(3) [OF c(3)]] .
qed

lemma wf_experiments:
  "wf_json registry \<Longrightarrow> get registry ''experiments'' = Inr (JList cards) \<Longrightarrow> c \<in> set cards \<Longrightarrow> wf_json c"
  by (cases registry) (force simp: wf_fields_iff wf_list_iff split: option.splits dest: map_of_SomeD)+

lemma collect_Nil_all: "collect rs = Inr [] \<longleftrightarrow> list_all (\<lambda>r. r = Inr []) rs"
  by (simp add: collect_eq_Nil list_all_iff)

lemma header_scope:
  assumes "check_header E registry = Inr []"
  shows "\<exists>scope. py_get registry ''scope'' (JObj []) = Inr scope
    \<and> (\<forall>f \<in> {''deployment_authority'', ''order_authority'', ''action_authority''}. get scope f = Inr (JStr ''NONE''))"
proof -
  have "check_scope registry = Inr []" using assms unfolding check_header_def collect_Nil_all by simp
  then obtain scope where s: "py_get registry ''scope'' (JObj []) = Inr scope"
      "get_is scope ''deployment_authority'' (JStr ''NONE'') = Inr True"
      "get_is scope ''order_authority'' (JStr ''NONE'') = Inr True"
      "get_is scope ''action_authority'' (JStr ''NONE'') = Inr True"
    unfolding check_scope_def rbind_eq_Inr collect_Nil_all by (auto simp: expect_Nil split: if_splits)
  then show ?thesis by (auto simp: get_is_def rmap_eq_Inr)
qed


section \<open>Hashes bind the content\<close>

lemma wf_without_key: "wf_json v \<Longrightarrow> wf_json (without_key k v)"
  by (cases v) (auto simp: fdel_def wf_fields_iff intro: distinct_map_filter)

lemma canonical_json_binds:
  assumes "wf_json u" "wf_json v" "sha256_json sha u = sha256_json sha v"
  shows "sort_json u = sort_json v \<or> canonical_json u \<noteq> canonical_json v \<and> sha (canonical_json u) = sha (canonical_json v)"
  using canon.digest_binds [of "sort_json u" "sort_json v" sha] assms
  by (simp add: sha256_json_def canonical_json_def wf_sort_json)


section \<open>Inputs on which the validation raises\<close>

lemma rfilter_raises: "x \<in> set xs \<Longrightarrow> p x = Inl e \<Longrightarrow> \<exists>e'. rfilter p xs = Inl e'"
proof (induction xs)
  case (Cons y ys)
  then show ?case by (cases "p y") auto
qed simp

lemma check_header_raises: "check_bindings E registry = Inl e \<Longrightarrow> \<exists>e'. validate_registry E registry = Inl e'"
proof -
  assume "check_bindings E registry = Inl e"
  then have "\<exists>e'. check_header E registry = Inl e'"
    unfolding check_header_def by (intro collect_raises [of e]) simp
  then show ?thesis by (auto simp: validate_registry_def)
qed

lemma get_is_not_dict: "\<not> is_dict v \<Longrightarrow> get_is v k x = Inl AttributeError"
  by (cases v) (auto simp: get_is_def)

lemma binding_not_dict_raises:
  assumes "get registry ''source_bindings'' = Inr (JList bindings)" "b \<in> set bindings" "\<not> is_dict b"
  shows "\<exists>e. validate_registry E registry = Inl e"
proof -
  obtain e where "rfilter (\<lambda>b. get_is b ''role'' (JStr ''ATOMIC_DIRECTION_AUTHORITY'')) bindings = Inl e"
    using rfilter_raises [of b bindings "\<lambda>b. get_is b ''role'' (JStr ''ATOMIC_DIRECTION_AUTHORITY'')" AttributeError]
      get_is_not_dict [OF assms(3)] assms(2) by blast
  then have "\<exists>e'. check_bindings E registry = Inl e'"
    unfolding check_bindings_def assms(1) rbind_simps json.case by (intro collect_raises [of e]) simp
  then show ?thesis using check_header_raises by blast
qed

lemma index_by_id_raises: "c \<in> set cs \<Longrightarrow> \<not> is_dict c \<Longrightarrow> \<exists>e. index_by_id cs = Inl e"
proof (induction cs)
  case (Cons d cs)
  have n: "\<exists>e. py_index2 c ''identity'' ''experiment_id'' = Inl e"
    using Cons.prems(2) by (cases c) (auto simp: py_index2_def)
  show ?case
  proof (cases "d = c")
    case True
    then show ?thesis using n by auto
  next
    case False
    then obtain e where "index_by_id cs = Inl e" using Cons by auto
    then show ?thesis by (cases "py_index2 d ''identity'' ''experiment_id''") auto
  qed
qed simp

lemma card_not_dict_raises:
  assumes "get registry ''experiments'' = Inr (JList cards)" "c \<in> set cards" "\<not> is_dict c"
  shows "\<exists>e. validate_registry E registry = Inl e"
proof -
  obtain e where "check_special cards = Inl e"
    using index_by_id_raises [OF assms(2,3)] by (auto simp: check_special_def)
  then have "\<exists>e'. check_experiments E registry cards = Inl e'"
    unfolding check_experiments_def by (intro collect_raises [of e]) simp
  then show ?thesis
    by (cases "check_header E registry") (auto simp: validate_registry_def assms(1))
qed

text \<open>A source path outside the root is reported and its file is not opened by this check.\<close>

lemma relative_to_root_iff: "relative_to_root E q \<longleftrightarrow> (\<exists>rest. q = root E @ rest)"
  unfolding relative_to_root_def by (metis append_eq_conv_conj append_take_drop_id)

lemma escaping_binding:
  assumes "is_dict b" "py_get b ''role'' (JStr ''<missing>'') = Inr role" "get b ''path'' = Inr (JStr p)"
    "resolve E p = Inr q" "\<nexists>rest. q = root E @ rest"
  shows "check_binding (E\<lparr>files := fs, sha256 := h\<rparr>) b = Inr [py_str role @ '': source path escapes repository root'']"
proof -
  let ?E = "E\<lparr>files := fs, sha256 := h\<rparr>"
  have "resolve ?E p = Inr q" using assms(4) by (simp add: resolve_def split: if_splits)
  moreover have "\<not> relative_to_root ?E q" using assms(5) by (simp add: relative_to_root_iff)
  ultimately show ?thesis using assms(1-3) by (simp add: check_binding_def)
qed

text \<open>What the check of one binding reports, the validation reports, if it returns.\<close>

lemma binding_error_reported:
  assumes "get registry ''source_bindings'' = Inr (JList bs)" "b \<in> set bs" "check_binding E b = Inr es"
    "validate_registry E registry = Inr errs"
  shows "set es \<subseteq> set errs"
proof -
  obtain hs where h: "check_header E registry = Inr hs" "set hs \<subseteq> set errs"
  proof -
    obtain hs where "check_header E registry = Inr hs"
      using assms(4) by (auto simp: validate_registry_def rbind_eq_Inr)
    then show thesis using that collect_member [OF assms(4) [unfolded validate_registry_def], of hs] by simp
  qed
  obtain cs where c: "check_bindings E registry = Inr cs"
    using h(1) by (auto simp: check_header_def rbind_eq_Inr rmap_eq_Inr)
  then have "set cs \<subseteq> set hs" using collect_member [OF h(1) [unfolded check_header_def], of cs] by simp
  moreover obtain ds where d: "collect (map (check_binding E) bs) = Inr ds" "set ds \<subseteq> set cs"
  proof -
    obtain ds where "collect (map (check_binding E) bs) = Inr ds"
      using c assms(1) by (auto simp: check_bindings_def rbind_eq_Inr rmap_eq_Inr)
    then show thesis using that c collect_member [of _ cs ds] unfolding check_bindings_def assms(1) rbind_simps json.case by simp
  qed
  moreover have "set es \<subseteq> set ds"
    by (rule collect_member [OF d(1)]) (use assms(2,3) in force)
  ultimately show ?thesis using h(2) by blast
qed


section \<open>Facts on generated values that the properties use\<close>

lemma register_all_Inl: "fold (\<lambda>call seeds. rbind seeds (register call)) calls (Inl e) = Inl e"
  by (induction calls) simp_all

lemma register_all_iff:
  assumes "distinct (map fst seeds)"
  shows "fold (\<lambda>call seeds. rbind seeds (register call)) calls (Inr seeds) = Inr out \<longleftrightarrow>
    distinct (map fst seeds @ map fst calls) \<and> out = seeds @ map (\<lambda>(i, kw). (i, seed_of kw)) calls"
  using assms
proof (induction calls arbitrary: seeds)
  case (Cons call calls)
  obtain i kw where c: "call = (i, kw)" by fastforce
  show ?case
  proof (cases "i \<in> set (map fst seeds)")
    case True
    then obtain e where "register call seeds = Inl e" by (simp add: c register_def)
    then show ?thesis using True by (auto simp: c register_all_Inl)
  next
    case False
    then have "register call seeds = Inr (seeds @ [(i, seed_of kw)])" by (simp add: c register_eq)
    then show ?thesis using Cons.IH [of "seeds @ [(i, seed_of kw)]"] Cons.prems False by (auto simp: c)
  qed
qed auto

text \<open>A card of any admissible seed passes the checks of the validation.\<close>

lemma admissible_card:
  assumes "seed_admissible s" "seed_texts_ok s" "take 1 i \<in> set (map fst FAMILY_NAMES)" "i \<noteq> []" "map_of seeds i = Some s"
  obtains c where "build_card (sha256 E) i s = Inr c" "wf_json c"
    "\<And>counted. check_item E seeds c counted = Inr (bump (JStr (take 1 i)) counted, [])"
proof -
  obtain c where c: "build_card (sha256 E) i s = Inr c" using build_card_total [OF assms(1,3,4)] by blast
  obtain p gaps identity result where b: "built (sha256 E) i s p gaps identity result c" using builtI [OF assms(1,2) c] .
  have "wf_json c" using tidy_build_card [OF c] by (simp add: tidy_def)
  then show thesis using that c check_item_built [OF b assms(5)] by blast
qed

text \<open>What a built card says of its classification and its blockers.\<close>

lemma card_says:
  assumes "build_card sha i s = Inr c"
  obtains p where "derive_parts i s = Inr p" "py_index c ''blockers'' = Inr (jstrs (part_blockers p))"
    "py_index c ''classification'' = Inr (dict_of (classification_fields (card_class s p)))"
proof -
  obtain p gaps identity result where p: "derive_parts i s = Inr p"
    and c: "c = dict_of (card_body i s p identity result gaps @
          [(''definition_sha256'', JStr (sha256_json sha (dict_of (card_body i s p identity result gaps))))])"
    using assms by (auto simp: build_card_Inr)
  have "keys_distinct (card_body i s p identity result gaps @ [(''definition_sha256'', v)])" for v
    by (simp add: card_body_keys)
  then show thesis using that [OF p] unfolding c by (simp add: py_index_dict_of card_body_def)
qed

lemma gaps_total: "set bs \<subseteq> set CRITICAL_BLOCKERS \<Longrightarrow> \<exists>gaps. traverse (gap_contract i) bs = Inr gaps"
  using traverse_all_Inr [of bs "gap_contract i" "\<lambda>b. projr (gap_contract i b)"] gap_contract_total
  by (metis in_mono sum.sel(2))

lemma gap_contract_index:
  "gap_contract i b = Inr g \<Longrightarrow> py_index g ''blocker'' = Inr (JStr b)
     \<and> py_index g ''unknown_value_policy'' = Inr (JStr ''BLOCK_NOT_ZERO'')"
  by (auto simp: gap_contract_def Let_def py_index_dict_of split: option.splits prod.splits)

lemma generated_summary_facts:
  "\<exists>r cards smry. build_registry sha = Inr r \<and> py_index r ''experiments'' = Inr (JList cards)
     \<and> summary_for_cards cards = Inr smry \<and> py_index r ''summary'' = Inr (summary_json smry)
     \<and> total_cards smry = 106 \<and> length cards = 106 \<and> eligible_now smry = (0, 0)"
proof -
  obtain cards smry where c: "cards_for sha card_seed_items ATOMIC_IDS cards" "summary_for_cards cards = Inr smry"
      "summary_eq (summary_json smry) smry" "eligible_now smry = (0, 0)" "total_cards smry = 106" "tidy (summary_json smry)" and
    r: "build_registry sha = Inr (dict_of (registry_body cards smry @
       [(''registry_sha256'', JStr (sha256_json sha (dict_of (registry_body cards smry))))]))"
    using build_registry_eq .
  let ?r = "dict_of (registry_body cards smry @ [(''registry_sha256'', JStr (sha256_json sha (dict_of (registry_body cards smry))))])"
  have "py_index ?r ''experiments'' = Inr (JList cards)" "py_index ?r ''summary'' = Inr (summary_json smry)"
    by (simp_all add: py_index_dict_of registry_body_keys) (simp_all add: registry_body_def)
  moreover have "length cards = 106"
    using list_all2_lengthD [OF c(1) [unfolded cards_for_def]] items_length arg_cong [OF items_keys_atomic, of length] by simp
  ultimately show ?thesis using r c(2,4,5) by blast
qed

end
