(* ===== verification/JsValue.thy ===== *)
theory JsValue
  imports PyText
begin

text \<open>
  The values and operations of JavaScript that the page of the console uses (\<^verbatim>\<open>INDEX_HTML\<close> of
  \<^verbatim>\<open>dashboard_server.py\<close>): truth and nullish tests, conversion to text and to numbers, lower case,
  \<^verbatim>\<open>toFixed\<close>, property assignment, \<^verbatim>\<open>JSON.parse\<close> and \<^verbatim>\<open>JSON.stringify\<close>, and the escaping of
  text for HTML with the proof that it can be undone and cannot leave its place.

  A value comes from \<^verbatim>\<open>JSON.parse\<close> or is \<^verbatim>\<open>undefined\<close>.  A number is an exact decimal, \<open>(m, e)\<close> for
  \<open>m / 10 ^ e\<close>, or not a number.  An exception is the left value of a sum; the page only raises
  \<^verbatim>\<open>TypeError\<close>, and \<^verbatim>\<open>JSON.parse\<close> the error of a text that is no JSON.
\<close>


section \<open>Truth, and properties\<close>

text \<open>\<open>None\<close> is \<^verbatim>\<open>undefined\<close>.\<close>

type_synonym js = "json option"

type_synonym jnum = "int \<times> nat"

abbreviation cat :: "string res list \<Rightarrow> string res" where
  "cat \<equiv> collect"

fun truthy_json :: "json \<Rightarrow> bool" where
  "truthy_json JNull = False"
| "truthy_json (JBool b) = b"
| "truthy_json (JInt i) = (i \<noteq> 0)"
| "truthy_json (JDec m e) = (m \<noteq> 0)"
| "truthy_json (JStr s) = (s \<noteq> [])"
| "truthy_json (JList xs) = True"
| "truthy_json (JObj fs) = True"

definition js_true :: "js \<Rightarrow> bool" where
  "js_true v = (case v of None \<Rightarrow> False | Some w \<Rightarrow> truthy_json w)"

text \<open>\<^verbatim>\<open>v == null\<close>, \<^verbatim>\<open>v || w\<close> and \<^verbatim>\<open>v ?? w\<close>.\<close>

definition nullish :: "js \<Rightarrow> bool" where
  "nullish v \<longleftrightarrow> v = None \<or> v = Some JNull"

definition js_or :: "js \<Rightarrow> js \<Rightarrow> js" where
  "js_or v w = (if js_true v then v else w)"

definition js_coalesce :: "js \<Rightarrow> js \<Rightarrow> js" where
  "js_coalesce v w = (if nullish v then w else v)"

text \<open>A property of a parsed value, and of a value that may be nullish.\<close>

fun field :: "json \<Rightarrow> string \<Rightarrow> js" where
  "field (JObj fs) k = map_of fs k"
| "field _ k = None"

definition get_prop :: "js \<Rightarrow> string \<Rightarrow> js res" where
  "get_prop v k = (if nullish v then Inl TypeError else Inr (field (the v) k))"

text \<open>
  An object the page assigns to: its own properties and those it inherits, if it has a prototype.
  Assigning \<^verbatim>\<open>__proto__\<close> changes the prototype as long as the accessor of that name is in reach.
\<close>

type_synonym jsobj = "fields \<times> fields option"

definition empty_obj :: jsobj where
  "empty_obj = ([], Some [])"

fun proto_accessor :: "jsobj \<Rightarrow> bool" where
  "proto_accessor (own, inh) \<longleftrightarrow> map_of own ''__proto__'' = None \<and>
     (case inh of None \<Rightarrow> False | Some fs \<Rightarrow> map_of fs ''__proto__'' = None)"

fun obj_put :: "string \<Rightarrow> json \<Rightarrow> jsobj \<Rightarrow> jsobj" where
  "obj_put k v (own, inh) =
     (if k = ''__proto__'' \<and> proto_accessor (own, inh)
      then (case v of JObj fs \<Rightarrow> (own, Some fs) | JList _ \<Rightarrow> (own, Some []) | JNull \<Rightarrow> (own, None) | _ \<Rightarrow> (own, inh))
      else (fput k v own, inh))"

fun obj_get :: "jsobj \<Rightarrow> string \<Rightarrow> js" where
  "obj_get (own, inh) k =
     (case map_of own k of Some v \<Rightarrow> Some v | None \<Rightarrow> (case inh of None \<Rightarrow> None | Some fs \<Rightarrow> map_of fs k))"

text \<open>\<^verbatim>\<open>Object.assign(x, o)\<close>.\<close>

definition obj_assign :: "fields \<Rightarrow> jsobj \<Rightarrow> jsobj" where
  "obj_assign fs x = fold (\<lambda>(k, v). obj_put k v) fs x"

text \<open>Every object inherits these names, so that a table written as an object also answers to them.\<close>

definition object_names :: "string list" where
  "object_names = [''constructor'', ''__defineGetter__'', ''__defineSetter__'', ''hasOwnProperty'',
     ''__lookupGetter__'', ''__lookupSetter__'', ''isPrototypeOf'', ''propertyIsEnumerable'', ''toString'',
     ''valueOf'', ''toLocaleString'']"


section \<open>Numbers\<close>

fun jless :: "jnum \<Rightarrow> jnum \<Rightarrow> bool" where
  "jless (m, e) (m', e') = (m * 10 ^ e' < m' * 10 ^ e)"

fun jsub :: "jnum \<Rightarrow> jnum \<Rightarrow> jnum" where
  "jsub (m, e) (m', e') = (m * 10 ^ e' - m' * 10 ^ e, e + e')"

fun strip_zeros :: "nat \<Rightarrow> nat \<Rightarrow> nat \<times> nat" where
  "strip_zeros m 0 = (m, 0)"
| "strip_zeros m (Suc e) = (if m mod 10 = 0 then strip_zeros (m div 10) e else (m, Suc e))"

text \<open>The text of a number, with an exponent from \<open>10\<^sup>2\<^sup>1\<close> on and below \<open>10\<^sup>-\<^sup>6\<close>.\<close>

fun num_str :: "jnum \<Rightarrow> string" where
  "num_str (m, e) =
     (if m = 0 then ''0''
      else let (m', e') = strip_zeros (nat \<bar>m\<bar>) e; ds = str_of_nat m'; n = int (length ds) - int e';
        digits = (if e' = 0 \<and> n \<le> 21 then ds
          else if 0 < n \<and> n \<le> 21 then take (nat n) ds @ ''.'' @ drop (nat n) ds
          else if - 6 < n \<and> n \<le> 0 then ''0.'' @ replicate (nat (- n)) (CHR ''0'') @ ds
          else let xs = rev (dropWhile (\<lambda>c. c = CHR ''0'') (rev ds))
            in take 1 xs @ (if tl xs = [] then [] else ''.'' @ tl xs) @ ''e'' @
               (if n < 1 then ''-'' else ''+'') @ str_of_nat (nat \<bar>n - 1\<bar>))
      in (if m < 0 then ''-'' else []) @ digits)"

text \<open>\<open>(a / b).toFixed(f)\<close> for a positive \<open>b\<close>: ties go away from zero.\<close>

definition pad_start :: "nat \<Rightarrow> string \<Rightarrow> string" where
  "pad_start n s = replicate (n - length s) (CHR ''0'') @ s"

definition to_fixed :: "int \<Rightarrow> int \<Rightarrow> nat \<Rightarrow> string" where
  "to_fixed a b f =
     (let n = (2 * \<bar>a\<bar> * 10 ^ f + b) div (2 * b); ds = pad_start (Suc f) (str_of_nat (nat n)); k = length ds - f
      in (if a < 0 then ''-'' else []) @ take k ds @ (if f = 0 then [] else ''.'' @ drop k ds))"

text \<open>\<^verbatim>\<open>Math.round(v * 10 ** d)\<close>.\<close>

fun round_at :: "nat \<Rightarrow> jnum \<Rightarrow> int" where
  "round_at d (m, e) = (2 * m * 10 ^ d + 10 ^ e) div (2 * 10 ^ e)"

text \<open>\<^verbatim>\<open>v % n\<close> has the sign of \<^verbatim>\<open>v\<close>.\<close>

fun remainder :: "jnum \<Rightarrow> int \<Rightarrow> jnum" where
  "remainder (m, e) n = ((if m < 0 then - 1 else 1) * (\<bar>m\<bar> mod (n * 10 ^ e)), e)"


section \<open>Text\<close>

text \<open>
  \<^verbatim>\<open>String(v)\<close>.  An object that has a property \<^verbatim>\<open>toString\<close> of its own cannot be converted, since
  what JSON gives is never a function.
\<close>

fun json_str :: "json \<Rightarrow> string res"
  and json_join :: "json list \<Rightarrow> string res"
where
  "json_str JNull = Inr ''null''"
| "json_str (JBool b) = Inr (if b then ''true'' else ''false'')"
| "json_str (JInt i) = Inr (num_str (i, 0))"
| "json_str (JDec m e) = Inr (num_str (m, e))"
| "json_str (JStr s) = Inr s"
| "json_str (JList xs) = json_join xs"
| "json_str (JObj fs) = (if map_of fs ''toString'' = None then Inr ''[object Object]'' else Inl TypeError)"
| "json_join [] = Inr []"
| "json_join (x # xs) = rbind (if x = JNull then Inr [] else json_str x) (\<lambda>s.
     if xs = [] then Inr s else rmap (\<lambda>t. s @ '','' @ t) (json_join xs))"

definition js_str :: "js \<Rightarrow> string res" where
  "js_str v = (case v of None \<Rightarrow> Inr ''undefined'' | Some w \<Rightarrow> json_str w)"

text \<open>The length of the white space at the head of a text.\<close>

definition js_space_len :: "string \<Rightarrow> nat" where
  "js_space_len s = (case s of
     c # d # e # _ \<Rightarrow>
       if is_space c then 1
       else if [c, d] = [CHR 0xC2, CHR 0xA0] then 2
       else if [c, d, e] \<in> {[CHR 0xE1, CHR 0x9A, CHR 0x80], [CHR 0xE2, CHR 0x80, CHR 0xA8], [CHR 0xE2, CHR 0x80, CHR 0xA9],
           [CHR 0xE2, CHR 0x80, CHR 0xAF], [CHR 0xE2, CHR 0x81, CHR 0x9F], [CHR 0xE3, CHR 0x80, CHR 0x80], [CHR 0xEF, CHR 0xBB, CHR 0xBF]}
         \<or> [c, d] = [CHR 0xE2, CHR 0x80] \<and> CHR 0x80 \<le> e \<and> e \<le> CHR 0x8A then 3
       else 0
   | [c, d] \<Rightarrow> if is_space c then 1 else if [c, d] = [CHR 0xC2, CHR 0xA0] then 2 else 0
   | [c] \<Rightarrow> if is_space c then 1 else 0
   | [] \<Rightarrow> 0)"

function js_skip :: "string \<Rightarrow> string" where
  "js_skip s = (if js_space_len s = 0 then s else js_skip (drop (js_space_len s) s))"
  by pat_completeness auto

termination js_skip
proof (relation "measure length")
  show "(drop (js_space_len s) s, s) \<in> measure length" if "js_space_len s \<noteq> 0" for s
    using that by (cases s) (auto simp: js_space_len_def)
qed simp

declare js_skip.simps [simp del]

text \<open>\<^verbatim>\<open>Number(s)\<close> for a text: \<open>None\<close> when it is not a number.  The text \<^verbatim>\<open>Infinity\<close> is not covered.\<close>

definition radix_literal :: "string \<Rightarrow> (nat \<times> string) option" where
  "radix_literal s = (case s of
     z # x # ds \<Rightarrow>
       if z \<noteq> CHR ''0'' then None
       else if x \<in> {CHR ''x'', CHR ''X''} then Some (16, ds)
       else if x \<in> {CHR ''o'', CHR ''O''} then Some (8, ds)
       else if x \<in> {CHR ''b'', CHR ''B''} then Some (2, ds)
       else None
   | _ \<Rightarrow> None)"

fun radix_value :: "nat \<Rightarrow> nat \<Rightarrow> string \<Rightarrow> nat option" where
  "radix_value b n [] = Some n"
| "radix_value b n (c # cs) =
     (case hex_val c of None \<Rightarrow> None | Some d \<Rightarrow> if d < b then radix_value b (b * n + d) cs else None)"

definition dec_literal :: "string \<Rightarrow> (jnum \<times> string) option" where
  "dec_literal s =
     (let t = (if s \<noteq> [] \<and> hd s \<in> {CHR ''+'', CHR ''-''} then tl s else s);
          ip = takeWhile is_digit t; r = dropWhile is_digit t;
          (fp, r2) = (case r of [] \<Rightarrow> ([], r) | c # cs \<Rightarrow>
            if c = CHR ''.'' then (takeWhile is_digit cs, dropWhile is_digit cs) else ([], r));
          (k, rest) = (case pexp r2 of None \<Rightarrow> (0, r2) | Some x \<Rightarrow> x);
          a = (if minus_sign s then - 1 else 1) * int (nat_of_str (ip @ fp)); e = int (length fp) - k
      in if ip @ fp = [] then None
         else Some (if 0 \<le> e then (a, nat e) else (a * 10 ^ nat (- e), 0), rest))"

definition str_number :: "string \<Rightarrow> jnum option" where
  "str_number text =
     (let s = js_skip text
      in if s = [] then Some (0, 0)
         else case radix_literal s of
           Some (b, ds) \<Rightarrow>
             (let xs = takeWhile (\<lambda>c. hex_val c \<noteq> None) ds
              in if xs = [] \<or> js_skip (drop (length xs) ds) \<noteq> [] then None
                 else map_option (\<lambda>n. (int n, 0)) (radix_value b 0 xs))
         | None \<Rightarrow> (case dec_literal s of None \<Rightarrow> None | Some (x, rest) \<Rightarrow> if js_skip rest = [] then Some x else None))"

fun json_number :: "json \<Rightarrow> jnum option res" where
  "json_number JNull = Inr (Some (0, 0))"
| "json_number (JBool b) = Inr (Some (of_bool b, 0))"
| "json_number (JInt i) = Inr (Some (i, 0))"
| "json_number (JDec m e) = Inr (Some (m, e))"
| "json_number v = rmap str_number (json_str v)"

definition js_number :: "js \<Rightarrow> jnum option res" where
  "js_number v = (case v of None \<Rightarrow> Inr None | Some w \<Rightarrow> json_number w)"

text \<open>\<^verbatim>\<open>v > n\<close>, \<^verbatim>\<open>v < n\<close> and \<^verbatim>\<open>v >= n\<close> for a number \<open>n\<close> of the source.\<close>

definition js_greater :: "js \<Rightarrow> int \<Rightarrow> bool res" where
  "js_greater v n = rmap (\<lambda>x. case x of None \<Rightarrow> False | Some y \<Rightarrow> jless (n, 0) y) (js_number v)"

definition js_less :: "js \<Rightarrow> int \<Rightarrow> bool res" where
  "js_less v n = rmap (\<lambda>x. case x of None \<Rightarrow> False | Some y \<Rightarrow> jless y (n, 0)) (js_number v)"

definition js_at_least :: "js \<Rightarrow> int \<Rightarrow> bool res" where
  "js_at_least v n = rmap (\<lambda>x. case x of None \<Rightarrow> False | Some y \<Rightarrow> \<not> jless y (n, 0)) (js_number v)"

text \<open>\<^verbatim>\<open>n - v\<close>: \<open>None\<close> is not a number.\<close>

definition js_minus :: "int \<Rightarrow> js \<Rightarrow> jnum option res" where
  "js_minus n v = rmap (map_option (jsub (n, 0))) (js_number v)"

text \<open>
  \<^verbatim>\<open>s.toLowerCase()\<close>, as far as a search for ASCII text can see: the letters of ASCII and the two
  other characters whose lower case has a letter of ASCII.
\<close>

definition lower_char :: "char \<Rightarrow> char" where
  "lower_char c = (if CHR ''A'' \<le> c \<and> c \<le> CHR ''Z'' then char_of (of_char c + 32 :: nat) else c)"

fun lower :: "string \<Rightarrow> string" where
  "lower [] = []"
| "lower (c # cs) =
     (if starts_with (c # cs) [CHR 0xE2, CHR 0x84, CHR 0xAA] then CHR ''k'' # lower (drop 2 cs)
      else if starts_with (c # cs) [CHR 0xC4, CHR 0xB0] then [CHR ''i'', CHR 0xCC, CHR 0x87] @ lower (drop 1 cs)
      else lower_char c # lower cs)"

text \<open>\<^verbatim>\<open>v.toLowerCase()\<close>: only a text has the method.\<close>

definition to_lower :: "js \<Rightarrow> string res" where
  "to_lower v = (case v of Some (JStr s) \<Rightarrow> Inr (lower s) | _ \<Rightarrow> Inl TypeError)"

text \<open>\<^verbatim>\<open>s.slice(0, n)\<close> counts units of UTF-16: a character of four bytes has two.\<close>

fun slice_to :: "nat \<Rightarrow> string \<Rightarrow> string" where
  "slice_to n [] = []"
| "slice_to n (c # cs) =
     (let b = of_char c :: nat; len = (if b < 0xC0 then 1 else if b < 0xE0 then 2 else if b < 0xF0 then 3 else 4);
          units = (if len = 4 then 2 else 1)
      in if n < units then [] else take len (c # cs) @ slice_to (n - units) (drop (len - 1) cs))"


section \<open>JSON\<close>

text \<open>\<^verbatim>\<open>JSON.parse\<close> keeps the order of keys but puts array indices first.\<close>

definition is_index :: "string \<Rightarrow> bool" where
  "is_index k \<longleftrightarrow> k \<noteq> [] \<and> list_all is_digit k \<and> (hd k = CHR ''0'' \<longrightarrow> k = ''0'') \<and> nat_of_str k < 4294967295"

definition index_first :: "(string \<times> 'v) list \<Rightarrow> (string \<times> 'v) list" where
  "index_first fs = sort_key (\<lambda>(k, _). nat_of_str k) (filter (\<lambda>(k, _). is_index k) fs) @ filter (\<lambda>(k, _). \<not> is_index k) fs"

fun js_value :: "json \<Rightarrow> json"
  and js_values :: "json list \<Rightarrow> json list"
  and js_items :: "fields \<Rightarrow> fields"
where
  "js_value (JList xs) = JList (js_values xs)"
| "js_value (JObj fs) = JObj (index_first (js_items fs))"
| "js_value v = v"
| "js_values [] = []"
| "js_values (x # xs) = js_value x # js_values xs"
| "js_items [] = []"
| "js_items ((k, v) # fs) = (k, js_value v) # js_items fs"

definition js_parse :: "string \<Rightarrow> json res" where
  "js_parse s = rmap js_value (loads s)"

text \<open>\<^verbatim>\<open>JSON.stringify\<close>, without and with indentation.\<close>

fun stringify :: "layout \<Rightarrow> nat \<Rightarrow> json \<Rightarrow> string"
  and stringify_items :: "layout \<Rightarrow> nat \<Rightarrow> json list \<Rightarrow> string"
  and stringify_fields :: "layout \<Rightarrow> nat \<Rightarrow> fields \<Rightarrow> string"
where
  "stringify L d JNull = ''null''"
| "stringify L d (JBool b) = (if b then ''true'' else ''false'')"
| "stringify L d (JInt i) = num_str (i, 0)"
| "stringify L d (JDec m e) = num_str (m, e)"
| "stringify L d (JStr s) = enc_str s"
| "stringify L d (JList xs) = (if xs = [] then ''[]''
     else ''['' @ newline L (Suc d) @ stringify_items L (Suc d) xs @ newline L d @ '']'')"
| "stringify L d (JObj fs) = (if fs = [] then ''{}''
     else ''{'' @ newline L (Suc d) @ stringify_fields L (Suc d) fs @ newline L d @ ''}'')"
| "stringify_items L d [] = []"
| "stringify_items L d (x # xs) =
     stringify L d x @ (if xs = [] then [] else item_sep L @ newline L d @ stringify_items L d xs)"
| "stringify_fields L d [] = []"
| "stringify_fields L d ((k, v) # fs) =
     enc_str k @ key_sep L @ stringify L d v @ (if fs = [] then [] else item_sep L @ newline L d @ stringify_fields L d fs)"


section \<open>HTML\<close>

definition esc_char :: "char \<Rightarrow> string" where
  "esc_char c =
     (if c = CHR ''&'' then ''&amp;'' else if c = CHR ''<'' then ''&lt;''
      else if c = CHR ''>'' then ''&gt;'' else if c = CHR 0x22 then ''&quot;'' else [c])"

definition escape :: "string \<Rightarrow> string" where
  "escape s = concat (map esc_char s)"

definition esc :: "js \<Rightarrow> string res" where
  "esc v = (if nullish v then Inr [] else rmap escape (js_str v))"


text \<open>What a browser makes of the four references in text.\<close>

fun html_text :: "string \<Rightarrow> string" where
  "html_text [] = []"
| "html_text (c # cs) =
     (if starts_with (c # cs) ''&amp;'' then CHR ''&'' # html_text (drop 4 cs)
      else if starts_with (c # cs) ''&lt;'' then CHR ''<'' # html_text (drop 3 cs)
      else if starts_with (c # cs) ''&gt;'' then CHR ''>'' # html_text (drop 3 cs)
      else if starts_with (c # cs) ''&quot;'' then CHR 0x22 # html_text (drop 5 cs)
      else c # html_text cs)"

lemma html_text_escape: "html_text (escape s) = s"
  by (induction s) (simp_all add: escape_def esc_char_def)

lemma escape_no_markup: "c \<in> {CHR ''<'', CHR ''>'', CHR 0x22} \<Longrightarrow> c \<notin> set (escape s)"
  by (auto simp: escape_def esc_char_def split: if_splits)

lemma esc_no_markup: "esc v = Inr s \<Longrightarrow> c \<in> {CHR ''<'', CHR ''>'', CHR 0x22} \<Longrightarrow> c \<notin> set s"
  using escape_no_markup by (auto simp: esc_def rmap_def rbind_def split: if_splits sum.splits)

end
