(* ===== verification/LogTail.thy ===== *)
theory LogTail
  imports PyText
begin

text \<open>
  The file tail of the operations console (\<^verbatim>\<open>dashboard_server.py\<close>): \<^verbatim>\<open>tail_lines\<close>, which reads the end of
  the metrics file backwards in blocks, and \<^verbatim>\<open>stream_new_lines\<close>, the generator that follows it.

  The file belongs to another process and changes between two system calls.  A read is therefore a
  function of position and length that may fail; the generator's turns are the steps of a transition
  system in which the writer's appends are steps too.
\<close>


section \<open>The last lines of a file\<close>

text \<open>\<^verbatim>\<open>os.path.getsize\<close>, -1 if the file cannot be asked.\<close>

definition file_size :: "string option \<Rightarrow> int" where
  "file_size f = (case f of None \<Rightarrow> -1 | Some content \<Rightarrow> int (length content))"

text \<open>\<^verbatim>\<open>f.seek(pos); f.read(n)\<close> on an opened file; \<open>None\<close> is an \<^verbatim>\<open>OSError\<close>.\<close>

type_synonym reads = "nat \<Rightarrow> nat \<Rightarrow> string option"

definition reads_of :: "string \<Rightarrow> reads" where
  "reads_of content pos n = Some (take n (drop pos content))"

function tail_loop :: "reads \<Rightarrow> nat \<Rightarrow> nat \<Rightarrow> string \<Rightarrow> string option" where
  "tail_loop rd n pos data =
     (if 0 < pos \<and> count_list data NL \<le> n then
        (let len = min 65536 pos
         in case rd (pos - len) len of
              None \<Rightarrow> None
            | Some chunk \<Rightarrow> tail_loop rd n (pos - len) (chunk @ data))
      else Some data)"
  by pat_completeness auto

termination tail_loop
  by (relation "measure (\<lambda>(rd, n, pos, data). pos)") auto

declare tail_loop.simps [simp del]

text \<open>\<^verbatim>\<open>[ln for ln in data.split(b"\n") if ln.strip()]\<close> and \<^verbatim>\<open>xs[-n:]\<close> for positive \<^verbatim>\<open>n\<close>.\<close>

definition lines_of :: "string \<Rightarrow> string list" where
  "lines_of data = filter nonblank (split_on NL data)"

definition last_n :: "nat \<Rightarrow> 'a list \<Rightarrow> 'a list" where
  "last_n n xs = drop (length xs - n) xs"

definition tail_lines :: "int \<Rightarrow> reads \<Rightarrow> int \<Rightarrow> string list \<times> int" where
  "tail_lines sz rd n =
     (if sz \<le> 0 \<or> n \<le> 0 then ([], max sz 0)
      else case tail_loop rd (nat n) (nat sz) [] of
        None \<Rightarrow> ([], max sz 0)
      | Some data \<Rightarrow> (map decode_replace (last_n (nat n) (lines_of data)), sz))"


section \<open>Following the file\<close>

record stream =
  read_to :: nat
  pending :: string

datatype emission = Tick | Line string | Pause nat

text \<open>The part of a text up to its last newline, and what follows it (\<^verbatim>\<open>rfind\<close> and two slices).\<close>

definition complete_of :: "string \<Rightarrow> string" where
  "complete_of s = rev (dropWhile (\<lambda>c. c \<noteq> NL) (rev s))"

definition rest_of :: "string \<Rightarrow> string" where
  "rest_of s = rev (takeWhile (\<lambda>c. c \<noteq> NL) (rev s))"

text \<open>
  One turn of the loop of \<^verbatim>\<open>stream_new_lines\<close>: the state after it, and what it yields.  A \<open>Tick\<close> is a
  yielded \<^verbatim>\<open>None\<close>, a \<open>Pause\<close> a sleep in milliseconds.
\<close>

definition stream_turn :: "int \<Rightarrow> reads \<Rightarrow> stream \<Rightarrow> stream \<times> emission list" where
  "stream_turn sz rd s =
     (if sz < 0 then (s, [Tick, Pause 250])
      else let s = (if sz < int (read_to s) then \<lparr>read_to = 0, pending = []\<rparr> else s)
        in if sz > int (read_to s) then
             (case rd (read_to s) (nat sz - read_to s) of
                None \<Rightarrow> (s, [Tick, Pause 200])
              | Some chunk \<Rightarrow>
                  (let data = pending s @ chunk
                   in if NL \<in> set data
                      then (\<lparr>read_to = nat sz, pending = rest_of data\<rparr>,
                            map (Line \<circ> decode_replace) (lines_of (complete_of data)))
                      else (\<lparr>read_to = nat sz, pending = data\<rparr>, [Tick])))
           else (s, [Tick, Pause 150]))"

fun sent_lines :: "emission list \<Rightarrow> string list" where
  "sent_lines [] = []"
| "sent_lines (Line l # es) = l # sent_lines es"
| "sent_lines (_ # es) = sent_lines es"

lemma sent_lines_append [simp]: "sent_lines (es @ fs) = sent_lines es @ sent_lines fs"
  by (induction es rule: sent_lines.induct) simp_all

lemma sent_lines_map [simp]: "sent_lines (map (Line \<circ> f) xs) = map f xs"
  by (induction xs) simp_all


section \<open>Lines of joined texts\<close>

lemma complete_rest: "complete_of s @ rest_of s = s"
proof -
  have "complete_of s @ rest_of s = rev (takeWhile (\<lambda>c. c \<noteq> NL) (rev s) @ dropWhile (\<lambda>c. c \<noteq> NL) (rev s))"
    by (simp only: complete_of_def rest_of_def rev_append)
  then show ?thesis by simp
qed

lemma rest_no_newline: "NL \<notin> set (rest_of s)"
  by (auto simp: rest_of_def dest: set_takeWhileD)

definition ends_line :: "string \<Rightarrow> bool" where
  "ends_line s \<longleftrightarrow> s = [] \<or> last s = NL"

lemma complete_ends_line: "ends_line (complete_of s)"
  using hd_dropWhile [of "\<lambda>c. c \<noteq> NL" "rev s"] by (auto simp: complete_of_def ends_line_def last_rev)

lemma ends_lineE: "ends_line s \<Longrightarrow> s \<noteq> [] \<Longrightarrow> \<exists>t. s = t @ [NL]"
  by (metis append_butlast_last_id ends_line_def)

lemma complete_rest_unique:
  assumes "ends_line x" "NL \<notin> set y"
  shows "complete_of (x @ y) = x" "rest_of (x @ y) = y"
proof -
  have "takeWhile (\<lambda>c. c \<noteq> NL) (rev y @ rev x) = rev y \<and> dropWhile (\<lambda>c. c \<noteq> NL) (rev y @ rev x) = rev x"
  proof (cases "x = []")
    case True
    then show ?thesis using assms(2) by (auto simp: takeWhile_eq_all_conv dropWhile_eq_Nil_conv)
  next
    case False
    then obtain t where "x = t @ [NL]" using assms(1) ends_lineE by blast
    moreover have "takeWhile (\<lambda>c. c \<noteq> NL) (rev y @ rev x) = rev y @ takeWhile (\<lambda>c. c \<noteq> NL) (rev x)"
      "dropWhile (\<lambda>c. c \<noteq> NL) (rev y @ rev x) = dropWhile (\<lambda>c. c \<noteq> NL) (rev x)"
      by (rule takeWhile_append2 dropWhile_append2, use assms(2) in auto)+
    ultimately show ?thesis by simp
  qed
  then show "complete_of (x @ y) = x" "rest_of (x @ y) = y" by (simp_all add: complete_of_def rest_of_def)
qed

lemma complete_of_none: "NL \<notin> set s \<Longrightarrow> complete_of s = []" "NL \<notin> set s \<Longrightarrow> rest_of s = s"
  using complete_rest_unique [of "[]" s] by (simp_all add: ends_line_def)

lemma lines_of_Nil [simp]: "lines_of [] = []"
  by (simp add: lines_of_def)

lemma lines_of_append: "ends_line x \<Longrightarrow> lines_of (x @ y) = lines_of x @ lines_of y"
proof (cases "x = []")
  case False
  assume "ends_line x"
  then obtain t where "x = t @ [NL]" using False ends_lineE by blast
  then show ?thesis by (simp add: lines_of_def split_on_append)
qed simp

lemma lines_no_newline: "l \<in> set (lines_of s) \<Longrightarrow> NL \<notin> set l"
  by (auto simp: lines_of_def dest: split_on_no_sep)

lemma ends_line_append: "ends_line x \<Longrightarrow> ends_line y \<Longrightarrow> ends_line (x @ y)"
  by (auto simp: ends_line_def last_append)

text \<open>Taking the complete part of a continued text piece by piece.\<close>

lemma complete_append:
  assumes "ends_line x"
  shows "complete_of (x @ y) = x @ complete_of y" "rest_of (x @ y) = rest_of y"
proof -
  have "x @ y = (x @ complete_of y) @ rest_of y" by (simp add: complete_rest)
  then show "complete_of (x @ y) = x @ complete_of y" "rest_of (x @ y) = rest_of y"
    using complete_rest_unique [OF ends_line_append [OF assms complete_ends_line [of y]] rest_no_newline [of y]]
    by metis+
qed

section \<open>What \<^verbatim>\<open>tail_lines\<close> returns\<close>

lemma split_on_join:
  "split_on c (xs @ ys) = butlast (split_on c xs) @ (last (split_on c xs) @ hd (split_on c ys)) # tl (split_on c ys)"
proof (induction xs)
  case (Cons x xs)
  show ?case
  proof (cases "x = c")
    case False
    obtain p ps where p: "split_on c xs = p # ps" by (cases "split_on c xs") simp_all
    show ?thesis using Cons False by (cases ps) (simp_all add: p)
  qed (use Cons in simp)
qed simp

text \<open>The loop ends with an end of the file that starts at 0 or has enough newlines.\<close>

lemma tail_loop_suffix:
  "pos \<le> length content \<Longrightarrow>
   \<exists>p. tail_loop (reads_of content) n pos (drop pos content) = Some (drop p content)
     \<and> (p = 0 \<or> n < count_list (drop p content) NL)"
proof (induction pos rule: less_induct)
  case (less pos)
  show ?case
  proof (cases "0 < pos \<and> count_list (drop pos content) NL \<le> n")
    case True
    let ?p = "pos - min 65536 pos"
    have lt: "?p < pos" and le: "?p \<le> length content" using True less.prems by auto
    have "take (min 65536 pos) (drop ?p content) @ drop pos content = drop ?p content"
    proof -
      have "drop pos content = drop (min 65536 pos) (drop ?p content)" by simp
      then show ?thesis by (simp only: append_take_drop_id)
    qed
    then have "tail_loop (reads_of content) n pos (drop pos content) = tail_loop (reads_of content) n ?p (drop ?p content)"
      using True by (subst tail_loop.simps) (simp add: reads_of_def Let_def)
    then show ?thesis using less.IH [OF lt le] by simp
  next
    case False
    then have "tail_loop (reads_of content) n pos (drop pos content) = Some (drop pos content)"
      by (subst tail_loop.simps) (simp only: if_False)
    then show ?thesis using False by auto
  qed
qed

lemma last_n_append: "n \<le> length ys \<Longrightarrow> last_n n (xs @ ys) = last_n n ys"
  by (simp add: last_n_def)

text \<open>A file without blank lines; its last line may be incomplete.\<close>

definition no_blank_lines :: "string \<Rightarrow> bool" where
  "no_blank_lines content \<longleftrightarrow> list_all nonblank (butlast (split_on NL content))"

lemma length_filter_butlast: "list_all P (butlast xs) \<Longrightarrow> length xs \<le> Suc (length (filter P xs))"
  by (cases xs rule: rev_cases) (auto simp: list_all_iff)

lemma tail_enough:
  assumes "no_blank_lines content" "n < count_list (drop p content) NL"
  shows "last_n n (lines_of (drop p content)) = last_n n (lines_of content)"
proof -
  let ?ps = "split_on NL (drop p content)"
  have len: "n < length (tl ?ps)" using assms(2) by (simp add: length_split_on)
  then have ne: "tl ?ps \<noteq> []" by (metis list.size(3) not_less_zero)
  have whole: "split_on NL content = butlast (split_on NL (take p content))
      @ (last (split_on NL (take p content)) @ hd ?ps) # tl ?ps"
    using split_on_join [of NL "take p content" "drop p content"] by simp
  have "butlast (split_on NL content) = butlast (split_on NL (take p content))
      @ (last (split_on NL (take p content)) @ hd ?ps) # butlast (tl ?ps)"
    using ne by (simp add: whole butlast_append)
  then have "list_all nonblank (butlast (tl ?ps))" using assms(1) by (simp add: no_blank_lines_def)
  then have "length (tl ?ps) \<le> Suc (length (filter nonblank (tl ?ps)))" by (rule length_filter_butlast)
  then have enough: "n \<le> length (filter nonblank (tl ?ps))" using len by linarith
  have "lines_of (drop p content) = filter nonblank [hd ?ps] @ filter nonblank (tl ?ps)"
    unfolding lines_of_def by (subst split_on_Cons) (simp del: list.collapse)
  moreover have "lines_of content = filter nonblank (butlast (split_on NL (take p content))
      @ [last (split_on NL (take p content)) @ hd ?ps]) @ filter nonblank (tl ?ps)"
    unfolding lines_of_def whole by simp
  ultimately show ?thesis by (simp only: last_n_append [OF enough])
qed

lemma tail_lines_no_blank:
  assumes "no_blank_lines content" "content \<noteq> []" "0 < n"
  shows "tail_lines (int (length content)) (reads_of content) n
    = (map decode_replace (last_n (nat n) (lines_of content)), int (length content))"
proof -
  obtain p where p: "tail_loop (reads_of content) (nat n) (length content) [] = Some (drop p content)"
      "p = 0 \<or> nat n < count_list (drop p content) NL"
    using tail_loop_suffix [of "length content" content "nat n"] by auto
  have "last_n (nat n) (lines_of (drop p content)) = last_n (nat n) (lines_of content)"
    using p(2) tail_enough [OF assms(1)] by auto
  then show ?thesis using assms(2,3) p(1) by (simp add: tail_lines_def)
qed

section \<open>The writer and the reader\<close>

text \<open>
  The log, the reader and everything the reader has yielded.  The writer only appends.  In a turn the
  size is asked first and the file read afterwards, so the text appended between the two calls is in
  the file that is read; the file may also be missing or unreadable for a moment.
\<close>

record tailing =
  log :: string
  reader :: stream
  yielded :: "emission list"

inductive tails :: "tailing \<Rightarrow> tailing \<Rightarrow> bool" where
  append: "tails w (w\<lparr>log := log w @ t\<rparr>)"
| turn: "stream_turn (file_size (Some (log w))) (reads_of (log w @ t)) (reader w) = (r, es) \<Longrightarrow>
    tails w (w\<lparr>log := log w @ t, reader := r, yielded := yielded w @ es\<rparr>)"
| unreadable: "stream_turn (file_size (Some (log w))) (\<lambda>_ _. None) (reader w) = (r, es) \<Longrightarrow>
    tails w (w\<lparr>reader := r, yielded := yielded w @ es\<rparr>)"
| missing: "stream_turn (file_size None) rd (reader w) = (r, es) \<Longrightarrow>
    tails w (w\<lparr>reader := r, yielded := yielded w @ es\<rparr>)"

definition tail_start :: "string \<Rightarrow> nat \<Rightarrow> tailing" where
  "tail_start content start = \<lparr>log = content, reader = \<lparr>read_to = start, pending = []\<rparr>, yielded = []\<rparr>"

text \<open>
  The reader is between its start and the end of the file, and it has yielded exactly the complete
  lines of the part it has read; the rest of that part is pending.
\<close>

definition tail_inv :: "nat \<Rightarrow> tailing \<Rightarrow> bool" where
  "tail_inv start w \<longleftrightarrow> start \<le> read_to (reader w) \<and> read_to (reader w) \<le> length (log w)
     \<and> (let part = take (read_to (reader w) - start) (drop start (log w))
        in pending (reader w) = rest_of part
         \<and> sent_lines (yielded w) = map decode_replace (lines_of (complete_of part)))"

lemma tail_inv_start: "start \<le> length content \<Longrightarrow> tail_inv start (tail_start content start)"
  by (simp add: tail_inv_def tail_start_def complete_of_def rest_of_def)

lemma tail_inv_append:
  assumes "tail_inv start w"
  shows "tail_inv start (w\<lparr>log := log w @ t\<rparr>)"
  using assms by (simp add: tail_inv_def Let_def)

lemma tail_inv_quiet:
  "tail_inv start w \<Longrightarrow> sent_lines es = [] \<Longrightarrow> tail_inv start (w\<lparr>yielded := yielded w @ es\<rparr>)"
  by (simp add: tail_inv_def Let_def)

text \<open>Reading up to the size that was asked.\<close>

lemma tail_inv_read:
  assumes "tail_inv start w" "read_to (reader w) \<le> sz" "sz \<le> length (log w)"
  defines "chunk \<equiv> take (sz - read_to (reader w)) (drop (read_to (reader w)) (log w))"
  shows "tail_inv start (w\<lparr>reader := \<lparr>read_to = sz, pending = rest_of (pending (reader w) @ chunk)\<rparr>,
    yielded := yielded w @ map (Line \<circ> decode_replace) (lines_of (complete_of (pending (reader w) @ chunk)))\<rparr>)"
proof -
  let ?at = "read_to (reader w)"
  let ?part = "take (?at - start) (drop start (log w))"
  have inv: "start \<le> ?at" "pending (reader w) = rest_of ?part"
      "sent_lines (yielded w) = map decode_replace (lines_of (complete_of ?part))"
    using assms(1) by (simp_all add: tail_inv_def Let_def)
  have "take (sz - start) (drop start (log w)) = ?part @ chunk"
    using inv(1) assms(2) take_add [of "?at - start" "sz - ?at" "drop start (log w)"] by (simp add: chunk_def)
  also have "\<dots> = complete_of ?part @ rest_of ?part @ chunk" by (simp add: complete_rest flip: append_assoc)
  finally have whole: "take (sz - start) (drop start (log w)) = complete_of ?part @ pending (reader w) @ chunk"
    by (simp add: inv(2))
  show ?thesis
    using inv(1,3) assms(2,3)
    by (simp add: tail_inv_def Let_def whole complete_append [OF complete_ends_line] lines_of_append [OF complete_ends_line])
qed

lemma tail_inv_step:
  assumes "tails w w'" "tail_inv start w"
  shows "tail_inv start w'"
  using assms(1)
proof cases
  case (append t)
  then show ?thesis using tail_inv_append [OF assms(2)] by simp
next
  case (turn t r es)
  let ?w = "w\<lparr>log := log w @ t\<rparr>"
  have inv: "tail_inv start ?w" and at: "read_to (reader w) \<le> length (log w)"
    using tail_inv_append [OF assms(2)] assms(2) by (simp_all add: tail_inv_def)
  show ?thesis
  proof (cases "read_to (reader w) < length (log w)")
    case True
    let ?chunk = "take (length (log w) - read_to (reader w)) (drop (read_to (reader w)) (log w @ t))"
    let ?data = "pending (reader w) @ ?chunk"
    have step: "tail_inv start (?w\<lparr>reader := \<lparr>read_to = length (log w), pending = rest_of ?data\<rparr>,
        yielded := yielded w @ map (Line \<circ> decode_replace) (lines_of (complete_of ?data))\<rparr>)"
      using tail_inv_read [OF inv, of "length (log w)"] at by simp
    show ?thesis
    proof (cases "NL \<in> set ?data")
      case nl: True
      then have "(r, es) = (\<lparr>read_to = length (log w), pending = rest_of ?data\<rparr>,
          map (Line \<circ> decode_replace) (lines_of (complete_of ?data)))"
        using turn(2) True by (simp add: stream_turn_def file_size_def reads_of_def Let_def)
      then show ?thesis using step turn(1) by simp
    next
      case nl: False
      then have "(r, es) = (\<lparr>read_to = length (log w), pending = ?data\<rparr>, [Tick])"
        using turn(2) True by (simp add: stream_turn_def file_size_def reads_of_def Let_def)
      moreover have "complete_of ?data = []" "rest_of ?data = ?data" using complete_of_none [OF nl] by simp_all
      ultimately show ?thesis using step turn(1) by (simp add: tail_inv_def Let_def)
    qed
  next
    case False
    then have "r = reader w" "sent_lines es = []"
      using turn(2) at by (auto simp: stream_turn_def file_size_def Let_def)
    then show ?thesis using tail_inv_quiet [OF inv, of es] turn(1) by simp
  qed
next
  case (unreadable r es)
  then have "r = reader w" "sent_lines es = []"
    using assms(2) by (auto simp: stream_turn_def file_size_def tail_inv_def Let_def split: if_splits)
  then show ?thesis using tail_inv_quiet [OF assms(2), of es] unreadable(1) by simp
next
  case (missing rd r es)
  then have "r = reader w" "sent_lines es = []" by (auto simp: stream_turn_def file_size_def)
  then show ?thesis using tail_inv_quiet [OF assms(2), of es] missing(1) by simp
qed

lemma tail_inv_reachable: "tails\<^sup>*\<^sup>* w w' \<Longrightarrow> tail_inv start w \<Longrightarrow> tail_inv start w'"
  by (induction rule: rtranclp_induct) (auto intro: tail_inv_step)

text \<open>One undisturbed turn brings the reader up to date.\<close>

lemma turn_catches_up:
  assumes "tail_inv start w" "stream_turn (file_size (Some (log w))) (reads_of (log w)) (reader w) = (r, es)"
  shows "read_to r = length (log w)"
proof (cases "read_to (reader w) < length (log w)")
  case True
  then show ?thesis using assms(2) by (auto simp: stream_turn_def file_size_def reads_of_def Let_def split: if_splits)
next
  case False
  then show ?thesis using assms by (auto simp: stream_turn_def file_size_def tail_inv_def Let_def split: if_splits)
qed

lemma caught_up_lines:
  assumes "tail_inv start w" "stream_turn (file_size (Some (log w))) (reads_of (log w)) (reader w) = (r, es)"
  shows "sent_lines (yielded w @ es) = map decode_replace (lines_of (complete_of (drop start (log w))))"
proof -
  have "tails w (w\<lparr>log := log w @ [], reader := r, yielded := yielded w @ es\<rparr>)"
    by (rule tails.turn) (simp add: assms(2))
  then have "tail_inv start (w\<lparr>log := log w @ [], reader := r, yielded := yielded w @ es\<rparr>)"
    using tail_inv_step assms(1) by blast
  then show ?thesis using turn_catches_up [OF assms] by (simp add: tail_inv_def Let_def)
qed

text \<open>Nothing the reader yields has a line break in it.\<close>

lemma turn_lines_no_newline:
  "stream_turn sz rd s = (r, es) \<Longrightarrow> l \<in> set (sent_lines es) \<Longrightarrow> NL \<notin> set l"
  using decode_replace_no_newline [OF lines_no_newline]
  by (auto simp: stream_turn_def Let_def split: if_splits option.splits)

text \<open>A file that is shorter than what has been read is taken for a new one and read from its start.\<close>

lemma turn_rotated:
  assumes "length content < read_to s"
  shows "stream_turn (file_size (Some content)) rd s = stream_turn (file_size (Some content)) rd \<lparr>read_to = 0, pending = []\<rparr>"
  using assms by (simp add: stream_turn_def file_size_def Let_def)

end
