(* ===== verification/PageState.thy ===== *)
theory PageState
  imports JsValue LogTail
begin

text \<open>
  The state of the console's page and how it takes in events (\<^verbatim>\<open>ingest\<close> of \<^verbatim>\<open>INDEX_HTML\<close> in
  \<^verbatim>\<open>dashboard_server.py\<close>): the two bounded lists, the latest event of every feed, the merged state of
  every strategy, the reject counters and the summary fields of the risk events.

  The main results describe the state after any sequence of events by the sequence alone.
\<close>


section \<open>The state\<close>

text \<open>
  What the page finds in its browser: the time in milliseconds, the text of a date, the order of
  texts, the text of a built-in function, and the controls above the event log.
\<close>

record browser =
  date_now :: int
  time_text :: "json \<Rightarrow> string"
  locale_compare :: "string \<Rightarrow> string \<Rightarrow> int"
  native_text :: "string \<Rightarrow> string"
  log_filter :: string
  log_find :: string
  log_pause :: bool

datatype panel = SysPanel | FeedPanel | StratPanel | OrderPanel | RiskPanel | LogPanel

datatype content = Html string | PlainText string

record page =
  system :: jsobj
  start_ts :: "json option"
  last_ts :: "jnum option"
  feeds :: "(json \<times> json) list"
  strategies :: "(json \<times> jsobj) list"
  orders :: "json list"
  event_log :: "json list"
  rejects :: "(string \<times> nat) list"
  risk_fields :: jsobj
  evt_window :: "int list"
  dirty :: "panel \<Rightarrow> bool"
  display :: "string \<Rightarrow> content"
  log_items :: "json list"
  log_expanded :: "(nat \<times> string) list"

definition MAX_LOG :: nat where
  "MAX_LOG = 1000"

definition MAX_ORDERS :: nat where
  "MAX_ORDERS = 200"

definition LOG_VIEW :: nat where
  "LOG_VIEW = 200"

text \<open>The page when its script starts; \<open>D\<close> is what the elements hold in the page as served.\<close>

definition page_start :: "(string \<Rightarrow> content) \<Rightarrow> page" where
  "page_start D = \<lparr>system = empty_obj, start_ts = None, last_ts = Some (0, 0), feeds = [], strategies = [],
     orders = [], event_log = [],
     rejects = [(''stale_signal'', 0), (''duplicate'', 0), (''risk_check'', 0), (''other'', 0)],
     risk_fields = empty_obj, evt_window = [], dirty = (\<lambda>_. True), display = D, log_items = [], log_expanded = []\<rparr>"


section \<open>Taking in an event\<close>

text \<open>\<^verbatim>\<open>xs.push(x); if(xs.length > n) xs.splice(0, xs.length - n)\<close>.\<close>

definition push :: "nat \<Rightarrow> 'a \<Rightarrow> 'a list \<Rightarrow> 'a list" where
  "push n x xs = (let ys = xs @ [x] in if n < length ys then drop (length ys - n) ys else ys)"

text \<open>A \<^verbatim>\<open>Map\<close>: texts, numbers and truth values are the same key when they are equal, objects never are.\<close>

fun same_key :: "json \<Rightarrow> json \<Rightarrow> bool" where
  "same_key (JStr s) w = (w = JStr s)"
| "same_key (JBool b) w = (w = JBool b)"
| "same_key JNull w = (w = JNull)"
| "same_key (JInt i) w = (case w of JInt j \<Rightarrow> i = j | JDec m e \<Rightarrow> num_eq (i, 0) (m, e) | _ \<Rightarrow> False)"
| "same_key (JDec m e) w = (case w of JInt j \<Rightarrow> num_eq (m, e) (j, 0) | JDec n f \<Rightarrow> num_eq (m, e) (n, f) | _ \<Rightarrow> False)"
| "same_key _ w = False"

fun map_set :: "json \<Rightarrow> 'v \<Rightarrow> (json \<times> 'v) list \<Rightarrow> (json \<times> 'v) list" where
  "map_set k v [] = [(k, v)]"
| "map_set k v ((k', v') # m) = (if same_key k k' then (k', v) # m else (k', v') # map_set k v m)"

definition map_get :: "(json \<times> 'v) list \<Rightarrow> json \<Rightarrow> 'v option" where
  "map_get m k = map_option snd (find (\<lambda>(k', _). same_key k k') m)"

text \<open>Looking up a name in a table written as an object: the names every object inherits are found too.\<close>

definition js_table_get :: "browser \<Rightarrow> (string \<times> string) list \<Rightarrow> string \<Rightarrow> string option" where
  "js_table_get B t k = (case map_of t k of
     Some v \<Rightarrow> Some v
   | None \<Rightarrow> if k \<in> set object_names then Some (native_text B k)
       else if k = ''__proto__'' then Some ''[object Object]'' else None)"

definition reject_table :: "(string \<times> string) list" where
  "reject_table = [(''stale_signal'', ''stale_signal''), (''stale'', ''stale_signal''), (''duplicate'', ''duplicate''),
     (''dup'', ''duplicate''), (''risk_check'', ''risk_check''), (''risk'', ''risk_check'')]"

definition reject_key :: "browser \<Rightarrow> js \<Rightarrow> string res" where
  "reject_key B reason = rmap (\<lambda>k. case js_table_get B reject_table k of Some key \<Rightarrow> key | None \<Rightarrow> ''other'') (js_str reason)"

definition count_up :: "string \<Rightarrow> (string \<times> nat) list \<Rightarrow> (string \<times> nat) list" where
  "count_up k rs = fput k (Suc (case map_of rs k of None \<Rightarrow> 0 | Some n \<Rightarrow> n)) rs"

definition event_ts :: "browser \<Rightarrow> json \<Rightarrow> json" where
  "event_ts B ev = the (js_or (field ev ''ts_ms'') (Some (JInt (date_now B))))"

definition js_max :: "jnum option \<Rightarrow> jnum option \<Rightarrow> jnum option" where
  "js_max a b = (case (a, b) of (Some x, Some y) \<Rightarrow> Some (if jless x y then y else x) | _ \<Rightarrow> None)"

abbreviation mark :: "panel \<Rightarrow> page \<Rightarrow> page" where
  "mark d p \<equiv> p\<lparr>dirty := (dirty p)(d := True)\<rparr>"

definition on_system :: "json \<Rightarrow> json \<Rightarrow> fields \<Rightarrow> page \<Rightarrow> unit res \<times> page" where
  "on_system ts ev fs p =
     (let p1 = p\<lparr>system := obj_assign fs (system p), start_ts := (if start_ts p = None then Some ts else start_ts p)\<rparr>
      in if \<not> js_true (field ev ''status'') then (Inr (), mark SysPanel p1)
         else case cat [js_str (field ev ''status''), Inr '' '', js_str (js_or (field ev ''message'') (Some (JStr [])))] of
           Inl e \<Rightarrow> (Inl e, p1)
         | Inr t \<Rightarrow> (Inr (), mark SysPanel
             (if contains ''start'' (map lower_char t) then p1\<lparr>start_ts := js_or (start_ts p1) (Some ts)\<rparr> else p1)))"

definition on_feed :: "json \<Rightarrow> page \<Rightarrow> page" where
  "on_feed ev p = (let source = field ev ''source''
     in if js_true source
        then mark SysPanel (mark FeedPanel (p\<lparr>feeds := map_set (the source) ev (feeds p)\<rparr>)) else p)"

definition on_strategy :: "json \<Rightarrow> json \<Rightarrow> fields \<Rightarrow> page \<Rightarrow> page" where
  "on_strategy ts ev fs p = (let name = field ev ''name''
     in if js_true name
        then let prev = (case map_get (strategies p) (the name) of None \<Rightarrow> empty_obj | Some x \<Rightarrow> x);
               merged = obj_assign [(''last_ts'', ts)] (obj_assign fs (obj_assign (fst prev) empty_obj))
             in mark StratPanel (p\<lparr>strategies := map_set (the name) merged (strategies p)\<rparr>)
        else p)"

definition on_order :: "json \<Rightarrow> page \<Rightarrow> page" where
  "on_order ev p = mark RiskPanel (mark OrderPanel (p\<lparr>orders := push MAX_ORDERS ev (orders p)\<rparr>))"

definition is_reject :: "json \<Rightarrow> bool" where
  "is_reject ev \<longleftrightarrow> field ev ''decision'' = Some (JStr ''reject'') \<or> js_true (field ev ''reason'')"

definition carried :: "fields \<Rightarrow> fields" where
  "carried fs = filter (\<lambda>(k, _). k \<notin> {''type'', ''ts_ms'', ''decision'', ''reason'', ''ticker'', ''strategy''}) fs"

definition on_risk :: "browser \<Rightarrow> json \<Rightarrow> fields \<Rightarrow> page \<Rightarrow> unit res \<times> page" where
  "on_risk B ev fs p =
     (case (if is_reject ev then rmap (\<lambda>k. count_up k (rejects p)) (reject_key B (field ev ''reason'')) else Inr (rejects p)) of
        Inl e \<Rightarrow> (Inl e, p)
      | Inr rs \<Rightarrow> (Inr (), mark RiskPanel (p\<lparr>rejects := rs, risk_fields := obj_assign (carried fs) (risk_fields p)\<rparr>)))"

definition dispatch :: "browser \<Rightarrow> json \<Rightarrow> json \<Rightarrow> fields \<Rightarrow> page \<Rightarrow> unit res \<times> page" where
  "dispatch B ts ev fs p = (let ty = field ev ''type''
     in if ty = Some (JStr ''system'') then on_system ts ev fs p
        else if ty = Some (JStr ''feed'') then (Inr (), on_feed ev p)
        else if ty = Some (JStr ''strategy'') then (Inr (), on_strategy ts ev fs p)
        else if ty = Some (JStr ''order'') then (Inr (), on_order ev p)
        else if ty = Some (JStr ''risk'') then on_risk B ev fs p
        else (Inr (), p))"

definition ingest :: "browser \<Rightarrow> json \<Rightarrow> page \<Rightarrow> unit res \<times> page" where
  "ingest B ev p = (case ev of
     JObj fs \<Rightarrow>
       if \<not> js_true (field ev ''type'') then (Inr (), p)
       else (case json_number (event_ts B ev) of
         Inl e \<Rightarrow> (Inl e, p)
       | Inr t \<Rightarrow> dispatch B (event_ts B ev) ev fs
           (mark LogPanel (p\<lparr>last_ts := js_max (last_ts p) t, evt_window := evt_window p @ [date_now B],
              event_log := push MAX_LOG ev (event_log p)\<rparr>)))
   | _ \<Rightarrow> (Inr (), p))"


section \<open>What an event changes\<close>

text \<open>The events that are taken in: objects with a type whose time can be read as a number.\<close>

definition accepted :: "browser \<Rightarrow> json \<Rightarrow> bool" where
  "accepted B ev \<longleftrightarrow> is_dict ev \<and> js_true (field ev ''type'') \<and> (\<exists>t. json_number (event_ts B ev) = Inr t)"

abbreviation has_type :: "json \<Rightarrow> string \<Rightarrow> bool" where
  "has_type ev ty \<equiv> field ev ''type'' = Some (JStr ty)"

abbreviation take_in :: "browser \<times> json \<Rightarrow> page \<Rightarrow> page" where
  "take_in \<equiv> \<lambda>(B, ev) p. snd (ingest B ev p)"

lemma ingest_refused: "\<not> accepted B ev \<Longrightarrow> snd (ingest B ev p) = p"
  by (cases ev) (auto simp: ingest_def accepted_def split: sum.splits)

lemma ingest_accepted:
  assumes "accepted B ev"
  obtains fs t where "ev = JObj fs" "json_number (event_ts B ev) = Inr t"
    "ingest B ev p = dispatch B (event_ts B ev) ev fs
       (mark LogPanel (p\<lparr>last_ts := js_max (last_ts p) t, evt_window := evt_window p @ [date_now B],
          event_log := push MAX_LOG ev (event_log p)\<rparr>))"
proof (cases ev)
  case (JObj fs)
  then show ?thesis using assms that by (auto simp: accepted_def ingest_def)
qed (use assms in \<open>simp_all add: accepted_def\<close>)

lemmas handler_defs = dispatch_def on_system_def on_feed_def on_strategy_def on_order_def on_risk_def Let_def

lemma dispatch_event_log: "event_log (snd (dispatch B ts ev fs p)) = event_log p"
  by (simp add: handler_defs split: sum.split)

lemma dispatch_orders:
  "orders (snd (dispatch B ts ev fs p)) = (if has_type ev ''order'' then push MAX_ORDERS ev (orders p) else orders p)"
  by (simp add: handler_defs split: sum.split)

lemma dispatch_feeds:
  "feeds (snd (dispatch B ts ev fs p)) = (if has_type ev ''feed'' \<and> js_true (field ev ''source'')
     then map_set (the (field ev ''source'')) ev (feeds p) else feeds p)"
  by (simp add: handler_defs split: sum.split)

lemma dispatch_rejects:
  "rejects (snd (dispatch B ts ev fs p)) =
     (case reject_key B (field ev ''reason'') of
        Inr k \<Rightarrow> if has_type ev ''risk'' \<and> is_reject ev then count_up k (rejects p) else rejects p
      | Inl e \<Rightarrow> rejects p)"
  by (simp add: handler_defs rmap_def rbind_def split: sum.split)

lemma dispatch_clocks:
  "last_ts (snd (dispatch B ts ev fs p)) = last_ts p" "evt_window (snd (dispatch B ts ev fs p)) = evt_window p"
  "display (snd (dispatch B ts ev fs p)) = display p"
  by (simp_all add: handler_defs split: sum.split)


section \<open>The bounded lists\<close>

lemma push_last_n: "push n x xs = last_n n (xs @ [x])"
  by (simp add: push_def last_n_def Let_def)

lemma last_n_last_n_append: "last_n n (last_n n xs @ ys) = last_n n (xs @ ys)"
  by (cases "length xs \<le> n"; cases "length ys \<le> n") (auto simp: last_n_def add.commute)

lemma length_last_n: "length (last_n n xs) = min n (length xs)"
  by (simp add: last_n_def)

lemma last_n_id: "length xs \<le> n \<Longrightarrow> last_n n xs = xs"
  by (simp add: last_n_def)

text \<open>A part of a state that keeps the last \<open>cap\<close> of the elements that steps give it.\<close>

locale keeps_last =
  fixes step :: "'e \<Rightarrow> 's \<Rightarrow> 's"
    and view :: "'s \<Rightarrow> 'x list"
    and given :: "'e \<Rightarrow> 'x option"
    and cap :: nat
  assumes view_step: "view (step e s) = (case given e of None \<Rightarrow> view s | Some x \<Rightarrow> push cap x (view s))"
begin

lemma view_fold: "length (view s) \<le> cap \<Longrightarrow> view (fold step es s) = last_n cap (view s @ List.map_filter given es)"
proof (induction es arbitrary: s)
  case (Cons e es)
  have "length (view (step e s)) \<le> cap"
    using Cons.prems by (simp add: view_step push_last_n length_last_n split: option.split)
  then show ?case using Cons.IH [of "step e s"]
    by (simp add: view_step push_last_n last_n_last_n_append List.map_filter_def split: option.split)
qed (simp add: last_n_id List.map_filter_def)

lemma bounded: "length (view s) \<le> cap \<Longrightarrow> length (view (fold step es s)) \<le> cap"
  by (simp add: view_fold length_last_n)

end

interpretation log_ring: keeps_last take_in event_log "\<lambda>(B, ev). if accepted B ev then Some ev else None" MAX_LOG
proof
  fix e :: "browser \<times> json" and p
  obtain B ev where e: "e = (B, ev)" by fastforce
  show "event_log (take_in e p) = (case case e of (B, ev) \<Rightarrow> if accepted B ev then Some ev else None of
      None \<Rightarrow> event_log p | Some x \<Rightarrow> push MAX_LOG x (event_log p))"
    by (cases "accepted B ev")
       (auto simp: e ingest_refused dispatch_event_log elim!: ingest_accepted [where p = p])
qed

interpretation order_ring: keeps_last take_in orders
    "\<lambda>(B, ev). if accepted B ev \<and> has_type ev ''order'' then Some ev else None" MAX_ORDERS
proof
  fix e :: "browser \<times> json" and p
  obtain B ev where e: "e = (B, ev)" by fastforce
  show "orders (take_in e p) = (case case e of (B, ev) \<Rightarrow> if accepted B ev \<and> has_type ev ''order'' then Some ev else None of
      None \<Rightarrow> orders p | Some x \<Rightarrow> push MAX_ORDERS x (orders p))"
    by (cases "accepted B ev")
       (auto simp: e ingest_refused dispatch_orders elim!: ingest_accepted [where p = p])
qed


section \<open>The latest event of a feed\<close>

lemma same_key_str: "same_key k (JStr s) \<longleftrightarrow> k = JStr s"
  by (cases k) auto

lemma map_get_set: "map_get (map_set k v m) (JStr s) = (if k = JStr s then Some v else map_get m (JStr s))"
  by (induction k v m rule: map_set.induct) (auto simp: map_get_def same_key_str)

text \<open>A part of a state that holds the last value given for each key.\<close>

locale holds_latest =
  fixes step :: "'e \<Rightarrow> 's \<Rightarrow> 's"
    and look :: "'s \<Rightarrow> 'k \<Rightarrow> 'v option"
    and given :: "'e \<Rightarrow> ('k \<times> 'v) option"
  assumes look_step: "look (step e s) k = (case given e of Some (k', v) \<Rightarrow> if k' = k then Some v else look s k | None \<Rightarrow> look s k)"
begin

lemma look_fold: "look (fold step es s) = look s ++ map_of (rev (List.map_filter given es))"
proof (induction es arbitrary: s)
  case (Cons e es)
  have "look (step e s) = (case given e of Some (k, v) \<Rightarrow> (look s)(k \<mapsto> v) | None \<Rightarrow> look s)"
    by (auto simp: look_step fun_eq_iff split: option.split)
  then show ?case using Cons.IH [of "step e s"]
    by (auto simp: List.map_filter_def map_add_def fun_eq_iff split: option.splits)
qed (simp add: List.map_filter_def)

end

text \<open>What an event says of a feed that is named by a text.\<close>

definition feed_given :: "browser \<times> json \<Rightarrow> (string \<times> json) option" where
  "feed_given = (\<lambda>(B, ev). case field ev ''source'' of
     Some (JStr s) \<Rightarrow> if s \<noteq> [] \<and> accepted B ev \<and> has_type ev ''feed'' then Some (s, ev) else None
   | _ \<Rightarrow> None)"

definition feed_of :: "page \<Rightarrow> string \<Rightarrow> json option" where
  "feed_of p s = map_get (feeds p) (JStr s)"

lemma feed_given_Some: "feed_given (B, ev) = Some (s, v)
    \<longleftrightarrow> field ev ''source'' = Some (JStr s) \<and> s \<noteq> [] \<and> accepted B ev \<and> has_type ev ''feed'' \<and> v = ev"
  by (auto simp: feed_given_def split: option.splits json.splits)

lemma feed_of_step: "feed_of (snd (ingest B ev p)) s
    = (case feed_given (B, ev) of Some (s', v) \<Rightarrow> if s' = s then Some v else feed_of p s | None \<Rightarrow> feed_of p s)"
proof (cases "accepted B ev \<and> has_type ev ''feed'' \<and> js_true (field ev ''source'')")
  case True
  then obtain src where src: "field ev ''source'' = Some src" "truthy_json src" by (auto simp: js_true_def split: option.splits)
  have "feed_of (snd (ingest B ev p)) s = (if src = JStr s then Some ev else feed_of p s)"
    using True src by (auto simp: feed_of_def dispatch_feeds map_get_set elim!: ingest_accepted [where p = p])
  moreover have "feed_given (B, ev) = (case src of JStr s' \<Rightarrow> Some (s', ev) | _ \<Rightarrow> None)"
    using True src by (auto simp: feed_given_def split: json.split)
  ultimately show ?thesis by (auto split: json.splits)
next
  case False
  then have "feed_given (B, ev) = None"
    by (auto simp: feed_given_def js_true_def split: option.splits json.splits)
  moreover have "feeds (snd (ingest B ev p)) = feeds p"
    using False by (cases "accepted B ev") (auto simp: ingest_refused dispatch_feeds elim!: ingest_accepted [where p = p])
  ultimately show ?thesis by (simp add: feed_of_def)
qed

interpretation feed_map: holds_latest take_in feed_of feed_given
  by unfold_locales (auto simp: feed_of_step split: prod.splits)


section \<open>The reject counters\<close>

definition reject_count :: "page \<Rightarrow> string \<Rightarrow> nat" where
  "reject_count p k = (case map_of (rejects p) k of None \<Rightarrow> 0 | Some n \<Rightarrow> n)"

definition counted_as :: "string \<Rightarrow> browser \<times> json \<Rightarrow> bool" where
  "counted_as k = (\<lambda>(B, ev). accepted B ev \<and> has_type ev ''risk'' \<and> is_reject ev \<and> reject_key B (field ev ''reason'') = Inr k)"

text \<open>A number in a state that steps increase by one or leave.\<close>

locale step_counter =
  fixes step :: "'e \<Rightarrow> 's \<Rightarrow> 's"
    and total :: "'s \<Rightarrow> nat"
    and hit :: "'e \<Rightarrow> bool"
  assumes total_step: "total (step e s) = total s + of_bool (hit e)"
begin

lemma total_fold: "total (fold step es s) = total s + length (filter hit es)"
  by (induction es arbitrary: s) (simp_all add: total_step)

end

lemma count_up_get: "(case map_of (count_up k rs) j of None \<Rightarrow> 0 | Some n \<Rightarrow> n)
    = (case map_of rs j of None \<Rightarrow> 0 | Some n \<Rightarrow> n) + of_bool (j = k)"
  by (simp add: count_up_def map_of_fput split: option.split)

interpretation reject_counter: step_counter take_in "\<lambda>p. reject_count p k" "counted_as k"
  for k
proof
  fix e :: "browser \<times> json" and p
  obtain B ev where e: "e = (B, ev)" by fastforce
  show "reject_count (take_in e p) k = reject_count p k + of_bool (counted_as k e)"
    by (cases "accepted B ev")
       (auto simp: e ingest_refused reject_count_def dispatch_rejects counted_as_def count_up_get
         split: sum.split elim!: ingest_accepted [where p = p])
qed

end
