(* ===== verification/PageRender.thy ===== *)
theory PageRender
  imports PageState
begin

text \<open>
  What the page shows on its Live tab (the renderers and the timers of \<^verbatim>\<open>INDEX_HTML\<close> in
  \<^verbatim>\<open>dashboard_server.py\<close>).  A renderer computes the HTML of its panel from the state and can raise;
  the render timer runs the renderers of the panels that changed, in a fixed order, and an exception
  ends its turn.
\<close>


section \<open>Cells\<close>

definition DASH :: string where
  "DASH = [CHR 0xE2, CHR 0x80, CHR 0x94]"

definition MIDDOT :: string where
  "MIDDOT = [CHR 0xC2, CHR 0xB7]"

definition ARROW :: string where
  "ARROW = [CHR 0xE2, CHR 0x86, CHR 0x92]"

definition CENT :: string where
  "CENT = [CHR 0xC2, CHR 0xA2]"

definition muted :: string where
  \<open>muted = ''<span class="muted">'' @ DASH @ ''</span>''\<close>

definition badge_html :: "js \<Rightarrow> string \<Rightarrow> string res" where
  \<open>badge_html t cls = cat [Inr (''<span class="badge b-'' @ cls @ ''">''), esc t, Inr ''</span>'']\<close>

abbreviation label :: "string \<Rightarrow> string \<Rightarrow> string res" where
  "label s cls \<equiv> badge_html (Some (JStr s)) cls"

definition bool_badge :: "js \<Rightarrow> string res" where
  "bool_badge v = (if js_true v then label ''yes'' ''green'' else label ''no'' ''red'')"

definition fmt :: "js \<Rightarrow> nat \<Rightarrow> string res" where
  "fmt v d =
     (if nullish v \<or> v = Some (JStr []) then Inr muted
      else case the v of
        JInt i \<Rightarrow> Inr (num_str (round_at d (i, 0), d))
      | JDec m e \<Rightarrow> Inr (num_str (round_at d (m, e), d))
      | _ \<Rightarrow> esc v)"

definition num_cell :: "js \<Rightarrow> string res" where
  "num_cell v = (if nullish v then Inr muted
     else rbind (js_number v) (\<lambda>n. if n = None then Inr muted else esc v))"

text \<open>A time span is a value of an event or the difference of two numbers.\<close>

datatype span = Given json | Diff "jnum option"

fun span_number :: "span \<Rightarrow> jnum option res" where
  "span_number (Given v) = json_number v"
| "span_number (Diff n) = Inr n"

fun is_number :: "span \<Rightarrow> bool" where
  "is_number (Given (JInt i)) = True"
| "is_number (Given (JDec m e)) = True"
| "is_number (Given v) = False"
| "is_number (Diff n) = True"

definition age_class :: "span \<Rightarrow> string res" where
  "age_class a = rmap (\<lambda>n. case n of None \<Rightarrow> []
     | Some x \<Rightarrow> if jless (3000, 0) x then ''age-stale'' else if jless (1000, 0) x then ''age-old'' else []) (span_number a)"

text \<open>Only a number has the method \<^verbatim>\<open>toFixed\<close>; a quotient always is one.\<close>

definition agestr :: "span \<Rightarrow> string res" where
  "agestr a = rbind (span_number a) (\<lambda>n. case n of
     None \<Rightarrow> Inr ''NaNm''
   | Some (m, e) \<Rightarrow>
       if jless (m, e) (1000, 0) then (if is_number a then Inr (to_fixed m (10 ^ e) 0 @ ''ms'') else Inl TypeError)
       else if jless (m, e) (60000, 0) then Inr (to_fixed m (1000 * 10 ^ e) 1 @ ''s'')
       else Inr (to_fixed m (60000 * 10 ^ e) 1 @ ''m''))"

definition tstr :: "browser \<Rightarrow> js \<Rightarrow> string res" where
  "tstr B v = (if \<not> js_true v then Inr DASH
     else rmap (\<lambda>n. time_text B (the v) @ ''.'' @
       pad_start 3 (case n of None \<Rightarrow> ''NaN'' | Some x \<Rightarrow> num_str (remainder x 1000))) (js_number v))"


section \<open>The system panel\<close>

fun feed_for :: "string list \<Rightarrow> (json \<times> json) list \<Rightarrow> json option res" where
  "feed_for subs [] = Inr None"
| "feed_for subs ((src, ev) # m) = rbind (to_lower (Some src)) (\<lambda>s.
     if list_ex (\<lambda>sub. contains sub s) subs then Inr (Some ev) else feed_for subs m)"

definition status_from_feed :: "browser \<Rightarrow> json option \<Rightarrow> string res" where
  "status_from_feed B f = (case f of
     None \<Rightarrow> label ''unknown'' ''gray''
   | Some ev \<Rightarrow> rbind (js_minus (date_now B) (js_or (field ev ''ts_ms'') (Some (JInt 0)))) (\<lambda>age.
       if \<not> js_true (field ev ''connected'') then label ''down'' ''red''
       else if field ev ''valid'' = Some (JBool False) \<or> (case age of None \<Rightarrow> False | Some x \<Rightarrow> jless (3000, 0) x)
       then label ''degraded'' ''yellow'' else label ''up'' ''green''))"

definition feed_status :: "browser \<Rightarrow> string list \<Rightarrow> page \<Rightarrow> string res" where
  "feed_status B subs p = rbind (feed_for subs (feeds p)) (status_from_feed B)"

definition heartbeat_age :: "browser \<Rightarrow> page \<Rightarrow> jnum option" where
  "heartbeat_age B p = (case last_ts p of
     None \<Rightarrow> None
   | Some (m, e) \<Rightarrow> if m = 0 then None else Some (jsub (date_now B, 0) (m, e)))"

definition kill_switch :: "page \<Rightarrow> js" where
  "kill_switch p = js_coalesce (obj_get (system p) ''kill_switch'') (obj_get (risk_fields p) ''kill_switch'')"

definition engaged :: "js \<Rightarrow> bool" where
  "engaged v \<longleftrightarrow> v \<in> {Some (JBool True), Some (JStr ''engaged''), Some (JStr ''on'')}"

definition kill_badge :: "js \<Rightarrow> string res" where
  "kill_badge v = (if nullish v then label ''unknown'' ''gray''
     else if engaged v then label ''ENGAGED'' ''red'' else label ''clear'' ''green'')"

definition mode_class :: "js \<Rightarrow> string" where
  "mode_class v = (if v = Some (JStr ''live'') then ''red'' else if v = Some (JStr ''canary'') then ''yellow'' else ''blue'')"

definition env_class :: "js \<Rightarrow> string" where
  "env_class v = (if v = Some (JStr ''prod'') then ''red'' else ''blue'')"

definition process_badge :: "jnum option \<Rightarrow> string res" where
  "process_badge hb = (case hb of
     None \<Rightarrow> label ''unknown'' ''gray''
   | Some x \<Rightarrow> if jless (5000, 0) x then label ''stale'' ''red''
       else if jless (2000, 0) x then label ''lagging'' ''yellow'' else label ''running'' ''green'')"

definition uptime :: "browser \<Rightarrow> page \<Rightarrow> string res" where
  "uptime B p = (if js_true (start_ts p) then rbind (js_minus (date_now B) (start_ts p)) (\<lambda>d. agestr (Diff d)) else Inr DASH)"

definition kv_row :: "string \<times> string res \<Rightarrow> string res" where
  \<open>kv_row = (\<lambda>(k, v). cat [Inr (''<div class="k">'' @ k @ ''</div><div class="v">''), v, Inr ''</div>''])\<close>

definition heartbeat_cell :: "jnum option \<Rightarrow> string res" where
  \<open>heartbeat_cell hb = (if hb = None then Inr muted
     else cat [Inr ''<span class="'', age_class (Diff hb), Inr ''">'', agestr (Diff hb), Inr '' ago</span>''])\<close>

definition sys_rows :: "browser \<Rightarrow> page \<Rightarrow> (string \<times> string res) list" where
  "sys_rows B p = (let s = obj_get (system p); hb = heartbeat_age B p in
     [(''process'', process_badge hb),
      (''mode'', if js_true (s ''mode'') then badge_html (s ''mode'') (mode_class (s ''mode'')) else label DASH ''gray''),
      (''uptime'', rbind (uptime B p) (\<lambda>t. esc (Some (JStr t)))),
      (''Kalshi REST'', feed_status B [''rest''] p),
      (''Kalshi WebSocket'', feed_status B [''ws'', ''websocket''] p),
      (''external provider'', feed_status B [''provider'', ''external''] p),
      (''last heartbeat'', heartbeat_cell hb),
      (''kill switch'', kill_badge (kill_switch p)),
      (''config profile'', fmt (js_or (s ''profile'') (obj_get (risk_fields p) ''profile'')) 0),
      (''API environment'', if js_true (s ''env'') then badge_html (s ''env'') (env_class (s ''env'')) else label DASH ''gray''),
      (''component'', fmt (s ''component'') 0),
      (''last message'', fmt (s ''message'') 0)])"

definition header_badge :: "string \<Rightarrow> string \<Rightarrow> string \<Rightarrow> string res \<Rightarrow> string res" where
  \<open>header_badge cls ident word t =
     cat [Inr (''<span class="badge b-'' @ cls @ ''" id="'' @ ident @ ''">'' @ word @ '' ''), t, Inr ''</span>'']\<close>

definition header_mode :: "page \<Rightarrow> string res" where
  "header_mode p = (let v = obj_get (system p) ''mode''
     in header_badge (if js_true v then mode_class v else ''gray'') ''hdr-mode'' ''mode'' (esc (js_or v (Some (JStr DASH)))))"

definition header_env :: "page \<Rightarrow> string res" where
  "header_env p = (let v = obj_get (system p) ''env''
     in header_badge (if js_true v then env_class v else ''gray'') ''hdr-env'' ''env'' (esc (js_or v (Some (JStr DASH)))))"

definition header_kill :: "page \<Rightarrow> string res" where
  "header_kill p = (let v = kill_switch p
     in header_badge (if engaged v then ''red'' else if nullish v then ''gray'' else ''green'') ''hdr-kill'' ''kill''
          (Inr (if engaged v then ''ENGAGED'' else if nullish v then DASH else ''clear'')))"

text \<open>Assigning to an element, and statements in order: the first exception ends them.\<close>

definition assign :: "string \<Rightarrow> content res \<Rightarrow> page \<Rightarrow> unit res \<times> page" where
  "assign ident c p = (case c of Inl e \<Rightarrow> (Inl e, p) | Inr x \<Rightarrow> (Inr (), p\<lparr>display := (display p)(ident := x)\<rparr>))"

fun in_order :: "(page \<Rightarrow> unit res \<times> page) list \<Rightarrow> page \<Rightarrow> unit res \<times> page" where
  "in_order [] p = (Inr (), p)"
| "in_order (a # as) p = (case a p of (Inl e, p') \<Rightarrow> (Inl e, p') | (Inr _, p') \<Rightarrow> in_order as p')"

definition render_sys :: "browser \<Rightarrow> page \<Rightarrow> unit res \<times> page" where
  "render_sys B p = in_order [
     assign ''sys-kv'' (rmap Html (cat (map kv_row (sys_rows B p)))),
     assign ''sys-heartbeat'' (rmap PlainText (case heartbeat_age B p of
       None \<Rightarrow> Inr (''heartbeat '' @ DASH)
     | Some x \<Rightarrow> cat [Inr ''heartbeat '', agestr (Diff (Some x)), Inr '' ago''])),
     assign ''hdr-mode'' (rmap Html (header_mode p)),
     assign ''hdr-env'' (rmap Html (header_env p)),
     assign ''hdr-kill'' (rmap Html (header_kill p))] p"


section \<open>The risk panel\<close>

definition recent_order :: "browser \<Rightarrow> json \<Rightarrow> bool res" where
  "recent_order B ev = rmap (\<lambda>age. case age of None \<Rightarrow> False | Some x \<Rightarrow> jless x (1000, 0))
     (js_minus (date_now B) (js_or (field ev ''ts_ms'') (Some (JInt 0))))"

definition order_rate :: "browser \<Rightarrow> page \<Rightarrow> nat res" where
  "order_rate B p = rmap (\<lambda>bs. length (filter (\<lambda>b. b) bs)) (traverse (recent_order B) (orders p))"

definition reject_badge :: "page \<Rightarrow> string \<Rightarrow> string \<Rightarrow> string res" where
  "reject_badge p k cls = (let n = map_of (rejects p) k
     in badge_html (map_option (\<lambda>i. JInt (int i)) n) (if n = None \<or> n = Some 0 then ''gray'' else cls))"

definition risk_rows :: "browser \<Rightarrow> nat \<Rightarrow> page \<Rightarrow> (string \<times> string res) list" where
  "risk_rows B rate p = (let f = obj_get (risk_fields p) in
     [(''max orders/sec'', fmt (f ''max_orders_per_sec'') 0),
      (''current order rate'', Inr (str_of_nat rate @ ''/s'')),
      (''max position / market'', fmt (f ''max_position_per_market'') 0),
      (''current exposure'', fmt (js_coalesce (f ''current_exposure'') (f ''exposure'')) 0),
      (''rejected: stale signals'', reject_badge p ''stale_signal'' ''yellow''),
      (''rejected: duplicates'', reject_badge p ''duplicate'' ''yellow''),
      (''rejected: risk checks'', reject_badge p ''risk_check'' ''red''),
      (''rejected: other'', reject_badge p ''other'' ''yellow''),
      (''kill switch'', kill_badge (f ''kill_switch''))])"

definition render_risk :: "browser \<Rightarrow> page \<Rightarrow> unit res \<times> page" where
  "render_risk B p = assign ''risk-kv'' (rmap Html (rbind (order_rate B p) (\<lambda>rate. cat (map kv_row (risk_rows B rate p))))) p"


section \<open>The tables\<close>

text \<open>
  \<^verbatim>\<open>xs.sort\<close> with \<^verbatim>\<open>localeCompare\<close> on a key.  Only a text has the method: with two elements or more,
  every key has to be one (which of the two operands of a comparison an engine asks is left open).
\<close>

fun insert_by :: "('a \<Rightarrow> 'a \<Rightarrow> int) \<Rightarrow> 'a \<Rightarrow> 'a list \<Rightarrow> 'a list" where
  "insert_by cmp x [] = [x]"
| "insert_by cmp x (y # ys) = (if cmp x y < 0 then x # y # ys else y # insert_by cmp x ys)"

definition sort_by :: "('a \<Rightarrow> 'a \<Rightarrow> int) \<Rightarrow> 'a list \<Rightarrow> 'a list" where
  "sort_by cmp xs = fold (insert_by cmp) xs []"

fun text_key :: "json \<times> 'v \<Rightarrow> string" where
  "text_key (JStr s, v) = s"
| "text_key (k, v) = []"

definition sorted_rows :: "browser \<Rightarrow> (json \<times> 'v) list \<Rightarrow> 'v list res" where
  "sorted_rows B m =
     (if 2 \<le> length m \<and> \<not> list_all (\<lambda>(k, _). is_str k) m then Inl TypeError
      else Inr (map snd (sort_by (\<lambda>x y. locale_compare B (text_key x) (text_key y)) m)))"

definition td :: "string res \<Rightarrow> string res" where
  "td c = cat [Inr ''<td>'', c, Inr ''</td>'']"

definition tr :: "string res list \<Rightarrow> string res" where
  "tr cells = cat [Inr ''<tr>'', cat (map td cells), Inr ''</tr>'']"

definition empty_row :: "nat \<Rightarrow> string \<Rightarrow> string" where
  \<open>empty_row n t = ''<tr><td colspan="'' @ str_of_nat n @ ''" class="empty">'' @ t @ ''</td></tr>''\<close>

definition feed_span :: "browser \<Rightarrow> json \<Rightarrow> span res" where
  "feed_span B f = (let a = field f ''age_ms''
     in if nullish a then rmap Diff (js_minus (date_now B) (js_or (field f ''ts_ms'') (Some (JInt (date_now B)))))
        else Inr (Given (the a)))"

definition feed_row :: "browser \<Rightarrow> json \<Rightarrow> string res" where
  \<open>feed_row B f = rbind (feed_span B f) (\<lambda>age.
     cat [Inr ''<tr>'', td (esc (field f ''source'')), td (bool_badge (field f ''connected'')),
       Inr ''<td class="'', age_class age, Inr ''">'', agestr age, Inr ''</td>'', td (fmt (field f ''freshness_ms'') 1),
       td (fmt (field f ''msg_rate_hz'') 1), td (num_cell (field f ''gaps'')), td (num_cell (field f ''reconnects'')),
       td (if field f ''valid'' = Some (JBool False) then label ''STALE'' ''red'' else label ''valid'' ''green''), Inr ''</tr>''])\<close>

definition render_feed :: "browser \<Rightarrow> page \<Rightarrow> unit res \<times> page" where
  "render_feed B p = assign ''feed-tbody'' (rmap Html (rbind (sorted_rows B (feeds p)) (\<lambda>rows.
     if rows = [] then Inr (empty_row 8 ''no feed events yet'') else cat (map (feed_row B) rows)))) p"

definition pnl_cell :: "js \<Rightarrow> string res" where
  \<open>pnl_cell pnl = (if nullish pnl then Inr muted
     else rbind (js_greater pnl 0) (\<lambda>gain. rbind (js_less pnl 0) (\<lambda>loss.
       cat [Inr (''<span class="" style="color:'' @ (if gain then ''#3fb950'' else if loss then ''#f85149'' else ''inherit'') @ ''">''),
         esc pnl, Inr ''</span>''])))\<close>

definition strat_row :: "browser \<Rightarrow> jsobj \<Rightarrow> string res" where
  "strat_row B s = (let f = obj_get s in tr [esc (f ''name''),
     (if f ''enabled'' = Some (JBool False) then label ''disabled'' ''gray'' else label ''enabled'' ''green''),
     num_cell (f ''triggers''), tstr B (f ''last_ts''), fmt (f ''edge_signal_cents'') 2, fmt (f ''edge_ack_cents'') 2,
     pnl_cell (f ''shadow_pnl_cents''), fmt (f ''reason'') 0])"

definition render_strat :: "browser \<Rightarrow> page \<Rightarrow> unit res \<times> page" where
  "render_strat B p = assign ''strat-tbody'' (rmap Html (rbind (sorted_rows B (strategies p)) (\<lambda>rows.
     if rows = [] then Inr (empty_row 8 ''no strategy events yet'') else cat (map (strat_row B) rows)))) p"

definition order_status_badge :: "json \<Rightarrow> string res" where
  "order_status_badge ev = (let st = field ev ''status'' in
     rbind (to_lower (js_or st (Some (JStr [])))) (\<lambda>s.
     rbind (js_at_least (field ev ''http_status'') 400) (\<lambda>bad.
     if bad \<or> s = ''rejected'' \<or> s = ''error'' then badge_html (js_or st (Some (JStr ''error''))) ''red''
     else if s = ''would_send'' \<or> s = ''shadow'' then badge_html st ''gray''
     else if s = ''resting'' \<or> s = ''pending'' \<or> s = ''sent'' then badge_html st ''yellow''
     else if s = ''filled'' \<or> s = ''accepted'' \<or> s = ''canceled'' then badge_html st ''green''
     else badge_html (js_or st (Some (JStr DASH))) ''gray'')))"

definition http_cell :: "js \<Rightarrow> string res" where
  "http_cell v = (if \<not> js_true v then Inr muted
     else rbind (js_at_least v 400) (\<lambda>bad. badge_html v (if bad then ''red'' else ''green'')))"

definition order_row :: "browser \<Rightarrow> json \<Rightarrow> string res" where
  "order_row B ev = (let f = field ev in rbind (http_cell (f ''http_status'')) (\<lambda>http.
     tr [tstr B (f ''ts_ms''), esc (f ''strategy''), esc (f ''ticker''), esc (f ''side''), num_cell (f ''price''),
       num_cell (f ''size''), fmt (f ''mode'') 0, order_status_badge ev, Inr http, num_cell (f ''sign_us''),
       fmt (f ''submit_to_ack_ms'') 2, fmt (f ''signal_to_ack_ms'') 2, fmt (f ''reason'') 0]))"

definition render_orders :: "browser \<Rightarrow> page \<Rightarrow> unit res \<times> page" where
  "render_orders B p = assign ''order-tbody'' (rmap Html (
     if orders p = [] then Inr (empty_row 13 ''no order events yet'')
     else cat (map (order_row B) (rev (last_n MAX_ORDERS (orders p)))))) p"


section \<open>The event log\<close>

abbreviation or_empty :: "js \<Rightarrow> string res" where
  "or_empty v \<equiv> js_str (js_or v (Some (JStr [])))"

abbreviation or_dash :: "js \<Rightarrow> string res" where
  "or_dash v \<equiv> js_str (js_coalesce v (Some (JStr DASH)))"

definition log_summary :: "json \<Rightarrow> string res" where
  "log_summary ev = (let f = field ev in
     if has_type ev ''system'' then
       cat [or_empty (f ''component''), Inr ('' '' @ MIDDOT @ '' ''), or_empty (f ''status''), Inr ('' '' @ MIDDOT @ '' ''), or_empty (f ''message'')]
     else if has_type ev ''feed'' then
       cat [or_empty (f ''source''), Inr '' connected='', js_str (f ''connected''), Inr '' fresh='', or_dash (f ''freshness_ms''),
         Inr ''ms gaps='', or_dash (f ''gaps'')]
     else if has_type ev ''order'' then
       cat [or_empty (f ''strategy''), Inr '' '', or_empty (f ''side''), Inr '' '', or_empty (f ''ticker''), Inr '' @'', or_dash (f ''price''),
         Inr ('' '' @ ARROW @ '' ''), or_empty (f ''status''),
         (if js_true (f ''http_status'') then cat [Inr '' ('', js_str (f ''http_status''), Inr '')''] else Inr [])]
     else if has_type ev ''strategy'' then
       cat [or_empty (f ''name''), Inr '' triggers='', or_dash (f ''triggers''), Inr '' edge='', or_dash (f ''edge_signal_cents''),
         Inr (CENT @ '' ''), or_empty (f ''reason'')]
     else if has_type ev ''risk'' then
       cat [or_empty (f ''decision''), Inr '' '', or_empty (f ''reason''), Inr '' '', or_empty (f ''ticker''), Inr '' '', or_empty (f ''strategy'')]
     else Inr (slice_to 120 (stringify compact 0 ev)))"

definition type_badge :: "(string \<times> string) list" where
  "type_badge = [(''system'', ''blue''), (''feed'', ''green''), (''order'', ''yellow''), (''strategy'', ''gray''), (''risk'', ''red'')]"

definition log_row :: "browser \<Rightarrow> json \<times> nat \<Rightarrow> string res" where
  \<open>log_row B = (\<lambda>(ev, i). rbind (js_str (field ev ''type'')) (\<lambda>ty.
     cat [Inr (''<tr class="logline" data-i="'' @ str_of_nat i @ ''">''), td (tstr B (field ev ''ts_ms'')),
       td (badge_html (field ev ''type'') (case js_table_get B type_badge ty of Some c \<Rightarrow> c | None \<Rightarrow> ''gray'')),
       Inr ''<td class="raw">'', rbind (log_summary ev) (\<lambda>t. esc (Some (JStr t))), Inr ''</td></tr>'']))\<close>

definition log_view :: "browser \<Rightarrow> page \<Rightarrow> json list" where
  "log_view B p =
     (let typed = (if log_filter B = [] then event_log p else filter (\<lambda>ev. has_type ev (log_filter B)) (event_log p));
          found = (if lower (log_find B) = [] then typed
            else filter (\<lambda>ev. contains (lower (log_find B)) (lower (stringify compact 0 ev))) typed)
      in rev (last_n LOG_VIEW found))"

definition render_log :: "browser \<Rightarrow> page \<Rightarrow> unit res \<times> page" where
  "render_log B p =
     (if log_pause B then (Inr (), p)
      else let items = log_view B p; p1 = p\<lparr>display := (display p)(''log-total'' := PlainText (str_of_nat (length (event_log p))))\<rparr>
        in if items = [] then (Inr (), p1\<lparr>display := (display p1)(''log-tbody'' := Html (empty_row 3 ''no matching events'')), log_expanded := []\<rparr>)
           else case cat (map (log_row B) (zip items [0..<length items])) of
             Inl e \<Rightarrow> (Inl e, p1)
           | Inr html \<Rightarrow> (Inr (), p1\<lparr>display := (display p1)(''log-tbody'' := Html html), log_items := items, log_expanded := []\<rparr>))"

text \<open>
  A click on row \<open>i\<close> of the table opens or closes the raw event below it; a table without events has no
  such row, although the items of the one before it are still kept.
\<close>

definition raw_row :: "json \<Rightarrow> string" where
  \<open>raw_row ev = ''<td colspan="3"><pre class="json">'' @ escape (stringify (indented 2) 0 ev) @ ''</pre></td>''\<close>

definition click_log :: "nat \<Rightarrow> page \<Rightarrow> page" where
  "click_log i p =
     (if length (log_items p) \<le> i \<or> display p ''log-tbody'' = Html (empty_row 3 ''no matching events'') then p
      else if i \<in> fst ` set (log_expanded p) then p\<lparr>log_expanded := filter (\<lambda>(j, _). j \<noteq> i) (log_expanded p)\<rparr>
      else p\<lparr>log_expanded := log_expanded p @ [(i, raw_row (log_items p ! i))]\<rparr>)"


section \<open>The timers\<close>

definition refresh :: "panel \<Rightarrow> (page \<Rightarrow> unit res \<times> page) \<Rightarrow> page \<Rightarrow> unit res \<times> page" where
  "refresh d act p =
     (if dirty p d then (case act p of
        (Inl e, p') \<Rightarrow> (Inl e, p')
      | (Inr _, p') \<Rightarrow> (Inr (), p'\<lparr>dirty := (dirty p')(d := False)\<rparr>))
      else (Inr (), p))"

definition render_tick :: "browser \<Rightarrow> page \<Rightarrow> unit res \<times> page" where
  "render_tick B = in_order [
     refresh SysPanel (render_sys B),
     refresh RiskPanel (in_order [render_risk B, render_sys B]),
     refresh FeedPanel (render_feed B),
     refresh StratPanel (render_strat B),
     refresh OrderPanel (render_orders B),
     refresh LogPanel (render_log B)]"

definition age_tick :: "page \<Rightarrow> page" where
  "age_tick p = mark FeedPanel (mark SysPanel p)"

definition rate_tick :: "browser \<Rightarrow> page \<Rightarrow> page" where
  "rate_tick B p =
     (let win = filter (\<lambda>t. date_now B - t < 1000) (evt_window p)
      in p\<lparr>evt_window := win, display := (display p)
        (''evt-rate'' := PlainText (str_of_nat (length win) @ '' evt/s''),
         ''evt-count'' := PlainText (str_of_nat (length (event_log p)) @ '' events''))\<rparr>)"

text \<open>What can happen to the page, one thing at a time.\<close>

datatype happening = Event json | RenderTick | AgeTick | RateTick | Click nat

fun page_step :: "browser \<times> happening \<Rightarrow> page \<Rightarrow> page" where
  "page_step (B, Event ev) p = snd (ingest B ev p)"
| "page_step (B, RenderTick) p = snd (render_tick B p)"
| "page_step (B, AgeTick) p = age_tick p"
| "page_step (B, RateTick) p = rate_tick B p"
| "page_step (B, Click i) p = click_log i p"

end
