(* ===== verification/PageFacts.thy ===== *)
theory PageFacts
  imports PageRender
begin

text \<open>
  What holds of the Live tab: its renderers return for every state that events of the expected types
  can lead to, an event that is not of these types can stop them, and text from an event stays text.
\<close>


section \<open>Computations that return\<close>

definition returns :: "'a res \<Rightarrow> bool" where
  "returns r \<longleftrightarrow> (\<exists>x. r = Inr x)"

lemma returns_simps [simp]:
  "returns (Inr x)" "\<not> returns (Inl e)" "returns (rmap f r) \<longleftrightarrow> returns r"
  by (auto simp: returns_def rmap_def rbind_def split: sum.splits)

lemma returns_rbind: "returns (rbind r f) \<longleftrightarrow> (\<exists>x. r = Inr x \<and> returns (f x))"
  by (auto simp: returns_def rbind_def split: sum.splits)

lemma returns_rbindI [intro]: "returns r \<Longrightarrow> (\<And>x. returns (f x)) \<Longrightarrow> returns (rbind r f)"
  by (auto simp: returns_rbind returns_def)

lemma returns_cat [simp]: "returns (cat rs) \<longleftrightarrow> list_all returns rs"
  by (induction rs) (auto simp: returns_rbind, auto simp: returns_def)

lemma returns_traverse: "list_all (\<lambda>x. returns (f x)) xs \<Longrightarrow> returns (traverse f xs)"
  by (induction xs) (auto simp: returns_rbind, auto simp: returns_def)

declare collect.simps [simp del]

text \<open>Values without a property \<^verbatim>\<open>toString\<close>, at any depth, can be converted to text and to a number.\<close>

fun plain :: "json \<Rightarrow> bool"
  and plain_list :: "json list \<Rightarrow> bool"
  and plain_fields :: "fields \<Rightarrow> bool"
where
  "plain (JList xs) = plain_list xs"
| "plain (JObj fs) = (map_of fs ''toString'' = None \<and> plain_fields fs)"
| "plain v = True"
| "plain_list [] = True"
| "plain_list (x # xs) = (plain x \<and> plain_list xs)"
| "plain_fields [] = True"
| "plain_fields ((k, v) # fs) = (plain v \<and> plain_fields fs)"

definition js_plain :: "js \<Rightarrow> bool" where
  "js_plain v = (case v of None \<Rightarrow> True | Some w \<Rightarrow> plain w)"

lemma js_plain_simps [simp]: "js_plain None" "js_plain (Some v) \<longleftrightarrow> plain v"
  by (simp_all add: js_plain_def)

lemma plain_returns: "plain v \<Longrightarrow> returns (json_str v)" "plain_list xs \<Longrightarrow> returns (json_join xs)"
proof (induction v and xs rule: json_str_json_join.induct)
  case (9 x xs)
  then show ?case by (cases "x = JNull"; cases "xs = []") (auto simp: returns_rbind, auto simp: returns_def)
qed auto

lemma returns_json_number: "plain v \<Longrightarrow> returns (json_number v)"
  using plain_returns(1) [of v] by (cases v) simp_all

lemma js_plain_returns [simp]: "js_plain v \<Longrightarrow> returns (js_str v)" "js_plain v \<Longrightarrow> returns (js_number v)"
  by (cases v; simp add: js_str_def js_number_def plain_returns returns_json_number)+

lemma js_plain_or [simp]: "js_plain v \<Longrightarrow> js_plain w \<Longrightarrow> js_plain (js_or v w)" "js_plain v \<Longrightarrow> js_plain w \<Longrightarrow> js_plain (js_coalesce v w)"
  by (simp_all add: js_or_def js_coalesce_def)

lemma returns_esc [simp]: "js_plain v \<Longrightarrow> returns (esc v)"
  by (simp add: esc_def)

lemma returns_compare [simp]:
  "js_plain v \<Longrightarrow> returns (js_greater v n)" "js_plain v \<Longrightarrow> returns (js_less v n)"
  "js_plain v \<Longrightarrow> returns (js_at_least v n)" "js_plain v \<Longrightarrow> returns (js_minus n v)"
  by (simp_all add: js_greater_def js_less_def js_at_least_def js_minus_def)

lemma returns_cells [simp]:
  "js_plain v \<Longrightarrow> returns (badge_html v cls)" "returns (bool_badge v)" "js_plain v \<Longrightarrow> returns (fmt v d)"
  "js_plain v \<Longrightarrow> returns (num_cell v)" "js_plain v \<Longrightarrow> returns (tstr B v)"
  "js_plain v \<Longrightarrow> returns (pnl_cell v)" "js_plain v \<Longrightarrow> returns (http_cell v)" "returns (td c) \<longleftrightarrow> returns c"
  "returns (tr cs) \<longleftrightarrow> list_all returns cs"
  by (auto simp: badge_html_def bool_badge_def fmt_def num_cell_def tstr_def pnl_cell_def http_cell_def td_def tr_def list_all_iff
      split: json.split intro!: returns_rbindI)

lemma returns_spans [simp]: "returns (agestr (Diff n))" "returns (age_class (Diff n))"
  by (auto simp: agestr_def age_class_def returns_rbind split: option.split)


section \<open>Events of the expected types\<close>

text \<open>
  What the renderers expect of an event: names and the status of an order are texts, an age is a
  number, and no value replaces \<^verbatim>\<open>toString\<close>.  Any field may be missing, and any other may be added.
\<close>

definition absent_or :: "(json \<Rightarrow> bool) \<Rightarrow> js \<Rightarrow> bool" where
  "absent_or P v = (case v of None \<Rightarrow> True | Some w \<Rightarrow> \<not> truthy_json w \<or> P w)"

fun is_num :: "json \<Rightarrow> bool" where
  "is_num (JInt i) = True"
| "is_num (JDec m e) = True"
| "is_num _ = False"

definition expected :: "json \<Rightarrow> bool" where
  "expected ev \<longleftrightarrow> plain ev \<and> absent_or is_str (field ev ''source'') \<and> absent_or is_str (field ev ''name'')
     \<and> absent_or is_str (field ev ''status'') \<and> (\<forall>v. field ev ''age_ms'' = Some v \<longrightarrow> v = JNull \<or> is_num v)"

text \<open>The state such events lead to.\<close>

definition obj_plain :: "jsobj \<Rightarrow> bool" where
  "obj_plain x \<longleftrightarrow> plain_fields (fst x) \<and> (case snd x of None \<Rightarrow> True | Some fs \<Rightarrow> plain_fields fs)"

definition page_ok :: "page \<Rightarrow> bool" where
  "page_ok p \<longleftrightarrow> obj_plain (system p) \<and> obj_plain (risk_fields p) \<and> js_plain (start_ts p)
     \<and> list_all (\<lambda>(k, ev). is_str k \<and> expected ev) (feeds p)
     \<and> list_all (\<lambda>(k, x). is_str k \<and> obj_plain x) (strategies p)
     \<and> list_all expected (orders p) \<and> list_all expected (event_log p)"

lemma plain_fields_iff: "plain_fields fs \<longleftrightarrow> (\<forall>(k, v) \<in> set fs. plain v)"
  by (induction fs) auto

lemma plain_map_of: "plain_fields fs \<Longrightarrow> map_of fs k = Some v \<Longrightarrow> plain v"
  by (auto simp: plain_fields_iff dest: map_of_SomeD)

lemma plain_field [simp]: "plain ev \<Longrightarrow> js_plain (field ev k)"
  by (cases ev) (auto simp: js_plain_def plain_map_of split: option.split)

lemma plain_obj_get [simp]: "obj_plain x \<Longrightarrow> js_plain (obj_get x k)"
  by (cases x) (auto simp: obj_plain_def js_plain_def plain_map_of split: option.splits)

lemma plain_fields_fput: "plain v \<Longrightarrow> plain_fields fs \<Longrightarrow> plain_fields (fput k v fs)"
  by (induction k v fs rule: fput.induct) auto

lemma obj_plain_put: "plain v \<Longrightarrow> obj_plain x \<Longrightarrow> obj_plain (obj_put k v x)"
  by (cases x) (auto simp: obj_plain_def obj_put.simps plain_fields_fput split: json.split)

declare obj_put.simps [simp del]

lemma obj_plain_assign: "plain_fields fs \<Longrightarrow> obj_plain x \<Longrightarrow> obj_plain (obj_assign fs x)"
proof (induction fs arbitrary: x)
  case (Cons f fs)
  obtain k v where f: "f = (k, v)" by fastforce
  with Cons.prems have "obj_plain (obj_put k v x)" by (simp add: obj_plain_put)
  then show ?case using Cons f by (simp add: obj_assign_def)
qed (simp add: obj_assign_def)

lemma obj_plain_empty [simp]: "obj_plain empty_obj"
  by (simp add: obj_plain_def empty_obj_def)

lemma map_set_all: "list_all P m \<Longrightarrow> (\<And>k'. same_key k k' \<Longrightarrow> P (k', v)) \<Longrightarrow> P (k, v) \<Longrightarrow> list_all P (map_set k v m)"
  by (induction k v m rule: map_set.induct) auto

lemma same_key_is_str: "same_key k k' \<Longrightarrow> is_str k \<Longrightarrow> is_str k'"
  by (cases k) auto

lemma push_all: "list_all P xs \<Longrightarrow> P x \<Longrightarrow> list_all P (push n x xs)"
  by (auto simp: push_def Let_def list_all_iff dest: in_set_dropD)

lemma map_get_all: "list_all P m \<Longrightarrow> map_get m k = Some v \<Longrightarrow> \<exists>k'. P (k', v)"
  by (auto simp: map_get_def list_all_iff find_Some_iff) (metis nth_mem)

lemma page_ok_start: "page_ok (page_start D)"
  by (simp add: page_ok_def page_start_def)

lemma page_ok_clocks: "page_ok p \<Longrightarrow> expected ev \<Longrightarrow>
    page_ok (mark d (p\<lparr>last_ts := t, evt_window := w, event_log := push n ev (event_log p)\<rparr>))"
  by (simp add: page_ok_def push_all)

lemma page_ok_mark [simp]: "page_ok (p\<lparr>dirty := d\<rparr>) = page_ok p" "page_ok (p\<lparr>display := c\<rparr>) = page_ok p"
  "page_ok (p\<lparr>evt_window := w\<rparr>) = page_ok p" "page_ok (p\<lparr>log_expanded := x\<rparr>) = page_ok p"
  by (simp_all add: page_ok_def)

lemma expected_key: "absent_or is_str v \<Longrightarrow> js_true v \<Longrightarrow> \<exists>s. v = Some (JStr s)"
  by (auto simp: absent_or_def js_true_def split: option.splits elim: is_str.elims)

lemma plain_js_or: "plain ev \<Longrightarrow> plain (event_ts B ev)"
  by (cases ev) (auto simp: event_ts_def js_or_def js_true_def plain_map_of split: option.splits)

lemma page_ok_dispatch:
  assumes "page_ok p" "expected ev" "ev = JObj fs" "plain ts"
  shows "page_ok (snd (dispatch B ts ev fs p))"
proof -
  have fs: "plain_fields fs" "plain_fields (carried fs)" and ev: "plain ev"
    using assms(2,3) by (auto simp: expected_def plain_fields_iff carried_def)
  have sys: "page_ok (snd (on_system ts ev fs p))"
    using assms(1,4) fs by (auto simp: on_system_def Let_def page_ok_def obj_plain_assign js_or_def split: sum.split)
  have feed: "page_ok (on_feed ev p)"
  proof (cases "js_true (field ev ''source'')")
    case True
    then obtain s where "field ev ''source'' = Some (JStr s)" using assms(2) expected_key by (auto simp: expected_def)
    then show ?thesis using assms(1,2)
      by (auto simp: on_feed_def Let_def page_ok_def dest: same_key_is_str intro!: map_set_all)
  qed (simp add: on_feed_def assms(1))
  have strat: "page_ok (on_strategy ts ev fs p)"
  proof (cases "js_true (field ev ''name'')")
    case True
    then obtain s where s: "field ev ''name'' = Some (JStr s)" using assms(2) expected_key by (auto simp: expected_def)
    have prev: "obj_plain (case map_get (strategies p) (JStr s) of None \<Rightarrow> empty_obj | Some x \<Rightarrow> x)"
      using assms(1) map_get_all [of _ "strategies p" "JStr s"] by (fastforce simp: page_ok_def split: option.split)
    then show ?thesis using True s assms(1,4) fs
      by (auto simp: on_strategy_def Let_def page_ok_def obj_plain_def [of "case _ of None \<Rightarrow> _ | Some x \<Rightarrow> x"]
          intro!: map_set_all obj_plain_assign)
  qed (simp add: on_strategy_def assms(1))
  have risk: "page_ok (snd (on_risk B ev fs p))"
    using assms(1) fs by (auto simp: on_risk_def page_ok_def obj_plain_assign split: sum.split)
  have "page_ok (on_order ev p)" using assms(1,2) by (simp add: on_order_def page_ok_def push_all)
  then show ?thesis using sys feed strat risk assms(1) by (simp add: dispatch_def Let_def)
qed

lemma page_ok_ingest: "page_ok p \<Longrightarrow> expected ev \<Longrightarrow> page_ok (snd (ingest B ev p))"
proof (cases "accepted B ev")
  case True
  assume ok: "page_ok p" and ev: "expected ev"
  then have ts: "plain (event_ts B ev)" by (simp add: expected_def plain_js_or)
  obtain fs t where "ev = JObj fs" "ingest B ev p = dispatch B (event_ts B ev) ev fs
       (mark LogPanel (p\<lparr>last_ts := js_max (last_ts p) t, evt_window := evt_window p @ [date_now B],
          event_log := push MAX_LOG ev (event_log p)\<rparr>))"
    using ingest_accepted [OF True] by metis
  then show ?thesis using page_ok_dispatch [OF page_ok_clocks [OF ok ev] ev _ ts] by simp
qed (simp add: ingest_refused)


section \<open>The renderers return\<close>

text \<open>An action on a page in order: it returns, keeps the state in order and touches no flag.\<close>

definition safe :: "(page \<Rightarrow> unit res \<times> page) \<Rightarrow> bool" where
  "safe act \<longleftrightarrow> (\<forall>p. page_ok p \<longrightarrow> fst (act p) = Inr () \<and> page_ok (snd (act p)) \<and> dirty (snd (act p)) = dirty p)"

lemma safeI: "(\<And>p. page_ok p \<Longrightarrow> fst (act p) = Inr () \<and> page_ok (snd (act p)) \<and> dirty (snd (act p)) = dirty p) \<Longrightarrow> safe act"
  by (simp add: safe_def)

lemma safe_assign [intro]: "returns c \<Longrightarrow> safe (assign ident c)"
  by (auto simp: returns_def safe_def assign_def)

lemma safe_in_order [intro]: "list_all safe as \<Longrightarrow> safe (in_order as)"
proof (induction as)
  case (Cons a as)
  then have a: "safe a" and rest: "safe (in_order as)" by auto
  show ?case
  proof (rule safeI)
    fix p assume "page_ok p"
    with a have "fst (a p) = Inr ()" "page_ok (snd (a p))" "dirty (snd (a p)) = dirty p" by (auto simp: safe_def)
    then show "fst (in_order (a # as) p) = Inr () \<and> page_ok (snd (in_order (a # as) p))
        \<and> dirty (snd (in_order (a # as) p)) = dirty p"
      using rest by (cases "a p") (auto simp: safe_def)
  qed
qed (simp add: safe_def)

lemma safe_assign_by:
  "(\<And>p. act p = assign ident (c p) p) \<Longrightarrow> (\<And>p. page_ok p \<Longrightarrow> returns (c p)) \<Longrightarrow> safe act"
  using safe_assign by (fastforce simp: safe_def)

lemma safe_in_order_by:
  "(\<And>p. act p = in_order (as p) p) \<Longrightarrow> (\<And>p. page_ok p \<Longrightarrow> list_all safe (as p)) \<Longrightarrow> safe act"
  using safe_in_order by (fastforce simp: safe_def)

lemma returns_feed_for: "list_all (\<lambda>(k, ev). is_str k \<and> expected ev) m \<Longrightarrow> \<exists>f. feed_for subs m = Inr f \<and> (case f of None \<Rightarrow> True | Some ev \<Rightarrow> expected ev)"
proof (induction m)
  case (Cons x m)
  obtain k ev where x: "x = (k, ev)" by fastforce
  with Cons.prems obtain s where "k = JStr s" by (auto elim: is_str.elims)
  then show ?case using Cons x by (auto simp: to_lower_def)
qed simp

lemma returns_feed_status: "page_ok p \<Longrightarrow> returns (feed_status B subs p)"
proof -
  assume "page_ok p"
  then obtain f where f: "feed_for subs (feeds p) = Inr f" "case f of None \<Rightarrow> True | Some ev \<Rightarrow> expected ev"
    using returns_feed_for [of "feeds p" subs] by (auto simp: page_ok_def)
  then have "returns (status_from_feed B f)"
    by (cases f) (auto simp: status_from_feed_def expected_def intro!: returns_rbindI)
  then show ?thesis using f by (simp add: feed_status_def)
qed

lemma returns_kv_row: "returns (kv_row (k, v)) \<longleftrightarrow> returns v"
  by (simp add: kv_row_def)

lemma safe_render_sys: "safe (render_sys B)"
proof -
  have rows: "list_all (\<lambda>(k, v). returns v) (sys_rows B p)" if "page_ok p" for p
    using that returns_feed_status [OF that]
    by (auto simp: sys_rows_def Let_def process_badge_def uptime_def heartbeat_cell_def kill_badge_def kill_switch_def page_ok_def
        split: option.split intro!: returns_rbindI)
  have "list_all returns (map kv_row (sys_rows B p))" if "page_ok p" for p
    using rows [OF that] by (auto simp: list_all_iff returns_kv_row)
  moreover have "returns (header_mode p)" "returns (header_env p)" "returns (header_kill p)" if "page_ok p" for p
    using that by (simp_all add: header_mode_def header_env_def header_kill_def header_badge_def Let_def page_ok_def)
  ultimately show ?thesis
    by (intro safe_in_order_by [OF render_sys_def]) (auto split: option.split)
qed

lemma js_plain_count: "js_plain (map_option (\<lambda>i. JInt (f i)) n)"
  by (cases n) simp_all

lemma safe_render_risk: "safe (render_risk B)"
proof -
  have rate: "returns (order_rate B p)" if "page_ok p" for p
    using that by (auto simp: order_rate_def recent_order_def page_ok_def list_all_iff expected_def intro!: returns_traverse)
  have rows: "list_all (\<lambda>(k, v). returns v) (risk_rows B n p)" if "page_ok p" for p n
    using that by (simp add: risk_rows_def Let_def reject_badge_def kill_badge_def page_ok_def js_plain_count)
  have "list_all returns (map kv_row (risk_rows B n p))" if "page_ok p" for p n
    using rows [OF that, of n] by (auto simp: list_all_iff returns_kv_row)
  then show ?thesis using rate by (intro safe_assign_by [OF render_risk_def]) (auto intro!: returns_rbindI)
qed

lemma set_insert_by: "set (insert_by cmp x xs) = insert x (set xs)"
  by (induction xs) auto

lemma set_sort_by: "set (sort_by cmp xs) = set xs"
proof -
  have "set (fold (insert_by cmp) xs ys) = set xs \<union> set ys" for ys
    by (induction xs arbitrary: ys) (auto simp: set_insert_by)
  then show ?thesis by (simp add: sort_by_def)
qed

lemma sorted_rows_all:
  assumes "list_all (\<lambda>(k, v). is_str k \<and> P v) m"
  shows "\<exists>rows. sorted_rows B m = Inr rows \<and> list_all P rows"
  using assms by (auto simp: sorted_rows_def list_all_iff set_sort_by)

lemma returns_feed_row: "expected f \<Longrightarrow> returns (feed_row B f)"
proof -
  assume f: "expected f"
  have "returns (age_class a) \<and> returns (agestr a)" if "feed_span B f = Inr a" for a
  proof (cases "nullish (field f ''age_ms'')")
    case True
    then show ?thesis using that f by (auto simp: feed_span_def Let_def rmap_def rbind_def split: sum.splits)
  next
    case False
    then have "is_num (the (field f ''age_ms''))" using f by (auto simp: expected_def nullish_def)
    then show ?thesis using that False
      by (auto simp: feed_span_def Let_def age_class_def agestr_def returns_rbind elim!: is_num.elims)
  qed
  moreover have "returns (feed_span B f)" using f by (auto simp: feed_span_def Let_def expected_def)
  ultimately show ?thesis using f by (auto simp: feed_row_def expected_def returns_def [of "feed_span B f"])
qed

lemma safe_render_feed: "safe (render_feed B)"
proof -
  have "returns (rbind (sorted_rows B (feeds p)) (\<lambda>rows.
      if rows = [] then Inr (empty_row 8 ''no feed events yet'') else cat (map (feed_row B) rows)))" if "page_ok p" for p
    using sorted_rows_all [of expected "feeds p" B] that by (auto simp: page_ok_def list_all_iff returns_feed_row)
  then show ?thesis by (intro safe_assign_by [OF render_feed_def]) simp
qed

lemma safe_render_strat: "safe (render_strat B)"
proof -
  have "returns (rbind (sorted_rows B (strategies p)) (\<lambda>rows.
      if rows = [] then Inr (empty_row 8 ''no strategy events yet'') else cat (map (strat_row B) rows)))" if "page_ok p" for p
    using sorted_rows_all [of obj_plain "strategies p" B] that by (auto simp: page_ok_def list_all_iff strat_row_def Let_def)
  then show ?thesis by (intro safe_assign_by [OF render_strat_def]) simp
qed

lemma returns_order_status: "expected ev \<Longrightarrow> returns (order_status_badge ev)"
proof -
  assume ev: "expected ev"
  then have "js_true (field ev ''status'') \<Longrightarrow> \<exists>s. field ev ''status'' = Some (JStr s)"
    using expected_key by (auto simp: expected_def)
  then have "returns (to_lower (js_or (field ev ''status'') (Some (JStr []))))"
    by (auto simp: js_or_def to_lower_def)
  then show ?thesis using ev by (auto simp: order_status_badge_def Let_def expected_def intro!: returns_rbindI)
qed

lemma safe_render_orders: "safe (render_orders B)"
proof -
  have row: "returns (order_row B ev)" if "expected ev" for ev
    using that returns_order_status [OF that] by (auto simp: order_row_def Let_def expected_def intro!: returns_rbindI)
  have "list_all returns (map (order_row B) (rev (last_n n (orders p))))" if "page_ok p" for p n
    using that row by (auto simp: list_all_iff page_ok_def last_n_def dest: in_set_dropD)
  then show ?thesis by (intro safe_assign_by [OF render_orders_def]) simp
qed

lemma returns_log_row: "expected ev \<Longrightarrow> returns (log_row B (ev, i))"
proof -
  assume "expected ev"
  then have "js_plain (field ev k)" for k by (simp add: expected_def)
  moreover from this have "returns (log_summary ev)" by (simp add: log_summary_def Let_def)
  ultimately show ?thesis by (auto simp: log_row_def intro!: returns_rbindI)
qed

lemma safe_render_log: "safe (render_log B)"
proof (rule safeI)
  fix p assume ok: "page_ok p"
  have "set (log_view B p) \<subseteq> set (event_log p)"
    by (auto simp: log_view_def Let_def last_n_def dest: in_set_dropD split: if_splits)
  then have "list_all expected (log_view B p)" using ok by (auto simp: page_ok_def list_all_iff)
  then have "returns (cat (map (log_row B) (zip (log_view B p) [0..<length (log_view B p)])))"
    using returns_log_row by (fastforce simp: list_all_iff dest: set_zip_leftD)
  then obtain html where "cat (map (log_row B) (zip (log_view B p) [0..<length (log_view B p)])) = Inr html"
    unfolding returns_def by blast
  then show "fst (render_log B p) = Inr () \<and> page_ok (snd (render_log B p)) \<and> dirty (snd (render_log B p)) = dirty p"
    using ok unfolding render_log_def Let_def by (simp add: page_ok_def)
qed

lemma refresh_safe:
  assumes "safe act" "page_ok p"
  shows "fst (refresh d act p) = Inr ()" "page_ok (snd (refresh d act p))" "dirty (snd (refresh d act p)) = (dirty p)(d := False)"
proof -
  obtain p' where p': "act p = (Inr (), p')" "page_ok p'" "dirty p' = dirty p"
    using assms by (cases "act p") (auto simp: safe_def)
  have "(dirty p)(d := False) = dirty p" if "\<not> dirty p d" using that by (auto simp: fun_eq_iff)
  then show "fst (refresh d act p) = Inr ()" "page_ok (snd (refresh d act p))" "dirty (snd (refresh d act p)) = (dirty p)(d := False)"
    using assms(2) p' by (simp_all add: refresh_def)
qed

lemma in_order_refresh:
  assumes "list_all (\<lambda>(d, act). safe act) das" "page_ok p"
  shows "fst (in_order (map (\<lambda>(d, act). refresh d act) das) p) = Inr ()
    \<and> page_ok (snd (in_order (map (\<lambda>(d, act). refresh d act) das) p))
    \<and> (\<forall>d. dirty (snd (in_order (map (\<lambda>(d, act). refresh d act) das) p)) d \<longleftrightarrow> dirty p d \<and> d \<notin> fst ` set das)"
  using assms
proof (induction das arbitrary: p)
  case (Cons da das)
  obtain d act where da: "da = (d, act)" by fastforce
  from Cons.prems have "safe act" by (simp add: da)
  note refresh_safe [OF this Cons.prems(2), of d]
  then show ?case using Cons.IH [of "snd (refresh d act p)"] Cons.prems(1)
    by (cases "refresh d act p") (auto simp: da)
qed simp

text \<open>A turn of the render timer on a page in order returns and leaves nothing to draw.\<close>

lemma render_tick_returns:
  assumes "page_ok p"
  shows "fst (render_tick B p) = Inr ()" "page_ok (snd (render_tick B p))" "\<not> dirty (snd (render_tick B p)) d"
proof -
  let ?das = "[(SysPanel, render_sys B), (RiskPanel, in_order [render_risk B, render_sys B]), (FeedPanel, render_feed B),
    (StratPanel, render_strat B), (OrderPanel, render_orders B), (LogPanel, render_log B)]"
  have "list_all (\<lambda>(d, act). safe act) ?das"
    using safe_render_sys safe_render_risk safe_render_feed safe_render_strat safe_render_orders safe_render_log
      safe_in_order [of "[render_risk B, render_sys B]"] by simp
  moreover have "render_tick B = in_order (map (\<lambda>(d, act). refresh d act) ?das)" by (simp add: render_tick_def)
  moreover have "d \<in> {SysPanel, RiskPanel, FeedPanel, StratPanel, OrderPanel, LogPanel}" by (cases d) simp_all
  ultimately show "fst (render_tick B p) = Inr ()" "page_ok (snd (render_tick B p))" "\<not> dirty (snd (render_tick B p)) d"
    using in_order_refresh [of ?das p] assms by auto
qed

end
