(* ===== verification/PageBehaviour.thy ===== *)
theory PageBehaviour
  imports PageFacts
begin

text \<open>
  The page over time: whatever the timers and clicks do in between, the data of the page is a function
  of the events it was given; and what an event of an unexpected type does to the tables.
\<close>


section \<open>Drawing changes no data\<close>

text \<open>A page without what is drawn, the flags and the clock of the rate meter.\<close>

definition page_data :: "page \<Rightarrow> page" where
  "page_data p = p\<lparr>evt_window := [], dirty := (\<lambda>_. False), display := (\<lambda>_. Html []), log_items := [], log_expanded := []\<rparr>"

lemma data_updates [simp]:
  "page_data (p\<lparr>dirty := d\<rparr>) = page_data p" "page_data (p\<lparr>display := c\<rparr>) = page_data p" "page_data (p\<lparr>log_items := l\<rparr>) = page_data p"
  "page_data (p\<lparr>log_expanded := x\<rparr>) = page_data p" "page_data (p\<lparr>evt_window := w\<rparr>) = page_data p"
  by (simp_all add: page_data_def)

lemma data_fields:
  "event_log (page_data p) = event_log p" "orders (page_data p) = orders p" "feeds (page_data p) = feeds p" "rejects (page_data p) = rejects p"
  by (simp_all add: page_data_def)

lemma data_eqD: "page_data p = page_data q \<Longrightarrow> event_log p = event_log q \<and> orders p = orders q \<and> feeds p = feeds q \<and> rejects p = rejects q"
  by (metis data_fields)

text \<open>What an action leaves alone, carried through statements in order and through the flags.\<close>

definition keeps :: "(page \<Rightarrow> 'v) \<Rightarrow> (page \<Rightarrow> unit res \<times> page) \<Rightarrow> bool" where
  "keeps view act \<longleftrightarrow> (\<forall>p. view (snd (act p)) = view p)"

lemma keeps_assign: "(\<And>p c. view (p\<lparr>display := (display p)(ident := c)\<rparr>) = view p) \<Longrightarrow> keeps view (assign ident c)"
  by (auto simp: keeps_def assign_def split: sum.split)

lemma keeps_in_order: "list_all (keeps view) as \<Longrightarrow> keeps view (in_order as)"
proof (induction as)
  case (Cons a as)
  have "view (snd (in_order (a # as) p)) = view p" for p
  proof -
    obtain r q where q: "a p = (r, q)" by fastforce
    moreover have "keeps view a" using Cons.prems by simp
    ultimately have "view q = view p" unfolding keeps_def by (metis snd_conv)
    then show ?thesis using q Cons by (cases r) (simp_all add: keeps_def)
  qed
  then show ?case by (simp add: keeps_def)
qed (simp add: keeps_def)

lemma keeps_refresh:
  assumes "keeps view act" "\<And>p. view (p\<lparr>dirty := (dirty p)(d := False)\<rparr>) = view p"
  shows "keeps view (refresh d act)"
proof -
  have "view (snd (refresh d act p)) = view p" for p
  proof -
    obtain r q where q: "act p = (r, q)" by fastforce
    then have "view q = view p" using assms(1) unfolding keeps_def by (metis snd_conv)
    then show ?thesis using q assms(2) by (cases r) (simp_all add: refresh_def)
  qed
  then show ?thesis by (simp add: keeps_def)
qed

text \<open>A view that no assignment of the renderers before the log's can change.\<close>

lemma keeps_renderers:
  assumes "\<And>p ident c. ident \<noteq> ''log-tbody'' \<Longrightarrow> view (p\<lparr>display := (display p)(ident := c)\<rparr>) = view p"
  shows "keeps view (render_sys B)" "keeps view (render_risk B)" "keeps view (render_feed B)" "keeps view (render_strat B)"
    "keeps view (render_orders B)"
proof -
  have one: "keeps view (assign ident c)" if "ident \<noteq> ''log-tbody''" for ident c
    using assms that by (intro keeps_assign) blast
  have "keeps view (in_order [assign ''sys-kv'' c1, assign ''sys-heartbeat'' c2, assign ''hdr-mode'' c3, assign ''hdr-env'' c4, assign ''hdr-kill'' c5])"
    for c1 c2 c3 c4 c5
    by (intro keeps_in_order) (simp add: one)
  then show "keeps view (render_sys B)" by (simp add: keeps_def render_sys_def)
  have "keeps view (assign ''risk-kv'' c)" "keeps view (assign ''feed-tbody'' c)" "keeps view (assign ''strat-tbody'' c)"
    "keeps view (assign ''order-tbody'' c)" for c
    by (simp_all add: one)
  then show "keeps view (render_risk B)" "keeps view (render_feed B)" "keeps view (render_strat B)" "keeps view (render_orders B)"
    by (simp_all add: keeps_def render_risk_def render_feed_def render_strat_def render_orders_def)
qed

lemma draws_render_log: "keeps page_data (render_log B)"
  by (simp add: keeps_def render_log_def Let_def split: sum.split)

lemma draws_render_tick: "keeps page_data (render_tick B)"
  using keeps_renderers [of page_data B] draws_render_log [of B] unfolding render_tick_def
  by (intro keeps_in_order) (simp add: keeps_refresh keeps_in_order)



section \<open>The data as a function of the events\<close>

fun event_of :: "browser \<times> happening \<Rightarrow> (browser \<times> json) option" where
  "event_of (B, Event ev) = Some (B, ev)"
| "event_of (B, h) = None"

definition events :: "(browser \<times> happening) list \<Rightarrow> (browser \<times> json) list" where
  "events hs = List.map_filter event_of hs"

text \<open>A part of the page that drawing leaves alone is the same with the drawing left out.\<close>

lemma event_step: "event_of h = Some e \<Longrightarrow> page_step h p = take_in e p"
  by (cases h rule: event_of.cases) auto

lemma quiet_step: "event_of h = None \<Longrightarrow> page_data (page_step h p) = page_data p"
  using draws_render_tick
  by (cases h rule: event_of.cases) (simp_all add: keeps_def age_tick_def rate_tick_def Let_def click_log_def)

interpretation page_log: keeps_last page_step event_log
    "\<lambda>h. case event_of h of Some (B, ev) \<Rightarrow> if accepted B ev then Some ev else None | None \<Rightarrow> None" MAX_LOG
proof
  fix h p
  show "event_log (page_step h p) = (case case event_of h of Some (B, ev) \<Rightarrow> if accepted B ev then Some ev else None | None \<Rightarrow> None of
      None \<Rightarrow> event_log p | Some x \<Rightarrow> push MAX_LOG x (event_log p))"
    using log_ring.view_step data_eqD [OF quiet_step, of h p] by (cases "event_of h") (auto simp: event_step)
qed

interpretation page_orders: keeps_last page_step orders
    "\<lambda>h. case event_of h of Some (B, ev) \<Rightarrow> if accepted B ev \<and> has_type ev ''order'' then Some ev else None | None \<Rightarrow> None" MAX_ORDERS
proof
  fix h p
  show "orders (page_step h p) = (case case event_of h of Some (B, ev) \<Rightarrow> if accepted B ev \<and> has_type ev ''order'' then Some ev else None | None \<Rightarrow> None of
      None \<Rightarrow> orders p | Some x \<Rightarrow> push MAX_ORDERS x (orders p))"
    using order_ring.view_step data_eqD [OF quiet_step, of h p] by (cases "event_of h") (auto simp: event_step)
qed

interpretation page_feeds: holds_latest page_step feed_of "\<lambda>h. case event_of h of Some e \<Rightarrow> feed_given e | None \<Rightarrow> None"
proof
  fix h p k
  show "feed_of (page_step h p) k = (case case event_of h of Some e \<Rightarrow> feed_given e | None \<Rightarrow> None of
      Some (k', v) \<Rightarrow> if k' = k then Some v else feed_of p k | None \<Rightarrow> feed_of p k)"
    using feed_map.look_step data_eqD [OF quiet_step, of h p]
    by (cases "event_of h") (auto simp: event_step feed_of_def)
qed

interpretation page_rejects: step_counter page_step "\<lambda>p. reject_count p k" "\<lambda>h. case event_of h of Some e \<Rightarrow> counted_as k e | None \<Rightarrow> False"
  for k
proof
  fix h p
  show "reject_count (page_step h p) k = reject_count p k + of_bool (case event_of h of Some e \<Rightarrow> counted_as k e | None \<Rightarrow> False)"
    using reject_counter.total_step data_eqD [OF quiet_step, of h p]
    by (cases "event_of h") (auto simp: event_step reject_count_def)
qed

lemma map_filter_events:
  "List.map_filter (\<lambda>h. case event_of h of Some e \<Rightarrow> f e | None \<Rightarrow> None) hs = List.map_filter f (events hs)"
  by (induction hs) (auto simp: events_def List.map_filter_def split: option.splits)

lemma filter_events:
  "length (filter (\<lambda>h. case event_of h of Some e \<Rightarrow> P e | None \<Rightarrow> False) hs) = length (filter P (events hs))"
  by (induction hs) (auto simp: events_def List.map_filter_def split: option.splits)

lemma map_filter_guard: "List.map_filter (\<lambda>x. if P x then Some (f x) else None) xs = map f (filter P xs)"
  by (induction xs) (auto simp: List.map_filter_def)


section \<open>Pages in order\<close>

definition expected_events :: "(browser \<times> happening) list \<Rightarrow> bool" where
  "expected_events hs \<longleftrightarrow> list_all (\<lambda>(B, ev). expected ev) (events hs)"

lemma page_ok_step: "page_ok p \<Longrightarrow> list_all (\<lambda>(B, ev). expected ev) (events [h]) \<Longrightarrow> page_ok (page_step h p)"
proof -
  assume p: "page_ok p" and e: "list_all (\<lambda>(B, ev). expected ev) (events [h])"
  obtain B x where h: "h = (B, x)" by (cases h)
  show ?thesis
  proof (cases x)
    case (Click i)
    then show ?thesis using p by (simp add: h click_log_def page_ok_def)
  qed (use p e in \<open>simp_all add: h events_def List.map_filter_def page_ok_ingest render_tick_returns age_tick_def rate_tick_def Let_def\<close>)
qed

lemma events_Cons: "events (h # hs) = events [h] @ events hs"
  by (simp add: events_def List.map_filter_def)

lemma page_ok_steps: "page_ok p \<Longrightarrow> expected_events hs \<Longrightarrow> page_ok (fold page_step hs p)"
proof (induction hs arbitrary: p)
  case (Cons h hs)
  then show ?case using page_ok_step [of p h] events_Cons [of h hs] by (simp add: expected_events_def)
qed simp


section \<open>An event that stops the tables\<close>

text \<open>An order whose status is neither missing nor a text: the method \<^verbatim>\<open>toLowerCase\<close> is asked of it.\<close>

definition bad_status :: "json \<Rightarrow> bool" where
  "bad_status ev \<longleftrightarrow> js_true (field ev ''status'') \<and> \<not> is_str (the (field ev ''status''))"

lemma bad_status_raises: "bad_status ev \<Longrightarrow> \<not> returns (order_row B ev)"
proof -
  assume "bad_status ev"
  then have "\<not> returns (to_lower (js_or (field ev ''status'') (Some (JStr []))))"
    by (auto simp: bad_status_def js_or_def to_lower_def js_true_def split: option.splits json.split)
  then have "\<not> returns (order_status_badge ev)"
    by (metis (no_types, lifting) order_status_badge_def returns_rbind returns_def)
  then show ?thesis by (auto simp: order_row_def Let_def returns_rbind)
qed

lemma render_orders_raises:
  assumes "ev \<in> set (last_n MAX_ORDERS (orders p))" "bad_status ev"
  shows "\<exists>e. render_orders B p = (Inl e, p)"
proof -
  have ne: "orders p \<noteq> []" using assms(1) by (auto simp: last_n_def)
  have "\<not> returns (cat (map (order_row B) (rev (last_n MAX_ORDERS (orders p)))))"
    using assms bad_status_raises by (auto simp: list_all_iff)
  then obtain e where "cat (map (order_row B) (rev (last_n MAX_ORDERS (orders p)))) = Inl e"
    by (metis returns_def sum.exhaust)
  then show ?thesis using ne by (simp add: render_orders_def assign_def)
qed

lemma in_order_append: "in_order (as @ bs) p = (case in_order as p of (Inl e, p') \<Rightarrow> (Inl e, p') | (Inr _, p') \<Rightarrow> in_order bs p')"
  by (induction as arbitrary: p) (auto split: prod.split sum.split)

definition tables_stopped :: "page \<Rightarrow> bool" where
  "tables_stopped p \<longleftrightarrow> dirty p OrderPanel \<and> (\<exists>ev \<in> set (last_n MAX_ORDERS (orders p)). bad_status ev)"

lemma stopped_tick:
  assumes "tables_stopped p"
  shows "\<not> returns (fst (render_tick B p))" "tables_stopped (snd (render_tick B p))"
    "display (snd (render_tick B p)) ''log-tbody'' = display p ''log-tbody''"
proof -
  let ?as = "[refresh SysPanel (render_sys B), refresh RiskPanel (in_order [render_risk B, render_sys B]),
    refresh FeedPanel (render_feed B), refresh StratPanel (render_strat B)]"
  let ?view = "\<lambda>p. (display p ''log-tbody'', dirty p OrderPanel, orders p)"
  have "keeps ?view (in_order ?as)"
    using keeps_renderers [of ?view B] by (intro keeps_in_order) (simp add: keeps_refresh keeps_in_order)
  moreover obtain r q where q: "in_order ?as p = (r, q)" by fastforce
  ultimately have "?view q = ?view p" unfolding keeps_def by (metis snd_conv)
  then have same: "display q ''log-tbody'' = display p ''log-tbody''" "dirty q OrderPanel = dirty p OrderPanel" "orders q = orders p"
    by simp_all
  then obtain e where "render_orders B q = (Inl e, q)"
    using assms render_orders_raises [of _ q B] by (auto simp: tables_stopped_def)
  then have "refresh OrderPanel (render_orders B) q = (Inl e, q)"
    using assms same by (simp add: tables_stopped_def refresh_def)
  then obtain e' where "render_tick B p = (Inl e', q)"
    using q in_order_append [of ?as "[refresh OrderPanel (render_orders B), refresh LogPanel (render_log B)]" p]
    by (cases r) (auto simp: render_tick_def)
  then show "\<not> returns (fst (render_tick B p))" "tables_stopped (snd (render_tick B p))"
    "display (snd (render_tick B p)) ''log-tbody'' = display p ''log-tbody''"
    using same assms by (simp_all add: tables_stopped_def)
qed


text \<open>As long as the order is among the last 200, nothing that happens gets the log drawn again.\<close>

lemma last_n_member: "x \<in> set ys \<Longrightarrow> length zs < n \<Longrightarrow> x \<in> set (last_n n (xs @ x # zs))"
  by (auto simp: last_n_def Suc_diff_le)

lemma order_flag_step:
  assumes "dirty p OrderPanel" "\<And>B. h \<noteq> (B, RenderTick)"
  shows "dirty (page_step h p) OrderPanel"
proof (cases h rule: event_of.cases)
  case (1 B ev)
  have "dirty (snd (dispatch B ts ev fs q)) OrderPanel" if "dirty q OrderPanel" for ts fs q
    using that by (simp add: handler_defs split: sum.split)
  then show ?thesis using 1 assms(1)
    by (cases "accepted B ev") (auto simp: ingest_refused elim!: ingest_accepted [where p = p])
qed (use assms in \<open>auto simp: age_tick_def rate_tick_def click_log_def Let_def\<close>)

lemma log_table_step: "(\<And>B. h \<noteq> (B, RenderTick)) \<Longrightarrow> display (page_step h p) ''log-tbody'' = display p ''log-tbody''"
proof (cases h rule: event_of.cases)
  case (1 B ev)
  then show ?thesis
    by (cases "accepted B ev") (auto simp: ingest_refused dispatch_clocks elim!: ingest_accepted [where p = p])
qed (auto simp: age_tick_def rate_tick_def click_log_def Let_def)

definition order_events :: "(browser \<times> json) list \<Rightarrow> json list" where
  "order_events es = map snd (filter (\<lambda>(B, ev). accepted B ev \<and> has_type ev ''order'') es)"

lemma page_orders_fold: "length (orders p) \<le> MAX_ORDERS \<Longrightarrow>
    orders (fold page_step hs p) = last_n MAX_ORDERS (orders p @ order_events (events hs))"
proof -
  have "List.map_filter (\<lambda>(B, ev). if accepted B ev \<and> has_type ev ''order'' then Some ev else None) es = order_events es" for es
    using map_filter_guard [of "\<lambda>(B, ev). accepted B ev \<and> has_type ev ''order''" snd es]
    by (simp add: order_events_def case_prod_unfold)
  moreover assume "length (orders p) \<le> MAX_ORDERS"
  ultimately show ?thesis using page_orders.view_fold [of p hs] by (simp add: map_filter_events)
qed

lemma stopped_until_pushed_out:
  assumes "tables_stopped p" "orders p = xs @ [ev]" "bad_status ev" "length (orders p) \<le> MAX_ORDERS"
    and "length (order_events (events hs)) < MAX_ORDERS"
  shows "tables_stopped (fold page_step hs p) \<and> display (fold page_step hs p) ''log-tbody'' = display p ''log-tbody''"
  using assms(5)
proof (induction hs rule: rev_induct)
  case Nil
  then show ?case using assms(1) by simp
next
  case (snoc h hs)
  let ?q = "fold page_step hs p"
  have sub: "order_events (events (hs @ [h])) = order_events (events hs) @ order_events (events [h])"
    by (simp add: order_events_def events_def List.map_filter_def)
  then have IH: "tables_stopped ?q" "display ?q ''log-tbody'' = display p ''log-tbody''" using snoc by simp_all
  show ?case
  proof (cases "\<exists>B. h = (B, RenderTick)")
    case True
    then show ?thesis using stopped_tick [OF IH(1)] IH(2) by auto
  next
    case False
    have "orders (fold page_step (hs @ [h]) p) = last_n MAX_ORDERS ((xs @ [ev]) @ order_events (events (hs @ [h])))"
      using page_orders_fold [OF assms(4), of "hs @ [h]"] assms(2) by simp
    then have "ev \<in> set (orders (fold page_step (hs @ [h]) p))"
      using last_n_member [of ev "[ev]" "order_events (events (hs @ [h]))" MAX_ORDERS xs] snoc.prems by simp
    moreover have "length (orders (fold page_step (hs @ [h]) p)) \<le> MAX_ORDERS"
      by (rule page_orders.bounded [OF assms(4)])
    ultimately have "\<exists>ev \<in> set (last_n MAX_ORDERS (orders (fold page_step (hs @ [h]) p))). bad_status ev"
      using assms(3) by (metis last_n_id)
    moreover have "dirty (fold page_step (hs @ [h]) p) OrderPanel"
      using order_flag_step [of ?q h] IH(1) False by (auto simp: tables_stopped_def)
    ultimately show ?thesis using log_table_step [of h ?q] False IH(2) by (simp add: tables_stopped_def)
  qed
qed


section \<open>The kill switch\<close>

lemma own_put: "k \<noteq> ''__proto__'' \<Longrightarrow> map_of (fst (obj_put j v x)) k = (if j = k then Some v else map_of (fst x) k)"
  by (cases x) (auto simp: obj_put.simps map_of_fput split: json.split)

lemma own_assign: "k \<noteq> ''__proto__'' \<Longrightarrow> map_of (fst (obj_assign fs x)) k = (map_of (fst x) ++ map_of (rev fs)) k"
proof (induction fs arbitrary: x)
  case (Cons f fs)
  then show ?case by (cases f) (simp add: obj_assign_def own_put map_add_def split: option.split)
qed (simp add: obj_assign_def)

lemma obj_get_own: "map_of (fst x) k = Some v \<Longrightarrow> obj_get x k = Some v"
  by (cases x) simp

lemma map_of_rev_None: "map_of (rev fs) k = None \<longleftrightarrow> map_of fs k = None"
  by (simp add: map_of_eq_None_iff)

text \<open>A value of a risk event that is not one of the event's own fields is carried over.\<close>

lemma risk_field_carried:
  assumes "accepted B ev" "has_type ev ''risk''" "is_reject ev \<Longrightarrow> returns (reject_key B (field ev ''reason''))"
    "ev = JObj fs" "keys_distinct fs" "map_of fs k = Some v"
    "k \<notin> {''type'', ''ts_ms'', ''decision'', ''reason'', ''ticker'', ''strategy'', ''__proto__''}"
  shows "obj_get (risk_fields (snd (ingest B ev p))) k = Some v" "system (snd (ingest B ev p)) = system p"
proof -
  have "keys_distinct (rev (carried fs))" using assms(5) by (simp add: carried_def distinct_map_filter flip: rev_map)
  moreover have "(k, v) \<in> set (rev (carried fs))" using assms(6,7) by (auto simp: carried_def dest: map_of_SomeD)
  ultimately have "map_of (rev (carried fs)) k = Some v" by simp
  then have "obj_get (obj_assign (carried fs) (risk_fields p)) k = Some v" using assms(7) by (intro obj_get_own) (simp add: own_assign)
  then show "obj_get (risk_fields (snd (ingest B ev p))) k = Some v" "system (snd (ingest B ev p)) = system p"
    using assms(1-4) by (auto simp: dispatch_def on_risk_def returns_def rmap_def rbind_def split: sum.splits elim!: ingest_accepted [where p = p])
qed


section \<open>Text from an event stays text\<close>

lemma cat_Inr: "cat (r # rs) = Inr s \<longleftrightarrow> (\<exists>a b. r = Inr a \<and> cat rs = Inr b \<and> s = a @ b)" "cat [] = Inr s \<longleftrightarrow> s = []"
  by (auto simp: collect.simps rmap_def rbind_def split: sum.splits)

text \<open>The number of tags in a piece of HTML, by their opening bracket.\<close>

definition tag_count :: "string \<Rightarrow> nat" where
  "tag_count s = count_list s (CHR ''<'')"

lemma tag_count_append [simp]: "tag_count (s @ t) = tag_count s + tag_count t"
  by (simp add: tag_count_def)

lemma tag_count_Nil [simp]: "tag_count [] = 0"
  by (simp add: tag_count_def)

lemma tag_count_Cons [simp]: "tag_count (c # s) = of_bool (c = CHR ''<'') + tag_count s"
  by (simp add: tag_count_def)

lemma tag_count_0_iff: "tag_count s = 0 \<longleftrightarrow> CHR ''<'' \<notin> set s"
  by (simp add: tag_count_def count_list_0_iff)

lemma tag_count_esc: "esc v = Inr s \<Longrightarrow> tag_count s = 0"
  using esc_no_markup by (simp add: tag_count_0_iff)

lemma tag_count_str_of_nat [simp]: "tag_count (str_of_nat n) = 0"
  using str_of_nat_digits [of n] by (auto simp: tag_count_0_iff is_digit_def less_eq_char_def)

lemma tag_count_num_str [simp]: "tag_count (num_str x) = 0"
proof -
  have n: "CHR ''<'' \<notin> set (str_of_nat n)" for n using tag_count_0_iff [THEN iffD1, OF tag_count_str_of_nat] .
  have d: "CHR ''<'' \<notin> set (rev (dropWhile P (rev (str_of_nat n))))" for P n
    using n [of n] by (auto dest: set_dropWhileD)
  then have "CHR ''<'' \<notin> set (tl (rev (dropWhile P (rev (str_of_nat n)))))" for P n
    by (metis list.set_sel(2) list.sel(2))
  with d have "CHR ''<'' \<notin> set (num_str x)" using n
    by (cases x) (auto simp: Let_def split: prod.splits if_splits dest: in_set_takeD in_set_dropD)
  then show ?thesis by (simp add: tag_count_0_iff)
qed

text \<open>A browser whose dates and built-in functions have no markup in their text.\<close>

definition tidy_browser :: "browser \<Rightarrow> bool" where
  "tidy_browser B \<longleftrightarrow> (\<forall>v. tag_count (time_text B v) = 0) \<and> (\<forall>k. tag_count (native_text B k) = 0)"

lemma tag_count_tstr: "tidy_browser B \<Longrightarrow> tstr B v = Inr s \<Longrightarrow> tag_count s = 0"
proof -
  have "tag_count (pad_start n t) = tag_count t" for n t by (simp add: pad_start_def tag_count_0_iff tag_count_def)
  then show "tidy_browser B \<Longrightarrow> tstr B v = Inr s \<Longrightarrow> tag_count s = 0"
    by (auto simp: tstr_def tidy_browser_def DASH_def rmap_def rbind_def split: if_splits sum.splits option.split)
qed

lemma log_row_shape:
  assumes "tidy_browser B" "log_row B (ev, i) = Inr html"
  shows "tag_count html = 10"
proof -
  obtain ty a b c where
      html: "html = ''<tr class='' @ [CHR 0x22] @ ''logline'' @ [CHR 0x22] @ '' data-i='' @ [CHR 0x22] @ str_of_nat i @ [CHR 0x22] @ ''>'' @
        ''<td>'' @ a @ ''</td>'' @ ''<td>'' @ b @ ''</td>'' @ ''<td class='' @ [CHR 0x22] @ ''raw'' @ [CHR 0x22] @ ''>'' @ c @ ''</td></tr>''"
    and a: "tstr B (field ev ''ts_ms'') = Inr a"
    and b: "badge_html (field ev ''type'') (case js_table_get B type_badge ty of Some c \<Rightarrow> c | None \<Rightarrow> ''gray'') = Inr b"
    and c: "rbind (log_summary ev) (\<lambda>t. esc (Some (JStr t))) = Inr c"
    using assms(2) by (auto simp: log_row_def td_def cat_Inr rbind_def [of "js_str _"] split: sum.splits)
  have "tag_count (case js_table_get B type_badge ty of Some c \<Rightarrow> c | None \<Rightarrow> ''gray'') = 0"
    using assms(1) by (auto simp: js_table_get_def type_badge_def tidy_browser_def)
  then have "tag_count b = 2" using b by (auto simp: badge_html_def cat_Inr tag_count_esc)
  moreover have "tag_count a = 0" using tag_count_tstr [OF assms(1) a] .
  moreover have "tag_count c = 0" using c tag_count_esc by (auto simp: rbind_def split: sum.splits)
  ultimately show ?thesis by (simp add: html)
qed

end
