(* ===== verification/Utf8Json.thy ===== *)
theory Utf8Json
  imports PyText
begin

text \<open>
  Reading back JSON text whose characters outside ASCII are escaped: a list of texts that
  \<^verbatim>\<open>json.dumps\<close> writes is the list \<^verbatim>\<open>JSON.parse\<close> and \<^verbatim>\<open>json.loads\<close> return, whatever characters it has.
\<close>


section \<open>Well-formed UTF-8\<close>

definition utf8_ok :: "string \<Rightarrow> bool" where
  "utf8_ok s \<longleftrightarrow> decode_replace s = s"

lemma utf8_follow_le: "utf8_follow k lo hi cs \<le> k \<and> utf8_follow k lo hi cs \<le> length cs"
  by (induction k lo hi cs rule: utf8_follow.induct) auto

lemma utf8_ok_low: "of_char c < (0x80 :: nat) \<Longrightarrow> utf8_ok (c # cs) \<longleftrightarrow> utf8_ok cs"
  by (simp add: utf8_ok_def)

lemma utf8_ok_high:
  assumes "utf8_ok (c # cs)" "\<not> of_char c < (0x80 :: nat)"
  obtains k lo hi where "utf8_lead (of_char c) = Some (k, lo, hi)" "utf8_follow k lo hi cs = k" "utf8_ok (drop k cs)"
proof (cases "utf8_lead (of_char c)")
  case None
  then have "REPLACEMENT @ decode_replace cs = c # cs" using assms by (simp add: utf8_ok_def)
  then show ?thesis using None by (auto simp: REPLACEMENT_def utf8_lead_def)
next
  case (Some klh)
  obtain k lo hi where klh: "klh = (k, lo, hi)" by (cases klh)
  let ?j = "utf8_follow k lo hi cs"
  have d: "(if ?j = k then c # take k cs else REPLACEMENT) @ decode_replace (drop ?j cs) = c # cs"
    using assms Some klh by (simp add: utf8_ok_def Let_def)
  have "?j = k"
  proof (rule ccontr)
    assume "?j \<noteq> k"
    then have "c # cs = REPLACEMENT @ decode_replace (drop ?j cs)" using d by simp
    then have "c = CHR 0xEF" "\<exists>t. cs = CHR 0xBF # CHR 0xBD # t" by (auto simp: REPLACEMENT_def)
    then show False using Some klh \<open>?j \<noteq> k\<close> by (auto simp: utf8_lead_def numeral_2_eq_2)
  qed
  moreover from this have "take k cs @ decode_replace (drop k cs) = take k cs @ drop k cs" using d by simp
  then have "utf8_ok (drop k cs)" by (simp only: same_append_eq utf8_ok_def)
  ultimately show ?thesis using that Some klh by blast
qed

text \<open>Decoded text is well formed.\<close>

lemma utf8_follow_take: "utf8_follow k lo hi cs = k \<Longrightarrow> utf8_follow k lo hi (take k cs @ r) = k"
  by (induction k lo hi cs rule: utf8_follow.induct) (auto split: if_splits)

lemma utf8_ok_decode: "utf8_ok (decode_replace s)"
proof (induction s rule: decode_replace.induct)
  case (2 c cs)
  have rep: "utf8_ok (REPLACEMENT @ r)" if "utf8_ok r" for r
    using that by (simp add: utf8_ok_def REPLACEMENT_def utf8_lead_def numeral_2_eq_2)
  show ?case
  proof (cases "of_char c < (0x80 :: nat)")
    case True
    then show ?thesis using 2(1) by (simp add: utf8_ok_low)
  next
    case high: False
    show ?thesis
    proof (cases "utf8_lead (of_char c)")
      case None
      then show ?thesis using 2(2) high rep by simp
    next
      case (Some klh)
      obtain k lo hi where k: "klh = (k, lo, hi)" by (cases klh)
      let ?j = "utf8_follow k lo hi cs"
      have IH: "utf8_ok (decode_replace (drop ?j cs))" using 2(3) [OF high Some k [symmetric] refl refl] .
      have "utf8_ok (c # take k cs @ decode_replace (drop k cs))" if "?j = k"
        using IH that high Some k utf8_follow_take [OF that] utf8_follow_le [of k lo hi cs] by (simp add: utf8_ok_def Let_def)
      then show ?thesis using high Some k rep [OF IH] by (auto simp: Let_def)
    qed
  qed
qed (simp add: utf8_ok_def)

text \<open>The bytes after a leading byte are not ASCII.\<close>

lemma utf8_follow_high:
  "utf8_follow k lo hi cs = k \<Longrightarrow> 0x80 \<le> lo \<Longrightarrow> k \<le> length cs \<and> list_all (\<lambda>c. (0x80 :: nat) \<le> of_char c) (take k cs)"
proof (induction k lo hi cs rule: utf8_follow.induct)
  case (3 k lo hi c cs)
  then show ?case by (auto split: if_splits)
qed auto

lemma utf8_lead_range: "utf8_lead b = Some (k, lo, hi) \<Longrightarrow> 0x80 \<le> lo \<and> k \<in> {1, 2, 3}"
  by (auto simp: utf8_lead_def split: if_splits)


section \<open>Escapes\<close>

lemma hex4_digits: "n < 0x10000 \<Longrightarrow>
    hex4 (hex_digit (n div 4096 mod 16)) (hex_digit (n div 256 mod 16)) (hex_digit (n div 16 mod 16)) (hex_digit (n mod 16)) = Some n"
proof -
  assume n: "n < 0x10000"
  have "n div 4096 mod 16 = n div 256 div 16" using n by (simp add: div_mult2_eq [symmetric] less_mult_imp_div_less)
  moreover have "n div 256 = n div 16 div 16" by (simp add: div_mult2_eq [symmetric])
  moreover have "16 * (m div 16) + m mod 16 = m" for m :: nat by simp
  note this [of n] this [of "n div 16"] this [of "n div 256"]
  ultimately have "4096 * (n div 4096 mod 16) + 256 * (n div 256 mod 16) + 16 * (n div 16 mod 16) + n mod 16 = n" by linarith
  moreover have "hex_val (hex_digit (m mod 16)) = Some (m mod 16)" for m by simp
  ultimately show ?thesis by (simp only: hex4.simps option.case prod.case)
qed

declare hex4.simps [simp del]

lemma pstr_u:
  assumes "hex4 h1 h2 h3 h4 = Some n" "\<not> (0xD800 \<le> n \<and> n < 0xDC00)"
  shows "pstr (CHR 0x5C # CHR ''u'' # h1 # h2 # h3 # h4 # rest) = prepend (utf8 n) (pstr rest)"
  using assms by (subst pstr.simps) (auto split: list.splits option.splits)

lemma pstr_uu:
  assumes "hex4 h1 h2 h3 h4 = Some n" "0xD800 \<le> n" "n < 0xDC00" "hex4 g1 g2 g3 g4 = Some m" "0xDC00 \<le> m" "m < 0xE000"
  shows "pstr (CHR 0x5C # CHR ''u'' # h1 # h2 # h3 # h4 # CHR 0x5C # CHR ''u'' # g1 # g2 # g3 # g4 # rest)
    = prepend (utf8 (65536 + (n - 55296) * 1024 + (m - 56320))) (pstr rest)"
  using assms by (subst pstr.simps) simp

lemma pstr_hex_u: "n < 0x10000 \<Longrightarrow> \<not> (0xD800 \<le> n \<and> n < 0xDC00) \<Longrightarrow> pstr (hex_u n @ rest) = prepend (utf8 n) (pstr rest)"
  unfolding hex_u_def append_Cons append_Nil by (rule pstr_u [OF hex4_digits])

lemma pstr_pair:
  assumes "0x10000 \<le> n" "n < 0x110000"
  shows "pstr (code_escape n @ rest) = prepend (utf8 n) (pstr rest)"
proof -
  define a where "a = 0xD800 + (n - 0x10000) div 0x400"
  define b where "b = 0xDC00 + (n - 0x10000) mod 0x400"
  have r: "0xD800 \<le> a" "a < 0xDC00" "0xDC00 \<le> b" "b < 0xE000" using assms by (auto simp: a_def b_def)
  have "65536 + (a - 55296) * 1024 + (b - 56320) = n" using assms by (simp add: a_def b_def)
  moreover have "code_escape n = hex_u a @ hex_u b" using assms by (simp add: code_escape_def a_def b_def)
  moreover have "pstr (hex_u a @ hex_u b @ rest) = prepend (utf8 (65536 + (a - 55296) * 1024 + (b - 56320))) (pstr rest)"
    unfolding hex_u_def append_Cons append_Nil using r by (intro pstr_uu hex4_digits) simp_all
  ultimately show ?thesis by simp
qed

lemma pstr_code_escape:
  "n < 0x110000 \<Longrightarrow> \<not> (0xD800 \<le> n \<and> n < 0xDC00) \<Longrightarrow> pstr (code_escape n @ rest) = prepend (utf8 n) (pstr rest)"
  using pstr_pair [of n rest] pstr_hex_u [of n rest] by (cases "n < 0x10000") (simp_all add: code_escape_def)

text \<open>A sequence of bytes and the code point it stands for.\<close>

abbreviation code_point :: "nat \<Rightarrow> char \<Rightarrow> string \<Rightarrow> nat" where
  "code_point k c cs \<equiv> fold (\<lambda>x n. 64 * n + (of_char x - 0x80)) (take k cs) (lead_bits k (of_char c))"

lemma digits64: "q < 64 \<Longrightarrow> (64 * p + q) div 64 = p" "q < 64 \<Longrightarrow> (64 * p + q) mod 64 = (q :: nat)"
  by simp_all

lemma utf8_two:
  fixes b x :: nat
  assumes "0xC2 \<le> b" "b \<le> 0xDF" "0x80 \<le> x" "x \<le> 0xBF"
  shows "utf8 (64 * (b - 0xC0) + (x - 0x80)) = [char_of b, char_of x]" "64 * (b - 0xC0) + (x - 0x80) < 0x800"
proof -
  define p where "p = b - 0xC0"
  define q where "q = x - 0x80"
  have "b = p + 0xC0" "x = q + 0x80" "2 \<le> p" "p < 32" "q < 64" using assms by (auto simp: p_def q_def)
  then show "utf8 (64 * (b - 0xC0) + (x - 0x80)) = [char_of b, char_of x]" "64 * (b - 0xC0) + (x - 0x80) < 0x800"
    by (simp_all add: utf8_def digits64 add.commute)
qed

lemma utf8_three:
  fixes b x y :: nat
  assumes "0xE0 \<le> b" "b \<le> 0xEF" "0x80 \<le> x" "x \<le> 0xBF" "0x80 \<le> y" "y \<le> 0xBF" "b = 0xE0 \<longrightarrow> 0xA0 \<le> x"
  defines "n \<equiv> 64 * (64 * (b - 0xE0) + (x - 0x80)) + (y - 0x80)"
  shows "utf8 n = [char_of b, char_of x, char_of y]" "0x800 \<le> n" "n < 0x10000"
proof -
  define p where "p = b - 0xE0"
  define q where "q = x - 0x80"
  define r where "r = y - 0x80"
  have b: "b = p + 0xE0" "x = q + 0x80" "y = r + 0x80" "p < 16" "q < 64" "r < 64" "p = 0 \<longrightarrow> 32 \<le> q"
    using assms by (auto simp: p_def q_def r_def)
  have n: "n = 64 * (64 * p + q) + r" by (simp add: n_def p_def q_def r_def)
  have n1: "n div 64 = 64 * p + q" "n mod 64 = r" unfolding n using b(6) by (rule digits64)+
  moreover have "n div 4096 = n div 64 div 64" by (simp add: div_mult2_eq [symmetric])
  ultimately have d: "n div 4096 = p" "n div 64 mod 64 = q" "n mod 64 = r" using b(5) by (simp_all only: digits64)
  show "0x800 \<le> n" "n < 0x10000" using b by (cases "p = 0"; simp add: n)+
  then show "utf8 n = [char_of b, char_of x, char_of y]" by (simp add: utf8_def d b add.commute)
qed

lemma utf8_four:
  fixes b x y z :: nat
  assumes "0xF0 \<le> b" "b \<le> 0xF4" "0x80 \<le> x" "x \<le> 0xBF" "0x80 \<le> y" "y \<le> 0xBF" "0x80 \<le> z" "z \<le> 0xBF"
    "b = 0xF0 \<longrightarrow> 0x90 \<le> x" "b = 0xF4 \<longrightarrow> x \<le> 0x8F"
  defines "n \<equiv> 64 * (64 * (64 * (b - 0xF0) + (x - 0x80)) + (y - 0x80)) + (z - 0x80)"
  shows "utf8 n = [char_of b, char_of x, char_of y, char_of z]" "0x10000 \<le> n" "n < 0x110000"
proof -
  define p where "p = b - 0xF0"
  define q where "q = x - 0x80"
  define r where "r = y - 0x80"
  define t where "t = z - 0x80"
  have b: "b = p + 0xF0" "x = q + 0x80" "y = r + 0x80" "z = t + 0x80" "p < 5" "q < 64" "r < 64" "t < 64" "p = 0 \<longrightarrow> 16 \<le> q" "p = 4 \<longrightarrow> q < 16"
    using assms by (auto simp: p_def q_def r_def t_def)
  have n: "n = 64 * (64 * (64 * p + q) + r) + t" by (simp add: n_def p_def q_def r_def t_def)
  have "n div 64 = 64 * (64 * p + q) + r" "n mod 64 = t" unfolding n using b(8) by (rule digits64)+
  moreover have "n div 4096 = n div 64 div 64" "n div 262144 = n div 64 div 64 div 64" by (simp_all add: div_mult2_eq [symmetric])
  ultimately have d: "n div 262144 = p" "n div 4096 mod 64 = q" "n div 64 mod 64 = r" "n mod 64 = t" using b(6,7) by (simp_all only: digits64)
  show lo: "0x10000 \<le> n" using b by (cases "p = 0"; simp add: n)
  show "n < 0x110000" using b by (cases "p = 4"; simp add: n)
  show "utf8 n = [char_of b, char_of x, char_of y, char_of z]" using lo by (simp add: utf8_def d b add.commute)
qed

lemma lead_point:
  assumes "utf8_lead (of_char c) = Some (k, lo, hi)" "utf8_follow k lo hi cs = k"
  shows "utf8 (code_point k c cs) = c # take k cs \<and> code_point k c cs < 0x110000
    \<and> \<not> (0xD800 \<le> code_point k c cs \<and> code_point k c cs < 0xDC00)"
proof -
  define b :: nat where "b = of_char c"
  have c: "c = char_of b" by (simp add: b_def)
  have len: "k \<le> length cs" using assms(2) utf8_follow_le [of k lo hi cs] by simp
  consider (two) "k = 1" | (three) "k = 2" | (four) "k = 3" using utf8_lead_range [OF assms(1)] by blast
  then show ?thesis
  proof cases
    case two
    then obtain x xs where cs: "cs = x # xs" using len by (cases cs) auto
    have "0xC2 \<le> b" "b \<le> 0xDF" "lo = 0x80" "hi = 0xBF" using assms(1) two by (auto simp: utf8_lead_def b_def [symmetric] split: if_splits)
    moreover from this have "0x80 \<le> (of_char x :: nat)" "of_char x \<le> (0xBF :: nat)" using assms(2) two by (auto simp: cs split: if_splits)
    ultimately show ?thesis using utf8_two [of b "of_char x"] two by (simp add: cs lead_bits_def b_def [symmetric] c)
  next
    case three
    then obtain x y xs where cs: "cs = x # y # xs" using len by (cases cs; cases "tl cs") auto
    have lead: "0xE0 \<le> b" "b \<le> 0xEF" "hi \<le> 0xBF" "0x80 \<le> lo" "b = 0xE0 \<longrightarrow> lo = 0xA0" "b = 0xED \<longrightarrow> hi = 0x9F"
      using assms(1) three by (auto simp: utf8_lead_def b_def [symmetric] split: if_splits)
    have xy: "lo \<le> of_char x" "of_char x \<le> hi" "0x80 \<le> (of_char y :: nat)" "of_char y \<le> (0xBF :: nat)"
      using assms(2) three by (auto simp: cs numeral_2_eq_2 split: if_splits)
    have low: "(0x80 :: nat) \<le> of_char x" "of_char x \<le> (0xBF :: nat)" using lead xy by auto
    let ?n = "64 * (64 * (b - 0xE0) + (of_char x - 0x80)) + (of_char y - 0x80)"
    have "\<not> (0xD800 \<le> ?n \<and> ?n < 0xDC00)"
    proof (cases "b = 0xED")
      case True
      then show ?thesis using lead xy by auto
    next
      case False
      then have "b - 0xE0 \<le> 12 \<or> 14 \<le> b - 0xE0" using lead by auto
      then show ?thesis using low xy by auto
    qed
    moreover have "b = 0xE0 \<longrightarrow> (0xA0 :: nat) \<le> of_char x" using lead xy by auto
    ultimately show ?thesis using utf8_three [of b "of_char x" "of_char y"] three lead(1,2) xy(3,4) low
      by (simp add: cs lead_bits_def b_def [symmetric] c)
  next
    case four
    then obtain x y z xs where cs: "cs = x # y # z # xs" using len by (cases cs; cases "tl cs"; cases "tl (tl cs)") auto
    have lead: "0xF0 \<le> b" "b \<le> 0xF4" "hi \<le> 0xBF" "0x80 \<le> lo" "b = 0xF0 \<longrightarrow> lo = 0x90" "b = 0xF4 \<longrightarrow> hi = 0x8F"
      using assms(1) four by (auto simp: utf8_lead_def b_def [symmetric] split: if_splits)
    have xyz: "lo \<le> of_char x" "of_char x \<le> hi" "0x80 \<le> (of_char y :: nat)" "of_char y \<le> (0xBF :: nat)"
        "0x80 \<le> (of_char z :: nat)" "of_char z \<le> (0xBF :: nat)"
      using assms(2) four by (auto simp: cs numeral_3_eq_3 split: if_splits)
    have low: "(0x80 :: nat) \<le> of_char x" "of_char x \<le> (0xBF :: nat)" using lead xyz by auto
    show ?thesis using utf8_four [of b "of_char x" "of_char y" "of_char z"] four lead xyz low
      by (auto simp: cs lead_bits_def b_def [symmetric] c)
  qed
qed



section \<open>Texts and lists of texts\<close>

lemma ascii_text_low: "list_all (\<lambda>c. of_char c < (0x7F :: nat)) x \<Longrightarrow> ascii_text (x @ y) = x @ ascii_text y"
  by (induction x) simp_all

lemma enc_char_low: "of_char c < (0x7F :: nat) \<Longrightarrow> list_all (\<lambda>c. of_char c < (0x7F :: nat)) (enc_char c)"
proof -
  have hex: "of_char (hex_digit d) < (0x7F :: nat)" if "d < 16" for d
    using that by (auto simp: hex_digit_def)
  show "of_char c < (0x7F :: nat) \<Longrightarrow> list_all (\<lambda>c. of_char c < (0x7F :: nat)) (enc_char c)"
    by (simp add: enc_char_def less_char_def less_mult_imp_div_less hex)
qed

lemma enc_char_high: "(0x7F :: nat) \<le> of_char c \<Longrightarrow> enc_char c = [c]"
proof -
  assume c: "(0x7F :: nat) \<le> of_char c"
  then have "c \<noteq> d" if "of_char d < (0x7F :: nat)" for d using that by auto
  then show ?thesis using c by (simp add: enc_char_def less_char_def)
qed

lemma concat_map_single: "(\<And>x. x \<in> set xs \<Longrightarrow> f x = [x]) \<Longrightarrow> concat (map f xs) = xs"
  by (induction xs) simp_all

lemma pstr_ascii: "utf8_ok s \<Longrightarrow> pstr (ascii_text (concat (map enc_char s) @ CHR 0x22 # t)) = Some (s, ascii_text t)"
proof (induction s rule: decode_replace.induct)
  case 1
  then show ?case by (simp add: pstr.simps)
next
  case (2 c cs)
  consider (low) "of_char c < (0x7F :: nat)" | (del) "c = CHR 0x7F" | (high) "\<not> of_char c < (0x80 :: nat)"
  proof -
    have "c = char_of (of_char c :: nat)" by simp
    moreover have "char_of (0x7F :: nat) = CHR 0x7F" by code_simp
    ultimately have "of_char c = (0x7F :: nat) \<Longrightarrow> c = CHR 0x7F" by metis
    then show thesis using that by linarith
  qed
  then show ?case
  proof cases
    case low
    then show ?thesis using 2 by (simp add: ascii_text_low enc_char_low pstr_enc_char utf8_ok_low prepend_def)
  next
    case del
    moreover have "char_of (0x7F :: nat) = CHR 0x7F" by code_simp
    ultimately show ?thesis using 2 by (simp add: enc_char_high pstr_hex_u utf8_ok_low prepend_def utf8_def)
  next
    case high
    obtain k lo hi where k: "utf8_lead (of_char c) = Some (k, lo, hi)" "utf8_follow k lo hi cs = k" "utf8_ok (drop k cs)"
      using utf8_ok_high [OF 2(4) high] .
    have len: "k \<le> length cs" and bytes: "list_all (\<lambda>c. (0x80 :: nat) \<le> of_char c) (take k cs)"
      using utf8_follow_high [OF k(2)] utf8_lead_range [OF k(1)] by auto
    have "concat (map enc_char (take k cs)) = take k cs"
      using bytes enc_char_high by (intro concat_map_single) (auto simp: list_all_iff)
    moreover have "concat (map enc_char cs) = concat (map enc_char (take k cs)) @ concat (map enc_char (drop k cs))"
      by (simp flip: concat_append map_append)
    moreover have "enc_char c = [c]" using high by (intro enc_char_high) simp
    ultimately have "concat (map enc_char (c # cs)) = c # take k cs @ concat (map enc_char (drop k cs))" by simp
    then have "ascii_text (concat (map enc_char (c # cs)) @ CHR 0x22 # t)
        = code_escape (code_point k c cs) @ ascii_text (concat (map enc_char (drop k cs)) @ CHR 0x22 # t)"
      using high k len by auto
    moreover have "pstr (ascii_text (concat (map enc_char (drop k cs)) @ CHR 0x22 # t)) = Some (drop k cs, ascii_text t)"
      using 2(3) [OF high k(1) refl refl refl] k(2,3) by simp
    ultimately show ?thesis using lead_point [OF k(1,2)] by (simp add: pstr_code_escape prepend_def)
  qed
qed


lemma ascii_text_enc_str: "ascii_text (enc_str s @ t) = CHR 0x22 # ascii_text (concat (map enc_char s) @ CHR 0x22 # t)"
  by (simp add: enc_str_def)

lemma code_escape_length: "6 \<le> length (code_escape n)"
  by (simp add: code_escape_def hex_u_def Let_def)

lemma ascii_text_length: "length s \<le> length (ascii_text s)"
proof (induction s rule: ascii_text.induct)
  case (2 c cs)
  show ?case
  proof (cases "of_char c < (0x7F :: nat) \<or> c = CHR 0x7F \<or> utf8_lead (of_char c) = None")
    case True
    then show ?thesis using 2 by (auto simp: hex_u_def)
  next
    case False
    then obtain k lo hi where k: "utf8_lead (of_char c) = Some (k, lo, hi)" by (cases "utf8_lead (of_char c)") auto
    then have "k \<le> 3" using utf8_lead_range by fastforce
    moreover have "length (drop k cs) \<le> length (ascii_text (drop k cs))" using 2(4) False k by auto
    moreover have "ascii_text (c # cs) = code_escape (code_point k c cs) @ ascii_text (drop k cs)" using False k by auto
    ultimately show ?thesis using code_escape_length [of "code_point k c cs"] by simp
  qed
qed simp


section \<open>Values\<close>

text \<open>Every text of a value, keys included, is well-formed UTF-8.\<close>

fun utf8_json :: "json \<Rightarrow> bool"
  and utf8_list :: "json list \<Rightarrow> bool"
  and utf8_fields :: "fields \<Rightarrow> bool"
where
  "utf8_json (JStr s) = utf8_ok s"
| "utf8_json (JList xs) = utf8_list xs"
| "utf8_json (JObj fs) = utf8_fields fs"
| "utf8_json v = True"
| "utf8_list [] = True"
| "utf8_list (x # xs) = (utf8_json x \<and> utf8_list xs)"
| "utf8_fields [] = True"
| "utf8_fields ((k, v) # fs) = (utf8_ok k \<and> utf8_json v \<and> utf8_fields fs)"

text \<open>Everything the encoder writes around the texts is ASCII.\<close>

abbreviation low :: "string \<Rightarrow> bool" where
  "low \<equiv> list_all (\<lambda>c. of_char c < (0x7F :: nat))"

lemma low_ws: "list_all is_ws u \<Longrightarrow> low u"
  by (induction u) (auto simp: is_ws_def)

lemma low_digits: "list_all is_digit u \<Longrightarrow> low u"
  by (auto simp: list_all_iff is_digit_def less_eq_char_def)

lemma low_nat: "low (str_of_nat n)"
  by (intro low_digits) (simp add: list_all_iff str_of_nat_digits)

lemma low_int: "low (str_of_int i)"
  by (simp add: str_of_int_def low_nat)

lemma low_zeros: "low (replicate n (CHR ''0''))"
  by (simp add: list_all_iff)

lemma low_dec: "low (str_of_dec m e)"
  by (simp add: str_of_dec_def Let_def low_nat low_zeros pad_left_def)

lemma ascii_newline [simp]: "ascii_text (newline L d @ t) = newline L d @ ascii_text t"
  by (rule ascii_text_low [OF low_ws [OF newline_ws]])

lemma ascii_item_sep: "layout_ok L \<Longrightarrow> ascii_text (item_sep L @ t) = item_sep L @ ascii_text t"
  by (intro ascii_text_low) (auto simp: layout_ok_def low_ws)

lemma ascii_key_sep: "layout_ok L \<Longrightarrow> ascii_text (key_sep L @ t) = key_sep L @ ascii_text t"
  by (intro ascii_text_low) (auto simp: layout_ok_def low_ws)

lemma ascii_enc_first:
  obtains c u where "ascii_text (enc L d v @ t) = c # u" "\<not> is_ws c" "c \<noteq> CHR '']''" "c \<noteq> CHR ''}''"
proof -
  obtain c u where c: "enc L d v = c # u" "\<not> is_ws c" "c \<noteq> CHR '']''" "c \<noteq> CHR ''}''" by (rule enc_first)
  have "of_char c < (0x7F :: nat)"
  proof (cases v)
    case (JInt i)
    then show ?thesis using low_int [of i] c(1) by simp
  next
    case (JDec m e)
    then show ?thesis using low_dec [of m e] c(1) by simp
  qed (use c(1) in \<open>auto simp: enc_str_def split: if_splits\<close>)
  then show ?thesis using that [of c "ascii_text (u @ t)"] c by simp
qed

lemma skip_ws_ascii_enc [simp]: "skip_ws (ascii_text (enc L d v @ t)) = ascii_text (enc L d v @ t)"
  by (rule ascii_enc_first [of L d v t]) (simp add: skip_ws_Cons)

lemma skip_ws_ascii_items [simp]:
  "xs \<noteq> [] \<Longrightarrow> skip_ws (ascii_text (enc_items L d xs @ t)) = ascii_text (enc_items L d xs @ t)"
  by (cases xs) simp_all

lemma skip_ws_ascii_fields [simp]:
  "fs \<noteq> [] \<Longrightarrow> skip_ws (ascii_text (enc_fields L d fs @ t)) = ascii_text (enc_fields L d fs @ t)"
  by (cases fs) (auto simp: ascii_text_enc_str skip_ws_Cons is_ws_def)

lemma pval_ascii: "utf8_ok s \<Longrightarrow> 0 < n \<Longrightarrow> pval n (ascii_text (enc_str s @ t)) = Some (JStr s, ascii_text t)"
  using pstr_ascii [of s t] by (cases n) (simp_all add: enc_str_def)

text \<open>The scanner inverts the encoder that escapes.\<close>

lemma pval_ascii_enc:
  assumes "layout_ok L"
  shows "wf_json v \<Longrightarrow> utf8_json v \<Longrightarrow> fuel v \<le> n \<Longrightarrow> stops (ascii_text rest) \<Longrightarrow>
      pval n (ascii_text (enc L d v @ rest)) = Some (v, ascii_text rest)"
    and "wf_list xs \<Longrightarrow> utf8_list xs \<Longrightarrow> xs \<noteq> [] \<Longrightarrow> fuel_items xs \<le> n \<Longrightarrow>
      pelems n (ascii_text (enc_items L d xs @ newline L d' @ CHR '']'' # rest)) = Some (xs, ascii_text rest)"
    and "wf_fields fs \<Longrightarrow> utf8_fields fs \<Longrightarrow> fs \<noteq> [] \<Longrightarrow> fuel_fields fs \<le> n \<Longrightarrow>
      pfields n (ascii_text (enc_fields L d fs @ newline L d' @ CHR ''}'' # rest)) = Some (fs, ascii_text rest)"
  using assms
proof (induction L d v and L d xs and L d fs arbitrary: n rest and n rest d' and n rest d'
    rule: enc_enc_items_enc_fields.induct)
  case (1 L d)
  then show ?case by (cases n) (simp_all add: keyword_def)
next
  case (2 L d b)
  then show ?case by (cases n; cases b) (simp_all add: keyword_def)
next
  case (3 L d i)
  then show ?case
    using pval_num [OF _ pnum_int, of n "ascii_text rest" i] numeral_first enc_not_Nil [of L d "JInt i"]
    by (simp add: ascii_text_low [OF low_int])
next
  case (4 L d m e)
  then show ?case
    using pval_num [OF _ pnum_dec, of n "ascii_text rest" m e] numeral_first enc_not_Nil [of L d "JDec m e"]
    by (simp add: ascii_text_low [OF low_dec])
next
  case (5 L d s)
  then show ?case by (simp add: pval_ascii)
next
  case (6 L d xs)
  show ?case
  proof (cases "xs = []")
    case True
    with 6 show ?thesis by (cases n) (simp_all add: skip_ws_Cons is_ws_def)
  next
    case False
    obtain m where n: "n = Suc m" using "6.prems" by (cases n) auto
    let ?x = "ascii_text (enc_items L (Suc d) xs @ newline L d @ CHR '']'' # rest)"
    obtain y ys where y: "xs = y # ys" using False by (cases xs) auto
    obtain c t where c: "?x = c # t" "c \<noteq> CHR '']''" "\<not> is_ws c"
      by (rule ascii_enc_first [of L "Suc d" y]) (auto simp: y)
    have "pelems m ?x = Some (xs, ascii_text rest)" using 6 False n by simp
    with c False n show ?thesis by (simp add: skip_ws_Cons)
  qed
next
  case (7 L d fs)
  show ?case
  proof (cases "fs = []")
    case True
    with 7 show ?thesis by (cases n) (simp_all add: skip_ws_Cons is_ws_def)
  next
    case False
    obtain m where n: "n = Suc m" using "7.prems" by (cases n) auto
    let ?x = "ascii_text (enc_fields L (Suc d) fs @ newline L d @ CHR ''}'' # rest)"
    obtain t where c: "?x = CHR 0x22 # t" using False by (cases fs) (auto simp: ascii_text_enc_str)
    have "pfields m ?x = Some (fs, ascii_text rest)" using 7 False n by simp
    with c False n "7.prems" show ?thesis by (simp add: skip_ws_Cons is_ws_def placed_fields_id)
  qed
next
  case (9 L d x xs)
  obtain m where n: "n = Suc m" using "9.prems" by (cases n) auto
  show ?case
  proof (cases "xs = []")
    case True
    have "pval m (ascii_text (enc L d x @ newline L d' @ CHR '']'' # rest))
        = Some (x, ascii_text (newline L d' @ CHR '']'' # rest))"
      using 9 n by (simp add: stops_newline)
    with True n show ?thesis by (simp add: skip_ws_Cons is_ws_def)
  next
    case False
    let ?s = "newline L d @ ascii_text (enc_items L d xs @ newline L d' @ CHR '']'' # rest)"
    let ?r = "item_sep L @ newline L d @ enc_items L d xs @ newline L d' @ CHR '']'' # rest"
    obtain t where t: "item_sep L @ ?s = CHR '','' # t" "skip_ws t = skip_ws ?s"
      using skip_ws_item_sep 9 by blast
    have r: "ascii_text ?r = CHR '','' # t" using t(1) 9 by (simp add: ascii_item_sep)
    have "pval m (ascii_text (enc L d x @ ?r)) = Some (x, ascii_text ?r)" using 9 n r by simp
    moreover have "pelems m (skip_ws t) = Some (xs, ascii_text rest)"
      using 9 n t False by simp
    ultimately show ?thesis using n False r by (simp add: skip_ws_Cons is_ws_def)
  qed
next
  case (11 L d k v fs)
  obtain m where n: "n = Suc m" using "11.prems" by (cases n) auto
  let ?rest = "(if fs = [] then [] else item_sep L @ newline L d @ enc_fields L d fs) @ newline L d' @ CHR ''}'' # rest"
  let ?tail = "ascii_text ?rest"
  obtain u where u: "key_sep L @ ascii_text (enc L d v @ ?rest) = CHR '':'' # u" "skip_ws u = ascii_text (enc L d v @ ?rest)"
    using skip_ws_key_sep [of L "ascii_text (enc L d v @ ?rest)"] 11 by auto
  have "stops ?tail" using 11 by (auto simp: ascii_item_sep stops_item_sep stops_newline)
  then have v: "pval m (ascii_text (enc L d v @ ?rest)) = Some (v, ?tail)" using 11 n by simp
  have "pstr (ascii_text (concat (map enc_char k) @ CHR 0x22 # key_sep L @ enc L d v @ ?rest)) = Some (k, CHR '':'' # u)"
    using pstr_ascii [of k] u(1) 11 by (simp add: ascii_key_sep del: append.simps)
  then have k: "pfields n (ascii_text (enc_fields L d ((k, v) # fs) @ newline L d' @ CHR ''}'' # rest)) =
      (case skip_ws ?tail of [] \<Rightarrow> None
        | e # es \<Rightarrow> if e = CHR ''}'' then Some ([(k, v)], es)
            else if e = CHR '','' then map_option (\<lambda>(fs, r'). ((k, v) # fs, r')) (pfields m (skip_ws es)) else None)"
    using u v n by (simp add: ascii_text_enc_str skip_ws_Cons is_ws_def split del: if_split)
  show ?case
  proof (cases "fs = []")
    case True
    then show ?thesis using k by (simp add: skip_ws_Cons is_ws_def)
  next
    case False
    let ?s = "newline L d @ ascii_text (enc_fields L d fs @ newline L d' @ CHR ''}'' # rest)"
    obtain t where t: "item_sep L @ ?s = CHR '','' # t" "skip_ws t = skip_ws ?s"
      using skip_ws_item_sep 11 by blast
    have r: "?tail = CHR '','' # t" using t(1) 11 False by (simp add: ascii_item_sep)
    have "pfields m (skip_ws t) = Some (fs, ascii_text rest)" using 11 n t False by simp
    then show ?thesis using k r by (simp add: skip_ws_Cons is_ws_def)
  qed
qed simp_all

text \<open>\<^verbatim>\<open>json.loads(json.dumps(v)) == v\<close> whatever characters the texts of the value have.\<close>

theorem loads_dumps_utf8:
  assumes "layout_ok L" "wf_json v" "utf8_json v"
  shows "loads (dumps L v) = Inr v"
proof -
  let ?x = "ascii_text (enc L 0 v @ [])"
  have "fuel v \<le> 2 * length ?x + 2"
    using fuel_le(1) [OF assms(1), of v 0] ascii_text_length [of "enc L 0 v @ []"] by simp
  then have "pval (2 * length ?x + 2) ?x = Some (v, [])"
    using pval_ascii_enc(1) [OF assms, of "2 * length ?x + 2" "[]" 0] by simp
  moreover have "skip_ws ?x = ?x" by (rule skip_ws_ascii_enc)
  ultimately show ?thesis by (simp add: loads_def dumps_def skip_ws_def [of "[]"] del: pval.simps)
qed

lemma utf8_fields_iff: "utf8_fields fs \<longleftrightarrow> (\<forall>(k, v) \<in> set fs. utf8_ok k \<and> utf8_json v)"
  by (induction fs) auto

lemma utf8_list_texts: "utf8_list (map JStr ls) \<longleftrightarrow> list_all utf8_ok ls"
  by (induction ls) simp_all

lemma wf_list_texts: "wf_list (map JStr ls)"
  by (induction ls) simp_all

text \<open>What the console sends as backfill is read back as the list of lines.\<close>

lemma loads_dumps_jstrs: "list_all utf8_ok ls \<Longrightarrow> loads (dumps compact (jstrs ls)) = Inr (jstrs ls)"
  by (rule loads_dumps_utf8) (simp_all add: layouts_ok jstrs_def utf8_list_texts wf_list_texts)

end
