(* ===== verification/RunTests.thy ===== *)
theory RunTests
  imports PyText
begin

text \<open>
  The orchestration backend of the operations console (\<^verbatim>\<open>tools/run_tests.py\<close>): the safety policy,
  running one tool with the local mocks it needs, reading its output and recording the result.

  Processes, ports and clocks are the record \<open>host\<close>, a parameter.  The state \<open>ops\<close> is what the code
  changes: the mocks it has started and not yet stopped, every command line it has run, and the files
  below the work directory.  An operation gives a value or an exception and always a state, since a
  \<^verbatim>\<open>finally\<close> block must see the state an exception leaves.
\<close>


section \<open>The host and the state\<close>

datatype proc_result = Done string int | TimedOut | Fails py_exc

record host =
  host_root :: string
  host_tools :: "string option"
  host_python :: string
  host_port :: "nat \<Rightarrow> nat"
  host_spawn :: "string list \<Rightarrow> py_exc option"
  host_run :: "string list \<Rightarrow> proc_result"
  host_exists :: "string \<Rightarrow> bool"
  host_elapsed :: nat
  host_now :: nat
  host_help :: "string list"

record ops =
  ports_taken :: nat
  spawned :: "string list list"
  running :: "nat list"
  procs :: "nat list"
  ran :: "string list list"
  log_files :: "string \<Rightarrow> string option"
  results :: string
  latest :: "string option"

type_synonym 'a op = "ops \<Rightarrow> 'a res \<times> ops"

definition oret :: "'a \<Rightarrow> 'a op" where
  "oret x s = (Inr x, s)"

definition olift :: "'a res \<Rightarrow> 'a op" where
  "olift r s = (r, s)"

definition obind :: "'a op \<Rightarrow> ('a \<Rightarrow> 'b op) \<Rightarrow> 'b op" where
  "obind m f s = (case m s of (Inl e, s') \<Rightarrow> (Inl e, s') | (Inr x, s') \<Rightarrow> f x s')"

text \<open>\<^verbatim>\<open>try: m finally: f\<close>, for a cleanup that does not raise.\<close>

definition ofinally :: "'a op \<Rightarrow> (ops \<Rightarrow> ops) \<Rightarrow> 'a op" where
  "ofinally m f s = (case m s of (r, s') \<Rightarrow> (r, f s'))"


section \<open>The safety policy\<close>

definition may_run :: "json \<Rightarrow> bool \<Rightarrow> (bool \<times> string) res" where
  "may_run tool allow_network =
     rbind (py_get tool ''safety'' JNull) (\<lambda>safety.
     if py_eq safety (JStr ''pure'') \<or> py_eq safety (JStr ''offline'') then Inr (True, ''ok'')
     else if py_eq safety (JStr ''network_read'') then
       (if allow_network then Inr (True, ''ok'')
        else Inr (False, ''network_read requires the server's --allow-network flag''))
     else if py_eq safety (JStr ''live_order'') then
       Inr (False, ''live_order tools transmit/mutate real state and are never runnable from the console'')
     else Inr (False, ''unknown safety class '' @ [CHR 0x27] @ py_str safety @ [CHR 0x27]))"


section \<open>Output\<close>

definition parse_output :: "string \<Rightarrow> json \<Rightarrow> (nat \<times> nat \<times> bool) res" where
  "parse_output tx pass_token =
     (let passed = length (filter (\<lambda>l. starts_with l ''PASS:'') (splitlines tx));
          failed = length (filter (\<lambda>l. starts_with l ''FAIL:'') (splitlines tx))
      in rbind (if truthy pass_token then py_in pass_token (JStr tx) else Inr True) (\<lambda>token_ok.
         Inr (passed, failed, token_ok \<and> \<not> contains ''FAILURES'' tx)))"


section \<open>Mocks\<close>

definition free_port :: "host \<Rightarrow> nat op" where
  "free_port H s = (Inr (host_port H (ports_taken s)), s\<lparr>ports_taken := Suc (ports_taken s)\<rparr>)"

definition work_dir :: "host \<Rightarrow> string" where
  "work_dir H = path_join (host_root H) ''work''"

definition log_dir :: "host \<Rightarrow> string" where
  "log_dir H = path_join (work_dir H) ''logs''"

text \<open>A started process is known by its position in the list of all of them.\<close>

definition spawn :: "host \<Rightarrow> string \<Rightarrow> string list \<Rightarrow> unit op" where
  "spawn H script args s =
     (let argv = [host_python H, path_join (path_join (host_root H) ''tests'') script] @ args
      in case host_spawn H argv of
           Some e \<Rightarrow> (Inl e, s)
         | None \<Rightarrow> (Inr (), s\<lparr>spawned := spawned s @ [argv],
             running := running s @ [length (spawned s)], procs := procs s @ [length (spawned s)]\<rparr>))"

text \<open>\<^verbatim>\<open>subprocess.run\<close>: the command line is recorded whether or not the process can be started.\<close>

definition run_argv :: "host \<Rightarrow> string list \<Rightarrow> (string \<times> int) option op" where
  "run_argv H argv s =
     (case host_run H argv of
        Done out rc \<Rightarrow> (Inr (Some (out, rc)), s\<lparr>ran := ran s @ [argv]\<rparr>)
      | TimedOut \<Rightarrow> (Inr None, s\<lparr>ran := ran s @ [argv]\<rparr>)
      | Fails e \<Rightarrow> (Inl e, s\<lparr>ran := ran s @ [argv]\<rparr>))"

definition console_key :: "host \<Rightarrow> string" where
  "console_key H = path_join (path_join (path_join (host_root H) ''build'') ''scratch'') ''console_key.pem''"

definition make_key :: "host \<Rightarrow> unit op" where
  "make_key H =
     (if host_exists H (console_key H) then oret ()
      else obind (run_argv H [''openssl'', ''genrsa'', ''-out'', console_key H, ''2048'']) (\<lambda>_. oret ()))"

definition add_need :: "host \<Rightarrow> json \<Rightarrow> string list \<Rightarrow> string list op" where
  "add_need H need cmd =
     (if need = JStr ''mini_redis'' then
        obind (free_port H) (\<lambda>port. obind (spawn H ''mini_redis.py'' [str_of_nat port]) (\<lambda>_.
        oret (cmd @ [str_of_nat port])))
      else if need = JStr ''mock_rest'' then
        obind (free_port H) (\<lambda>port. obind (spawn H ''mock_rest.py'' [str_of_nat port]) (\<lambda>_.
        oret (cmd @ [''http://127.0.0.1:'' @ str_of_nat port])))
      else if need = JStr ''mock_server'' then
        obind (free_port H) (\<lambda>port.
        obind (spawn H ''mock_server.py'' [str_of_nat port, path_join (work_dir H) ''mock_capture.jsonl'']) (\<lambda>_.
        obind (make_key H) (\<lambda>_.
        oret (cmd @ [''http://127.0.0.1:'' @ str_of_nat port, console_key H, ''3'', ''50'']))))
      else if need = JStr ''mock_ws'' then
        obind (free_port H) (\<lambda>port. obind (spawn H ''mock_ws_exchange.py'' [str_of_nat port]) (\<lambda>_.
        oret (cmd @ [''ws://127.0.0.1:'' @ str_of_nat port @ ''/trade-api/ws/v2''])))
      else oret cmd)"

fun add_needs :: "host \<Rightarrow> json list \<Rightarrow> string list \<Rightarrow> string list op" where
  "add_needs H [] cmd = oret cmd"
| "add_needs H (need # needs) cmd = obind (add_need H need cmd) (add_needs H needs)"

definition build_cmd :: "host \<Rightarrow> json \<Rightarrow> string list op" where
  "build_cmd H tool =
     obind (olift (py_index tool ''cmd'')) (\<lambda>cmd.
     case cmd of
       JStr c \<Rightarrow>
         obind (olift (rbind (py_get tool ''needs'' (JList [])) py_iter)) (\<lambda>needs.
         add_needs H needs (split_words c))
     | _ \<Rightarrow> olift (Inl AttributeError))"

text \<open>\<^verbatim>\<open>stop\<close>: every mock this object started is terminated, or killed if it does not end in time.\<close>

definition stop_mocks :: "ops \<Rightarrow> ops" where
  "stop_mocks s = s\<lparr>running := filter (\<lambda>p. p \<notin> set (procs s)) (running s), procs := []\<rparr>"


section \<open>Running a tool\<close>

definition refusal :: "json \<Rightarrow> string \<Rightarrow> json" where
  "refusal name reason = JObj [
     (''suite'', name), (''status'', JStr ''refused''), (''passed'', JInt 0), (''failed'', JInt 0),
     (''duration_ms'', JInt 0), (''reason'', JStr reason), (''log'', JStr [])]"

definition outcome_of :: "(string \<times> int) option \<Rightarrow> string \<times> int" where
  "outcome_of r = (case r of Some (out, rc) \<Rightarrow> (decode_replace out, rc) | None \<Rightarrow> (''TIMEOUT'' @ [NL], 124))"

definition run_tool :: "host \<Rightarrow> json \<Rightarrow> bool \<Rightarrow> json op" where
  "run_tool H tool allow_network =
     obind (olift (may_run tool allow_network)) (\<lambda>(ok, reason).
     obind (olift (py_index tool ''name'')) (\<lambda>name.
     if \<not> ok then oret (refusal name reason)
     else
       let logpath = path_join (log_dir H) (py_str name @ ''.txt'')
       in obind (ofinally (obind (\<lambda>s. (Inr (), s\<lparr>procs := []\<rparr>)) (\<lambda>_. obind (build_cmd H tool) (run_argv H))) stop_mocks) (\<lambda>r.
          let (out, rc) = outcome_of r
          in obind (\<lambda>s. (Inr (), s\<lparr>log_files := (log_files s)(logpath \<mapsto> out)\<rparr>)) (\<lambda>_.
             obind (olift (rbind (py_get tool ''pass_token'' JNull) (parse_output out))) (\<lambda>(passed, failed, token_ok).
             oret (JObj [
               (''suite'', name), (''status'', JStr (if rc = 0 \<and> token_ok then ''pass'' else ''fail'')),
               (''passed'', JInt (int passed)), (''failed'', JInt (int failed)),
               (''duration_ms'', JInt (int (host_elapsed H))),
               (''log'', JStr (rel_path logpath (host_root H)))]))))))"


section \<open>Recording\<close>

text \<open>
  \<^verbatim>\<open>d[k] = v\<close> on a value read from JSON.  A key that is not a string is written as the text
  \<^verbatim>\<open>json.dump\<close> gives it; since keys read from JSON are strings, it is always new.
\<close>

definition key_text :: "json \<Rightarrow> string" where
  "key_text k = (case k of JNull \<Rightarrow> ''null'' | JBool b \<Rightarrow> (if b then ''true'' else ''false'') | _ \<Rightarrow> py_str k)"

definition list_put :: "json list \<Rightarrow> int \<Rightarrow> json \<Rightarrow> json res" where
  "list_put xs i v =
     (let j = (if i < 0 then i + int (length xs) else i)
      in if 0 \<le> j \<and> j < int (length xs) then Inr (JList (xs[nat j := v])) else Inl IndexError)"

definition py_put :: "json \<Rightarrow> json \<Rightarrow> json \<Rightarrow> json res" where
  "py_put d k v =
     (case d of
        JObj fs \<Rightarrow>
          (case k of
             JStr s \<Rightarrow> Inr (JObj (fput s v fs))
           | _ \<Rightarrow> if hashable k then Inr (JObj (fs @ [(key_text k, v)])) else Inl TypeError)
      | JList xs \<Rightarrow>
          (case k of JInt i \<Rightarrow> list_put xs i v | JBool b \<Rightarrow> list_put xs (of_bool b) v | _ \<Rightarrow> Inl TypeError)
      | _ \<Rightarrow> Inl TypeError)"

fun py_update :: "json \<Rightarrow> string \<Rightarrow> json \<Rightarrow> json" where
  "py_update (JObj fs) k v = JObj (fput k v fs)"
| "py_update d k v = d"

definition read_latest :: "string option \<Rightarrow> json" where
  "read_latest f = (case f of None \<Rightarrow> JObj [] | Some t \<Rightarrow> (case loads t of Inl _ \<Rightarrow> JObj [] | Inr v \<Rightarrow> v))"

definition record_result :: "host \<Rightarrow> json \<Rightarrow> unit op" where
  "record_result H rec =
     obind (olift (py_get rec ''status'' JNull)) (\<lambda>status.
     if py_eq status (JStr ''refused'') then oret ()
     else
       let rec' = py_update (py_update rec ''type'' (JStr ''test_suite'')) ''ts_ms'' (JInt (int (host_now H)))
       in obind (\<lambda>s. (Inr (), s\<lparr>results := results s @ dumps spaced rec' @ [NL]\<rparr>)) (\<lambda>_ s.
          obind (olift (rbind (py_index rec' ''suite'') (\<lambda>suite. py_put (read_latest (latest s)) suite rec'))) (\<lambda>updated s.
          (Inr (), s\<lparr>latest := Some (dumps (indented 2) updated)\<rparr>)) s))"


section \<open>The run-all set\<close>

definition in_run_all :: "json \<Rightarrow> bool res" where
  "in_run_all t =
     rand (rmap (\<lambda>k. k \<in> {JStr ''test'', JStr ''check''}) (py_get t ''kind'' JNull))
    (rand (rmap (\<lambda>k. k \<in> {JStr ''pure'', JStr ''offline''}) (py_get t ''safety'' JNull))
          (rmap (\<lambda>k. k \<notin> {JStr ''run_pipeline'', JStr ''run_tests''}) (py_get t ''name'' JNull)))"

fun runnable_test_set :: "json list \<Rightarrow> json list res" where
  "runnable_test_set [] = Inr []"
| "runnable_test_set (t # ts) =
     rbind (in_run_all t) (\<lambda>keep. rmap (\<lambda>us. if keep then t # us else us) (runnable_test_set ts))"


section \<open>The command line\<close>

text \<open>\<^verbatim>\<open>load_registry\<close>: the tools of \<^verbatim>\<open>tools.json\<close>.\<close>

definition load_registry :: "host \<Rightarrow> json res" where
  "load_registry H =
     (case host_tools H of
        None \<Rightarrow> Inl OSError
      | Some t \<Rightarrow> rbind (loads t) (\<lambda>data. py_index data ''tools''))"

text \<open>\<^verbatim>\<open>{t["name"]: t for t in tools}\<close>; the list is reversed, so that a lookup finds the last entry.\<close>

fun tools_by_name :: "json list \<Rightarrow> (json \<times> json) list res" where
  "tools_by_name [] = Inr []"
| "tools_by_name (t # ts) =
     rbind (py_index t ''name'') (\<lambda>name.
     if hashable name then rmap (\<lambda>m. m @ [(name, t)]) (tools_by_name ts) else Inl TypeError)"

record rt_args =
  rt_list :: bool
  rt_tool :: "string option"
  rt_all :: bool
  rt_network :: bool
  rt_json :: bool

record printed =
  to_stdout :: "string list"
  to_stderr :: "string list"
  exit_status :: nat

definition index_text :: "json \<Rightarrow> string \<Rightarrow> string res" where
  "index_text v k = rmap py_str (py_index v k)"

definition tool_row :: "json \<Rightarrow> string res" where
  "tool_row t =
     rbind (index_text t ''name'') (\<lambda>name.
     rbind (index_text t ''kind'') (\<lambda>kind.
     rbind (index_text t ''safety'') (\<lambda>safety.
     rmap (\<lambda>d. pad_right 22 name @ '' '' @ pad_right 8 kind @ '' '' @ pad_right 13 safety @ '' '' @ py_str d)
       (py_get t ''description'' (JStr [])))))"

definition result_row :: "json \<Rightarrow> string res" where
  "result_row rec =
     rbind (index_text rec ''suite'') (\<lambda>suite.
     rbind (index_text rec ''status'') (\<lambda>status.
     rbind (index_text rec ''duration_ms'') (\<lambda>ms.
     rbind (index_text rec ''passed'') (\<lambda>passed.
     rbind (index_text rec ''failed'') (\<lambda>failed.
     rmap (\<lambda>reason. suite @ '': '' @ status @ '' ('' @ ms @ ''ms, +'' @ passed @ ''/-'' @ failed @ '') '' @ py_str reason)
       (py_get rec ''reason'' (JStr [])))))))"

definition all_row :: "json \<Rightarrow> string res" where
  "all_row rec =
     rbind (index_text rec ''suite'') (\<lambda>suite.
     rbind (index_text rec ''status'') (\<lambda>status.
     rbind (index_text rec ''passed'') (\<lambda>passed.
     rmap (\<lambda>failed. pad_right 22 suite @ '' '' @ status @ '' (+'' @ passed @ ''/-'' @ failed @ '')'')
       (index_text rec ''failed''))))"

definition is_pass :: "json \<Rightarrow> bool res" where
  "is_pass rec = rmap (\<lambda>x. py_eq x (JStr ''pass'')) (py_index rec ''status'')"

text \<open>\<^verbatim>\<open>run_tool\<close> followed by \<^verbatim>\<open>record\<close>, as all three callers do.\<close>

definition run_and_record :: "host \<Rightarrow> json \<Rightarrow> bool \<Rightarrow> json op" where
  "run_and_record H tool allow_network =
     obind (run_tool H tool allow_network) (\<lambda>rec. obind (record_result H rec) (\<lambda>_. oret rec))"

fun run_all :: "host \<Rightarrow> bool \<Rightarrow> json list \<Rightarrow> nat \<Rightarrow> string list \<Rightarrow> (nat \<times> string list) op" where
  "run_all H allow_network [] overall out = oret (overall, out)"
| "run_all H allow_network (t # ts) overall out =
     obind (run_and_record H t allow_network) (\<lambda>rec.
     obind (olift (all_row rec)) (\<lambda>row.
     obind (olift (is_pass rec)) (\<lambda>ok.
     run_all H allow_network ts (if ok then overall else 1) (out @ [row]))))"

definition run_rest :: "host \<Rightarrow> rt_args \<Rightarrow> json list \<Rightarrow> printed op" where
  "run_rest H a tools =
     (if rt_all a then
        obind (olift (runnable_test_set tools)) (\<lambda>ts.
        obind (run_all H (rt_network a) ts 0 []) (\<lambda>(overall, out).
        oret \<lparr>to_stdout = out, to_stderr = [], exit_status = overall\<rparr>))
      else oret \<lparr>to_stdout = host_help H, to_stderr = [], exit_status = 0\<rparr>)"

definition run_main :: "host \<Rightarrow> rt_args \<Rightarrow> printed op" where
  "run_main H a =
     obind (olift (load_registry H)) (\<lambda>registry.
     obind (olift (py_iter registry)) (\<lambda>tools.
     obind (olift (tools_by_name tools)) (\<lambda>by_name.
     if rt_list a then
       (if rt_json a then oret \<lparr>to_stdout = [dumps (indented 2) registry], to_stderr = [], exit_status = 0\<rparr>
        else obind (olift (traverse tool_row tools)) (\<lambda>rows.
          oret \<lparr>to_stdout = rows, to_stderr = [], exit_status = 0\<rparr>))
     else case rt_tool a of
       Some name \<Rightarrow> if name \<noteq> [] then
         (case map_of by_name (JStr name) of
            None \<Rightarrow> oret \<lparr>to_stdout = [], to_stderr = [''unknown tool: '' @ name], exit_status = 2\<rparr>
          | Some tool \<Rightarrow>
              obind (run_and_record H tool (rt_network a)) (\<lambda>rec.
              obind (olift (if rt_json a then Inr (dumps spaced rec) else result_row rec)) (\<lambda>row.
              obind (olift (is_pass rec)) (\<lambda>ok.
              oret \<lparr>to_stdout = [row], to_stderr = [], exit_status = (if ok then 0 else 1)\<rparr>))))
         else run_rest H a tools
     | None \<Rightarrow> run_rest H a tools)))"

end
