(* ===== verification/RunFacts.thy ===== *)
theory RunFacts
  imports RunTests
begin

text \<open>
  What the test runner promises: a tool the safety policy refuses causes no process and no file
  change, every mock a run starts is stopped when the run ends, however it ends, and a result is only
  a pass when the process ended with 0 and its output has the expected token.
\<close>


section \<open>The policy\<close>

definition permitted :: "json \<Rightarrow> bool \<Rightarrow> bool" where
  "permitted tool allow_network = (case may_run tool allow_network of Inr (ok, _) \<Rightarrow> ok | Inl _ \<Rightarrow> False)"

lemma permitted_iff:
  "permitted tool allow_network \<longleftrightarrow> (\<exists>safety. py_get tool ''safety'' JNull = Inr (JStr safety) \<and>
     (safety \<in> {''pure'', ''offline''} \<or> safety = ''network_read'' \<and> allow_network))"
  by (cases "py_get tool ''safety'' JNull") (auto simp: permitted_def may_run_def)

lemma live_order_not_permitted: "py_get tool ''safety'' JNull = Inr (JStr ''live_order'') \<Longrightarrow> \<not> permitted tool allow_network"
  by (simp add: permitted_iff)

lemma run_all_permitted:
  "runnable_test_set tools = Inr ts \<Longrightarrow> t \<in> set ts \<Longrightarrow> permitted t allow_network \<and> t \<in> set tools"
proof (induction tools arbitrary: ts)
  case (Cons u us)
  then obtain keep vs where k: "in_run_all u = Inr keep" "runnable_test_set us = Inr vs"
      "ts = (if keep then u # vs else vs)"
    by (auto simp: rbind_eq_Inr rmap_eq_Inr)
  have "permitted u allow_network" if "keep"
    using k(1) that by (auto simp: in_run_all_def rand_eq_True rmap_eq_Inr permitted_iff)
  then show ?case using Cons k by (auto split: if_splits)
qed simp


section \<open>Frames\<close>

text \<open>A relation between the states before and after that sequencing preserves.\<close>

locale op_frame =
  fixes R :: "ops \<Rightarrow> ops \<Rightarrow> bool"
  assumes frame_refl: "R s s"
    and frame_trans: "R s s' \<Longrightarrow> R s' s'' \<Longrightarrow> R s s''"
begin

lemma frame_oret: "R s (snd (oret x s))"
  by (simp add: oret_def frame_refl)

lemma frame_olift: "R s (snd (olift r s))"
  by (simp add: olift_def frame_refl)

lemma frame_obind:
  assumes "\<And>s. R s (snd (m s))" "\<And>x s. R s (snd (f x s))"
  shows "R s (snd (obind m f s))"
proof (cases "m s")
  case (Pair r s')
  have first: "R s s'" using assms(1) [of s] by (simp add: Pair)
  show ?thesis
  proof (cases r)
    case (Inr x)
    then show ?thesis using frame_trans [OF first assms(2)] by (simp add: obind_def Pair)
  qed (simp add: obind_def Pair first)
qed

lemmas frames = frame_oret frame_olift frame_obind

end

text \<open>Starting mocks: the new processes are the object's own, and nothing else changes but ports and commands.\<close>

definition starts :: "ops \<Rightarrow> ops \<Rightarrow> bool" where
  "starts s s' \<longleftrightarrow> length (spawned s) \<le> length (spawned s')
     \<and> running s' = running s @ [length (spawned s)..<length (spawned s')]
     \<and> procs s' = procs s @ [length (spawned s)..<length (spawned s')]
     \<and> log_files s' = log_files s \<and> results s' = results s \<and> latest s' = latest s"

lemma upt_append: "i \<le> j \<Longrightarrow> j \<le> k \<Longrightarrow> [i..<j] @ [j..<k] = [i..<k]"
  using upt_add_eq_append [of i j "k - j"] by simp

interpretation starts: op_frame starts
proof
  show "starts s s'' " if "starts s s'" "starts s' s''" for s s' s''
    using that by (simp add: starts_def upt_append)
qed (simp add: starts_def)

lemma starts_free_port: "starts s (snd (free_port H s))"
  by (simp add: free_port_def starts_def)

lemma starts_spawn: "starts s (snd (spawn H script argv s))"
  by (simp add: spawn_def starts_def Let_def split: option.splits)

lemma starts_run_argv: "starts s (snd (run_argv H argv s))"
  by (simp add: run_argv_def starts_def split: proc_result.splits)

lemma starts_make_key: "starts s (snd (make_key H s))"
  by (simp add: make_key_def starts.frames starts_run_argv)

lemma starts_add_need: "starts s (snd (add_need H need cmd s))"
  by (simp add: add_need_def starts.frames starts_free_port starts_spawn starts_make_key)

lemma starts_add_needs: "starts s (snd (add_needs H needs cmd s))"
  by (induction needs arbitrary: cmd s) (simp_all add: starts.frames starts_add_need)

lemma starts_build_cmd: "starts s (snd (build_cmd H tool s))"
  unfolding build_cmd_def
  by (intro starts.frame_obind starts.frame_olift) (simp add: starts.frames starts_add_needs split: json.splits)

text \<open>A state whose running processes have all been started; what holds between two settled states.\<close>

definition pids_ok :: "ops \<Rightarrow> bool" where
  "pids_ok s \<longleftrightarrow> (\<forall>p \<in> set (running s). p < length (spawned s))"

definition settled :: "ops \<Rightarrow> ops \<Rightarrow> bool" where
  "settled s s' \<longleftrightarrow> (pids_ok s \<longrightarrow> running s' = running s \<and> pids_ok s' \<and> length (spawned s) \<le> length (spawned s'))"

interpretation settled: op_frame settled
  by unfold_locales (auto simp: settled_def)

lemma settled_stop:
  assumes "starts (s\<lparr>procs := []\<rparr>) s'"
  shows "settled s (stop_mocks s')"
  unfolding settled_def
proof
  assume ok: "pids_ok s"
  have "filter (\<lambda>p. p \<notin> {length (spawned s)..<length (spawned s')}) (running s) = running s"
    using ok by (intro filter_True) (auto simp: pids_ok_def)
  then have "running (stop_mocks s') = running s" using assms by (simp add: starts_def stop_mocks_def)
  then show "running (stop_mocks s') = running s \<and> pids_ok (stop_mocks s') \<and> length (spawned s) \<le> length (spawned (stop_mocks s'))"
    using ok assms by (fastforce simp: pids_ok_def starts_def stop_mocks_def)
qed

lemma settled_run: "settled s (snd (ofinally (obind (\<lambda>s. (Inr (), s\<lparr>procs := []\<rparr>)) (\<lambda>_. obind (build_cmd H tool) (run_argv H))) stop_mocks s))"
proof -
  have "starts (s\<lparr>procs := []\<rparr>) (snd (obind (build_cmd H tool) (run_argv H) (s\<lparr>procs := []\<rparr>)))"
    by (rule starts.frame_obind [OF starts_build_cmd starts_run_argv])
  then show ?thesis by (simp add: ofinally_def obind_def split_def settled_stop)
qed

lemma settled_same: "settled s s' \<Longrightarrow> running s'' = running s' \<Longrightarrow> spawned s'' = spawned s' \<Longrightarrow> settled s s''"
  by (auto simp: settled_def pids_ok_def)

lemma settled_write:
  "settled s (s\<lparr>log_files := x\<rparr>)" "settled s (s\<lparr>results := y\<rparr>)" "settled s (s\<lparr>latest := z\<rparr>)"
  by (auto simp: settled_def pids_ok_def)

lemma settled_run_tool: "settled s (snd (run_tool H tool allow_network s))"
  unfolding run_tool_def
  by (intro settled.frame_obind settled.frame_olift)
     (auto simp: split_def Let_def intro!: settled.frame_obind settled.frame_olift settled.frame_oret settled_run settled_write)

lemma settled_record: "settled s (snd (record_result H rec s))"
  unfolding record_result_def
  by (intro settled.frame_obind settled.frame_olift)
     (auto simp: Let_def intro!: settled.frame_obind settled.frame_olift settled.frame_oret settled_write)

lemma settled_run_and_record: "settled s (snd (run_and_record H tool allow_network s))"
  unfolding run_and_record_def
  by (intro settled.frame_obind settled.frame_oret settled_run_tool settled_record)


section \<open>Refusals\<close>

definition is_refusal :: "json \<Rightarrow> bool" where
  "is_refusal rec \<longleftrightarrow> (\<exists>name reason. rec = refusal name reason)"

lemma is_refusal_refusal [simp]: "is_refusal (refusal name reason)"
  by (auto simp: is_refusal_def)

lemma run_tool_refused:
  assumes "\<not> permitted tool allow_network"
  shows "snd (run_tool H tool allow_network s) = s"
    "\<And>rec. fst (run_tool H tool allow_network s) = Inr rec \<Longrightarrow> is_refusal rec"
  using assms
  by (auto simp: run_tool_def permitted_def obind_def olift_def oret_def split: sum.splits if_splits)

lemma record_refusal: "record_result H (refusal name reason) s = (Inr (), s)"
  by (simp add: record_result_def refusal_def obind_def olift_def oret_def)

lemma run_and_record_refused:
  assumes "\<not> permitted tool allow_network"
  shows "snd (run_and_record H tool allow_network s) = s"
proof (cases "run_tool H tool allow_network s")
  case (Pair r s')
  have "s' = s" using run_tool_refused(1) [OF assms, of H s] by (simp add: Pair)
  show ?thesis
  proof (cases r)
    case (Inl e)
    then show ?thesis using Pair \<open>s' = s\<close> by (simp add: run_and_record_def obind_def)
  next
    case (Inr rec)
    then obtain name reason where "rec = refusal name reason"
      using run_tool_refused(2) [OF assms, of H s rec] Pair by (auto simp: is_refusal_def)
    then show ?thesis using Pair \<open>s' = s\<close> Inr by (simp add: run_and_record_def obind_def record_refusal oret_def)
  qed
qed


section \<open>Passing\<close>

lemma obind_Inr:
  "fst (obind m f s) = Inr y \<longleftrightarrow> (\<exists>x. fst (m s) = Inr x \<and> fst (f x (snd (m s))) = Inr y)"
  by (auto simp: obind_def split: prod.splits sum.splits)

lemma obind_snd: "fst (m s) = Inr x \<Longrightarrow> snd (obind m f s) = snd (f x (snd (m s)))"
  by (auto simp: obind_def split: prod.splits sum.splits)

lemma run_argv_Inr:
  "fst (run_argv H argv s) = Inr r \<longleftrightarrow> (case host_run H argv of
     Done out rc \<Rightarrow> r = Some (out, rc) | TimedOut \<Rightarrow> r = None | Fails e \<Rightarrow> False)"
  by (auto simp: run_argv_def split: proc_result.splits)

text \<open>The token the output must have, as \<^verbatim>\<open>parse_output\<close> reads it.\<close>

definition token_found :: "json \<Rightarrow> string \<Rightarrow> bool" where
  "token_found token out \<longleftrightarrow> (truthy token \<longrightarrow> (\<exists>t. token = JStr t \<and> contains t out))"

lemma parse_output_Inr:
  "parse_output out token = Inr (passed, failed, ok) \<Longrightarrow> ok \<longleftrightarrow> token_found token out \<and> \<not> contains ''FAILURES'' out"
  by (cases token) (auto simp: parse_output_def token_found_def Let_def split: if_splits)

lemma add_need_prefix: "fst (add_need H need cmd s) = Inr argv \<Longrightarrow> prefix cmd argv"
  by (auto simp: add_need_def obind_Inr oret_def split: if_splits)

lemma add_needs_prefix: "fst (add_needs H needs cmd s) = Inr argv \<Longrightarrow> prefix cmd argv"
proof (induction needs arbitrary: cmd s)
  case (Cons need needs)
  then obtain c where "fst (add_need H need cmd s) = Inr c" "fst (add_needs H needs c (snd (add_need H need cmd s))) = Inr argv"
    by (auto simp: obind_Inr)
  then show ?case using add_need_prefix Cons.IH by (metis prefix_order.trans)
qed (simp add: oret_def)

text \<open>The command line of a tool starts with its own words, and is nothing else when it needs no mock.\<close>

lemma build_cmd_argv:
  assumes "fst (build_cmd H tool s) = Inr argv"
  obtains c where "py_index tool ''cmd'' = Inr (JStr c)" "prefix (split_words c) argv"
    "py_get tool ''needs'' (JList []) = Inr (JList []) \<Longrightarrow> argv = split_words c"
proof -
  obtain cmd where cmd: "py_index tool ''cmd'' = Inr cmd" using assms by (auto simp: build_cmd_def obind_Inr olift_def)
  obtain c needs where c: "py_index tool ''cmd'' = Inr (JStr c)" "rbind (py_get tool ''needs'' (JList [])) py_iter = Inr needs"
      "fst (add_needs H needs (split_words c) s) = Inr argv"
    using assms cmd by (cases cmd) (auto simp: build_cmd_def obind_Inr olift_def)
  moreover have "argv = split_words c" if "py_get tool ''needs'' (JList []) = Inr (JList [])"
    using c(2,3) that by (simp add: oret_def)
  ultimately show ?thesis using that add_needs_prefix by blast
qed

lemma run_argv_ran: "ran (snd (run_argv H argv s)) = ran s @ [argv]"
  by (auto simp: run_argv_def split: proc_result.splits)

lemma run_tool_pass:
  assumes "fst (run_tool H tool net s) = Inr rec" "py_index rec ''status'' = Inr (JStr ''pass'')"
  shows "permitted tool net \<and> (\<exists>c argv out token. py_index tool ''cmd'' = Inr (JStr c) \<and> prefix (split_words c) argv
    \<and> (py_get tool ''needs'' (JList []) = Inr (JList []) \<longrightarrow> argv = split_words c)
    \<and> last (ran (snd (run_tool H tool net s))) = argv \<and> host_run H argv = Done out 0
    \<and> py_get tool ''pass_token'' JNull = Inr token \<and> token_found token (decode_replace out)
    \<and> \<not> contains ''FAILURES'' (decode_replace out))"
proof -
  obtain ok reason name where p: "may_run tool net = Inr (ok, reason)" "py_index tool ''name'' = Inr name"
    using assms(1) by (auto simp: run_tool_def obind_Inr olift_def)
  have ok: ok
  proof (rule ccontr)
    assume "\<not> ok"
    then have "rec = refusal name reason" using assms(1) p by (simp add: run_tool_def obind_def olift_def oret_def)
    then show False using assms(2) by (simp add: refusal_def)
  qed
  let ?run = "ofinally (obind (\<lambda>s. (Inr (), s\<lparr>procs := []\<rparr>)) (\<lambda>_. obind (build_cmd H tool) (run_argv H))) stop_mocks"
  obtain r passed failed token_ok where
    r: "fst (?run s) = Inr r"
    and t: "rbind (py_get tool ''pass_token'' JNull) (parse_output (fst (outcome_of r))) = Inr (passed, failed, token_ok)"
    and st: "py_index rec ''status'' = Inr (JStr (if snd (outcome_of r) = 0 \<and> token_ok then ''pass'' else ''fail''))"
    and ran: "ran (snd (run_tool H tool net s)) = ran (snd (?run s))"
    using assms(1) p ok by (auto simp: run_tool_def obind_Inr olift_def oret_def Let_def split_def obind_def split: sum.splits)
  obtain out rc where o: "outcome_of r = (out, rc)" by fastforce
  have res: "rc = 0" "token_ok" using st assms(2) by (auto simp: o split: if_splits)
  obtain argv where argv: "fst (build_cmd H tool (s\<lparr>procs := []\<rparr>)) = Inr argv"
      "fst (run_argv H argv (snd (build_cmd H tool (s\<lparr>procs := []\<rparr>)))) = Inr r"
    using r by (auto simp: ofinally_def obind_Inr split_def)
  have last: "last (ran (snd (?run s))) = argv"
    using argv(1) run_argv_ran [of H argv "snd (build_cmd H tool (s\<lparr>procs := []\<rparr>))"]
    by (simp add: ofinally_def obind_def split_def stop_mocks_def)
  obtain token where tok: "py_get tool ''pass_token'' JNull = Inr token" "parse_output out token = Inr (passed, failed, token_ok)"
    using t by (auto simp: rbind_eq_Inr o)
  obtain out' where "host_run H argv = Done out' 0" "out = decode_replace out'"
    using argv(2) o res(1) by (auto simp: run_argv_Inr outcome_of_def split: proc_result.splits option.splits)
  moreover have "permitted tool net" using p(1) ok by (simp add: permitted_def)
  moreover have "token_found token out \<and> \<not> contains ''FAILURES'' out" using parse_output_Inr [OF tok(2)] res(2) by simp
  ultimately show ?thesis using build_cmd_argv [OF argv(1)] last tok(1) unfolding ran by metis
qed


section \<open>Recording\<close>

lemma loads_dumps:
  assumes "L \<in> {compact, spaced, indented 2}" "wf_json v" "plain_ascii (enc L 0 v)"
  shows "loads (dumps L v) = Inr v"
  using assms loads_enc [of L v "[]" "[]" 0] layouts_ok by (auto simp: dumps_def ascii_text_plain)

text \<open>The record as it is stored: the result with its type and time.\<close>

definition stamped :: "host \<Rightarrow> json \<Rightarrow> json" where
  "stamped H rec = py_update (py_update rec ''type'' (JStr ''test_suite'')) ''ts_ms'' (JInt (int (host_now H)))"

lemma record_latest:
  assumes "py_get rec ''status'' JNull = Inr status" "status \<noteq> JStr ''refused''"
    "py_index (stamped H rec) ''suite'' = Inr (JStr suite)" "read_latest (latest s) = JObj fs"
    "wf_json (JObj (fput suite (stamped H rec) fs))" "plain_ascii (enc (indented 2) 0 (JObj (fput suite (stamped H rec) fs)))"
  shows "fst (record_result H rec s) = Inr ()"
    "results (snd (record_result H rec s)) = results s @ dumps spaced (stamped H rec) @ [NL]"
    "read_latest (latest (snd (record_result H rec s))) = JObj (fput suite (stamped H rec) fs)"
proof -
  let ?v = "JObj (fput suite (stamped H rec) fs)"
  have "record_result H rec s = (Inr (), s\<lparr>results := results s @ dumps spaced (stamped H rec) @ [NL],
      latest := Some (dumps (indented 2) ?v)\<rparr>)"
    using assms(1-4) by (simp add: record_result_def obind_def olift_def stamped_def py_put_def Let_def)
  then show "fst (record_result H rec s) = Inr ()"
    "results (snd (record_result H rec s)) = results s @ dumps spaced (stamped H rec) @ [NL]"
    "read_latest (latest (snd (record_result H rec s))) = ?v"
    using loads_dumps [OF _ assms(5,6)] by (simp_all add: read_latest_def)
qed

end
