(* ===== verification/Dashboard.thy ===== *)
theory Dashboard
  imports RunFacts LogTail
begin

text \<open>
  The request handler of the operations console (\<^verbatim>\<open>dashboard_server.py\<close>): the pages and JSON endpoints,
  the run endpoint with its server-side safety check, and the event stream of the metrics file.
\<close>


section \<open>Requests and responses\<close>

text \<open>
  What one server is configured with: \<open>page\<close> is the page it serves, \<open>other_file\<close> gives the text of a
  file that the runner does not write, and the three views are the results of the sandbox modules the
  server imports when asked: the text of an exception, or a value.
\<close>

record console =
  backfill_default :: int
  allow_network :: bool
  results_latest :: string
  page :: string
  other_file :: "string \<Rightarrow> string option"
  follow_view :: "string + json"
  ops_view :: "string + json"
  shadow_view :: "string + fields"

record response =
  code :: nat
  ctype :: string
  body :: string

definition plain_type :: string where
  "plain_type = ''text/plain; charset=utf-8''"

definition send_json :: "nat \<Rightarrow> json \<Rightarrow> response" where
  "send_json c v = \<lparr>code = c, ctype = ''application/json'', body = dumps spaced v\<rparr>"

definition not_found :: response where
  "not_found = \<lparr>code = 404, ctype = plain_type, body = ''not found''\<rparr>"

text \<open>\<^verbatim>\<open>self.path.split("?", 1)[0]\<close>.\<close>

definition before_query :: "string \<Rightarrow> string" where
  "before_query p = takeWhile (\<lambda>c. c \<noteq> CHR ''?'') p"


section \<open>GET\<close>

definition follow_data :: "console \<Rightarrow> json" where
  "follow_data C = (case follow_view C of Inl e \<Rightarrow> JObj [(''error'', JStr e)] | Inr v \<Rightarrow> v)"

definition ops_data :: "console \<Rightarrow> json" where
  "ops_data C = (case ops_view C of Inl e \<Rightarrow> JObj [(''error'', JStr e)] | Inr v \<Rightarrow> v)"

definition shadow_data :: "console \<Rightarrow> json" where
  "shadow_data C = (case shadow_view C of
     Inl e \<Rightarrow> JObj [(''error'', JStr e)]
   | Inr fs \<Rightarrow> JObj (fput ''marks_live'' (JBool (allow_network C)) fs))"

definition annotate :: "console \<Rightarrow> json list \<Rightarrow> json \<Rightarrow> json res" where
  "annotate C all_names t =
     rbind (may_run t (allow_network C)) (\<lambda>(ok, reason).
     rbind (py_index t ''name'') (\<lambda>name.
     if \<not> hashable name then Inl TypeError
     else Inr (py_update (py_update (py_update t ''runnable'' (JBool ok)) ''run_reason'' (JStr reason))
       ''in_run_all'' (JBool (py_member name all_names)))))"

definition names_of :: "json list \<Rightarrow> json list res" where
  "names_of ts = rbind (traverse (\<lambda>t. py_index t ''name'') ts) (\<lambda>names.
     if list_all hashable names then Inr names else Inl TypeError)"

definition tools_view :: "console \<Rightarrow> host \<Rightarrow> json res" where
  "tools_view C H =
     rbind (rbind (load_registry H) py_iter) (\<lambda>reg.
     rbind (rbind (runnable_test_set reg) names_of) (\<lambda>all_names.
     rbind (traverse (annotate C all_names) reg) (\<lambda>out.
     Inr (JObj [(''allow_network'', JBool (allow_network C)), (''tools'', JList out)]))))"

definition latest_path :: "host \<Rightarrow> string" where
  "latest_path H = path_join (work_dir H) ''test_results_latest.json''"

definition results_view :: "console \<Rightarrow> host \<Rightarrow> ops \<Rightarrow> json" where
  "results_view C H s =
     read_latest (if results_latest C = latest_path H then latest s else other_file C (results_latest C))"

text \<open>The stream endpoint never ends; what it writes is described below.\<close>

definition do_GET :: "console \<Rightarrow> host \<Rightarrow> string \<Rightarrow> ops \<Rightarrow> response option res" where
  "do_GET C H p s =
     (let path = before_query p
      in if path = ''/'' then Inr (Some \<lparr>code = 200, ctype = ''text/html; charset=utf-8'', body = page C\<rparr>)
         else if path = ''/healthz'' then Inr (Some (send_json 200 (JObj [(''ok'', JBool True)])))
         else if path = ''/stream'' then Inr None
         else if path = ''/api/tools'' then rmap (\<lambda>v. Some (send_json 200 v)) (tools_view C H)
         else if path = ''/api/results'' then Inr (Some (send_json 200 (results_view C H s)))
         else if path = ''/api/shadow'' then Inr (Some (send_json 200 (shadow_data C)))
         else if path = ''/api/ops'' then Inr (Some (send_json 200 (ops_data C)))
         else if path = ''/api/follow'' then Inr (Some (send_json 200 (follow_data C)))
         else Inr (Some not_found))"


section \<open>POST\<close>

text \<open>\<^verbatim>\<open>int(s)\<close> for ASCII text: white space around, a sign, digits with single underscores between them.\<close>

definition strip_space :: "string \<Rightarrow> string" where
  "strip_space s = rev (dropWhile is_space (rev (dropWhile is_space s)))"

fun digits_ok :: "string \<Rightarrow> bool" where
  "digits_ok [] = False"
| "digits_ok [c] = is_digit c"
| "digits_ok (c # d # cs) = (is_digit c \<and> (if d = CHR ''_'' then digits_ok cs else digits_ok (d # cs)))"

definition py_int :: "string \<Rightarrow> int option" where
  "py_int s =
     (let t = strip_space s;
          u = (if t \<noteq> [] \<and> hd t \<in> {CHR ''+'', CHR ''-''} then tl t else t);
          n = int (nat_of_str (filter is_digit u))
      in if digits_ok u then Some (if t \<noteq> [] \<and> hd t = CHR ''-'' then - n else n) else None)"

definition valid_utf8 :: "string \<Rightarrow> bool" where
  "valid_utf8 b \<longleftrightarrow> decode_replace b = b"

text \<open>The body of a request: \<open>None\<close> when reading it raises, which the handler answers with 400.\<close>

definition request_body :: "string option \<Rightarrow> string \<Rightarrow> json option" where
  "request_body content_length input =
     (case (case content_length of None \<Rightarrow> Some 0 | Some h \<Rightarrow> py_int h) of
        None \<Rightarrow> None
      | Some n \<Rightarrow>
          if n = 0 then Some (JObj [])
          else let b = (if n < 0 then input else take (nat n) input)
            in if valid_utf8 b then (case loads b of Inr v \<Rightarrow> Some v | Inl _ \<Rightarrow> None) else None)"

definition find_tool :: "(json \<times> json) list \<Rightarrow> json \<Rightarrow> json option res" where
  "find_tool by_name name =
     (if hashable name then Inr (map_option snd (find (\<lambda>(k, _). py_eq k name) by_name)) else Inl TypeError)"

text \<open>The tool a request names, or \<open>None\<close> for an unknown one.\<close>

definition named_tool :: "host \<Rightarrow> json \<Rightarrow> (json \<times> json option) res" where
  "named_tool H b =
     rbind (py_get b ''name'' (JStr [])) (\<lambda>name.
     rbind (rbind (rbind (load_registry H) py_iter) tools_by_name) (\<lambda>by_name.
     rmap (Pair name) (find_tool by_name name)))"

definition do_POST :: "console \<Rightarrow> host \<Rightarrow> string \<Rightarrow> string option \<Rightarrow> string \<Rightarrow> response op" where
  "do_POST C H p content_length input =
     (if before_query p \<noteq> ''/api/run'' then oret not_found
      else case request_body content_length input of
        None \<Rightarrow> oret (send_json 400 (JObj [(''error'', JStr ''bad JSON body'')]))
      | Some b \<Rightarrow>
          obind (olift (named_tool H b)) (\<lambda>(name, tool).
          case tool of
            None \<Rightarrow> oret (send_json 404 (JObj [(''error'', JStr (''unknown tool '' @ [CHR 0x27] @ py_str name @ [CHR 0x27]))]))
          | Some t \<Rightarrow>
              if \<not> truthy t
              then oret (send_json 404 (JObj [(''error'', JStr (''unknown tool '' @ [CHR 0x27] @ py_str name @ [CHR 0x27]))]))
              else obind (olift (may_run t (allow_network C))) (\<lambda>(ok, reason).
                if \<not> ok then oret (send_json 403 (JObj [(''error'', JStr ''refused''), (''name'', name), (''reason'', JStr reason)]))
                else obind (run_and_record H t (allow_network C)) (\<lambda>rec. oret (send_json 200 rec)))))"

datatype request = Get string | Post string "string option" string

text \<open>One request: the response if the handler gives one, and the state afterwards.\<close>

definition handle :: "console \<Rightarrow> host \<Rightarrow> request \<Rightarrow> response option op" where
  "handle C H r = (case r of
     Get p \<Rightarrow> (\<lambda>s. (do_GET C H p s, s))
   | Post p content_length input \<Rightarrow> obind (do_POST C H p content_length input) (\<lambda>x. oret (Some x)))"


section \<open>The event stream\<close>

fun query_value :: "string \<Rightarrow> string list \<Rightarrow> string option \<Rightarrow> string option" where
  "query_value k [] found = found"
| "query_value k (kv # kvs) found =
     query_value k kvs (case split_first (CHR ''='') kv of
       Some (k', v) \<Rightarrow> if k' = k then Some v else found
     | None \<Rightarrow> found)"

definition backfill_of :: "console \<Rightarrow> string \<Rightarrow> int" where
  "backfill_of C p =
     (let qs = (case split_first (CHR ''?'') p of
            None \<Rightarrow> None
          | Some (_, q) \<Rightarrow> query_value ''backfill'' (split_on (CHR ''&'') q) None)
      in case qs of
           None \<Rightarrow> max 0 (min 20000 (backfill_default C))
         | Some v \<Rightarrow> (case py_int v of None \<Rightarrow> backfill_default C | Some n \<Rightarrow> max 0 (min 20000 n)))"

definition data_frame :: "string \<Rightarrow> string" where
  "data_frame line = ''data: '' @ filter (\<lambda>c. c \<noteq> CHR 0x0D) line @ [NL, NL]"

definition first_frames :: "string list \<Rightarrow> string list" where
  "first_frames lines = [''retry: 3000'' @ [NL, NL],
     (if lines \<noteq> [] then ''event: backfill'' @ [NL] @ ''data: '' @ dumps compact (jstrs lines) @ [NL, NL]
      else '': no-data-yet'' @ [NL, NL])]"

text \<open>What is written for each value the generator yields, with the time in milliseconds it is handled at.\<close>

fun live_frames :: "nat \<Rightarrow> (emission \<times> nat) list \<Rightarrow> string list" where
  "live_frames last_ping [] = []"
| "live_frames last_ping ((Pause d, t) # es) = live_frames last_ping es"
| "live_frames last_ping ((e, t) # es) =
     (case e of Line l \<Rightarrow> [data_frame l] | _ \<Rightarrow> [])
     @ (if t - last_ping \<ge> 15000 then ('': ping'' @ [NL, NL]) # live_frames t es else live_frames last_ping es)"


section \<open>Only permitted tools have an effect\<close>

text \<open>
  A server of requests that grants some of them: a request that is not granted changes nothing, and
  every request leaves the running processes as it found them.
\<close>

locale guarded_server =
  fixes step :: "'r \<Rightarrow> ops \<Rightarrow> ops"
    and grants :: "'r \<Rightarrow> bool"
  assumes refused_step: "\<not> grants r \<Longrightarrow> step r s = s"
    and settled_step: "settled s (step r s)"
begin

lemma refused_all: "list_all (\<lambda>r. \<not> grants r) rs \<Longrightarrow> fold step rs s = s"
  by (induction rs arbitrary: s) (simp_all add: refused_step)

lemma settled_all: "settled s (fold step rs s)"
proof (induction rs arbitrary: s)
  case (Cons r rs)
  then show ?case using settled.frame_trans [OF settled_step [of s r]] by simp
qed (simp add: settled.frame_refl)

lemma effect_granted: "fold step rs s \<noteq> s \<Longrightarrow> \<exists>r \<in> set rs. grants r"
  using refused_all [of rs s] by (auto simp: list_all_iff)

lemma only_granted: "fold step rs s = fold step (filter grants rs) s"
  by (induction rs arbitrary: s) (simp_all add: refused_step)

end

interpretation runner: guarded_server "\<lambda>(tool, net) s. snd (run_and_record H tool net s)" "\<lambda>(tool, net). permitted tool net"
  for H
  by unfold_locales (auto simp: run_and_record_refused settled_run_and_record)

text \<open>The requests that run something: a POST to the run endpoint naming a registered, permitted tool.\<close>

definition grants_run :: "console \<Rightarrow> host \<Rightarrow> request \<Rightarrow> bool" where
  "grants_run C H r = (case r of
     Get p \<Rightarrow> False
   | Post p content_length input \<Rightarrow> before_query p = ''/api/run'' \<and>
       (case request_body content_length input of
          None \<Rightarrow> False
        | Some b \<Rightarrow> (case named_tool H b of
            Inr (_, Some t) \<Rightarrow> permitted t (allow_network C)
          | _ \<Rightarrow> False)))"

lemma do_POST_refused:
  assumes "\<not> grants_run C H (Post p content_length input)"
  shows "snd (do_POST C H p content_length input s) = s"
proof (cases "before_query p = ''/api/run''")
  case True
  show ?thesis
  proof (cases "request_body content_length input")
    case (Some b)
    show ?thesis
    proof (cases "named_tool H b")
      case (Inr nt)
      obtain name tool where nt: "nt = (name, tool)" by (cases nt)
      have "\<not> permitted t (allow_network C)" if "tool = Some t" for t
        using assms True Some Inr nt that by (simp add: grants_run_def)
      then show ?thesis using True Some Inr nt
        by (auto simp: do_POST_def obind_def olift_def oret_def permitted_def split: option.splits sum.splits if_splits)
    qed (use True Some in \<open>simp add: do_POST_def obind_def olift_def\<close>)
  qed (use True in \<open>simp add: do_POST_def oret_def\<close>)
qed (simp add: do_POST_def oret_def)

lemma settled_do_POST: "settled s (snd (do_POST C H p content_length input s))"
proof (cases "before_query p = ''/api/run''")
  case True
  show ?thesis unfolding do_POST_def
    by (auto simp: True split: option.splits intro!: settled.frame_oret settled.frame_obind settled.frame_olift settled_run_and_record)
qed (simp add: do_POST_def settled.frame_oret)

lemma snd_obind_oret [simp]: "snd (obind m (\<lambda>x. oret (f x)) s) = snd (m s)"
  by (auto simp: obind_def oret_def split: prod.splits sum.splits)

interpretation server: guarded_server "\<lambda>r s. snd (handle C H r s)" "grants_run C H"
  for C H
proof
  show "snd (handle C H r s) = s" if "\<not> grants_run C H r" for r s
    using that do_POST_refused by (cases r) (simp_all add: handle_def)
  show "settled s (snd (handle C H r s))" for r s
    by (cases r) (simp_all add: handle_def settled_do_POST settled.frame_refl)
qed

text \<open>A tool that is registered but refused is answered with 403 and nothing happens.\<close>

lemma refused_answer:
  assumes "before_query p = ''/api/run''" "request_body content_length input = Some b"
    "named_tool H b = Inr (name, Some t)" "truthy t" "may_run t (allow_network C) = Inr (False, reason)"
  shows "do_POST C H p content_length input s
    = (Inr (send_json 403 (JObj [(''error'', JStr ''refused''), (''name'', name), (''reason'', JStr reason)])), s)"
  using assms by (simp add: do_POST_def obind_def olift_def oret_def)


section \<open>The tool list agrees with the policy\<close>

lemma py_index_update: "py_index (py_update d k v) k' = (if is_dict d \<and> k' = k then Inr v else py_index d k')"
  by (cases d) (auto simp: map_of_fput)

lemma is_dict_update [simp]: "is_dict (py_update d k v) = is_dict d"
  by (cases d) simp_all

lemma annotate_runnable:
  assumes "annotate C all_names t = Inr e"
  shows "py_index e ''runnable'' = Inr (JBool (permitted t (allow_network C)))"
proof -
  obtain ok reason name where m: "may_run t (allow_network C) = Inr (ok, reason)" "py_index t ''name'' = Inr name"
    using assms by (auto simp: annotate_def rbind_eq_Inr)
  have "is_dict t" using m(2) by (cases t) simp_all
  then show ?thesis using assms m by (auto simp: annotate_def py_index_update permitted_def split: if_splits)
qed

lemma annotate_in_run_all:
  assumes "annotate C all_names t = Inr e" "py_index t ''name'' = Inr name"
  shows "py_index e ''in_run_all'' = Inr (JBool (py_member name all_names))"
proof -
  have "is_dict t" using assms(2) by (cases t) simp_all
  then show ?thesis using assms by (auto simp: annotate_def py_index_update rbind_eq_Inr split: if_splits)
qed

lemma tools_view_Inr:
  assumes "tools_view C H = Inr v"
  obtains reg all_names out where "rbind (load_registry H) py_iter = Inr reg"
    "v = JObj [(''allow_network'', JBool (allow_network C)), (''tools'', JList out)]"
    "list_all2 (\<lambda>t e. annotate C all_names t = Inr e) reg out"
proof -
  obtain reg where r: "rbind (load_registry H) py_iter = Inr reg"
    using assms by (cases "rbind (load_registry H) py_iter") (simp_all add: tools_view_def)
  then obtain all_names out where "traverse (annotate C all_names) reg = Inr out"
      "v = JObj [(''allow_network'', JBool (allow_network C)), (''tools'', JList out)]"
    using assms by (auto simp: tools_view_def rbind_eq_Inr)
  then show thesis using that r by (simp add: traverse_eq_Inr)
qed


section \<open>The stream\<close>

lemma backfill_bounds:
  assumes "0 \<le> backfill_default C" "backfill_default C \<le> 20000"
  shows "0 \<le> backfill_of C p \<and> backfill_of C p \<le> 20000"
  using assms by (auto simp: backfill_of_def Let_def split: option.splits)

lemma hex_digit_no_newline: "d < 16 \<Longrightarrow> hex_digit d \<noteq> NL"
proof
  assume "d < 16" "hex_digit d = NL"
  then have "hex_val NL = Some d" using hex_val_digit [of d] by simp
  moreover have "hex_val NL = None" by code_simp
  ultimately show False by simp
qed

lemma enc_str_no_newline: "NL \<notin> set (enc_str s)"
proof -
  have "NL \<notin> set (enc_char c)" for c
    using hex_digit_no_newline [THEN not_sym]
    by (auto simp: enc_char_def less_char_def)
  then show ?thesis by (auto simp: enc_str_def)
qed

lemma digits_no_newline: "NL \<notin> set (str_of_nat n)" "NL \<notin> set (str_of_int i)" "NL \<notin> set (str_of_dec m e)"
proof -
  show n: "NL \<notin> set (str_of_nat n)" for n
    using str_of_nat_digits [of n] by (auto simp: is_digit_def less_eq_char_def)
  show "NL \<notin> set (str_of_int i)" "NL \<notin> set (str_of_dec m e)"
    using n by (auto simp: str_of_int_def str_of_dec_def pad_left_def Let_def)
qed

lemma enc_no_newline:
  assumes "indent L = None" "NL \<notin> set (item_sep L)" "NL \<notin> set (key_sep L)"
  shows "NL \<notin> set (enc L d v)" "NL \<notin> set (enc_items L d xs)" "NL \<notin> set (enc_fields L d fs)"
  using assms
  by (induction L d v and L d xs and L d fs rule: enc_enc_items_enc_fields.induct)
     (auto simp: enc_str_no_newline digits_no_newline newline_def)

lemma hex_u_no_newline: "NL \<notin> set (hex_u n)"
  using hex_digit_no_newline [THEN not_sym] by (auto simp: hex_u_def)

lemma ascii_text_no_newline: "NL \<notin> set s \<Longrightarrow> NL \<notin> set (ascii_text s)"
proof (induction s rule: ascii_text.induct)
  case (2 c cs)
  have "NL \<notin> set (drop k cs)" for k using 2(5) by (auto dest: in_set_dropD)
  then show ?case using 2 by (auto simp: hex_u_no_newline code_escape_def split: option.splits)
qed simp

lemma dumps_compact_no_newline: "NL \<notin> set (dumps compact v)"
  unfolding dumps_def by (intro ascii_text_no_newline enc_no_newline) (simp_all add: compact_def)

text \<open>A frame of the stream is one event: the payload has no line break, and the frame ends with a blank line.\<close>

definition one_event :: "string \<Rightarrow> bool" where
  "one_event f \<longleftrightarrow> (\<exists>fields. f = concat (map (\<lambda>l. l @ [NL]) fields) @ [NL] \<and> fields \<noteq> []
     \<and> list_all (\<lambda>l. l \<noteq> [] \<and> NL \<notin> set l) fields)"

lemma one_eventI: "l \<noteq> [] \<Longrightarrow> NL \<notin> set l \<Longrightarrow> one_event (l @ [NL, NL])"
  unfolding one_event_def by (intro exI [of _ "[l]"]) simp

lemma first_frames_events: "f \<in> set (first_frames ls) \<Longrightarrow> one_event f"
proof -
  have "one_event (''event: backfill'' @ [NL] @ (''data: '' @ dumps compact (jstrs ls)) @ [NL, NL])"
    unfolding one_event_def
    by (intro exI [of _ "[''event: backfill'', ''data: '' @ dumps compact (jstrs ls)]"]) (simp add: dumps_compact_no_newline)
  moreover have "one_event (''retry: 3000'' @ [NL, NL])" "one_event ('': no-data-yet'' @ [NL, NL])"
    by (rule one_eventI; simp)+
  moreover assume "f \<in> set (first_frames ls)"
  ultimately show ?thesis by (auto simp: first_frames_def split: if_splits)
qed

lemma data_frame_event: "NL \<notin> set l \<Longrightarrow> one_event (data_frame l)"
  using one_eventI [of "''data: '' @ filter (\<lambda>c. c \<noteq> CHR 0x0D) l"] by (simp add: data_frame_def)

lemma live_frames_events:
  "(\<And>l t. (Line l, t) \<in> set es \<Longrightarrow> NL \<notin> set l) \<Longrightarrow> f \<in> set (live_frames last_ping es) \<Longrightarrow> one_event f"
proof (induction last_ping es rule: live_frames.induct)
  have ping: "one_event ('': ping'' @ [NL, NL])" by (rule one_eventI) simp_all
  {
    case (1 last_ping)
    then show ?case by simp
  next
    case (2 last_ping d t es)
    then show ?case by auto
  next
    case "3_1"
    then show ?case using ping by (auto split: if_splits)
  next
    case "3_2"
    then show ?case using ping by (auto split: if_splits intro: data_frame_event)
  }
qed

end
