(* ===== verification/CheckRegistry.thy ===== *)
theory CheckRegistry
  imports RunFacts
begin

text \<open>
  The check of the tool registry (\<^verbatim>\<open>tools/check_registry.py\<close>): \<^verbatim>\<open>tools.json\<close> against its rules and
  against the targets of the Makefile.
\<close>


section \<open>The rules\<close>

definition SAFETY :: "string list" where
  "SAFETY = [''pure'', ''offline'', ''network_read'', ''live_order'']"

definition KIND :: "string list" where
  "KIND = [''test'', ''bench'', ''probe'', ''daemon'', ''check'', ''example'']"

definition REQUIRED :: "string list" where
  "REQUIRED = [''name'', ''kind'', ''safety'', ''cmd'', ''description'', ''docs'']"

definition NON_TOOLS :: "string list" where
  "NON_TOOLS = [''ixws'', ''scratch'']"

text \<open>The files the check reads (or the exception reading one raises) and what exists below the root.\<close>

record tree =
  tree_root :: string
  tools_text :: "string res"
  makefile_text :: "string res"
  tree_exists :: "string \<Rightarrow> bool"
  load_error :: "py_exc \<Rightarrow> string"


section \<open>Regular expressions\<close>

definition is_word :: "char \<Rightarrow> bool" where
  "is_word c \<longleftrightarrow> (CHR ''A'' \<le> c \<and> c \<le> CHR ''Z'') \<or> (CHR ''a'' \<le> c \<and> c \<le> CHR ''z'') \<or> is_digit c \<or> c = CHR ''_''"

text \<open>
  \<^verbatim>\<open>^\./(build/([A-Za-z0-9_]+))$\<close> on a command: the second group.  The dollar also matches before a
  newline at the end.
\<close>

definition match_build :: "string \<Rightarrow> string option" where
  "match_build cmd =
     (if starts_with cmd ''./build/'' then
        (let rest = drop 8 cmd; x = takeWhile is_word rest; y = dropWhile is_word rest
         in if x \<noteq> [] \<and> (y = [] \<or> y = [NL]) then Some x else None)
      else None)"

text \<open>\<^verbatim>\<open>^\$\(BUILD\)/([A-Za-z0-9_]+):\<close> in every line of the Makefile.\<close>

definition match_target :: "string \<Rightarrow> string option" where
  "match_target l =
     (if starts_with l ''$(BUILD)/'' then
        (let rest = drop 9 l; x = takeWhile is_word rest; y = dropWhile is_word rest
         in if x \<noteq> [] \<and> starts_with y '':'' then Some x else None)
      else None)"

definition targets_of :: "string \<Rightarrow> string list" where
  "targets_of mk = List.map_filter match_target (split_on NL mk)"

definition tool_targets :: "string \<Rightarrow> string list" where
  "tool_targets mk = filter (\<lambda>x. x \<notin> set NON_TOOLS \<and> \<not> ends_with x ''_tsan'') (targets_of mk)"

text \<open>A file opened as text has its line ends translated.\<close>

fun text_lines :: "string \<Rightarrow> string" where
  "text_lines [] = []"
| "text_lines [c] = (if c = CHR 0x0D then [NL] else [c])"
| "text_lines (c # d # cs) =
     (if c = CHR 0x0D then NL # (if d = NL then text_lines cs else text_lines (d # cs)) else c # text_lines (d # cs))"


section \<open>One tool\<close>

definition has_key :: "json \<Rightarrow> string \<Rightarrow> bool res" where
  "has_key t k = py_in (JStr k) t"

definition report :: "bool res \<Rightarrow> string \<Rightarrow> string list res" where
  "report bad message = rmap (\<lambda>b. if b then [message] else []) bad"

definition get_text :: "json \<Rightarrow> string \<Rightarrow> string res" where
  "get_text t k = rmap py_str (py_get t k JNull)"

definition get_in :: "json \<Rightarrow> string \<Rightarrow> string list \<Rightarrow> bool res" where
  "get_in t k xs = rbind (py_get t k JNull) (\<lambda>x. in_set x xs)"

definition field_errors :: "json \<Rightarrow> string \<Rightarrow> string list res" where
  "field_errors t n = collect (map (\<lambda>r. report (rmap Not (has_key t r))
       (n @ '': missing required field '' @ [CHR 0x27] @ r @ [CHR 0x27])) REQUIRED
     @ [rbind (get_text t ''safety'') (\<lambda>x. report (rmap Not (get_in t ''safety'' SAFETY))
          (n @ '': invalid safety '' @ [CHR 0x27] @ x @ [CHR 0x27])),
        rbind (get_text t ''kind'') (\<lambda>x. report (rmap Not (get_in t ''kind'' KIND))
          (n @ '': invalid kind '' @ [CHR 0x27] @ x @ [CHR 0x27])),
        rbind (get_text t ''kind'') (\<lambda>x. report (rand (get_in t ''kind'' [''test'', ''check''])
            (rmap (\<lambda>p. \<not> truthy p) (py_get t ''pass_token'' JNull)))
          (n @ '': kind='' @ x @ '' requires a pass_token''))])"

definition seen :: "json \<Rightarrow> json list \<Rightarrow> bool res" where
  "seen n names = (if hashable n then Inr (py_member n names) else Inl TypeError)"

definition cmd_errors :: "tree \<Rightarrow> bool \<Rightarrow> json \<Rightarrow> string \<Rightarrow> string \<Rightarrow> string list res" where
  "cmd_errors T require_built t n cmd =
     (case match_build cmd of
        Some x \<Rightarrow>
          rbind (py_get t ''build'' JNull) (\<lambda>b.
          report (Inr (require_built \<and> \<not> py_eq b (JStr ''on_demand'') \<and> \<not> tree_exists T (path_join (tree_root T) (''build/'' @ x))))
            (n @ '': binary build/'' @ x @ '' not built''))
      | None \<Rightarrow>
          report (Inr (\<not> tree_exists T (path_join (tree_root T) (if starts_with cmd ''./'' then drop 2 cmd else cmd))))
            (n @ '': cmd path '' @ [CHR 0x27] @ cmd @ [CHR 0x27] @ '' does not exist''))"

text \<open>What the loop carries: the names seen, the binaries registered, the errors.\<close>

record scan =
  scan_names :: "json list"
  scan_bins :: "string list"
  scan_errs :: "string list"

definition check_tool :: "tree \<Rightarrow> bool \<Rightarrow> json \<Rightarrow> scan \<Rightarrow> scan res" where
  "check_tool T require_built t sc =
     rbind (py_get t ''name'' (JStr ''<noname>'')) (\<lambda>name.
     rbind (field_errors t (py_str name)) (\<lambda>fes.
     rbind (report (seen name (scan_names sc)) (py_str name @ '': duplicate name'')) (\<lambda>nes.
     rbind (py_get t ''cmd'' (JStr [])) (\<lambda>cmd.
     case cmd of
       JStr c \<Rightarrow>
         rbind (cmd_errors T require_built t (py_str name) c) (\<lambda>ces.
         Inr \<lparr>scan_names = name # scan_names sc,
              scan_bins = (case match_build c of Some x \<Rightarrow> x # scan_bins sc | None \<Rightarrow> scan_bins sc),
              scan_errs = scan_errs sc @ fes @ nes @ ces\<rparr>)
     | _ \<Rightarrow> Inl TypeError))))"

fun check_tools :: "tree \<Rightarrow> bool \<Rightarrow> json list \<Rightarrow> scan \<Rightarrow> scan res" where
  "check_tools T require_built [] sc = Inr sc"
| "check_tools T require_built (t # ts) sc =
     rbind (check_tool T require_built t sc) (check_tools T require_built ts)"


section \<open>The check\<close>

definition coverage_errors :: "string list \<Rightarrow> string list \<Rightarrow> string list" where
  "coverage_errors tgts bins =
     map (\<lambda>x. ''Makefile builds '' @ [CHR 0x27] @ x @ [CHR 0x27] @ '' but it is NOT registered in tools.json'')
       (filter (\<lambda>x. x \<notin> set bins) (sorted_set tgts))
   @ map (\<lambda>x. ''tools.json registers ./build/'' @ x @ '' but no Makefile target builds it'')
       (filter (\<lambda>x. x \<notin> set tgts) (sorted_set bins))"

text \<open>\<^verbatim>\<open>sorted\<close> on values that can be hashed: strings, or numbers, or at most one value of any kind.\<close>

fun num_le :: "int \<times> nat \<Rightarrow> int \<times> nat \<Rightarrow> bool" where
  "num_le (m, e) (n, f) \<longleftrightarrow> m * 10 ^ f \<le> n * 10 ^ e"

fun json_le :: "json \<Rightarrow> json \<Rightarrow> bool" where
  "json_le (JStr s) (JStr t) \<longleftrightarrow> s \<le> t"
| "json_le v w \<longleftrightarrow> (case (num v, num w) of (Some p, Some q) \<Rightarrow> num_le p q | _ \<Rightarrow> False)"

fun insert_sorted :: "json \<Rightarrow> json list \<Rightarrow> json list" where
  "insert_sorted v [] = [v]"
| "insert_sorted v (w # ws) = (if json_le v w then v # w # ws else w # insert_sorted v ws)"

definition py_sorted :: "json list \<Rightarrow> json list res" where
  "py_sorted vs =
     (if length vs \<le> 1 \<or> list_all is_str vs \<or> list_all (\<lambda>v. num v \<noteq> None) vs
      then Inr (foldr insert_sorted vs []) else Inl TypeError)"

fun live_names :: "json list \<Rightarrow> json list res" where
  "live_names [] = Inr []"
| "live_names (t # ts) =
     rbind (py_get t ''safety'' JNull) (\<lambda>x.
     if py_eq x (JStr ''live_order'')
     then rbind (py_index t ''name'') (\<lambda>n. rmap (Cons n) (live_names ts))
     else live_names ts)"

definition fail_report :: "string list \<Rightarrow> nat \<times> string list" where
  "fail_report errs = (1, ''REGISTRY FAIL'' # map (\<lambda>e. ''  - '' @ e) errs)"

text \<open>\<^verbatim>\<open>main\<close>: the exit status and the lines printed.\<close>

definition check_main :: "tree \<Rightarrow> bool \<Rightarrow> (nat \<times> string list) res" where
  "check_main T require_built =
     (case rbind (tools_text T) loads of
        Inl e \<Rightarrow> if tools_text T = Inl OSError then Inl OSError
          else Inr (fail_report [''tools.json is not valid JSON: '' @ load_error T e])
      | Inr data \<Rightarrow>
          rbind (py_get data ''tools'' (JList [])) (\<lambda>tools.
          if \<not> truthy tools then Inr (fail_report [''tools.json has no '' @ [CHR 0x27] @ ''tools'' @ [CHR 0x27] @ '' array''])
          else rbind (py_iter tools) (\<lambda>ts.
          rbind (check_tools T require_built ts \<lparr>scan_names = [], scan_bins = [], scan_errs = []\<rparr>) (\<lambda>sc.
          rbind (makefile_text T) (\<lambda>mk.
          let tgts = tool_targets (text_lines mk);
              errs = scan_errs sc @ coverage_errors tgts (scan_bins sc)
          in if errs \<noteq> [] then Inr (fail_report errs)
             else rbind (rbind (live_names ts) py_sorted) (\<lambda>lo.
               Inr (0, [''registry ok: '' @ str_of_nat (length ts) @ '' tools, '' @ str_of_nat (length (remdups tgts))
                 @ '' build targets covered; live_order (console-forbidden)='' @ py_repr (JList lo)])))))))"


section \<open>What a passing check means\<close>

text \<open>One tool of a registry that passes.\<close>

definition tool_ok :: "json \<Rightarrow> bool" where
  "tool_ok t \<longleftrightarrow> (\<exists>fs name safety kind cmd. t = JObj fs \<and> set REQUIRED \<subseteq> fst ` set fs
     \<and> map_of fs ''name'' = Some name \<and> hashable name
     \<and> map_of fs ''safety'' = Some (JStr safety) \<and> safety \<in> set SAFETY
     \<and> map_of fs ''kind'' = Some (JStr kind) \<and> kind \<in> set KIND
     \<and> map_of fs ''cmd'' = Some (JStr cmd)
     \<and> (kind \<in> {''test'', ''check''} \<longrightarrow> (\<exists>p. map_of fs ''pass_token'' = Some p \<and> truthy p)))"

definition tool_name :: "json \<Rightarrow> json" where
  "tool_name t = (case py_index t ''name'' of Inr n \<Rightarrow> n | Inl _ \<Rightarrow> JNull)"

definition tool_bin :: "json \<Rightarrow> string option" where
  "tool_bin t = (case py_index t ''cmd'' of Inr (JStr c) \<Rightarrow> match_build c | _ \<Rightarrow> None)"

lemma report_Nil: "report b m = Inr [] \<longleftrightarrow> b = Inr False"
  by (auto simp: report_def rmap_eq_Inr)

lemma rmap_Not: "rmap Not b = Inr False \<longleftrightarrow> b = Inr True"
  by (auto simp: rmap_eq_Inr)

lemma rand_eq_False: "rand a b = Inr False \<longleftrightarrow> a = Inr False \<or> (a = Inr True \<and> b = Inr False)"
  by (auto simp: rand_def rbind_def split: sum.splits bool.splits)

lemma field_errors_Nil:
  assumes "field_errors t n = Inr []" "is_dict t"
  shows "\<exists>fs safety kind. t = JObj fs \<and> set REQUIRED \<subseteq> fst ` set fs
     \<and> map_of fs ''safety'' = Some (JStr safety) \<and> safety \<in> set SAFETY
     \<and> map_of fs ''kind'' = Some (JStr kind) \<and> kind \<in> set KIND
     \<and> (kind \<in> {''test'', ''check''} \<longrightarrow> (\<exists>p. map_of fs ''pass_token'' = Some p \<and> truthy p))"
proof -
  obtain fs where t: "t = JObj fs" using assms(2) by (cases t) simp_all
  let ?rs = "map (\<lambda>r. report (rmap Not (has_key t r)) (n @ '': missing required field '' @ [CHR 0x27] @ r @ [CHR 0x27])) REQUIRED"
  have a: "\<forall>r \<in> set REQUIRED. has_key t r = Inr True"
    and s: "get_in t ''safety'' SAFETY = Inr True" and k: "get_in t ''kind'' KIND = Inr True"
    and p: "rand (get_in t ''kind'' [''test'', ''check'']) (rmap (\<lambda>p. \<not> truthy p) (py_get t ''pass_token'' JNull)) = Inr False"
    using assms(1) unfolding field_errors_def collect_eq_Nil set_append ball_Un
    by (auto simp: report_Nil rbind_eq_Inr get_text_def rmap_eq_Inr)
  have req: "set REQUIRED \<subseteq> fst ` set fs" using a by (force simp: has_key_def t)
  obtain safety where safety: "map_of fs ''safety'' = Some (JStr safety)" "safety \<in> set SAFETY"
    using s by (cases "map_of fs ''safety''") (auto simp: get_in_def t in_set_def split: if_splits)
  obtain kind where kind: "map_of fs ''kind'' = Some (JStr kind)" "kind \<in> set KIND"
    using k by (cases "map_of fs ''kind''") (auto simp: get_in_def t in_set_def split: if_splits)
  have "\<exists>q. map_of fs ''pass_token'' = Some q \<and> truthy q" if "kind \<in> {''test'', ''check''}"
    using p that kind(1)
    by (cases "map_of fs ''pass_token''") (auto simp: get_in_def t in_set_def rand_eq_False)
  then show ?thesis using t req safety kind by blast
qed

lemma check_tool_Inr:
  assumes "check_tool T require_built t sc = Inr sc'" "scan_errs sc' = []"
  shows "tool_ok t \<and> scan_errs sc = [] \<and> \<not> py_member (tool_name t) (scan_names sc)
    \<and> scan_names sc' = tool_name t # scan_names sc
    \<and> set (scan_bins sc') = set_option (tool_bin t) \<union> set (scan_bins sc)"
proof -
  obtain name where n: "py_get t ''name'' (JStr ''<noname>'') = Inr name"
    using assms(1) by (auto simp: check_tool_def rbind_eq_Inr)
  then have d: "is_dict t" by (cases t) simp_all
  obtain fes nes v where e: "field_errors t (py_str name) = Inr fes"
      "report (seen name (scan_names sc)) (py_str name @ '': duplicate name'') = Inr nes" "py_get t ''cmd'' (JStr []) = Inr v"
    using assms(1) n by (auto simp: check_tool_def rbind_eq_Inr)
  obtain c where v: "v = JStr c" using assms(1) n e by (cases v) (simp_all add: check_tool_def)
  then have f: "field_errors t (py_str name) = Inr []"
    and r: "report (seen name (scan_names sc)) (py_str name @ '': duplicate name'') = Inr []"
    and c: "py_get t ''cmd'' (JStr []) = Inr (JStr c)"
    and sc: "scan_errs sc = []" "scan_names sc' = name # scan_names sc"
      "scan_bins sc' = (case match_build c of Some x \<Rightarrow> x # scan_bins sc | None \<Rightarrow> scan_bins sc)"
    using assms n e by (auto simp: check_tool_def rbind_eq_Inr)
  obtain fs safety kind where t: "t = JObj fs" "set REQUIRED \<subseteq> fst ` set fs"
     "map_of fs ''safety'' = Some (JStr safety)" "safety \<in> set SAFETY"
     "map_of fs ''kind'' = Some (JStr kind)" "kind \<in> set KIND"
     "kind \<in> {''test'', ''check''} \<longrightarrow> (\<exists>p. map_of fs ''pass_token'' = Some p \<and> truthy p)"
    using field_errors_Nil [OF f d] by blast
  have "''name'' \<in> fst ` set fs" "''cmd'' \<in> fst ` set fs" using t(2) by (auto simp: REQUIRED_def)
  then have nc: "map_of fs ''name'' = Some name" "map_of fs ''cmd'' = Some (JStr c)"
    using n c by (auto simp: t(1) map_of_eq_None_iff split: option.splits)
  have "hashable name" "\<not> py_member name (scan_names sc)"
    using r by (auto simp: report_Nil seen_def split: if_splits)
  moreover have "tool_name t = name" "tool_bin t = match_build c" using nc t(1) by (simp_all add: tool_name_def tool_bin_def)
  moreover have "tool_ok t" unfolding tool_ok_def using t nc \<open>hashable name\<close> by blast
  ultimately show ?thesis using sc by (auto split: option.splits)
qed

lemma py_member_self: "hashable n \<Longrightarrow> n \<in> set names \<Longrightarrow> py_member n names"
  by (cases n) (force simp: py_member_def list_ex_iff)+

lemma check_tools_Inr:
  "check_tools T require_built ts sc = Inr sc' \<Longrightarrow> scan_errs sc' = [] \<Longrightarrow>
   list_all tool_ok ts \<and> scan_errs sc = [] \<and> (\<forall>t \<in> set ts. \<not> py_member (tool_name t) (scan_names sc))
   \<and> distinct (map tool_name ts) \<and> scan_names sc' = rev (map tool_name ts) @ scan_names sc
   \<and> set (scan_bins sc') = {x. \<exists>t \<in> set ts. tool_bin t = Some x} \<union> set (scan_bins sc)"
proof (induction ts arbitrary: sc)
  case (Cons t ts)
  obtain mid where m: "check_tool T require_built t sc = Inr mid" "check_tools T require_built ts mid = Inr sc'"
    using Cons.prems(1) by (auto simp: rbind_eq_Inr)
  note rest = Cons.IH [OF m(2) Cons.prems(2)]
  have one: "tool_ok t \<and> scan_errs sc = [] \<and> \<not> py_member (tool_name t) (scan_names sc)
    \<and> scan_names mid = tool_name t # scan_names sc
    \<and> set (scan_bins mid) = set_option (tool_bin t) \<union> set (scan_bins sc)"
    using check_tool_Inr [OF m(1)] rest by blast
  have fresh: "\<not> py_member (tool_name u) (tool_name t # scan_names sc)" if "u \<in> set ts" for u
    using rest one that by auto
  have "tool_name t \<notin> set (map tool_name ts)"
  proof
    assume "tool_name t \<in> set (map tool_name ts)"
    then obtain u where u: "u \<in> set ts" "tool_name u = tool_name t" by auto
    have "hashable (tool_name t)" using one by (auto simp: tool_ok_def tool_name_def)
    then have "py_member (tool_name u) (tool_name t # scan_names sc)" using u(2) by (simp add: py_member_self)
    then show False using fresh [OF u(1)] by blast
  qed
  moreover have "\<not> py_member (tool_name u) (scan_names sc)" if "u \<in> set ts" for u
    using fresh [OF that] by (simp add: py_member_def)
  ultimately show ?case using one rest by auto
qed simp

lemma coverage_Nil: "coverage_errors tgts bins = [] \<longleftrightarrow> set tgts = set bins"
  by (auto simp: coverage_errors_def filter_empty_conv)

lemma check_main_ok:
  assumes "check_main T require_built = Inr (0, out)"
  obtains tx data ts mk where "tools_text T = Inr tx" "loads tx = Inr data" "py_get data ''tools'' (JList []) = Inr (JList ts)"
    "makefile_text T = Inr mk" "ts \<noteq> []" "list_all tool_ok ts" "distinct (map tool_name ts)"
    "{x. \<exists>t \<in> set ts. tool_bin t = Some x} = set (tool_targets (text_lines mk))"
proof -
  obtain tx data where t: "tools_text T = Inr tx" "loads tx = Inr data"
    using assms by (auto simp: check_main_def fail_report_def rbind_def split: sum.splits if_splits)
  obtain tools ts sc mk where p: "py_get data ''tools'' (JList []) = Inr tools" "truthy tools" "py_iter tools = Inr ts"
      "check_tools T require_built ts \<lparr>scan_names = [], scan_bins = [], scan_errs = []\<rparr> = Inr sc" "makefile_text T = Inr mk"
      "scan_errs sc @ coverage_errors (tool_targets (text_lines mk)) (scan_bins sc) = []"
    using assms t by (auto simp: check_main_def fail_report_def Let_def rbind_eq_Inr split: if_splits)
  have c: "list_all tool_ok ts" "distinct (map tool_name ts)" "set (scan_bins sc) = {x. \<exists>t \<in> set ts. tool_bin t = Some x}"
    using check_tools_Inr [OF p(4)] p(6) by auto
  have "set (scan_bins sc) = set (tool_targets (text_lines mk))" using p(6) by (auto simp: coverage_Nil)
  moreover have "list_all is_dict ts" using c(1) by (auto simp: list_all_iff tool_ok_def)
  then have "tools = JList ts \<and> ts \<noteq> []" using p(2,3) by (cases tools; cases ts) (auto simp: split_def)
  ultimately show thesis using that t p(1,5) c by auto
qed

end
