(* ===== verification/ConsoleFacts.thy ===== *)
theory ConsoleFacts
  imports Dashboard CheckRegistry
begin

text \<open>
  The console as a whole: what the event stream delivers from the first line to the last, and what a
  checked tool registry means for the run endpoint.
\<close>


section \<open>Backfill and stream together\<close>

lemma tails_log: "tails w w' \<Longrightarrow> \<exists>t. log w' = log w @ t"
  by (cases rule: tails.cases) auto

lemma reachable_log: "tails\<^sup>*\<^sup>* w w' \<Longrightarrow> \<exists>t. log w' = log w @ t"
proof (induction rule: rtranclp_induct)
  case (step w' w'')
  then show ?case using tails_log [OF step(2)] by auto
qed simp

lemma last_n_all: "last_n n xs @ ys = last_n (n + length ys) (xs @ ys)"
  by (simp add: last_n_def)

lemma complete_no_rest: "ends_line x \<Longrightarrow> complete_of x = x"
  using complete_rest_unique(1) [of x "[]"] by simp

text \<open>From a log of whole lines, backfill and stream give the last lines and then every new one.\<close>

lemma no_gap:
  assumes "ends_line content" "no_blank_lines content" "content \<noteq> []" "0 < n"
    and "tails\<^sup>*\<^sup>* (tail_start content (length content)) w"
    and "stream_turn (file_size (Some (log w))) (reads_of (log w)) (reader w) = (r, es)"
  defines "new \<equiv> sent_lines (yielded w @ es)"
  shows "fst (tail_lines (file_size (Some content)) (reads_of content) n) @ new
    = last_n (nat n + length new) (map decode_replace (lines_of (complete_of (log w))))"
proof -
  obtain t where t: "log w = content @ t" using reachable_log [OF assms(5)] by (auto simp: tail_start_def)
  have inv: "tail_inv (length content) w" using tail_inv_reachable [OF assms(5) tail_inv_start] by simp
  have new: "new = map decode_replace (lines_of (complete_of t))"
    using caught_up_lines [OF inv assms(6)] by (simp add: new_def t)
  have whole: "lines_of (complete_of (log w)) = lines_of content @ lines_of (complete_of t)"
    using complete_append(1) [OF assms(1)] lines_of_append [OF assms(1)] by (simp add: t)
  have "fst (tail_lines (file_size (Some content)) (reads_of content) n) = map decode_replace (last_n (nat n) (lines_of content))"
    using tail_lines_no_blank [OF assms(2-4)] by (simp add: file_size_def)
  also have "\<dots> = last_n (nat n) (map decode_replace (lines_of content))" by (simp add: last_n_def drop_map)
  finally show ?thesis by (simp add: new whole last_n_all)
qed


section \<open>Files on which complete lines are not what is delivered\<close>

lemma partial_line_split:
  "fst (tail_lines (file_size (Some (''a'' @ [NL] @ ''b''))) (reads_of (''a'' @ [NL] @ ''b'')) 1) = [''b'']"
  "snd (stream_turn (file_size (Some (''a'' @ [NL] @ ''bc'' @ [NL]))) (reads_of (''a'' @ [NL] @ ''bc'' @ [NL]))
     \<lparr>read_to = 3, pending = []\<rparr>) = [Line ''c'']"
proof -
  have "no_blank_lines (''a'' @ [NL] @ ''b'')" by code_simp
  moreover have "lines_of (''a'' @ [NL] @ ''b'') = [''a'', ''b'']" by code_simp
  ultimately show "fst (tail_lines (file_size (Some (''a'' @ [NL] @ ''b''))) (reads_of (''a'' @ [NL] @ ''b'')) 1) = [''b'']"
    using tail_lines_no_blank [of "''a'' @ [NL] @ ''b''" 1] by (simp add: file_size_def last_n_def)
  have "lines_of (complete_of (''c'' @ [NL])) = [''c'']" by code_simp
  then show "snd (stream_turn (file_size (Some (''a'' @ [NL] @ ''bc'' @ [NL]))) (reads_of (''a'' @ [NL] @ ''bc'' @ [NL]))
     \<lparr>read_to = 3, pending = []\<rparr>) = [Line ''c'']"
    by (simp add: stream_turn_def file_size_def reads_of_def numeral_3_eq_3)
qed

definition long_line :: string where
  "long_line = replicate 70000 (CHR ''x'')"

lemma count_list_replicate [simp]: "count_list (replicate n x) y = (if x = y then n else 0)"
  by (induction n) auto

lemma split_on_trailing: "NL \<notin> set x \<Longrightarrow> split_on NL (x @ replicate m NL) = x # replicate m []"
proof (induction m)
  case 0
  then show ?case by (simp add: split_on_single)
next
  case (Suc m)
  have "split_on NL (replicate k NL) = replicate (Suc k) []" for k by (induction k) simp_all
  then show ?case using Suc split_on_append [of NL x "replicate m NL"] by (simp add: split_on_single)
qed

lemma lines_of_trailing: "NL \<notin> set x \<Longrightarrow> nonblank x \<Longrightarrow> lines_of (x @ replicate m NL) = [x]"
  by (simp add: lines_of_def split_on_trailing nonblank_def)

lemma nonblank_drop: "nonblank (drop k l) \<Longrightarrow> nonblank l"
  by (auto simp: nonblank_def list_ex_iff dest: in_set_dropD)

text \<open>A line that is followed by more newlines than lines are asked for, and that reaches over the first block.\<close>

lemma fragment_returned:
  assumes "NL \<notin> set l" "0 < n" "n < m" "m \<le> 65536" "65536 < length l + m" "nonblank (drop (length l + m - 65536) l)"
    and c_def: "c = earlier @ l @ replicate m NL"
  shows "fst (tail_lines (file_size (Some c)) (reads_of c) (int n)) = [decode_replace (drop (length l + m - 65536) l)]"
proof -
  let ?x = "drop (length l + m - 65536) l"
  let ?d = "?x @ replicate m NL" and ?pos = "length c - 65536"
  have x: "NL \<notin> set ?x" using assms(1) by (auto dest: in_set_dropD)
  have len: "length c = length earlier + length l + m" by (simp add: c_def)
  have pos: "0 < ?pos" "\<not> length c \<le> 65536" "min 65536 (length c) = 65536" using assms(5) len by auto
  have "drop ?pos c = ?d"
  proof -
    have "?pos = length earlier + (length l + m - 65536)" using len assms(5) by simp
    moreover have "length l + m - 65536 \<le> length l" using assms(4) by simp
    ultimately show ?thesis by (simp add: c_def)
  qed
  moreover have "length ?d \<le> 65536" using assms(4,5) by simp
  ultimately have read: "reads_of c ?pos 65536 = Some ?d" by (simp add: reads_of_def)
  have cnt: "count_list ?d NL = m" using x by (simp add: count_list_0_iff)
  have "tail_loop (reads_of c) n ?pos ?d = Some ?d" using cnt assms(3) by (subst tail_loop.simps) simp
  then have "tail_loop (reads_of c) n (length c) [] = Some ?d"
    using read pos by (subst tail_loop.simps) (auto simp: Let_def)
  moreover have "lines_of ?d = [?x]" by (rule lines_of_trailing [OF x assms(6)])
  moreover have "last_n n [?x] = [?x]" using assms(2) by (simp add: last_n_def)
  ultimately show ?thesis using assms(2) pos(2) by (auto simp: tail_lines_def file_size_def)
qed


section \<open>A checked registry and the run endpoint\<close>

lemma tools_by_name_ok: "list_all tool_ok ts \<Longrightarrow> tools_by_name ts = Inr (rev (map (\<lambda>t. (tool_name t, t)) ts))"
proof (induction ts)
  case (Cons t ts)
  then obtain fs name where "t = JObj fs" "map_of fs ''name'' = Some name" "hashable name" by (auto simp: tool_ok_def)
  then show ?case using Cons by (simp add: tool_name_def)
qed simp

lemma find_unique:
  "distinct (map fst m) \<Longrightarrow> (JStr n, t) \<in> set m \<Longrightarrow> find (\<lambda>(k, _). py_eq k (JStr n)) m = Some (JStr n, t)"
  by (induction m) force+

lemma checked_tool_found:
  assumes "list_all tool_ok ts" "distinct (map tool_name ts)" "t \<in> set ts" "tool_name t = JStr n"
    "load_registry H = Inr (JList ts)" "py_get b ''name'' (JStr []) = Inr (JStr n)"
  shows "named_tool H b = Inr (JStr n, Some t)"
proof -
  let ?m = "rev (map (\<lambda>t. (tool_name t, t)) ts)"
  have "distinct (map fst ?m)" using assms(2) by (simp add: comp_def flip: rev_map)
  moreover have "(JStr n, t) \<in> set ?m" using assms(3,4) by force
  ultimately have "find (\<lambda>(k, _). py_eq k (JStr n)) ?m = Some (JStr n, t)" by (rule find_unique)
  then show ?thesis using assms(5,6) tools_by_name_ok [OF assms(1)] by (simp add: named_tool_def find_tool_def)
qed

lemma checked_registry_loads:
  assumes "check_main T require_built = Inr (0, out)" "tools_text T = Inr tx" "host_tools H = Some tx"
  obtains ts where "load_registry H = Inr (JList ts)" "ts \<noteq> []" "list_all tool_ok ts" "distinct (map tool_name ts)"
proof -
  obtain tx' data ts mk where c: "tools_text T = Inr tx'" and d: "loads tx' = Inr data"
      "py_get data ''tools'' (JList []) = Inr (JList ts)" and "makefile_text T = Inr mk"
      and o: "ts \<noteq> []" "list_all tool_ok ts" "distinct (map tool_name ts)"
      and "{x. \<exists>t \<in> set ts. tool_bin t = Some x} = set (tool_targets (text_lines mk))"
    using check_main_ok [OF assms(1)] .
  have "tx' = tx" using c assms(2) by simp
  moreover have "py_index data ''tools'' = Inr (JList ts)" using d(2) o(1) by (cases data) (auto split: option.splits)
  ultimately show thesis using that d o assms(3) by (simp add: load_registry_def)
qed

lemma live_order_reason:
  "py_get t ''safety'' JNull = Inr (JStr ''live_order'') \<Longrightarrow> may_run t net
    = Inr (False, ''live_order tools transmit/mutate real state and are never runnable from the console'')"
  by (simp add: may_run_def)

end
