(* ===== verification/LatencyProbe.thy ===== *)
theory LatencyProbe
  imports PyText
begin

text \<open>
  The latency probe (\<^verbatim>\<open>tools/latency_probe_auth.py\<close>): a loop of signed GET requests over one
  connection, a line of JSON per sample and a summary.

  What the world answers in each turn of the loop (clocks, the signature, the reply or the text of
  the exception) is a list of observations, a parameter.  A duration is a binary float, kept exactly
  as \<open>(m, k)\<close> for \<open>m / 2 ^ k\<close>.
\<close>


section \<open>Numbers\<close>

type_synonym dyadic = "int \<times> nat"

fun dy_le :: "dyadic \<Rightarrow> dyadic \<Rightarrow> bool" where
  "dy_le (m, k) (n, l) \<longleftrightarrow> m * 2 ^ l \<le> n * 2 ^ k"

text \<open>The nearest integer to \<open>n / d\<close>, to the even one if there are two.\<close>

definition round_he :: "int \<Rightarrow> int \<Rightarrow> int" where
  "round_he n d = (let q = n div d; r = n mod d
     in if 2 * r < d \<or> (2 * r = d \<and> even q) then q else q + 1)"

text \<open>\<^verbatim>\<open>"%.1f" % x\<close> and \<^verbatim>\<open>round(x, 2)\<close>, for values that are not negative.\<close>

fun fmt_tenths :: "dyadic \<Rightarrow> string" where
  "fmt_tenths (m, k) = str_of_dec (round_he (10 * m) (2 ^ k)) 1"

fun round_cents :: "dyadic \<Rightarrow> json" where
  "round_cents (m, k) = (case dec_norm (round_he (100 * m) (2 ^ k)) 2 of (a, e) \<Rightarrow> JDec a e)"

fun dy_insert :: "dyadic \<Rightarrow> dyadic list \<Rightarrow> dyadic list" where
  "dy_insert x [] = [x]"
| "dy_insert x (y # ys) = (if dy_le x y then x # y # ys else y # dy_insert x ys)"

definition dy_sort :: "dyadic list \<Rightarrow> dyadic list" where
  "dy_sort xs = foldr dy_insert xs []"

text \<open>
  \<^verbatim>\<open>percentile(sorted_vals, p)\<close> with \<^verbatim>\<open>p\<close> in hundredths.  The three values the code passes (.50, .90, .99)
  times a length below 2 to the 40 round so that \<^verbatim>\<open>int(p * len)\<close> is the exact integer part.
\<close>

definition percentile :: "dyadic list \<Rightarrow> nat \<Rightarrow> dyadic" where
  "percentile vals p = (if vals = [] then (0, 0) else vals ! min (length vals - 1) (p * length vals div 100))"


section \<open>Requests\<close>

definition API_PREFIX :: string where
  "API_PREFIX = ''/trade-api/v2''"

definition METHOD :: string where
  "METHOD = ''GET''"

definition ENDPOINTS :: "(string \<times> nat) list" where
  "ENDPOINTS = [(''/exchange/status'', 10), (''/markets?limit=1'', 1)]"

definition no_query :: "string \<Rightarrow> string" where
  "no_query path = takeWhile (\<lambda>c. c \<noteq> CHR ''?'') path"

text \<open>\<^verbatim>\<open>urllib.parse.urlsplit(url).netloc\<close>.\<close>

definition net_part :: "string \<Rightarrow> string" where
  "net_part s = (if starts_with s ''//'' then takeWhile (\<lambda>c. c \<notin> {CHR ''/'', CHR ''?'', CHR ''#''}) (drop 2 s) else [])"

definition is_letter :: "char \<Rightarrow> bool" where
  "is_letter c \<longleftrightarrow> (let n = (of_char c :: nat) in 65 \<le> n \<and> n \<le> 90 \<or> 97 \<le> n \<and> n \<le> 122)"

definition is_scheme :: "string \<Rightarrow> bool" where
  "is_scheme s \<longleftrightarrow> s \<noteq> [] \<and> is_letter (hd s)
     \<and> list_all (\<lambda>c. is_digit c \<or> is_letter c \<or> c \<in> {CHR ''+'', CHR ''-'', CHR ''.''}) s"

definition netloc :: "string \<Rightarrow> string" where
  "netloc url = (case split_first (CHR '':'') url of
     Some (s, rest) \<Rightarrow> if is_scheme s then net_part rest else net_part url
   | None \<Rightarrow> net_part url)"

record request_sent =
  req_method :: string
  req_path :: string
  req_headers :: "(string \<times> string) list"

record reply =
  reply_status :: nat
  reply_bytes :: nat
  reply_rtt :: dyadic

text \<open>How a run of openssl ends: with a status, its output and its duration, or with an exception.\<close>

datatype ssl_run = Ran int string dyadic | Unstarted string

text \<open>What the world answers in one turn: the clock, openssl on an argv and an input, and the reply.\<close>

record observation =
  obs_ts :: string
  obs_utc :: string
  obs_openssl :: "string list \<Rightarrow> string \<Rightarrow> ssl_run"
  obs_reply :: "string + reply"


section \<open>Signing\<close>

definition b64_char :: "nat \<Rightarrow> char" where
  "b64_char n = ''ABCDEFGHIJKLMNOPQRSTUVWXYZabcdefghijklmnopqrstuvwxyz0123456789+/'' ! (n mod 64)"

text \<open>\<^verbatim>\<open>base64.b64encode\<close>.\<close>

fun b64encode :: "string \<Rightarrow> string" where
  "b64encode [] = []"
| "b64encode [a] = (let x = of_char a in [b64_char (x div 4), b64_char (x mod 4 * 16), CHR ''='', CHR ''=''])"
| "b64encode [a, b] = (let x = of_char a; y = of_char b in
     [b64_char (x div 4), b64_char (x mod 4 * 16 + y div 16), b64_char (y mod 16 * 4), CHR ''=''])"
| "b64encode (a # b # c # cs) = (let x = of_char a; y = of_char b; z = of_char c in
     [b64_char (x div 4), b64_char (x mod 4 * 16 + y div 16), b64_char (y mod 16 * 4 + z div 64), b64_char z]
     @ b64encode cs)"

definition sign_argv :: "string \<Rightarrow> string list" where
  "sign_argv key_path = [''openssl'', ''dgst'', ''-sha256'', ''-sigopt'', ''rsa_padding_mode:pss'',
     ''-sigopt'', ''rsa_pss_saltlen:digest'', ''-sign'', key_path, ''-binary'']"

text \<open>\<^verbatim>\<open>_sign\<close>: the text of the exception, or the signature and the time it took.\<close>

definition sign :: "observation \<Rightarrow> string \<Rightarrow> string \<Rightarrow> string + string \<times> dyadic" where
  "sign obs key_path message = (case obs_openssl obs (sign_argv key_path) message of
     Unstarted e \<Rightarrow> Inl e
   | Ran returncode out ms \<Rightarrow>
       if returncode \<noteq> 0 \<or> out = [] then Inl ''openssl signing failed'' else Inr (b64encode out, ms))"


section \<open>The loop\<close>

record probe_args =
  pa_n :: nat
  pa_paced :: bool
  pa_tag :: string
  pa_throwaway :: bool

text \<open>
  The environment variables, and the text of the exception that making the throwaway key ends with, if
  it does.
\<close>

record probe_env =
  env_key_id :: "string option"
  env_key_path :: "string option"
  env_base_url :: "string option"
  env_keygen :: "string option"

record probe =
  conn_open :: bool
  rtts :: "(string \<times> dyadic list) list"
  cold_ms :: "dyadic option"
  errors :: nat
  samples :: "json list"
  requests :: "request_sent list"
  sleeps :: nat

definition probe_start :: probe where
  "probe_start = \<lparr>conn_open = False, rtts = [], cold_ms = None, errors = 0, samples = [], requests = [], sleeps = 0\<rparr>"

fun add_rtt :: "string \<Rightarrow> dyadic \<Rightarrow> (string \<times> dyadic list) list \<Rightarrow> (string \<times> dyadic list) list" where
  "add_rtt ep x [] = [(ep, [x])]"
| "add_rtt ep x ((k, xs) # rs) = (if k = ep then (k, xs @ [x]) # rs else (k, xs) # add_rtt ep x rs)"

text \<open>\<^verbatim>\<open>str(e)[:120]\<close>: the first characters, not the first bytes.\<close>

fun take_chars :: "nat \<Rightarrow> string \<Rightarrow> string" where
  "take_chars n [] = []"
| "take_chars n (c # cs) =
     (if 0x80 \<le> (of_char c :: nat) \<and> of_char c < (0xC0 :: nat) then c # take_chars n cs
      else case n of 0 \<Rightarrow> [] | Suc m \<Rightarrow> c # take_chars m cs)"

record probe_config =
  key_id :: string
  key_path :: string
  key_source :: string
  host :: string
  tag :: string
  paced :: bool

definition endpoint_at :: "nat \<Rightarrow> string \<times> nat" where
  "endpoint_at i = ENDPOINTS ! (i mod length ENDPOINTS)"

definition message_at :: "nat \<Rightarrow> observation \<Rightarrow> string" where
  "message_at i obs = obs_ts obs @ METHOD @ API_PREFIX @ no_query (fst (endpoint_at i))"

text \<open>The body of the loop once the message is signed.\<close>

definition sample :: "probe_config \<Rightarrow> nat \<Rightarrow> observation \<Rightarrow> string \<Rightarrow> dyadic \<Rightarrow> probe \<Rightarrow> probe" where
  "sample S i obs sig sign_ms st =
     (let (path, cost) = endpoint_at i;
          headers = [(''KALSHI-ACCESS-KEY'', key_id S), (''KALSHI-ACCESS-SIGNATURE'', sig),
            (''KALSHI-ACCESS-TIMESTAMP'', obs_ts obs), (''Connection'', ''keep-alive'')];
          cold = (\<not> conn_open st);
          st = st\<lparr>requests := requests st @ [\<lparr>req_method = METHOD, req_path = API_PREFIX @ path, req_headers = headers\<rparr>]\<rparr>
      in case obs_reply obs of
           Inl e \<Rightarrow>
             st\<lparr>errors := errors st + 1, conn_open := False,
                samples := samples st @ [JObj [(''ts_utc'', JStr (obs_utc obs)), (''tag'', JStr (tag S)),
                  (''endpoint'', JStr path), (''error'', JStr (take_chars 120 e))]]\<rparr>
         | Inr r \<Rightarrow>
             let st = st\<lparr>conn_open := True,
                   samples := samples st @ [JObj [(''ts_utc'', JStr (obs_utc obs)), (''tag'', JStr (tag S)),
                     (''host'', JStr (host S)), (''key_source'', JStr (key_source S)),
                     (''endpoint'', JStr (no_query path)), (''cost_tokens'', JInt (int cost)),
                     (''cold'', JBool cold), (''rtt_ms'', round_cents (reply_rtt r)),
                     (''sign_ms'', round_cents sign_ms), (''http_status'', JInt (int (reply_status r))),
                     (''body_bytes'', JInt (int (reply_bytes r)))]]\<rparr>;
                 st = (if cold then st\<lparr>cold_ms := Some (reply_rtt r)\<rparr>
                   else if reply_status r = 200 then st\<lparr>rtts := add_rtt (no_query path) (reply_rtt r) (rtts st)\<rparr>
                   else st\<lparr>errors := errors st + 1\<rparr>)
             in if paced S then st\<lparr>sleeps := sleeps st + 1\<rparr> else st)"

text \<open>The loop ends early when a message cannot be signed; the text of the error is then the result.\<close>

fun probe_loop :: "probe_config \<Rightarrow> nat \<Rightarrow> observation list \<Rightarrow> probe \<Rightarrow> string option \<times> probe" where
  "probe_loop S i [] st = (None, st)"
| "probe_loop S i (obs # os) st =
     (case sign obs (key_path S) (message_at i obs) of
        Inl e \<Rightarrow> (Some e, st)
      | Inr (sig, sign_ms) \<Rightarrow> probe_loop S (i + 1) os (sample S i obs sig sign_ms st))"


section \<open>The summary\<close>

definition dy_true :: "dyadic option \<Rightarrow> bool" where
  "dy_true x = (case x of None \<Rightarrow> False | Some (m, k) \<Rightarrow> m \<noteq> 0)"

definition summary_head :: "probe_config \<Rightarrow> probe \<Rightarrow> string" where
  "summary_head S st = ''tag='' @ tag S @ '' host='' @ host S @ '' cold=''
     @ fmt_tenths (if dy_true (cold_ms st) then the (cold_ms st) else (-1, 0)) @ ''ms errors='' @ str_of_nat (errors st)"

definition summary_row :: "string \<times> dyadic list \<Rightarrow> string" where
  "summary_row ev = (case ev of (ep, xs) \<Rightarrow> let v = dy_sort xs in
     pad_right 18 ep @ '' n='' @ pad_right 4 (str_of_nat (length v)) @ '' min='' @ fmt_tenths (hd v)
     @ '' p50='' @ fmt_tenths (percentile v 50) @ '' p90='' @ fmt_tenths (percentile v 90)
     @ '' p99='' @ fmt_tenths (percentile v 99) @ '' max='' @ fmt_tenths (last v) @ '' ms'')"

record probe_result =
  pr_stdout :: "string list"
  pr_stderr :: "string list"
  pr_file :: "string list"
  pr_status :: nat

definition config_of :: "probe_args \<Rightarrow> probe_env \<Rightarrow> probe_config option" where
  "config_of a ev =
     (let kid = (if pa_throwaway a then Some ''00000000-0000-0000-0000-000000000000'' else env_key_id ev);
          kpath = (if pa_throwaway a then Some ''/tmp/latency_probe_throwaway_key.pem'' else env_key_path ev)
      in case (kid, kpath) of
           (Some i, Some p) \<Rightarrow> if i = [] \<or> p = [] then None
             else Some \<lparr>key_id = i, key_path = p, key_source = (if pa_throwaway a then ''throwaway'' else ''env''),
               host = netloc (case env_base_url ev of None \<Rightarrow> ''https://external-api.kalshi.com'' | Some u \<Rightarrow> u),
               tag = pa_tag a, paced = pa_paced a\<rparr>
         | _ \<Rightarrow> None)"

text \<open>\<^verbatim>\<open>main\<close>: the text of an exception that escapes it, or its result on as many observations as it asks for; the lines it appends to the file are \<open>pr_file\<close>.\<close>

definition probe_main :: "probe_args \<Rightarrow> probe_env \<Rightarrow> observation list \<Rightarrow> string + probe_result" where
  "probe_main a ev os =
     (case (if pa_throwaway a then env_keygen ev else None) of
        Some e \<Rightarrow> Inl e
      | None \<Rightarrow> Inr (
          case config_of a ev of
            None \<Rightarrow> \<lparr>pr_stdout = [], pr_stderr = [''KALSHI_API_KEY_ID / KALSHI_PRIVATE_KEY_PATH unset''], pr_file = [], pr_status = 2\<rparr>
          | Some S \<Rightarrow>
              (case probe_loop S 0 (take (pa_n a) os) probe_start of (failed, st) \<Rightarrow>
               let written = map (dumps spaced) (samples st)
               in case failed of
                    Some e \<Rightarrow> \<lparr>pr_stdout = [], pr_stderr = [''sign error: '' @ e], pr_file = written, pr_status = 1\<rparr>
                  | None \<Rightarrow> \<lparr>pr_stdout = summary_head S st # map summary_row (sorted_fields (rtts st)), pr_stderr = [],
                      pr_file = written, pr_status = (if errors st = 0 then 0 else 1)\<rparr>)))"


section \<open>Only reads\<close>

definition read_request :: "request_sent \<Rightarrow> bool" where
  "read_request r \<longleftrightarrow> req_method r = ''GET'' \<and> req_path r \<in> {''/trade-api/v2/exchange/status'', ''/trade-api/v2/markets?limit=1''}"

lemma endpoint_cases: "endpoint_at i \<in> {(''/exchange/status'', 10), (''/markets?limit=1'', 1)}"
proof -
  have "endpoint_at i \<in> set ENDPOINTS" unfolding endpoint_at_def by (rule nth_mem) (simp add: ENDPOINTS_def)
  then show ?thesis by (simp add: ENDPOINTS_def)
qed

lemma sample_requests:
  "\<exists>r. requests (sample S i obs sig sign_ms st) = requests st @ [r] \<and> read_request r"
  using endpoint_cases [of i]
  by (auto simp: sample_def Let_def read_request_def METHOD_def API_PREFIX_def split: sum.splits)

text \<open>Every turn of the loop that signs its message sends one request and writes one sample.\<close>

lemma sample_counts:
  "length (requests (sample S i obs sig sign_ms st)) = Suc (length (requests st))"
  "length (samples (sample S i obs sig sign_ms st)) = Suc (length (samples st))"
  by (auto simp: sample_def Let_def split: sum.splits prod.splits)

lemma probe_loop_requests:
  "list_all read_request (requests st) \<Longrightarrow> list_all read_request (requests (snd (probe_loop S i os st)))"
proof (induction os arbitrary: i st)
  case (Cons obs os)
  show ?case
  proof (cases "sign obs (key_path S) (message_at i obs)")
    case (Inr p)
    obtain sig sign_ms where p: "p = (sig, sign_ms)" by (cases p)
    have "list_all read_request (requests (sample S i obs sig sign_ms st))"
      using sample_requests [of S i obs sig sign_ms st] Cons.prems by auto
    then show ?thesis using Cons.IH by (simp add: Inr p)
  qed (use Cons.prems in simp)
qed simp

lemma probe_loop_counts:
  "fst (probe_loop S i os st) = None \<Longrightarrow>
   length (samples (snd (probe_loop S i os st))) = length (samples st) + length os
   \<and> length (requests (snd (probe_loop S i os st))) = length (requests st) + length os"
proof (induction os arbitrary: i st)
  case (Cons obs os)
  then obtain sig sign_ms where p: "sign obs (key_path S) (message_at i obs) = Inr (sig, sign_ms)" by (auto split: sum.splits prod.splits)
  show ?case using Cons.IH [of "i + 1" "sample S i obs sig sign_ms st"] Cons.prems by (simp add: p sample_counts)
qed simp


section \<open>Every sample is counted once\<close>

definition is_cold :: "json \<Rightarrow> bool" where
  "is_cold v \<longleftrightarrow> py_index v ''cold'' = Inr (JBool True)"

definition cold_samples :: "probe \<Rightarrow> nat" where
  "cold_samples st = length (filter is_cold (samples st))"

definition warm_samples :: "probe \<Rightarrow> nat" where
  "warm_samples st = sum_list (map (\<lambda>(_, xs). length xs) (rtts st))"

definition balanced :: "probe \<Rightarrow> bool" where
  "balanced st \<longleftrightarrow> length (samples st) = errors st + cold_samples st + warm_samples st"

lemma add_rtt_count: "sum_list (map (\<lambda>(_, xs). length xs) (add_rtt ep x rs)) = Suc (sum_list (map (\<lambda>(_, xs). length xs) rs))"
  by (induction ep x rs rule: add_rtt.induct) auto

lemma balanced_sample: "balanced st \<Longrightarrow> balanced (sample S i obs sig sign_ms st)"
  by (auto simp: balanced_def sample_def Let_def cold_samples_def warm_samples_def is_cold_def add_rtt_count
      split: sum.splits prod.splits)

lemma balanced_loop: "balanced st \<Longrightarrow> balanced (snd (probe_loop S i os st))"
  by (induction os arbitrary: i st) (auto simp: balanced_sample split: sum.splits)

lemma balanced_start: "balanced probe_start"
  by (simp add: balanced_def probe_start_def cold_samples_def warm_samples_def)

text \<open>Pacing: one sleep for every reply, none after an exception.\<close>

definition answered :: "observation \<Rightarrow> bool" where
  "answered obs \<longleftrightarrow> (\<exists>r. obs_reply obs = Inr r)"

lemma sample_sleeps:
  "paced S \<Longrightarrow> sleeps (sample S i obs sig sign_ms st) = sleeps st + of_bool (answered obs)"
  by (auto simp: sample_def Let_def answered_def split: sum.splits prod.splits)

lemma loop_sleeps:
  "paced S \<Longrightarrow> fst (probe_loop S i os st) = None \<Longrightarrow>
   sleeps (snd (probe_loop S i os st)) = sleeps st + length (filter answered os)"
proof (induction os arbitrary: i st)
  case (Cons obs os)
  then obtain sig sign_ms where p: "sign obs (key_path S) (message_at i obs) = Inr (sig, sign_ms)" by (auto split: sum.splits prod.splits)
  show ?case using Cons.IH [of "i + 1" "sample S i obs sig sign_ms st"] Cons.prems by (simp add: p sample_sleeps)
qed simp


section \<open>Percentiles\<close>

lemma dy_le_total: "dy_le x y \<or> dy_le y x"
  by (cases x; cases y) auto

lemma dy_le_trans:
  assumes "dy_le x y" "dy_le y z"
  shows "dy_le x z"
proof -
  obtain a k b l c m where x: "x = (a, k)" "y = (b, l)" "z = (c, m)" by (cases x; cases y; cases z)
  have le: "a * 2 ^ l \<le> b * 2 ^ k" "b * 2 ^ m \<le> c * 2 ^ l" using assms by (simp_all add: x)
  have "(a * 2 ^ m) * 2 ^ l = (a * 2 ^ l) * 2 ^ m" by simp
  also have "\<dots> \<le> (b * 2 ^ k) * 2 ^ m" by (rule mult_right_mono [OF le(1)]) simp
  also have "\<dots> = (b * 2 ^ m) * 2 ^ k" by simp
  also have "\<dots> \<le> (c * 2 ^ l) * 2 ^ k" by (rule mult_right_mono [OF le(2)]) simp
  also have "\<dots> = (c * 2 ^ k) * 2 ^ l" by simp
  finally have "a * 2 ^ m \<le> c * 2 ^ k" by (rule mult_right_le_imp_le) simp
  then show ?thesis by (simp add: x)
qed

lemma dy_le_refl [simp]: "dy_le x x"
  using dy_le_total [of x x] by simp

lemma dy_insert_set: "set (dy_insert x xs) = insert x (set xs)"
  by (induction xs) auto

lemma dy_insert_sorted: "sorted_wrt dy_le xs \<Longrightarrow> sorted_wrt dy_le (dy_insert x xs)"
proof (induction xs)
  case (Cons y ys)
  show ?case
  proof (cases "dy_le x y")
    case True
    then show ?thesis using Cons.prems dy_le_trans [OF True] by auto
  next
    case False
    then have "dy_le y x" using dy_le_total by blast
    then show ?thesis using Cons False by (auto simp: dy_insert_set)
  qed
qed simp

lemma dy_sort_sorted: "sorted_wrt dy_le (dy_sort xs)"
  unfolding dy_sort_def by (induction xs) (simp_all add: dy_insert_sorted)

lemma dy_sort_set: "set (dy_sort xs) = set xs"
  unfolding dy_sort_def by (induction xs) (simp_all add: dy_insert_set)

lemma index_ok [simp]: "vals \<noteq> [] \<Longrightarrow> min (length vals - Suc 0) k < length vals"
  by (cases vals) auto

lemma percentile_mem: "vals \<noteq> [] \<Longrightarrow> percentile vals p \<in> set vals"
  by (simp add: percentile_def)

lemma sorted_nth_le: "sorted_wrt dy_le vals \<Longrightarrow> i \<le> j \<Longrightarrow> j < length vals \<Longrightarrow> dy_le (vals ! i) (vals ! j)"
  by (cases "i = j") (auto intro: sorted_wrt_nth_less)

lemma percentile_mono:
  assumes "vals \<noteq> []" "sorted_wrt dy_le vals" "p \<le> q"
  shows "dy_le (percentile vals p) (percentile vals q)"
proof -
  have "p * length vals div 100 \<le> q * length vals div 100" using assms(3) by (intro div_le_mono mult_le_mono1)
  then show ?thesis using assms(1,2) by (auto simp: percentile_def less_diff_conv intro!: sorted_nth_le)
qed

lemma percentile_between:
  assumes "vals \<noteq> []" "sorted_wrt dy_le vals"
  shows "dy_le (hd vals) (percentile vals p)" "dy_le (percentile vals p) (last vals)"
  using assms by (auto simp: percentile_def hd_conv_nth last_conv_nth intro!: sorted_nth_le)

end
