(* ===== verification/SampleConsole.thy ===== *)
theory SampleConsole
  imports ConsoleFacts LatencyProbe
begin

text \<open>
  A concrete registry of two tools with the host, the tree and the server that use it, on which the
  properties of the console are exercised.
\<close>

definition sample_tool :: json where
  "sample_tool = JObj [(''name'', JStr ''t''), (''kind'', JStr ''test''), (''safety'', JStr ''pure''),
     (''cmd'', JStr ''./build/t''), (''needs'', JList [JStr ''mini_redis'']), (''pass_token'', JStr ''ALL PASS''),
     (''description'', JStr ''d''), (''docs'', JStr ''d'')]"

definition sample_live :: json where
  "sample_live = JObj [(''name'', JStr ''l''), (''kind'', JStr ''probe''), (''safety'', JStr ''live_order''),
     (''cmd'', JStr ''l.py''), (''description'', JStr ''d''), (''docs'', JStr ''d'')]"

definition sample_tools :: json where
  "sample_tools = JObj [(''tools'', JList [sample_tool, sample_live])]"

definition sample_text :: string where
  "sample_text = enc compact 0 sample_tools"

definition sample_host :: host where
  "sample_host = \<lparr>host_root = ''/r'', host_tools = Some sample_text, host_python = ''python3'', host_port = (\<lambda>i. i),
     host_spawn = (\<lambda>_. None), host_run = (\<lambda>_. Done (''PASS: a'' @ [NL] @ ''ALL PASS'') 0), host_exists = (\<lambda>_. True),
     host_elapsed = 7, host_now = 1000, host_help = []\<rparr>"

definition sample_ops :: ops where
  "sample_ops = \<lparr>ports_taken = 0, spawned = [], running = [], procs = [], ran = [], log_files = (\<lambda>_. None), results = [],
     latest = None\<rparr>"

definition sample_console :: console where
  "sample_console = \<lparr>backfill_default = 1000, allow_network = True, results_latest = ''/r/work/test_results_latest.json'',
     page = [], other_file = (\<lambda>_. None), follow_view = Inl ''absent'', ops_view = Inl ''absent'', shadow_view = Inl ''absent''\<rparr>"

definition sample_makefile :: string where
  "sample_makefile = ''$(BUILD)/t: t.cpp'' @ [NL]"

definition sample_tree :: tree where
  "sample_tree = \<lparr>tree_root = ''/r'', tools_text = Inr sample_text, makefile_text = Inr sample_makefile,
     tree_exists = (\<lambda>_. True), load_error = (\<lambda>_. [])\<rparr>"

lemma sample_wf: "wf_json sample_tools"
  by code_simp

lemma sample_loads: "loads sample_text = Inr sample_tools"
  unfolding sample_text_def by (rule canon.parse_print) (rule sample_wf)

lemma sample_load_registry: "load_registry sample_host = Inr (JList [sample_tool, sample_live])"
  by (simp add: load_registry_def sample_host_def sample_loads) (simp add: sample_tools_def)

lemma sample_run:
  "fst (run_tool sample_host sample_tool False sample_ops) = Inr (JObj [(''suite'', JStr ''t''), (''status'', JStr ''pass''),
     (''passed'', JInt 1), (''failed'', JInt 0), (''duration_ms'', JInt 7), (''log'', JStr ''work/logs/t.txt'')])"
  by code_simp

lemma sample_scan:
  "check_tools sample_tree False [sample_tool, sample_live] \<lparr>scan_names = [], scan_bins = [], scan_errs = []\<rparr>
     = Inr \<lparr>scan_names = [JStr ''l'', JStr ''t''], scan_bins = [''t''], scan_errs = []\<rparr>"
  by code_simp

lemma sample_targets: "tool_targets (text_lines sample_makefile) = [''t'']"
  by code_simp

lemma sample_check: "\<exists>out. check_main sample_tree False = Inr (0, out)"
proof -
  have t: "tools_text sample_tree = Inr sample_text" "makefile_text sample_tree = Inr sample_makefile"
    by (simp_all add: sample_tree_def)
  have g: "py_get sample_tools ''tools'' (JList []) = Inr (JList [sample_tool, sample_live])" by (simp add: sample_tools_def)
  have l: "rbind (live_names [sample_tool, sample_live]) py_sorted = Inr [JStr ''l'']" by code_simp
  have c: "coverage_errors [''t''] [''t''] = []" by (simp add: coverage_Nil)
  show ?thesis unfolding check_main_def t rbind_simps sample_loads sum.case g by (simp add: sample_scan sample_targets c l Let_def del: check_tools.simps live_names.simps)
qed

text \<open>A probe whose only request is answered with an error status.\<close>

definition sample_config :: probe_config where
  "sample_config = \<lparr>key_id = ''k'', key_path = ''p'', key_source = ''env'', host = ''h'', tag = ''t'', paced = True\<rparr>"

definition sample_failure :: observation where
  "sample_failure = \<lparr>obs_ts = ''1'', obs_utc = ''u'', obs_openssl = (\<lambda>_ _. Ran 0 ''s'' (1, 0)),
     obs_reply = Inr \<lparr>reply_status = 500, reply_bytes = 0, reply_rtt = (3, 0)\<rparr>\<rparr>"

text \<open>The status of a cold reply is not looked at: a run whose only reply is a server error reports none.\<close>

lemma cold_failure_not_counted: "errors (snd (probe_loop sample_config 0 [sample_failure] probe_start)) = 0"
  by (simp add: sample_failure_def sample_def probe_start_def sign_def Let_def split_def)

end
