(* ===== verification/ConsoleMain.thy ===== *)
theory ConsoleMain
  imports SampleConsole
begin

text \<open>
  The command line of the console (\<^verbatim>\<open>main\<close> of \<^verbatim>\<open>dashboard_server.py\<close>) after its arguments are parsed: the paths
  it derives, the handler it configures, the lines it prints, and the requests it serves until it is
  interrupted.  The results it serves are those that runs record exactly when the directory of
  \<^verbatim>\<open>--results\<close> is the one the runner writes to.
\<close>


section \<open>Paths\<close>

text \<open>\<^verbatim>\<open>os.path.normpath\<close> of an absolute path, \<^verbatim>\<open>os.path.abspath\<close> in a working directory, \<^verbatim>\<open>os.path.dirname\<close>.\<close>

definition norm_abs :: "string \<Rightarrow> string" where
  "norm_abs p = (if starts_with p ''//'' \<and> \<not> starts_with p ''///'' then ''//'' else ''/'') @ join ''/'' (abs_parts p)"

definition abspath :: "string \<Rightarrow> string \<Rightarrow> string" where
  "abspath cwd p = norm_abs (path_join cwd p)"

definition strip_slashes :: "string \<Rightarrow> string" where
  "strip_slashes p = rev (dropWhile (\<lambda>c. c = CHR ''/'') (rev p))"

definition dirname :: "string \<Rightarrow> string" where
  "dirname p =
     (let hd' = rev (dropWhile (\<lambda>c. c \<noteq> CHR ''/'') (rev p))
      in if strip_slashes hd' = [] then hd' else strip_slashes hd')"


section \<open>main\<close>

record console_args =
  metrics_arg :: string
  port_arg :: int
  host_arg :: string
  backfill_arg :: int
  results_arg :: string
  network_arg :: bool

definition console_defaults :: console_args where
  "console_defaults = \<lparr>metrics_arg = ''work/metrics.ndjson'', port_arg = 8765, host_arg = ''127.0.0.1'', backfill_arg = 1000,
     results_arg = ''work/test_results.ndjson'', network_arg = False\<rparr>"

text \<open>The file with the latest results that the server reads: beside the history that \<^verbatim>\<open>--results\<close> names.\<close>

definition results_path :: "string \<Rightarrow> console_args \<Rightarrow> string" where
  "results_path cwd a = path_join (dirname (abspath cwd (results_arg a))) ''test_results_latest.json''"

text \<open>The handler of the server; the page and the sandbox views are those of \<open>C\<close>.\<close>

definition make_console :: "console \<Rightarrow> host \<Rightarrow> string \<Rightarrow> console_args \<Rightarrow> console" where
  "make_console C H cwd a =
     C\<lparr>backfill_default := backfill_arg a, allow_network := network_arg a,
       results_latest := (let r = results_path cwd a in if r = [] then latest_path H else r)\<rparr>"

definition banner :: "(string \<Rightarrow> bool) \<Rightarrow> string \<Rightarrow> console_args \<Rightarrow> string list" where
  "banner exists cwd a =
     (let metrics = abspath cwd (metrics_arg a) in
      [''Kalshi PoC ops console'',
       ''  metrics : '' @ metrics @ (if exists metrics then []
          else ''  (not present yet '' @ [CHR 0xE2, CHR 0x80, CHR 0x94] @ '' will appear when written)''),
       ''  serving : http://'' @ host_arg a @ '':'' @ str_of_int (port_arg a),
       ''  bind    : '' @ host_arg a @ '' (localhost only)'',
       ''  network : '' @ (if network_arg a then ''ALLOWED (network_read runnable)'' else ''blocked (network_read tools disabled)''),
       ''Read-only console. Ctrl-C to stop; trading is unaffected.''])"

text \<open>Requests are handled one after the other; one that raises gets no answer and the server goes on.\<close>

fun serve :: "console \<Rightarrow> host \<Rightarrow> request list \<Rightarrow> ops \<Rightarrow> response option res list \<times> ops" where
  "serve C H [] s = ([], s)"
| "serve C H (r # rs) s =
     (case handle C H r s of (x, s') \<Rightarrow> case serve C H rs s' of (xs, s'') \<Rightarrow> (x # xs, s''))"

record console_run =
  run_printed :: "string list"
  run_answers :: "response option res list"
  run_state :: ops

text \<open>
  A run of the server that answers the requests \<open>rs\<close> until it is interrupted; \<open>bound\<close> says whether the
  address can be bound.
\<close>

definition console_main :: "console \<Rightarrow> host \<Rightarrow> (string \<Rightarrow> bool) \<Rightarrow> string \<Rightarrow> console_args \<Rightarrow> bool \<Rightarrow> request list \<Rightarrow> ops
    \<Rightarrow> console_run res" where
  "console_main C H exists cwd a bound rs s =
     (if \<not> bound then Inl OSError
      else case serve (make_console C H cwd a) H rs s of (xs, s') \<Rightarrow>
        Inr \<lparr>run_printed = banner exists cwd a @ [[], ''stopped.''], run_answers = xs, run_state = s'\<rparr>)"


section \<open>Paths below a root\<close>

definition rooted :: "string list \<Rightarrow> string" where
  "rooted ps = concat (map (\<lambda>p. ''/'' @ p) ps)"

definition clean :: "string list \<Rightarrow> bool" where
  "clean ps \<longleftrightarrow> ps \<noteq> [] \<and> list_all (\<lambda>p. p \<noteq> [] \<and> p \<noteq> ''.'' \<and> p \<noteq> ''..'' \<and> CHR ''/'' \<notin> set p) ps"

lemma rooted_simps [simp]: "rooted [] = []" "rooted (p # ps) = CHR ''/'' # p @ rooted ps" "rooted (ps @ qs) = rooted ps @ rooted qs"
  by (simp_all add: rooted_def)

lemma clean_simps: "clean (p # ps) \<longleftrightarrow> p \<noteq> [] \<and> p \<noteq> ''.'' \<and> p \<noteq> ''..'' \<and> CHR ''/'' \<notin> set p \<and> (ps = [] \<or> clean ps)"
    "clean ps \<Longrightarrow> clean qs \<Longrightarrow> clean (ps @ qs)"
  by (auto simp: clean_def)

lemma split_rooted: "clean (p # ps) \<Longrightarrow> split_on (CHR ''/'') (p @ rooted ps) = p # ps"
  by (induction ps arbitrary: p) (auto simp: clean_simps split_on_single split_on_append)

lemma join_rooted: "join ''/'' (p # ps) = p @ rooted ps"
  by (induction ps arbitrary: p) simp_all

lemma norm_clean: "list_all (\<lambda>p. p \<noteq> [] \<and> p \<noteq> ''.'' \<and> p \<noteq> ''..'' \<and> CHR ''/'' \<notin> set p) ps \<Longrightarrow> norm_parts acc ps = acc @ ps"
  by (induction acc ps rule: norm_parts.induct) auto

text \<open>A clean path is already normal, and its directory is the path without the last part.\<close>

lemma norm_rooted:
  assumes "clean ps"
  shows "norm_abs (rooted ps) = rooted ps"
proof (cases ps)
  case (Cons p qs)
  have "abs_parts (rooted ps) = ps"
    using split_rooted [of p qs] norm_clean [of ps "[]"] assms by (simp add: Cons abs_parts_def clean_def)
  moreover have "\<not> starts_with (rooted ps) ''//''" using assms by (cases p) (auto simp: Cons clean_simps)
  ultimately show ?thesis by (simp add: norm_abs_def Cons join_rooted)
qed (use assms in \<open>simp add: clean_def\<close>)

lemma rooted_last:
  assumes "clean ps"
  shows "rooted ps \<noteq> []" "last (rooted ps) \<noteq> CHR ''/''"
proof -
  obtain qs p where ps: "ps = qs @ [p]" using assms by (metis append_butlast_last_id clean_def)
  then have "p \<noteq> []" "CHR ''/'' \<notin> set p" using assms by (auto simp: clean_def)
  then show "rooted ps \<noteq> []" "last (rooted ps) \<noteq> CHR ''/''" using ps by auto (metis last_in_set)
qed

lemma strip_rooted: "clean ps \<Longrightarrow> strip_slashes (rooted ps @ ''/'') = rooted ps"
  using rooted_last [of ps] by (cases "rooted ps" rule: rev_cases) (simp_all add: strip_slashes_def)

lemma dirname_rooted:
  assumes "clean ps" "CHR ''/'' \<notin> set f"
  shows "dirname (rooted (ps @ [f])) = rooted ps"
proof -
  have "dropWhile (\<lambda>c. c \<noteq> CHR ''/'') (rev f @ CHR ''/'' # rev (rooted ps)) = CHR ''/'' # rev (rooted ps)"
    using assms(2) by (subst dropWhile_append2) auto
  then show ?thesis using strip_rooted [OF assms(1)] rooted_last(1) [OF assms(1)] by (simp add: dirname_def Let_def)
qed

lemma join_below:
  assumes "clean ps" "\<not> starts_with q ''/''"
  shows "path_join (rooted ps) q = rooted ps @ ''/'' @ q"
proof -
  have "\<not> ends_with (rooted ps) ''/''"
    using rooted_last [OF assms(1)] by (cases "rooted ps" rule: rev_cases) (auto simp: ends_with_def)
  then show ?thesis using assms rooted_last(1) [OF assms(1)] by (simp add: path_join_def)
qed


section \<open>Recorded results are served\<close>

lemma default_results:
  assumes "clean ps" "host_root H = rooted ps" "results_arg a = ''work/test_results.ndjson''"
  shows "results_latest (make_console C H (host_root H) a) = latest_path H"
proof -
  let ?f = "''test_results.ndjson''"
  have w: "clean (ps @ [''work''])" using assms(1) by (simp add: clean_def)
  have "abspath (host_root H) (results_arg a) = norm_abs (rooted (ps @ [''work'', ?f]))"
    by (simp add: abspath_def assms(2,3) join_below [OF assms(1)])
  also have "\<dots> = rooted ((ps @ [''work'']) @ [?f])" using assms(1) by (subst norm_rooted) (simp_all add: clean_def)
  finally have "dirname (abspath (host_root H) (results_arg a)) = rooted (ps @ [''work''])"
    using dirname_rooted [OF w, of ?f] by simp
  moreover have "work_dir H = rooted (ps @ [''work''])"
    by (simp add: work_dir_def assms(2) join_below [OF assms(1)])
  ultimately have "results_path (host_root H) a = latest_path H" by (simp add: results_path_def latest_path_def)
  then show ?thesis by (simp add: make_console_def Let_def)
qed

lemma results_view_recorded:
  assumes "py_get rec ''status'' JNull = Inr status" "status \<noteq> JStr ''refused''"
    "py_index (stamped H rec) ''suite'' = Inr (JStr suite)" "read_latest (latest s) = JObj fs"
    "wf_json (JObj (fput suite (stamped H rec) fs))" "plain_ascii (enc (indented 2) 0 (JObj (fput suite (stamped H rec) fs)))"
  shows "results_view C H (snd (record_result H rec s))
    = (if results_latest C = latest_path H then JObj (fput suite (stamped H rec) fs) else results_view C H s)"
  using record_latest(3) [OF assms] by (simp add: results_view_def)

end
