(* ===== verification/PageStream.thy ===== *)
theory PageStream
  imports PageBehaviour Utf8Json ConsoleMain
begin

text \<open>
  The connection between the server and the page: what a browser makes of the bytes of the event
  stream (\<^verbatim>\<open>EventSource\<close>), the handlers of \<^verbatim>\<open>connect\<close>, and the way of a line from the metrics file to
  the state of the page.
\<close>


section \<open>EventSource\<close>

abbreviation CR :: char where
  "CR \<equiv> CHR 0x0D"

text \<open>
  The lines of a stream end with a line feed, a carriage return or both; what follows the last of them
  is not yet a line.
\<close>

function sse_lines :: "string \<Rightarrow> string \<Rightarrow> string list" where
  "sse_lines cur [] = []"
| "sse_lines cur (c # cs) =
     (if c = NL then cur # sse_lines [] cs
      else if c = CR then cur # sse_lines [] (if cs \<noteq> [] \<and> hd cs = NL then tl cs else cs)
      else sse_lines (cur @ [c]) cs)"
  by pat_completeness auto

termination sse_lines
  by (relation "measure (\<lambda>(cur, s). length s)") auto

text \<open>A line is a comment, a field with a value, or a field alone; one space before the value is dropped.\<close>

definition sse_field :: "string \<Rightarrow> string \<times> string" where
  "sse_field l = (case split_first (CHR '':'') l of
     None \<Rightarrow> (l, [])
   | Some (f, v) \<Rightarrow> (f, if v \<noteq> [] \<and> hd v = CHR '' '' then tl v else v))"

text \<open>An empty line ends an event; an event without data is none.\<close>

fun sse_dispatch :: "string \<Rightarrow> string \<Rightarrow> string list \<Rightarrow> (string \<times> string) list" where
  "sse_dispatch ty dat [] = []"
| "sse_dispatch ty dat (l # ls) =
     (if l = [] then (if dat = [] then [] else [(if ty = [] then ''message'' else ty, butlast dat)]) @ sse_dispatch [] [] ls
      else let (f, v) = sse_field l
        in if f = ''event'' then sse_dispatch v dat ls
           else if f = ''data'' then sse_dispatch ty (dat @ v @ [NL]) ls
           else sse_dispatch ty dat ls)"

definition sse_events :: "string \<Rightarrow> (string \<times> string) list" where
  "sse_events s = sse_dispatch [] [] (sse_lines [] s)"


section \<open>The handlers\<close>

definition receive :: "browser \<Rightarrow> json \<Rightarrow> page \<Rightarrow> page" where
  "receive B line p = (case rbind (json_str line) js_parse of Inl _ \<Rightarrow> p | Inr ev \<Rightarrow> snd (ingest B ev p))"

text \<open>
  The backfill event holds a list of lines; iterating over a text gives characters, none of which is an
  event, and nothing else can be iterated over.
\<close>

definition on_backfill :: "browser \<Rightarrow> string \<Rightarrow> page \<Rightarrow> page" where
  "on_backfill B dat p = (case js_parse dat of Inr (JList lines) \<Rightarrow> fold (receive B) lines p | _ \<Rightarrow> p)"

definition on_sse :: "browser \<Rightarrow> string \<times> string \<Rightarrow> page \<Rightarrow> page" where
  "on_sse B e p = (case e of (ty, dat) \<Rightarrow>
     if ty = ''backfill'' then on_backfill B dat p
     else if ty = ''message'' then receive B (JStr dat) p else p)"

definition on_open :: "page \<Rightarrow> page" where
  "on_open p = p\<lparr>display := (display p)(''conn-dot'' := PlainText ''dot d-green'', ''conn-txt'' := PlainText ''connected'')\<rparr>"

definition on_error :: "page \<Rightarrow> page" where
  "on_error p = p\<lparr>display := (display p)(''conn-dot'' := PlainText ''dot d-red'',
     ''conn-txt'' := PlainText (''reconnecting'' @ [CHR 0xE2, CHR 0x80, CHR 0xA6]))\<rparr>"

text \<open>The request of a connection, the first one and every one after an error.\<close>

definition stream_path :: string where
  "stream_path = ''/stream?backfill=1000''"

definition follow :: "(browser \<times> string \<times> string) list \<Rightarrow> page \<Rightarrow> page" where
  "follow bes p = fold (\<lambda>(B, e). on_sse B e) bes p"

text \<open>A connection that is opened, delivers its events and is lost; the browser then opens the next one.\<close>

definition connection :: "(browser \<times> string \<times> string) list \<Rightarrow> page \<Rightarrow> page" where
  "connection bes p = on_error (follow bes (on_open p))"

text \<open>
  What the server writes on a connection: the frames of the backfill, read from the file as it is then, and
  those of what the generator yields, each with the time it is handled at.
\<close>

definition stream_bytes :: "console \<Rightarrow> string \<Rightarrow> nat \<Rightarrow> (emission \<times> nat) list \<Rightarrow> string" where
  "stream_bytes C content t ts =
     concat (first_frames (fst (tail_lines (file_size (Some content)) (reads_of content) (backfill_of C stream_path))))
     @ concat (live_frames t ts)"


section \<open>From lines to events\<close>

definition parsed :: "string list \<Rightarrow> json list" where
  "parsed ls = List.map_filter (\<lambda>l. case js_parse l of Inr ev \<Rightarrow> Some ev | Inl _ \<Rightarrow> None) ls"

lemma receive_line: "receive B (JStr l) p = fold take_in (map (Pair B) (parsed [l])) p"
  by (simp add: receive_def parsed_def List.map_filter_def split: sum.split)

lemma parsed_append [simp]: "parsed (xs @ ys) = parsed xs @ parsed ys"
  by (simp add: parsed_def List.map_filter_def)

lemma parsed_Nil [simp]: "parsed [] = []"
  by (simp add: parsed_def List.map_filter_def)

lemma receive_lines: "fold (receive B) (map JStr ls) p = fold take_in (map (Pair B) (parsed ls)) p"
proof (induction ls arbitrary: p)
  case (Cons l ls)
  have "parsed (l # ls) = parsed [l] @ parsed ls" using parsed_append [of "[l]" ls] by simp
  then show ?case using Cons by (simp add: receive_line)
qed simp

text \<open>A line without a line break is one line of the stream, and a frame is one event.\<close>

lemma sse_lines_line: "NL \<notin> set l \<Longrightarrow> CR \<notin> set l \<Longrightarrow> sse_lines cur (l @ NL # s) = (cur @ l) # sse_lines [] s"
  by (induction l arbitrary: cur) auto

lemma split_first_app: "c \<notin> set x \<Longrightarrow> split_first c (x @ c # y) = Some (x, y)"
  by (induction x) (auto simp: split_first_def)

lemma sse_data_frame:
  assumes "NL \<notin> set l"
  shows "sse_dispatch [] [] (sse_lines [] (data_frame l @ s))
    = (''message'', filter (\<lambda>c. c \<noteq> CR) l) # sse_dispatch [] [] (sse_lines [] s)"
proof -
  let ?l = "filter (\<lambda>c. c \<noteq> CR) l"
  have "sse_lines [] (data_frame l @ s) = (''data: '' @ ?l) # [] # sse_lines [] s"
    using sse_lines_line [of "''data: '' @ ?l" "[]" "NL # s"] assms by (simp add: data_frame_def)
  moreover have "sse_field (''data: '' @ ?l) = (''data'', ?l)"
    using split_first_app [of "CHR '':''" "''data''" "CHR '' '' # ?l"] by (simp add: sse_field_def)
  ultimately show ?thesis by simp
qed

lemma sse_comment_frame:
  assumes "NL \<notin> set l" "CR \<notin> set l"
  shows "sse_dispatch [] [] (sse_lines [] (CHR '':'' # l @ [NL, NL] @ s)) = sse_dispatch [] [] (sse_lines [] s)"
proof -
  have "sse_lines [] (CHR '':'' # l @ [NL, NL] @ s) = (CHR '':'' # l) # [] # sse_lines [] s"
    using sse_lines_line [of "CHR '':'' # l" "[]" "NL # s"] assms by simp
  moreover have "fst (sse_field (CHR '':'' # l)) = []"
    using split_first_app [of "CHR '':''" "[]" l] by (simp add: sse_field_def)
  ultimately show ?thesis by (simp add: case_prod_beta)
qed


lemma enc_char_printable: "list_all (\<lambda>c. \<not> c < CHR 0x20) (enc_char x)"
proof -
  have "\<not> hex_digit d < CHR 0x20" if "d < 16" for d using that by (auto simp: hex_digit_def less_char_def)
  then show ?thesis by (auto simp: enc_char_def less_char_def less_mult_imp_div_less)
qed

lemma enc_items_printable: "list_all (\<lambda>c. \<not> c < CHR 0x20) (enc_items compact d (map JStr ls))"
  using enc_char_printable by (induction ls) (auto simp: compact_def newline_def enc_str_def list_all_iff less_char_def)

lemma ascii_text_printable: "list_all (\<lambda>c. \<not> c < CHR 0x20) s \<Longrightarrow> list_all (\<lambda>c. \<not> c < CHR 0x20) (ascii_text s)"
proof (induction s rule: ascii_text.induct)
  case (2 c cs)
  have "\<not> hex_digit (d mod 16) < CHR 0x20" for d by (auto simp: hex_digit_def less_char_def)
  then have u: "list_all (\<lambda>c. \<not> c < CHR 0x20) (hex_u n)" for n by (simp add: hex_u_def less_char_def)
  then have "list_all (\<lambda>c. \<not> c < CHR 0x20) (code_escape n)" for n by (simp add: code_escape_def)
  moreover note u
  moreover have "list_all (\<lambda>c. \<not> c < CHR 0x20) (drop k cs)" for k using 2(5) by (auto simp: list_all_iff dest: in_set_dropD)
  ultimately show ?case using 2 by (auto split: option.splits)
qed simp

lemma backfill_no_breaks: "NL \<notin> set (dumps compact (jstrs ls))" "CR \<notin> set (dumps compact (jstrs ls))"
proof -
  have "list_all (\<lambda>c. \<not> c < CHR 0x20) (enc compact 0 (jstrs ls))"
    using enc_items_printable [of "Suc 0" ls] by (simp add: jstrs_def compact_def newline_def less_char_def)
  then have "list_all (\<lambda>c. \<not> c < CHR 0x20) (dumps compact (jstrs ls))" unfolding dumps_def by (rule ascii_text_printable)
  then show "NL \<notin> set (dumps compact (jstrs ls))" "CR \<notin> set (dumps compact (jstrs ls))"
    by (auto simp: list_all_iff less_char_def)
qed

lemma sse_first_frames: "sse_events (concat (first_frames ls) @ s)
    = (if ls = [] then [] else [(''backfill'', dumps compact (jstrs ls))]) @ sse_events s"
proof -
  let ?d = "dumps compact (jstrs ls)"
  have retry: "sse_dispatch [] [] (sse_lines [] (''retry: 3000'' @ [NL, NL] @ x)) = sse_dispatch [] [] (sse_lines [] x)" for x
    using split_first_app [of "CHR '':''" "''retry''" "'' 3000''"] by (simp add: sse_field_def)
  have "sse_lines [] (''event: backfill'' @ [NL] @ ''data: '' @ ?d @ [NL, NL] @ s)
      = ''event: backfill'' # (''data: '' @ ?d) # [] # sse_lines [] s"
    using sse_lines_line [of "''event: backfill''" "[]"] sse_lines_line [of "''data: '' @ ?d" "[]" "NL # s"] backfill_no_breaks [of ls]
    by simp
  moreover have "sse_field (''data: '' @ ?d) = (''data'', ?d)" "sse_field ''event: backfill'' = (''event'', ''backfill'')"
    using split_first_app [of "CHR '':''" "''data''" "CHR '' '' # ?d"] split_first_app [of "CHR '':''" "''event''" "'' backfill''"]
    by (simp_all add: sse_field_def)
  ultimately have "sse_dispatch [] [] (sse_lines [] (''event: backfill'' @ [NL] @ ''data: '' @ ?d @ [NL, NL] @ s))
      = (''backfill'', ?d) # sse_dispatch [] [] (sse_lines [] s)" by simp
  then show ?thesis
    using retry sse_comment_frame [of "'' no-data-yet''" s] by (simp add: sse_events_def first_frames_def)
qed

lemma sse_live_frames: "(\<And>l. l \<in> set (sent_lines (map fst es)) \<Longrightarrow> NL \<notin> set l) \<Longrightarrow> sse_events (concat (live_frames t es) @ s)
    = map (\<lambda>l. (''message'', filter (\<lambda>c. c \<noteq> CR) l)) (sent_lines (map fst es)) @ sse_events s"
proof (induction es arbitrary: t)
  have ping: "sse_dispatch [] [] (sse_lines [] ('': ping'' @ [NL, NL] @ x)) = sse_dispatch [] [] (sse_lines [] x)" for x
    using sse_comment_frame [of "'' ping''" x] by simp
  case (Cons x es)
  obtain e u where x: "x = (e, u)" by (cases x)
  show ?case
  proof (cases e)
    case Tick
    then show ?thesis using Cons ping by (auto simp: x sse_events_def)
  next
    case (Line l)
    then show ?thesis using Cons ping sse_data_frame by (auto simp: x sse_events_def)
  next
    case (Pause d)
    then show ?thesis using Cons by (simp add: x)
  qed
qed simp


section \<open>From the metrics file to the page\<close>

text \<open>Whether an event is taken in does not depend on the time.\<close>

definition acceptable :: "json \<Rightarrow> bool" where
  "acceptable ev \<longleftrightarrow> is_dict ev \<and> js_true (field ev ''type'')
     \<and> (js_true (field ev ''ts_ms'') \<longrightarrow> (\<exists>t. json_number (the (field ev ''ts_ms'')) = Inr t))"

lemma accepted_iff: "accepted B ev \<longleftrightarrow> acceptable ev"
  by (auto simp: accepted_def acceptable_def event_ts_def js_or_def)

lemma js_values_strs: "js_values (map JStr ls) = map JStr ls"
  by (induction ls) simp_all

lemma on_sse_backfill: "list_all utf8_ok ls \<Longrightarrow>
    on_sse B (''backfill'', dumps compact (jstrs ls)) p = fold take_in (map (Pair B) (parsed ls)) p"
  using receive_lines [of B ls p] loads_dumps_jstrs [of ls]
  by (simp add: on_sse_def on_backfill_def js_parse_def jstrs_def js_values_strs)

lemma follow_messages: "map snd bes = map (\<lambda>l. (''message'', f l)) ls \<Longrightarrow>
    \<exists>bevs. follow bes p = fold take_in bevs p \<and> map snd bevs = parsed (map f ls) \<and> fst ` set bevs \<subseteq> fst ` set bes"
proof (induction bes arbitrary: ls p)
  case Nil
  then show ?case by (intro exI [of _ "[]"]) (simp add: follow_def)
next
  case (Cons be bes)
  obtain l ls' where ls: "ls = l # ls'" using Cons.prems by (cases ls) auto
  obtain B e where be: "be = (B, e)" by (cases be) blast
  have e: "e = (''message'', f l)" using Cons.prems be ls by simp
  obtain bevs where "follow bes (on_sse B e p) = fold take_in bevs (on_sse B e p)" "map snd bevs = parsed (map f ls')"
      "fst ` set bevs \<subseteq> fst ` set bes"
    using Cons.IH [of ls' "on_sse B e p"] Cons.prems ls by auto
  moreover have "on_sse B e p = fold take_in (map (Pair B) (parsed [f l])) p"
    unfolding e on_sse_def by (simp add: receive_line)
  moreover have "parsed (map f ls) = parsed [f l] @ parsed (map f ls')"
    using parsed_append [of "[f l]" "map f ls'"] by (simp add: ls)
  ultimately show ?case
    by (intro exI [of _ "map (Pair B) (parsed [f l]) @ bevs"]) (auto simp: follow_def be comp_def)
qed

text \<open>What the server writes on a connection reaches the page line by line.\<close>

lemma delivered:
  assumes "map snd bes = sse_events (concat (first_frames ls) @ concat (live_frames t es))"
    and "list_all utf8_ok ls" "\<And>l. l \<in> set (sent_lines (map fst es)) \<Longrightarrow> NL \<notin> set l"
  obtains bevs where "follow bes p = fold take_in bevs p" "fst ` set bevs \<subseteq> fst ` set bes"
    "map snd bevs = parsed (ls @ map (filter (\<lambda>c. c \<noteq> CR)) (sent_lines (map fst es)))"
proof -
  let ?new = "sent_lines (map fst es)"
  have "sse_events [] = []" by (simp add: sse_events_def)
  then have tx: "map snd bes = (if ls = [] then [] else [(''backfill'', dumps compact (jstrs ls))])
      @ map (\<lambda>l. (''message'', filter (\<lambda>c. c \<noteq> CR) l)) ?new"
    using sse_live_frames [of es t "[]", OF assms(3)] assms(1) by (simp add: sse_first_frames)
  show thesis
  proof (cases "ls = []")
    case True
    then show ?thesis using follow_messages [of bes "filter (\<lambda>c. c \<noteq> CR)" ?new p] tx that by auto
  next
    case False
    then obtain B bes' where bes: "bes = (B, ''backfill'', dumps compact (jstrs ls)) # bes'"
        "map snd bes' = map (\<lambda>l. (''message'', filter (\<lambda>c. c \<noteq> CR) l)) ?new"
      using tx by (cases bes) auto
    let ?p = "on_sse B (''backfill'', dumps compact (jstrs ls)) p"
    obtain bevs where "follow bes' ?p = fold take_in bevs ?p" "map snd bevs = parsed (map (filter (\<lambda>c. c \<noteq> CR)) ?new)"
        "fst ` set bevs \<subseteq> fst ` set bes'"
      using follow_messages [OF bes(2)] by blast
    moreover have "fst ` set (map (Pair B) (parsed ls) @ bevs) \<subseteq> fst ` set bes" using calculation(3) by (auto simp: bes(1))
    ultimately show ?thesis using that [of "map (Pair B) (parsed ls) @ bevs"] on_sse_backfill [OF assms(2)]
      by (simp add: follow_def bes(1) comp_def)
  qed
qed

lemma event_log_events:
  assumes "length (event_log p) \<le> MAX_LOG"
  shows "event_log (fold take_in bevs p) = last_n MAX_LOG (event_log p @ filter acceptable (map snd bevs))"
proof -
  have "List.map_filter (\<lambda>(B, ev). if accepted B ev then Some ev else None) es = filter acceptable (map snd es)" for es
    using map_filter_guard [of "\<lambda>(B, ev). accepted B ev" snd es]
    by (simp add: case_prod_unfold accepted_iff filter_map comp_def)
  then show ?thesis using log_ring.view_fold [OF assms, of bevs] by simp
qed

lemma reject_count_events:
  "reject_count (fold take_in bevs p) k = reject_count p k + length (filter (counted_as k) bevs)"
  by (rule reject_counter.total_fold)


text \<open>The whole way: the file, the two reads of the server, the frames, the page.\<close>

lemma stream_backfill [simp]: "backfill_of C stream_path = 1000"
proof -
  have "split_first (CHR ''?'') stream_path = Some (''/stream'', ''backfill=1000'')" by code_simp
  moreover have "query_value ''backfill'' (split_on (CHR ''&'') ''backfill=1000'') None = Some ''1000''" by code_simp
  moreover have "py_int ''1000'' = Some 1000"
    by (simp add: py_int_def strip_space_def is_space_def digits_ok.simps is_digit_def less_eq_char_def nat_of_str_def digit_val_def Let_def)
  ultimately show ?thesis by (simp add: backfill_of_def)
qed

lemma split_on_chars: "x \<in> set (split_on c s) \<Longrightarrow> set x \<subseteq> set s"
proof (induction s arbitrary: x)
  case (Cons d s)
  then show ?case by (cases "split_on c s") (fastforce simp: split_on.simps(2) split: if_splits)+
qed auto

lemma lines_chars: "x \<in> set (lines_of s) \<Longrightarrow> set x \<subseteq> set s"
  by (auto simp: lines_of_def dest: split_on_chars)

lemma sent_decoded:
  assumes "l \<in> set (map decode_replace (lines_of s))"
  shows "utf8_ok l" "NL \<notin> set l" "CR \<notin> set s \<Longrightarrow> CR \<notin> set l"
proof -
  obtain x where x: "l = decode_replace x" "x \<in> set (lines_of s)" using assms by auto
  show "utf8_ok l" by (simp add: x(1) utf8_ok_decode)
  show "NL \<notin> set l" using x lines_no_newline decode_replace_no_newline by simp
  show "CR \<notin> set s \<Longrightarrow> CR \<notin> set l" using lines_chars [OF x(2)] decode_replace_chars [of CR x] by (auto simp: x(1))
qed

lemma last_n_subset: "set (last_n k xs) \<subseteq> set xs"
  by (auto simp: last_n_def dest: in_set_dropD)

lemma file_to_page:
  assumes "ends_line content" "no_blank_lines content" "content \<noteq> []"
    and "tails\<^sup>*\<^sup>* (tail_start content (length content)) w"
    and "stream_turn (file_size (Some (log w))) (reads_of (log w)) (reader w) = (r, es)"
    and "map fst ts = yielded w @ es" "map snd bes = sse_events (stream_bytes C content t ts)"
  obtains old new bevs where "new = sent_lines (map fst ts)"
    "old @ new = last_n (1000 + length new) (map decode_replace (lines_of (complete_of (log w))))"
    "follow bes p = fold take_in bevs p" "fst ` set bevs \<subseteq> fst ` set bes"
    "map snd bevs = parsed (old @ map (filter (\<lambda>c. c \<noteq> CR)) new)"
proof -
  let ?new = "sent_lines (yielded w @ es)"
  let ?old = "fst (tail_lines (file_size (Some content)) (reads_of content) 1000)"
  let ?all = "map decode_replace (lines_of (complete_of (log w)))"
  have gap: "?old @ ?new = last_n (1000 + length ?new) ?all"
    using no_gap [OF assms(1-3) _ assms(4,5), of 1000] by simp
  have "set (?old @ ?new) \<subseteq> set ?all" unfolding gap by (rule last_n_subset)
  then have lines: "list_all utf8_ok ?old" "\<And>l. l \<in> set ?new \<Longrightarrow> NL \<notin> set l"
    using sent_decoded(1,2) [of _ "complete_of (log w)"] by (auto simp: list_all_iff simp del: set_map)
  then obtain bevs where "follow bes p = fold take_in bevs p" "fst ` set bevs \<subseteq> fst ` set bes"
      "map snd bevs = parsed (?old @ map (filter (\<lambda>c. c \<noteq> CR)) ?new)"
    using delivered [of bes ?old t ts p] assms(6,7) by (simp only: stream_backfill stream_bytes_def) metis
  then show thesis using that [of ?new ?old bevs] gap assms(6) by simp
qed


section \<open>A second connection\<close>

text \<open>
  After an error the browser connects again with the same request, and the server answers with the last
  lines again: the page takes them in a second time.
\<close>

lemma connection_counts [simp]:
  "reject_count (on_open p) k = reject_count p k" "reject_count (on_error p) k = reject_count p k"
  by (simp_all add: on_open_def on_error_def reject_count_def)

lemma counted_as_native: "native_text B = N \<Longrightarrow> native_text B' = N \<Longrightarrow> counted_as k (B, ev) = counted_as k (B', ev)"
proof -
  assume "native_text B = N" "native_text B' = N"
  then have "js_table_get B = js_table_get B'" by (intro ext) (auto simp: js_table_get_def split: option.split)
  then show ?thesis by (simp add: counted_as_def accepted_iff reject_key_def)
qed

lemma counted_length: "(\<And>B ev. (B, ev) \<in> set xs \<Longrightarrow> native_text B = N) \<Longrightarrow> native_text B0 = N \<Longrightarrow>
    length (filter (counted_as k) xs) = length (filter (\<lambda>ev. counted_as k (B0, ev)) (map snd xs))"
proof (induction xs)
  case (Cons x xs)
  obtain B ev where x: "x = (B, ev)" by (cases x)
  have "counted_as k (B, ev) = counted_as k (B0, ev)" using Cons.prems x by (intro counted_as_native [of _ N]) auto
  moreover have "length (filter (counted_as k) xs) = length (filter (\<lambda>ev. counted_as k (B0, ev)) (map snd xs))"
    using Cons.prems by (intro Cons.IH) auto
  ultimately show ?case using x by simp
qed simp

lemma connection_count:
  assumes "follow bes (on_open p) = fold take_in bevs (on_open p)" "fst ` set bevs \<subseteq> fst ` set bes"
    and "\<And>B. B \<in> fst ` set bes \<Longrightarrow> native_text B = native_text B0"
  shows "reject_count (connection bes p) k = reject_count p k + length (filter (\<lambda>ev. counted_as k (B0, ev)) (map snd bevs))"
proof -
  have "native_text B = native_text B0" if "(B, ev) \<in> set bevs" for B ev
    using that assms(2,3) by force
  then show ?thesis using counted_length [of bevs "native_text B0" B0 k] by (simp add: connection_def assms(1) reject_count_events)
qed

text \<open>A first connection brings every line of a file of at most 1000 lines once, a second one brings them all again.\<close>

lemma first_connection:
  assumes "ends_line content" "no_blank_lines content" "content \<noteq> []"
    and "tails\<^sup>*\<^sup>* (tail_start content (length content)) w"
    and "stream_turn (file_size (Some (log w))) (reads_of (log w)) (reader w) = (r, es)"
    and "map fst ts = yielded w @ es" "map snd bes = sse_events (stream_bytes C content t ts)"
    and "ends_line (log w)" "CR \<notin> set (log w)" "length (lines_of (log w)) \<le> 1000"
    and "\<And>B. B \<in> fst ` set bes \<Longrightarrow> native_text B = native_text B0"
  shows "reject_count (connection bes p) k = reject_count p k
    + length (filter (\<lambda>ev. counted_as k (B0, ev)) (parsed (map decode_replace (lines_of (log w)))))"
proof -
  let ?all = "map decode_replace (lines_of (log w))"
  have whole: "complete_of (log w) = log w" using complete_rest_unique(1) [OF assms(8), of "[]"] by simp
  obtain old new bevs where b: "old @ new = last_n (1000 + length new) ?all"
      "follow bes (on_open p) = fold take_in bevs (on_open p)" "fst ` set bevs \<subseteq> fst ` set bes"
      "map snd bevs = parsed (old @ map (filter (\<lambda>c. c \<noteq> CR)) new)"
    by (rule file_to_page [OF assms(1-7), of "on_open p"]) (simp add: whole)
  have all: "old @ new = ?all" using b(1) assms(10) by (simp add: last_n_def)
  have "filter (\<lambda>c. c \<noteq> CR) l = l" if "l \<in> set new" for l
  proof -
    have "l \<in> set ?all" unfolding all [symmetric] using that by simp
    then have "CR \<notin> set l" using sent_decoded(3) assms(9) by blast
    then show ?thesis by (auto simp: filter_id_conv)
  qed
  then have "map (filter (\<lambda>c. c \<noteq> CR)) new = new" by (rule map_idI)
  then show ?thesis using connection_count [OF b(2,3) assms(11), of k] b(4) all by simp
qed

lemma later_connection:
  assumes "no_blank_lines content" "length (lines_of content) \<le> 1000" "content \<noteq> []"
    and "sent_lines (map fst ts) = []" "map snd bes = sse_events (stream_bytes C content t ts)"
    and "\<And>B. B \<in> fst ` set bes \<Longrightarrow> native_text B = native_text B0"
  shows "reject_count (connection bes p) k = reject_count p k
    + length (filter (\<lambda>ev. counted_as k (B0, ev)) (parsed (map decode_replace (lines_of content))))"
proof -
  let ?all = "map decode_replace (lines_of content)"
  have "fst (tail_lines (file_size (Some content)) (reads_of content) 1000) = ?all"
    using tail_lines_no_blank [OF assms(1,3), of 1000] assms(2) by (simp add: file_size_def last_n_def)
  then have "map snd bes = sse_events (concat (first_frames ?all) @ concat (live_frames t ts))"
    using assms(5) by (simp add: stream_bytes_def)
  moreover have "list_all utf8_ok ?all" using sent_decoded(1) [of _ content] by (simp only: list_all_iff) blast
  ultimately obtain bevs where "follow bes (on_open p) = fold take_in bevs (on_open p)" "fst ` set bevs \<subseteq> fst ` set bes"
      "map snd bevs = parsed ?all"
    using delivered [of bes ?all t ts "on_open p"] assms(4) by auto
  then show ?thesis using connection_count [of bes p bevs B0 k] assms(6) by simp
qed

end
