(* ===== verification/PageTabs.thy ===== *)
theory PageTabs
  imports PageStream
begin

text \<open>
  The Tests and Tools tabs of the page: what they ask of the server and what they show.  The server is
  the request handler of theory \<open>Dashboard\<close>; a function that calls it takes the state of the server
  along.
\<close>


section \<open>Calling the server\<close>

type_synonym web_server = "request \<Rightarrow> ops \<Rightarrow> response option res \<times> ops"

text \<open>\<^verbatim>\<open>await (await fetch(...)).json()\<close>: \<open>None\<close> when there is no answer or its body is no JSON.\<close>

definition fetch_json :: "web_server \<Rightarrow> request \<Rightarrow> ops \<Rightarrow> json option \<times> ops" where
  "fetch_json srv r s = (case srv r s of
     (Inr (Some resp), s') \<Rightarrow> ((case js_parse (body resp) of Inr v \<Rightarrow> Some v | Inl _ \<Rightarrow> None), s')
   | (_, s') \<Rightarrow> (None, s'))"

text \<open>The elements of the two tabs, the tab that is visible and the button that runs all tests.\<close>

record tabs =
  active_tab :: string
  elements :: "string \<Rightarrow> content"
  run_all_disabled :: bool

definition set_element :: "string \<Rightarrow> content \<Rightarrow> tabs \<Rightarrow> tabs" where
  "set_element ident c T = T\<lparr>elements := (elements T)(ident := c)\<rparr>"

definition RUNNING :: string where
  "RUNNING = ''running'' @ [CHR 0xE2, CHR 0x80, CHR 0xA6]"


section \<open>The Tests tab\<close>

definition status_badge :: "js \<Rightarrow> string res" where
  "status_badge s = badge_html (js_or s (Some (JStr DASH)))
     (if s = Some (JStr ''pass'') then ''green'' else if s = Some (JStr ''fail'') then ''red'' else ''gray'')"

text \<open>\<^verbatim>\<open>Object.keys(m)\<close> with the values; the keys of a text are the places of its characters.\<close>

fun items_of :: "json \<Rightarrow> (string \<times> json) list res" where
  "items_of JNull = Inl TypeError"
| "items_of (JObj fs) = Inr fs"
| "items_of (JList xs) = Inr (zip (map str_of_nat [0..<length xs]) xs)"
| "items_of (JStr s) = Inr (zip (map str_of_nat [0..<length s]) (map (\<lambda>c. JStr [c]) s))"
| "items_of v = Inr []"

definition test_card :: "string \<times> json \<Rightarrow> string res" where
  \<open>test_card = (\<lambda>(n, r). if r = JNull then Inl TypeError
     else cat [Inr ''<div style="border:1px solid #2a2a3a;border-radius:6px;padding:8px">'',
       Inr ''<div style="display:flex;justify-content:space-between"><b>'', esc (Some (JStr n)), Inr ''</b>'', status_badge (field r ''status''), Inr ''</div>'',
       Inr ''<div style="color:#888;font-size:12px;margin-top:4px">+'', num_cell (field r ''passed''), Inr '' / -'', num_cell (field r ''failed''),
       Inr ('' '' @ MIDDOT @ '' ''), num_cell (field r ''duration_ms''), Inr ''ms</div></div>''])\<close>

definition no_results :: string where
  \<open>no_results = ''<div class="muted">no results yet '' @ DASH @ '' click '' @ [CHR 0xE2, CHR 0x80, CHR 0x9C] @ ''Run all'' @ [CHR 0xE2, CHR 0x80, CHR 0x9D] @ ''.</div>''\<close>

definition status_count :: "string \<Rightarrow> (string \<times> json) list \<Rightarrow> nat" where
  "status_count st items = length (filter (\<lambda>(_, r). field r ''status'' = Some (JStr st)) items)"

definition tests_summary :: "(string \<times> json) list \<Rightarrow> string" where
  "tests_summary items = (if items = [] then []
     else str_of_nat (status_count ''pass'' items) @ '' pass, '' @ str_of_nat (status_count ''fail'' items) @ '' fail'')"

definition load_tests :: "web_server \<Rightarrow> ops \<times> tabs \<Rightarrow> unit res \<times> ops \<times> tabs" where
  "load_tests srv = (\<lambda>(s, T). case fetch_json srv (Get ''/api/results'') s of (r, s') \<Rightarrow>
     (case rbind (items_of (case r of None \<Rightarrow> JObj [] | Some m \<Rightarrow> m)) (\<lambda>items. let sorted = sort_key fst items
         in rmap (Pair sorted) (if sorted = [] then Inr no_results else cat (map test_card sorted))) of
        Inl e \<Rightarrow> (Inl e, s', T)
      | Inr (items, html) \<Rightarrow> (Inr (), s', set_element ''tests-summary'' (PlainText (tests_summary items))
          (set_element ''tests-grid'' (Html html) T))))"

text \<open>Running one tool; \<open>err\<close> is the text of the exception when there is no answer.\<close>

definition run_request :: "js \<Rightarrow> request" where
  "run_request name = (let b = stringify compact 0 (JObj (case name of None \<Rightarrow> [] | Some v \<Rightarrow> [(''name'', v)]))
     in Post ''/api/run'' (Some (str_of_nat (length b))) b)"

definition tool_result :: "web_server \<Rightarrow> string \<Rightarrow> js \<Rightarrow> ops \<Rightarrow> json \<times> ops" where
  "tool_result srv err name s = (case fetch_json srv (run_request name) s of
     (Some v, s') \<Rightarrow> (v, s')
   | (None, s') \<Rightarrow> (JObj [(''status'', JStr ''error''), (''reason'', JStr err)], s'))"

text \<open>The tools of the list that \<^verbatim>\<open>Run all\<close> runs.\<close>

definition run_all_tools :: "json \<Rightarrow> json list res" where
  "run_all_tools tj = rbind (get_prop (Some tj) ''tools'') (\<lambda>tools. case tools of
     Some (JList ts) \<Rightarrow> if JNull \<in> set ts then Inl TypeError
       else Inr (filter (\<lambda>t. js_true (field t ''in_run_all'') \<and> js_true (field t ''runnable'')) ts)
   | _ \<Rightarrow> Inl TypeError)"

fun run_each :: "web_server \<Rightarrow> string \<Rightarrow> json list \<Rightarrow> ops \<times> tabs \<Rightarrow> unit res \<times> ops \<times> tabs" where
  "run_each srv err [] st = (Inr (), st)"
| "run_each srv err (t # ts) (s, T) =
     (case load_tests srv (snd (tool_result srv err (field t ''name'') s), T) of
        (Inl e, st) \<Rightarrow> (Inl e, st)
      | (Inr _, st) \<Rightarrow> run_each srv err ts st)"

definition run_all_clicked :: "web_server \<Rightarrow> string \<Rightarrow> ops \<times> tabs \<Rightarrow> unit res \<times> ops \<times> tabs" where
  "run_all_clicked srv err = (\<lambda>(s, T).
     let T1 = set_element ''tests-summary'' (PlainText RUNNING) (T\<lparr>run_all_disabled := True\<rparr>)
     in case fetch_json srv (Get ''/api/tools'') s of
       (None, s') \<Rightarrow> (Inl TypeError, s', T1)
     | (Some tj, s') \<Rightarrow> (case run_all_tools tj of
         Inl e \<Rightarrow> (Inl e, s', T1)
       | Inr ts \<Rightarrow> (case run_each srv err ts (s', T1) of
           (Inl e, st) \<Rightarrow> (Inl e, st)
         | (Inr _, s'', T2) \<Rightarrow> (Inr (), s'', T2\<lparr>run_all_disabled := False\<rparr>))))"


section \<open>The Tools tab\<close>

definition kind_order :: "(string \<times> int) list" where
  "kind_order = [(''test'', 0), (''check'', 1), (''bench'', 2), (''probe'', 3), (''daemon'', 4), (''example'', 5)]"

text \<open>
  \<^verbatim>\<open>(order[a.kind]-order[b.kind])||a.name.localeCompare(b.name)\<close>: the difference with an unknown kind is
  not a number, and neither that nor zero counts.
\<close>

definition kind_rank :: "json \<Rightarrow> int option res" where
  "kind_rank t = rmap (map_of kind_order) (js_str (field t ''kind''))"

definition compare_tools :: "browser \<Rightarrow> json \<Rightarrow> json \<Rightarrow> int res" where
  "compare_tools B a b = rbind (kind_rank a) (\<lambda>i. rbind (kind_rank b) (\<lambda>j.
     if i \<noteq> None \<and> j \<noteq> None \<and> i \<noteq> j then Inr (the i - the j)
     else case field a ''name'' of
       Some (JStr x) \<Rightarrow> rmap (locale_compare B x) (js_str (field b ''name''))
     | _ \<Rightarrow> Inl TypeError))"

fun insert_tool :: "browser \<Rightarrow> json \<Rightarrow> json list \<Rightarrow> json list res" where
  "insert_tool B x [] = Inr [x]"
| "insert_tool B x (y # ys) = rbind (compare_tools B x y) (\<lambda>c. if c < 0 then Inr (x # y # ys) else rmap (Cons y) (insert_tool B x ys))"

fun sort_tools :: "browser \<Rightarrow> json list \<Rightarrow> json list \<Rightarrow> json list res" where
  "sort_tools B done [] = Inr done"
| "sort_tools B done (t # ts) = rbind (insert_tool B t done) (\<lambda>d. sort_tools B d ts)"

definition safety_class :: "js \<Rightarrow> string" where
  "safety_class v = (if v = Some (JStr ''pure'') then ''green'' else if v = Some (JStr ''offline'') then ''blue''
     else if v = Some (JStr ''network_read'') then ''yellow'' else ''red'')"

definition run_button :: "json \<Rightarrow> string res" where
  \<open>run_button t = (if js_true (field t ''runnable'')
     then cat [Inr (''<button class="tabbtn" onclick="runOne(this,'' @ [CHR 0x27]), esc (field t ''name''), Inr ([CHR 0x27] @ '')">Run</button>'')]
     else cat [Inr ''<button class="tabbtn" disabled title="'', esc (field t ''run_reason''), Inr ''">'',
       Inr (if field t ''safety'' = Some (JStr ''live_order'') then [CHR 0xE2, CHR 0x9C, CHR 0x8B] @ '' forbidden'' else ''locked''), Inr ''</button>''])\<close>

definition tool_card :: "json \<Rightarrow> string res" where
  \<open>tool_card t = rbind (run_button t) (\<lambda>btn.
     cat [Inr ''<div style="border:1px solid #2a2a3a;border-radius:6px;padding:8px">'',
       Inr ''<div style="display:flex;justify-content:space-between;align-items:center">'',
       Inr ''<b>'', esc (field t ''name''), Inr ''</b>'', badge_html (field t ''safety'') (safety_class (field t ''safety'')), Inr ''</div>'',
       Inr ''<div style="color:#888;font-size:12px;margin:4px 0">'', esc (js_or (field t ''description'') (Some (JStr []))), Inr ''</div>'',
       Inr ''<div style="display:flex;justify-content:space-between;align-items:center">'',
       Inr ''<code style="color:#6cf;font-size:11px">'', esc (field t ''cmd''), Inr ''</code>'', Inr btn, Inr ''</div>'',
       Inr ''<div class="run-out" style="color:#888;font-size:11px;margin-top:4px"></div></div>''])\<close>

definition network_note :: "json \<Rightarrow> string" where
  "network_note tj = (if js_true (field tj ''allow_network'') then ''network_read ENABLED''
     else ''network_read blocked (start with --allow-network)'')"

definition tool_cards :: "browser \<Rightarrow> json \<Rightarrow> string res" where
  "tool_cards B tj = (case field tj ''tools'' of
     Some (JList ts) \<Rightarrow> if JNull \<in> set ts then Inl TypeError else rbind (sort_tools B [] ts) (\<lambda>us. cat (map tool_card us))
   | _ \<Rightarrow> Inl TypeError)"

definition load_tools :: "browser \<Rightarrow> web_server \<Rightarrow> ops \<times> tabs \<Rightarrow> unit res \<times> ops \<times> tabs" where
  "load_tools B srv = (\<lambda>(s, T). case fetch_json srv (Get ''/api/tools'') s of
     (None, s') \<Rightarrow> (Inl TypeError, s', T)
   | (Some tj, s') \<Rightarrow> if tj = JNull then (Inl TypeError, s', T)
       else let T1 = set_element ''tab-note'' (PlainText (network_note tj)) T
         in (case tool_cards B tj of
               Inl e \<Rightarrow> (Inl e, s', T1)
             | Inr html \<Rightarrow> (Inr (), s', set_element ''tools-cards'' (Html html) T1)))"

text \<open>What the line below a tool's card says after its button was pressed.\<close>

definition run_outcome :: "json \<Rightarrow> string res" where
  "run_outcome r = (if r = JNull then Inl TypeError
     else cat [status_badge (field r ''status''), Inr '' '',
       (if js_true (field r ''reason'') then esc (field r ''reason'')
        else cat [Inr ''+'', num_cell (field r ''passed''), Inr ''/-'', num_cell (field r ''failed''), Inr '' '',
          num_cell (field r ''duration_ms''), Inr ''ms''])])"

text \<open>Pressing the button of a tool: what its line shows afterwards and whether the button stays disabled.\<close>

definition run_one :: "web_server \<Rightarrow> string \<Rightarrow> string \<Rightarrow> ops \<Rightarrow> (content \<times> bool) \<times> ops" where
  "run_one srv err name s = (case tool_result srv err (Some (JStr name)) s of (r, s') \<Rightarrow>
     (case run_outcome r of Inr html \<Rightarrow> (Html html, False) | Inl _ \<Rightarrow> (PlainText RUNNING, True), s'))"

definition show_tab :: "browser \<Rightarrow> web_server \<Rightarrow> string \<Rightarrow> ops \<times> tabs \<Rightarrow> ops \<times> tabs" where
  "show_tab B srv name = (\<lambda>(s, T). let T1 = T\<lparr>active_tab := name\<rparr>
     in if name = ''tests'' then snd (load_tests srv (s, T1))
        else if name = ''tools'' then snd (load_tools B srv (s, T1)) else (s, T1))"



section \<open>What the page asks for\<close>

lemma digits_ok_digits: "s \<noteq> [] \<Longrightarrow> list_all is_digit s \<Longrightarrow> digits_ok s"
proof (induction s rule: digits_ok.induct)
  case (3 c d cs)
  have "d \<noteq> CHR ''_''" using "3.prems" by (auto simp: is_digit_def less_eq_char_def)
  then show ?case using 3 by simp
qed simp_all

lemma py_int_str_of_nat: "py_int (str_of_nat n) = Some (int n)"
proof -
  let ?s = "str_of_nat n"
  have d: "list_all is_digit ?s" "?s \<noteq> []" using str_of_nat_digits [of n] by (auto simp: list_all_iff)
  have plain: "\<not> is_space c" "c \<notin> {CHR ''+'', CHR ''-''}" if "is_digit c" for c
    using that by (auto simp: is_digit_def is_space_def less_eq_char_def)
  have "dropWhile is_space xs = xs" if "list_all is_digit xs" for xs using that plain(1) by (cases xs) auto
  then have "strip_space ?s = ?s" using d(1) by (simp add: strip_space_def list_all_iff)
  moreover have "hd ?s \<notin> {CHR ''+'', CHR ''-''}" using d plain(2) [of "hd ?s"] by (cases ?s) auto
  moreover have "filter is_digit ?s = ?s" using d(1) by (simp add: filter_id_conv list_all_iff)
  ultimately show ?thesis using digits_ok_digits [OF d(2,1)] by (simp add: py_int_def Let_def)
qed

lemma run_request_body:
  assumes "is_ascii n"
  shows "run_request (Some (JStr n)) = Post ''/api/run'' cl b \<Longrightarrow> request_body cl b = Some (JObj [(''name'', JStr n)])"
proof -
  let ?v = "JObj [(''name'', JStr n)]"
  let ?b = "enc compact 0 ?v"
  have hex: "of_char (hex_digit d) < (0x80 :: nat)" if "d < 16" for d using that by (auto simp: hex_digit_def)
  have "of_char c < (0x80 :: nat) \<Longrightarrow> is_ascii (enc_char c)" for c
    by (auto simp: enc_char_def is_ascii_def less_char_def hex less_mult_imp_div_less)
  then have "is_ascii (enc_str n)" using assms by (auto simp: enc_str_def is_ascii_def list_all_iff)
  moreover have "is_ascii (enc_str ''name'')" by code_simp
  ultimately have "is_ascii ?b" by (simp add: is_ascii_def compact_def newline_def)
  then have "valid_utf8 ?b" unfolding valid_utf8_def by (rule decode_replace_ascii)
  moreover have "loads ?b = Inr ?v" using loads_enc [of compact ?v "[]" "[]" 0] layouts_ok by simp
  moreover have "stringify compact 0 ?v = ?b" by simp
  moreover have "?b \<noteq> []" by simp
  moreover assume "run_request (Some (JStr n)) = Post ''/api/run'' cl b"
  ultimately show ?thesis by (auto simp: run_request_def Let_def request_body_def py_int_str_of_nat simp del: enc.simps stringify.simps)
qed

lemma map_of_index_first: "keys_distinct fs \<Longrightarrow> map_of (index_first fs) k = map_of fs k"
proof -
  assume d: "keys_distinct fs"
  have s: "set (index_first fs) = set fs" by (auto simp: index_first_def)
  have "distinct (index_first fs)" using d by (auto simp: index_first_def distinct_map)
  moreover have "inj_on fst (set fs)" using d by (simp add: distinct_map)
  ultimately have "keys_distinct (index_first fs)" by (simp add: distinct_map s)
  then show ?thesis using d s by (metis map_of_inject_set)
qed

lemma js_items_map: "js_items fs = map (\<lambda>(k, v). (k, js_value v)) fs"
  by (induction fs) auto

lemma js_values_map: "js_values xs = map js_value xs"
  by (induction xs) auto

lemma field_js_value: "keys_distinct fs \<Longrightarrow> field (js_value (JObj fs)) k = map_option js_value (map_of fs k)"
proof -
  assume "keys_distinct fs"
  then have "keys_distinct (js_items fs)" by (simp add: js_items_map case_prod_unfold comp_def)
  moreover have "map_of (js_items fs) k = map_option js_value (map_of fs k)" by (induction fs) auto
  ultimately show ?thesis by (simp add: map_of_index_first)
qed

lemma field_of_index:
  assumes "wf_json e" "py_index e k = Inr v"
  shows "field (js_value e) k = Some (js_value v)"
proof -
  obtain fs where e: "e = JObj fs" using assms(2) by (cases e) simp_all
  then show ?thesis using field_js_value [of fs k] assms by (auto split: option.splits)
qed

lemma runnable_test_set_filter: "runnable_test_set ts = Inr us \<Longrightarrow> us = filter (\<lambda>t. in_run_all t = Inr True) ts"
  by (induction ts arbitrary: us) (auto simp: rbind_eq_Inr rmap_eq_Inr)

text \<open>The server's list of tools: its parts when building it raises nothing.\<close>

lemma tools_view_parts:
  assumes "tools_view C H = Inr v" "load_registry H = Inr (JList ts)"
  obtains tests names out where "runnable_test_set ts = Inr tests" "names_of tests = Inr names"
    "v = JObj [(''allow_network'', JBool (allow_network C)), (''tools'', JList out)]"
    "list_all2 (\<lambda>t e. annotate C names t = Inr e) ts out"
  using assms by (auto simp: tools_view_def rbind_eq_Inr traverse_eq_Inr)

lemma names_of_tools:
  assumes "names_of ts = Inr names" shows "names = map tool_name ts"
proof -
  have "list_all2 (\<lambda>t n. py_index t ''name'' = Inr n) ts names"
    using assms by (auto simp: names_of_def rbind_eq_Inr traverse_eq_Inr split: if_splits)
  then show ?thesis by (induction rule: list_all2_induct) (simp_all add: tool_name_def)
qed

text \<open>The tools of the page's list that \<^verbatim>\<open>Run all\<close> keeps are those of the server's own set.\<close>

definition kept :: "json \<Rightarrow> bool" where
  "kept u \<longleftrightarrow> js_true (field u ''in_run_all'') \<and> js_true (field u ''runnable'')"

lemma annotated:
  assumes "annotate C (map tool_name tests) t = Inr e" "wf_json e" "tool_name t = JStr n" "tool_ok t"
  shows "field (js_value e) ''name'' = Some (JStr n)"
    "kept (js_value e) \<longleftrightarrow> tool_name t \<in> tool_name ` set tests \<and> permitted t (allow_network C)"
proof -
  have i: "py_index t ''name'' = Inr (JStr n)" using assms(3) by (auto simp: tool_name_def split: sum.splits)
  then have "py_index e ''name'' = Inr (JStr n)"
    using assms(1) by (auto simp: annotate_def rbind_eq_Inr py_index_update split: if_splits)
  then show "field (js_value e) ''name'' = Some (JStr n)" using field_of_index [OF assms(2)] by fastforce
  have "py_member (JStr n) (map tool_name tests) \<longleftrightarrow> JStr n \<in> tool_name ` set tests"
    by (auto simp: py_member_def list_ex_iff)
  then show "kept (js_value e) \<longleftrightarrow> tool_name t \<in> tool_name ` set tests \<and> permitted t (allow_network C)"
    using field_of_index [OF assms(2) annotate_in_run_all [OF assms(1) i]]
      field_of_index [OF assms(2) annotate_runnable [OF assms(1)]] assms(3)
    by (simp add: kept_def js_true_def)
qed

lemma kept_tools:
  assumes "list_all2 (\<lambda>t e. annotate C (map tool_name tests) t = Inr e) ts out" "wf_list out"
    "list_all tool_ok ts" "list_all (\<lambda>t. \<exists>n. tool_name t = JStr n \<and> is_ascii n) ts"
  shows "map (\<lambda>u. field u ''name'') (filter kept (js_values out))
    = map (\<lambda>t. Some (tool_name t)) (filter (\<lambda>t. tool_name t \<in> tool_name ` set tests \<and> permitted t (allow_network C)) ts)"
  using assms
proof (induction rule: list_all2_induct)
  case (Cons t ts e es)
  then obtain n where "tool_name t = JStr n" by auto
  then show ?case using Cons annotated [of C tests t e n] by auto
qed simp

lemma kept_are_tests:
  assumes "runnable_test_set ts = Inr tests" "distinct (map tool_name ts)"
  shows "filter (\<lambda>t. tool_name t \<in> tool_name ` set tests \<and> permitted t net) ts = tests"
proof -
  have tests: "tests = filter (\<lambda>t. in_run_all t = Inr True) ts" using assms(1) by (rule runnable_test_set_filter)
  have "tool_name t \<in> tool_name ` set tests \<longleftrightarrow> t \<in> set tests" if "t \<in> set ts" for t
    using that assms(2) tests by (auto simp: distinct_map dest: inj_onD)
  moreover have "permitted t net" if "t \<in> set tests" for t using run_all_permitted [OF assms(1) that] by blast
  ultimately have "filter (\<lambda>t. tool_name t \<in> tool_name ` set tests \<and> permitted t net) ts = filter (\<lambda>t. t \<in> set tests) ts"
    by (intro filter_cong) auto
  also have "\<dots> = tests" unfolding tests by (intro filter_cong) auto
  finally show ?thesis .
qed

lemma fetch_tools:
  assumes "tools_view C H = Inr v" "wf_json v" "utf8_json v"
  shows "fetch_json (handle C H) (Get ''/api/tools'') s = (Some (js_value v), s)"
proof -
  have "before_query ''/api/tools'' = ''/api/tools''" by code_simp
  then show ?thesis using assms loads_dumps_utf8 [OF layouts_ok(2)]
    by (simp add: fetch_json_def handle_def do_GET_def send_json_def js_parse_def)
qed

text \<open>A request of the page for a tool of a checked registry is granted exactly when the tool is permitted.\<close>

lemma run_request_granted:
  assumes "load_registry H = Inr (JList ts)" "list_all tool_ok ts" "distinct (map tool_name ts)"
    "t \<in> set ts" "tool_name t = JStr n" "is_ascii n"
  shows "grants_run C H (run_request (Some (JStr n))) \<longleftrightarrow> permitted t (allow_network C)"
proof -
  obtain cl b where r: "run_request (Some (JStr n)) = Post ''/api/run'' cl b" by (simp add: run_request_def Let_def)
  have "request_body cl b = Some (JObj [(''name'', JStr n)])" using run_request_body [OF assms(6) r] .
  moreover have "named_tool H (JObj [(''name'', JStr n)]) = Inr (JStr n, Some t)"
    using checked_tool_found [OF assms(2-5,1)] by simp
  moreover have "before_query ''/api/run'' = ''/api/run''" by code_simp
  ultimately show ?thesis by (simp add: grants_run_def r)
qed

lemma run_all_requests:
  assumes "load_registry H = Inr (JList ts)" "list_all tool_ok ts" "distinct (map tool_name ts)"
    "list_all (\<lambda>t. \<exists>n. tool_name t = JStr n \<and> is_ascii n) ts"
    "tools_view C H = Inr v" "wf_json v" "utf8_json v"
  shows "\<exists>tests us. runnable_test_set ts = Inr tests \<and> run_all_tools (js_value v) = Inr us
    \<and> map (\<lambda>u. field u ''name'') us = map (\<lambda>t. Some (tool_name t)) tests
    \<and> list_all (\<lambda>u. grants_run C H (run_request (field u ''name''))) us"
proof -
  obtain tests names out where p: "runnable_test_set ts = Inr tests" "names_of tests = Inr names"
      "v = JObj [(''allow_network'', JBool (allow_network C)), (''tools'', JList out)]"
      "list_all2 (\<lambda>t e. annotate C names t = Inr e) ts out"
    using tools_view_parts [OF assms(5,1)] .
  let ?us = "filter kept (js_values out)"
  have wf: "wf_list out" "keys_distinct [(''allow_network'', JBool (allow_network C)), (''tools'', JList out)]"
    using assms(6) p(3) by simp_all
  have names: "map (\<lambda>u. field u ''name'') ?us = map (\<lambda>t. Some (tool_name t)) tests"
    using kept_tools [OF _ wf(1) assms(2,4)] p(4) kept_are_tests [OF p(1) assms(3)] names_of_tools [OF p(2)] by simp
  have "JNull \<notin> set (js_values out)"
  proof
    assume "JNull \<in> set (js_values out)"
    then obtain e where "e \<in> set out" "js_value e = JNull" by (auto simp: js_values_map)
    moreover from \<open>e \<in> set out\<close> obtain t where "annotate C names t = Inr e"
      using p(4) by (auto simp: list_all2_conv_all_nth in_set_conv_nth)
    moreover have "e = JNull" using calculation(2) by (cases e) simp_all
    ultimately show False using annotate_runnable [of C names t e] by simp
  qed
  then have "run_all_tools (js_value v) = Inr ?us"
    using field_js_value [OF wf(2), of "''tools''"] by (simp add: run_all_tools_def get_prop_def nullish_def kept_def [abs_def] p(3))
  moreover have "grants_run C H (run_request (field u ''name''))" if u: "u \<in> set ?us" for u
  proof -
    have "field u ''name'' \<in> set (map (\<lambda>u. field u ''name'') ?us)" using u by simp
    then have "field u ''name'' \<in> set (map (\<lambda>t. Some (tool_name t)) tests)" by (simp only: names)
    then obtain t where t: "t \<in> set tests" "field u ''name'' = Some (tool_name t)" by auto
    then have "t \<in> set ts" "permitted t (allow_network C)" using run_all_permitted [OF p(1)] by blast+
    moreover obtain n where "tool_name t = JStr n" "is_ascii n" using assms(4) \<open>t \<in> set ts\<close> by (auto simp: list_all_iff)
    ultimately show ?thesis using run_request_granted [OF assms(1-3)] t(2) by simp
  qed
  ultimately show ?thesis using p(1) names by (auto simp: list_all_iff)
qed

end
