(* ===== verification/ServerThreads.thy ===== *)
theory ServerThreads
  imports Dashboard Utf8Json
begin

text \<open>
  The handler threads of the server.  Every request has a thread of its own, and two runs can be
  recorded at the same time: \<^verbatim>\<open>record\<close> is cut here into the accesses to the two result files between which
  another thread can run.
\<close>


section \<open>Schedules\<close>

text \<open>
  What every turn of a thread keeps, every schedule keeps, in whatever order the threads come; the
  invariant may speak of the turns taken so far.
\<close>

locale kept_by_turns =
  fixes turn :: "'u \<Rightarrow> 'w \<Rightarrow> 'w"
    and inv :: "'u list \<Rightarrow> 'w \<Rightarrow> bool"
  assumes kept_turn: "inv us w \<Longrightarrow> inv (us @ [u]) (turn u w)"
begin

lemma kept_schedule: "inv [] w \<Longrightarrow> inv us (fold turn us w)"
  by (induction us rule: rev_induct) (simp_all add: kept_turn)

end


section \<open>Recording in a thread\<close>

text \<open>
  Where a call of \<^verbatim>\<open>record\<close> is: before it reads the clock, with a rest of its line to be appended, before
  the file of the latest results is read, before it is opened for writing, or with a part of the new text
  written.
\<close>

datatype phase = Entered json | Appending json string | Appended json | Loaded string | Writing string string
  | Returned | Raised py_exc

text \<open>A write at a position of the file; a gap before it reads as zero bytes.\<close>

definition write_at :: "nat \<Rightarrow> string \<Rightarrow> string \<Rightarrow> string" where
  "write_at p c f = take p f @ replicate (p - length f) (CHR 0x00) @ c @ drop (p + length c) f"

text \<open>The host as it is at the time \<open>t\<close> of the clock.\<close>

definition at_time :: "host \<Rightarrow> nat \<Rightarrow> host" where
  "at_time H t = H\<lparr>host_now := t\<rparr>"

text \<open>
  The next access of a call; \<open>t\<close> is the time and \<open>Suc n\<close> the most characters a write hands over.  The file
  of the history is opened for appending and buffered: a rest of at most \<open>K\<close> characters, the size of the
  buffer, is handed over by one write, a longer one in pieces, and every write goes to what is then the
  end of the file.
\<close>

fun record_step :: "nat \<Rightarrow> host \<Rightarrow> nat \<Rightarrow> nat \<Rightarrow> phase \<Rightarrow> ops \<Rightarrow> phase \<times> ops" where
  "record_step K H t n (Entered rec) s = (case py_get rec ''status'' JNull of
     Inl e \<Rightarrow> (Raised e, s)
   | Inr status \<Rightarrow> if py_eq status (JStr ''refused'') then (Returned, s)
       else (Appending (stamped (at_time H t) rec) (dumps spaced (stamped (at_time H t) rec) @ [NL]), s))"
| "record_step K H t n (Appending rec rest) s =
     (let k = (if length rest \<le> K then length rest else Suc n)
      in (if drop k rest = [] then Appended rec else Appending rec (drop k rest), s\<lparr>results := results s @ take k rest\<rparr>))"
| "record_step K H t n (Appended rec) s =
     (case rbind (py_index rec ''suite'') (\<lambda>suite. py_put (read_latest (latest s)) suite rec) of
        Inl e \<Rightarrow> (Raised e, s)
      | Inr v \<Rightarrow> (Loaded (dumps (indented 2) v), s))"
| "record_step K H t n (Loaded out) s = (Writing [] out, s\<lparr>latest := Some []\<rparr>)"
| "record_step K H t n (Writing pre rest) s =
     (if rest = [] then (Returned, s)
      else (Writing (pre @ take (Suc n) rest) (drop (Suc n) rest),
        s\<lparr>latest := Some (write_at (length pre) (take (Suc n) rest) (case latest s of None \<Rightarrow> [] | Some f \<Rightarrow> f))\<rparr>))"
| "record_step K H t n Returned s = (Returned, s)"
| "record_step K H t n (Raised e) s = (Raised e, s)"

record server_threads =
  threads :: "phase list"
  result_files :: ops

text \<open>One turn of a schedule: which thread, the time, and how much a write hands over.\<close>

type_synonym turn = "nat \<times> nat \<times> nat"

fun take_turn :: "nat \<Rightarrow> host \<Rightarrow> turn \<Rightarrow> server_threads \<Rightarrow> server_threads" where
  "take_turn K H (i, t, n) w = (if i < length (threads w)
     then (let (p, s) = record_step K H t n (threads w ! i) (result_files w) in \<lparr>threads = (threads w)[i := p], result_files = s\<rparr>)
     else w)"

inductive interleaves :: "nat \<Rightarrow> host \<Rightarrow> server_threads \<Rightarrow> server_threads \<Rightarrow> bool" for K H where
  interleaves_refl: "interleaves K H w w"
| interleaves_turn: "interleaves K H w w' \<Longrightarrow> interleaves K H w (take_turn K H u w')"

lemma interleaves_schedule: "interleaves K H w (fold (take_turn K H) us w)"
  by (induction us rule: rev_induct) (auto intro: interleaves.intros)

definition all_entered :: "json list \<Rightarrow> ops \<Rightarrow> server_threads" where
  "all_entered recs s = \<lparr>threads = map Entered recs, result_files = s\<rparr>"


section \<open>The history\<close>

definition reports :: "json \<Rightarrow> bool" where
  "reports rec = (case py_get rec ''status'' JNull of Inr st \<Rightarrow> \<not> py_eq st (JStr ''refused'') | Inl _ \<Rightarrow> False)"

definition history_line :: "host \<Rightarrow> json list \<Rightarrow> nat \<times> nat \<Rightarrow> string" where
  "history_line H recs = (\<lambda>(i, t). dumps spaced (stamped (at_time H t) (recs ! i)) @ [NL])"

text \<open>
  The history as a list of pieces with the thread each is from.  The pieces of a thread make, in their
  order, a beginning of its line, whose time is that of the first turn of the thread, and the whole line
  once the thread is past its append; a line that fits the buffer is one piece.
\<close>

definition pieces :: "nat \<Rightarrow> (nat \<times> string) list \<Rightarrow> string list" where
  "pieces i ps = map snd (filter (\<lambda>(j, _). j = i) ps)"

fun past_append :: "phase \<Rightarrow> bool" where
  "past_append (Entered _) = False"
| "past_append (Appending _ _) = False"
| "past_append _ = True"

definition appends_line :: "nat \<Rightarrow> string \<Rightarrow> phase \<Rightarrow> string list \<Rightarrow> bool" where
  "appends_line K line p cs \<longleftrightarrow> prefix (concat cs) line \<and> (past_append p \<longrightarrow> concat cs = line)
     \<and> (length line \<le> K \<longrightarrow> cs \<in> {[], [line]})"

definition thread_kept :: "nat \<Rightarrow> host \<Rightarrow> json list \<Rightarrow> nat \<Rightarrow> (nat \<times> nat) option \<Rightarrow> phase \<Rightarrow> string list \<Rightarrow> bool" where
  "thread_kept K H recs i first p cs \<longleftrightarrow> (case first of
     None \<Rightarrow> p = Entered (recs ! i) \<and> cs = []
   | Some (t, _) \<Rightarrow> (\<forall>r. p \<noteq> Entered r) \<and> (if reports (recs ! i)
       then appends_line K (history_line H recs (i, t)) p cs
         \<and> (\<forall>r rest. p = Appending r rest \<longrightarrow> rest \<noteq> [] \<and> concat cs @ rest = history_line H recs (i, t))
       else cs = [] \<and> past_append p))"

definition history_kept :: "nat \<Rightarrow> host \<Rightarrow> json list \<Rightarrow> ops \<Rightarrow> turn list \<Rightarrow> server_threads \<Rightarrow> bool" where
  "history_kept K H recs s us w \<longleftrightarrow> length (threads w) = length recs
     \<and> (\<exists>ps. results (result_files w) = results s @ concat (map snd ps) \<and> (\<forall>(i, _) \<in> set ps. i < length recs)
          \<and> (\<forall>i < length recs. thread_kept K H recs i (map_of us i) (threads w ! i) (pieces i ps)))"

lemma history_line_nonempty [simp]: "history_line H recs it \<noteq> []"
  by (simp add: history_line_def split: prod.splits)

text \<open>What one step appends, and that it keeps the claim about its thread.\<close>

definition appends :: "nat \<Rightarrow> nat \<Rightarrow> phase \<Rightarrow> string list" where
  "appends K n p = (case p of Appending _ rest \<Rightarrow> [take (if length rest \<le> K then length rest else Suc n) rest] | _ \<Rightarrow> [])"

lemma step_appends: "record_step K H t n p s = (p', s') \<Longrightarrow> results s' = results s @ concat (appends K n p)"
  by (cases p) (auto simp: appends_def Let_def split: sum.splits if_splits)

lemma step_past: "past_append p \<Longrightarrow> record_step K H t n p s = (p', s') \<Longrightarrow> past_append p' \<and> appends K n p = []"
  by (cases p) (auto simp: appends_def split: sum.splits if_splits)

lemma thread_kept_entered:
  assumes "record_step K H t n (Entered (recs ! i)) s = (p', s')"
  shows "thread_kept K H recs i (Some (t, n)) p' []"
  using assms by (auto simp: thread_kept_def appends_line_def reports_def history_line_def split: sum.splits if_splits)

lemma thread_kept_appending:
  assumes "thread_kept K H recs i (Some (t0, n0)) (Appending r rest) cs" "record_step K H t n (Appending r rest) s = (p', s')"
  shows "thread_kept K H recs i (Some (t0, n0)) p' (cs @ appends K n (Appending r rest))"
proof -
  let ?line = "history_line H recs (i, t0)" and ?k = "if length rest \<le> K then length rest else Suc n"
  have k: "reports (recs ! i)" "rest \<noteq> []" "concat cs @ rest = ?line" "length ?line \<le> K \<Longrightarrow> cs \<in> {[], [?line]}"
    using assms(1) by (auto simp: thread_kept_def appends_line_def split: if_splits)
  have new: "concat (cs @ appends K n (Appending r rest)) @ drop ?k rest = ?line" using k(3) by (simp add: appends_def)
  have whole: "cs @ appends K n (Appending r rest) = [?line]" if "length ?line \<le> K"
  proof -
    have "length rest \<le> K" using that k(3) [THEN arg_cong, of length] by simp
    moreover have "cs = []" using k(2,3) k(4) [OF that] by auto
    ultimately show ?thesis using k(3) by (simp add: appends_def)
  qed
  have p': "p' = (if drop ?k rest = [] then Appended r else Appending r (drop ?k rest))" using assms(2) by (auto simp: Let_def)
  have pre: "prefix (concat (cs @ appends K n (Appending r rest))) ?line" using new by (metis prefixI)
  have done': "concat (cs @ appends K n (Appending r rest)) = ?line" if "drop ?k rest = []" using new that by (metis append_Nil2)
  show ?thesis
  proof (cases "drop ?k rest = []")
    case True
    then show ?thesis using k(1) whole pre done' [OF True] p' unfolding thread_kept_def appends_line_def by simp
  next
    case False
    then show ?thesis using k(1) whole pre new p' unfolding thread_kept_def appends_line_def by auto
  qed
qed

lemma thread_kept_step:
  assumes "thread_kept K H recs i first p cs" "record_step K H t n p s = (p', s')"
  shows "thread_kept K H recs i (case first of None \<Rightarrow> Some (t, n) | Some f \<Rightarrow> Some f) p' (cs @ appends K n p)"
proof (cases first)
  case None
  then have "p = Entered (recs ! i)" "cs = []" using assms(1) by (simp_all add: thread_kept_def)
  then show ?thesis using assms(2) thread_kept_entered None by (auto simp: appends_def simp del: record_step.simps)
next
  case (Some f)
  obtain t0 n0 where f: "f = (t0, n0)" by fastforce
  show ?thesis
  proof (cases "\<exists>r rest. p = Appending r rest")
    case True
    then show ?thesis using assms thread_kept_appending by (auto simp: Some f)
  next
    case False
    then have "past_append p" using assms(1) by (cases p) (auto simp: thread_kept_def Some f)
    moreover have "past_append p'" "appends K n p = []" using step_past [OF _ assms(2)] \<open>past_append p\<close> by auto
    moreover have "p' \<noteq> Entered r" "p' \<noteq> Appending r rest" for r rest using \<open>past_append p'\<close> by auto
    ultimately show ?thesis using assms(1) by (auto simp: thread_kept_def appends_line_def Some f)
  qed
qed

lemma history_kept_turn:
  assumes "history_kept K H recs s us w"
  shows "history_kept K H recs s (us @ [(i, t, n)]) (take_turn K H (i, t, n) w)"
proof (cases "i < length (threads w)")
  case True
  obtain p' s' where st: "record_step K H t n (threads w ! i) (result_files w) = (p', s')" by fastforce
  obtain ps where len: "length (threads w) = length recs"
      and ps: "results (result_files w) = results s @ concat (map snd ps)" "\<forall>(i, _) \<in> set ps. i < length recs"
        "\<forall>i < length recs. thread_kept K H recs i (map_of us i) (threads w ! i) (pieces i ps)"
    using assms by (auto simp: history_kept_def)
  let ?ps = "ps @ map (Pair i) (appends K n (threads w ! i))"
  have own: "pieces j ?ps = pieces j ps @ (if j = i then appends K n (threads w ! i) else [])" for j
    by (simp add: pieces_def filter_map comp_def)
  have "results s' = results s @ concat (map snd ?ps)" using step_appends [OF st] ps(1) by (simp add: comp_def)
  moreover have "\<forall>(i, _) \<in> set ?ps. i < length recs" using ps(2) True len by auto
  moreover have "thread_kept K H recs j (map_of (us @ [(i, t, n)]) j) ((threads w)[i := p'] ! j) (pieces j ?ps)"
    if "j < length recs" for j
  proof (cases "j = i")
    case True
    then show ?thesis using thread_kept_step [OF _ st, of recs i "map_of us i"] ps(3) that len own [of i]
      by (auto simp: map_add_def split: option.splits)
  next
    case False
    then have "map_of (us @ [(i, t, n)]) j = map_of us j" by (auto simp: map_add_def split: option.splits)
    then show ?thesis using ps(3) that False own [of j] by simp
  qed
  ultimately have "\<exists>ps. results s' = results s @ concat (map snd ps) \<and> (\<forall>(i, _) \<in> set ps. i < length recs)
      \<and> (\<forall>j < length recs. thread_kept K H recs j (map_of (us @ [(i, t, n)]) j) ((threads w)[i := p'] ! j) (pieces j ps))"
    by blast
  then show ?thesis using True st len unfolding history_kept_def by simp
next
  case False
  then have "map_of (us @ [(i, t, n)]) j = map_of us j" if "j < length recs" for j
    using that assms by (auto simp: history_kept_def map_add_def split: option.splits)
  then show ?thesis using False assms by (auto simp: history_kept_def)
qed

lemma history_kept_start: "history_kept K H recs s [] (all_entered recs s)"
  by (auto simp: history_kept_def all_entered_def thread_kept_def pieces_def intro!: exI [of _ "[]"])

interpretation recording: kept_by_turns "take_turn K H" "history_kept K H recs s" for K H recs s
proof
  show "history_kept K H recs s (us @ [u]) (take_turn K H u w)" if "history_kept K H recs s us w" for us w u
    using that history_kept_turn by (cases u) auto
qed

lemmas history_kept_schedule = recording.kept_schedule [OF history_kept_start]


section \<open>A call that nothing interrupts\<close>

text \<open>What the files hold when only one call runs, in each phase of it.\<close>

definition update_of :: "json \<Rightarrow> ops \<Rightarrow> json res" where
  "update_of rec s = rbind (py_index rec ''suite'') (\<lambda>suite. py_put (read_latest (latest s)) suite rec)"

definition with_line :: "json \<Rightarrow> ops \<Rightarrow> ops" where
  "with_line rec s = s\<lparr>results := results s @ dumps spaced rec @ [NL]\<rparr>"

lemma with_line_sel [simp]: "latest (with_line r s) = latest s" "results (with_line r s) = results s @ dumps spaced r @ [NL]"
  by (simp_all add: with_line_def)

text \<open>The turns of one thread.\<close>

fun run_alone :: "nat \<Rightarrow> host \<Rightarrow> (nat \<times> nat) list \<Rightarrow> phase \<times> ops \<Rightarrow> phase \<times> ops" where
  "run_alone K H [] ps = ps"
| "run_alone K H ((t, n) # us) (p, s) = run_alone K H us (record_step K H t n p s)"

lemma write_at_end: "write_at (length f) c f = f @ c"
  by (simp add: write_at_def)

lemma returned_stays: "run_alone K H us (Returned, s) = (Returned, s)"
  by (induction us) auto

text \<open>However the line is cut, it is appended whole, and at most one turn for each character is needed.\<close>

lemma appending_alone:
  assumes "rest \<noteq> []" "length rest \<le> length us"
  shows "\<exists>vs. length us \<le> length rest + length vs
    \<and> run_alone K H us (Appending rec rest, s) = run_alone K H vs (Appended rec, s\<lparr>results := results s @ rest\<rparr>)"
  using assms
proof (induction us arbitrary: rest s)
  case (Cons u us)
  obtain t n where u: "u = (t, n)" by fastforce
  let ?k = "if length rest \<le> K then length rest else Suc n"
  have one: "1 \<le> length (take ?k rest)" using Cons.prems(1) by (cases rest) auto
  show ?case
  proof (cases "drop ?k rest = []")
    case True
    then have "take ?k rest = rest" by simp
    then have "run_alone K H (u # us) (Appending rec rest, s) = run_alone K H us (Appended rec, s\<lparr>results := results s @ rest\<rparr>)"
      using True by (simp add: u Let_def)
    then show ?thesis using one True by (intro exI [of _ us]) (use Cons.prems in auto)
  next
    case False
    let ?s = "s\<lparr>results := results s @ take ?k rest\<rparr>"
    have len: "length (take ?k rest) + length (drop ?k rest) = length rest" by (metis append_take_drop_id length_append)
    then have "length (drop ?k rest) \<le> length us" using Cons.prems(2) one unfolding length_Cons by linarith
    then obtain vs where vs: "length us \<le> length (drop ?k rest) + length vs"
        "run_alone K H us (Appending rec (drop ?k rest), ?s) = run_alone K H vs (Appended rec, ?s\<lparr>results := results ?s @ drop ?k rest\<rparr>)"
      using Cons.IH [OF False] by blast
    have "run_alone K H (u # us) (Appending rec rest, s) = run_alone K H us (Appending rec (drop ?k rest), ?s)"
      using False by (simp add: u Let_def)
    moreover have "?s\<lparr>results := results ?s @ drop ?k rest\<rparr> = s\<lparr>results := results s @ rest\<rparr>" by simp
    ultimately show ?thesis using vs len one by (intro exI [of _ vs]) auto
  qed
qed simp

text \<open>However the text is cut, the file of the latest results holds it whole in the end.\<close>

lemma writing_alone:
  assumes "length rest < length us" "latest s = Some pre"
  shows "run_alone K H us (Writing pre rest, s) = (Returned, s\<lparr>latest := Some (pre @ rest)\<rparr>)"
  using assms
proof (induction us arbitrary: pre rest s)
  case (Cons u us)
  obtain t n where u: "u = (t, n)" by fastforce
  show ?case
  proof (cases "rest = []")
    case True
    have "s\<lparr>latest := Some pre\<rparr> = s" using Cons.prems(2) by (simp flip: Cons.prems(2))
    then show ?thesis using True by (simp add: u returned_stays)
  next
    case False
    let ?s = "s\<lparr>latest := Some (pre @ take (Suc n) rest)\<rparr>"
    have "length (drop (Suc n) rest) < length us" using Cons.prems False by (cases rest) auto
    then have "run_alone K H us (Writing (pre @ take (Suc n) rest) (drop (Suc n) rest), ?s)
        = (Returned, ?s\<lparr>latest := Some ((pre @ take (Suc n) rest) @ drop (Suc n) rest)\<rparr>)"
      by (rule Cons.IH) simp
    then show ?thesis using False Cons.prems(2) by (simp add: u write_at_end)
  qed
qed simp

lemma record_alone:
  assumes "reports rec" "update_of (stamped (at_time H t) rec) s = Inr v"
    "length (dumps spaced (stamped (at_time H t) rec)) + length (dumps (indented 2) v) + 4 \<le> length us"
  shows "run_alone K H ((t, n) # us) (Entered rec, s)
    = (Returned, (with_line (stamped (at_time H t) rec) s)\<lparr>latest := Some (dumps (indented 2) v)\<rparr>)"
proof -
  let ?r = "stamped (at_time H t) rec"
  let ?line = "dumps spaced ?r @ [NL]" and ?out = "dumps (indented 2) v" and ?s = "with_line ?r s"
  have "record_step K H t n (Entered rec) s = (Appending ?r ?line, s)"
    using assms(1) by (auto simp: reports_def split: sum.splits)
  moreover obtain vs where vs: "length us \<le> length ?line + length vs"
      "run_alone K H us (Appending ?r ?line, s) = run_alone K H vs (Appended ?r, ?s)"
    using appending_alone [of ?line us K H ?r s] assms(3) by (auto simp: with_line_def)
  moreover obtain v1 v2 vs' where v: "vs = v1 # v2 # vs'" "length ?out < length vs'"
    using vs(1) assms(3) by (cases vs; cases "tl vs") auto
  moreover obtain t1 n1 t2 n2 where "v1 = (t1, n1)" "v2 = (t2, n2)" by fastforce
  moreover have "record_step K H t1 n1 (Appended ?r) ?s = (Loaded ?out, ?s)"
    using assms(2) by (simp add: update_of_def)
  moreover have "run_alone K H vs' (Writing [] ?out, ?s\<lparr>latest := Some []\<rparr>) = (Returned, ?s\<lparr>latest := Some ?out\<rparr>)"
    using writing_alone [OF v(2), of "?s\<lparr>latest := Some []\<rparr>" "[]"] by simp
  ultimately show ?thesis by simp
qed

text \<open>What is stored can be read back, whatever characters the record has.\<close>

lemma set_fput: "set (fput k v fs) \<subseteq> insert (k, v) (set fs)"
  by (induction k v fs rule: fput.induct) auto

lemma fput_ok:
  "wf_json (JObj fs) \<Longrightarrow> wf_json v \<Longrightarrow> wf_json (JObj (fput k v fs))"
  "utf8_json (JObj fs) \<Longrightarrow> utf8_ok k \<Longrightarrow> utf8_json v \<Longrightarrow> utf8_json (JObj (fput k v fs))"
  using set_fput [of k v fs] by (auto simp: wf_fields_iff utf8_fields_iff fput_distinct)

lemma stamped_ok:
  "wf_json rec \<Longrightarrow> wf_json (stamped H rec)" "utf8_json rec \<Longrightarrow> utf8_json (stamped H rec)"
  "py_index (stamped H rec) ''suite'' = py_index rec ''suite''"
proof -
  have "utf8_ok ''type''" "utf8_ok ''ts_ms''" "utf8_ok ''test_suite''" by (simp_all add: utf8_ok_def)
  then show "wf_json rec \<Longrightarrow> wf_json (stamped H rec)" "utf8_json rec \<Longrightarrow> utf8_json (stamped H rec)"
    using fput_ok by (cases rec; fastforce simp: stamped_def)+
  show "py_index (stamped H rec) ''suite'' = py_index rec ''suite''"
    by (cases rec) (simp_all add: stamped_def map_of_fput)
qed

lemma dumps_spaced_no_newline: "NL \<notin> set (dumps spaced v)"
  unfolding dumps_def by (intro ascii_text_no_newline enc_no_newline) (simp_all add: spaced_def)

lemma record_stored:
  assumes "wf_json rec" "utf8_json rec" "py_index rec ''suite'' = Inr (JStr suite)"
    "read_latest (latest s) = JObj fs" "wf_json (JObj fs)" "utf8_json (JObj fs)"
    and r_def: "r = stamped (at_time H t) rec"
  shows "update_of r s = Inr (JObj (fput suite r fs))" "loads (dumps spaced r) = Inr r"
    "read_latest (Some (dumps (indented 2) (JObj (fput suite r fs)))) = JObj (fput suite r fs)"
proof -
  have r: "wf_json r" "utf8_json r" "py_index r ''suite'' = Inr (JStr suite)"
    using stamped_ok assms(1-3) by (simp_all add: r_def)
  have "utf8_ok suite"
  proof (cases rec)
    case (JObj gs)
    then have "(''suite'', JStr suite) \<in> set gs" using assms(3) by (auto split: option.splits dest: map_of_SomeD)
    then show ?thesis using assms(2) JObj by (auto simp: utf8_fields_iff)
  qed (use assms(3) in simp_all)
  then have "wf_json (JObj (fput suite r fs))" "utf8_json (JObj (fput suite r fs))" using fput_ok r(1,2) assms(5,6) by blast+
  then have "loads (dumps (indented 2) (JObj (fput suite r fs))) = Inr (JObj (fput suite r fs))"
    by (rule loads_dumps_utf8 [OF layouts_ok(3)])
  then show "read_latest (Some (dumps (indented 2) (JObj (fput suite r fs)))) = JObj (fput suite r fs)"
    by (simp add: read_latest_def)
  show "loads (dumps spaced r) = Inr r" by (rule loads_dumps_utf8 [OF layouts_ok(2) r(1,2)])
  show "update_of r s = Inr (JObj (fput suite r fs))" using r(3) assms(4) by (simp add: update_of_def py_put_def)
qed


section \<open>Two calls at the same time\<close>

text \<open>Both read the old file before either writes; \<open>m\<close> is enough for a text in one piece.\<close>

definition read_both :: "nat \<Rightarrow> turn list" where
  "read_both m = [(0, 1, m), (1, 2, m), (0, 3, m), (1, 4, m), (0, 5, m), (1, 6, m), (0, 7, m), (0, 8, m), (0, 9, m),
     (1, 10, m), (1, 11, m), (1, 12, m)]"

text \<open>Both open the file before either writes.\<close>

definition open_both :: "nat \<Rightarrow> turn list" where
  "open_both m = [(0, 1, m), (1, 2, m), (0, 3, m), (1, 4, m), (0, 5, m), (1, 6, m), (0, 7, m), (1, 8, m), (0, 9, m),
     (1, 10, m), (0, 11, m), (1, 12, m)]"

text \<open>The text a call writes when it has read the file of the state \<open>s\<close>.\<close>

definition text_of :: "host \<Rightarrow> nat \<Rightarrow> json \<Rightarrow> ops \<Rightarrow> string" where
  "text_of H t rec s = (case update_of (stamped (at_time H t) rec) s of Inr v \<Rightarrow> dumps (indented 2) v | Inl _ \<Rightarrow> [])"

definition records_into :: "host \<Rightarrow> nat \<Rightarrow> json \<Rightarrow> ops \<Rightarrow> bool" where
  "records_into H t rec s \<longleftrightarrow> reports rec \<and> (\<exists>v. update_of (stamped (at_time H t) rec) s = Inr v)"

lemma entered_step:
  "records_into H t rec s \<Longrightarrow> record_step K H t n (Entered rec) s'
    = (Appending (stamped (at_time H t) rec) (dumps spaced (stamped (at_time H t) rec) @ [NL]), s')"
  by (auto simp: records_into_def reports_def split: sum.splits)

lemma appending_step:
  "length (dumps spaced rec) \<le> n \<Longrightarrow> record_step K H t n (Appending rec (dumps spaced rec @ [NL])) s = (Appended rec, with_line rec s)"
  by (simp add: with_line_def Let_def) arith

lemma appended_step:
  "records_into H t rec s \<Longrightarrow> latest s' = latest s \<Longrightarrow>
    record_step K H t' n (Appended (stamped (at_time H t) rec)) s' = (Loaded (text_of H t rec s), s')"
  by (auto simp: records_into_def text_of_def update_of_def)

lemma writing_step:
  "length r \<le> n \<Longrightarrow> r \<noteq> [] \<Longrightarrow> record_step K H t n (Writing [] r) s
    = (Writing r [], s\<lparr>latest := Some (write_at 0 r (case latest s of None \<Rightarrow> [] | Some f \<Rightarrow> f))\<rparr>)"
  "record_step K H t n (Writing r []) s = (Returned, s)"
  by simp_all

lemma turn_of_two:
  "take_turn K H (0, t, n) \<lparr>threads = [p, q], result_files = s\<rparr> = (case record_step K H t n p s of (p', s') \<Rightarrow> \<lparr>threads = [p', q], result_files = s'\<rparr>)"
  "take_turn K H (1, t, n) \<lparr>threads = [p, q], result_files = s\<rparr> = (case record_step K H t n q s of (q', s') \<Rightarrow> \<lparr>threads = [p, q'], result_files = s'\<rparr>)"
  by (simp_all split: prod.splits)

lemma ascii_text_nonempty: "s \<noteq> [] \<Longrightarrow> ascii_text s \<noteq> []"
  by (cases s) (auto simp: hex_u_def code_escape_def Let_def split: option.splits)

lemma text_of_nonempty: "records_into H t rec s \<Longrightarrow> text_of H t rec s \<noteq> []"
  by (auto simp: records_into_def text_of_def dumps_def ascii_text_nonempty)

lemma two_calls:
  assumes "records_into H 1 a s" "records_into H 2 b s" "length (text_of H 1 a s) \<le> m" "length (text_of H 2 b s) \<le> m"
    "length (dumps spaced (stamped (at_time H 1) a)) \<le> m" "length (dumps spaced (stamped (at_time H 2) b)) \<le> m"
  defines "s' \<equiv> with_line (stamped (at_time H 2) b) (with_line (stamped (at_time H 1) a) s)"
  shows "fold (take_turn K H) (read_both m) (all_entered [a, b] s)
      = \<lparr>threads = [Returned, Returned], result_files = s'\<lparr>latest := Some (text_of H 2 b s)\<rparr>\<rparr>"
    "fold (take_turn K H) (open_both m) (all_entered [a, b] s) = \<lparr>threads = [Returned, Returned],
      result_files = s'\<lparr>latest := Some (text_of H 2 b s @ drop (length (text_of H 2 b s)) (text_of H 1 a s))\<rparr>\<rparr>"
proof -
  note steps = turn_of_two entered_step [OF assms(1)] entered_step [OF assms(2)] appended_step [OF assms(1)]
    appended_step [OF assms(2)] appending_step writing_step assms(3-6)
    text_of_nonempty [OF assms(1)] text_of_nonempty [OF assms(2)]
  show "fold (take_turn K H) (read_both m) (all_entered [a, b] s)
      = \<lparr>threads = [Returned, Returned], result_files = s'\<lparr>latest := Some (text_of H 2 b s)\<rparr>\<rparr>"
    by (simp add: read_both_def all_entered_def steps write_at_def s'_def del: record_step.simps(1,2,3,5) take_turn.simps One_nat_def)
  show "fold (take_turn K H) (open_both m) (all_entered [a, b] s) = \<lparr>threads = [Returned, Returned],
      result_files = s'\<lparr>latest := Some (text_of H 2 b s @ drop (length (text_of H 2 b s)) (text_of H 1 a s))\<rparr>\<rparr>"
    by (simp add: open_both_def all_entered_def steps write_at_def s'_def del: record_step.simps(1,2,3,5) take_turn.simps One_nat_def)
qed


section \<open>The price refresher\<close>

text \<open>
  \<^verbatim>\<open>shadow_data\<close> starts the refresher when the module does not say it was started, and says so afterwards.
\<close>

record refresher =
  refresher_started :: bool
  refreshers :: nat

datatype visit = Asking | Starting | Marking | Building

fun visit_step :: "bool \<Rightarrow> visit \<Rightarrow> refresher \<Rightarrow> visit \<times> refresher" where
  "visit_step net Asking m = (if net \<and> \<not> refresher_started m then (Starting, m) else (Building, m))"
| "visit_step net Starting m = (Marking, m\<lparr>refreshers := Suc (refreshers m)\<rparr>)"
| "visit_step net Marking m = (Building, m\<lparr>refresher_started := True\<rparr>)"
| "visit_step net Building m = (Building, m)"

fun visit_turn :: "bool \<Rightarrow> nat \<Rightarrow> visit list \<times> refresher \<Rightarrow> visit list \<times> refresher" where
  "visit_turn net i (vs, m) = (if i < length vs
     then (let (v, m') = visit_step net (vs ! i) m in (vs[i := v], m')) else (vs, m))"

definition no_refresher :: refresher where
  "no_refresher = \<lparr>refresher_started = False, refreshers = 0\<rparr>"

text \<open>Visits one after the other.\<close>

definition whole_visit :: "bool \<Rightarrow> refresher \<Rightarrow> refresher" where
  "whole_visit net m =
     snd ((\<lambda>(v, m). visit_step net v m) ((\<lambda>(v, m). visit_step net v m) (visit_step net Asking m)))"

lemma whole_visits: "refreshers ((whole_visit net ^^ Suc k) no_refresher) = (if net then 1 else 0)
    \<and> refresher_started ((whole_visit net ^^ Suc k) no_refresher) = net"
  by (induction k) (auto simp: whole_visit_def no_refresher_def)

text \<open>In any order of their turns: none without the network, and never more than there are visits.\<close>

definition visits_inv :: "bool \<Rightarrow> visit list \<times> refresher \<Rightarrow> bool" where
  "visits_inv net = (\<lambda>(vs, m).
     refreshers m + length (filter (\<lambda>v. v \<in> {Asking, Starting}) vs) \<le> length vs
     \<and> (\<not> net \<longrightarrow> refreshers m = 0 \<and> set vs \<subseteq> {Asking, Building})
     \<and> (net \<and> Building \<in> set vs \<longrightarrow> refresher_started m)
     \<and> (refresher_started m \<or> Marking \<in> set vs \<longrightarrow> 0 < refreshers m))"

lemma filter_update:
  "i < length vs \<Longrightarrow> length (filter P (vs[i := v])) + (if P (vs ! i) then 1 else 0) = length (filter P vs) + (if P v then 1 else 0)"
proof (induction vs arbitrary: i)
  case (Cons w vs)
  then show ?case by (cases i) auto
qed simp

lemma visits_inv_turn: "visits_inv net vm \<Longrightarrow> visits_inv net (visit_turn net i vm)"
proof (cases vm)
  case (Pair vs m)
  assume inv: "visits_inv net vm"
  show ?thesis
  proof (cases "i < length vs")
    case True
    have up: "set (vs[i := v]) \<subseteq> insert v (set vs)" for v by (rule set_update_subset_insert)
    have at: "vs ! i \<in> set vs" using True by simp
    note f = filter_update [OF True, of "\<lambda>v. v = Asking \<or> v = Starting"]
    show ?thesis
    proof (cases "vs ! i")
      case Asking
      then show ?thesis using inv True up [of Starting] up [of Building] f [of Starting] f [of Building]
        by (auto simp: Pair visits_inv_def)
    next
      case Starting
      then show ?thesis using inv True up [of Marking] f [of Marking] at by (auto simp: Pair visits_inv_def)
    next
      case Marking
      then show ?thesis using inv True up [of Building] f [of Building] at by (auto simp: Pair visits_inv_def)
    next
      case Building
      then show ?thesis using inv True list_update_id [of vs i] by (simp add: Pair)
    qed
  qed (use inv Pair in simp)
qed

interpretation visiting: kept_by_turns "visit_turn net" "\<lambda>us. visits_inv net" for net
  by unfold_locales (rule visits_inv_turn)

lemma visits_reached: "visits_inv net (fold (visit_turn net) us (replicate n Asking, no_refresher))"
  by (rule visiting.kept_schedule) (auto simp: visits_inv_def no_refresher_def)

lemma two_refreshers: "fold (visit_turn True) [0, 1, 0, 1, 0, 1] ([Asking, Asking], no_refresher)
    = ([Building, Building], \<lparr>refresher_started = True, refreshers = 2\<rparr>)"
  by (simp add: no_refresher_def)

end
