(* ===== verification/SamplePage.thy ===== *)
theory SamplePage
  imports PageTabs ServerThreads SampleConsole
begin

text \<open>A concrete browser with a few events, and two results to record, for the witnesses.\<close>

definition sample_browser :: browser where
  "sample_browser = \<lparr>date_now = 5, time_text = (\<lambda>_. ''t''), locale_compare = (\<lambda>x y. if x = y then 0 else if x < y then -1 else 1),
     native_text = (\<lambda>_. ''f''), log_filter = [], log_find = [], log_pause = False\<rparr>"

definition sample_order :: json where
  "sample_order = JObj [(''type'', JStr ''order''), (''status'', JStr ''sent'')]"

definition sample_bad_order :: json where
  "sample_bad_order = JObj [(''type'', JStr ''order''), (''status'', JInt 1)]"

definition sample_reject :: json where
  "sample_reject = JObj [(''type'', JStr ''risk''), (''reason'', JStr ''dup'')]"

definition sample_kill :: json where
  "sample_kill = JObj [(''type'', JStr ''risk''), (''decision'', JStr ''reject''), (''reason'', JStr ''halt''), (''kill_switch'', JBool True)]"

definition sample_first :: json where
  "sample_first = JObj [(''suite'', JStr ''a''), (''status'', JStr ''pass''), (''note'', JStr ''long'')]"

definition sample_second :: json where
  "sample_second = JObj [(''suite'', JStr ''b''), (''status'', JStr ''pass'')]"

lemma sample_tidy: "tidy_browser sample_browser"
  by (simp add: tidy_browser_def sample_browser_def)

lemma sample_events_ok:
  "accepted sample_browser sample_order" "accepted sample_browser sample_bad_order" "accepted sample_browser sample_kill"
  "accepted sample_browser sample_reject" "expected sample_order" "bad_status sample_bad_order"
  by (auto simp: accepted_def event_ts_def js_or_def js_true_def sample_order_def sample_bad_order_def sample_kill_def
      sample_reject_def sample_browser_def expected_def absent_or_def bad_status_def)

lemma sample_records: "records_into sample_host 1 sample_first sample_ops" "records_into sample_host 2 sample_second sample_ops"
  by (simp_all add: records_into_def reports_def update_of_def sample_first_def sample_second_def stamped_def at_time_def
      sample_ops_def read_latest_def sample_host_def py_put_def)

text \<open>What two lines and one line of a file give.\<close>

lemma sample_lines: "parsed [enc compact 0 sample_order, enc compact 0 sample_reject] = [sample_order, sample_reject]"
  "parsed [enc compact 0 sample_reject] = [sample_reject]"
  by code_simp+

lemma sample_parsed:
  "last_n MAX_LOG (filter acceptable (parsed ([enc compact 0 sample_order] @ map (filter (\<lambda>c. c \<noteq> CR)) [enc compact 0 sample_reject])))
    = [sample_order, sample_reject]"
proof -
  have "filter (\<lambda>c. c \<noteq> CR) (enc compact 0 sample_reject) = enc compact 0 sample_reject" by code_simp
  moreover have "acceptable sample_order" "acceptable sample_reject" using sample_events_ok(1,4) by (simp_all only: accepted_iff)
  ultimately show ?thesis by (simp add: sample_lines last_n_def MAX_LOG_def)
qed

lemma sample_counted:
  "length (filter (\<lambda>ev. counted_as ''duplicate'' (sample_browser, ev))
     (parsed (map decode_replace (lines_of (enc compact 0 sample_reject @ [NL]))))) = 1"
proof -
  have "map decode_replace (lines_of (enc compact 0 sample_reject @ [NL])) = [enc compact 0 sample_reject]" by code_simp
  moreover have "reject_key sample_browser (field sample_reject ''reason'') = Inr ''duplicate''" by code_simp
  moreover have "is_reject sample_reject" "has_type sample_reject ''risk''" by code_simp+
  ultimately show ?thesis using sample_events_ok(4) by (simp add: sample_lines counted_as_def)
qed

end
