(* ===== verification/Spec2Isabelle.thy ===== *)
theory Spec2Isabelle
  imports ReportFigures RegistryMain ValidatedCards SamplePage
begin

text \<open>
  A verification of the Python control plane of the repository: the experiment registry
  (\<^verbatim>\<open>tools/experiment_registry.py\<close>, \<^verbatim>\<open>tools/experiment_registry_seeds.py\<close>), the report made of it
  (\<^verbatim>\<open>tools/render_experiment_registry_pdf.py\<close>) and the operations console (\<^verbatim>\<open>dashboard_server.py\<close>, \<^verbatim>\<open>tools/run_tests.py\<close>, \<^verbatim>\<open>tools/check_registry.py\<close>,
  \<^verbatim>\<open>tools/latency_probe_auth.py\<close>).

  \<^bold>\<open>The program.\<close>  The registry turns 106 research ideas into cards.  The seed module registers one
  seed per idea, in a dictionary, and validates the dictionary when it is imported.  The generator
  looks up the profiles a seed names (action, venue, baseline, PnL, costs, data, external data),
  derives what blocks the card, classifies it, and writes all cards with digests over their canonical
  JSON text into one artifact.  The validator reads an artifact back, which it does not trust, and
  reports every difference from what the generator would build; the command line writes or checks the
  artifact.  The point of all of it is to fail closed: no card may become a strategy by accident.

  The renderer reads the artifact and draws a document with reportlab: fifteen summary pages and then the
  detail pages of every card, whose text is broken into lines and flows through four columns.  It stops
  with an assertion if a column overflows or the pages do not add up.

  The console is a web server beside the trading process.  It follows the metrics file that process
  appends to, sends its lines to browsers as server-sent events, lists the tools registered in
  \<^verbatim>\<open>tools.json\<close> and runs the ones the safety policy permits, with the mock servers they need, recording
  the results.  The page it serves (the script in \<^verbatim>\<open>INDEX_HTML\<close>) keeps a bounded state of the events it
  receives, draws it on timers, and asks the server for its tools and results.  Requests are handled in
  threads of their own, which share the two result files.  \<^verbatim>\<open>check_registry.py\<close> checks \<^verbatim>\<open>tools.json\<close> against the Makefile; the latency probe is one
  of the registered tools, a loop of signed GET requests.

  \<^bold>\<open>The theories.\<close>
  \<^item> \<open>Prelude\<close>: exceptions as values, Python strings, sorting, numerals.
  \<^item> \<open>PyJson\<close>: JSON values and Python's operations on them (equality, truth, \<^verbatim>\<open>get\<close>, subscripts, \<^verbatim>\<open>in\<close>,
    iteration, hashing, \<^verbatim>\<open>repr\<close>).  The locale \<open>item_store\<close> states what a dictionary promises; it is
    interpreted for the insertion-ordered and for the sorted representation.
  \<^item> \<open>JsonText\<close>: \<^verbatim>\<open>json.dumps\<close> and \<^verbatim>\<open>json.loads\<close>.  The locale \<open>codec\<close> states that a text can be read
    back; it is interpreted for the three layouts the code uses.
  \<^item> \<open>RegistryTables\<close>, \<open>ActionProfiles\<close>, \<open>Contracts\<close>, \<open>DataProfiles\<close>: the tables and contracts.
  \<^item> \<open>SeedModel\<close>, \<open>SeedsAB\<close>, \<open>SeedsCE\<close>, \<open>SeedsFP\<close>, \<open>CardSeeds\<close>: the seeds, the calls that register them and
    \<^verbatim>\<open>_validate_seeds\<close>.
  \<^item> \<open>Classify\<close>, \<open>CardBuilder\<close>, \<open>CardFacts\<close>: blockers, classification, \<^verbatim>\<open>_build_card\<close>, the summary and
    \<^verbatim>\<open>build_registry\<close>.
  \<^item> \<open>Validator\<close>, \<open>CardChecks\<close>, \<open>RegistryChecks\<close>: \<^verbatim>\<open>validate_registry\<close>, split at its statements.
  \<^item> \<open>ValidatorSound\<close>, \<open>ValidatorComplete\<close>, \<open>UpperText\<close>, \<open>RegistryComplete\<close>, \<open>ValidatedCards\<close>: what an
    empty list of errors means, and that the generated registry gives one.
  \<^item> \<open>SampleRepo\<close>: a concrete intact repository, for the witnesses.
  \<^item> \<open>RegistryMain\<close>: reading and writing the artifact and \<^verbatim>\<open>main\<close>.
  \<^item> \<open>PdfText\<close>, \<open>PdfCanvas\<close>: line breaking, and the helpers of the renderer as lists of calls on the canvas.
  \<^item> \<open>PdfLayout\<close>: the layout of the detail pages, a partial function that returns exactly when there is room.
  \<^item> \<open>PdfDetail\<close>, \<open>PdfPages\<close>, \<open>PdfPages2\<close>, \<open>PdfMain\<close>: the text of a card, the summary pages, the detail pages,
    \<^verbatim>\<open>build_pdf\<close> and \<^verbatim>\<open>main\<close>.
  \<^item> \<open>PdfFacts\<close>: pages and outline of a document, and which exceptions a run can raise.
  \<^item> \<open>PdfRegistry\<close>, \<open>PdfComplete\<close>: on the generated registry every lookup of the renderer succeeds.
  \<^item> \<open>ReportFigures\<close>: the constants of the report against what the generator counts.
  \<^item> \<open>PyText\<close>: the operations of Python's strings and paths the console uses (\<^verbatim>\<open>split\<close>, \<^verbatim>\<open>splitlines\<close>,
    \<^verbatim>\<open>decode\<close> with replacement, \<^verbatim>\<open>os.path.join\<close>, \<^verbatim>\<open>json.dumps\<close> with ASCII escapes).
  \<^item> \<open>LogTail\<close>: \<^verbatim>\<open>tail_lines\<close> and \<^verbatim>\<open>stream_new_lines\<close>, one turn of the generator as a function, the writer
    and the reader together as a step relation with an invariant.
  \<^item> \<open>RunTests\<close>, \<open>RunFacts\<close>: \<^verbatim>\<open>run_tests.py\<close> on an explicit state of processes and files.  The locale
    \<open>op_frame\<close> carries a relation between states through every operation; it is interpreted for what a
    run may start and for what it has to leave behind.
  \<^item> \<open>Dashboard\<close>: the request handler.  The locale \<open>guarded_server\<close> states what a server promises that acts
    only on permitted requests; it is interpreted for the tool runner and for the whole handler.
  \<^item> \<open>CheckRegistry\<close>, \<open>LatencyProbe\<close>: the two command-line tools.
  \<^item> \<open>ConsoleFacts\<close>, \<open>SampleConsole\<close>: what holds of the parts of the console together, and a concrete
    console for the witnesses.
  \<^item> \<open>ConsoleMain\<close>: the command line of the console, its paths and the requests it serves until it is interrupted.
  \<^item> \<open>JsValue\<close>: the values and operations of JavaScript the page uses.  \<open>PageState\<close>: its state and \<^verbatim>\<open>ingest\<close>; the
    locales \<open>keeps_last\<close>, \<open>holds_latest\<close> and \<open>step_counter\<close> describe a bounded list, a table of latest values and
    a counter by the steps alone, and are interpreted for the log, the orders, the feeds and the rejects, once for
    events and once for everything that happens to a page.  \<open>PageRender\<close>: the renderers and the timers.
  \<^item> \<open>PageFacts\<close>, \<open>PageBehaviour\<close>: which pages can be drawn, the page as a function of the events, and what an
    event of an unexpected type does.
  \<^item> \<open>Utf8Json\<close>: every value whose texts are UTF-8 survives \<^verbatim>\<open>json.dumps\<close> with ASCII escapes.  \<open>PageStream\<close>: the protocol of
    \<^verbatim>\<open>EventSource\<close>, the handlers of \<^verbatim>\<open>connect\<close>, a connection from its opening to its loss, and the way of a line
    from the file to the page.
  \<^item> \<open>PageTabs\<close>: the Tests and Tools tabs on top of the request handler.
  \<^item> \<open>ServerThreads\<close>: \<^verbatim>\<open>record\<close> and the start of the price refresher cut into the accesses between which another
    thread can run, both writes in pieces; the locale \<open>kept_by_turns\<close> carries an invariant through every schedule.
  \<^item> \<open>SamplePage\<close>: a concrete browser with events and results, for the witnesses.

  \<^bold>\<open>How it corresponds.\<close>  A Python dictionary with fixed keys is a record with a function that gives it
  as a dictionary, kept in the order of its keys where nothing observes the order (as in a card, which is only
  looked up, compared and written with sorted keys); one whose content is data is an ordered list of items.  An exception is the left
  value of a sum, and the code's statements are composed so that the first exception ends the call.
  An artifact is an arbitrary JSON value: nothing is assumed of its shape.  A run of the command line is
  a function from the repository to the lines printed, the status and the repository afterwards.  The
  console's operations are functions on the record \<open>ops\<close> (running processes, ports, files written)
  that return a result or an exception with the state it left, so that \<^verbatim>\<open>finally\<close> is a combinator.
  A file that changes while it is read is the size and the reads that one turn of the reader sees.
  The page's operations are functions on the record \<open>page\<close> that return an exception or nothing with the state
  they left; what an element shows is the HTML or the text assigned to it.  A parsed value is a JSON value,
  \<^verbatim>\<open>undefined\<close> is none; properties inherited from \<^verbatim>\<open>Object.prototype\<close> are modelled where a name from an event is
  looked up.  A schedule of threads is a list of turns, each with the time and the size of a write; the size
  of the buffer of an appended file is a parameter, for which the properties hold whatever it is.

  \<^bold>\<open>Parameters.\<close>  SHA-256, the file system below the root and the text of a library exception are
  fields of the record \<open>env\<close>.  No law is assumed of SHA-256; where a property needs one, that the two texts
  at hand collide is an alternative of its conclusion.  That the bound source files are present and unchanged is the
  hypothesis \<open>repository_intact\<close>, which \<open>SampleRepo\<close> shows to hold of a concrete file system.  What the
  processes the console starts answer, the free ports, the clocks and the files it reads are the
  record \<open>host\<close>; the views of the sandbox modules and the text of the page are fields of \<open>console\<close>; what the
  network and openssl answer to the probe is a list of observations.  The clock, the dates, the order of texts and
  the controls of the event log are the record \<open>browser\<close>, which can be another one at every step; that its dates
  have no markup in their text is the hypothesis \<open>tidy_browser\<close>.

  The sizes of the pages, the widths of texts and whether the font files exist are the record \<open>pdf\<close>; that a
  column has room for a heading and one line is the hypothesis \<open>roomy\<close>, which the sizes A4 and A3 satisfy.

  \<^bold>\<open>Bounds.\<close>  The JSON parser takes fuel; \<^verbatim>\<open>loads\<close> gives it twice the length of the text plus two, and
  the round trip shows that this is enough for every printed value.  The block loop of the tail reader
  and the decoder have their termination proved; the inner loop of the page layout is a partial function, whose result is
  none when it does not return; everything else is structural.

  \<^bold>\<open>Not modelled.\<close>  Parsing of the command line (argparse), symbolic links, directories as such, the
  rounding and the special values of floats (a JSON number is exact), lone surrogates, Python's
  recursion limit, upper-casing of letters the registry's text does not contain, and memory or time
  limits.  Of the console: HTTP
  headers and the socket, what the price refresher does, waiting (a pause is an emission without effect),
  failing writes, directories that are made, and how a mock ends (that it is asked to, waited for and killed is
  one step); whether the key of the mock server exists is fixed during a run.  The probe's list of requests has those
  too whose connection was refused.  Two handler threads share only the result files and the flag of the refresher here: ports and
  processes of concurrent runs are those of the sequential model.  Of the page: its markup and style, the research tabs
  (\<^verbatim>\<open>refreshShadow\<close>, \<^verbatim>\<open>refreshOps\<close>, \<^verbatim>\<open>refreshFollow\<close>, templates over views of modules outside the repository), case
  mapping of letters outside ASCII, infinite numbers, and which comparisons a sort makes.  Of the renderer: coordinates are
  exact rationals instead of floats, registering the fonts and writing the file are left to reportlab,
  an exception leaves no document behind whichever page it comes from, and \<^verbatim>\<open>_short_blockers\<close>, which
  nothing calls, is left out.  Outside all of them: the C++ trading core.
\<close>


section \<open>The registry: generation and validation agree\<close>

text \<open>
  C1. In every repository whose five bound source files are intact, generating the registry returns
  without an exception, and validating what it returns reports nothing.
\<close>

theorem generated_registry_validates:
  assumes "repository_intact E"
  shows "\<exists>r. build_registry (sha256 E) = Inr r \<and> validate_registry E r = Inr []"
  using generated_registry_passes [OF assms] by blast

theorem generated_registry_validates_witness:
  "repository_intact sample_env \<and>
   (\<exists>r. build_registry (sha256 sample_env) = Inr r \<and> validate_registry sample_env r = Inr [])"
  using generated_registry_validates [OF sample_intact] sample_intact by blast

text \<open>
  C2. An artifact the validation accepts holds exactly the 106 canonical experiments in the canonical
  order, and the card at each place equals, as Python compares values, the card the generator builds
  from the seed with that identifier.  The validation therefore refines its specification "the cards
  are the generator's cards".
\<close>

theorem validated_cards_are_generated:
  assumes "validate_registry E registry = Inr []"
  shows "\<exists>cards. get registry ''experiments'' = Inr (JList cards) \<and>
    list_all2 (\<lambda>i c. \<exists>s b. map_of card_seed_items i = Some s \<and> build_card (sha256 E) i s = Inr b \<and> py_eq c b)
      ATOMIC_IDS cards"
  using validated_cards [OF assms] unfolding canonical_card_def by blast

theorem validated_cards_are_generated_witness:
  "\<exists>r cards. validate_registry sample_env r = Inr [] \<and> get r ''experiments'' = Inr (JList cards) \<and>
    list_all2 (\<lambda>i c. \<exists>s b. map_of card_seed_items i = Some s \<and> build_card (sha256 sample_env) i s = Inr b \<and> py_eq c b)
      ATOMIC_IDS cards"
proof -
  obtain r where "validate_registry sample_env r = Inr []" using generated_registry_passes [OF sample_intact] .
  then show ?thesis using validated_cards_are_generated by blast
qed

text \<open>
  C3. No artifact the validation accepts grants anything: no card is eligible as a strategy, has
  execution authority or claims a strategy or live PnL, and the scope keeps the deployment, order and
  action authority at NONE.
\<close>

theorem validated_registry_grants_nothing:
  assumes "validate_registry E registry = Inr []" "wf_json registry"
    "get registry ''experiments'' = Inr (JList cards)" "c \<in> set cards"
  shows "(\<exists>x. py_index2 c ''classification'' ''strategy_eligible'' = Inr x \<and> \<not> truthy x)
    \<and> py_index2 c ''action'' ''current_execution_authority'' = Inr (JStr ''NONE'')
    \<and> py_index2 c ''current_result'' ''strategy_pnl_claim'' = Inr (JStr ''NONE'')
    \<and> py_index2 c ''current_result'' ''live_pnl_claim'' = Inr (JStr ''NONE'')
    \<and> (\<exists>scope. py_get registry ''scope'' (JObj []) = Inr scope \<and>
         (\<forall>f \<in> {''deployment_authority'', ''order_authority'', ''action_authority''}. get scope f = Inr (JStr ''NONE'')))"
proof -
  obtain cards' where v: "get registry ''experiments'' = Inr (JList cards')"
      "list_all2 (canonical_card E card_seed_items) ATOMIC_IDS cards'" "check_header E registry = Inr []"
    using validated_cards [OF assms(1)] by blast
  then have "list_all2 (canonical_card E card_seed_items) ATOMIC_IDS cards" using assms(3) by simp
  then obtain i where "i \<in> set ATOMIC_IDS" "canonical_card E card_seed_items i c"
    using list_all2_partner [OF _ assms(4)] by blast
  then show ?thesis
    using validated_card_claims wf_experiments [OF assms(2-4)] header_scope [OF v(3)] by blast
qed

theorem validated_registry_grants_nothing_witness:
  "\<exists>r cards c. validate_registry sample_env r = Inr [] \<and> wf_json r \<and> get r ''experiments'' = Inr (JList cards) \<and>
    c \<in> set cards \<and> py_index2 c ''action'' ''current_execution_authority'' = Inr (JStr ''NONE'')"
proof -
  obtain r where r: "validate_registry sample_env r = Inr []" "tidy r" using generated_registry [OF sample_intact] .
  obtain cards where c: "get r ''experiments'' = Inr (JList cards)"
      "list_all2 (canonical_card sample_env card_seed_items) ATOMIC_IDS cards"
    using validated_cards [OF r(1)] by blast
  have "length cards = 106" using c(2) items_length items_keys_atomic by (metis length_map list_all2_lengthD)
  then have "hd cards \<in> set cards" by (intro hd_in_set) auto
  then show ?thesis using validated_registry_grants_nothing r c(1) by (meson tidy_def)
qed

text \<open>
  C4. The registry digest is tamper evident: when an artifact is accepted, another well-formed artifact
  that carries the same \<^verbatim>\<open>registry_sha256\<close> over a different content (not only another order of keys) is not
  accepted, unless the canonical texts of the two contents are themselves two different texts with the
  same SHA-256.
\<close>

theorem registry_digest_binds:
  assumes "validate_registry E r1 = Inr []" "wf_json r1" "wf_json r2"
    "get r2 ''registry_sha256'' = get r1 ''registry_sha256''"
    "c1 = without_key ''registry_sha256'' r1" "c2 = without_key ''registry_sha256'' r2" "sort_json c1 \<noteq> sort_json c2"
  shows "validate_registry E r2 \<noteq> Inr []
    \<or> canonical_json c1 \<noteq> canonical_json c2 \<and> sha256 E (canonical_json c1) = sha256 E (canonical_json c2)"
proof (cases "validate_registry E r2 = Inr []")
  case True
  let ?h = "\<lambda>r. sha256_json (sha256 E) (without_key ''registry_sha256'' r)"
  have "get r ''registry_sha256'' = Inr (JStr (?h r))" if "validate_registry E r = Inr []" for r
    using validated_cards [OF that] by (force simp: get_is_def rmap_eq_Inr)
  then have "?h r1 = ?h r2" using assms(1,4) True by force
  then show ?thesis using canonical_json_binds [of c1 c2 "sha256 E"] assms(2,3,5-7) wf_without_key by blast
qed simp

theorem registry_digest_binds_witness:
  "\<exists>r d. validate_registry sample_env r = Inr [] \<and> get r ''registry_sha256'' = Inr d \<and>
    (validate_registry sample_env (JObj [(''registry_sha256'', d)]) \<noteq> Inr []
     \<or> canonical_json (without_key ''registry_sha256'' r) \<noteq> canonical_json (JObj [])
       \<and> sha256 sample_env (canonical_json (without_key ''registry_sha256'' r)) = sha256 sample_env (canonical_json (JObj [])))"
proof -
  obtain r where r: "validate_registry sample_env r = Inr []" "tidy r" using generated_registry [OF sample_intact] .
  obtain cards where c1: "get r ''experiments'' = Inr (JList cards)" using validated_cards [OF r(1)] by blast
  have "get r ''registry_sha256'' = Inr (JStr (sha256_json (sha256 sample_env) (without_key ''registry_sha256'' r)))"
    using validated_cards [OF r(1)] by (force simp: get_is_def rmap_eq_Inr)
  then obtain d where c: "get r ''experiments'' = Inr (JList cards)" "get r ''registry_sha256'' = Inr d" using c1 by blast
  obtain fs where fs: "r = JObj fs" using c(1) by (cases r) auto
  have "map_of fs ''experiments'' \<noteq> None" using c(1) fs by (auto split: option.splits)
  then have "fdel ''registry_sha256'' fs \<noteq> []"
    by (force simp: fdel_def filter_empty_conv dest!: map_of_SomeD)
  moreover have "keys_distinct (fdel ''registry_sha256'' fs)"
    using r(2) fs by (auto simp: tidy_def fdel_def intro: distinct_map_filter)
  then have "length (sorted_fields (map (\<lambda>(k, v). (k, sort_json v)) (fdel ''registry_sha256'' fs))) = length (fdel ''registry_sha256'' fs)"
    using length_sorted_fields [of "map (\<lambda>(k, v). (k, sort_json v)) (fdel ''registry_sha256'' fs)"]
    by (simp only: map_fst_sort_items length_map)
  ultimately have "sort_json (without_key ''registry_sha256'' r) \<noteq> JObj []" by (auto simp: fs)
  moreover have "sort_json (JObj []) = JObj []" by (simp add: sorted_fields_def)
  moreover have "wf_json (JObj [(''registry_sha256'', d)])" "without_key ''registry_sha256'' (JObj [(''registry_sha256'', d)]) = JObj []"
    "get (JObj [(''registry_sha256'', d)]) ''registry_sha256'' = Inr d"
    using r(2) c(2) fs by (auto simp: tidy_def fdel_def wf_fields_iff split: option.splits dest: map_of_SomeD)
  ultimately show ?thesis
    using registry_digest_binds [OF r(1), of "JObj [(''registry_sha256'', d)]" _ "JObj []"] r c(2)
    by (intro exI [of _ r] exI [of _ d]) (auto simp: tidy_def)
qed


section \<open>The registry: the command line\<close>

text \<open>
  C5. A \<^verbatim>\<open>--write\<close> run in an intact repository writes the generated registry, prints one line and
  exits with 0, and a \<^verbatim>\<open>--check\<close> run in the repository it leaves behind changes nothing and exits
  with 0: the artifact read back from its indented text is the one that was generated.
\<close>

theorem write_then_check:
  assumes "repository_intact E" "arg_write w" "\<not> arg_write a"
  shows "\<exists>r l l'. build_registry (sha256 E) = Inr r
    \<and> main E w = Inr \<lparr>out_env = write_registry E r, out_stdout = [l], out_stderr = [], out_status = 0\<rparr>
    \<and> main (write_registry E r) a
        = Inr \<lparr>out_env = write_registry E r, out_stdout = [l'], out_stderr = [], out_status = 0\<rparr>"
proof -
  obtain r where "build_registry (sha256 E) = Inr r" using generated_registry [OF assms(1)] .
  then show ?thesis using main_write_ok [OF assms(1) _ assms(2)] main_check_after_write [OF assms(1) _ assms(3)] by blast
qed

theorem write_then_check_witness:
  "\<exists>r l l'. build_registry (sha256 sample_env) = Inr r
    \<and> main sample_env \<lparr>arg_write = True, arg_check = False, arg_summary = False\<rparr>
        = Inr \<lparr>out_env = write_registry sample_env r, out_stdout = [l], out_stderr = [], out_status = 0\<rparr>
    \<and> main (write_registry sample_env r) \<lparr>arg_write = False, arg_check = True, arg_summary = False\<rparr>
        = Inr \<lparr>out_env = write_registry sample_env r, out_stdout = [l'], out_stderr = [], out_status = 0\<rparr>"
  by (rule write_then_check [OF sample_intact]) simp_all

text \<open>
  C6. A run without \<^verbatim>\<open>--write\<close> that ends normally never changes the repository, and its exit status
  is 0 exactly when the artifact exists, can be read, is accepted by the validation and equals the
  generator's output; otherwise it is 1 and the reason is printed.
\<close>

theorem check_exit_status:
  assumes "main E a = Inr out" "\<not> arg_write a"
  shows "out_env out = E \<and> (out_status out = 0 \<longleftrightarrow> (\<exists>expected actual. build_registry (sha256 E) = Inr expected
      \<and> files E (registry_path E) \<noteq> None \<and> read_registry E = Inr actual
      \<and> validate_registry E actual = Inr [] \<and> py_eq actual expected))
    \<and> (out_status out = 0 \<or> out_status out = 1 \<and> out_stderr out \<noteq> [])"
proof -
  obtain expected where e: "build_registry (sha256 E) = Inr expected"
    using assms by (auto simp: main_def rbind_eq_Inr)
  show ?thesis
  proof (cases "files E (registry_path E) = None")
    case True
    then show ?thesis using assms e by (auto simp: main_def)
  next
    case False
    then obtain actual where a: "read_registry E = Inr actual" "main_check E expected actual = Inr out"
      using assms e by (auto simp: main_def rbind_eq_Inr)
    show ?thesis using main_check_status [OF a(2)] a(1) e False by auto
  qed
qed

theorem check_exit_status_witness:
  "out_status (projr (main sample_env \<lparr>arg_write = False, arg_check = True, arg_summary = False\<rparr>)) \<noteq> 0"
proof -
  let ?a = "\<lparr>arg_write = False, arg_check = True, arg_summary = False\<rparr>"
  obtain r where r: "build_registry (sha256 sample_env) = Inr r" using generated_registry [OF sample_intact] .
  have f: "files sample_env (registry_path sample_env) = None"
    by (simp add: sample_env_def sample_files_def registry_path_def REGISTRY_PATH_def)
  then obtain out where out: "main sample_env ?a = Inr out" using r by (simp add: main_def)
  then show ?thesis using check_exit_status [OF out] f by simp
qed

text \<open>
  C7. What \<^verbatim>\<open>_write_registry\<close> writes, \<^verbatim>\<open>_read_registry\<close> reads back with its keys sorted, for every
  well-formed value; and writing the artifact leaves every bound source intact.
\<close>

theorem write_read_round_trip:
  assumes "wf_json r"
  shows "read_registry (write_registry E r) = Inr (sort_json r)
    \<and> (repository_intact E \<longrightarrow> repository_intact (write_registry E r))"
  using read_write_registry [OF assms] repository_intact_write by blast

theorem write_read_round_trip_witness:
  "read_registry (write_registry sample_env (JObj [(''b'', JInt 2), (''a'', JList [JNull, JBool True])]))
     = Inr (JObj [(''a'', JList [JNull, JBool True]), (''b'', JInt 2)])
   \<and> repository_intact (write_registry sample_env (JObj [(''b'', JInt 2), (''a'', JList [JNull, JBool True])]))"
proof -
  have "wf_json (JObj [(''b'', JInt 2), (''a'', JList [JNull, JBool True])])" by code_simp
  moreover have "sort_json (JObj [(''b'', JInt 2), (''a'', JList [JNull, JBool True])])
      = JObj [(''a'', JList [JNull, JBool True]), (''b'', JInt 2)]" by code_simp
  ultimately show ?thesis using write_read_round_trip sample_intact by metis
qed


section \<open>The seeds\<close>

text \<open>
  Importing the seed module succeeds: the 106 registrations raise no duplicate error, the
  module's own validation passes, and the dictionary has exactly the canonical identifiers in the
  canonical order, with admissible seeds whose hypotheses and triggers are pairwise different.
\<close>

theorem seed_module_imports:
  "\<exists>seeds. load_card_seeds = Inr seeds \<and> map fst seeds = ATOMIC_IDS \<and> length seeds = 106
    \<and> list_all (\<lambda>(i, s). seed_admissible s) seeds
    \<and> distinct (map (\<lambda>(i, s). seed_hypothesis s) seeds) \<and> distinct (map (\<lambda>(i, s). trigger (seed_signal s)) seeds)"
proof (intro exI [of _ card_seed_items] conjI)
  show "list_all (\<lambda>(i, s). seed_admissible s) card_seed_items" using items_admissible by (auto simp: list_all_iff)
qed (use load_card_seeds_eq items_keys_atomic items_length items_hyps items_trigs in \<open>simp_all add: split_def\<close>)

text \<open>
  A sequence of \<^verbatim>\<open>_register\<close> calls, from any dictionary, succeeds exactly when its identifiers are
  new and pairwise different; then the items registered before are kept as they were and the new ones
  follow in the order of the calls.
\<close>

theorem registrations_append:
  assumes "distinct (map fst seeds)"
  shows "fold (\<lambda>call seeds. rbind seeds (register call)) calls (Inr seeds) = Inr out \<longleftrightarrow>
    distinct (map fst seeds @ map fst calls) \<and> out = seeds @ map (\<lambda>(i, kw). (i, seed_of kw)) calls"
  using register_all_iff [OF assms] .

theorem registrations_append_witness:
  "fold (\<lambda>call seeds. rbind seeds (register call)) [call_A01, call_A02] (Inr [])
     = Inr [(fst call_A01, seed_of (snd call_A01)), (fst call_A02, seed_of (snd call_A02))]"
proof -
  have "distinct (map fst [call_A01, call_A02])" by (simp add: call_A01_def call_A02_def)
  then show ?thesis using registrations_append [of "[]" "[call_A01, call_A02]"] by (simp add: split_def)
qed

text \<open>
  C8. Any dictionary of seeds that \<^verbatim>\<open>_validate_seeds\<close> accepts has 106 entries, known profiles,
  dependencies, target classes and blockers in every entry, an action for every executable strategy,
  different hypotheses and triggers, and the expected number of cards in every family.
\<close>

theorem accepted_seeds_are_sound:
  assumes "validate_seeds seeds = Inr ()"
  shows "length seeds = 106 \<and> (\<forall>(i, s) \<in> set seeds. seed_admissible s)
    \<and> distinct (map (\<lambda>(i, s). seed_hypothesis s) seeds) \<and> distinct (map (\<lambda>(i, s). trigger (seed_signal s)) seeds)
    \<and> tally (map (take 1 \<circ> fst) seeds) (family_counts scan_start) = Some EXPECTED_FAMILY_COUNTS"
  using validate_seeds_sound [OF assms] by (auto simp: split_def)

theorem accepted_seeds_are_sound_witness:
  "validate_seeds card_seed_items = Inr () \<and> length card_seed_items = 106
    \<and> list_all (\<lambda>(i, s). seed_admissible s) card_seed_items"
  using items_validated accepted_seeds_are_sound [OF items_validated] by (simp add: list_all_iff)


section \<open>JSON text\<close>

text \<open>
  Reading back what the encoder prints gives the value it printed, for every well-formed JSON
  value, in every layout the code uses (compact, spaced, indented) at any depth, with any white space
  around it.
\<close>

theorem json_text_round_trip:
  assumes "L \<in> {compact, spaced, indented 2}" "wf_json v" "list_all is_ws u" "list_all is_ws w"
  shows "loads (u @ enc L d v @ w) = Inr v"
  using loads_enc [OF _ assms(2-4)] layouts_ok assms(1) by blast

theorem json_text_round_trip_witness:
  "loads ('' '' @ enc (indented 2) 0 (JObj [(''k'', JList [JDec 15 1, JStr [CHR 0x22, CHR 0x0A]])]) @ [CHR 0x0A])
    = Inr (JObj [(''k'', JList [JDec 15 1, JStr [CHR 0x22, CHR 0x0A]])])"
  by (rule json_text_round_trip) (simp_all add: is_ws_def dec_ok_def)

text \<open>
  C9. The canonical text, on which every digest of the registry is taken, identifies a value up to
  the order of keys: two well-formed values have the same canonical text exactly when they are equal
  after sorting the keys of all their dictionaries.
\<close>

theorem canonical_json_identifies:
  assumes "wf_json u" "wf_json v"
  shows "canonical_json u = canonical_json v \<longleftrightarrow> sort_json u = sort_json v"
  using canon.print_inject [of "sort_json u" "sort_json v"] wf_sort_json assms
  by (auto simp: canonical_json_def)

theorem canonical_json_identifies_witness:
  "canonical_json (JObj [(''b'', JNull), (''a'', JInt 1)]) = canonical_json (JObj [(''a'', JInt 1), (''b'', JNull)])
   \<and> canonical_json (JObj [(''a'', JInt 1)]) \<noteq> canonical_json (JObj [(''a'', JStr ''1'')])"
proof -
  have "wf_json (JObj [(''b'', JNull), (''a'', JInt 1)])" "wf_json (JObj [(''a'', JInt 1), (''b'', JNull)])"
    "wf_json (JObj [(''a'', JInt 1)])" "wf_json (JObj [(''a'', JStr ''1'')])"
    "sort_json (JObj [(''b'', JNull), (''a'', JInt 1)]) = sort_json (JObj [(''a'', JInt 1), (''b'', JNull)])"
    "sort_json (JObj [(''a'', JInt 1)]) \<noteq> sort_json (JObj [(''a'', JStr ''1'')])"
    by code_simp+
  then show ?thesis using canonical_json_identifies by simp
qed


section \<open>Cards\<close>

text \<open>
  C10. The generator and the checks of a card agree for every seed, not only for the 106 of the catalogue: from
  an admissible seed with no empty text, of a known family, building a card returns a well-formed card,
  and the validation, given a dictionary in which the identifier has that seed, counts the card in its
  family and reports nothing about it.
\<close>

theorem admissible_seed_builds:
  assumes "seed_admissible s" "seed_texts_ok s" "take 1 i \<in> set (map fst FAMILY_NAMES)" "i \<noteq> []" "map_of seeds i = Some s"
  shows "\<exists>c. build_card (sha256 E) i s = Inr c \<and> wf_json c
    \<and> check_item E seeds c cs = Inr (bump (JStr (take 1 i)) cs, [])"
  by (rule admissible_card [OF assms, of E]) blast

theorem admissible_seed_builds_witness:
  "\<exists>c. build_card (sha256 sample_env) ''A99-NEW'' (seed_of (snd call_A01)) = Inr c \<and> wf_json c
    \<and> check_item sample_env [(''A99-NEW'', seed_of (snd call_A01))] c [] = Inr (bump (JStr ''A'') [], [])"
proof -
  have "seed_admissible (seed_of (snd call_A01))" "seed_texts_ok (seed_of (snd call_A01))" by code_simp+
  moreover have "take 1 ''A99-NEW'' \<in> set (map fst FAMILY_NAMES)" by code_simp
  ultimately show ?thesis
    using admissible_seed_builds [of "seed_of (snd call_A01)" "''A99-NEW''" "[(''A99-NEW'', seed_of (snd call_A01))]" sample_env "[]"]
    by simp
qed

text \<open>
  C11. The classification fails closed: a card built from an admissible seed, whatever else the seed asks
  for, says that it is not eligible as a strategy and is never of the class EXECUTABLE_STRATEGY; if its
  list of blockers is not empty it says BLOCKED and REGISTERED_BLOCKED; and if its action profile has an
  action, the list has the blocker FEE_UNKNOWN.
\<close>

theorem classification_fails_closed:
  assumes "seed_admissible s" "build_card sha i s = Inr c"
  shows "\<exists>p cl k. derive_parts i s = Inr p \<and> py_index c ''classification'' = Inr cl
    \<and> py_index c ''blockers'' = Inr (jstrs (part_blockers p))
    \<and> py_index cl ''strategy_eligible'' = Inr (JBool False)
    \<and> py_index cl ''computed_class'' = Inr (JStr k) \<and> k \<noteq> ''EXECUTABLE_STRATEGY''
    \<and> (part_blockers p \<noteq> [] \<longrightarrow> k = ''BLOCKED'' \<and> py_index cl ''lifecycle'' = Inr (JStr ''REGISTERED_BLOCKED''))
    \<and> (has_action (part_action p) \<longrightarrow> ''FEE_UNKNOWN'' \<in> set (part_blockers p))"
proof -
  obtain p where p: "derive_parts i s = Inr p" "py_index c ''blockers'' = Inr (jstrs (part_blockers p))"
      "py_index c ''classification'' = Inr (dict_of (classification_fields (card_class s p)))"
    using card_says [OF assms(2)] .
  have never: "\<not> strategy_eligible (card_class s p)" by (rule card_never_eligible [OF assms(1) p(1)])
  then have "computed_class (card_class s p) \<noteq> ''EXECUTABLE_STRATEGY''"
    by (auto simp: card_class_def classification_of_def Let_def split: if_splits)
  moreover have "part_blockers p \<noteq> [] \<Longrightarrow> computed_class (card_class s p) = ''BLOCKED''
      \<and> lifecycle (card_class s p) = ''REGISTERED_BLOCKED''"
    by (simp add: card_class_def classification_blocked)
  ultimately show ?thesis using p never action_blocked_by_fees [OF assms(1) p(1)]
    by (intro exI [of _ p] exI [of _ "dict_of (classification_fields (card_class s p))"] exI [of _ "computed_class (card_class s p)"])
       (simp add: py_index_dict_of classification_fields_def)
qed

theorem classification_fails_closed_witness:
  "\<exists>c cl. build_card id ''A01-SPREAD-CAPTURE'' (seed_of (snd call_A01)) = Inr c \<and> py_index c ''classification'' = Inr cl
     \<and> py_index cl ''computed_class'' = Inr (JStr ''BLOCKED'')"
proof -
  have a: "seed_admissible (seed_of (snd call_A01))" by code_simp
  have "take 1 ''A01-SPREAD-CAPTURE'' \<in> set (map fst FAMILY_NAMES)" by code_simp
  then obtain c where c: "build_card id ''A01-SPREAD-CAPTURE'' (seed_of (snd call_A01)) = Inr c"
    using build_card_total [OF a, of "''A01-SPREAD-CAPTURE''" id] by auto
  obtain p cl k where p: "derive_parts ''A01-SPREAD-CAPTURE'' (seed_of (snd call_A01)) = Inr p" "py_index c ''classification'' = Inr cl"
      "py_index cl ''computed_class'' = Inr (JStr k)" "part_blockers p \<noteq> [] \<longrightarrow> k = ''BLOCKED''"
      "has_action (part_action p) \<longrightarrow> ''FEE_UNKNOWN'' \<in> set (part_blockers p)"
    using classification_fails_closed [OF a c] by blast
  have "has_action (part_action p)" using action_of_parts [OF a p(1)] by (simp add: seed_of_def call_A01_def)
  then have "k = ''BLOCKED''" using p(4,5) by auto
  then show ?thesis using c p(2,3) by blast
qed

text \<open>
  No card of an admissible seed is eligible: an action always carries the blocker of its unknown
  exchange fees, and without an action there is no strategy.
\<close>

theorem no_admissible_seed_is_eligible:
  assumes "seed_admissible s" "derive_parts i s = Inr p"
  shows "\<not> strategy_eligible (card_class s p) \<and> (has_action (part_action p) \<longrightarrow> ''FEE_UNKNOWN'' \<in> set (part_blockers p))"
  using card_never_eligible [OF assms] action_blocked_by_fees [OF assms] by blast

theorem no_admissible_seed_is_eligible_witness:
  "\<exists>p. derive_parts ''A01-SPREAD-CAPTURE'' (seed_of (snd call_A01)) = Inr p
     \<and> \<not> strategy_eligible (card_class (seed_of (snd call_A01)) p)"
proof -
  have a: "seed_admissible (seed_of (snd call_A01))" by code_simp
  obtain p where p: "derive_parts ''A01-SPREAD-CAPTURE'' (seed_of (snd call_A01)) = Inr p" using derive_parts_total [OF a] .
  then show ?thesis using no_admissible_seed_is_eligible [OF a p] by blast
qed

text \<open>
  C12. A missing cost is never treated as zero: on a card with an action, every cost component whose
  status is MISSING puts the blocker of its cost type on the card.
\<close>

theorem missing_cost_blocks:
  assumes "derive_parts i s = Inr p" "has_action (part_action p)"
    and "c \<in> set (part_costs p)" "cost_status c = ''MISSING''"
  shows "\<exists>b \<in> set (part_blockers p). map_of blocker_by_cost_type (cost_type c) = Some b"
proof -
  obtain d where "expected_blockers s d (part_external p) (part_costs p) True = Inr (part_blockers p)"
    using assms(1,2) by (auto simp: derive_parts_Inr)
  then obtain cs where "cost_blockers (part_costs p) = Inr cs" "set cs \<subseteq> set (part_blockers p)"
    by (fastforce simp: expected_blockers_set)
  then show ?thesis using cost_blockers_covers [OF _ assms(3,4)] by blast
qed

theorem missing_cost_blocks_witness:
  "\<exists>p c b. derive_parts ''A01-SPREAD-CAPTURE'' (seed_of (snd call_A01)) = Inr p \<and> c \<in> set (part_costs p)
     \<and> cost_status c = ''MISSING'' \<and> b \<in> set (part_blockers p) \<and> map_of blocker_by_cost_type (cost_type c) = Some b"
proof -
  have a: "seed_admissible (seed_of (snd call_A01))" by code_simp
  obtain p where p: "derive_parts ''A01-SPREAD-CAPTURE'' (seed_of (snd call_A01)) = Inr p" using derive_parts_total [OF a] .
  have n: "seed_action_profile (seed_of (snd call_A01)) \<notin> set [''NO_ACTION'', ''MODEL_COMPONENT'', ''CONTROL_ONLY'']"
    by (simp add: seed_of_def call_A01_def)
  let ?c = "hd COMMON_COST_COMPONENTS"
  have "?c \<in> set (part_costs p)" using costs_for_has_action(1) [OF n] p
    by (auto simp: derive_parts_Inr COMMON_COST_COMPONENTS_def)
  moreover have "cost_status ?c = ''MISSING''" by (simp add: COMMON_COST_COMPONENTS_def)
  ultimately show ?thesis using missing_cost_blocks [OF p] action_of_parts [OF a p] n p by blast
qed

text \<open>
  External sports data is never imputed: a card whose dependency is REQUIRED carries the three
  external blockers, records the data as MISSING with the policy BLOCK_NO_IMPUTE, and is BLOCKED; if
  it has an action it also carries the blocker of the unknown instrument mapping.
\<close>

theorem required_external_blocks:
  assumes "derive_parts i s = Inr p" "seed_external_dependency s = ''REQUIRED''"
  shows "{''EXTERNAL_SPORTS_DATA_MISSING'', ''EXTERNAL_API_UNVERIFIED'', ''TIMESTAMP_SEMANTICS_UNKNOWN''} \<subseteq> set (part_blockers p)
    \<and> (has_action (part_action p) \<longrightarrow> ''INSTRUMENT_MAPPING_UNKNOWN'' \<in> set (part_blockers p))
    \<and> availability (part_external p) = ''MISSING'' \<and> missing_policy (part_external p) = ''BLOCK_NO_IMPUTE''
    \<and> computed_class (card_class s p) = ''BLOCKED''"
proof -
  obtain d where d: "expected_blockers s d (part_external p) (part_costs p) (has_action (part_action p)) = Inr (part_blockers p)"
      and x: "external_contract ''REQUIRED'' i = Inr (part_external p)"
    using assms by (auto simp: derive_parts_Inr)
  have m: "set (ext_blockers (part_external p)) \<subseteq> set (part_blockers p)"
      "has_action (part_action p) \<Longrightarrow> ''INSTRUMENT_MAPPING_UNKNOWN'' \<in> set (part_blockers p)"
    using d assms(2) by (auto simp: expected_blockers_set)
  have e: "ext_blockers (part_external p) = [''EXTERNAL_SPORTS_DATA_MISSING'', ''EXTERNAL_API_UNVERIFIED'', ''TIMESTAMP_SEMANTICS_UNKNOWN'']"
      "availability (part_external p) = ''MISSING''" "missing_policy (part_external p) = ''BLOCK_NO_IMPUTE''"
    using arg_cong [OF x [symmetric], of projr] by (simp_all add: external_contract_def)
  then have "part_blockers p \<noteq> []" using m(1) by auto
  then show ?thesis using e m by (simp add: card_class_def classification_blocked)
qed

theorem required_external_blocks_witness:
  "\<exists>p. derive_parts (fst call_F12) (seed_of (snd call_F12)) = Inr p \<and> ''EXTERNAL_SPORTS_DATA_MISSING'' \<in> set (part_blockers p)"
proof -
  have a: "seed_admissible (seed_of (snd call_F12))" by code_simp
  obtain p where p: "derive_parts (fst call_F12) (seed_of (snd call_F12)) = Inr p" using derive_parts_total [OF a] .
  have "seed_external_dependency (seed_of (snd call_F12)) = ''REQUIRED''" by code_simp
  then show ?thesis using required_external_blocks [OF p] p by blast
qed

text \<open>
  The blockers of a card of an admissible seed are sorted, distinct and known to the validator,
  and the card has exactly one gap contract per blocker, in the same order, each naming its blocker
  and the policy that an unknown value blocks instead of counting as zero.
\<close>

theorem blockers_have_gap_contracts:
  assumes "seed_admissible s" "derive_parts i s = Inr p"
  shows "sorted (part_blockers p) \<and> distinct (part_blockers p) \<and> set (part_blockers p) \<subseteq> set CRITICAL_BLOCKERS
    \<and> (\<exists>gaps. traverse (gap_contract i) (part_blockers p) = Inr gaps
        \<and> list_all2 (\<lambda>b g. py_index g ''blocker'' = Inr (JStr b)
            \<and> py_index g ''unknown_value_policy'' = Inr (JStr ''BLOCK_NOT_ZERO'')) (part_blockers p) gaps)"
proof -
  have k: "set (part_blockers p) \<subseteq> set CRITICAL_BLOCKERS"
    using derive_parts_total [OF assms(1), of i] assms(2) by (metis Inr_inject)
  moreover have "sorted (part_blockers p) \<and> distinct (part_blockers p)"
    using assms(2) by (auto simp: derive_parts_Inr expected_blockers_set)
  moreover obtain gaps where g: "traverse (gap_contract i) (part_blockers p) = Inr gaps"
    using gaps_total [OF k] by blast
  then have "list_all2 (\<lambda>b g. gap_contract i b = Inr g) (part_blockers p) gaps" by (simp add: traverse_eq_Inr)
  then have "list_all2 (\<lambda>b g. py_index g ''blocker'' = Inr (JStr b)
      \<and> py_index g ''unknown_value_policy'' = Inr (JStr ''BLOCK_NOT_ZERO'')) (part_blockers p) gaps"
    by (rule list_all2_mono) (simp add: gap_contract_index)
  ultimately show ?thesis using g by blast
qed

theorem blockers_have_gap_contracts_witness:
  "\<exists>p gaps. derive_parts (fst call_F12) (seed_of (snd call_F12)) = Inr p \<and> sorted (part_blockers p)
     \<and> traverse (gap_contract (fst call_F12)) (part_blockers p) = Inr gaps"
proof -
  have a: "seed_admissible (seed_of (snd call_F12))" by code_simp
  obtain p where p: "derive_parts (fst call_F12) (seed_of (snd call_F12)) = Inr p" using derive_parts_total [OF a] .
  then show ?thesis using blockers_have_gap_contracts [OF a p] by blast
qed

text \<open>
  Every action profile is complete: one with an action names its signal mapping, side, style,
  price, quantity, timing, exit and kill conditions, a venue, a baseline and an after-cost formula
  with its denominators; one without an action names no venue and defines no PnL.
\<close>

theorem action_profiles_complete: "list_all action_contract_ok SEED_ACTION_PROFILES"
  by (rule action_contracts_ok)

text \<open>
  The summary of the generated registry counts 106 cards and none eligible, and it is equal to
  the summary recomputed from the cards the registry holds.
\<close>

theorem generated_summary:
  "\<exists>r cards smry. build_registry sha = Inr r \<and> py_index r ''experiments'' = Inr (JList cards)
     \<and> summary_for_cards cards = Inr smry \<and> py_index r ''summary'' = Inr (summary_json smry)
     \<and> total_cards smry = 106 \<and> length cards = 106 \<and> eligible_now smry = (0, 0)"
  using generated_summary_facts by blast


section \<open>Validation of an untrusted artifact\<close>

text \<open>
  C13. A bound source path that resolves to a place outside the repository root, one that does not start
  with all the components of the root, is reported as such, whatever else the binding says: the check of
  the binding gives that one message whatever files there are and whatever their digests would be, so it
  neither opens nor hashes the file; and when the whole validation of an artifact with that binding
  returns, the message is among what it reports.
\<close>

theorem escaping_path_is_reported:
  assumes "is_dict b" "py_get b ''role'' (JStr ''<missing>'') = Inr role" "get b ''path'' = Inr (JStr p)"
    "resolve E p = Inr q" "\<nexists>rest. q = root E @ rest"
    "message = py_str role @ '': source path escapes repository root''"
  shows "(\<forall>fs h. check_binding (E\<lparr>files := fs, sha256 := h\<rparr>) b = Inr [message])
    \<and> (get registry ''source_bindings'' = Inr (JList bs) \<longrightarrow> b \<in> set bs \<longrightarrow> validate_registry E registry = Inr errs
        \<longrightarrow> message \<in> set errs)"
proof -
  have all: "check_binding (E\<lparr>files := fs, sha256 := h\<rparr>) b = Inr [message]" for fs h
    using escaping_binding [OF assms(1-5)] by (simp add: assms(6))
  have "E\<lparr>files := files E, sha256 := sha256 E\<rparr> = E" by simp
  then have "check_binding E b = Inr [message]" using all [where fs = "files E" and h = "sha256 E"] by simp
  then show ?thesis using all binding_error_reported by fastforce
qed

theorem escaping_path_is_reported_witness:
  "\<exists>errs. validate_registry sample_env (JObj [(''source_bindings'', JList [JObj [(''role'', JStr ''R''), (''path'', JStr ''../repo2/x'')]])]) = Inr errs
     \<and> ''R: source path escapes repository root'' \<in> set errs"
proof -
  let ?b = "JObj [(''role'', JStr ''R''), (''path'', JStr ''../repo2/x'')]"
  have res: "resolve sample_env ''../repo2/x'' = Inr [''repo2'', ''x'']" by code_simp
  have out: "\<nexists>rest. [''repo2'', ''x''] = root sample_env @ rest" by (simp add: sample_env_def)
  have "case validate_registry sample_env (JObj [(''source_bindings'', JList [?b])]) of Inr errs \<Rightarrow> True | Inl e \<Rightarrow> False" by code_simp
  then obtain errs where errs: "validate_registry sample_env (JObj [(''source_bindings'', JList [?b])]) = Inr errs"
    by (auto split: sum.splits)
  moreover have "''R: source path escapes repository root'' \<in> set errs"
    using escaping_path_is_reported [OF _ _ _ res out, of ?b "JStr ''R''" _ "JObj [(''source_bindings'', JList [?b])]" "[?b]" errs] errs
    by (simp add: py_str_def)
  ultimately show ?thesis by blast
qed

text \<open>
  A source binding that is not an object is not reported: the call ends with an exception, since
  the comprehension that looks for the authority binding calls \<^verbatim>\<open>get\<close> on every entry.
\<close>

theorem non_object_binding_raises:
  assumes "get registry ''source_bindings'' = Inr (JList bindings)" "b \<in> set bindings" "\<not> is_dict b"
  shows "\<exists>e. validate_registry E registry = Inl e"
  using binding_not_dict_raises [OF assms] .

theorem non_object_binding_raises_witness:
  "\<exists>e. validate_registry sample_env (JObj [(''source_bindings'', JList [JStr ''x''])]) = Inl e"
  by (rule non_object_binding_raises [of _ "[JStr ''x'']" "JStr ''x''"]) simp_all

text \<open>
  A card that is not an object is not reported either: the call ends with an exception, since the
  index of the cards by identifier subscripts every entry.
\<close>

theorem non_object_card_raises:
  assumes "get registry ''experiments'' = Inr (JList cards)" "c \<in> set cards" "\<not> is_dict c"
  shows "\<exists>e. validate_registry E registry = Inl e"
  using card_not_dict_raises [OF assms] .

theorem non_object_card_raises_witness:
  "\<exists>e. validate_registry sample_env (JObj [(''experiments'', JList [JNull])]) = Inl e"
  by (rule non_object_card_raises [of _ "[JNull]" JNull]) simp_all


section \<open>The report\<close>

text \<open>
  C14. The generator and the renderer fit together: in an intact repository a \<^verbatim>\<open>--write\<close> run of the generator
  followed by a run of the renderer, with its fonts installed and pages with room for a line, returns a
  saved document; its outline has the summary pages and then every card of the catalogue in its order.
\<close>

theorem generated_report_is_complete:
  assumes "repository_intact E" "arg_write w" "fonts_present P" "roomy P"
  shows "\<exists>r l ds front. main E w = Inr \<lparr>out_env = write_registry E r, out_stdout = [l], out_stderr = [], out_status = 0\<rparr>
    \<and> pdf_main (write_registry E r) P = Some (Inr (ds, path_text (root E @ OUTPUT_PATH))) \<and> last ds = Save
    \<and> outline ds = front @ map (\<lambda>i. (card_key i, i)) ATOMIC_IDS \<and> map fst front = summary_keys"
proof -
  obtain r where r: "build_registry (sha256 E) = Inr r" using generated_registry [OF assms(1)] .
  obtain l where l: "main E w = Inr \<lparr>out_env = write_registry E r, out_stdout = [l], out_stderr = [], out_status = 0\<rparr>"
    using main_write_ok [OF assms(1) r assms(2)] by blast
  obtain ds where ds: "build_pdf (write_registry E r) P r = Some (Inr ds)"
      "pdf_main (write_registry E r) P = Some (Inr (ds, path_text (root E @ OUTPUT_PATH)))"
    using written_report [OF assms(1) r assms(3,4)] .
  have "last ds = Save" using build_pdf_document [OF assms(4) ds(1)] by blast
  moreover obtain front where "outline ds = front @ map (\<lambda>i. (card_key i, i)) ATOMIC_IDS" "map fst front = summary_keys"
    using generated_outline [OF r assms(4) ds(1)] .
  ultimately show ?thesis using l ds(2) by blast
qed

theorem generated_report_is_complete_witness:
  "\<exists>r l ds front. main sample_env \<lparr>arg_write = True, arg_check = False, arg_summary = False\<rparr>
      = Inr \<lparr>out_env = write_registry sample_env r, out_stdout = [l], out_stderr = [], out_status = 0\<rparr>
    \<and> pdf_main (write_registry sample_env r) sample_pdf = Some (Inr (ds, path_text (root sample_env @ OUTPUT_PATH)))
    \<and> last ds = Save \<and> outline ds = front @ map (\<lambda>i. (card_key i, i)) ATOMIC_IDS \<and> map fst front = summary_keys"
  by (rule generated_report_is_complete [OF sample_intact _ sample_pdf_ok(2,1)]) simp

text \<open>
  Whatever the registry is, a document that is returned has as many pages as its footers say: the
  fifteen summary pages and those of the layouts of its 106 cards; its outline has one entry for every
  summary page after the cover and then one for every card, with the identifier the card has, in order.
\<close>

theorem report_pages_add_up:
  assumes "roomy P" "build_pdf E P registry = Some (Inr ds)"
  shows "\<exists>cards payloads front entries. cards_of registry = Inr cards \<and> length cards = 106
    \<and> detail_payloads P registry cards = Some (Inr payloads) \<and> shown ds = SUMMARY_PAGES + page_count payloads
    \<and> outline ds = front @ entries \<and> map fst front = summary_keys
    \<and> list_all2 (\<lambda>c e. \<exists>D. header_data_of c = Inr D \<and> e = (card_key (hd_id D), hd_id D)) cards entries"
  by (rule build_pdf_document [OF assms]) blast

theorem report_pages_add_up_witness:
  "\<exists>r ds cards payloads. build_registry (sha256 sample_env) = Inr r
    \<and> build_pdf (write_registry sample_env r) sample_pdf r = Some (Inr ds) \<and> cards_of r = Inr cards \<and> length cards = 106
    \<and> detail_payloads sample_pdf r cards = Some (Inr payloads) \<and> shown ds = SUMMARY_PAGES + page_count payloads"
proof -
  obtain r where r: "build_registry (sha256 sample_env) = Inr r" using generated_registry [OF sample_intact] .
  obtain ds where "build_pdf (write_registry sample_env r) sample_pdf r = Some (Inr ds)"
    using written_report [OF sample_intact r sample_pdf_ok(2,1)] .
  then show ?thesis using r report_pages_add_up [OF sample_pdf_ok(1)] by blast
qed

text \<open>
  The figures the dashboard page of the report prints as constants (106 cards, 80 whose target is a
  strategy, none eligible, 105 blocked and one research question) are those of the registry that the
  generator builds, whatever SHA-256 is.
\<close>

theorem report_figures_agree:
  "\<exists>r cards counts ds. build_registry sha = Inr r \<and> cards_of r = Inr cards \<and> length cards = 106
    \<and> target_counts r = Inr [JInt 80, JInt 14, JInt 12] \<and> py_index2 r ''summary'' ''computed_class_counts'' = Inr counts
    \<and> py_index counts ''BLOCKED'' = Inr (JInt 105) \<and> py_index counts ''RESEARCH_QUESTION'' = Inr (JInt 1)
    \<and> py_index2 r ''summary'' ''strategy_eligible_now'' = Inr (JInt 0)
    \<and> page_dashboard P r n = Inr ds \<and> {''106'', ''80'', ''0'', ''105 + 1''} \<subseteq> set (drawn_texts ds)"
proof (rule registry_figures [of sha])
  fix r cards counts
  assume r: "build_registry sha = Inr r" "cards_of r = Inr cards" "length cards = 106"
    "target_counts r = Inr [JInt 80, JInt 14, JInt 12]" "py_index2 r ''summary'' ''computed_class_counts'' = Inr counts"
    "py_index counts ''BLOCKED'' = Inr (JInt 105)" "py_index counts ''RESEARCH_QUESTION'' = Inr (JInt 1)"
    "py_index2 r ''summary'' ''strategy_eligible_now'' = Inr (JInt 0)"
  obtain ds where "page_dashboard P r n = Inr ds" using dashboard_drawn [OF r(4)] by blast
  then show ?thesis using r dashboard_texts by blast
qed

text \<open>
  The assertions of the renderer about the foot of a column and about the number of pages cannot
  fail: on pages with room for a line it returns, whatever the registry is, and the only assertion it
  can fail is the one that there are 106 cards.
\<close>

theorem report_assertions_hold:
  assumes "roomy P"
  shows "\<exists>r. build_pdf E P registry = Some r
    \<and> (case r of Inl (AssertionError m) \<Rightarrow> \<exists>k. m = ''expected 106 experiment cards, found '' @ k | _ \<Rightarrow> True)"
proof -
  obtain r where "build_pdf E P registry = Some r"
      "\<forall>m. r = Inl (AssertionError m) \<longrightarrow> (\<exists>k. m = ''expected 106 experiment cards, found '' @ k)"
    using build_pdf_returns [OF assms] by blast
  then show ?thesis by (auto split: sum.split py_exc.split)
qed

theorem report_assertions_hold_witness:
  "\<exists>r. build_pdf sample_env sample_pdf (JObj [(''experiments'', JList [])]) = Some r
    \<and> (case r of Inl (AssertionError m) \<Rightarrow> \<exists>k. m = ''expected 106 experiment cards, found '' @ k | _ \<Rightarrow> False)"
  using report_assertions_hold [OF sample_pdf_ok(1), of sample_env "JObj [(''experiments'', JList [])]"]
  by (simp add: build_pdf_def register_fonts_def cards_of_def sample_pdf_ok(2))

text \<open>
  C15. The layout of the detail pages ends exactly when it should: it returns if a column has room for a
  heading and one line or if no section has an entry, and otherwise its inner loop runs forever.
\<close>

theorem layout_terminates:
  "(\<exists>pgs. layout_detail_sections P sections = Some pgs) \<longleftrightarrow> roomy P \<or> list_all (\<lambda>(_, entries). entries = []) sections"
  by (rule layout_returns_iff)

text \<open>
  C16. The layout loses, repeats and reorders no line: reading the columns of its pages in order gives the
  lines of the sections in order, every one below a heading of its own section in its own column, no
  column is filled beyond its height, and every page has four columns.
\<close>

theorem layout_keeps_lines:
  assumes "roomy P"
  shows "\<exists>pgs. layout_detail_sections P sections = Some pgs \<and> list_all (\<lambda>p. length p = DETAIL_COLS) pgs
    \<and> list_all (list_all (column_ok P)) pgs \<and> placed P (reading (concat pgs)) sections"
  by (rule layout_ok [OF assms]) blast

theorem layout_keeps_lines_witness:
  "\<exists>pgs. layout_detail_sections sample_pdf [(''A'', [''one'', ''two'']), (''B'', [''three''])] = Some pgs
    \<and> list_all (\<lambda>p. length p = DETAIL_COLS) pgs \<and> list_all (list_all (column_ok sample_pdf)) pgs
    \<and> placed sample_pdf (reading (concat pgs)) [(''A'', [''one'', ''two'']), (''B'', [''three''])]"
  by (rule layout_keeps_lines [OF sample_pdf_ok(1)])

text \<open>
  C17. Breaking a text into lines keeps its paragraphs apart and loses nothing but white space: the
  characters of the lines of a paragraph that are not blank are those of the paragraph, in order; and
  every line fits the width up to blanks stripped at its end, or is a single character.
\<close>

theorem wrapped_lines_fit:
  "\<exists>parts. split_text width text' mx font size' = concat (map (map concat) parts)
    \<and> list_all2 (\<lambda>part paragraph. concat (map visible part) = visible (chars paragraph)
         \<and> list_all (fits (\<lambda>t. mx < width t font size')) part)
       parts (if splitlines text' = [] then [''''] else splitlines text')"
proof -
  let ?wide = "\<lambda>t. mx < width t font size'" and ?ps = "if splitlines text' = [] then [''''] else splitlines text'"
  have "concat (map visible (wrap ?wide [] (chars p))) = visible (chars p) \<and> list_all (fits ?wide) (wrap ?wide [] (chars p))" for p
    using wrap_visible [of ?wide "[]" "chars p"] wrap_fits [of "[]" ?wide _ "chars p"] by (simp add: list_all_iff)
  then have "list_all2 (\<lambda>part p. concat (map visible part) = visible (chars p) \<and> list_all (fits ?wide) part)
      (map (\<lambda>p. wrap ?wide [] (chars p)) ?ps) ?ps"
    by (simp only: list_all2_map1) (simp add: list_all2_same)
  moreover have "split_text width text' mx font size' = concat (map (map concat) (map (\<lambda>p. wrap ?wide [] (chars p)) ?ps))"
    by (simp only: split_text_def map_map comp_def)
  ultimately show ?thesis by blast
qed


section \<open>The console: the metrics file\<close>

text \<open>
  C18. Reading backwards in blocks gives the right answer: on a file that is not empty and consists of
  complete, non-blank lines, \<^verbatim>\<open>tail_lines\<close> returns for positive \<^verbatim>\<open>n\<close> the last \<^verbatim>\<open>n\<close> lines of the whole file, decoded,
  and the size they were read at, whatever the size of the file.
\<close>

theorem tail_returns_last_lines:
  assumes "ends_line content" "no_blank_lines content" "content \<noteq> []" "0 < n"
  shows "tail_lines (file_size (Some content)) (reads_of content) n
    = (map decode_replace (last_n (nat n) (lines_of content)), int (length content))"
  using tail_lines_no_blank [OF assms(2-4)] by (simp add: file_size_def)

theorem tail_returns_last_lines_witness:
  "tail_lines (file_size (Some (''a'' @ [NL] @ ''b'' @ [NL]))) (reads_of (''a'' @ [NL] @ ''b'' @ [NL])) 1 = ([''b''], 4)"
proof -
  have "ends_line (''a'' @ [NL] @ ''b'' @ [NL])" "no_blank_lines (''a'' @ [NL] @ ''b'' @ [NL])"
    by (simp add: ends_line_def) code_simp
  moreover have "lines_of (''a'' @ [NL] @ ''b'' @ [NL]) = [''a'', ''b'']" by code_simp
  ultimately show ?thesis
    using tail_returns_last_lines [of "''a'' @ [NL] @ ''b'' @ [NL]" 1] by (simp add: last_n_def)
qed

text \<open>
  C19. In every state that the writer's appends and the reader's turns can reach, in any order and with
  any number of moments at which the file is missing, unreadable or growing under the reader, the lines
  yielded so far are exactly the complete non-blank lines of the part of the file the reader has read:
  none is lost, repeated, reordered or cut.
\<close>

theorem stream_yields_read_lines:
  assumes "start \<le> length content" "tails\<^sup>*\<^sup>* (tail_start content start) w"
  shows "\<exists>n. start + n = read_to (reader w) \<and> start + n \<le> length (log w)
    \<and> sent_lines (yielded w) = map decode_replace (lines_of (complete_of (take n (drop start (log w)))))
    \<and> pending (reader w) = rest_of (take n (drop start (log w)))"
  using tail_inv_reachable [OF assms(2) tail_inv_start [OF assms(1)]]
  by (auto simp: tail_inv_def Let_def intro!: exI [of _ "read_to (reader w) - start"])

theorem stream_yields_read_lines_witness:
  "\<exists>n. n = read_to (reader (tail_start ''ab'' 0)) \<and> sent_lines (yielded (tail_start ''ab'' 0))
     = map decode_replace (lines_of (complete_of (take n ''ab'')))"
  using stream_yields_read_lines [of 0 "''ab''" "tail_start ''ab'' 0"] by (auto simp: tail_start_def)

text \<open>
  C20. The reader makes progress: from any reachable state, one turn in which the file can be read and
  does not change brings it to the end of the file, and then every complete non-blank line after its
  start has been yielded.
\<close>

theorem stream_catches_up:
  assumes "start \<le> length content" "tails\<^sup>*\<^sup>* (tail_start content start) w"
    and "stream_turn (file_size (Some (log w))) (reads_of (log w)) (reader w) = (r, es)"
  shows "read_to r = length (log w)
    \<and> sent_lines (yielded w @ es) = map decode_replace (lines_of (complete_of (drop start (log w))))"
proof -
  have inv: "tail_inv start w" by (rule tail_inv_reachable [OF assms(2) tail_inv_start [OF assms(1)]])
  show ?thesis using turn_catches_up [OF inv assms(3)] caught_up_lines [OF inv assms(3)] by blast
qed

theorem stream_catches_up_witness:
  "\<exists>r es. stream_turn (file_size (Some (''a'' @ [NL]))) (reads_of (''a'' @ [NL])) \<lparr>read_to = 0, pending = []\<rparr> = (r, es)
     \<and> sent_lines es = [''a'']"
proof -
  obtain r es where t: "stream_turn (file_size (Some (''a'' @ [NL]))) (reads_of (''a'' @ [NL])) \<lparr>read_to = 0, pending = []\<rparr> = (r, es)"
    by fastforce
  have "lines_of (complete_of (''a'' @ [NL])) = [''a'']" by code_simp
  then show ?thesis using stream_catches_up [of 0 "''a'' @ [NL]" "tail_start (''a'' @ [NL]) 0" r es] t
    by (simp add: tail_start_def)
qed

text \<open>
  C21. Backfill and live stream fit together without a gap or an overlap when the file holds whole,
  non-blank lines at the time of the connection: what a client has received after any later caught-up
  turn is exactly the last \<^verbatim>\<open>n + k\<close> complete lines of the file as it is then, where \<^verbatim>\<open>k\<close> of them are new.
\<close>

theorem backfill_meets_stream:
  assumes "ends_line content" "no_blank_lines content" "content \<noteq> []" "0 < n"
    and "tails\<^sup>*\<^sup>* (tail_start content (length content)) w"
    and "stream_turn (file_size (Some (log w))) (reads_of (log w)) (reader w) = (r, es)"
    and "new = sent_lines (yielded w @ es)"
  shows "fst (tail_lines (file_size (Some content)) (reads_of content) n) @ new
    = last_n (nat n + length new) (map decode_replace (lines_of (complete_of (log w))))"
  using no_gap [OF assms(1-6)] by (simp only: assms(7))

theorem backfill_meets_stream_witness:
  "\<exists>new. fst (tail_lines (file_size (Some (''a'' @ [NL]))) (reads_of (''a'' @ [NL])) 5) @ new
     = last_n (5 + length new) [''a'', ''b'']"
proof -
  let ?w = "(tail_start (''a'' @ [NL]) 2)\<lparr>log := log (tail_start (''a'' @ [NL]) 2) @ ''b'' @ [NL]\<rparr>"
  obtain r es where t: "stream_turn (file_size (Some (log ?w))) (reads_of (log ?w)) (reader ?w) = (r, es)" by fastforce
  have step: "tails\<^sup>*\<^sup>* (tail_start (''a'' @ [NL]) 2) ?w" by (rule r_into_rtranclp) (rule tails.append)
  have all: "map decode_replace (lines_of (complete_of (log ?w))) = [''a'', ''b'']" by code_simp
  have "ends_line (''a'' @ [NL])" "no_blank_lines (''a'' @ [NL])" by (simp add: ends_line_def) code_simp
  then have "fst (tail_lines (file_size (Some (''a'' @ [NL]))) (reads_of (''a'' @ [NL])) 5) @ sent_lines (yielded ?w @ es)
      = last_n (nat 5 + length (sent_lines (yielded ?w @ es))) (map decode_replace (lines_of (complete_of (log ?w))))"
    by (rule backfill_meets_stream) (use step t in \<open>simp_all add: numeral_2_eq_2\<close>)
  moreover have "nat 5 = (5 :: nat)" by simp
  ultimately show ?thesis unfolding all by metis
qed

text \<open>
  When the file ends in the middle of a line at the time of the connection, that line is never
  delivered whole: the backfill has its first part as if it were a line, and the stream its second.
\<close>

theorem partial_line_is_split:
  "fst (tail_lines (file_size (Some (''a'' @ [NL] @ ''b''))) (reads_of (''a'' @ [NL] @ ''b'')) 1) = [''b'']
   \<and> snd (stream_turn (file_size (Some (''a'' @ [NL] @ ''bc'' @ [NL]))) (reads_of (''a'' @ [NL] @ ''bc'' @ [NL]))
       \<lparr>read_to = 3, pending = []\<rparr>) = [Line ''c'']"
  using partial_line_split by blast

text \<open>
  C22. Blank lines make the backwards read stop too early, since newlines are counted and not lines: when
  the last line is followed by more newlines than lines are asked for, at most 65536, and does not fit,
  with them, into a block of 65536 bytes, the only line returned is the end of that line that does, if
  it is not blank, with its beginning cut off, whatever complete lines the file has before it.
\<close>

theorem blank_lines_cut_a_line:
  assumes "ends_line earlier" "NL \<notin> set l" "0 < n" "n < m" "m \<le> 65536" "65536 < length l + m"
    "nonblank (drop (length l + m - 65536) l)" "c = earlier @ l @ replicate m NL"
  shows "fst (tail_lines (file_size (Some c)) (reads_of c) (int n)) = [decode_replace (drop (length l + m - 65536) l)]
    \<and> lines_of c = lines_of earlier @ [l] \<and> length (drop (length l + m - 65536) l) < length l"
proof -
  have "lines_of c = lines_of earlier @ [l]"
    using lines_of_append [OF assms(1)] lines_of_trailing [OF assms(2) nonblank_drop [OF assms(7)]] by (simp add: assms(8))
  moreover have "length (drop (length l + m - 65536) l) < length l" using assms(5,6) by simp
  ultimately show ?thesis using fragment_returned [OF assms(2-8)] by blast
qed

theorem blank_lines_cut_a_line_witness:
  "fst (tail_lines (file_size (Some (''a'' @ [NL] @ long_line @ [NL, NL]))) (reads_of (''a'' @ [NL] @ long_line @ [NL, NL])) 1)
     = [decode_replace (replicate 65534 (CHR ''x''))]"
proof -
  have len: "length long_line = 70000" by (simp add: long_line_def)
  have "drop 4466 long_line = replicate 65534 (CHR ''x'')" by (simp add: long_line_def)
  moreover have "nonblank (replicate 65534 (CHR ''x''))" by (simp add: nonblank_def list_ex_iff is_space_def)
  moreover have "NL \<notin> set long_line" "ends_line (''a'' @ [NL])" by (simp_all add: long_line_def ends_line_def)
  moreover have "replicate 2 NL = [NL, NL]" by (simp add: numeral_2_eq_2)
  ultimately show ?thesis
    using blank_lines_cut_a_line [of "''a'' @ [NL]" long_line 1 2 "''a'' @ [NL] @ long_line @ [NL, NL]"] len by simp
qed

text \<open>
  Every frame of the event stream is one event of the protocol: whatever bytes the log has, a line
  cannot end a frame early or start another one, neither in the backfill nor in the live part.
\<close>

theorem frames_are_single_events:
  assumes "stream_turn sz rd s = (r, es)" "f \<in> set (first_frames backfill) \<or> f \<in> set (live_frames last_ping (zip es clock))"
  shows "one_event f"
proof -
  have "NL \<notin> set l" if "(Line l, t) \<in> set (zip es clock)" for l t
  proof -
    have "Line l \<in> set es" using that by (rule set_zip_leftD)
    then have "l \<in> set (sent_lines es)" by (induction es rule: sent_lines.induct) auto
    then show ?thesis using turn_lines_no_newline [OF assms(1)] by blast
  qed
  then show ?thesis using assms(2) first_frames_events live_frames_events by blast
qed

theorem frames_are_single_events_witness:
  "one_event (''retry: 3000'' @ [NL, NL])"
  by (rule frames_are_single_events [of "-1" "\<lambda>_ _. None" "\<lparr>read_to = 0, pending = []\<rparr>" "\<lparr>read_to = 0, pending = []\<rparr>" "[Tick, Pause 250]" _ "[]"])
     (simp_all add: stream_turn_def first_frames_def)


section \<open>The console: running tools\<close>

text \<open>
  C23. Over any sequence of requests, only those that name a registered tool which the policy permits
  have an effect: all others can be left out without changing the processes run or the files written.
  A tool is permitted exactly when its safety class is pure or offline, or network_read on a server
  started with \<^verbatim>\<open>--allow-network\<close>; live_order never is.
\<close>

theorem only_permitted_requests_act:
  "fold (\<lambda>r s. snd (handle C H r s)) rs s = fold (\<lambda>r s. snd (handle C H r s)) (filter (grants_run C H) rs) s
   \<and> (permitted tool net \<longleftrightarrow> (\<exists>safety. py_get tool ''safety'' JNull = Inr (JStr safety) \<and>
        (safety \<in> {''pure'', ''offline''} \<or> safety = ''network_read'' \<and> net)))"
  using server.only_granted permitted_iff by blast

text \<open>
  C24. Every mock a run starts is stopped when the run ends, whether it ends with a result or with any
  exception: the processes running afterwards are those that ran before, over any sequence of requests.
\<close>

theorem mocks_are_stopped:
  assumes "pids_ok s"
  shows "running (snd (run_tool H tool net s)) = running s
    \<and> running (fold (\<lambda>r s. snd (handle C H r s)) rs s) = running s"
  using settled_run_tool [of s H tool net] server.settled_all [of s C H rs] assms by (simp add: settled_def)

theorem mocks_are_stopped_witness:
  "running (snd (run_tool sample_host sample_tool False sample_ops)) = []
   \<and> running (fold (\<lambda>r s. snd (handle sample_console sample_host r s)) [Get ''/'', Post ''/api/run'' None []] sample_ops) = []"
proof -
  have "pids_ok sample_ops" "running sample_ops = []" by (simp_all add: pids_ok_def sample_ops_def)
  then show ?thesis
    using mocks_are_stopped [of sample_ops sample_host sample_tool False sample_console "[Get ''/'', Post ''/api/run'' None []]"]
    by simp
qed



text \<open>
  C26. A console started with its default arguments in the root of the repository serves what runs
  record: after a result is recorded, \<^verbatim>\<open>/api/results\<close> answers with the latest results in which the entry of
  its suite is replaced.  With another directory in \<^verbatim>\<open>--results\<close> the answer does not change, since
  results are recorded below the repository whatever that argument is.
\<close>

theorem recorded_results_are_served:
  assumes "clean ps" "host_root H = rooted ps" "py_get rec ''status'' JNull = Inr status" "status \<noteq> JStr ''refused''"
    "py_index (stamped H rec) ''suite'' = Inr (JStr suite)" "read_latest (latest s) = JObj fs"
    "wf_json (JObj (fput suite (stamped H rec) fs))" "plain_ascii (enc (indented 2) 0 (JObj (fput suite (stamped H rec) fs)))"
  shows "do_GET (make_console C H (host_root H) console_defaults) H ''/api/results'' (snd (record_result H rec s))
      = Inr (Some (send_json 200 (JObj (fput suite (stamped H rec) fs))))
    \<and> results_view (make_console C H cwd a) H (snd (record_result H rec s))
      = (if results_latest (make_console C H cwd a) = latest_path H then JObj (fput suite (stamped H rec) fs)
         else results_view (make_console C H cwd a) H s)"
proof -
  have "results_latest (make_console C H (host_root H) console_defaults) = latest_path H"
    by (rule default_results [OF assms(1,2)]) (simp add: console_defaults_def)
  moreover have "before_query ''/api/results'' = ''/api/results''" by code_simp
  ultimately show ?thesis using results_view_recorded [OF assms(3-)] by (simp add: do_GET_def)
qed

theorem recorded_results_are_served_witness:
  "results_view (make_console sample_console sample_host ''/r'' console_defaults) sample_host (snd (record_result sample_host
      (JObj [(''suite'', JStr ''t''), (''status'', JStr ''fail'')]) sample_ops))
    = JObj [(''t'', JObj [(''suite'', JStr ''t''), (''status'', JStr ''fail''), (''type'', JStr ''test_suite''), (''ts_ms'', JInt 1000)])]
   \<and> results_view (make_console sample_console sample_host ''/r'' (console_defaults\<lparr>results_arg := ''/tmp/r.ndjson''\<rparr>)) sample_host
      (snd (record_result sample_host (JObj [(''suite'', JStr ''t''), (''status'', JStr ''fail'')]) sample_ops)) = JObj []"
proof -
  let ?rec = "JObj [(''suite'', JStr ''t''), (''status'', JStr ''fail'')]"
  have st: "stamped sample_host ?rec = JObj [(''suite'', JStr ''t''), (''status'', JStr ''fail''), (''type'', JStr ''test_suite''),
      (''ts_ms'', JInt 1000)]"
    by (simp add: stamped_def sample_host_def)
  have ascii: "plain_ascii (enc (indented 2) 0 (JObj (fput ''t'' (stamped sample_host ?rec) [])))" unfolding st by code_simp
  have wf: "wf_json (JObj (fput ''t'' (stamped sample_host ?rec) []))" unfolding st by code_simp
  have empty: "read_latest (latest sample_ops) = JObj []" by (simp add: read_latest_def sample_ops_def)
  have root: "clean [''r'']" "host_root sample_host = rooted [''r'']" by (simp_all add: clean_def sample_host_def)
  have paths: "results_latest (make_console sample_console sample_host ''/r'' console_defaults) = latest_path sample_host"
    "results_latest (make_console sample_console sample_host ''/r'' (console_defaults\<lparr>results_arg := ''/tmp/r.ndjson''\<rparr>))
      \<noteq> latest_path sample_host"
    by code_simp+
  have other: "results_view (make_console sample_console sample_host ''/r'' (console_defaults\<lparr>results_arg := ''/tmp/r.ndjson''\<rparr>))
      sample_host sample_ops = JObj []"
    by code_simp
  show ?thesis
    using recorded_results_are_served [OF root, of ?rec "JStr ''fail''" "''t''" sample_ops "[]"] ascii wf empty paths other
    by (simp add: st)
qed

text \<open>
  Recording a result appends one line to the history and replaces the entry of its own suite in
  the latest results, which read back with all other entries unchanged; recording a refusal changes
  nothing.
\<close>

theorem recording_updates_one_suite:
  assumes "py_get rec ''status'' JNull = Inr status" "status \<noteq> JStr ''refused''"
    "py_index (stamped H rec) ''suite'' = Inr (JStr suite)" "read_latest (latest s) = JObj fs"
    "wf_json (JObj (fput suite (stamped H rec) fs))" "plain_ascii (enc (indented 2) 0 (JObj (fput suite (stamped H rec) fs)))"
  shows "results (snd (record_result H rec s)) = results s @ dumps spaced (stamped H rec) @ [NL]
    \<and> py_index (read_latest (latest (snd (record_result H rec s)))) suite = Inr (stamped H rec)
    \<and> (other \<noteq> suite \<longrightarrow> py_index (read_latest (latest (snd (record_result H rec s)))) other = py_index (JObj fs) other)
    \<and> record_result H (refusal name reason) s = (Inr (), s)"
  using record_latest [OF assms] record_refusal by (simp add: map_of_fput)

theorem recording_updates_one_suite_witness:
  "py_index (read_latest (latest (snd (record_result sample_host
      (JObj [(''suite'', JStr ''t''), (''status'', JStr ''fail'')]) sample_ops)))) ''t''
    = Inr (stamped sample_host (JObj [(''suite'', JStr ''t''), (''status'', JStr ''fail'')]))"
proof -
  let ?rec = "JObj [(''suite'', JStr ''t''), (''status'', JStr ''fail'')]"
  have st: "stamped sample_host ?rec = JObj [(''suite'', JStr ''t''), (''status'', JStr ''fail''), (''type'', JStr ''test_suite''),
      (''ts_ms'', JInt 1000)]"
    by (simp add: stamped_def sample_host_def)
  have "plain_ascii (enc (indented 2) 0 (JObj (fput ''t'' (stamped sample_host ?rec) [])))" unfolding st by code_simp
  moreover have "wf_json (JObj (fput ''t'' (stamped sample_host ?rec) []))" unfolding st by code_simp
  moreover have "read_latest (latest sample_ops) = JObj []" by (simp add: read_latest_def sample_ops_def)
  ultimately show ?thesis
    using recording_updates_one_suite [of ?rec "JStr ''fail''" sample_host "''t''" sample_ops "[]"] by (simp add: st)
qed

text \<open>
  C27. The tool list the console shows agrees with what the server does: an entry is marked runnable
  exactly when the policy permits the tool on this server.
\<close>

theorem tool_list_agrees_with_policy:
  assumes "tools_view C H = Inr v"
  shows "\<exists>reg out. rbind (load_registry H) py_iter = Inr reg
    \<and> v = JObj [(''allow_network'', JBool (allow_network C)), (''tools'', JList out)]
    \<and> list_all2 (\<lambda>t e. py_index e ''runnable'' = Inr (JBool (permitted t (allow_network C)))) reg out"
proof -
  obtain reg all_names out where o: "rbind (load_registry H) py_iter = Inr reg"
      "v = JObj [(''allow_network'', JBool (allow_network C)), (''tools'', JList out)]"
      "list_all2 (\<lambda>t e. annotate C all_names t = Inr e) reg out"
    using tools_view_Inr [OF assms] .
  have "list_all2 (\<lambda>t e. py_index e ''runnable'' = Inr (JBool (permitted t (allow_network C)))) reg out"
    using o(3) by (rule list_all2_mono) (rule annotate_runnable)
  then show ?thesis using o(1,2) by blast
qed

theorem tool_list_agrees_with_policy_witness:
  "\<exists>v. tools_view sample_console sample_host = Inr v \<and>
     (\<exists>out. v = JObj [(''allow_network'', JBool True), (''tools'', JList out)])"
proof -
  have "rbind (load_registry sample_host) py_iter = Inr [sample_tool, sample_live]" by (simp add: sample_load_registry)
  moreover have "rbind (runnable_test_set [sample_tool, sample_live]) names_of = Inr [JStr ''t'']" by code_simp
  moreover have "\<exists>out. traverse (annotate sample_console [JStr ''t'']) [sample_tool, sample_live] = Inr out"
    by (simp add: annotate_def sample_tool_def sample_live_def may_run_def)
  ultimately obtain v where v: "tools_view sample_console sample_host = Inr v" by (auto simp: tools_view_def)
  then show ?thesis using tool_list_agrees_with_policy [OF v] by (auto simp: sample_console_def)
qed


section \<open>The tool registry\<close>

text \<open>
  When the check of the tool registry exits with 0, the registry is a non-empty list of tools that
  all have the required fields, a known safety class and kind and, for tests and checks, a pass token;
  their names are pairwise different; and the registered binaries are exactly the tools the Makefile
  builds.
\<close>

theorem checked_registry_is_sound:
  assumes "check_main T require_built = Inr (0, out)"
  shows "\<exists>tx data ts mk. tools_text T = Inr tx \<and> loads tx = Inr data
    \<and> py_get data ''tools'' (JList []) = Inr (JList ts) \<and> makefile_text T = Inr mk \<and> ts \<noteq> []
    \<and> list_all tool_ok ts \<and> distinct (map tool_name ts)
    \<and> {x. \<exists>t \<in> set ts. tool_bin t = Some x} = set (tool_targets (text_lines mk))"
proof -
  obtain tx data ts mk where "tools_text T = Inr tx" "loads tx = Inr data" "py_get data ''tools'' (JList []) = Inr (JList ts)"
      "makefile_text T = Inr mk" "ts \<noteq> []" "list_all tool_ok ts" "distinct (map tool_name ts)"
      "{x. \<exists>t \<in> set ts. tool_bin t = Some x} = set (tool_targets (text_lines mk))"
    using check_main_ok [OF assms] .
  then show ?thesis by blast
qed

theorem checked_registry_is_sound_witness:
  "\<exists>out. check_main sample_tree False = Inr (0, out) \<and> (\<exists>tx data. tools_text sample_tree = Inr tx \<and> loads tx = Inr data)"
proof -
  obtain out where o: "check_main sample_tree False = Inr (0, out)" using sample_check by blast
  then show ?thesis using checked_registry_is_sound [OF o] by blast
qed

text \<open>
  C28. The registry check and the server fit together: on a registry that passes the check, a request to
  run a live_order tool finds exactly that tool, is answered with 403 and its reason, and changes
  nothing, whether or not the server allows the network.
\<close>

theorem live_order_is_refused:
  assumes "check_main T require_built = Inr (0, out)" "tools_text T = Inr tx" "host_tools H = Some tx"
    "load_registry H = Inr (JList ts)" "t \<in> set ts" "tool_name t = JStr n"
    "py_get t ''safety'' JNull = Inr (JStr ''live_order'')"
    "before_query p = ''/api/run''" "request_body content_length input = Some b" "py_get b ''name'' (JStr []) = Inr (JStr n)"
  shows "do_POST C H p content_length input s = (Inr (send_json 403 (JObj [(''error'', JStr ''refused''), (''name'', JStr n),
    (''reason'', JStr ''live_order tools transmit/mutate real state and are never runnable from the console'')])), s)"
proof -
  obtain ts' where "load_registry H = Inr (JList ts')" "ts' \<noteq> []" "list_all tool_ok ts'" "distinct (map tool_name ts')"
    using checked_registry_loads [OF assms(1-3)] .
  then have ok: "list_all tool_ok ts" "distinct (map tool_name ts)" using assms(4) by simp_all
  have found: "named_tool H b = Inr (JStr n, Some t)" by (rule checked_tool_found [OF ok assms(5,6,4,10)])
  have "truthy t" using assms(7) by (cases t) (auto split: option.splits)
  then show ?thesis using refused_answer [OF assms(8,9) found _ live_order_reason [OF assms(7)]] by blast
qed

theorem live_order_is_refused_witness:
  "fst (do_POST sample_console sample_host ''/api/run'' (Some ''12'') (enc compact 0 (JObj [(''name'', JStr ''l'')])) sample_ops)
    = Inr (send_json 403 (JObj [(''error'', JStr ''refused''), (''name'', JStr ''l''),
    (''reason'', JStr ''live_order tools transmit/mutate real state and are never runnable from the console'')]))"
proof -
  obtain out where o: "check_main sample_tree False = Inr (0, out)" using sample_check by blast
  let ?i = "enc compact 0 (JObj [(''name'', JStr ''l'')])"
  have "loads ?i = Inr (JObj [(''name'', JStr ''l'')])" by (rule canon.parse_print) simp
  moreover have "valid_utf8 (take 12 ?i)" "take 12 ?i = ?i" "py_int ''12'' = Some 12" by code_simp+
  ultimately have b: "request_body (Some ''12'') ?i = Some (JObj [(''name'', JStr ''l'')])" by (simp add: request_body_def Let_def)
  have "tool_name sample_live = JStr ''l''" "py_get sample_live ''safety'' JNull = Inr (JStr ''live_order'')"
    "before_query ''/api/run'' = ''/api/run''" by code_simp+
  then show ?thesis
    using live_order_is_refused [OF o _ _ sample_load_registry, of sample_text sample_live "''l''" "''/api/run''" "Some ''12''" ?i _
        sample_console sample_ops] b
    by (simp add: sample_tree_def sample_host_def)
qed


section \<open>The latency probe\<close>

text \<open>
  C29. The probe only reads: whatever the world answers, every request it sends is a GET of one of its
  two endpoints; and unless a message cannot be signed it sends one request and writes one sample per
  turn.
\<close>

theorem probe_only_reads:
  "list_all read_request (requests (snd (probe_loop S 0 os probe_start)))
   \<and> (fst (probe_loop S 0 os probe_start) = None \<longrightarrow>
        length (requests (snd (probe_loop S 0 os probe_start))) = length os
        \<and> length (samples (snd (probe_loop S 0 os probe_start))) = length os)"
  using probe_loop_requests [of probe_start S 0 os] probe_loop_counts [of S 0 os probe_start] by (simp add: probe_start_def)

theorem probe_only_reads_witness:
  "length (requests (snd (probe_loop sample_config 0 [sample_failure] probe_start))) = 1"
  using probe_only_reads [of sample_config "[sample_failure]"] by (simp add: sample_failure_def sign_def)

text \<open>
  Every sample is counted exactly once: as an error, as the cold sample of a new connection, or
  as one of the round trips the percentiles are taken over.
\<close>

theorem samples_counted_once:
  "length (samples (snd (probe_loop S 0 os probe_start))) = errors (snd (probe_loop S 0 os probe_start))
     + cold_samples (snd (probe_loop S 0 os probe_start)) + warm_samples (snd (probe_loop S 0 os probe_start))"
  using balanced_loop [OF balanced_start] by (simp add: balanced_def)

text \<open>
  The numbers of a summary row are samples of its endpoint and in order: the minimum, the three
  percentiles and the maximum, each at most the next.
\<close>

theorem percentiles_in_order:
  assumes "xs \<noteq> []" "v = dy_sort xs"
  shows "set v = set xs \<and> percentile v p \<in> set xs
    \<and> dy_le (hd v) (percentile v 50) \<and> dy_le (percentile v 50) (percentile v 90)
    \<and> dy_le (percentile v 90) (percentile v 99) \<and> dy_le (percentile v 99) (last v)"
proof -
  have "v \<noteq> []" "sorted_wrt dy_le v" "set v = set xs"
    using assms dy_sort_set [of xs] dy_sort_sorted [of xs] by auto
  then show ?thesis using percentile_mem [of v p] percentile_mono [of v] percentile_between [of v] by simp
qed

theorem percentiles_in_order_witness:
  "dy_le (percentile (dy_sort [(7, 1), (3, 0), (1, 2)]) 50) (percentile (dy_sort [(7, 1), (3, 0), (1, 2)]) 90)"
  using percentiles_in_order [of "[(7, 1), (3, 0), (1, 2)]" "dy_sort [(7, 1), (3, 0), (1, 2)]"] by simp


section \<open>The console: the page\<close>

text \<open>
  C30. The page is a view of the events: whatever renderings, timers and clicks come in between, its event
  log is the last 1000 events it accepted, its order table the last 200 orders among them, every feed is
  shown with its last event, and every reject counter is the number of rejects of its kind.
\<close>

theorem page_reflects_events:
  "event_log (fold page_step hs (page_start D)) = last_n MAX_LOG (map snd (filter (\<lambda>(B, ev). accepted B ev) (events hs)))
   \<and> orders (fold page_step hs (page_start D)) = last_n MAX_ORDERS (order_events (events hs))
   \<and> feed_of (fold page_step hs (page_start D)) = map_of (rev (List.map_filter feed_given (events hs)))
   \<and> (\<forall>k. reject_count (fold page_step hs (page_start D)) k = length (filter (counted_as k) (events hs)))"
proof (intro conjI allI)
  let ?p = "page_start D :: page"
  have start: "event_log ?p = []" "orders ?p = []" "feed_of ?p = Map.empty" "reject_count ?p k = 0" for k
    by (auto simp: page_start_def feed_of_def map_get_def reject_count_def fun_eq_iff)
  have "List.map_filter (\<lambda>(B, ev). if accepted B ev then Some ev else None) es = map snd (filter (\<lambda>(B, ev). accepted B ev) es)" for es
    using map_filter_guard [of "\<lambda>(B, ev). accepted B ev" snd es] by (simp add: case_prod_unfold)
  then show "event_log (fold page_step hs ?p) = last_n MAX_LOG (map snd (filter (\<lambda>(B, ev). accepted B ev) (events hs)))"
    using page_log.view_fold [of ?p hs] by (simp add: start map_filter_events)
  show "orders (fold page_step hs ?p) = last_n MAX_ORDERS (order_events (events hs))"
    using page_orders_fold [of ?p hs] by (simp add: start)
  show "feed_of (fold page_step hs ?p) = map_of (rev (List.map_filter feed_given (events hs)))"
    using page_feeds.look_fold [of hs ?p] by (simp add: start map_filter_events)
  show "reject_count (fold page_step hs ?p) k = length (filter (counted_as k) (events hs))" for k
    using page_rejects.total_fold [of hs ?p k] by (simp add: start filter_events)
qed

text \<open>
  C31. The Live tab keeps up: as long as the events have the expected types, in whatever order they come
  and whichever fields they lack or add, a turn of the render timer raises nothing and leaves no panel
  to be drawn.
\<close>

theorem live_tab_keeps_up:
  assumes "expected_events hs"
  shows "fst (render_tick B (fold page_step hs (page_start D))) = Inr ()
    \<and> (\<forall>d. \<not> dirty (snd (render_tick B (fold page_step hs (page_start D)))) d)"
proof -
  have "page_ok (page_start D)" by (simp add: page_ok_def page_start_def obj_plain_def empty_obj_def)
  then have "page_ok (fold page_step hs (page_start D))" using assms by (rule page_ok_steps)
  then show ?thesis using render_tick_returns by (auto simp: returns_def)
qed

theorem live_tab_keeps_up_witness:
  "fst (render_tick sample_browser (fold page_step [(sample_browser, Event sample_order)] (page_start (\<lambda>_. Html [])))) = Inr ()"
proof -
  have "expected_events [(sample_browser, Event sample_order)]"
    by (simp add: expected_events_def events_def List.map_filter_def sample_events_ok)
  then show ?thesis using live_tab_keeps_up [of "[(sample_browser, Event sample_order)]" sample_browser "\<lambda>_. Html []"] by blast
qed

text \<open>
  C32. An order whose status is a true value but not a text stops the tables (null, 0, false and the empty text do not): until 200 further orders have pushed it out of
  the list, every turn of the render timer ends with an exception before the event log is drawn, which
  stays as it was whatever else happens.
\<close>

theorem malformed_order_stops_log:
  assumes "accepted B ev" "has_type ev ''order''" "bad_status ev" "length (orders p) \<le> MAX_ORDERS"
    and "length (order_events (events hs)) < MAX_ORDERS"
  shows "\<not> returns (fst (render_tick B' (fold page_step hs (page_step (B, Event ev) p))))
    \<and> display (fold page_step hs (page_step (B, Event ev) p)) ''log-tbody'' = display p ''log-tbody''"
proof -
  let ?q = "page_step (B, Event ev) p"
  have o: "orders ?q = last_n MAX_ORDERS (orders p @ [ev])"
    using order_ring.view_step [of "(B, ev)" p] assms(1,2) by (simp add: push_last_n)
  have "orders ?q = drop (length (orders p) + 1 - MAX_ORDERS) (orders p) @ [ev]"
    using assms(4) unfolding o by (simp add: last_n_def MAX_ORDERS_def)
  then obtain xs where xs: "orders ?q = xs @ [ev]" by blast
  have len: "length (orders ?q) \<le> MAX_ORDERS" unfolding o by (simp add: length_last_n)
  have "dirty ?q OrderPanel"
    using assms(1,2) by (auto simp: dispatch_def on_order_def elim!: ingest_accepted [where p = p])
  moreover have "ev \<in> set (last_n MAX_ORDERS (orders ?q))" using xs last_n_id [OF len] by simp
  ultimately have "tables_stopped ?q" using assms(3) by (auto simp: tables_stopped_def)
  then have "tables_stopped (fold page_step hs ?q) \<and> display (fold page_step hs ?q) ''log-tbody'' = display ?q ''log-tbody''"
    using stopped_until_pushed_out [OF _ xs assms(3) len assms(5)] by blast
  then show ?thesis using stopped_tick(1) log_table_step [of "(B, Event ev)" p] by auto
qed

theorem malformed_order_stops_log_witness:
  "display (fold page_step [(sample_browser, RenderTick)] (page_step (sample_browser, Event sample_bad_order) (page_start (\<lambda>_. Html ''old''))))
     ''log-tbody'' = Html ''old''"
proof -
  have "has_type sample_bad_order ''order''" "display (page_start (\<lambda>_. Html ''old'')) ''log-tbody'' = Html ''old''"
    "length (orders (page_start (\<lambda>_. Html ''old''))) \<le> MAX_ORDERS" "length (order_events (events [(sample_browser, RenderTick)])) < MAX_ORDERS"
    by (simp_all add: sample_bad_order_def page_start_def MAX_ORDERS_def order_events_def events_def List.map_filter_def)
  then show ?thesis using malformed_order_stops_log [OF sample_events_ok(2) _ sample_events_ok(6)] by metis
qed



text \<open>
  C34. Text from an event cannot become markup: a row of the event log has its ten tags whatever the event
  holds, and escaped text is shown as it was.
\<close>

theorem event_text_stays_text:
  assumes "tidy_browser B" "log_row B (ev, i) = Inr html"
  shows "tag_count html = 10 \<and> (\<forall>s. html_text (escape s) = s)"
  using log_row_shape [OF assms] html_text_escape by blast

theorem event_text_stays_text_witness:
  "\<exists>html. log_row sample_browser (sample_order, 0) = Inr html \<and> tag_count html = 10"
proof -
  have "case log_row sample_browser (sample_order, 0) of Inr html \<Rightarrow> True | Inl e \<Rightarrow> False" by code_simp
  then obtain html where h: "log_row sample_browser (sample_order, 0) = Inr html" by (auto split: sum.splits)
  then show ?thesis using event_text_stays_text [OF sample_tidy h] by blast
qed


section \<open>The console: from the file to the page\<close>

text \<open>
  C35. The parts fit together: a page that connects while the metrics file holds complete, non-blank lines
  has, after any later caught-up turn of the stream, exactly the events of the last lines of the file as
  it is then in its log: the lines of the backfill, at most 1000, followed by every line since, without
  the carriage returns that the server takes out of a live line; parsed, without those the page refuses,
  and of these the last 1000.
\<close>

theorem file_reaches_page:
  assumes "ends_line content" "no_blank_lines content" "content \<noteq> []"
    and "tails\<^sup>*\<^sup>* (tail_start content (length content)) w"
    and "stream_turn (file_size (Some (log w))) (reads_of (log w)) (reader w) = (r, es)"
    and "map fst ts = yielded w @ es" "map snd bes = sse_events (stream_bytes C content t ts)"
    and "new = sent_lines (map fst ts)"
  shows "\<exists>old. old @ new = last_n (1000 + length new) (map decode_replace (lines_of (complete_of (log w))))
    \<and> event_log (follow bes (on_open (page_start D)))
        = last_n MAX_LOG (filter acceptable (parsed (old @ map (filter (\<lambda>c. c \<noteq> CR)) new)))"
proof -
  obtain old bevs where b: "old @ new = last_n (1000 + length new) (map decode_replace (lines_of (complete_of (log w))))"
      "follow bes (on_open (page_start D)) = fold take_in bevs (on_open (page_start D))"
      "map snd bevs = parsed (old @ map (filter (\<lambda>c. c \<noteq> CR)) new)"
    using file_to_page [OF assms(1-7), of "on_open (page_start D)"] assms(8) by metis
  then show ?thesis using event_log_events [of "on_open (page_start D)" bevs] by (auto simp: page_start_def on_open_def)
qed

theorem file_reaches_page_witness:
  "\<exists>bes. event_log (follow bes (on_open (page_start (\<lambda>_. Html [])))) = [sample_order, sample_reject]"
proof -
  let ?l1 = "enc compact 0 sample_order" and ?l2 = "enc compact 0 sample_reject"
  let ?c = "?l1 @ [NL]"
  let ?w = "(tail_start ?c (length ?c))\<lparr>log := log (tail_start ?c (length ?c)) @ ?l2 @ [NL]\<rparr>"
  obtain r es where t: "stream_turn (file_size (Some (log ?w))) (reads_of (log ?w)) (reader ?w) = (r, es)" by fastforce
  have "sent_lines (snd (stream_turn (file_size (Some (log ?w))) (reads_of (log ?w)) (reader ?w))) = [?l2]" by code_simp
  moreover have "yielded ?w = []" by (simp add: tail_start_def)
  ultimately have new: "[?l2] = sent_lines (map fst (map (\<lambda>e. (e, 0)) (yielded ?w @ es)))" using t by (simp add: comp_def)
  let ?ts = "map (\<lambda>e. (e, 0)) (yielded ?w @ es)"
  let ?bes = "map (Pair sample_browser) (sse_events (stream_bytes sample_console ?c 0 ?ts))"
  have ok: "ends_line ?c" "no_blank_lines ?c" "?c \<noteq> []" "tails\<^sup>*\<^sup>* (tail_start ?c (length ?c)) ?w"
    by (simp add: ends_line_def, code_simp, simp, rule r_into_rtranclp, rule tails.append)
  have m: "map fst ?ts = yielded ?w @ es" "map snd ?bes = sse_events (stream_bytes sample_console ?c 0 ?ts)" by (simp_all add: comp_def)
  have all: "map decode_replace (lines_of (complete_of (log ?w))) = [?l1, ?l2]" by code_simp
  obtain old where old: "old @ [?l2] = last_n (1000 + length [?l2]) (map decode_replace (lines_of (complete_of (log ?w))))"
      "event_log (follow ?bes (on_open (page_start (\<lambda>_. Html []))))
        = last_n MAX_LOG (filter acceptable (parsed (old @ map (filter (\<lambda>c. c \<noteq> CR)) [?l2])))"
    using file_reaches_page [OF ok t m new, of "\<lambda>_. Html []"] by blast
  have "old = [?l1]" using old(1) unfolding all by (simp add: last_n_def)
  moreover have "last_n MAX_LOG (filter acceptable (parsed ([?l1] @ map (filter (\<lambda>c. c \<noteq> CR)) [?l2]))) = [sample_order, sample_reject]"
    by (rule sample_parsed)
  ultimately show ?thesis using old(2) by (intro exI [of _ ?bes]) (simp only:)
qed

text \<open>
  C36. A reconnection counts rejects twice.  A page connects while the metrics file holds complete, non-blank
  lines, receives the backfill and the live lines, loses the connection, opens the next one and receives
  the backfill the server reads from the file as it is then.  If the file then has at most 1000 lines, all complete and not blank, and no carriage
  return, if nothing is appended during the second connection, and if the built-in texts of the browser
  stay the same, then a counter shows the number of the file's events that it counts when the first
  connection is lost, and twice that number when the second one is.
\<close>

theorem reconnect_counts_twice:
  assumes "ends_line content" "no_blank_lines content" "content \<noteq> []"
    and "tails\<^sup>*\<^sup>* (tail_start content (length content)) w"
    and "stream_turn (file_size (Some (log w))) (reads_of (log w)) (reader w) = (r, es)"
    and "map fst ts = yielded w @ es" "map snd bes = sse_events (stream_bytes C content t ts)"
    and "ends_line (log w)" "no_blank_lines (log w)" "CR \<notin> set (log w)" "length (lines_of (log w)) \<le> 1000"
    and "sent_lines (map fst ts') = []" "map snd bes' = sse_events (stream_bytes C (log w) t' ts')"
    and "\<And>B. B \<in> fst ` set (bes @ bes') \<Longrightarrow> native_text B = native_text B0"
    and "n = length (filter (\<lambda>ev. counted_as k (B0, ev)) (parsed (map decode_replace (lines_of (log w)))))"
  shows "reject_count (connection bes (page_start D)) k = n
    \<and> reject_count (connection bes' (connection bes (page_start D))) k = 2 * n"
proof -
  have zero: "reject_count (page_start D) k = 0" by (simp add: page_start_def reject_count_def)
  have "log w \<noteq> []" using reachable_log [OF assms(4)] assms(3) by (auto simp: tail_start_def)
  moreover have "native_text B = native_text B0" if "B \<in> fst ` set bes \<or> B \<in> fst ` set bes'" for B
    using that by (intro assms(14)) auto
  ultimately show ?thesis
    using first_connection [OF assms(1-8,10,11), of B0 "page_start D" k]
      later_connection [OF assms(9,11) _ assms(12,13), of B0 "connection bes (page_start D)" k] zero unfolding assms(15) by simp
qed

theorem reconnect_counts_twice_witness:
  "\<exists>bes bes'. reject_count (connection bes (page_start (\<lambda>_. Html []))) ''duplicate'' = 1
     \<and> reject_count (connection bes' (connection bes (page_start (\<lambda>_. Html [])))) ''duplicate'' = 2"
proof -
  let ?l = "enc compact 0 sample_reject"
  let ?c = "?l @ [NL]"
  let ?w = "tail_start ?c (length ?c)"
  obtain r es where t: "stream_turn (file_size (Some (log ?w))) (reads_of (log ?w)) (reader ?w) = (r, es)" by fastforce
  let ?ts = "map (\<lambda>e. (e, 0)) (yielded ?w @ es)"
  let ?bes = "map (Pair sample_browser) (sse_events (stream_bytes sample_console ?c 0 ?ts))"
  let ?bes' = "map (Pair sample_browser) (sse_events (stream_bytes sample_console (log ?w) 0 []))"
  have ok: "ends_line ?c" "no_blank_lines ?c" "?c \<noteq> []" "tails\<^sup>*\<^sup>* ?w ?w" "log ?w = ?c"
    by (simp add: ends_line_def, code_simp, simp, simp, simp add: tail_start_def)
  have small: "CR \<notin> set ?c" "length (lines_of ?c) \<le> 1000" by code_simp+
  have one: "length (filter (\<lambda>ev. counted_as ''duplicate'' (sample_browser, ev)) (parsed (map decode_replace (lines_of ?c)))) = 1"
    by (rule sample_counted)
  have "reject_count (connection ?bes (page_start (\<lambda>_. Html []))) ''duplicate'' = 1
     \<and> reject_count (connection ?bes' (connection ?bes (page_start (\<lambda>_. Html [])))) ''duplicate'' = 2 * 1"
    by (rule reconnect_counts_twice [OF ok(1-4) t, of ?ts _ sample_console 0 "[]" _ 0 sample_browser])
       (use ok(1,2,5) small one in \<open>auto simp: comp_def\<close>)
  then show ?thesis by auto
qed

text \<open>
  C37. Run all does what the server means by it: on a registry that satisfies the check, whose tools have
  names in ASCII and whose list is well formed with every text in UTF-8 (descriptions can have any
  characters), the tools the page picks from the list it is given are exactly the server's own set of
  tests, in its order, and every request it sends for them is granted.
\<close>

theorem run_all_is_granted:
  assumes "load_registry H = Inr (JList ts)" "list_all tool_ok ts" "distinct (map tool_name ts)"
    "list_all (\<lambda>t. \<exists>n. tool_name t = JStr n \<and> PyText.is_ascii n) ts"
    "tools_view C H = Inr v" "wf_json v" "utf8_json v"
  shows "\<exists>tj tests us. fetch_json (handle C H) (Get ''/api/tools'') s = (Some tj, s)
    \<and> runnable_test_set ts = Inr tests \<and> run_all_tools tj = Inr us
    \<and> map (\<lambda>u. field u ''name'') us = map (\<lambda>t. Some (tool_name t)) tests
    \<and> list_all (\<lambda>u. grants_run C H (run_request (field u ''name''))) us"
  using run_all_requests [OF assms] fetch_tools [OF assms(5-7)] by blast

theorem run_all_is_granted_witness:
  "\<exists>tj us. fetch_json (handle sample_console sample_host) (Get ''/api/tools'') sample_ops = (Some tj, sample_ops)
     \<and> run_all_tools tj = Inr us \<and> map (\<lambda>u. field u ''name'') us = [Some (JStr ''t'')]"
proof -
  let ?ts = "[sample_tool, sample_live]"
  let ?view = "\<lambda>out. JObj [(''allow_network'', JBool True), (''tools'', JList out)]"
  have n: "rbind (runnable_test_set ?ts) names_of = Inr [JStr ''t'']" "runnable_test_set ?ts = Inr [sample_tool]" by code_simp+
  have "case traverse (annotate sample_console [JStr ''t'']) ?ts of
      Inr out \<Rightarrow> wf_json (?view out) \<and> utf8_json (?view out) | Inl e \<Rightarrow> False" by code_simp
  then obtain out where out: "traverse (annotate sample_console [JStr ''t'']) ?ts = Inr out"
      "wf_json (?view out)" "utf8_json (?view out)"
    by (auto split: sum.splits)
  have view: "tools_view sample_console sample_host = Inr (?view out)"
    using n(1) out(1) by (simp add: tools_view_def sample_load_registry) (simp add: sample_console_def)
  have names: "map tool_name ?ts = [JStr ''t'', JStr ''l'']" "PyText.is_ascii ''t''" "PyText.is_ascii ''l''" by code_simp+
  obtain x where x: "check_main sample_tree False = Inr (0, x)" using sample_check by blast
  have tx: "tools_text sample_tree = Inr sample_text" "host_tools sample_host = Some sample_text"
    by (simp_all add: sample_tree_def sample_host_def)
  obtain ts where "load_registry sample_host = Inr (JList ts)" "ts \<noteq> []" "list_all tool_ok ts" "distinct (map tool_name ts)"
    using checked_registry_loads [OF x tx] .
  then have ok: "list_all tool_ok ?ts" "distinct (map tool_name ?ts)" by (simp_all add: sample_load_registry)
  have ascii: "list_all (\<lambda>t. \<exists>n. tool_name t = JStr n \<and> PyText.is_ascii n) ?ts" using names by auto
  show ?thesis
    using run_all_is_granted [OF sample_load_registry ok ascii view out(2,3), of sample_ops] n(2) names(1) by auto
qed


section \<open>The console: concurrent requests\<close>

text \<open>
  C38. No result is lost from the history: however the calls of \<^verbatim>\<open>record\<close> in different handler threads
  interleave, and into however many writes a line longer than the buffer is cut, at every moment the
  history is what it was before, followed by pieces each of which is from one of the calls.  The pieces of
  a call make, in their order, a beginning of its line, stamped with the time of its first turn, and the whole line
  once it is past its append; a line that fits the buffer is one piece; and a call that has had no turn
  or does not report has none.
\<close>

theorem history_survives_interleaving:
  assumes "w = fold (take_turn K H) us (all_entered recs s)"
  shows "\<exists>ps. results (result_files w) = results s @ concat (map snd ps) \<and> (\<forall>(i, _) \<in> set ps. i < length recs)
    \<and> (\<forall>i < length recs. case map_of us i of
         None \<Rightarrow> pieces i ps = []
       | Some (t, _) \<Rightarrow> if reports (recs ! i)
           then prefix (concat (pieces i ps)) (history_line H recs (i, t))
             \<and> (past_append (threads w ! i) \<longrightarrow> concat (pieces i ps) = history_line H recs (i, t))
             \<and> (length (history_line H recs (i, t)) \<le> K \<longrightarrow> pieces i ps \<in> {[], [history_line H recs (i, t)]})
           else pieces i ps = [])"
proof -
  obtain ps where ps: "results (result_files w) = results s @ concat (map snd ps)" "\<forall>(i, _) \<in> set ps. i < length recs"
      "\<forall>i < length recs. thread_kept K H recs i (map_of us i) (threads w ! i) (pieces i ps)"
    using history_kept_schedule [of K H recs s us] unfolding assms history_kept_def by blast
  have "case map_of us i of None \<Rightarrow> pieces i ps = []
       | Some (t, _) \<Rightarrow> if reports (recs ! i)
           then prefix (concat (pieces i ps)) (history_line H recs (i, t))
             \<and> (past_append (threads w ! i) \<longrightarrow> concat (pieces i ps) = history_line H recs (i, t))
             \<and> (length (history_line H recs (i, t)) \<le> K \<longrightarrow> pieces i ps \<in> {[], [history_line H recs (i, t)]})
           else pieces i ps = []" if "i < length recs" for i
    using ps(3) that by (fastforce simp: thread_kept_def appends_line_def split: option.splits if_splits)
  then show ?thesis using ps(1,2) by blast
qed

theorem history_survives_interleaving_witness:
  "\<exists>ps. results (result_files (fold (take_turn 999 sample_host) (read_both 999) (all_entered [sample_first, sample_second] sample_ops)))
       = concat (map snd ps)
     \<and> pieces 0 ps = [history_line sample_host [sample_first, sample_second] (0, 1)]
     \<and> pieces 1 ps = [history_line sample_host [sample_first, sample_second] (1, 2)]"
proof -
  let ?recs = "[sample_first, sample_second]"
  let ?w = "fold (take_turn 999 sample_host) (read_both 999) (all_entered ?recs sample_ops)"
  obtain ps where ps: "results (result_files ?w) = results sample_ops @ concat (map snd ps)"
      "\<forall>i < length ?recs. case map_of (read_both 999) i of None \<Rightarrow> pieces i ps = []
       | Some (t, _) \<Rightarrow> if reports (?recs ! i)
           then prefix (concat (pieces i ps)) (history_line sample_host ?recs (i, t))
             \<and> (past_append (threads ?w ! i) \<longrightarrow> concat (pieces i ps) = history_line sample_host ?recs (i, t))
             \<and> (length (history_line sample_host ?recs (i, t)) \<le> 999 \<longrightarrow> pieces i ps \<in> {[], [history_line sample_host ?recs (i, t)]})
           else pieces i ps = []"
    using history_survives_interleaving [OF refl, of 999 sample_host "read_both 999" ?recs sample_ops] by blast
  have w: "threads ?w = [Returned, Returned]" by code_simp
  have len: "length (history_line sample_host ?recs (0, 1)) \<le> 999" "length (history_line sample_host ?recs (1, 2)) \<le> 999" by code_simp+
  have first: "map_of (read_both 999) 0 = Some (1, 999)" "map_of (read_both 999) 1 = Some (2, 999)" by (simp_all add: read_both_def)
  have rep: "reports sample_first" "reports sample_second" using sample_records by (simp_all add: records_into_def)
  have "pieces 0 ps = [history_line sample_host ?recs (0, 1)]"
    using ps(2) [rule_format, of 0] w len(1) first(1) rep(1) by (auto simp: history_line_nonempty [THEN not_sym])
  moreover have "pieces 1 ps = [history_line sample_host ?recs (1, 2)]"
    using ps(2) [rule_format, of 1] w len(2) first(2) rep(2) by (auto simp: history_line_nonempty [THEN not_sym])
  moreover have "results sample_ops = []" by (simp add: sample_ops_def)
  ultimately show ?thesis using ps(1) by auto
qed

text \<open>
  C39. A call of \<^verbatim>\<open>record\<close> that no other interrupts, for a well-formed result that is not a refusal and names
  its suite, when the latest results are a dictionary and all texts are UTF-8, ends however its writes are
  cut into pieces, given a turn for every character and four more: it has appended one line to the history
  that reads back as the result stamped with the time of its first turn, and the file of the latest results reads
  back as the dictionary it held before with the entry of that suite replaced by the stamped result.
  Nothing else has changed.
\<close>

theorem uninterrupted_record:
  assumes "reports rec" "wf_json rec" "utf8_json rec" "py_index rec ''suite'' = Inr (JStr suite)"
    "read_latest (latest s) = JObj fs" "wf_json (JObj fs)" "utf8_json (JObj fs)" "r = stamped (at_time H t) rec"
    "length (dumps spaced r) + length (dumps (indented 2) (JObj (fput suite r fs))) + 4 \<le> length us"
  shows "\<exists>line out. run_alone K H ((t, n) # us) (Entered rec, s)
      = (Returned, s\<lparr>results := results s @ line @ [NL], latest := Some out\<rparr>)
    \<and> NL \<notin> set line \<and> loads line = Inr r \<and> read_latest (Some out) = JObj (fput suite r fs)"
proof -
  note st = record_stored [OF assms(2-8)]
  have "run_alone K H ((t, n) # us) (Entered rec, s)
      = (Returned, (with_line r s)\<lparr>latest := Some (dumps (indented 2) (JObj (fput suite r fs)))\<rparr>)"
    using record_alone [OF assms(1), of H t s _ us K n, folded assms(8), OF st(1)] assms(9) by simp
  then show ?thesis using st(2,3) dumps_spaced_no_newline [of r] by (auto simp: with_line_def)
qed

theorem uninterrupted_record_witness:
  "\<exists>line out us. run_alone 7 sample_host ((1, 0) # us) (Entered sample_first, sample_ops)
      = (Returned, sample_ops\<lparr>results := line @ [NL], latest := Some out\<rparr>)
    \<and> loads line = Inr (stamped (at_time sample_host 1) sample_first)
    \<and> read_latest (Some out) = JObj [(''a'', stamped (at_time sample_host 1) sample_first)]"
proof -
  let ?r = "stamped (at_time sample_host 1) sample_first"
  let ?us = "replicate (length (dumps spaced ?r) + length (dumps (indented 2) (JObj (fput ''a'' ?r []))) + 4) (2, 0)"
  have "reports sample_first" "wf_json sample_first" "utf8_json sample_first" "py_index sample_first ''suite'' = Inr (JStr ''a'')"
    "read_latest (latest sample_ops) = JObj []" "wf_json (JObj [])" "utf8_json (JObj [])"
    by code_simp+
  then have "\<exists>line out. run_alone 7 sample_host ((1, 0) # ?us) (Entered sample_first, sample_ops)
      = (Returned, sample_ops\<lparr>results := results sample_ops @ line @ [NL], latest := Some out\<rparr>)
    \<and> NL \<notin> set line \<and> loads line = Inr ?r \<and> read_latest (Some out) = JObj (fput ''a'' ?r [])"
    by (rule uninterrupted_record) simp_all
  moreover have "results sample_ops = []" by (simp add: sample_ops_def)
  ultimately show ?thesis by auto
qed

text \<open>
  C40. Two calls at the same time can lose a result: both return and the history has both lines, but the
  file of the latest results holds the second suite on top of what was there before and not the first;
  and if both open the file before either writes, it holds the second text followed by the rest of the
  first when that is longer.
\<close>

theorem concurrent_records_lose_a_result:
  assumes "records_into H 1 a s" "records_into H 2 b s" "py_index (stamped (at_time H 2) b) ''suite'' = Inr (JStr y)"
    "read_latest (latest s) = JObj fs" "wf_json (JObj (fput y (stamped (at_time H 2) b) fs))"
    "plain_ascii (enc (indented 2) 0 (JObj (fput y (stamped (at_time H 2) b) fs)))"
  shows "(\<exists>w. interleaves K H (all_entered [a, b] s) w \<and> threads w = [Returned, Returned]
      \<and> results (result_files w) = results s @ dumps spaced (stamped (at_time H 1) a) @ [NL] @ dumps spaced (stamped (at_time H 2) b) @ [NL]
      \<and> read_latest (latest (result_files w)) = JObj (fput y (stamped (at_time H 2) b) fs))
    \<and> (\<exists>w. interleaves K H (all_entered [a, b] s) w \<and> threads w = [Returned, Returned]
      \<and> latest (result_files w) = Some (text_of H 2 b s @ drop (length (text_of H 2 b s)) (text_of H 1 a s)))"
proof -
  let ?m = "length (text_of H 1 a s) + length (text_of H 2 b s)
    + length (dumps spaced (stamped (at_time H 1) a)) + length (dumps spaced (stamped (at_time H 2) b))"
  have "text_of H 2 b s = dumps (indented 2) (JObj (fput y (stamped (at_time H 2) b) fs))"
    using assms(3,4) by (simp add: text_of_def update_of_def py_put_def)
  then have "read_latest (Some (text_of H 2 b s)) = JObj (fput y (stamped (at_time H 2) b) fs)"
    using loads_dumps [OF _ assms(5,6)] by (simp add: read_latest_def)
  then show ?thesis
    using two_calls [OF assms(1,2), of ?m K] interleaves_schedule [of K H "all_entered [a, b] s" "read_both ?m"]
      interleaves_schedule [of K H "all_entered [a, b] s" "open_both ?m"] by fastforce
qed

theorem concurrent_records_lose_a_result_witness:
  "\<exists>w. interleaves 8192 sample_host (all_entered [sample_first, sample_second] sample_ops) w \<and> threads w = [Returned, Returned]
     \<and> (\<exists>fs. read_latest (latest (result_files w)) = JObj fs \<and> map_of fs ''a'' = None)"
proof -
  let ?b = "stamped (at_time sample_host 2) sample_second"
  have "py_index ?b ''suite'' = Inr (JStr ''b'')" "read_latest (latest sample_ops) = JObj []"
    "wf_json (JObj (fput ''b'' ?b []))" "plain_ascii (enc (indented 2) 0 (JObj (fput ''b'' ?b [])))"
    by code_simp+
  then obtain w where w: "interleaves 8192 sample_host (all_entered [sample_first, sample_second] sample_ops) w" "threads w = [Returned, Returned]"
      "read_latest (latest (result_files w)) = JObj (fput ''b'' ?b [])"
    using concurrent_records_lose_a_result [OF sample_records, of "''b''" "[]" 8192] by blast
  moreover have "map_of (fput ''b'' ?b []) ''a'' = None" by simp
  ultimately show ?thesis by blast
qed

end
